(* ===== verification/Prelude.thy ===== *)
theory Prelude
  imports Main "HOL-Library.Word" "HOL-Library.Char_ord" "HOL-Library.List_Lexorder"
begin

text \<open>
  The vocabulary every component shares: Go's machine integers as 64-bit words, Go strings as
  lists of bytes with \<open>strings.TrimSpace\<close>, \<open>time.Time\<close> as an instant with a location,
  \<open>netip.ParseAddr\<close> restricted to what the code asks of it, results as sums with the error on
  the left, and the generic lemmas on them.
\<close>

section \<open>Collections of facts\<close>

text \<open>
  \<open>go_time\<close> unfolds comparisons of times, \<open>go_eval\<close> holds the facts that evaluate concrete
  inputs.
\<close>

named_theorems go_time
named_theorems go_eval

section \<open>Machine integers\<close>

text \<open>
  A Go \<open>int64\<close> (and \<open>int\<close>, which has 64 bits on the supported platforms) is a 64-bit word read
  by \<open>sint\<close>; a \<open>uint64\<close> is a 64-bit word read by \<open>unat\<close>.  Addition wraps.
\<close>

type_synonym int64 = "64 word"
type_synonym uint64 = "64 word"

definition max_int64 :: int64 where
  "max_int64 = 9223372036854775807"

definition min_int64 :: int64 where
  "min_int64 = 9223372036854775808"

lemma sint_max_int64: "sint max_int64 = 9223372036854775807"
  by (simp add: max_int64_def)

lemma sint_min_int64: "sint min_int64 = - 9223372036854775808"
  by (simp add: min_int64_def)

lemma sint_int64_bounds:
  "- 9223372036854775808 \<le> sint (v :: int64)" "sint (v :: int64) \<le> 9223372036854775807"
  using sint_ge [of v] sint_lt [of v] by simp_all

lemma sint_int64_eq_iff: "sint (v :: int64) = sint w \<longleftrightarrow> v = w"
  by (rule signed_word_eqI [of v w, THEN iffI]) simp_all

lemma sint_eq_max_iff: "sint (v :: int64) = 9223372036854775807 \<longleftrightarrow> v = max_int64"
  using sint_int64_eq_iff [of v max_int64] by (simp add: sint_max_int64)

lemma sint_add_exact:
  assumes "- 9223372036854775808 \<le> sint (v :: int64) + sint w"
    and "sint v + sint w \<le> 9223372036854775807"
  shows "sint (v + w) = sint v + sint w"
proof -
  have "sint (v + w) = signed_take_bit 63 (sint v + sint w)"
    by (simp add: sint_word_add)
  also have "\<dots> = sint v + sint w"
    using assms by (intro signed_take_bit_int_eq_self) simp_all
  finally show ?thesis .
qed

lemma sint_succ:
  assumes "(v :: int64) \<noteq> max_int64"
  shows "sint (v + 1) = sint v + 1"
proof -
  have "sint v \<noteq> 9223372036854775807"
    using assms by (simp add: sint_eq_max_iff)
  with sint_int64_bounds [of v] have "sint v + sint (1 :: int64) \<le> 9223372036854775807"
    by simp
  moreover have "- 9223372036854775808 \<le> sint v + sint (1 :: int64)"
    using sint_int64_bounds(1) [of v] by simp
  ultimately have "sint (v + 1) = sint v + sint (1 :: int64)"
    by (intro sint_add_exact)
  then show ?thesis by simp
qed

lemma sint_succ_max: "sint (max_int64 + 1) = - 9223372036854775808"
  by (simp add: max_int64_def)

lemma unat_succ:
  "unat (v :: uint64) < 18446744073709551615 \<Longrightarrow> unat (v + 1) = unat v + 1"
  by (simp add: unat_word_ariths)

section \<open>Strings\<close>

text \<open>
  A Go string is a sequence of bytes; a byte is a \<open>char\<close>.  \<open>[]byte\<close> values whose identity
  does not matter are strings as well.
\<close>

type_synonym bytes = string

text \<open>
  \<open>strings.TrimSpace\<close> removes leading and trailing runes that \<open>unicode.IsSpace\<close> accepts.
  Their UTF-8 encodings are listed; an encoding at the front (or the back) of the bytes is decoded
  as that rune, whatever surrounds it, so removing encodings removes exactly those runes.
\<close>

definition space_runes :: "bytes list" where
  "space_runes =
     [[CHR 0x09], [CHR 0x0A], [CHR 0x0B], [CHR 0x0C], [CHR 0x0D], [CHR 0x20],
      [CHR 0xC2, CHR 0x85], [CHR 0xC2, CHR 0xA0], [CHR 0xE1, CHR 0x9A, CHR 0x80],
      [CHR 0xE2, CHR 0x80, CHR 0xA8], [CHR 0xE2, CHR 0x80, CHR 0xA9],
      [CHR 0xE2, CHR 0x80, CHR 0xAF], [CHR 0xE2, CHR 0x81, CHR 0x9F],
      [CHR 0xE3, CHR 0x80, CHR 0x80]]
     @ map (\<lambda>c. [CHR 0xE2, CHR 0x80, c])
         [CHR 0x80, CHR 0x81, CHR 0x82, CHR 0x83, CHR 0x84, CHR 0x85, CHR 0x86, CHR 0x87,
          CHR 0x88, CHR 0x89, CHR 0x8A]"

fun strip_prefix :: "bytes \<Rightarrow> bytes \<Rightarrow> bytes option" where
  "strip_prefix [] s = Some s"
| "strip_prefix (p # ps) [] = None"
| "strip_prefix (p # ps) (c # s) = (if p = c then strip_prefix ps s else None)"

lemma strip_prefix_Some_iff: "strip_prefix p s = Some t \<longleftrightarrow> s = p @ t"
  by (induction p s rule: strip_prefix.induct) auto

fun strip_any :: "bytes list \<Rightarrow> bytes \<Rightarrow> bytes option" where
  "strip_any [] s = None"
| "strip_any (r # rs) s = (case strip_prefix r s of Some t \<Rightarrow> Some t | None \<Rightarrow> strip_any rs s)"

lemma strip_any_Some: "strip_any rs s = Some t \<Longrightarrow> \<exists>r \<in> set rs. s = r @ t"
  by (induction rs) (auto split: option.splits simp: strip_prefix_Some_iff)

lemma strip_prefix_None_iff: "strip_prefix p s = None \<longleftrightarrow> (\<forall>t. s \<noteq> p @ t)"
  by (induction p s rule: strip_prefix.induct) auto

lemma strip_any_None: "strip_any rs s = None \<longleftrightarrow> (\<forall>r \<in> set rs. \<forall>t. s \<noteq> r @ t)"
proof (induction rs)
  case (Cons r rs)
  then show ?case
    using strip_prefix_None_iff [of r s] strip_prefix_Some_iff [of r s]
    by (cases "strip_prefix r s") auto
qed simp

text \<open>
  The loop that strips one rune after another: each round removes at least one byte, so the length
  of the string is enough rounds (lemma \<open>strip_runes_done\<close>).
\<close>

fun strip_runes :: "nat \<Rightarrow> bytes list \<Rightarrow> bytes \<Rightarrow> bytes" where
  "strip_runes 0 rs s = s"
| "strip_runes (Suc n) rs s = (case strip_any rs s of None \<Rightarrow> s | Some t \<Rightarrow> strip_runes n rs t)"

lemma strip_runes_done:
  assumes "[] \<notin> set rs" and "length s \<le> n"
  shows "strip_any rs (strip_runes n rs s) = None"
  using assms(2)
proof (induction n arbitrary: s)
  case 0
  then show ?case using assms(1) by (auto simp: strip_any_None)
next
  case (Suc n)
  show ?case
  proof (cases "strip_any rs s")
    case None
    then show ?thesis by simp
  next
    case (Some t)
    then obtain r where "r \<in> set rs" "s = r @ t" using strip_any_Some by blast
    with assms(1) Suc.prems have "length t \<le> n" by (cases r) auto
    with Some Suc.IH show ?thesis by simp
  qed
qed

lemma strip_runes_stable: "strip_any rs s = None \<Longrightarrow> strip_runes n rs s = s"
  by (cases n) simp_all

definition trim_left :: "bytes \<Rightarrow> bytes" where
  "trim_left s = strip_runes (length s) space_runes s"

definition trim_right :: "bytes \<Rightarrow> bytes" where
  "trim_right s = rev (strip_runes (length s) (map rev space_runes) (rev s))"

definition trim_space :: "bytes \<Rightarrow> bytes" where
  "trim_space s = trim_right (trim_left s)"

lemma strip_runes_Nil [simp]: "[] \<notin> set rs \<Longrightarrow> strip_runes n rs [] = []"
  by (rule strip_runes_stable) (auto simp: strip_any_None)

lemma space_runes_nonempty [simp]: "[] \<notin> set space_runes"
  by (simp add: space_runes_def)

lemma trim_space_Nil [simp]: "trim_space [] = []"
  by (simp add: trim_space_def trim_left_def trim_right_def)

text \<open>
  The two tests the code makes of identities: \<open>blank\<close> for \<open>strings.TrimSpace(v) == ""\<close> and
  \<open>untrimmed\<close> for \<open>v != strings.TrimSpace(v)\<close>.
\<close>

definition blank :: "bytes \<Rightarrow> bool" where
  "blank v \<longleftrightarrow> trim_space v = []"

definition untrimmed :: "bytes \<Rightarrow> bool" where
  "untrimmed v \<longleftrightarrow> v \<noteq> trim_space v"

lemma blank_Nil [simp]: "blank []"
  by (simp add: blank_def)

lemma not_blank_nonempty: "\<not> blank v \<Longrightarrow> v \<noteq> []"
  by (auto simp: blank_def)

lemma blank_trimmed_iff: "\<not> untrimmed v \<Longrightarrow> blank v \<longleftrightarrow> v = []"
  by (simp add: untrimmed_def blank_def)

lemma untrimmed_Nil [simp]: "\<not> untrimmed []"
  by (simp add: untrimmed_def)

text \<open>
  Bytes between \<open>!\<close> and DEL belong to no space rune: a string that starts and ends with such
  bytes is its own trimming.  The bits of a byte are listed from the least significant one.
\<close>

fun graphic :: "char \<Rightarrow> bool" where
  "graphic (Char b0 b1 b2 b3 b4 b5 b6 b7) \<longleftrightarrow>
     \<not> b7 \<and> (b6 \<or> b5 \<and> (b0 \<or> b1 \<or> b2 \<or> b3 \<or> b4))"

lemma space_runes_not_graphic:
  "\<forall>r \<in> set space_runes. r \<noteq> [] \<and> \<not> graphic (hd r) \<and> \<not> graphic (last r)"
  by (simp add: space_runes_def)

lemma strip_any_graphic:
  assumes "\<forall>r \<in> set rs. r \<noteq> [] \<and> \<not> graphic (hd r)" and "graphic (hd s)" and "s \<noteq> []"
  shows "strip_any rs s = None"
  unfolding strip_any_None using assms by (metis hd_append2)

lemma trim_left_graphic:
  assumes "graphic (hd s)" and "s \<noteq> []"
  shows "trim_left s = s"
  unfolding trim_left_def using assms space_runes_not_graphic
  by (intro strip_runes_stable strip_any_graphic) auto

lemma trim_right_graphic:
  assumes "graphic (last s)" and "s \<noteq> []"
  shows "trim_right s = s"
proof -
  have "\<forall>r \<in> set (map rev space_runes). r \<noteq> [] \<and> \<not> graphic (hd r)"
    using space_runes_not_graphic by (auto simp: hd_rev)
  then have "strip_any (map rev space_runes) (rev s) = None"
    using assms by (intro strip_any_graphic) (auto simp: hd_rev)
  then show ?thesis by (simp add: trim_right_def strip_runes_stable)
qed

lemma trim_space_graphic [simp]:
  assumes "graphic c" and "graphic (last (c # s))"
  shows "trim_space (c # s) = c # s"
  using assms by (simp add: trim_space_def trim_left_graphic trim_right_graphic del: last.simps)

lemma blank_graphic [simp]: "graphic c \<Longrightarrow> graphic (last (c # s)) \<Longrightarrow> \<not> blank (c # s)"
  by (simp add: blank_def del: last.simps)

lemma untrimmed_graphic [simp]: "graphic c \<Longrightarrow> graphic (last (c # s)) \<Longrightarrow> \<not> untrimmed (c # s)"
  by (simp add: untrimmed_def del: last.simps)

text \<open>
  The loops over a table of named values that stop at the first value that fails a test and report
  its name.
\<close>

fun first_name :: "('a \<Rightarrow> bool) \<Rightarrow> (string \<times> 'a) list \<Rightarrow> string option" where
  "first_name bad [] = None"
| "first_name bad ((name, val) # rest) = (if bad val then Some name else first_name bad rest)"

lemma first_name_None_iff: "first_name bad xs = None \<longleftrightarrow> (\<forall>(name, val) \<in> set xs. \<not> bad val)"
  by (induction bad xs rule: first_name.induct) auto

lemma in_map_filter_iff: "y \<in> set (List.map_filter f xs) \<longleftrightarrow> (\<exists>x \<in> set xs. f x = Some y)"
  by (induction xs) (auto simp: map_filter_simps split: option.splits)

section \<open>Times\<close>

text \<open>
  A \<open>time.Time\<close> is an instant, in nanoseconds since Go's zero time, with the location it is
  presented in.  Monotonic clock readings are left out: the values the domain stores come from the
  database, from JSON or from a journal, which drop them, so \<open>Round(0)\<close>, whose only effect is
  to strip a monotonic reading, is the identity here.
\<close>

datatype location = UTC | Zone string

record gotime =
  wall :: int
  loc :: location

definition zero_time :: gotime where
  "zero_time = \<lparr>wall = 0, loc = UTC\<rparr>"

definition is_zero :: "gotime \<Rightarrow> bool" where
  [go_time]: "is_zero t \<longleftrightarrow> wall t = 0"

definition before :: "gotime \<Rightarrow> gotime \<Rightarrow> bool" where
  [go_time]: "before t u \<longleftrightarrow> wall t < wall u"

definition after :: "gotime \<Rightarrow> gotime \<Rightarrow> bool" where
  [go_time]: "after t u \<longleftrightarrow> wall u < wall t"

definition same_instant :: "gotime \<Rightarrow> gotime \<Rightarrow> bool" where
  [go_time]: "same_instant t u \<longleftrightarrow> wall t = wall u"

definition utc :: "gotime \<Rightarrow> gotime" where
  "utc t = t\<lparr>loc := UTC\<rparr>"

lemma wall_utc [simp]: "wall (utc t) = wall t"
  by (simp add: utc_def)

lemma utc_idem [simp]: "utc (utc t) = utc t"
  by (simp add: utc_def)

lemma before_utc [simp]: "before (utc t) u = before t u" "before t (utc u) = before t u"
  by (simp_all add: go_time)

lemma after_utc [simp]: "after (utc t) u = after t u" "after t (utc u) = after t u"
  by (simp_all add: go_time)

lemma is_zero_utc [simp]: "is_zero (utc t) = is_zero t"
  by (simp add: go_time)

lemma same_instant_utc [simp]:
  "same_instant (utc t) u = same_instant t u" "same_instant t (utc u) = same_instant t u"
  by (simp_all add: go_time)

lemma before_irrefl [simp]: "\<not> before t t"
  by (simp add: go_time)

lemma not_before_trans: "\<not> before b a \<Longrightarrow> \<not> before c b \<Longrightarrow> \<not> before c a"
  by (simp add: go_time)

text \<open>A \<open>time.Duration\<close> is a signed 64-bit count of nanoseconds; \<open>Sub\<close> saturates.\<close>

definition time_add :: "gotime \<Rightarrow> int64 \<Rightarrow> gotime" where
  "time_add t d = t\<lparr>wall := wall t + sint d\<rparr>"

definition time_sub :: "gotime \<Rightarrow> gotime \<Rightarrow> int64" where
  "time_sub t u =
     (let d = wall t - wall u
      in if d > 9223372036854775807 then max_int64
         else if d < - 9223372036854775808 then min_int64
         else word_of_int d)"

definition nanoseconds_per_second :: int where
  "nanoseconds_per_second = 1000000000"

section \<open>Private IPv4 addresses\<close>

text \<open>
  \<open>netip.ParseAddr(s)\<close> followed by \<open>Is4\<close>: a string with a colon before any dot is parsed as
  IPv6 and is never \<open>Is4\<close>, every other string is parsed as four decimal octets.  The loop of
  \<open>parseIPv4Fields\<close> over the bytes keeps the octets read so far, the value and the number of
  digits of the current one; it refuses leading zeros, values over 255, empty octets and a fifth
  octet.
\<close>

definition is_digit :: "char \<Rightarrow> bool" where
  "is_digit c \<longleftrightarrow> c \<in> set ''0123456789''"

definition digit_value :: "char \<Rightarrow> nat" where
  "digit_value c = length (takeWhile (\<lambda>d. d \<noteq> c) ''0123456789'')"

fun ipv4_fields :: "nat list \<Rightarrow> nat \<Rightarrow> nat \<Rightarrow> bytes \<Rightarrow> nat list option" where
  "ipv4_fields fs val digs [] =
     (if digs = 0 \<or> length fs < 3 then None else Some (fs @ [val]))"
| "ipv4_fields fs val digs (c # cs) =
     (if is_digit c
      then if digs = 1 \<and> val = 0 then None
           else let v = val * 10 + digit_value c
                in if v > 255 then None else ipv4_fields fs v (Suc digs) cs
      else if c = CHR ''.''
      then if digs = 0 \<or> length fs = 3 then None else ipv4_fields (fs @ [val]) 0 0 cs
      else None)"

definition parse_ipv4 :: "bytes \<Rightarrow> nat list option" where
  "parse_ipv4 s = ipv4_fields [] 0 0 s"

text \<open>\<open>IsPrivate\<close> on an IPv4 address: 10/8, 172.16/12 and 192.168/16 (RFC 1918).\<close>

fun octets_private :: "nat list \<Rightarrow> bool" where
  "octets_private [a, b, c, d] \<longleftrightarrow>
     a = 10 \<or> a = 172 \<and> 16 \<le> b \<and> b < 32 \<or> a = 192 \<and> b = 168"
| "octets_private _ \<longleftrightarrow> False"

definition private_ipv4 :: "bytes \<Rightarrow> bool" where
  "private_ipv4 s = (case parse_ipv4 s of None \<Rightarrow> False | Some os \<Rightarrow> octets_private os)"

lemma private_ipv4_nonempty: "private_ipv4 s \<Longrightarrow> s \<noteq> []"
  by (auto simp: private_ipv4_def parse_ipv4_def)

lemma is_digit_graphic: "is_digit c \<Longrightarrow> graphic c"
  by (auto simp: is_digit_def)

lemma ipv4_fields_graphic:
  "ipv4_fields fs val digs s = Some os \<Longrightarrow> c \<in> set s \<Longrightarrow> graphic c"
  by (induction fs val digs s rule: ipv4_fields.induct)
    (auto simp: Let_def is_digit_graphic split: if_splits)

lemma private_ipv4_not_blank:
  assumes "private_ipv4 s"
  shows "\<not> blank s"
proof -
  obtain c t where s: "s = c # t"
    using private_ipv4_nonempty [OF assms] by (cases s) auto
  have "graphic d" if "d \<in> set s" for d
    using assms that ipv4_fields_graphic
    by (auto simp: private_ipv4_def parse_ipv4_def split: option.splits)
  then have "graphic c" and "graphic (last (c # t))"
    using last_in_set [of "c # t"] unfolding s by auto
  then show ?thesis unfolding s by (rule blank_graphic)
qed

section \<open>Printed numbers\<close>

text \<open>\<open>fmt\<close>'s \<open>%d\<close> of an unsigned integer.\<close>

fun decimal_digits :: "nat \<Rightarrow> string" where
  "decimal_digits n =
     (if n < 10 then [''0123456789'' ! n]
      else decimal_digits (n div 10) @ [''0123456789'' ! (n mod 10)])"

declare decimal_digits.simps [simp del]

section \<open>Splitting\<close>

text \<open>\<open>strings.Split\<close> at a byte, and \<open>strings.Join\<close>.\<close>

fun split_on :: "char \<Rightarrow> bytes \<Rightarrow> bytes list" where
  "split_on c [] = [[]]"
| "split_on c (d # s) =
     (if d = c then [] # split_on c s
      else case split_on c s of [] \<Rightarrow> [[d]] | p # ps \<Rightarrow> (d # p) # ps)"

lemma split_on_nonempty [simp]: "split_on c s \<noteq> []"
  by (induction s) (auto split: list.splits)

lemma split_on_single_iff: "split_on c s = [p] \<longleftrightarrow> p = s \<and> c \<notin> set s"
proof (induction s arbitrary: p)
  case (Cons d s)
  obtain p' ps where split: "split_on c s = p' # ps"
    by (cases "split_on c s") auto
  show ?case
    using Cons.IH [of p'] Cons.IH [of s] split by auto
qed auto

lemma split_on_pair_iff:
  "split_on c s = [p, q] \<longleftrightarrow> s = p @ c # q \<and> c \<notin> set p \<and> c \<notin> set q"
proof (induction s arbitrary: p)
  case (Cons d s)
  show ?case
  proof (cases "d = c")
    case True
    then show ?thesis by (cases p) (auto simp: split_on_single_iff)
  next
    case False
    obtain p' ps where split: "split_on c s = p' # ps"
      by (cases "split_on c s") auto
    show ?thesis
      using False Cons.IH split by (cases p) auto
  qed
qed auto

fun join_with :: "char \<Rightarrow> bytes list \<Rightarrow> bytes" where
  "join_with c [] = []"
| "join_with c [s] = s"
| "join_with c (s # t # ts) = s @ c # join_with c (t # ts)"

lemma join_with_Cons: "ts \<noteq> [] \<Longrightarrow> join_with c (s # ts) = s @ c # join_with c ts"
  by (cases ts) simp_all

lemma join_split [simp]: "join_with c (split_on c s) = s"
proof (induction s)
  case (Cons d s)
  obtain p ps where split: "split_on c s = p # ps" by (cases "split_on c s") auto
  with Cons.IH show ?case by (cases ps) (simp_all add: join_with_Cons)
qed simp

lemma split_on_append: "c \<notin> set s \<Longrightarrow> split_on c (s @ c # t) = s # split_on c t"
  by (induction s) auto

lemma split_on_none: "c \<notin> set s \<Longrightarrow> split_on c s = [s]"
  by (simp add: split_on_single_iff)

lemma split_join: "ts \<noteq> [] \<Longrightarrow> \<forall>t \<in> set ts. c \<notin> set t \<Longrightarrow> split_on c (join_with c ts) = ts"
  by (induction c ts rule: join_with.induct) (simp_all add: split_on_append split_on_none)

lemma split_on_separator_free: "t \<in> set (split_on c s) \<Longrightarrow> c \<notin> set t"
  by (induction s arbitrary: t) (auto split: if_splits list.splits)

end
