(* ===== verification/Operations.thy ===== *)
theory Operations
  imports Prelude
begin

text \<open>
  The Operation aggregate of \<open>libs/domain/operation.go\<close>: the record of a user-visible durable
  mutation.  The private \<open>snapshot\<close> field is the whole state of an \<open>Operation\<close>, so an Operation
  is its snapshot; cloning (\<open>Snapshot()\<close>) is the identity on values.  The theorems give the
  lifecycle of the status, the invariant of every Operation the aggregate can produce, and that
  such an Operation survives being stored and restored.
\<close>

section \<open>Data\<close>

text \<open>The last constructor of each enumeration stands for every other string.\<close>

datatype operation_type =
    OperationEnvironmentCreate
  | OperationEnvironmentUpdateAutoStop
  | OperationRuntimeStart
  | OperationRuntimeStop
  | OperationRuntimeReplace
  | OperationProfileApply
  | OperationProfileResolve
  | OperationOtherType string

fun operation_type_string :: "operation_type \<Rightarrow> string" where
  "operation_type_string OperationEnvironmentCreate = ''environment.create''"
| "operation_type_string OperationEnvironmentUpdateAutoStop = ''environment.update_auto_stop''"
| "operation_type_string OperationRuntimeStart = ''runtime.start''"
| "operation_type_string OperationRuntimeStop = ''runtime.stop''"
| "operation_type_string OperationRuntimeReplace = ''runtime.replace''"
| "operation_type_string OperationProfileApply = ''profile.apply''"
| "operation_type_string OperationProfileResolve = ''profile.resolve''"
| "operation_type_string (OperationOtherType s) = s"

datatype operation_status =
    OperationQueued
  | OperationRunning
  | OperationSucceeded
  | OperationFailed
  | OperationCancelled
  | OperationBlocked
  | OperationOtherStatus string

record operation_request =
  req_ID :: string
  req_EnvironmentID :: string
  req_Type :: operation_type
  req_RequestedByUserID :: string
  req_IdempotencyKey :: string
  req_Input :: bytes
  req_CreatedAt :: gotime

record operation_snapshot =
  op_ID :: string
  op_EnvironmentID :: string
  op_Type :: operation_type
  op_Status :: operation_status
  op_RequestedByUserID :: string
  op_IdempotencyKey :: string
  op_RestateInvocationID :: "string option"
  op_Input :: bytes
  op_CreatedAt :: gotime
  op_CompletedAt :: "gotime option"

type_synonym operation = operation_snapshot

datatype operation_error =
    QueueFieldRequired string
  | QueueInputRequired
  | QueueCreationTimeRequired
  | RestoreUnknownStatus operation_status
  | RestoreCompletionTimeRequired
  | RestoreInvocationRequired
  | RestoreIncompleteHasCompletionTime
  | RestoreQueue operation_error
  | RestoreInvocationEmpty
  | RestoreCompletionPrecedesCreation
  | RecordInvocationRequired
  | RecordOtherInvocation
  | StartStatus operation_status
  | StartPrecedesCreation
  | SucceedStatus operation_status
  | SucceedInvocationRequired
  | SucceedPrecedesCreation
  | SyncRequiresWorkflow operation_type
  | SyncStatus operation_status
  | SyncInvocationPresent
  | SyncPrecedesCreation

section \<open>Operations of the aggregate\<close>

fun terminal :: "operation_status \<Rightarrow> bool" where
  "terminal OperationSucceeded = True"
| "terminal OperationFailed = True"
| "terminal OperationCancelled = True"
| "terminal OperationBlocked = True"
| "terminal _ = False"

definition queue_required :: "operation_request \<Rightarrow> (string \<times> string) list" where
  "queue_required request =
     [(''ID'', req_ID request),
      (''Environment ID'', req_EnvironmentID request),
      (''type'', operation_type_string (req_Type request)),
      (''requesting User ID'', req_RequestedByUserID request),
      (''idempotency key'', req_IdempotencyKey request)]"

definition QueueOperation :: "operation_request \<Rightarrow> operation_error + operation" where
  "QueueOperation request =
     (case first_name (\<lambda>val. val = []) (queue_required request) of
        Some name \<Rightarrow> Inl (QueueFieldRequired name)
      | None \<Rightarrow>
          if req_Input request = [] then Inl QueueInputRequired
          else if is_zero (req_CreatedAt request) then Inl QueueCreationTimeRequired
          else Inr \<lparr>op_ID = req_ID request,
                    op_EnvironmentID = req_EnvironmentID request,
                    op_Type = req_Type request,
                    op_Status = OperationQueued,
                    op_RequestedByUserID = req_RequestedByUserID request,
                    op_IdempotencyKey = req_IdempotencyKey request,
                    op_RestateInvocationID = None,
                    op_Input = req_Input request,
                    op_CreatedAt = req_CreatedAt request,
                    op_CompletedAt = None\<rparr>)"

definition request_of :: "operation_snapshot \<Rightarrow> operation_request" where
  "request_of snapshot =
     \<lparr>req_ID = op_ID snapshot, req_EnvironmentID = op_EnvironmentID snapshot,
      req_Type = op_Type snapshot, req_RequestedByUserID = op_RequestedByUserID snapshot,
      req_IdempotencyKey = op_IdempotencyKey snapshot, req_Input = op_Input snapshot,
      req_CreatedAt = op_CreatedAt snapshot\<rparr>"

definition RestoreOperation :: "operation_snapshot \<Rightarrow> operation_error + operation" where
  "RestoreOperation snapshot =
     (let status = op_Status snapshot in
      if status \<noteq> OperationQueued \<and> status \<noteq> OperationRunning \<and> \<not> terminal status
      then Inl (RestoreUnknownStatus status)
      else if terminal status \<and> op_CompletedAt snapshot = None
      then Inl RestoreCompletionTimeRequired
      else if status = OperationSucceeded \<and> op_RestateInvocationID snapshot = None
              \<and> op_Type snapshot \<noteq> OperationEnvironmentUpdateAutoStop
      then Inl RestoreInvocationRequired
      else if \<not> terminal status \<and> op_CompletedAt snapshot \<noteq> None
      then Inl RestoreIncompleteHasCompletionTime
      else case QueueOperation (request_of snapshot) of
        Inl err \<Rightarrow> Inl (RestoreQueue err)
      | Inr queued0 \<Rightarrow>
          let queued = queued0\<lparr>op_Status := status\<rparr> in
          if op_RestateInvocationID snapshot = Some [] then Inl RestoreInvocationEmpty
          else
            let recorded = queued\<lparr>op_RestateInvocationID := op_RestateInvocationID snapshot\<rparr> in
            case op_CompletedAt snapshot of
              None \<Rightarrow> Inr recorded
            | Some completedAt \<Rightarrow>
                if before completedAt (op_CreatedAt snapshot)
                then Inl RestoreCompletionPrecedesCreation
                else Inr (recorded\<lparr>op_CompletedAt := Some completedAt\<rparr>))"

definition RecordRestateInvocation :: "operation \<Rightarrow> string \<Rightarrow> operation_error + operation" where
  "RecordRestateInvocation operation invocationID =
     (if invocationID = [] then Inl RecordInvocationRequired
      else case op_RestateInvocationID operation of
        Some recorded \<Rightarrow>
          if recorded = invocationID then Inr operation else Inl RecordOtherInvocation
      | None \<Rightarrow> Inr (operation\<lparr>op_RestateInvocationID := Some invocationID\<rparr>))"

definition Start :: "operation \<Rightarrow> gotime \<Rightarrow> operation_error + operation" where
  "Start operation at =
     (if op_Status operation = OperationRunning then Inr operation
      else if op_Status operation \<noteq> OperationQueued then Inl (StartStatus (op_Status operation))
      else if before at (op_CreatedAt operation) then Inl StartPrecedesCreation
      else Inr (operation\<lparr>op_Status := OperationRunning\<rparr>))"

definition Succeed :: "operation \<Rightarrow> gotime \<Rightarrow> operation_error + operation" where
  "Succeed operation at =
     (if op_Status operation = OperationSucceeded then Inr operation
      else if op_Status operation \<noteq> OperationRunning
      then Inl (SucceedStatus (op_Status operation))
      else if op_RestateInvocationID operation = None then Inl SucceedInvocationRequired
      else if before at (op_CreatedAt operation) then Inl SucceedPrecedesCreation
      else Inr (operation\<lparr>op_Status := OperationSucceeded, op_CompletedAt := Some at\<rparr>))"

definition SucceedSynchronously :: "operation \<Rightarrow> gotime \<Rightarrow> operation_error + operation" where
  "SucceedSynchronously operation at =
     (if op_Status operation = OperationSucceeded
         \<and> op_Type operation = OperationEnvironmentUpdateAutoStop
         \<and> op_RestateInvocationID operation = None
      then Inr operation
      else if op_Type operation \<noteq> OperationEnvironmentUpdateAutoStop
      then Inl (SyncRequiresWorkflow (op_Type operation))
      else if op_Status operation \<noteq> OperationQueued
      then Inl (SyncStatus (op_Status operation))
      else if op_RestateInvocationID operation \<noteq> None then Inl SyncInvocationPresent
      else if before at (op_CreatedAt operation) then Inl SyncPrecedesCreation
      else Inr (operation\<lparr>op_Status := OperationSucceeded, op_CompletedAt := Some at\<rparr>))"

lemmas operation_defs = RecordRestateInvocation_def Start_def Succeed_def SucceedSynchronously_def

section \<open>The invariant\<close>

text \<open>
  What \<open>RestoreOperation\<close> asks of a snapshot, as one predicate: the identifying fields are
  present, the status is known, and the completion time and the invocation fit the status.
\<close>

definition operation_wf :: "operation \<Rightarrow> bool" where
  "operation_wf operation \<longleftrightarrow>
     op_ID operation \<noteq> [] \<and> op_EnvironmentID operation \<noteq> []
     \<and> operation_type_string (op_Type operation) \<noteq> []
     \<and> op_RequestedByUserID operation \<noteq> [] \<and> op_IdempotencyKey operation \<noteq> []
     \<and> op_Input operation \<noteq> [] \<and> \<not> is_zero (op_CreatedAt operation)
     \<and> op_RestateInvocationID operation \<noteq> Some []
     \<and> (op_Status operation = OperationQueued \<or> op_Status operation = OperationRunning
        \<or> terminal (op_Status operation))
     \<and> (terminal (op_Status operation) \<longleftrightarrow> op_CompletedAt operation \<noteq> None)
     \<and> (op_Status operation = OperationSucceeded \<longrightarrow>
          op_RestateInvocationID operation \<noteq> None
          \<or> op_Type operation = OperationEnvironmentUpdateAutoStop)
     \<and> (\<forall>at. op_CompletedAt operation = Some at \<longrightarrow> \<not> before at (op_CreatedAt operation))"

lemma QueueOperation_Inr_iff:
  "QueueOperation request = Inr operation \<longleftrightarrow>
     (\<forall>(name, val) \<in> set (queue_required request). val \<noteq> [])
     \<and> req_Input request \<noteq> [] \<and> \<not> is_zero (req_CreatedAt request)
     \<and> operation = \<lparr>op_ID = req_ID request, op_EnvironmentID = req_EnvironmentID request,
          op_Type = req_Type request, op_Status = OperationQueued,
          op_RequestedByUserID = req_RequestedByUserID request,
          op_IdempotencyKey = req_IdempotencyKey request, op_RestateInvocationID = None,
          op_Input = req_Input request, op_CreatedAt = req_CreatedAt request,
          op_CompletedAt = None\<rparr>"
  by (auto simp: QueueOperation_def queue_required_def split: if_splits)

lemma QueueOperation_wf: "QueueOperation request = Inr operation \<Longrightarrow> operation_wf operation"
  by (auto simp: QueueOperation_Inr_iff queue_required_def operation_wf_def)

lemma RecordRestateInvocation_wf:
  "operation_wf operation \<Longrightarrow> RecordRestateInvocation operation i = Inr next \<Longrightarrow> operation_wf next"
  by (auto simp: operation_wf_def RecordRestateInvocation_def split: if_splits option.splits)

lemma Start_wf: "operation_wf operation \<Longrightarrow> Start operation at = Inr next \<Longrightarrow> operation_wf next"
  by (auto simp: operation_wf_def Start_def split: if_splits)

lemma Succeed_wf: "operation_wf operation \<Longrightarrow> Succeed operation at = Inr next \<Longrightarrow> operation_wf next"
  by (auto simp: operation_wf_def Succeed_def split: if_splits)

lemma SucceedSynchronously_wf:
  "operation_wf operation \<Longrightarrow> SucceedSynchronously operation at = Inr next \<Longrightarrow> operation_wf next"
  by (auto simp: operation_wf_def SucceedSynchronously_def split: if_splits)

lemma QueueOperation_request_of:
  "QueueOperation (request_of snapshot) =
     (if op_ID snapshot = [] then Inl (QueueFieldRequired ''ID'')
      else if op_EnvironmentID snapshot = [] then Inl (QueueFieldRequired ''Environment ID'')
      else if operation_type_string (op_Type snapshot) = [] then Inl (QueueFieldRequired ''type'')
      else if op_RequestedByUserID snapshot = []
      then Inl (QueueFieldRequired ''requesting User ID'')
      else if op_IdempotencyKey snapshot = [] then Inl (QueueFieldRequired ''idempotency key'')
      else if op_Input snapshot = [] then Inl QueueInputRequired
      else if is_zero (op_CreatedAt snapshot) then Inl QueueCreationTimeRequired
      else Inr (snapshot\<lparr>op_Status := OperationQueued, op_RestateInvocationID := None,
                         op_CompletedAt := None\<rparr>))"
  by (simp add: QueueOperation_def queue_required_def request_of_def)

lemma RestoreOperation_Inr_iff:
  "RestoreOperation snapshot = Inr operation \<longleftrightarrow> operation_wf snapshot \<and> operation = snapshot"
proof -
  have "RestoreOperation snapshot = (if operation_wf snapshot then Inr snapshot
      else RestoreOperation snapshot)" and
    "RestoreOperation snapshot = Inr operation \<Longrightarrow> operation_wf snapshot"
    by (auto simp: RestoreOperation_def operation_wf_def QueueOperation_request_of Let_def
        split: if_splits option.splits)
  then show ?thesis by (metis sum.inject(2))
qed

section \<open>The lifecycle as a state machine\<close>

text \<open>One successful call of a transition, and the Operations a program can hold.\<close>

inductive operation_step :: "operation \<Rightarrow> operation \<Rightarrow> bool" where
  record_invocation: "RecordRestateInvocation operation i = Inr next \<Longrightarrow> operation_step operation next"
| start: "Start operation at = Inr next \<Longrightarrow> operation_step operation next"
| succeed: "Succeed operation at = Inr next \<Longrightarrow> operation_step operation next"
| succeed_sync: "SucceedSynchronously operation at = Inr next \<Longrightarrow> operation_step operation next"

inductive operation_reachable :: "operation \<Rightarrow> bool" where
  queued: "QueueOperation request = Inr operation \<Longrightarrow> operation_reachable operation"
| restored: "RestoreOperation snapshot = Inr operation \<Longrightarrow> operation_reachable operation"
| stepped: "operation_reachable operation \<Longrightarrow> operation_step operation next
     \<Longrightarrow> operation_reachable next"

lemmas operation_step_wf = RecordRestateInvocation_wf Start_wf Succeed_wf SucceedSynchronously_wf

lemma operation_step_keeps_wf:
  "operation_step operation next \<Longrightarrow> operation_wf operation \<Longrightarrow> operation_wf next"
  by (induction rule: operation_step.induct) (blast intro: operation_step_wf)+

lemma operation_reachable_wf: "operation_reachable operation \<Longrightarrow> operation_wf operation"
  by (induction rule: operation_reachable.induct)
    (auto simp: RestoreOperation_Inr_iff intro: QueueOperation_wf operation_step_keeps_wf)

text \<open>
  Every Operation a program can hold (queued from a request, restored from storage, or obtained
  from such an Operation by recording an invocation, starting or succeeding it) is accepted by
  \<open>RestoreOperation\<close> and comes back unchanged: storing the snapshot and restoring it loses nothing.
\<close>

lemma operation_restore_roundtrip:
  assumes "operation_reachable operation"
  shows "RestoreOperation operation = Inr operation"
  using operation_reachable_wf [OF assms] by (simp add: RestoreOperation_Inr_iff)

text \<open>A concrete request and the Operation it leads to, for the witnesses.\<close>

definition sample_request :: operation_request where
  "sample_request =
     \<lparr>req_ID = ''op-1'', req_EnvironmentID = ''env-1'', req_Type = OperationRuntimeStart,
      req_RequestedByUserID = ''user-1'', req_IdempotencyKey = ''key-1'', req_Input = ''{}'',
      req_CreatedAt = \<lparr>wall = 5, loc = UTC\<rparr>\<rparr>"

definition sample_operation :: operation where
  "sample_operation =
     \<lparr>op_ID = ''op-1'', op_EnvironmentID = ''env-1'', op_Type = OperationRuntimeStart,
      op_Status = OperationQueued, op_RequestedByUserID = ''user-1'',
      op_IdempotencyKey = ''key-1'', op_RestateInvocationID = None, op_Input = ''{}'',
      op_CreatedAt = \<lparr>wall = 5, loc = UTC\<rparr>, op_CompletedAt = None\<rparr>"

lemma sample_operation_queued: "QueueOperation sample_request = Inr sample_operation"
  by (simp add: QueueOperation_def queue_required_def sample_request_def sample_operation_def
      go_time)

text \<open>
  The lifecycle of an Operation: a transition never changes its identity, owner, input or
  creation time, never forgets an invocation, and moves the status only from queued to running,
  from running to succeeded with a recorded invocation, or, for the one synchronous command, from
  queued to succeeded without one.  A terminal Operation keeps its status and completion time.
\<close>

lemma operation_step_lifecycle:
  assumes "operation_step operation next"
  shows "request_of next = request_of operation
    \<and> (op_RestateInvocationID operation \<noteq> None \<longrightarrow>
         op_RestateInvocationID next = op_RestateInvocationID operation)
    \<and> (op_Status next = op_Status operation \<and> op_CompletedAt next = op_CompletedAt operation
       \<or> op_Status operation = OperationQueued \<and> op_Status next = OperationRunning
         \<and> op_CompletedAt next = op_CompletedAt operation
       \<or> op_Status operation = OperationRunning \<and> op_Status next = OperationSucceeded
         \<and> op_RestateInvocationID next \<noteq> None \<and> op_CompletedAt next \<noteq> None
       \<or> op_Status operation = OperationQueued \<and> op_Status next = OperationSucceeded
         \<and> op_Type operation = OperationEnvironmentUpdateAutoStop
         \<and> op_RestateInvocationID next = None \<and> op_CompletedAt next \<noteq> None)
    \<and> (terminal (op_Status operation) \<longrightarrow>
         op_Status next = op_Status operation \<and> op_CompletedAt next = op_CompletedAt operation)"
  using assms
  by (induction rule: operation_step.induct)
    (auto simp: operation_defs request_of_def split: if_splits option.splits)

end
