(* ===== verification/Aggregate.thy ===== *)
theory Aggregate
  imports Prelude
begin

text \<open>
  The contract the Runtime and the Environment share: an aggregate with a version and an update
  time, changed by commands that either fail, return the aggregate as it was, or return a valid
  aggregate with the next version.  The lemmas about histories of commands are proved once, from
  the contract, and reach the two aggregates through their interpretations.
\<close>

text \<open>A history: a command that fails leaves its caller with the aggregate it had.\<close>

fun run_commands :: "('c \<Rightarrow> 's \<Rightarrow> 'e + 's) \<Rightarrow> 's \<Rightarrow> 'c list \<Rightarrow> 's" where
  "run_commands app s [] = s"
| "run_commands app s (c # cs) =
     (case app c s of Inl e \<Rightarrow> run_commands app s cs | Inr s' \<Rightarrow> run_commands app s' cs)"

lemma run_commands_append:
  "run_commands app s (cs @ ds) = run_commands app (run_commands app s cs) ds"
  by (induction cs arbitrary: s) (auto split: sum.splits)

locale versioned_aggregate =
  fixes valid :: "'s \<Rightarrow> bool"
    and version :: "'s \<Rightarrow> int64"
    and updated :: "'s \<Rightarrow> gotime"
    and ident :: "'s \<Rightarrow> 'i"
    and app :: "'c \<Rightarrow> 's \<Rightarrow> 'e + 's"
  assumes app_valid: "valid s \<Longrightarrow> app c s = Inr s' \<Longrightarrow> valid s'"
    and app_progress: "app c s = Inr s' \<Longrightarrow>
      s' = s \<or> version s \<noteq> max_int64 \<and> version s' = version s + 1
        \<and> \<not> before (updated s') (updated s)"
    and app_ident: "app c s = Inr s' \<Longrightarrow> ident s' = ident s"
begin

lemma app_version:
  assumes "app c s = Inr s'"
  shows "s' = s \<or> sint (version s') = sint (version s) + 1"
  using app_progress [OF assms] by (auto simp: sint_succ)

lemma app_updated: "app c s = Inr s' \<Longrightarrow> \<not> before (updated s') (updated s)"
  using app_progress by fastforce

lemma run_valid: "valid s \<Longrightarrow> valid (run_commands app s cs)"
  by (induction cs arbitrary: s) (auto split: sum.splits intro: app_valid)

lemma run_ident: "ident (run_commands app s cs) = ident s"
  by (induction cs arbitrary: s) (auto split: sum.splits dest: app_ident)

lemma run_version_bounds:
  "sint (version s) \<le> sint (version (run_commands app s cs))
   \<and> sint (version (run_commands app s cs)) \<le> sint (version s) + int (length cs)"
proof (induction cs arbitrary: s)
  case (Cons c cs)
  show ?case
  proof (cases "app c s")
    case (Inl e)
    then show ?thesis using Cons.IH [of s] by simp
  next
    case (Inr s')
    then show ?thesis using Cons.IH [of s'] app_version [OF Inr] by auto
  qed
qed simp

lemma run_updated: "\<not> before (updated (run_commands app s cs)) (updated s)"
proof (induction cs arbitrary: s)
  case (Cons c cs)
  show ?case
  proof (cases "app c s")
    case (Inl e)
    then show ?thesis using Cons.IH [of s] by simp
  next
    case (Inr s')
    then show ?thesis
      using not_before_trans [OF app_updated [OF Inr] Cons.IH [of s']] by simp
  qed
qed simp

text \<open>Along a history the version identifies the state: an unchanged version is an unchanged
  aggregate, which is what comparing an expected version relies on.\<close>

lemma run_same_version:
  "version (run_commands app s cs) = version s \<Longrightarrow> run_commands app s cs = s"
proof (induction cs arbitrary: s)
  case (Cons c cs)
  show ?case
  proof (cases "app c s")
    case (Inl e)
    then show ?thesis using Cons by simp
  next
    case (Inr s')
    then have "sint (version s') \<le> sint (version s)"
      using Cons.prems run_version_bounds [of s' cs] by simp
    with app_version [OF Inr] have "s' = s" by auto
    with Inr Cons show ?thesis by simp
  qed
qed simp

lemma run_history:
  assumes "valid s"
  shows "valid (run_commands app s cs) \<and> ident (run_commands app s cs) = ident s
    \<and> sint (version s) \<le> sint (version (run_commands app s cs))
    \<and> \<not> before (updated (run_commands app s cs)) (updated s)
    \<and> (version (run_commands app s cs) = version s \<longrightarrow> run_commands app s cs = s)"
  using assms run_valid run_ident run_version_bounds run_updated run_same_version by blast

end

end
