(* ===== verification/Runtimes.thy ===== *)
theory Runtimes
  imports Aggregate
begin

text \<open>
  The Runtime aggregate of \<open>libs/domain/runtime.go\<close>: one provider compute allocation of an
  Environment.  The snapshot is the whole state; \<open>Snapshot()\<close> clones it and puts the observed
  times in UTC.  The theorems give the status machine, what a Runtime exposes in each status, that
  stale observations never change it, and that a ready Runtime can always be stopped and restarted.
\<close>

section \<open>Data\<close>

datatype runtime_status =
    RuntimeAbsent
  | RuntimeProvisioning
  | RuntimeStarting
  | RuntimeReady
  | RuntimeStopping
  | RuntimeStopped
  | RuntimeReplacing
  | RuntimeError
  | RuntimeOtherStatus string

definition runtimeStatuses :: "runtime_status list" where
  "runtimeStatuses =
     [RuntimeAbsent, RuntimeProvisioning, RuntimeStarting, RuntimeReady, RuntimeStopping,
      RuntimeStopped, RuntimeReplacing, RuntimeError]"

record runtime_reservation =
  rres_ID :: string
  rres_EnvironmentID :: string
  rres_Sequence :: int64
  rres_RuntimePreset :: string
  rres_Region :: string
  rres_AvailabilityZone :: string
  rres_ImageVersion :: string
  rres_CreatedAt :: gotime

record runtime_snapshot =
  rt_ID :: string
  rt_EnvironmentID :: string
  rt_Sequence :: int64
  rt_Status :: runtime_status
  rt_RuntimePreset :: string
  rt_Region :: string
  rt_AvailabilityZone :: string
  rt_ImageVersion :: string
  rt_ProviderInstanceRef :: "string option"
  rt_PrivateAddress :: "string option"
  rt_BootID :: "string option"
  rt_StartedAt :: "gotime option"
  rt_StoppedAt :: "gotime option"
  rt_RetiredAt :: "gotime option"
  rt_CreatedAt :: gotime
  rt_UpdatedAt :: gotime
  rt_Version :: int64

type_synonym runtime = runtime_snapshot

record runtime_readiness_observation =
  ready_ProviderInstanceRef :: string
  ready_BootID :: string
  ready_PrivateAddress :: string
  ready_ExpectedVersion :: int64
  ready_ObservedAt :: gotime

record runtime_state_observation =
  obs_ProviderInstanceRef :: string
  obs_ExpectedVersion :: int64
  obs_ObservedAt :: gotime

text \<open>
  The errors: \<open>RuntimeWrap op e\<close> is \<open>fmt.Errorf("op: %w", e)\<close>, \<open>RuntimeStatusRefused op s\<close> the
  refusal of an operation in status \<open>s\<close>.
\<close>

datatype runtime_error =
    RuntimeFieldRequired string
  | RuntimeSequenceVersion
  | RuntimeUnknownStatus runtime_status
  | RuntimeCreationTimeRequired
  | RuntimeUpdateTimeInvalid
  | RuntimeTimeOutsideLifetime string
  | RuntimeProviderEmpty
  | RuntimePrivateAddressRequired
  | RuntimeBootEmpty
  | RuntimeUnretiredObservations
  | RuntimeRetiredRoute
  | RuntimeOnlyAbsentRetired
  | RuntimeUnallocatedObservations
  | RuntimeProviderRequired
  | RuntimeProvisioningObservations
  | RuntimeInconsistentBoot runtime_status
  | RuntimeReadyRequires
  | RuntimeStoppedInconsistent
  | RuntimeWritableRoute runtime_status
  | RuntimeTransitionTime
  | RuntimeVersionExhausted
  | RuntimeObservationIncomplete
  | RuntimeStatusRefused string runtime_status
  | ErrStaleRuntimeObservation
  | RuntimeWrap string runtime_error

section \<open>Validation\<close>

definition runtime_status_valid :: "runtime_status \<Rightarrow> bool" where
  "runtime_status_valid status \<longleftrightarrow> status \<in> set runtimeStatuses"

definition present :: "string option \<Rightarrow> bool" where
  "present v = (case v of None \<Rightarrow> False | Some s \<Rightarrow> \<not> blank s)"

definition validateRuntimeState :: "runtime_snapshot \<Rightarrow> runtime_error option" where
  "validateRuntimeState snapshot =
     (let provider = present (rt_ProviderInstanceRef snapshot);
          privateAddress = present (rt_PrivateAddress snapshot);
          boot = present (rt_BootID snapshot);
          status = rt_Status snapshot
      in
      if (case rt_ProviderInstanceRef snapshot of None \<Rightarrow> False
          | Some ref \<Rightarrow> \<not> provider \<or> untrimmed ref)
      then Some RuntimeProviderEmpty
      else if (case rt_PrivateAddress snapshot of None \<Rightarrow> False
               | Some address \<Rightarrow> \<not> private_ipv4 address)
      then Some RuntimePrivateAddressRequired
      else if (case rt_BootID snapshot of None \<Rightarrow> False
               | Some b \<Rightarrow> \<not> boot \<or> untrimmed b)
      then Some RuntimeBootEmpty
      else if status = RuntimeAbsent
      then if rt_RetiredAt snapshot = None
              \<and> (provider \<or> privateAddress \<or> boot
                 \<or> rt_StartedAt snapshot \<noteq> None \<or> rt_StoppedAt snapshot \<noteq> None)
           then Some RuntimeUnretiredObservations
           else if rt_RetiredAt snapshot \<noteq> None \<and> (\<not> provider \<or> privateAddress \<or> boot)
           then Some RuntimeRetiredRoute
           else None
      else if rt_RetiredAt snapshot \<noteq> None then Some RuntimeOnlyAbsentRetired
      else if status = RuntimeError \<and> \<not> provider
      then if rt_StartedAt snapshot \<noteq> None \<or> rt_StoppedAt snapshot \<noteq> None
              \<or> privateAddress \<or> boot
           then Some RuntimeUnallocatedObservations
           else None
      else if \<not> provider then Some RuntimeProviderRequired
      else case status of
        RuntimeProvisioning \<Rightarrow>
          if rt_StartedAt snapshot \<noteq> None \<or> rt_StoppedAt snapshot \<noteq> None
             \<or> privateAddress \<or> boot
          then Some RuntimeProvisioningObservations else None
      | RuntimeStarting \<Rightarrow>
          if rt_StartedAt snapshot = None \<or> rt_StoppedAt snapshot \<noteq> None
             \<or> privateAddress \<or> boot
          then Some (RuntimeInconsistentBoot status) else None
      | RuntimeStopping \<Rightarrow>
          if rt_StartedAt snapshot = None \<or> rt_StoppedAt snapshot \<noteq> None
             \<or> privateAddress \<or> boot
          then Some (RuntimeInconsistentBoot status) else None
      | RuntimeReady \<Rightarrow>
          if rt_StartedAt snapshot = None \<or> rt_StoppedAt snapshot \<noteq> None
             \<or> \<not> privateAddress \<or> \<not> boot
          then Some RuntimeReadyRequires else None
      | RuntimeStopped \<Rightarrow>
          if rt_StartedAt snapshot = None \<or> rt_StoppedAt snapshot = None
             \<or> privateAddress \<or> boot
          then Some RuntimeStoppedInconsistent else None
      | RuntimeReplacing \<Rightarrow>
          if privateAddress \<or> boot then Some (RuntimeWritableRoute status) else None
      | RuntimeError \<Rightarrow>
          if privateAddress \<or> boot then Some (RuntimeWritableRoute status) else None
      | _ \<Rightarrow> None)"

definition outside_lifetime :: "runtime_snapshot \<Rightarrow> gotime option \<Rightarrow> bool" where
  "outside_lifetime snapshot observed =
     (case observed of None \<Rightarrow> False
      | Some t \<Rightarrow> before t (rt_CreatedAt snapshot) \<or> after t (rt_UpdatedAt snapshot))"

definition runtime_required :: "runtime_snapshot \<Rightarrow> (string \<times> string) list" where
  "runtime_required snapshot =
     [(''ID'', rt_ID snapshot), (''Environment ID'', rt_EnvironmentID snapshot),
      (''Runtime Preset'', rt_RuntimePreset snapshot), (''region'', rt_Region snapshot),
      (''availability zone'', rt_AvailabilityZone snapshot),
      (''image version'', rt_ImageVersion snapshot)]"

definition validateRuntimeSnapshot :: "runtime_snapshot \<Rightarrow> runtime_error option" where
  "validateRuntimeSnapshot snapshot =
     (case first_name (\<lambda>val. blank val \<or> untrimmed val) (runtime_required snapshot) of
        Some name \<Rightarrow> Some (RuntimeFieldRequired name)
      | None \<Rightarrow>
          if sint (rt_Sequence snapshot) < 1 \<or> sint (rt_Version snapshot) < 1
          then Some RuntimeSequenceVersion
          else if \<not> runtime_status_valid (rt_Status snapshot)
          then Some (RuntimeUnknownStatus (rt_Status snapshot))
          else if is_zero (rt_CreatedAt snapshot) then Some RuntimeCreationTimeRequired
          else if is_zero (rt_UpdatedAt snapshot)
                  \<or> before (rt_UpdatedAt snapshot) (rt_CreatedAt snapshot)
          then Some RuntimeUpdateTimeInvalid
          else case first_name (outside_lifetime snapshot)
                 [(''started time'', rt_StartedAt snapshot),
                  (''stopped time'', rt_StoppedAt snapshot),
                  (''retired time'', rt_RetiredAt snapshot)] of
            Some name \<Rightarrow> Some (RuntimeTimeOutsideLifetime name)
          | None \<Rightarrow> validateRuntimeState snapshot)"

definition cloneRuntimeSnapshot :: "runtime_snapshot \<Rightarrow> runtime_snapshot" where
  "cloneRuntimeSnapshot snapshot =
     snapshot\<lparr>rt_StartedAt := map_option utc (rt_StartedAt snapshot),
              rt_StoppedAt := map_option utc (rt_StoppedAt snapshot),
              rt_RetiredAt := map_option utc (rt_RetiredAt snapshot)\<rparr>"

definition validateCurrentRuntimeObservation ::
  "runtime_snapshot \<Rightarrow> string \<Rightarrow> int64 \<Rightarrow> runtime_error option" where
  "validateCurrentRuntimeObservation current providerInstanceRef expectedVersion =
     (if expectedVersion \<noteq> rt_Version current
         \<or> rt_ProviderInstanceRef current \<noteq> Some providerInstanceRef
      then Some ErrStaleRuntimeObservation else None)"

definition runtime_transition :: "runtime \<Rightarrow> gotime \<Rightarrow> runtime_error + runtime_snapshot" where
  "runtime_transition rt at =
     (let nxt = cloneRuntimeSnapshot rt in
      case validateRuntimeSnapshot nxt of
        Some err \<Rightarrow> Inl err
      | None \<Rightarrow>
          if is_zero at \<or> before at (rt_UpdatedAt nxt) then Inl RuntimeTransitionTime
          else Inr nxt)"

definition finalizeRuntimeTransition ::
  "runtime_snapshot \<Rightarrow> gotime \<Rightarrow> runtime_error + runtime" where
  "finalizeRuntimeTransition nxt at =
     (if rt_Version nxt = max_int64 then Inl RuntimeVersionExhausted
      else
        let moved = nxt\<lparr>rt_UpdatedAt := utc at, rt_Version := rt_Version nxt + 1\<rparr> in
        case validateRuntimeSnapshot moved of
          Some err \<Rightarrow> Inl (RuntimeWrap ''finalize Runtime transition'' err)
        | None \<Rightarrow> Inr (cloneRuntimeSnapshot moved))"

section \<open>Construction and transitions\<close>

definition ReserveRuntime :: "runtime_reservation \<Rightarrow> runtime_error + runtime" where
  "ReserveRuntime reservation =
     (let snapshot =
        \<lparr>rt_ID = rres_ID reservation, rt_EnvironmentID = rres_EnvironmentID reservation,
         rt_Sequence = rres_Sequence reservation, rt_Status = RuntimeAbsent,
         rt_RuntimePreset = rres_RuntimePreset reservation, rt_Region = rres_Region reservation,
         rt_AvailabilityZone = rres_AvailabilityZone reservation,
         rt_ImageVersion = rres_ImageVersion reservation, rt_ProviderInstanceRef = None,
         rt_PrivateAddress = None, rt_BootID = None, rt_StartedAt = None, rt_StoppedAt = None,
         rt_RetiredAt = None, rt_CreatedAt = rres_CreatedAt reservation,
         rt_UpdatedAt = rres_CreatedAt reservation, rt_Version = 1\<rparr>
      in case validateRuntimeSnapshot snapshot of
           Some err \<Rightarrow> Inl (RuntimeWrap ''reserve Runtime'' err)
         | None \<Rightarrow> Inr snapshot)"

definition RestoreRuntime :: "runtime_snapshot \<Rightarrow> runtime_error + runtime" where
  "RestoreRuntime snapshot =
     (case validateRuntimeSnapshot snapshot of
        Some err \<Rightarrow> Inl (RuntimeWrap ''restore Runtime'' err)
      | None \<Rightarrow> Inr (cloneRuntimeSnapshot snapshot))"

definition Provision :: "runtime \<Rightarrow> string \<Rightarrow> gotime \<Rightarrow> runtime_error + runtime" where
  "Provision rt providerInstanceRef at =
     (if providerInstanceRef = []
      then Inl (RuntimeWrap ''provision Runtime'' RuntimeProviderRequired)
      else case runtime_transition rt at of
        Inl err \<Rightarrow> Inl (RuntimeWrap ''provision Runtime'' err)
      | Inr nxt \<Rightarrow>
          if rt_Status nxt = RuntimeProvisioning
             \<and> rt_ProviderInstanceRef nxt = Some providerInstanceRef
          then Inr rt
          else if rt_Status nxt \<noteq> RuntimeAbsent \<or> rt_RetiredAt nxt \<noteq> None
          then Inl (RuntimeStatusRefused ''provision Runtime'' (rt_Status nxt))
          else finalizeRuntimeTransition
                 (nxt\<lparr>rt_Status := RuntimeProvisioning,
                      rt_ProviderInstanceRef := Some providerInstanceRef\<rparr>) at)"

definition MarkProvisionError :: "runtime \<Rightarrow> gotime \<Rightarrow> runtime_error + runtime" where
  "MarkProvisionError rt at =
     (let current = cloneRuntimeSnapshot rt in
      if rt_Status current = RuntimeError \<and> rt_ProviderInstanceRef current = None then Inr rt
      else if rt_Status current \<noteq> RuntimeAbsent \<or> rt_RetiredAt current \<noteq> None
      then Inl (RuntimeStatusRefused ''mark Runtime provision error'' (rt_Status current))
      else case runtime_transition rt at of
        Inl err \<Rightarrow> Inl (RuntimeWrap ''mark Runtime provision error'' err)
      | Inr nxt \<Rightarrow> finalizeRuntimeTransition (nxt\<lparr>rt_Status := RuntimeError\<rparr>) at)"

definition BeginStart :: "runtime \<Rightarrow> gotime \<Rightarrow> runtime_error + runtime" where
  "BeginStart rt at =
     (case runtime_transition rt at of
        Inl err \<Rightarrow> Inl (RuntimeWrap ''start Runtime'' err)
      | Inr nxt \<Rightarrow>
          if rt_Status nxt = RuntimeStarting then Inr rt
          else if rt_Status nxt \<noteq> RuntimeProvisioning \<and> rt_Status nxt \<noteq> RuntimeStopped
          then Inl (RuntimeStatusRefused ''start Runtime'' (rt_Status nxt))
          else finalizeRuntimeTransition
                 (nxt\<lparr>rt_Status := RuntimeStarting, rt_StartedAt := Some at,
                      rt_StoppedAt := None, rt_PrivateAddress := None, rt_BootID := None\<rparr>) at)"

definition MarkReady ::
  "runtime \<Rightarrow> runtime_readiness_observation \<Rightarrow> runtime_error + runtime" where
  "MarkReady rt observation =
     (let current = cloneRuntimeSnapshot rt in
      if rt_Status current = RuntimeReady
         \<and> rt_ProviderInstanceRef current = Some (ready_ProviderInstanceRef observation)
         \<and> rt_BootID current = Some (ready_BootID observation)
         \<and> rt_PrivateAddress current = Some (ready_PrivateAddress observation)
      then Inr rt
      else if rt_Status current \<noteq> RuntimeStarting
      then Inl (RuntimeStatusRefused ''mark Runtime ready'' (rt_Status current))
      else case validateCurrentRuntimeObservation current
                  (ready_ProviderInstanceRef observation) (ready_ExpectedVersion observation) of
        Some err \<Rightarrow> Inl err
      | None \<Rightarrow>
          (case runtime_transition rt (ready_ObservedAt observation) of
             Inl err \<Rightarrow> Inl (RuntimeWrap ''mark Runtime ready'' err)
           | Inr nxt \<Rightarrow>
               if blank (ready_BootID observation)
                  \<or> \<not> private_ipv4 (ready_PrivateAddress observation)
               then Inl RuntimeObservationIncomplete
               else finalizeRuntimeTransition
                      (nxt\<lparr>rt_Status := RuntimeReady,
                           rt_BootID := Some (ready_BootID observation),
                           rt_PrivateAddress := Some (ready_PrivateAddress observation)\<rparr>)
                      (ready_ObservedAt observation)))"

definition BeginStop :: "runtime \<Rightarrow> gotime \<Rightarrow> runtime_error + runtime" where
  "BeginStop rt at =
     (case runtime_transition rt at of
        Inl err \<Rightarrow> Inl (RuntimeWrap ''stop Runtime'' err)
      | Inr nxt \<Rightarrow>
          if rt_Status nxt = RuntimeStopping \<or> rt_Status nxt = RuntimeStopped then Inr rt
          else if rt_Status nxt \<noteq> RuntimeReady
          then Inl (RuntimeStatusRefused ''stop Runtime'' (rt_Status nxt))
          else finalizeRuntimeTransition
                 (nxt\<lparr>rt_Status := RuntimeStopping, rt_PrivateAddress := None,
                      rt_BootID := None\<rparr>) at)"

definition MarkStopped :: "runtime \<Rightarrow> runtime_state_observation \<Rightarrow> runtime_error + runtime" where
  "MarkStopped rt observation =
     (let current = cloneRuntimeSnapshot rt in
      if rt_Status current = RuntimeStopped
         \<and> rt_ProviderInstanceRef current = Some (obs_ProviderInstanceRef observation)
      then Inr rt
      else if rt_Status current \<noteq> RuntimeStopping
      then Inl (RuntimeStatusRefused ''mark Runtime stopped'' (rt_Status current))
      else case validateCurrentRuntimeObservation current
                  (obs_ProviderInstanceRef observation) (obs_ExpectedVersion observation) of
        Some err \<Rightarrow> Inl err
      | None \<Rightarrow>
          (case runtime_transition rt (obs_ObservedAt observation) of
             Inl err \<Rightarrow> Inl (RuntimeWrap ''mark Runtime stopped'' err)
           | Inr nxt \<Rightarrow>
               finalizeRuntimeTransition
                 (nxt\<lparr>rt_Status := RuntimeStopped,
                      rt_StoppedAt := Some (obs_ObservedAt observation)\<rparr>)
                 (obs_ObservedAt observation)))"

definition MarkError :: "runtime \<Rightarrow> runtime_state_observation \<Rightarrow> runtime_error + runtime" where
  "MarkError rt observation =
     (let current = cloneRuntimeSnapshot rt in
      if rt_Status current = RuntimeError
         \<and> rt_ProviderInstanceRef current = Some (obs_ProviderInstanceRef observation)
      then Inr rt
      else if rt_Status current = RuntimeAbsent \<or> rt_Status current = RuntimeReplacing
      then Inl (RuntimeStatusRefused ''mark Runtime error'' (rt_Status current))
      else case validateCurrentRuntimeObservation current
                  (obs_ProviderInstanceRef observation) (obs_ExpectedVersion observation) of
        Some err \<Rightarrow> Inl err
      | None \<Rightarrow>
          (case runtime_transition rt (obs_ObservedAt observation) of
             Inl err \<Rightarrow> Inl (RuntimeWrap ''mark Runtime error'' err)
           | Inr nxt \<Rightarrow>
               finalizeRuntimeTransition
                 (nxt\<lparr>rt_Status := RuntimeError, rt_PrivateAddress := None, rt_BootID := None\<rparr>)
                 (obs_ObservedAt observation)))"

definition BeginReplacement :: "runtime \<Rightarrow> gotime \<Rightarrow> runtime_error + runtime" where
  "BeginReplacement rt at =
     (case runtime_transition rt at of
        Inl err \<Rightarrow> Inl (RuntimeWrap ''replace Runtime'' err)
      | Inr nxt \<Rightarrow>
          if rt_Status nxt = RuntimeReplacing then Inr rt
          else if rt_Status nxt \<noteq> RuntimeReady \<and> rt_Status nxt \<noteq> RuntimeStopped
                  \<and> rt_Status nxt \<noteq> RuntimeError
          then Inl (RuntimeStatusRefused ''replace Runtime'' (rt_Status nxt))
          else finalizeRuntimeTransition
                 (nxt\<lparr>rt_Status := RuntimeReplacing, rt_PrivateAddress := None,
                      rt_BootID := None\<rparr>) at)"

definition Retire :: "runtime \<Rightarrow> runtime_state_observation \<Rightarrow> runtime_error + runtime" where
  "Retire rt observation =
     (let current = cloneRuntimeSnapshot rt in
      if rt_Status current = RuntimeAbsent \<and> rt_RetiredAt current \<noteq> None
         \<and> rt_ProviderInstanceRef current = Some (obs_ProviderInstanceRef observation)
      then Inr rt
      else if rt_Status current \<noteq> RuntimeReplacing
      then Inl (RuntimeStatusRefused ''retire Runtime'' (rt_Status current))
      else case validateCurrentRuntimeObservation current
                  (obs_ProviderInstanceRef observation) (obs_ExpectedVersion observation) of
        Some err \<Rightarrow> Inl err
      | None \<Rightarrow>
          (case runtime_transition rt (obs_ObservedAt observation) of
             Inl err \<Rightarrow> Inl (RuntimeWrap ''retire Runtime'' err)
           | Inr nxt \<Rightarrow>
               finalizeRuntimeTransition
                 (nxt\<lparr>rt_Status := RuntimeAbsent,
                      rt_RetiredAt := Some (obs_ObservedAt observation)\<rparr>)
                 (obs_ObservedAt observation)))"

section \<open>Commands\<close>

text \<open>The transitions as commands, so that histories can be stated.\<close>

datatype runtime_command =
    CmdProvision string gotime
  | CmdMarkProvisionError gotime
  | CmdBeginStart gotime
  | CmdMarkReady runtime_readiness_observation
  | CmdBeginStop gotime
  | CmdMarkStopped runtime_state_observation
  | CmdMarkError runtime_state_observation
  | CmdBeginReplacement gotime
  | CmdRetire runtime_state_observation

fun apply_runtime :: "runtime_command \<Rightarrow> runtime \<Rightarrow> runtime_error + runtime" where
  "apply_runtime (CmdProvision ref at) rt = Provision rt ref at"
| "apply_runtime (CmdMarkProvisionError at) rt = MarkProvisionError rt at"
| "apply_runtime (CmdBeginStart at) rt = BeginStart rt at"
| "apply_runtime (CmdMarkReady observation) rt = MarkReady rt observation"
| "apply_runtime (CmdBeginStop at) rt = BeginStop rt at"
| "apply_runtime (CmdMarkStopped observation) rt = MarkStopped rt observation"
| "apply_runtime (CmdMarkError observation) rt = MarkError rt observation"
| "apply_runtime (CmdBeginReplacement at) rt = BeginReplacement rt at"
| "apply_runtime (CmdRetire observation) rt = Retire rt observation"

definition runtime_valid :: "runtime \<Rightarrow> bool" where
  "runtime_valid rt \<longleftrightarrow> validateRuntimeSnapshot rt = None"

definition runtime_identity ::
  "runtime \<Rightarrow> string \<times> string \<times> int64 \<times> string \<times> string \<times> string \<times> string \<times> gotime" where
  "runtime_identity rt =
     (rt_ID rt, rt_EnvironmentID rt, rt_Sequence rt, rt_RuntimePreset rt, rt_Region rt,
      rt_AvailabilityZone rt, rt_ImageVersion rt, rt_CreatedAt rt)"

text \<open>The statuses a command may lead from and to, and the fields it may write on the way.\<close>

inductive runtime_edge :: "runtime_status \<Rightarrow> runtime_status \<Rightarrow> bool" where
  provision: "runtime_edge RuntimeAbsent RuntimeProvisioning"
| provision_error: "runtime_edge RuntimeAbsent RuntimeError"
| start_provisioned: "runtime_edge RuntimeProvisioning RuntimeStarting"
| start_stopped: "runtime_edge RuntimeStopped RuntimeStarting"
| ready: "runtime_edge RuntimeStarting RuntimeReady"
| stop: "runtime_edge RuntimeReady RuntimeStopping"
| stopped: "runtime_edge RuntimeStopping RuntimeStopped"
| failed: "s \<in> {RuntimeProvisioning, RuntimeStarting, RuntimeReady, RuntimeStopping,
                 RuntimeStopped} \<Longrightarrow> runtime_edge s RuntimeError"
| replace: "s \<in> {RuntimeReady, RuntimeStopped, RuntimeError} \<Longrightarrow> runtime_edge s RuntimeReplacing"
| retire: "runtime_edge RuntimeReplacing RuntimeAbsent"

section \<open>Facts about one transition\<close>

lemma clone_simps [simp]:
  "rt_ID (cloneRuntimeSnapshot s) = rt_ID s"
  "rt_EnvironmentID (cloneRuntimeSnapshot s) = rt_EnvironmentID s"
  "rt_Sequence (cloneRuntimeSnapshot s) = rt_Sequence s"
  "rt_Status (cloneRuntimeSnapshot s) = rt_Status s"
  "rt_RuntimePreset (cloneRuntimeSnapshot s) = rt_RuntimePreset s"
  "rt_Region (cloneRuntimeSnapshot s) = rt_Region s"
  "rt_AvailabilityZone (cloneRuntimeSnapshot s) = rt_AvailabilityZone s"
  "rt_ImageVersion (cloneRuntimeSnapshot s) = rt_ImageVersion s"
  "rt_ProviderInstanceRef (cloneRuntimeSnapshot s) = rt_ProviderInstanceRef s"
  "rt_PrivateAddress (cloneRuntimeSnapshot s) = rt_PrivateAddress s"
  "rt_BootID (cloneRuntimeSnapshot s) = rt_BootID s"
  "rt_CreatedAt (cloneRuntimeSnapshot s) = rt_CreatedAt s"
  "rt_UpdatedAt (cloneRuntimeSnapshot s) = rt_UpdatedAt s"
  "rt_Version (cloneRuntimeSnapshot s) = rt_Version s"
  "rt_StartedAt (cloneRuntimeSnapshot s) = map_option utc (rt_StartedAt s)"
  "rt_StoppedAt (cloneRuntimeSnapshot s) = map_option utc (rt_StoppedAt s)"
  "rt_RetiredAt (cloneRuntimeSnapshot s) = map_option utc (rt_RetiredAt s)"
  by (simp_all add: cloneRuntimeSnapshot_def)

lemma outside_lifetime_clone [simp]:
  "outside_lifetime (cloneRuntimeSnapshot s) (map_option utc t) = outside_lifetime s t"
  by (cases t) (simp_all add: outside_lifetime_def)

lemma validateRuntimeState_clone [simp]:
  "validateRuntimeState (cloneRuntimeSnapshot s) = validateRuntimeState s"
  unfolding validateRuntimeState_def clone_simps option.map_disc_iff by (rule refl)

lemma validateRuntimeSnapshot_clone [simp]:
  "validateRuntimeSnapshot (cloneRuntimeSnapshot s) = validateRuntimeSnapshot s"
  unfolding validateRuntimeSnapshot_def runtime_required_def clone_simps first_name.simps
    outside_lifetime_clone validateRuntimeState_clone by (rule refl)

lemma runtime_transition_Inr_iff:
  "runtime_transition rt at = Inr nxt \<longleftrightarrow>
     nxt = cloneRuntimeSnapshot rt \<and> runtime_valid rt \<and> \<not> is_zero at
     \<and> \<not> before at (rt_UpdatedAt rt)"
  by (auto simp: runtime_transition_def runtime_valid_def Let_def split: option.splits)

lemma finalizeRuntimeTransition_Inr_iff:
  "finalizeRuntimeTransition nxt at = Inr rt \<longleftrightarrow>
     rt_Version nxt \<noteq> max_int64
     \<and> runtime_valid (nxt\<lparr>rt_UpdatedAt := utc at, rt_Version := rt_Version nxt + 1\<rparr>)
     \<and> rt = cloneRuntimeSnapshot (nxt\<lparr>rt_UpdatedAt := utc at, rt_Version := rt_Version nxt + 1\<rparr>)"
  by (auto simp: finalizeRuntimeTransition_def runtime_valid_def Let_def split: option.splits)

lemmas runtime_command_defs = Provision_def MarkProvisionError_def BeginStart_def MarkReady_def
  BeginStop_def MarkStopped_def MarkError_def BeginReplacement_def Retire_def

text \<open>
  What every successful command amounts to: the Runtime is returned as it was, or it moved along an
  edge of the status machine, was validated, and only the version, the update time and the observed
  fields changed.
\<close>

definition runtime_moved :: "runtime \<Rightarrow> runtime \<Rightarrow> bool" where
  "runtime_moved rt rt' \<longleftrightarrow>
     runtime_valid rt \<and> runtime_valid rt' \<and> runtime_identity rt' = runtime_identity rt
     \<and> rt_Version rt \<noteq> max_int64 \<and> rt_Version rt' = rt_Version rt + 1
     \<and> \<not> before (rt_UpdatedAt rt') (rt_UpdatedAt rt)
     \<and> runtime_edge (rt_Status rt) (rt_Status rt')
     \<and> rt_RetiredAt rt = None
     \<and> (rt_RetiredAt rt' \<noteq> None \<longleftrightarrow> rt_Status rt' = RuntimeAbsent)
     \<and> (rt_ProviderInstanceRef rt = None \<or> rt_ProviderInstanceRef rt' = rt_ProviderInstanceRef rt)"

lemma runtime_valid_retired:
  "runtime_valid rt \<Longrightarrow> rt_RetiredAt rt \<noteq> None \<Longrightarrow> rt_Status rt = RuntimeAbsent"
  by (auto simp: runtime_valid_def validateRuntimeSnapshot_def validateRuntimeState_def Let_def
      split: option.splits if_splits)

lemma runtime_valid_absent_provider:
  "runtime_valid rt \<Longrightarrow> rt_Status rt = RuntimeAbsent \<Longrightarrow> rt_RetiredAt rt = None
   \<Longrightarrow> rt_ProviderInstanceRef rt = None"
  by (auto simp: runtime_valid_def validateRuntimeSnapshot_def validateRuntimeState_def Let_def
      present_def split: option.splits if_splits)

lemma runtime_valid_status:
  "runtime_valid rt \<Longrightarrow> rt_Status rt \<in> set runtimeStatuses"
  by (auto simp: runtime_valid_def validateRuntimeSnapshot_def runtime_status_valid_def
      split: option.splits if_splits)

lemmas runtime_step_facts = runtime_moved_def runtime_transition_Inr_iff
  finalizeRuntimeTransition_Inr_iff runtime_identity_def validateCurrentRuntimeObservation_def

lemma runtime_valid_unretired:
  "runtime_valid rt \<Longrightarrow> rt_Status rt \<noteq> RuntimeAbsent \<Longrightarrow> rt_RetiredAt rt = None"
  using runtime_valid_retired by blast

lemma runtime_valid_clone [simp]: "runtime_valid (cloneRuntimeSnapshot rt) = runtime_valid rt"
  by (simp add: runtime_valid_def)

lemma runtime_moved_edge_from_valid:
  "runtime_valid rt \<Longrightarrow> rt_Status rt \<noteq> RuntimeAbsent \<Longrightarrow> rt_Status rt \<noteq> RuntimeReplacing
   \<Longrightarrow> rt_Status rt \<noteq> RuntimeError \<Longrightarrow> runtime_edge (rt_Status rt) RuntimeError"
  using runtime_valid_status [of rt] by (auto simp: runtimeStatuses_def intro: runtime_edge.intros)

lemma apply_runtime_moved:
  assumes "apply_runtime c rt = Inr rt'"
  shows "rt' = rt \<or> runtime_moved rt rt'"
proof (cases c)
  case (CmdMarkError observation)
  then show ?thesis using assms
    by (auto simp: MarkError_def runtime_step_facts Let_def
        dest: runtime_valid_unretired split: if_splits sum.splits
        intro: runtime_moved_edge_from_valid)
qed (use assms in \<open>auto simp: runtime_command_defs runtime_step_facts Let_def
        runtime_valid_absent_provider
        dest: runtime_valid_unretired split: if_splits sum.splits intro: runtime_edge.intros\<close>)

section \<open>Histories\<close>

lemma ReserveRuntime_valid: "ReserveRuntime reservation = Inr rt \<Longrightarrow> runtime_valid rt"
  by (auto simp: ReserveRuntime_def runtime_valid_def Let_def split: option.splits)

lemma RestoreRuntime_Inr_iff:
  "RestoreRuntime snapshot = Inr rt \<longleftrightarrow> runtime_valid snapshot \<and> rt = cloneRuntimeSnapshot snapshot"
  by (auto simp: RestoreRuntime_def runtime_valid_def split: option.splits)

interpretation runtime_agg: versioned_aggregate
  runtime_valid rt_Version rt_UpdatedAt runtime_identity apply_runtime
proof unfold_locales
  fix c rt rt'
  assume step: "apply_runtime c rt = Inr rt'"
  show "rt' = rt \<or> rt_Version rt \<noteq> max_int64 \<and> rt_Version rt' = rt_Version rt + 1
      \<and> \<not> before (rt_UpdatedAt rt') (rt_UpdatedAt rt)"
    and "runtime_identity rt' = runtime_identity rt"
    using apply_runtime_moved [OF step] by (auto simp: runtime_moved_def)
  assume "runtime_valid rt"
  then show "runtime_valid rt'"
    using apply_runtime_moved [OF step] by (auto simp: runtime_moved_def)
qed

text \<open>A Runtime a program can hold: reserved or restored, then driven by any commands.\<close>

definition runtime_reachable :: "runtime \<Rightarrow> bool" where
  "runtime_reachable rt \<longleftrightarrow>
     (\<exists>start cs. ((\<exists>reservation. ReserveRuntime reservation = Inr start)
                  \<or> (\<exists>snapshot. RestoreRuntime snapshot = Inr start))
        \<and> rt = run_commands apply_runtime start cs)"

lemma runtime_reachable_valid: "runtime_reachable rt \<Longrightarrow> runtime_valid rt"
  by (auto simp: runtime_reachable_def RestoreRuntime_Inr_iff
      intro!: runtime_agg.run_valid dest: ReserveRuntime_valid)

lemma runtime_reachable_run:
  "runtime_reachable rt \<Longrightarrow> runtime_reachable (run_commands apply_runtime rt cs)"
  unfolding runtime_reachable_def by (metis run_commands_append)

text \<open>
  C18. A Runtime that starts from a reservation or a restored snapshot stays valid under every
  sequence of commands, keeps its identity and placement, never lowers its version or its update
  time, and whenever its version is unchanged the Runtime itself is unchanged.
\<close>

theorem runtime_history:
  assumes "runtime_reachable rt"
  shows "validateRuntimeSnapshot (run_commands apply_runtime rt cs) = None
    \<and> runtime_identity (run_commands apply_runtime rt cs) = runtime_identity rt
    \<and> sint (rt_Version rt) \<le> sint (rt_Version (run_commands apply_runtime rt cs))
    \<and> \<not> before (rt_UpdatedAt (run_commands apply_runtime rt cs)) (rt_UpdatedAt rt)
    \<and> (rt_Version (run_commands apply_runtime rt cs) = rt_Version rt \<longrightarrow>
         run_commands apply_runtime rt cs = rt)"
  using runtime_agg.run_history [OF runtime_reachable_valid [OF assms]]
  by (simp add: runtime_valid_def)

text \<open>Concrete Runtimes for the witnesses.\<close>

definition sample_reservation :: runtime_reservation where
  "sample_reservation =
     \<lparr>rres_ID = ''rt-1'', rres_EnvironmentID = ''env-1'', rres_Sequence = 1,
      rres_RuntimePreset = ''small'', rres_Region = ''eu'', rres_AvailabilityZone = ''eu-a'',
      rres_ImageVersion = ''v1'', rres_CreatedAt = \<lparr>wall = 5, loc = UTC\<rparr>\<rparr>"

definition sample_runtime :: runtime where
  "sample_runtime =
     \<lparr>rt_ID = ''rt-1'', rt_EnvironmentID = ''env-1'', rt_Sequence = 1, rt_Status = RuntimeAbsent,
      rt_RuntimePreset = ''small'', rt_Region = ''eu'', rt_AvailabilityZone = ''eu-a'',
      rt_ImageVersion = ''v1'', rt_ProviderInstanceRef = None, rt_PrivateAddress = None,
      rt_BootID = None, rt_StartedAt = None, rt_StoppedAt = None, rt_RetiredAt = None,
      rt_CreatedAt = \<lparr>wall = 5, loc = UTC\<rparr>, rt_UpdatedAt = \<lparr>wall = 5, loc = UTC\<rparr>,
      rt_Version = 1\<rparr>"

definition ready_runtime :: runtime where
  "ready_runtime =
     sample_runtime\<lparr>rt_Status := RuntimeReady, rt_ProviderInstanceRef := Some ''i-1'',
       rt_PrivateAddress := Some ''10.0.0.1'', rt_BootID := Some ''boot-1'',
       rt_StartedAt := Some \<lparr>wall = 6, loc = UTC\<rparr>, rt_UpdatedAt := \<lparr>wall = 7, loc = UTC\<rparr>,
       rt_Version := 4\<rparr>"

lemmas runtime_eval = validateRuntimeSnapshot_def validateRuntimeState_def runtime_required_def
  outside_lifetime_def present_def runtime_status_valid_def runtimeStatuses_def
  private_ipv4_def parse_ipv4_def is_digit_def digit_value_def go_time

lemma sample_runtime_reserved: "ReserveRuntime sample_reservation = Inr sample_runtime"
  by (simp add: ReserveRuntime_def sample_reservation_def sample_runtime_def runtime_eval)

lemma sample_runtime_reachable: "runtime_reachable sample_runtime"
  unfolding runtime_reachable_def using sample_runtime_reserved by (metis run_commands.simps(1))

lemma ready_runtime_valid: "runtime_valid ready_runtime"
  by (simp add: runtime_valid_def ready_runtime_def sample_runtime_def runtime_eval)

lemma ready_runtime_restored: "RestoreRuntime ready_runtime = Inr ready_runtime"
  by (simp add: RestoreRuntime_Inr_iff ready_runtime_valid)
    (simp add: ready_runtime_def sample_runtime_def cloneRuntimeSnapshot_def utc_def)

lemma ready_runtime_reachable: "runtime_reachable ready_runtime"
  unfolding runtime_reachable_def using ready_runtime_restored by (metis run_commands.simps(1))

theorem runtime_history_witness:
  "runtime_reachable sample_runtime
   \<and> validateRuntimeSnapshot
       (run_commands apply_runtime sample_runtime
          [CmdProvision ''i-1'' \<lparr>wall = 6, loc = UTC\<rparr>, CmdBeginStart \<lparr>wall = 7, loc = UTC\<rparr>]) = None"
  using sample_runtime_reachable runtime_history [OF sample_runtime_reachable] by blast

section \<open>What a Runtime exposes\<close>

lemma runtime_valid_route:
  assumes "runtime_valid rt"
  shows "(rt_PrivateAddress rt \<noteq> None \<longleftrightarrow> rt_Status rt = RuntimeReady)
    \<and> (rt_BootID rt \<noteq> None \<longleftrightarrow> rt_Status rt = RuntimeReady)
    \<and> (\<forall>address. rt_PrivateAddress rt = Some address \<longrightarrow> private_ipv4 address)
    \<and> (rt_Status rt = RuntimeReady \<longrightarrow>
         present (rt_ProviderInstanceRef rt) \<and> rt_StartedAt rt \<noteq> None \<and> rt_StoppedAt rt = None)"
proof -
  have status: "rt_Status rt \<in> set runtimeStatuses"
    by (rule runtime_valid_status [OF assms])
  have "validateRuntimeState rt = None"
    using assms by (auto simp: runtime_valid_def validateRuntimeSnapshot_def
        split: option.splits if_splits)
  then show ?thesis
    using status private_ipv4_not_blank
    by (auto simp: validateRuntimeState_def runtimeStatuses_def present_def Let_def
        split: option.splits if_splits)
qed

text \<open>
  A Runtime exposes a private address and a boot identity exactly while it is ready; the
  address is then a private IPv4 address, and the provider instance and the start of the current
  run are recorded.  No other status leaves a writable route behind.
\<close>

lemma runtime_route_only_when_ready:
  assumes "runtime_reachable rt"
  shows "(rt_PrivateAddress rt \<noteq> None \<longleftrightarrow> rt_Status rt = RuntimeReady)
    \<and> (rt_BootID rt \<noteq> None \<longleftrightarrow> rt_Status rt = RuntimeReady)
    \<and> (\<forall>address. rt_PrivateAddress rt = Some address \<longrightarrow> private_ipv4 address)
    \<and> (rt_Status rt = RuntimeReady \<longrightarrow>
         present (rt_ProviderInstanceRef rt) \<and> rt_StartedAt rt \<noteq> None \<and> rt_StoppedAt rt = None)"
  by (rule runtime_valid_route [OF runtime_reachable_valid [OF assms]])

section \<open>The status machine\<close>

text \<open>
  A command that succeeds either returns the Runtime unchanged (a replay) or moves its status
  along an edge of the status machine from a Runtime that is not retired; only retirement, from
  replacing, records a retirement time, and a provider instance once recorded is never exchanged.
  So a retired Runtime never changes again.
\<close>

lemma runtime_status_machine:
  assumes "apply_runtime c rt = Inr rt'"
  shows "rt' = rt
    \<or> rt_RetiredAt rt = None \<and> runtime_edge (rt_Status rt) (rt_Status rt')
      \<and> (rt_RetiredAt rt' \<noteq> None \<longleftrightarrow> rt_Status rt' = RuntimeAbsent)
      \<and> (rt_ProviderInstanceRef rt = None
         \<or> rt_ProviderInstanceRef rt' = rt_ProviderInstanceRef rt)"
  using apply_runtime_moved [OF assms] by (auto simp: runtime_moved_def)

definition stopping_runtime :: runtime where
  "stopping_runtime =
     ready_runtime\<lparr>rt_Status := RuntimeStopping, rt_PrivateAddress := None, rt_BootID := None,
       rt_UpdatedAt := \<lparr>wall = 8, loc = UTC\<rparr>, rt_Version := 5\<rparr>"

lemma ready_runtime_stops:
  "apply_runtime (CmdBeginStop \<lparr>wall = 8, loc = UTC\<rparr>) ready_runtime = Inr stopping_runtime"
  by (simp add: BeginStop_def runtime_transition_def finalizeRuntimeTransition_def
      ready_runtime_def sample_runtime_def stopping_runtime_def runtime_eval
      cloneRuntimeSnapshot_def utc_def max_int64_def)

section \<open>Stale observations\<close>

text \<open>The provider instance and the version an observing command speaks about.\<close>

fun observation_of :: "runtime_command \<Rightarrow> (string \<times> int64) option" where
  "observation_of (CmdMarkReady observation) =
     Some (ready_ProviderInstanceRef observation, ready_ExpectedVersion observation)"
| "observation_of (CmdMarkStopped observation) =
     Some (obs_ProviderInstanceRef observation, obs_ExpectedVersion observation)"
| "observation_of (CmdMarkError observation) =
     Some (obs_ProviderInstanceRef observation, obs_ExpectedVersion observation)"
| "observation_of (CmdRetire observation) =
     Some (obs_ProviderInstanceRef observation, obs_ExpectedVersion observation)"
| "observation_of _ = None"

text \<open>
  An observation of another provider instance, or one made against another version of the
  Runtime, never changes it: the command fails or is answered as a replay, and the Runtime the
  program holds afterwards is the one it held before.
\<close>

lemma stale_observation_harmless:
  assumes "observation_of c = Some (ref, expected)"
    and "expected \<noteq> rt_Version rt \<or> rt_ProviderInstanceRef rt \<noteq> Some ref"
  shows "run_commands apply_runtime rt [c] = rt"
  using assms
  by (cases c) (auto simp: MarkReady_def MarkStopped_def MarkError_def Retire_def Let_def
      validateCurrentRuntimeObservation_def split: sum.splits if_splits)

section \<open>Stopping and restarting\<close>

text \<open>
  When a transition is enabled its result passes validation, so it succeeds; the four lemmas say
  what it returns, as far as the next transition needs it.
\<close>

definition time_ok :: "runtime \<Rightarrow> gotime \<Rightarrow> bool" where
  "time_ok rt at \<longleftrightarrow> \<not> is_zero at \<and> \<not> before at (rt_UpdatedAt rt)"

definition arrives :: "runtime \<Rightarrow> runtime_error + runtime \<Rightarrow> gotime \<Rightarrow> runtime_status \<Rightarrow> bool" where
  "arrives rt result at status \<longleftrightarrow>
     (\<exists>rt'. result = Inr rt' \<and> runtime_valid rt' \<and> rt_Status rt' = status
        \<and> rt_ProviderInstanceRef rt' = rt_ProviderInstanceRef rt
        \<and> rt_Version rt' = rt_Version rt + 1 \<and> wall (rt_UpdatedAt rt') = wall at)"

lemma outside_lifetime_moved:
  "\<not> outside_lifetime rt t \<Longrightarrow> \<not> before at (rt_UpdatedAt rt)
   \<Longrightarrow> rt_CreatedAt rt' = rt_CreatedAt rt \<Longrightarrow> wall (rt_UpdatedAt rt') = wall at
   \<Longrightarrow> \<not> outside_lifetime rt' (map_option utc t)"
  by (cases t) (auto simp: outside_lifetime_def go_time)

lemma outside_lifetime_now:
  "\<not> before at (rt_CreatedAt rt) \<Longrightarrow> wall (rt_UpdatedAt rt) = wall at
   \<Longrightarrow> \<not> outside_lifetime rt (Some at)"
  by (simp add: outside_lifetime_def go_time)

lemma outside_lifetime_None [simp]: "\<not> outside_lifetime rt None"
  by (simp add: outside_lifetime_def)

lemma runtime_valid_iff:
  "runtime_valid rt \<longleftrightarrow>
     first_name (\<lambda>val. blank val \<or> untrimmed val) (runtime_required rt) = None
     \<and> 1 \<le> sint (rt_Sequence rt) \<and> 1 \<le> sint (rt_Version rt)
     \<and> runtime_status_valid (rt_Status rt) \<and> \<not> is_zero (rt_CreatedAt rt)
     \<and> \<not> is_zero (rt_UpdatedAt rt) \<and> \<not> before (rt_UpdatedAt rt) (rt_CreatedAt rt)
     \<and> \<not> outside_lifetime rt (rt_StartedAt rt) \<and> \<not> outside_lifetime rt (rt_StoppedAt rt)
     \<and> \<not> outside_lifetime rt (rt_RetiredAt rt) \<and> validateRuntimeState rt = None"
proof -
  let ?named = "first_name (\<lambda>val. blank val \<or> untrimmed val) (runtime_required rt)"
  let ?times = "first_name (outside_lifetime rt)
    [(''started time'', rt_StartedAt rt), (''stopped time'', rt_StoppedAt rt),
     (''retired time'', rt_RetiredAt rt)]"
  have times: "?times = None \<longleftrightarrow> \<not> outside_lifetime rt (rt_StartedAt rt)
      \<and> \<not> outside_lifetime rt (rt_StoppedAt rt) \<and> \<not> outside_lifetime rt (rt_RetiredAt rt)"
    unfolding first_name_None_iff by simp
  show ?thesis
    unfolding runtime_valid_def validateRuntimeSnapshot_def using times
    by (cases ?named; cases ?times) (auto simp del: first_name.simps simp add: not_less)
qed

text \<open>The part of validity a transition cannot break: names, counters and times.\<close>

lemma runtime_valid_moved:
  assumes "runtime_valid rt" and "time_ok rt at" and "rt_Version rt \<noteq> max_int64"
    and "runtime_required nxt = runtime_required rt" and "rt_Sequence nxt = rt_Sequence rt"
    and "rt_CreatedAt nxt = rt_CreatedAt rt" and "rt_UpdatedAt nxt = utc at"
    and "rt_Version nxt = rt_Version rt + 1" and "runtime_status_valid (rt_Status nxt)"
    and "rt_StartedAt nxt \<in> {None, Some at, map_option utc (rt_StartedAt rt)}"
    and "rt_StoppedAt nxt \<in> {None, Some at, map_option utc (rt_StoppedAt rt)}"
    and "rt_RetiredAt nxt = map_option utc (rt_RetiredAt rt)"
    and "validateRuntimeState nxt = None"
  shows "runtime_valid nxt"
proof -
  note base = assms(1,2) [unfolded runtime_valid_iff time_ok_def]
  have created: "\<not> before at (rt_CreatedAt rt)"
    using base by (auto simp: go_time)
  have walls: "wall (rt_UpdatedAt nxt) = wall at"
    using assms(7) by simp
  have "\<not> outside_lifetime nxt (rt_StartedAt nxt)" and "\<not> outside_lifetime nxt (rt_StoppedAt nxt)"
    and "\<not> outside_lifetime nxt (rt_RetiredAt nxt)"
    using assms(6,10,11,12) base created walls
      outside_lifetime_moved [of rt "rt_StartedAt rt" at nxt]
      outside_lifetime_moved [of rt "rt_StoppedAt rt" at nxt]
      outside_lifetime_moved [of rt "rt_RetiredAt rt" at nxt]
      outside_lifetime_now [of at nxt]
    by auto
  then show ?thesis
    unfolding runtime_valid_iff
    using base assms created sint_succ [OF assms(3)]
    by (auto simp: go_time simp del: first_name.simps)
qed

lemma state_of_valid: "runtime_valid rt \<Longrightarrow> validateRuntimeState rt = None"
  unfolding runtime_valid_iff by blast

definition provider_ok :: "runtime \<Rightarrow> bool" where
  "provider_ok rt \<longleftrightarrow> (\<exists>ref. rt_ProviderInstanceRef rt = Some ref \<and> \<not> blank ref \<and> \<not> untrimmed ref)"

lemma provider_ok_of_valid:
  assumes "runtime_valid rt" and "rt_Status rt \<noteq> RuntimeAbsent" and "rt_Status rt \<noteq> RuntimeError"
  shows "provider_ok rt"
  using state_of_valid [OF assms(1)] assms(2,3)
  by (auto simp: validateRuntimeState_def provider_ok_def Let_def present_def
      split: option.splits if_splits)

text \<open>The observations each status asks for.\<close>

lemma state_without_route:
  assumes "provider_ok rt" and "rt_RetiredAt rt = None" and "rt_PrivateAddress rt = None"
    and "rt_BootID rt = None" and "rt_StartedAt rt \<noteq> None"
    and "rt_Status rt \<in> {RuntimeStarting, RuntimeStopping} \<and> rt_StoppedAt rt = None
         \<or> rt_Status rt = RuntimeStopped \<and> rt_StoppedAt rt \<noteq> None"
  shows "validateRuntimeState rt = None"
  using assms by (auto simp: validateRuntimeState_def provider_ok_def present_def)

lemma state_ready:
  assumes "provider_ok rt" and "rt_RetiredAt rt = None" and "rt_Status rt = RuntimeReady"
    and "rt_PrivateAddress rt = Some address" and "private_ipv4 address"
    and "rt_BootID rt = Some boot" and "\<not> blank boot" and "\<not> untrimmed boot"
    and "rt_StartedAt rt \<noteq> None" and "rt_StoppedAt rt = None"
  shows "validateRuntimeState rt = None"
  using assms private_ipv4_not_blank [of address]
  by (auto simp: validateRuntimeState_def provider_ok_def present_def)

lemma started_of_valid:
  assumes "runtime_valid rt" and "rt_Status rt \<in> {RuntimeStarting, RuntimeReady, RuntimeStopping}"
  shows "rt_StartedAt rt \<noteq> None \<and> rt_StoppedAt rt = None"
  using state_of_valid [OF assms(1)] assms(2)
  by (auto simp: validateRuntimeState_def Let_def split: option.splits if_splits)

lemma route_of_valid:
  assumes "runtime_valid rt" and "rt_Status rt \<noteq> RuntimeReady"
  shows "rt_PrivateAddress rt = None \<and> rt_BootID rt = None"
  using runtime_valid_route [OF assms(1)] assms(2) by auto

lemma validateRuntimeState_moved:
  "validateRuntimeState (nxt\<lparr>rt_UpdatedAt := u, rt_Version := v\<rparr>) = validateRuntimeState nxt"
  by (cases nxt) (simp only: validateRuntimeState_def runtime_snapshot.select_convs
      runtime_snapshot.update_convs)

text \<open>A validated snapshot with the next version is what \<open>finalizeRuntimeTransition\<close> returns.\<close>

lemma finalize_arrives:
  assumes "runtime_valid rt" and "time_ok rt at" and "rt_Version rt \<noteq> max_int64"
    and "runtime_required nxt = runtime_required rt" and "rt_Sequence nxt = rt_Sequence rt"
    and "rt_CreatedAt nxt = rt_CreatedAt rt" and "rt_Version nxt = rt_Version rt"
    and "rt_ProviderInstanceRef nxt = rt_ProviderInstanceRef rt"
    and "runtime_status_valid (rt_Status nxt)"
    and "rt_StartedAt nxt \<in> {None, Some at, map_option utc (rt_StartedAt rt)}"
    and "rt_StoppedAt nxt \<in> {None, Some at, map_option utc (rt_StoppedAt rt)}"
    and "rt_RetiredAt nxt = map_option utc (rt_RetiredAt rt)"
    and "validateRuntimeState nxt = None"
  shows "arrives rt (finalizeRuntimeTransition nxt at) at (rt_Status nxt)"
proof -
  let ?moved = "nxt\<lparr>rt_UpdatedAt := utc at, rt_Version := rt_Version nxt + 1\<rparr>"
  have "runtime_valid ?moved"
    using assms validateRuntimeState_moved by (intro runtime_valid_moved [OF assms(1-3)]) (simp_all add: runtime_required_def)
  then show ?thesis
    using assms by (simp add: arrives_def finalizeRuntimeTransition_Inr_iff)
qed

lemma runtime_transition_enabled:
  "runtime_valid rt \<Longrightarrow> time_ok rt at \<Longrightarrow> runtime_transition rt at = Inr (cloneRuntimeSnapshot rt)"
  by (simp add: runtime_transition_Inr_iff time_ok_def)

lemmas arrival_facts = runtime_transition_enabled runtime_required_def runtime_status_valid_def
  runtimeStatuses_def provider_ok_def validateCurrentRuntimeObservation_def

lemma BeginStop_arrives:
  assumes "runtime_valid rt" and "rt_Status rt = RuntimeReady" and "time_ok rt at"
    and "rt_Version rt \<noteq> max_int64"
  shows "arrives rt (BeginStop rt at) at RuntimeStopping"
proof -
  let ?nxt = "(cloneRuntimeSnapshot rt)\<lparr>rt_Status := RuntimeStopping, rt_PrivateAddress := None,
                rt_BootID := None\<rparr>"
  have "validateRuntimeState ?nxt = None"
    using assms(1,2) provider_ok_of_valid [OF assms(1)] runtime_valid_unretired [OF assms(1)]
      started_of_valid [OF assms(1)]
    by (intro state_without_route) (auto simp: provider_ok_def)
  then have "arrives rt (finalizeRuntimeTransition ?nxt at) at (rt_Status ?nxt)"
    using assms by (intro finalize_arrives) (auto simp: arrival_facts)
  then show ?thesis
    using assms by (simp add: BeginStop_def arrival_facts)
qed

lemma MarkStopped_arrives:
  assumes "runtime_valid rt" and "rt_Status rt = RuntimeStopping"
    and "time_ok rt (obs_ObservedAt observation)" and "rt_Version rt \<noteq> max_int64"
    and "rt_ProviderInstanceRef rt = Some (obs_ProviderInstanceRef observation)"
    and "obs_ExpectedVersion observation = rt_Version rt"
  shows "arrives rt (MarkStopped rt observation) (obs_ObservedAt observation) RuntimeStopped"
proof -
  let ?at = "obs_ObservedAt observation"
  let ?nxt = "(cloneRuntimeSnapshot rt)\<lparr>rt_Status := RuntimeStopped, rt_StoppedAt := Some ?at\<rparr>"
  have "validateRuntimeState ?nxt = None"
    using assms(1,2) provider_ok_of_valid [OF assms(1)] runtime_valid_unretired [OF assms(1)]
      started_of_valid [OF assms(1)] route_of_valid [OF assms(1)]
    by (intro state_without_route) (auto simp: provider_ok_def)
  then have "arrives rt (finalizeRuntimeTransition ?nxt ?at) ?at (rt_Status ?nxt)"
    using assms by (intro finalize_arrives) (auto simp: arrival_facts)
  then show ?thesis
    using assms by (simp add: MarkStopped_def arrival_facts)
qed

lemma BeginStart_arrives:
  assumes "runtime_valid rt" and "rt_Status rt \<in> {RuntimeProvisioning, RuntimeStopped}"
    and "time_ok rt at" and "rt_Version rt \<noteq> max_int64"
  shows "arrives rt (BeginStart rt at) at RuntimeStarting"
proof -
  let ?nxt = "(cloneRuntimeSnapshot rt)\<lparr>rt_Status := RuntimeStarting, rt_StartedAt := Some at,
      rt_StoppedAt := None, rt_PrivateAddress := None, rt_BootID := None\<rparr>"
  have "validateRuntimeState ?nxt = None"
    using assms(1,2) provider_ok_of_valid [OF assms(1)] runtime_valid_unretired [OF assms(1)]
    by (intro state_without_route) (auto simp: provider_ok_def)
  then have "arrives rt (finalizeRuntimeTransition ?nxt at) at (rt_Status ?nxt)"
    using assms by (intro finalize_arrives) (auto simp: arrival_facts)
  then show ?thesis
    using assms by (auto simp: BeginStart_def arrival_facts)
qed

lemma MarkReady_arrives:
  assumes "runtime_valid rt" and "rt_Status rt = RuntimeStarting"
    and "time_ok rt (ready_ObservedAt observation)" and "rt_Version rt \<noteq> max_int64"
    and "rt_ProviderInstanceRef rt = Some (ready_ProviderInstanceRef observation)"
    and "ready_ExpectedVersion observation = rt_Version rt"
    and "private_ipv4 (ready_PrivateAddress observation)"
    and "\<not> blank (ready_BootID observation)" and "\<not> untrimmed (ready_BootID observation)"
  shows "arrives rt (MarkReady rt observation) (ready_ObservedAt observation) RuntimeReady"
proof -
  let ?at = "ready_ObservedAt observation"
  let ?nxt = "(cloneRuntimeSnapshot rt)\<lparr>rt_Status := RuntimeReady,
      rt_BootID := Some (ready_BootID observation),
      rt_PrivateAddress := Some (ready_PrivateAddress observation)\<rparr>"
  have "validateRuntimeState ?nxt = None"
    using assms provider_ok_of_valid [OF assms(1)] runtime_valid_unretired [OF assms(1)]
      started_of_valid [OF assms(1)]
    by (intro state_ready) (auto simp: provider_ok_def)
  then have "arrives rt (finalizeRuntimeTransition ?nxt ?at) ?at (rt_Status ?nxt)"
    using assms by (intro finalize_arrives) (auto simp: arrival_facts)
  then show ?thesis
    using assms by (simp add: MarkReady_def arrival_facts)
qed

text \<open>A valid Runtime with its status, instance, version and update time spelled out.\<close>

definition stands :: "runtime \<Rightarrow> runtime_status \<Rightarrow> string \<Rightarrow> int64 \<Rightarrow> gotime \<Rightarrow> bool" where
  "stands rt status ref v t \<longleftrightarrow>
     runtime_valid rt \<and> rt_Status rt = status \<and> rt_ProviderInstanceRef rt = Some ref
     \<and> rt_Version rt = v \<and> wall (rt_UpdatedAt rt) = wall t"

lemma arrives_run:
  assumes "stands rt status ref v t" and "arrives rt (apply_runtime c rt) at status'"
  obtains rt' where "\<forall>cs. run_commands apply_runtime rt (c # cs) = run_commands apply_runtime rt' cs"
    and "stands rt' status' ref (v + 1) at"
proof -
  from assms obtain rt' where "apply_runtime c rt = Inr rt'" and "stands rt' status' ref (v + 1) at"
    by (auto simp: arrives_def stands_def)
  then show thesis by (intro that [of rt']) simp_all
qed

lemma stands_time_ok:
  "stands rt status ref v t \<Longrightarrow> 0 < wall t \<Longrightarrow> \<not> before at t \<Longrightarrow> time_ok rt at"
  by (auto simp: stands_def time_ok_def go_time)

lemma MarkStopped_stands:
  assumes "stands rt RuntimeStopping ref v t" and "time_ok rt at" and "v \<noteq> max_int64"
  shows "arrives rt (apply_runtime (CmdMarkStopped \<lparr>obs_ProviderInstanceRef = ref,
    obs_ExpectedVersion = v, obs_ObservedAt = at\<rparr>) rt) at RuntimeStopped"
  using assms MarkStopped_arrives [of rt "\<lparr>obs_ProviderInstanceRef = ref, obs_ExpectedVersion = v,
    obs_ObservedAt = at\<rparr>"] by (auto simp: stands_def)

lemma MarkReady_stands:
  assumes "stands rt RuntimeStarting ref v t" and "time_ok rt at" and "v \<noteq> max_int64"
    and "private_ipv4 address" and "\<not> blank boot" and "\<not> untrimmed boot"
  shows "arrives rt (apply_runtime (CmdMarkReady \<lparr>ready_ProviderInstanceRef = ref,
    ready_BootID = boot, ready_PrivateAddress = address, ready_ExpectedVersion = v,
    ready_ObservedAt = at\<rparr>) rt) at RuntimeReady"
  using assms MarkReady_arrives [of rt "\<lparr>ready_ProviderInstanceRef = ref, ready_BootID = boot,
    ready_PrivateAddress = address, ready_ExpectedVersion = v, ready_ObservedAt = at\<rparr>"]
  by (auto simp: stands_def)

lemma int64_room:
  assumes "sint (v :: int64) + 4 \<le> 9223372036854775807"
  shows "v \<noteq> max_int64" "v + 1 \<noteq> max_int64" "v + 1 + 1 \<noteq> max_int64" "v + 1 + 1 + 1 \<noteq> max_int64"
proof -
  have room: "w \<noteq> max_int64" "sint (w + 1) = sint w + 1" if "sint w < 9223372036854775807"
    for w :: int64
  proof -
    show "w \<noteq> max_int64" using that by (auto simp: sint_max_int64)
    then show "sint (w + 1) = sint w + 1" by (rule sint_succ)
  qed
  have 1: "sint (v + 1) = sint v + 1" using assms room(2) by simp
  then have 2: "sint (v + 1 + 1) = sint v + 2" using assms room(2) [of "v + 1"] by linarith
  then have 3: "sint (v + 1 + 1 + 1) = sint v + 3" using assms room(2) [of "v + 1 + 1"] by linarith
  show "v \<noteq> max_int64" "v + 1 \<noteq> max_int64" "v + 1 + 1 \<noteq> max_int64" "v + 1 + 1 + 1 \<noteq> max_int64"
    by (rule room(1), use assms 1 2 3 in linarith)+
qed

text \<open>
  A ready Runtime can be stopped and started again: with times that do not run backwards,
  observations of the current instance made against the version each step produced, a fresh boot
  identity and a private address, and a version not about to be exhausted, the four transitions all
  succeed and the Runtime is ready again, four versions later, on the same provider instance.
\<close>

lemma runtime_restart_succeeds:
  assumes "runtime_reachable rt" and "rt_Status rt = RuntimeReady"
    and "rt_ProviderInstanceRef rt = Some ref"
    and "sint (rt_Version rt) + 4 \<le> 9223372036854775807"
    and "0 < wall t1" and "\<not> before t1 (rt_UpdatedAt rt)" and "\<not> before t2 t1"
    and "\<not> before t3 t2" and "\<not> before t4 t3"
    and "\<not> blank boot" and "\<not> untrimmed boot" and "private_ipv4 address"
  shows "let v = rt_Version rt;
             rt' = run_commands apply_runtime rt
               [CmdBeginStop t1,
                CmdMarkStopped \<lparr>obs_ProviderInstanceRef = ref, obs_ExpectedVersion = v + 1,
                                obs_ObservedAt = t2\<rparr>,
                CmdBeginStart t3,
                CmdMarkReady \<lparr>ready_ProviderInstanceRef = ref, ready_BootID = boot,
                              ready_PrivateAddress = address, ready_ExpectedVersion = v + 3,
                              ready_ObservedAt = t4\<rparr>]
         in rt_Status rt' = RuntimeReady \<and> rt_ProviderInstanceRef rt' = Some ref
            \<and> rt_Version rt' = v + 4 \<and> wall (rt_UpdatedAt rt') = wall t4"
proof -
  let ?v = "rt_Version rt"
  let ?o2 = "\<lparr>obs_ProviderInstanceRef = ref, obs_ExpectedVersion = ?v + 1, obs_ObservedAt = t2\<rparr>"
  let ?o4 = "\<lparr>ready_ProviderInstanceRef = ref, ready_BootID = boot, ready_PrivateAddress = address,
              ready_ExpectedVersion = ?v + 1 + 1 + 1, ready_ObservedAt = t4\<rparr>"
  note room = int64_room [OF assms(4)]
  have times: "0 < wall t2" "0 < wall t3"
    using assms(5,7,8) by (auto simp: go_time)
  have 0: "stands rt RuntimeReady ref ?v (rt_UpdatedAt rt)"
    using assms(1-3) runtime_reachable_valid by (simp add: stands_def)
  have "time_ok rt t1"
    using assms(5,6) by (auto simp: time_ok_def go_time)
  then have "arrives rt (apply_runtime (CmdBeginStop t1) rt) t1 RuntimeStopping"
    using 0 room(1) by (simp add: stands_def BeginStop_arrives)
  with 0 obtain r1 where run1: "\<forall>cs. run_commands apply_runtime rt (CmdBeginStop t1 # cs)
      = run_commands apply_runtime r1 cs" and 1: "stands r1 RuntimeStopping ref (?v + 1) t1"
    by (rule arrives_run)
  have "arrives r1 (apply_runtime (CmdMarkStopped ?o2) r1) t2 RuntimeStopped"
    by (rule MarkStopped_stands [OF 1 stands_time_ok [OF 1 assms(5,7)] room(2)])
  with 1 obtain r2 where run2: "\<forall>cs. run_commands apply_runtime r1 (CmdMarkStopped ?o2 # cs)
      = run_commands apply_runtime r2 cs" and 2: "stands r2 RuntimeStopped ref (?v + 1 + 1) t2"
    by (rule arrives_run)
  have "arrives r2 (apply_runtime (CmdBeginStart t3) r2) t3 RuntimeStarting"
    using 2 room(3) stands_time_ok [OF 2 times(1) assms(8)]
    by (simp add: stands_def BeginStart_arrives)
  with 2 obtain r3 where run3: "\<forall>cs. run_commands apply_runtime r2 (CmdBeginStart t3 # cs)
      = run_commands apply_runtime r3 cs" and 3: "stands r3 RuntimeStarting ref (?v + 1 + 1 + 1) t3"
    by (rule arrives_run)
  have "arrives r3 (apply_runtime (CmdMarkReady ?o4) r3) t4 RuntimeReady"
    by (rule MarkReady_stands [OF 3 stands_time_ok [OF 3 times(2) assms(9)] room(4) assms(12,10,11)])
  with 3 obtain r4 where run4: "\<forall>cs. run_commands apply_runtime r3 (CmdMarkReady ?o4 # cs)
      = run_commands apply_runtime r4 cs" and 4: "stands r4 RuntimeReady ref (?v + 1 + 1 + 1 + 1) t4"
    by (rule arrives_run)
  have sums: "?v + 3 = ?v + 1 + 1 + 1" "?v + 4 = ?v + 1 + 1 + 1 + 1" by simp_all
  show ?thesis
    using 4 unfolding Let_def sums run1 [rule_format] run2 [rule_format] run3 [rule_format]
      run4 [rule_format] run_commands.simps(1) stands_def by blast
qed

end
