(* ===== verification/Autostop_Policy.thy ===== *)
theory Autostop_Policy
  imports Prelude
begin

text \<open>
  The Auto-stop Policy of \<open>libs/domain/autostop.go\<close>, the stop reasons of
  \<open>runtime_stop_reason.go\<close> and the audit evidence of \<open>runtime_stop_audit.go\<close>.  A policy is
  evaluated against one Activity Snapshot of a Runtime; the theorem says exactly when the snapshot
  counts towards stopping the Runtime.
\<close>

section \<open>Data\<close>

datatype auto_stop_mode =
    AutoStopWhenDisconnected
  | AutoStopWhenAgentsFinish
  | AutoStopWhenFullyIdle
  | AutoStopManual
  | AutoStopOtherMode string

record auto_stop_policy_snapshot =
  pol_ID :: string
  pol_EnvironmentID :: string
  pol_Mode :: auto_stop_mode
  pol_GracePeriodSeconds :: int64

type_synonym auto_stop_policy = auto_stop_policy_snapshot

record auto_stop_policy_refresh =
  refresh_EnvironmentID :: string
  refresh_Generation :: uint64

datatype auto_stop_conflict =
    AutoStopConflictSetup
  | AutoStopConflictMaterialization
  | AutoStopConflictStart
  | AutoStopConflictReplace
  | AutoStopConflictRestore
  | AutoStopOtherConflict string

record auto_stop_activity_snapshot =
  act_RuntimeID :: string
  act_Sequence :: uint64
  act_ObservedAt :: gotime
  act_SSHConnections :: int64
  act_IDEConnections :: int64
  act_CodexProcesses :: int64
  act_ClaudeProcesses :: int64
  act_ProtectedProcesses :: int64
  act_SelectedContainers :: int64
  act_UnknownUserProcesses :: int64

record auto_stop_evaluation_request =
  ev_RuntimeID :: string
  ev_PreviousSnapshotSequence :: uint64
  ev_FreshAfter :: gotime
  ev_Snapshot :: "auto_stop_activity_snapshot option"
  ev_Conflicts :: "auto_stop_conflict list"

datatype auto_stop_decision_reason =
    AutoStopNoReason
  | AutoStopQualifies
  | AutoStopBlockedActivity
  | AutoStopBlockedManual
  | AutoStopBlockedMissingSnapshot
  | AutoStopBlockedStaleSnapshot
  | AutoStopBlockedStaleSequence
  | AutoStopBlockedRuntimeChanged
  | AutoStopBlockedConflict

record auto_stop_decision =
  dec_Qualifies :: bool
  dec_Reason :: auto_stop_decision_reason
  dec_SnapshotSequence :: uint64

datatype auto_stop_error =
    PolicyIDRequired
  | PolicyEnvironmentIDRequired
  | PolicyUnknownMode auto_stop_mode
  | PolicyGraceRange
  | EvaluateRequestIncomplete
  | EvaluateUnknownConflict auto_stop_conflict
  | ActivityIncomplete
  | ActivityNegativeCount

datatype runtime_stop_reason =
    RuntimeStopManual
  | RuntimeStopAutoStop
  | RuntimeStopBilling
  | RuntimeStopRepair
  | RuntimeStopResize
  | RuntimeStopOther string

record runtime_stop_audit_evidence =
  audit_Policy :: auto_stop_policy_snapshot
  audit_PolicyGeneration :: uint64
  audit_QualifyingSnapshots :: "auto_stop_activity_snapshot list"
  audit_GraceStartedAt :: gotime
  audit_GraceExpiredAt :: gotime
  audit_GracePeriodSeconds :: int64

section \<open>Operations\<close>

definition NewAutoStopPolicy ::
  "string \<Rightarrow> string \<Rightarrow> auto_stop_mode \<Rightarrow> int64 \<Rightarrow> auto_stop_error + auto_stop_policy" where
  "NewAutoStopPolicy policyID environmentID mode gracePeriodSeconds =
     (if policyID = [] then Inl PolicyIDRequired
      else if environmentID = [] then Inl PolicyEnvironmentIDRequired
      else if mode \<notin> {AutoStopWhenDisconnected, AutoStopWhenAgentsFinish, AutoStopWhenFullyIdle,
                       AutoStopManual}
      then Inl (PolicyUnknownMode mode)
      else if sint gracePeriodSeconds < 0 \<or> sint gracePeriodSeconds > 86400
      then Inl PolicyGraceRange
      else Inr \<lparr>pol_ID = policyID, pol_EnvironmentID = environmentID, pol_Mode = mode,
                pol_GracePeriodSeconds = gracePeriodSeconds\<rparr>)"

fun auto_stop_conflict_valid :: "auto_stop_conflict \<Rightarrow> bool" where
  "auto_stop_conflict_valid (AutoStopOtherConflict s) = False"
| "auto_stop_conflict_valid _ = True"

fun runtime_stop_reason_Valid :: "runtime_stop_reason \<Rightarrow> bool" where
  "runtime_stop_reason_Valid (RuntimeStopOther s) = False"
| "runtime_stop_reason_Valid _ = True"

definition activity_counts :: "auto_stop_activity_snapshot \<Rightarrow> int64 list" where
  "activity_counts snapshot =
     [act_SSHConnections snapshot, act_IDEConnections snapshot, act_CodexProcesses snapshot,
      act_ClaudeProcesses snapshot, act_ProtectedProcesses snapshot,
      act_SelectedContainers snapshot, act_UnknownUserProcesses snapshot]"

definition validateAutoStopActivity :: "auto_stop_activity_snapshot \<Rightarrow> auto_stop_error option" where
  "validateAutoStopActivity snapshot =
     (if act_RuntimeID snapshot = [] \<or> act_Sequence snapshot = 0 \<or> is_zero (act_ObservedAt snapshot)
      then Some ActivityIncomplete
      else if list_ex (\<lambda>count. sint count < 0) (activity_counts snapshot)
      then Some ActivityNegativeCount
      else None)"

definition blocked :: "auto_stop_decision_reason \<Rightarrow> uint64 \<Rightarrow> auto_stop_decision" where
  "blocked reason sequence =
     \<lparr>dec_Qualifies = False, dec_Reason = reason, dec_SnapshotSequence = sequence\<rparr>"

definition mode_qualifies :: "auto_stop_mode \<Rightarrow> auto_stop_activity_snapshot \<Rightarrow> bool" where
  "mode_qualifies mode snapshot =
     (case mode of
        AutoStopWhenDisconnected \<Rightarrow> act_SSHConnections snapshot = 0 \<and> act_IDEConnections snapshot = 0
      | AutoStopWhenAgentsFinish \<Rightarrow> act_CodexProcesses snapshot = 0 \<and> act_ClaudeProcesses snapshot = 0
      | AutoStopWhenFullyIdle \<Rightarrow>
          act_SSHConnections snapshot = 0 \<and> act_IDEConnections snapshot = 0
          \<and> act_CodexProcesses snapshot = 0 \<and> act_ClaudeProcesses snapshot = 0
          \<and> act_ProtectedProcesses snapshot = 0 \<and> act_SelectedContainers snapshot = 0
          \<and> act_UnknownUserProcesses snapshot = 0
      | _ \<Rightarrow> False)"

definition Evaluate ::
  "auto_stop_policy \<Rightarrow> auto_stop_evaluation_request \<Rightarrow> auto_stop_error + auto_stop_decision" where
  "Evaluate policy request =
     (if pol_Mode policy = AutoStopManual then Inr (blocked AutoStopBlockedManual 0)
      else if ev_RuntimeID request = [] \<or> is_zero (ev_FreshAfter request)
      then Inl EvaluateRequestIncomplete
      else case ev_Snapshot request of
        None \<Rightarrow> Inr (blocked AutoStopBlockedMissingSnapshot 0)
      | Some snapshot \<Rightarrow>
          (case validateAutoStopActivity snapshot of
             Some err \<Rightarrow> Inl err
           | None \<Rightarrow>
               if act_RuntimeID snapshot \<noteq> ev_RuntimeID request
               then Inr (blocked AutoStopBlockedRuntimeChanged (act_Sequence snapshot))
               else if act_Sequence snapshot \<le> ev_PreviousSnapshotSequence request
               then Inr (blocked AutoStopBlockedStaleSequence (act_Sequence snapshot))
               else if before (act_ObservedAt snapshot) (ev_FreshAfter request)
               then Inr (blocked AutoStopBlockedStaleSnapshot (act_Sequence snapshot))
               else case find (\<lambda>c. \<not> auto_stop_conflict_valid c) (ev_Conflicts request) of
                 Some conflict \<Rightarrow> Inl (EvaluateUnknownConflict conflict)
               | None \<Rightarrow>
                   if ev_Conflicts request \<noteq> []
                   then Inr (blocked AutoStopBlockedConflict (act_Sequence snapshot))
                   else if \<not> mode_qualifies (pol_Mode policy) snapshot
                   then Inr (blocked AutoStopBlockedActivity (act_Sequence snapshot))
                   else Inr \<lparr>dec_Qualifies = True, dec_Reason = AutoStopQualifies,
                             dec_SnapshotSequence = act_Sequence snapshot\<rparr>))"

section \<open>What counts as idle\<close>

text \<open>
  The activity each mode watches, as the product describes the modes: the connections, the agents,
  or everything.  A mode that watches nothing never stops a Runtime.
\<close>

datatype watched = Connections | Agents | Everything | Nothing

fun watches :: "auto_stop_mode \<Rightarrow> watched" where
  "watches AutoStopWhenDisconnected = Connections"
| "watches AutoStopWhenAgentsFinish = Agents"
| "watches AutoStopWhenFullyIdle = Everything"
| "watches _ = Nothing"

definition idle :: "watched \<Rightarrow> auto_stop_activity_snapshot \<Rightarrow> bool" where
  "idle w snapshot \<longleftrightarrow>
     (case w of
        Connections \<Rightarrow> (\<forall>count \<in> set (take 2 (activity_counts snapshot)). count = 0)
      | Agents \<Rightarrow> (\<forall>count \<in> set (take 2 (drop 2 (activity_counts snapshot))). count = 0)
      | Everything \<Rightarrow> (\<forall>count \<in> set (activity_counts snapshot). count = 0)
      | Nothing \<Rightarrow> False)"

lemma mode_qualifies_iff_idle: "mode_qualifies mode snapshot \<longleftrightarrow> idle (watches mode) snapshot"
  by (cases mode) (auto simp: mode_qualifies_def idle_def activity_counts_def)

text \<open>The Snapshot a request may be decided on.\<close>

definition fresh_evidence :: "auto_stop_evaluation_request \<Rightarrow> auto_stop_activity_snapshot \<Rightarrow> bool" where
  "fresh_evidence request snapshot \<longleftrightarrow>
     ev_Snapshot request = Some snapshot \<and> validateAutoStopActivity snapshot = None
     \<and> act_RuntimeID snapshot = ev_RuntimeID request
     \<and> ev_PreviousSnapshotSequence request < act_Sequence snapshot
     \<and> \<not> before (act_ObservedAt snapshot) (ev_FreshAfter request)"

lemma Evaluate_qualifies_cases:
  assumes "Evaluate policy request = Inr d" and "dec_Qualifies d"
  obtains snapshot where "fresh_evidence request snapshot" and "ev_Conflicts request = []"
    and "idle (watches (pol_Mode policy)) snapshot" and "dec_SnapshotSequence d = act_Sequence snapshot"
    and "\<not> is_zero (ev_FreshAfter request)" and "ev_RuntimeID request \<noteq> []"
    and "dec_Reason d = AutoStopQualifies"
  using assms unfolding Evaluate_def
  by (auto simp: blocked_def fresh_evidence_def mode_qualifies_iff_idle not_le
      split: if_splits option.splits)

lemma Evaluate_qualifies_intro:
  assumes "fresh_evidence request snapshot" and "ev_Conflicts request = []"
    and "idle (watches (pol_Mode policy)) snapshot" and "\<not> is_zero (ev_FreshAfter request)"
  shows "Evaluate policy request =
    Inr \<lparr>dec_Qualifies = True, dec_Reason = AutoStopQualifies,
         dec_SnapshotSequence = act_Sequence snapshot\<rparr>"
proof -
  have "pol_Mode policy \<noteq> AutoStopManual"
    using assms(3) by (auto simp: idle_def)
  moreover have "ev_RuntimeID request \<noteq> []"
    using assms(1) by (auto simp: fresh_evidence_def validateAutoStopActivity_def split: if_splits)
  moreover have "mode_qualifies (pol_Mode policy) snapshot"
    using assms(3) by (simp add: mode_qualifies_iff_idle)
  ultimately show ?thesis
    using assms unfolding Evaluate_def fresh_evidence_def by (auto dest: leD)
qed

text \<open>
  An evaluation counts towards stopping the Runtime exactly when the request carries a valid
  Activity Snapshot of that Runtime, newer than the last one seen and not older than the freshness
  threshold, no conflicting Operation is in progress, and everything the mode watches is idle; the
  decision then names the sequence of that Snapshot.  Manual and unknown modes never qualify.
\<close>

lemma evaluate_qualifies_iff:
  "(\<exists>d. Evaluate policy request = Inr d \<and> dec_Qualifies d \<and> dec_SnapshotSequence d = n) \<longleftrightarrow>
   (\<exists>snapshot. fresh_evidence request snapshot \<and> act_Sequence snapshot = n
      \<and> ev_Conflicts request = [] \<and> \<not> is_zero (ev_FreshAfter request)
      \<and> idle (watches (pol_Mode policy)) snapshot)"
proof
  assume "\<exists>d. Evaluate policy request = Inr d \<and> dec_Qualifies d \<and> dec_SnapshotSequence d = n"
  then show "\<exists>snapshot. fresh_evidence request snapshot \<and> act_Sequence snapshot = n
      \<and> ev_Conflicts request = [] \<and> \<not> is_zero (ev_FreshAfter request)
      \<and> idle (watches (pol_Mode policy)) snapshot"
    by (auto elim!: Evaluate_qualifies_cases)
next
  assume "\<exists>snapshot. fresh_evidence request snapshot \<and> act_Sequence snapshot = n
      \<and> ev_Conflicts request = [] \<and> \<not> is_zero (ev_FreshAfter request)
      \<and> idle (watches (pol_Mode policy)) snapshot"
  then show "\<exists>d. Evaluate policy request = Inr d \<and> dec_Qualifies d \<and> dec_SnapshotSequence d = n"
    using Evaluate_qualifies_intro by fastforce
qed

end
