(* ===== verification/Components.thy ===== *)
theory Components
  imports Prelude
begin

text \<open>
  Components, the independently updateable items of a Capsule (\<open>libs/domain/component.go\<close>), and
  the upgrade policy of an Environment with the decision whether a resolved candidate may be applied
  without a user (\<open>libs/domain/upgrade_policy.go\<close>).
\<close>

section \<open>Content digests\<close>

text \<open>\<open>contentDigestPattern\<close> of \<open>project_seed.go\<close>: \<open>^sha256:[a-f0-9]{64}$\<close>.\<close>

definition is_lower_hex :: "char \<Rightarrow> bool" where
  "is_lower_hex c \<longleftrightarrow> c \<in> set ''0123456789abcdef''"

definition contentDigestPattern :: "bytes \<Rightarrow> bool" where
  "contentDigestPattern s =
     (case strip_prefix ''sha256:'' s of
        None \<Rightarrow> False
      | Some hex \<Rightarrow> length hex = 64 \<and> list_all is_lower_hex hex)"

section \<open>Component data\<close>

datatype component_type =
    ComponentConfig
  | ComponentSkill
  | ComponentCommand
  | ComponentSubagent
  | ComponentHook
  | ComponentIntegration
  | ComponentPermissionPolicy
  | ComponentTemplate
  | ComponentExtension
  | ComponentOtherType string

fun component_type_string :: "component_type \<Rightarrow> string" where
  "component_type_string ComponentConfig = ''config''"
| "component_type_string ComponentSkill = ''skill''"
| "component_type_string ComponentCommand = ''command''"
| "component_type_string ComponentSubagent = ''subagent''"
| "component_type_string ComponentHook = ''hook''"
| "component_type_string ComponentIntegration = ''integration''"
| "component_type_string ComponentPermissionPolicy = ''permission-policy''"
| "component_type_string ComponentTemplate = ''template''"
| "component_type_string ComponentExtension = ''extension''"
| "component_type_string (ComponentOtherType s) = s"

datatype component_scope = ScopeUser | ScopeProject | ScopeOther string

datatype trust_class = TrustDeclarative | TrustExecutable | TrustPermission | TrustOther string

text \<open>
  A slice whose encoding distinguishes \<open>nil\<close> from empty is an optional list.  A Go map is an
  association list in the order its iteration happens to take; the theorems hold for every order.
\<close>

type_synonym slice = "string list option"

definition elems :: "slice \<Rightarrow> string list" where
  "elems s = (case s of None \<Rightarrow> [] | Some xs \<Rightarrow> xs)"

record component_requirements =
  reqs_Commands :: slice
  reqs_Secrets :: slice

record component =
  com_ID :: string
  com_Type :: component_type
  com_MediaType :: string
  com_Digest :: string
  com_SizeBytes :: int64
  com_Scope :: component_scope
  com_TrustClass :: trust_class
  com_Requirements :: component_requirements
  com_Content :: bytes
  com_Provenance :: "(string \<times> string) list"

datatype component_error =
    ComponentIDRequired
  | ComponentTypeInvalid component_type
  | ComponentIDNotQualified
  | ComponentMediaTypeRequired
  | ComponentDigestInvalid
  | ComponentSizeNegative
  | ComponentScopeInvalid component_scope
  | ComponentTrustInvalid trust_class
  | ComponentTrustRequired component_type trust_class trust_class
  | ComponentCommandsEmpty
  | ComponentSecretsEmpty

section \<open>Validation\<close>

fun component_type_Valid :: "component_type \<Rightarrow> bool" where
  "component_type_Valid (ComponentOtherType s) = False"
| "component_type_Valid _ = True"

fun component_scope_Valid :: "component_scope \<Rightarrow> bool" where
  "component_scope_Valid ScopeUser = True"
| "component_scope_Valid ScopeProject = True"
| "component_scope_Valid (ScopeOther s) = False"

fun trust_class_Valid :: "trust_class \<Rightarrow> bool" where
  "trust_class_Valid (TrustOther s) = False"
| "trust_class_Valid _ = True"

fun requiredTrustClass :: "component_type \<Rightarrow> trust_class option" where
  "requiredTrustClass ComponentHook = Some TrustExecutable"
| "requiredTrustClass ComponentExtension = Some TrustExecutable"
| "requiredTrustClass ComponentPermissionPolicy = Some TrustPermission"
| "requiredTrustClass _ = None"

text \<open>\<open>strings.Cut(s, ":")\<close>: the parts around the first colon, if there is one.\<close>

fun cut_colon :: "bytes \<Rightarrow> (bytes \<times> bytes) option" where
  "cut_colon [] = None"
| "cut_colon (c # s) =
     (if c = CHR '':'' then Some ([], s)
      else map_option (\<lambda>(before, after). (c # before, after)) (cut_colon s))"

lemma cut_colon_Some: "cut_colon s = Some (p, q) \<Longrightarrow> s = p @ CHR '':'' # q \<and> CHR '':'' \<notin> set p"
  by (induction s arbitrary: p) (auto split: if_splits)

definition id_qualified :: "component \<Rightarrow> bool" where
  "id_qualified component =
     (case cut_colon (com_ID component) of
        None \<Rightarrow> False
      | Some (prefix, suffix) \<Rightarrow>
          prefix = component_type_string (com_Type component) \<and> \<not> blank suffix
          \<and> \<not> list_ex (\<lambda>c. c \<in> {CHR 0x20, CHR 0x09, CHR 0x0D, CHR 0x0A}) (com_ID component))"

definition Validate :: "component \<Rightarrow> component_error option" where
  "Validate component =
     (if blank (com_ID component) then Some ComponentIDRequired
      else if \<not> component_type_Valid (com_Type component)
      then Some (ComponentTypeInvalid (com_Type component))
      else if \<not> id_qualified component then Some ComponentIDNotQualified
      else if blank (com_MediaType component) then Some ComponentMediaTypeRequired
      else if \<not> contentDigestPattern (com_Digest component) then Some ComponentDigestInvalid
      else if sint (com_SizeBytes component) < 0 then Some ComponentSizeNegative
      else if \<not> component_scope_Valid (com_Scope component)
      then Some (ComponentScopeInvalid (com_Scope component))
      else if \<not> trust_class_Valid (com_TrustClass component)
      then Some (ComponentTrustInvalid (com_TrustClass component))
      else case requiredTrustClass (com_Type component) of
        Some required \<Rightarrow>
          if com_TrustClass component \<noteq> required
          then Some (ComponentTrustRequired (com_Type component) required (com_TrustClass component))
          else if list_ex blank (elems (reqs_Commands (com_Requirements component)))
          then Some ComponentCommandsEmpty
          else if list_ex blank (elems (reqs_Secrets (com_Requirements component)))
          then Some ComponentSecretsEmpty
          else None
      | None \<Rightarrow>
          if list_ex blank (elems (reqs_Commands (com_Requirements component)))
          then Some ComponentCommandsEmpty
          else if list_ex blank (elems (reqs_Secrets (com_Requirements component)))
          then Some ComponentSecretsEmpty
          else None)"

definition NewComponent :: "component \<Rightarrow> component_error + component" where
  "NewComponent component =
     (case Validate component of Some err \<Rightarrow> Inl err | None \<Rightarrow> Inr component)"

section \<open>Upgrade policy\<close>

datatype upgrade_policy = UpgradeManual | UpgradeNotify | UpgradeAutoSafe | UpgradeOther string

fun upgrade_policy_Valid :: "upgrade_policy \<Rightarrow> bool" where
  "upgrade_policy_Valid (UpgradeOther s) = False"
| "upgrade_policy_Valid _ = True"

record managed_target_state =
  mts_ComponentID :: string
  mts_DesiredDigest :: string
  mts_LastAppliedDigest :: string
  mts_ObservedDigest :: string

record auto_safe_plan =
  asp_ManagedTargets :: "managed_target_state list"
  asp_ManagedTargetsClean :: bool
  asp_ExecutableDigestChanged :: bool
  asp_PermissionChanged :: bool
  asp_IntegrationChanged :: bool
  asp_CredentialRequirementChanged :: bool
  asp_HasConflicts :: bool

record auto_safe_decision =
  asd_Applyable :: bool
  asd_Reason :: string

fun ManagedTargetsAreClean :: "managed_target_state list \<Rightarrow> bool" where
  "ManagedTargetsAreClean [] = True"
| "ManagedTargetsAreClean (state # states) =
     (if blank (mts_ComponentID state) \<or> blank (mts_DesiredDigest state)
         \<or> blank (mts_LastAppliedDigest state) \<or> blank (mts_ObservedDigest state)
      then False
      else if mts_ObservedDigest state \<noteq> mts_LastAppliedDigest state then False
      else ManagedTargetsAreClean states)"

definition EvaluateAutoSafe :: "auto_safe_plan \<Rightarrow> auto_safe_decision" where
  "EvaluateAutoSafe plan =
     (if \<not> ManagedTargetsAreClean (asp_ManagedTargets plan)
      then \<lparr>asd_Applyable = False, asd_Reason = ''managed_targets_not_clean''\<rparr>
      else if asp_ExecutableDigestChanged plan
      then \<lparr>asd_Applyable = False, asd_Reason = ''executable_digest_changed''\<rparr>
      else if asp_PermissionChanged plan
      then \<lparr>asd_Applyable = False, asd_Reason = ''permission_changed''\<rparr>
      else if asp_IntegrationChanged plan
      then \<lparr>asd_Applyable = False, asd_Reason = ''integration_changed''\<rparr>
      else if asp_CredentialRequirementChanged plan
      then \<lparr>asd_Applyable = False, asd_Reason = ''credential_requirement_changed''\<rparr>
      else if asp_HasConflicts plan
      then \<lparr>asd_Applyable = False, asd_Reason = ''composition_conflict''\<rparr>
      else \<lparr>asd_Applyable = True, asd_Reason = []\<rparr>)"

definition IsAutoSafeApplyable :: "auto_safe_plan \<Rightarrow> bool" where
  "IsAutoSafeApplyable plan = asd_Applyable (EvaluateAutoSafe plan)"

section \<open>Facts\<close>

lemma component_type_string_no_colon:
  "component_type_Valid t \<Longrightarrow> CHR '':'' \<notin> set (component_type_string t)"
  by (cases t) simp_all

lemma component_type_string_inj:
  "component_type_Valid t \<Longrightarrow> component_type_Valid u
   \<Longrightarrow> component_type_string t = component_type_string u \<longleftrightarrow> t = u"
  by (cases t; cases u) simp_all

lemma Validate_None_facts:
  assumes "Validate component = None"
  shows "component_type_Valid (com_Type component) \<and> id_qualified component
    \<and> contentDigestPattern (com_Digest component) \<and> 0 \<le> sint (com_SizeBytes component)
    \<and> trust_class_Valid (com_TrustClass component) \<and> component_scope_Valid (com_Scope component)
    \<and> (\<forall>required. requiredTrustClass (com_Type component) = Some required \<longrightarrow>
         com_TrustClass component = required)"
  using assms by (auto simp: Validate_def split: if_splits option.splits)

lemma valid_same_type:
  assumes "Validate a = None" and "Validate b = None" and "com_ID a = com_ID b"
  shows "com_Type a = com_Type b"
proof -
  note facts = Validate_None_facts [OF assms(1)] Validate_None_facts [OF assms(2)]
  have "component_type_string (com_Type a) = component_type_string (com_Type b)"
    using facts assms(3) by (auto simp: id_qualified_def split: option.splits)
  with facts show ?thesis
    using component_type_string_inj by blast
qed

lemma ManagedTargetsAreClean_iff:
  "ManagedTargetsAreClean states \<longleftrightarrow>
     (\<forall>state \<in> set states.
        \<not> blank (mts_ComponentID state) \<and> \<not> blank (mts_DesiredDigest state)
        \<and> \<not> blank (mts_LastAppliedDigest state) \<and> \<not> blank (mts_ObservedDigest state)
        \<and> mts_ObservedDigest state = mts_LastAppliedDigest state)"
  by (induction states) auto

text \<open>
  Component IDs are type-qualified: two validated Components with the same ID have the same
  type, and when that type prescribes a trust class (hooks and extensions run code, permission
  policies grant) they have that trust class, so an ID never hides a less trusted kind of content.
\<close>

lemma component_id_determines_type:
  assumes "NewComponent a = Inr a'" and "NewComponent b = Inr b'" and "com_ID a' = com_ID b'"
  shows "com_Type a' = com_Type b'
    \<and> (\<forall>required. requiredTrustClass (com_Type a') = Some required \<longrightarrow>
         com_TrustClass a' = required \<and> com_TrustClass b' = required)"
proof -
  from assms(1,2) have valid: "Validate a = None" "Validate b = None" "a' = a" "b' = b"
    by (auto simp: NewComponent_def split: option.splits)
  with assms(3) have "com_Type a = com_Type b"
    using valid_same_type by blast
  with Validate_None_facts [OF valid(1)] Validate_None_facts [OF valid(2)] valid(3,4) show ?thesis
    by auto
qed

definition sample_component :: component where
  "sample_component =
     \<lparr>com_ID = ''hook:fmt'', com_Type = ComponentHook, com_MediaType = ''text/plain'',
      com_Digest = ''sha256:'' @ replicate 64 (CHR ''a''), com_SizeBytes = 10,
      com_Scope = ScopeUser, com_TrustClass = TrustExecutable,
      com_Requirements = \<lparr>reqs_Commands = None, reqs_Secrets = None\<rparr>,
      com_Content = [], com_Provenance = []\<rparr>"

lemma sample_component_valid: "NewComponent sample_component = Inr sample_component"
  by (simp add: NewComponent_def Validate_def sample_component_def id_qualified_def
      contentDigestPattern_def is_lower_hex_def elems_def list_all_iff)

text \<open>
  A candidate is applied without a user exactly when every managed target is fully identified
  and still holds what was last applied, and the candidate changes no executable digest, permission,
  integration or credential requirement and has no composition conflict; the caller's own claim that
  the targets are clean is ignored.
\<close>

lemma auto_safe_iff:
  "IsAutoSafeApplyable plan \<longleftrightarrow>
     (\<forall>state \<in> set (asp_ManagedTargets plan).
        (\<forall>name \<in> {mts_ComponentID state, mts_DesiredDigest state, mts_LastAppliedDigest state,
                  mts_ObservedDigest state}. \<not> blank name)
        \<and> mts_ObservedDigest state = mts_LastAppliedDigest state)
     \<and> \<not> (asp_ExecutableDigestChanged plan \<or> asp_PermissionChanged plan
          \<or> asp_IntegrationChanged plan \<or> asp_CredentialRequirementChanged plan
          \<or> asp_HasConflicts plan)"
  by (auto simp: IsAutoSafeApplyable_def EvaluateAutoSafe_def ManagedTargetsAreClean_iff)

end
