(* ===== verification/Encodings.thy ===== *)
theory Encodings
  imports Components
begin

text \<open>
  The parts of Go's standard library that content addresses rest on: \<open>crypto/sha256\<close>, the
  \<open>%x\<close> verb, and what \<open>encoding/json\<close> writes for strings, lists and objects.
\<close>

unbundle bit_operations_syntax

section \<open>SHA-256\<close>

type_synonym word32 = "32 word"

definition rotr32 :: "nat \<Rightarrow> word32 \<Rightarrow> word32" where
  "rotr32 n x = push_bit (32 - n) x OR drop_bit n x"

text \<open>
  The round constants and the initial state, the leading fractional bits of the cube and square
  roots of the first primes, in decimal.
\<close>

definition sha_K :: "word32 list" where
  "sha_K =
     [1116352408, 1899447441, 3049323471, 3921009573, 961987163, 1508970993, 2453635748, 2870763221,
      3624381080, 310598401, 607225278, 1426881987, 1925078388, 2162078206, 2614888103, 3248222580,
      3835390401, 4022224774, 264347078, 604807628, 770255983, 1249150122, 1555081692, 1996064986,
      2554220882, 2821834349, 2952996808, 3210313671, 3336571891, 3584528711, 113926993, 338241895,
      666307205, 773529912, 1294757372, 1396182291, 1695183700, 1986661051, 2177026350, 2456956037,
      2730485921, 2820302411, 3259730800, 3345764771, 3516065817, 3600352804, 4094571909, 275423344,
      430227734, 506948616, 659060556, 883997877, 958139571, 1322822218, 1537002063, 1747873779,
      1955562222, 2024104815, 2227730452, 2361852424, 2428436474, 2756734187, 3204031479, 3329325298]"

definition sha_init :: "word32 list" where
  "sha_init =
     [1779033703, 3144134277, 1013904242, 2773480762, 1359893119, 2600822924, 528734635, 1541459225]"

text \<open>The bytes of a number, most significant first.\<close>

definition be_bytes :: "nat \<Rightarrow> nat \<Rightarrow> bytes" where
  "be_bytes count n = map (\<lambda>i. char_of (n div 256 ^ (count - 1 - i))) [0..<count]"

definition sha_pad :: "bytes \<Rightarrow> bytes" where
  "sha_pad m =
     m @ CHR 0x80 # replicate ((119 - length m mod 64) mod 64) (CHR 0x00)
       @ be_bytes 8 (8 * length m)"

fun be_word :: "bytes \<Rightarrow> word32" where
  "be_word [] = 0"
| "be_word (c # s) = push_bit (8 * length s) (of_char c) OR be_word s"

fun block_words :: "bytes \<Rightarrow> word32 list" where
  "block_words (a # b # c # d # s) = be_word [a, b, c, d] # block_words s"
| "block_words _ = []"

text \<open>The message schedule, latest word first.\<close>

fun sha_schedule :: "nat \<Rightarrow> word32 list \<Rightarrow> word32 list" where
  "sha_schedule 0 ws = ws"
| "sha_schedule (Suc n) ws =
     (let w2 = ws ! 1; w7 = ws ! 6; w15 = ws ! 14; w16 = ws ! 15;
          s1 = rotr32 17 w2 XOR rotr32 19 w2 XOR drop_bit 10 w2;
          s0 = rotr32 7 w15 XOR rotr32 18 w15 XOR drop_bit 3 w15
      in sha_schedule n ((s1 + w7 + s0 + w16) # ws))"

fun sha_round :: "word32 list \<Rightarrow> word32 \<times> word32 \<Rightarrow> word32 list" where
  "sha_round [a, b, c, d, e, f, g, h] (k, w) =
     (let s1 = rotr32 6 e XOR rotr32 11 e XOR rotr32 25 e;
          ch = (e AND f) XOR ((NOT e) AND g);
          t1 = h + s1 + ch + k + w;
          s0 = rotr32 2 a XOR rotr32 13 a XOR rotr32 22 a;
          maj = (a AND b) XOR (a AND c) XOR (b AND c);
          t2 = s0 + maj
      in [t1 + t2, a, b, c, d + t1, e, f, g])"
| "sha_round s _ = s"

definition sha_block :: "word32 list \<Rightarrow> bytes \<Rightarrow> word32 list" where
  "sha_block h block =
     map2 (+) h (foldl sha_round h (zip sha_K (rev (sha_schedule 48 (rev (block_words block))))))"

text \<open>Whole blocks of 64 bytes, \<open>n\<close> of them.\<close>

fun sha_blocks :: "nat \<Rightarrow> word32 list \<Rightarrow> bytes \<Rightarrow> word32 list" where
  "sha_blocks 0 h s = h"
| "sha_blocks (Suc n) h s = sha_blocks n (sha_block h (take 64 s)) (drop 64 s)"

definition Sum256 :: "bytes \<Rightarrow> bytes" where
  "Sum256 m =
     (let padded = sha_pad m
      in concat (map (\<lambda>w. be_bytes 4 (unat w)) (sha_blocks (length padded div 64) sha_init padded)))"

section \<open>Hexadecimal\<close>

definition hex_digit :: "nat \<Rightarrow> char" where
  "hex_digit n = ''0123456789abcdef'' ! (n mod 16)"

definition hex_bytes :: "bytes \<Rightarrow> bytes" where
  "hex_bytes s = concat (map (\<lambda>c. [hex_digit (of_char c div 16), hex_digit (of_char c)]) s)"

text \<open>\<open>fmt.Sprintf("sha256:%x", sha256.Sum256(s))\<close>.\<close>

definition sha256_digest :: "bytes \<Rightarrow> string" where
  "sha256_digest s = ''sha256:'' @ hex_bytes (Sum256 s)"

section \<open>JSON text\<close>

text \<open>
  The number of bytes of the UTF-8 sequence at the front, or 0 when there is none (over-long forms,
  surrogates and values over U+10FFFF are not sequences).
\<close>

definition in_range :: "nat \<Rightarrow> nat \<Rightarrow> char \<Rightarrow> bool" where
  "in_range lo hi c \<longleftrightarrow> lo \<le> of_char c \<and> of_char c \<le> hi"

fun second_range :: "nat \<Rightarrow> nat \<times> nat" where
  "second_range b =
     (if b = 0xE0 then (0xA0, 0xBF) else if b = 0xED then (0x80, 0x9F)
      else if b = 0xF0 then (0x90, 0xBF) else if b = 0xF4 then (0x80, 0x8F) else (0x80, 0xBF))"

definition utf8_size :: "bytes \<Rightarrow> nat" where
  "utf8_size s =
     (case s of [] \<Rightarrow> 0
      | c # rest \<Rightarrow>
          let b = of_char c; (lo, hi) = second_range b in
          if b < 0x80 then 1
          else if 0xC2 \<le> b \<and> b \<le> 0xDF
          then (case rest of x # _ \<Rightarrow> if in_range lo hi x then 2 else 0 | _ \<Rightarrow> 0)
          else if 0xE0 \<le> b \<and> b \<le> 0xEF
          then (case rest of x # y # _ \<Rightarrow>
                  if in_range lo hi x \<and> in_range 0x80 0xBF y then 3 else 0 | _ \<Rightarrow> 0)
          else if 0xF0 \<le> b \<and> b \<le> 0xF4
          then (case rest of x # y # z # _ \<Rightarrow>
                  if in_range lo hi x \<and> in_range 0x80 0xBF y \<and> in_range 0x80 0xBF z then 4 else 0
                | _ \<Rightarrow> 0)
          else 0)"

definition json_quote :: char where
  "json_quote = CHR 0x22"

definition json_backslash :: char where
  "json_backslash = CHR 0x5C"

definition json_escape :: "char \<Rightarrow> bytes" where
  "json_escape c =
     (if c = json_quote \<or> c = json_backslash then [json_backslash, c]
      else if c = CHR 0x08 then [json_backslash, CHR ''b'']
      else if c = CHR 0x0C then [json_backslash, CHR ''f'']
      else if c = CHR 0x0A then [json_backslash, CHR ''n'']
      else if c = CHR 0x0D then [json_backslash, CHR ''r'']
      else if c = CHR 0x09 then [json_backslash, CHR ''t'']
      else if of_char c < (0x20 :: nat) \<or> c \<in> {CHR ''<'', CHR ''>'', CHR ''&''}
      then json_backslash # ''u00'' @ hex_bytes [c]
      else [c])"

text \<open>The body of a JSON string: ASCII is escaped byte by byte, a UTF-8 sequence is copied except
  U+2028 and U+2029, and a byte that starts no sequence becomes \<open>\ufffd\<close>.\<close>

fun json_body :: "bytes \<Rightarrow> bytes" where
  "json_body [] = []"
| "json_body (c # s) =
     (if of_char c < (0x80 :: nat) then json_escape c @ json_body s
      else let n = utf8_size (c # s) in
        if n = 0 then json_backslash # ''ufffd'' @ json_body s
        else if take n (c # s) = [CHR 0xE2, CHR 0x80, CHR 0xA8]
        then json_backslash # ''u2028'' @ json_body (drop (n - 1) s)
        else if take n (c # s) = [CHR 0xE2, CHR 0x80, CHR 0xA9]
        then json_backslash # ''u2029'' @ json_body (drop (n - 1) s)
        else take n (c # s) @ json_body (drop (n - 1) s))"

definition json_string :: "string \<Rightarrow> bytes" where
  "json_string s = json_quote # json_body s @ [json_quote]"

fun json_sep :: "bytes list \<Rightarrow> bytes" where
  "json_sep [] = []"
| "json_sep [x] = x"
| "json_sep (x # xs) = x @ CHR '','' # json_sep xs"

definition json_array :: "bytes list \<Rightarrow> bytes" where
  "json_array xs = CHR ''['' # json_sep xs @ '']''"

definition json_object :: "(string \<times> bytes) list \<Rightarrow> bytes" where
  "json_object members =
     CHR ''{'' # json_sep (map (\<lambda>(name, val). json_string name @ CHR '':'' # val) members) @ ''}''"

section \<open>Facts\<close>

lemma length_be_bytes [simp]: "length (be_bytes n k) = n"
  by (simp add: be_bytes_def)

lemma length_sha_round [simp]: "length (sha_round h kw) = length h"
  by (induction h kw rule: sha_round.induct) (simp_all add: Let_def)

lemma length_foldl_sha_round [simp]: "length (foldl sha_round h kws) = length h"
  by (induction kws arbitrary: h) simp_all

lemma length_sha_block [simp]: "length (sha_block h b) = length h"
  by (simp add: sha_block_def)

lemma length_sha_blocks [simp]: "length (sha_blocks n h s) = length h"
  by (induction n h s rule: sha_blocks.induct) simp_all

lemma length_concat_fixed: "(\<And>x. length (f x) = k) \<Longrightarrow> length (concat (map f xs)) = k * length xs"
  by (induction xs) simp_all

lemma length_Sum256: "length (Sum256 m) = 32"
proof -
  have "length (sha_blocks n sha_init s) = 8" for n s
    by (simp add: sha_init_def)
  then show ?thesis
    by (simp add: Sum256_def Let_def length_concat_fixed [where k = 4])
qed

lemma hex_digit_lower: "is_lower_hex (hex_digit n)"
proof -
  have "''0123456789abcdef'' ! (n mod 16) \<in> set ''0123456789abcdef''"
    by (rule nth_mem) simp
  then show ?thesis
    by (simp add: is_lower_hex_def hex_digit_def)
qed

lemma sha256_digest_pattern: "contentDigestPattern (sha256_digest s)"
proof -
  have "length (hex_bytes (Sum256 s)) = 64"
    by (simp add: hex_bytes_def length_concat_fixed [where k = 2] length_Sum256)
  moreover have "list_all is_lower_hex (hex_bytes (Sum256 s))"
    by (auto simp: hex_bytes_def list_all_iff hex_digit_lower)
  ultimately show ?thesis
    by (simp add: contentDigestPattern_def sha256_digest_def)
qed

end
