(* ===== verification/Regexps.thy ===== *)
theory Regexps
  imports Prelude
begin

text \<open>
  The regular expressions the domain compiles with \<open>regexp.MustCompile\<close>, all of them anchored at
  both ends: matching is membership in a language.  The matcher takes derivatives;
  \<open>matches_iff_lang\<close> says that it decides the language.  Classes list their bytes; the code's
  classes are ASCII only, so matching bytes is matching runes.
\<close>

datatype regexp =
    Zero
  | Empty
  | Class "char list"
  | Seq regexp regexp
  | Alt regexp regexp
  | Star regexp
  | Between regexp nat nat

section \<open>Languages\<close>

definition conc :: "bytes set \<Rightarrow> bytes set \<Rightarrow> bytes set" where
  "conc A B = {u @ v | u v. u \<in> A \<and> v \<in> B}"

fun power_lang :: "bytes set \<Rightarrow> nat \<Rightarrow> bytes set" where
  "power_lang A 0 = {[]}"
| "power_lang A (Suc n) = conc A (power_lang A n)"

fun lang :: "regexp \<Rightarrow> bytes set" where
  "lang Zero = {}"
| "lang Empty = {[]}"
| "lang (Class cs) = {[c] | c. c \<in> set cs}"
| "lang (Seq r s) = conc (lang r) (lang s)"
| "lang (Alt r s) = lang r \<union> lang s"
| "lang (Star r) = (\<Union>n. power_lang (lang r) n)"
| "lang (Between r m n) = (\<Union>i \<in> {m..n}. power_lang (lang r) i)"

section \<open>The matcher\<close>

fun nullable :: "regexp \<Rightarrow> bool" where
  "nullable Zero = False"
| "nullable Empty = True"
| "nullable (Class cs) = False"
| "nullable (Seq r s) = (nullable r \<and> nullable s)"
| "nullable (Alt r s) = (nullable r \<or> nullable s)"
| "nullable (Star r) = True"
| "nullable (Between r m n) = (m \<le> n \<and> (m = 0 \<or> nullable r))"

fun deriv :: "char \<Rightarrow> regexp \<Rightarrow> regexp" where
  "deriv c Zero = Zero"
| "deriv c Empty = Zero"
| "deriv c (Class cs) = (if c \<in> set cs then Empty else Zero)"
| "deriv c (Seq r s) =
     (if nullable r then Alt (Seq (deriv c r) s) (deriv c s) else Seq (deriv c r) s)"
| "deriv c (Alt r s) = Alt (deriv c r) (deriv c s)"
| "deriv c (Star r) = Seq (deriv c r) (Star r)"
| "deriv c (Between r m n) =
     (if n = 0 then Zero else Seq (deriv c r) (Between r (m - 1) (n - 1)))"

fun matches :: "regexp \<Rightarrow> bytes \<Rightarrow> bool" where
  "matches r [] = nullable r"
| "matches r (c # s) = matches (deriv c r) s"

section \<open>Correctness\<close>

lemma power_lang_Nil: "[] \<in> power_lang A n \<longleftrightarrow> n = 0 \<or> [] \<in> A"
  by (induction n) (auto simp: conc_def)

lemma power_lang_Cons:
  "c # s \<in> power_lang A n \<longleftrightarrow>
     (\<exists>m u v. n = Suc m \<and> s = u @ v \<and> c # u \<in> A \<and> v \<in> power_lang A m)"
proof (induction n)
  case (Suc n)
  show ?case
  proof
    assume "c # s \<in> power_lang A (Suc n)"
    then obtain x y where xy: "c # s = x @ y" "x \<in> A" "y \<in> power_lang A n"
      by (auto simp: conc_def)
    show "\<exists>m u v. Suc n = Suc m \<and> s = u @ v \<and> c # u \<in> A \<and> v \<in> power_lang A m"
    proof (cases x)
      case Nil
      with xy Suc.IH obtain m u v where "n = Suc m" "s = u @ v" "c # u \<in> A" "v \<in> power_lang A m"
        by auto
      moreover from this xy Nil have "v \<in> power_lang A n"
        by (force simp: conc_def)
      ultimately show ?thesis by blast
    next
      case (Cons d x')
      with xy show ?thesis by auto
    qed
  next
    assume "\<exists>m u v. Suc n = Suc m \<and> s = u @ v \<and> c # u \<in> A \<and> v \<in> power_lang A m"
    then obtain u v where "s = u @ v" "c # u \<in> A" "v \<in> power_lang A n" by blast
    then have "\<exists>x y. c # s = x @ y \<and> x \<in> A \<and> y \<in> power_lang A n"
      by (intro exI [of _ "c # u"] exI [of _ v]) simp
    then show "c # s \<in> power_lang A (Suc n)"
      by (simp add: conc_def)
  qed
qed simp

lemma nullable_iff: "nullable r \<longleftrightarrow> [] \<in> lang r"
proof (induction r)
  case (Star r)
  then show ?case by (auto simp: power_lang_Nil)
next
  case (Between r m n)
  then show ?case by (auto simp: power_lang_Nil intro: bexI [of _ m])
qed (auto simp: conc_def)

lemma conc_Cons:
  "c # s \<in> conc A B \<longleftrightarrow>
     (\<exists>u v. s = u @ v \<and> c # u \<in> A \<and> v \<in> B) \<or> [] \<in> A \<and> c # s \<in> B"
  by (auto simp: conc_def Cons_eq_append_conv)

lemma deriv_iff: "s \<in> lang (deriv c r) \<longleftrightarrow> c # s \<in> lang r"
proof (induction r arbitrary: s)
  case (Seq r1 r2)
  have "s \<in> conc (lang (deriv c r1)) (lang r2) \<longleftrightarrow>
      (\<exists>u v. s = u @ v \<and> c # u \<in> lang r1 \<and> v \<in> lang r2)"
    using Seq.IH(1) by (auto simp: conc_def)
  with Seq.IH(2) show ?case by (simp add: conc_Cons nullable_iff)
next
  case (Star r)
  have "s \<in> lang (deriv c (Star r)) \<longleftrightarrow>
      (\<exists>u v n. s = u @ v \<and> c # u \<in> lang r \<and> v \<in> power_lang (lang r) n)"
    using Star.IH by (auto simp: conc_def)
  then show ?case by (auto simp: power_lang_Cons)
next
  case (Between r m n)
  let ?piece = "\<lambda>u v i. s = u @ v \<and> c # u \<in> lang r \<and> v \<in> power_lang (lang r) i"
  have bounds: "n \<noteq> 0 \<and> i \<in> {m - 1..n - 1} \<longleftrightarrow> Suc i \<in> {m..n}" for i
    by auto
  have "s \<in> lang (deriv c (Between r m n)) \<longleftrightarrow>
      n \<noteq> 0 \<and> (\<exists>u v. s = u @ v \<and> c # u \<in> lang r
        \<and> (\<exists>i \<in> {m - 1..n - 1}. v \<in> power_lang (lang r) i))"
    using Between.IH by (simp add: conc_def)
  also have "\<dots> \<longleftrightarrow> (\<exists>u v i. (n \<noteq> 0 \<and> i \<in> {m - 1..n - 1}) \<and> ?piece u v i)"
    by blast
  also have "\<dots> \<longleftrightarrow> (\<exists>u v i. Suc i \<in> {m..n} \<and> ?piece u v i)"
    unfolding bounds ..
  also have "\<dots> \<longleftrightarrow> c # s \<in> lang (Between r m n)"
    unfolding lang.simps UN_iff power_lang_Cons by blast
  finally show ?case .
qed auto

lemma matches_iff_lang: "matches r s \<longleftrightarrow> s \<in> lang r"
  by (induction s arbitrary: r) (simp_all add: nullable_iff deriv_iff)

section \<open>The expressions of the domain\<close>

definition lower :: "char list" where
  "lower = ''abcdefghijklmnopqrstuvwxyz''"

definition upper :: "char list" where
  "upper = ''ABCDEFGHIJKLMNOPQRSTUVWXYZ''"

definition digits :: "char list" where
  "digits = ''0123456789''"

definition alnum :: "char list" where
  "alnum = upper @ lower @ digits"

fun literal :: "bytes \<Rightarrow> regexp" where
  "literal [] = Empty"
| "literal (c # s) = Seq (Class [c]) (literal s)"

definition optional :: "regexp \<Rightarrow> regexp" where
  "optional r = Alt Empty r"

text \<open>\<open>[A-Za-z0-9]([A-Za-z0-9._-]*[A-Za-z0-9])?\<close>\<close>

definition registry_segment :: regexp where
  "registry_segment =
     Seq (Class alnum) (optional (Seq (Star (Class (alnum @ ''._-''))) (Class alnum)))"

text \<open>\<open>registryCapsuleRefPattern\<close>\<close>

definition registryCapsuleRefPattern :: regexp where
  "registryCapsuleRefPattern =
     Seq registry_segment
      (Seq (optional (Seq (literal '':'') (Between (Class digits) 1 5)))
        (Seq (Star (Seq (literal ''/'') registry_segment))
          (Alt (Seq (literal '':'')
                 (Seq (Class (alnum @ ''_'')) (Between (Class (alnum @ ''_.-'')) 0 127)))
               (Seq (literal ''@sha256:'') (Between (Class (''abcdef'' @ digits)) 64 64)))))"

text \<open>\<open>^SHA256:[A-Za-z0-9+/]{43}$\<close>\<close>

definition sshFingerprintPattern :: regexp where
  "sshFingerprintPattern = Seq (literal ''SHA256:'') (Between (Class (alnum @ ''+/'')) 43 43)"

end
