(* ===== verification/Capsule_Locks.thy ===== *)
theory Capsule_Locks
  imports Encodings Regexps
begin

text \<open>
  Capsule Locks (\<open>libs/domain/capsule_lock.go\<close>): the immutable, content-addressed record of the
  Capsules and resolved Components an Environment runs, and the comparison of a lock with what a
  Runtime has installed (\<open>libs/domain/reconciliation.go\<close>).
\<close>

section \<open>Data\<close>

record locked_capsule =
  lcap_Ref :: string
  lcap_Digest :: string

record resolved_component_source =
  rcs_CapsuleDigest :: string
  rcs_ComponentDigest :: string

record resolved_component =
  rc_ID :: string
  rc_Type :: component_type
  rc_CapsuleDigest :: string
  rc_ComponentDigest :: string
  rc_Scope :: component_scope
  rc_TrustClass :: trust_class
  rc_Requirements :: component_requirements
  rc_Provenance :: "(string \<times> string) list"
  rc_Sources :: "resolved_component_source list"

record capsule_lock_snapshot =
  lock_ID :: string
  lock_EnvironmentID :: string
  lock_ProfileVersionID :: string
  lock_ProjectCapsuleDigest :: string
  lock_Capsules :: "locked_capsule list"
  lock_ResolvedComponents :: "(string \<times> resolved_component) list"
  lock_Digest :: string
  lock_CreatedAt :: gotime

type_synonym capsule_lock = capsule_lock_snapshot

datatype capsule_lock_error =
    LockFieldRequired string
  | LockProjectDigestInvalid
  | LockDigestInvalid
  | LockCapsuleRequired
  | LockCapsuleRefInvalid nat
  | LockCapsuleDigestInvalid nat
  | LockComponentInconsistentID string
  | LockComponentUnlisted string
  | LockComponentDigestInvalid string
  | LockSourceUnlisted string nat
  | LockSourceDigestInvalid string nat
  | LockComponentTypeInvalid string
  | LockComponentScopeInvalid string
  | LockComponentTrustInvalid string
  | LockCreationTimeNotUTC
  | LockDigestMismatch

fun component_scope_string :: "component_scope \<Rightarrow> string" where
  "component_scope_string ScopeUser = ''user''"
| "component_scope_string ScopeProject = ''project''"
| "component_scope_string (ScopeOther s) = s"

fun trust_class_string :: "trust_class \<Rightarrow> string" where
  "trust_class_string TrustDeclarative = ''declarative''"
| "trust_class_string TrustExecutable = ''executable''"
| "trust_class_string TrustPermission = ''permission''"
| "trust_class_string (TrustOther s) = s"

section \<open>The canonical form\<close>

text \<open>
  What \<open>json.Marshal\<close> writes for the canonical structs: members in the order of their
  declaration, \<open>omitempty\<close> members only when they are not empty, maps by sorted key, a nil slice
  as \<open>null\<close>.  \<open>ComponentRequirements\<close> and \<open>ResolvedComponentSource\<close> have no tags, so their
  members keep the names of the fields.
\<close>

definition json_slice :: "slice \<Rightarrow> bytes" where
  "json_slice s =
     (case s of None \<Rightarrow> ''null'' | Some xs \<Rightarrow> json_array (map json_string xs))"

definition json_requirements :: "component_requirements \<Rightarrow> bytes" where
  "json_requirements r =
     json_object [(''Commands'', json_slice (reqs_Commands r)),
                  (''Secrets'', json_slice (reqs_Secrets r))]"

definition json_source :: "resolved_component_source \<Rightarrow> bytes" where
  "json_source s =
     json_object [(''CapsuleDigest'', json_string (rcs_CapsuleDigest s)),
                  (''ComponentDigest'', json_string (rcs_ComponentDigest s))]"

definition json_string_map :: "(string \<times> string) list \<Rightarrow> bytes" where
  "json_string_map m = json_object (map (\<lambda>(k, v). (k, json_string v)) (sort_key fst m))"

definition canonicalResolvedComponent :: "string \<Rightarrow> resolved_component \<Rightarrow> bytes" where
  "canonicalResolvedComponent cid component =
     json_object
       ([(''id'', json_string cid)]
        @ (if component_type_string (rc_Type component) = [] then []
           else [(''type'', json_string (component_type_string (rc_Type component)))])
        @ [(''capsuleDigest'', json_string (rc_CapsuleDigest component)),
           (''componentDigest'', json_string (rc_ComponentDigest component)),
           (''scope'', json_string (component_scope_string (rc_Scope component))),
           (''trustClass'', json_string (trust_class_string (rc_TrustClass component))),
           (''requirements'', json_requirements (rc_Requirements component))]
        @ (if rc_Provenance component = [] then []
           else [(''provenance'', json_string_map (rc_Provenance component))])
        @ (if rc_Sources component = [] then []
           else [(''sources'', json_array (map json_source (rc_Sources component)))]))"

definition canonicalLockedCapsule :: "locked_capsule \<Rightarrow> bytes" where
  "canonicalLockedCapsule capsule =
     json_object [(''ref'', json_string (lcap_Ref capsule)),
                  (''digest'', json_string (lcap_Digest capsule))]"

definition canonicalCapsuleLock :: "capsule_lock_snapshot \<Rightarrow> bytes" where
  "canonicalCapsuleLock snapshot =
     (let componentIDs = sort (map fst (lock_ResolvedComponents snapshot));
          components = map (\<lambda>cid. canonicalResolvedComponent cid
                              (the (map_of (lock_ResolvedComponents snapshot) cid))) componentIDs
      in json_object
           [(''profileVersionId'', json_string (lock_ProfileVersionID snapshot)),
            (''projectCapsuleDigest'', json_string (lock_ProjectCapsuleDigest snapshot)),
            (''capsules'', json_array (map canonicalLockedCapsule (lock_Capsules snapshot))),
            (''resolvedComponents'', json_array components)])"

definition ComputeCapsuleLockDigest :: "capsule_lock_snapshot \<Rightarrow> string" where
  "ComputeCapsuleLockDigest snapshot = sha256_digest (canonicalCapsuleLock snapshot)"

section \<open>Creating a lock\<close>

text \<open>\<open>append([]string(nil), s...)\<close>: a copy, nil when there is nothing to copy.\<close>

definition clone_slice :: "slice \<Rightarrow> slice" where
  "clone_slice s = (if elems s = [] then None else Some (elems s))"

definition clone_resolved :: "resolved_component \<Rightarrow> resolved_component" where
  "clone_resolved component =
     component\<lparr>rc_Requirements :=
       \<lparr>reqs_Commands = clone_slice (reqs_Commands (rc_Requirements component)),
        reqs_Secrets = clone_slice (reqs_Secrets (rc_Requirements component))\<rparr>\<rparr>"

definition cloneResolvedComponents ::
  "(string \<times> resolved_component) list \<Rightarrow> (string \<times> resolved_component) list" where
  "cloneResolvedComponents components = map (\<lambda>(key, component). (key, clone_resolved component)) components"

fun check_capsules :: "nat \<Rightarrow> locked_capsule list \<Rightarrow> capsule_lock_error option" where
  "check_capsules index [] = None"
| "check_capsules index (capsule # capsules) =
     (if blank (lcap_Ref capsule) \<or> untrimmed (lcap_Ref capsule)
         \<or> \<not> matches registryCapsuleRefPattern (lcap_Ref capsule)
      then Some (LockCapsuleRefInvalid index)
      else if \<not> contentDigestPattern (lcap_Digest capsule)
      then Some (LockCapsuleDigestInvalid index)
      else check_capsules (Suc index) capsules)"

fun check_sources ::
  "(string \<Rightarrow> bool) \<Rightarrow> string \<Rightarrow> nat \<Rightarrow> resolved_component_source list \<Rightarrow> capsule_lock_error option" where
  "check_sources listed key index [] = None"
| "check_sources listed key index (source # sources) =
     (if \<not> listed (rcs_CapsuleDigest source) then Some (LockSourceUnlisted key index)
      else if \<not> contentDigestPattern (rcs_ComponentDigest source)
      then Some (LockSourceDigestInvalid key index)
      else check_sources listed key (Suc index) sources)"

definition check_component ::
  "(string \<Rightarrow> bool) \<Rightarrow> string \<Rightarrow> resolved_component \<Rightarrow> capsule_lock_error option" where
  "check_component listed key component =
     (if blank key \<or> rc_ID component \<noteq> key \<or> blank (rc_ID component)
      then Some (LockComponentInconsistentID key)
      else if \<not> listed (rc_CapsuleDigest component) then Some (LockComponentUnlisted key)
      else if \<not> contentDigestPattern (rc_ComponentDigest component)
      then Some (LockComponentDigestInvalid key)
      else case check_sources listed key 0 (rc_Sources component) of
        Some err \<Rightarrow> Some err
      | None \<Rightarrow>
          if component_type_string (rc_Type component) \<noteq> [] \<and> \<not> component_type_Valid (rc_Type component)
          then Some (LockComponentTypeInvalid key)
          else if \<not> component_scope_Valid (rc_Scope component)
          then Some (LockComponentScopeInvalid key)
          else if \<not> trust_class_Valid (rc_TrustClass component)
          then Some (LockComponentTrustInvalid key)
          else None)"

fun check_components ::
  "(string \<Rightarrow> bool) \<Rightarrow> (string \<times> resolved_component) list \<Rightarrow> capsule_lock_error option" where
  "check_components listed [] = None"
| "check_components listed ((key, component) # rest) =
     (case check_component listed key component of
        Some err \<Rightarrow> Some err
      | None \<Rightarrow> check_components listed rest)"

definition listed_digest :: "capsule_lock_snapshot \<Rightarrow> string \<Rightarrow> bool" where
  "listed_digest snapshot digest \<longleftrightarrow>
     digest \<in> lcap_Digest ` set (lock_Capsules snapshot) \<or> digest = lock_ProjectCapsuleDigest snapshot"

definition check_lock :: "capsule_lock_snapshot \<Rightarrow> capsule_lock_error option" where
  "check_lock snapshot =
     (case first_name blank
        [(''ID'', lock_ID snapshot), (''Environment ID'', lock_EnvironmentID snapshot),
         (''Profile Version ID'', lock_ProfileVersionID snapshot)] of
        Some name \<Rightarrow> Some (LockFieldRequired name)
      | None \<Rightarrow>
          if \<not> contentDigestPattern (lock_ProjectCapsuleDigest snapshot)
          then Some LockProjectDigestInvalid
          else if lock_Digest snapshot \<noteq> [] \<and> \<not> contentDigestPattern (lock_Digest snapshot)
          then Some LockDigestInvalid
          else if lock_Capsules snapshot = [] then Some LockCapsuleRequired
          else case check_capsules 0 (lock_Capsules snapshot) of
            Some err \<Rightarrow> Some err
          | None \<Rightarrow>
              (case check_components (listed_digest snapshot) (lock_ResolvedComponents snapshot) of
                 Some err \<Rightarrow> Some err
               | None \<Rightarrow>
                   if is_zero (lock_CreatedAt snapshot) \<or> loc (lock_CreatedAt snapshot) \<noteq> UTC
                   then Some LockCreationTimeNotUTC
                   else None))"

definition CreateCapsuleLock :: "capsule_lock_snapshot \<Rightarrow> capsule_lock_error + capsule_lock" where
  "CreateCapsuleLock snapshot =
     (case check_lock snapshot of
        Some err \<Rightarrow> Inl err
      | None \<Rightarrow>
          let computedDigest = ComputeCapsuleLockDigest snapshot in
          if lock_Digest snapshot \<noteq> [] \<and> lock_Digest snapshot \<noteq> computedDigest
          then Inl LockDigestMismatch
          else Inr (snapshot\<lparr>lock_Digest := computedDigest,
                             lock_ResolvedComponents :=
                               cloneResolvedComponents (lock_ResolvedComponents snapshot)\<rparr>))"

definition capsule_lock_Snapshot :: "capsule_lock \<Rightarrow> capsule_lock_snapshot" where
  "capsule_lock_Snapshot lock =
     lock\<lparr>lock_ResolvedComponents := cloneResolvedComponents (lock_ResolvedComponents lock)\<rparr>"

section \<open>Cloning\<close>

lemma clone_slice_idem [simp]: "clone_slice (clone_slice s) = clone_slice s"
  by (auto simp: clone_slice_def elems_def split: option.splits)

lemma clone_resolved_idem [simp]: "clone_resolved (clone_resolved c) = clone_resolved c"
  by (simp add: clone_resolved_def)

lemma cloneResolvedComponents_idem [simp]:
  "cloneResolvedComponents (cloneResolvedComponents cs) = cloneResolvedComponents cs"
  by (auto simp: cloneResolvedComponents_def)

lemma map_fst_cloneResolvedComponents [simp]:
  "map fst (cloneResolvedComponents cs) = map fst cs"
  by (induction cs) (auto simp: cloneResolvedComponents_def)

lemma check_component_clone [simp]:
  "check_component listed key (clone_resolved c) = check_component listed key c"
  by (cases c) (simp only: check_component_def clone_resolved_def resolved_component.select_convs
      resolved_component.update_convs)

lemma check_components_clone [simp]:
  "check_components listed (cloneResolvedComponents cs) = check_components listed cs"
  by (induction cs) (auto simp: cloneResolvedComponents_def split: option.splits)

lemma check_lock_digest:
  assumes "check_lock snapshot = None" and "contentDigestPattern digest"
  shows "check_lock (snapshot\<lparr>lock_Digest := digest, lock_ResolvedComponents :=
           cloneResolvedComponents (lock_ResolvedComponents snapshot)\<rparr>) = None"
proof -
  let ?s = "snapshot\<lparr>lock_Digest := digest, lock_ResolvedComponents :=
           cloneResolvedComponents (lock_ResolvedComponents snapshot)\<rparr>"
  have listed: "listed_digest ?s = listed_digest snapshot"
    by (simp add: listed_digest_def fun_eq_iff)
  show ?thesis
    using assms unfolding check_lock_def listed
    by (auto split: option.splits if_splits)
qed

text \<open>A slice that cloning leaves alone: anything but an empty, non-nil one.\<close>

definition canonical_slices :: "capsule_lock_snapshot \<Rightarrow> bool" where
  "canonical_slices snapshot \<longleftrightarrow>
     cloneResolvedComponents (lock_ResolvedComponents snapshot) = lock_ResolvedComponents snapshot"

lemma CreateCapsuleLock_Inr:
  assumes "CreateCapsuleLock snapshot = Inr lock"
  shows "check_lock snapshot = None"
    and "lock = snapshot\<lparr>lock_Digest := ComputeCapsuleLockDigest snapshot,
           lock_ResolvedComponents := cloneResolvedComponents (lock_ResolvedComponents snapshot)\<rparr>"
  using assms by (auto simp: CreateCapsuleLock_def Let_def split: option.splits if_splits)

lemma sha256_digest_nonempty [simp]: "sha256_digest s \<noteq> []"
  by (simp add: sha256_digest_def)

lemma restored_iff:
  assumes "CreateCapsuleLock snapshot = Inr lock"
  shows "CreateCapsuleLock (capsule_lock_Snapshot lock) = Inr lock \<longleftrightarrow>
    ComputeCapsuleLockDigest lock = ComputeCapsuleLockDigest snapshot"
proof -
  note created = CreateCapsuleLock_Inr [OF assms]
  have snap: "capsule_lock_Snapshot lock = lock"
    by (simp add: capsule_lock_Snapshot_def created(2))
  have "check_lock lock = None"
    unfolding created(2)
    by (rule check_lock_digest [OF created(1)])
      (simp add: ComputeCapsuleLockDigest_def sha256_digest_pattern)
  moreover have "lock_Digest lock = ComputeCapsuleLockDigest snapshot"
    and "cloneResolvedComponents (lock_ResolvedComponents lock) = lock_ResolvedComponents lock"
    by (simp_all add: created(2))
  ultimately show ?thesis
    unfolding snap by (auto simp: CreateCapsuleLock_def Let_def ComputeCapsuleLockDigest_def)
qed

lemma canonicalCapsuleLock_digest [simp]:
  "canonicalCapsuleLock (snapshot\<lparr>lock_Digest := d\<rparr>) = canonicalCapsuleLock snapshot"
  by (simp add: canonicalCapsuleLock_def)

text \<open>
  A created lock is restored from its own snapshot unchanged, with the same content address,
  as long as the requirements it was created from hold no empty slice that is not nil; its content
  address is always a well-formed SHA-256 digest of its canonical JSON.
\<close>

lemma capsule_lock_roundtrip:
  assumes "CreateCapsuleLock snapshot = Inr lock" and "canonical_slices snapshot"
  shows "CreateCapsuleLock (capsule_lock_Snapshot lock) = Inr lock
    \<and> contentDigestPattern (lock_Digest lock)
    \<and> lock_Digest lock = sha256_digest (canonicalCapsuleLock lock)"
proof -
  note created = CreateCapsuleLock_Inr [OF assms(1)]
  have lock: "lock = snapshot\<lparr>lock_Digest := ComputeCapsuleLockDigest snapshot\<rparr>"
    using assms(2) by (simp add: created(2) canonical_slices_def)
  have "ComputeCapsuleLockDigest lock = ComputeCapsuleLockDigest snapshot"
    by (simp add: lock ComputeCapsuleLockDigest_def)
  then show ?thesis
    using restored_iff [OF assms(1)] by (simp add: lock ComputeCapsuleLockDigest_def sha256_digest_pattern)
qed

text \<open>Concrete locks: one Capsule, one Component, with nil or with empty requirements.\<close>

definition sample_digest :: string where
  "sample_digest = ''sha256:'' @ replicate 64 (CHR ''a'')"

definition sample_resolved :: "slice \<Rightarrow> resolved_component" where
  "sample_resolved commands =
     \<lparr>rc_ID = ''skill:a'', rc_Type = ComponentSkill, rc_CapsuleDigest = sample_digest,
      rc_ComponentDigest = sample_digest, rc_Scope = ScopeUser, rc_TrustClass = TrustDeclarative,
      rc_Requirements = \<lparr>reqs_Commands = commands, reqs_Secrets = None\<rparr>,
      rc_Provenance = [], rc_Sources = []\<rparr>"

definition sample_lock_snapshot :: "slice \<Rightarrow> capsule_lock_snapshot" where
  "sample_lock_snapshot commands =
     \<lparr>lock_ID = ''lock-1'', lock_EnvironmentID = ''env-1'', lock_ProfileVersionID = ''pv-1'',
      lock_ProjectCapsuleDigest = sample_digest,
      lock_Capsules = [\<lparr>lcap_Ref = ''r:1'', lcap_Digest = sample_digest\<rparr>],
      lock_ResolvedComponents = [(''skill:a'', sample_resolved commands)],
      lock_Digest = [], lock_CreatedAt = \<lparr>wall = 5, loc = UTC\<rparr>\<rparr>"

lemma sample_digest_pattern [simp]: "contentDigestPattern sample_digest"
  by (simp add: sample_digest_def contentDigestPattern_def is_lower_hex_def list_all_iff)

lemma sample_ref_matches: "matches registryCapsuleRefPattern ''r:1''"
  unfolding registryCapsuleRefPattern_def registry_segment_def optional_def alnum_def
    upper_def lower_def digits_def by simp

lemma check_sample_lock: "check_lock (sample_lock_snapshot commands) = None"
  by (simp add: check_lock_def sample_lock_snapshot_def sample_resolved_def check_component_def listed_digest_def
      sample_ref_matches go_time del: matches.simps)

definition sample_lock :: "slice \<Rightarrow> capsule_lock" where
  "sample_lock commands =
     (sample_lock_snapshot commands)
       \<lparr>lock_Digest := ComputeCapsuleLockDigest (sample_lock_snapshot commands),
        lock_ResolvedComponents :=
          cloneResolvedComponents (lock_ResolvedComponents (sample_lock_snapshot commands))\<rparr>"

lemma sample_lock_created:
  "CreateCapsuleLock (sample_lock_snapshot commands) = Inr (sample_lock commands)"
  unfolding CreateCapsuleLock_def check_sample_lock
  by (simp add: sample_lock_def) (simp add: sample_lock_snapshot_def)

section \<open>Empty requirement lists\<close>

text \<open>How much longer a text gets when every empty list that is not nil becomes \<open>null\<close>.\<close>

definition slice_growth :: "slice \<Rightarrow> nat" where
  "slice_growth s = (if s = Some [] then 2 else 0)"

definition component_growth :: "resolved_component \<Rightarrow> nat" where
  "component_growth c =
     slice_growth (reqs_Commands (rc_Requirements c)) + slice_growth (reqs_Secrets (rc_Requirements c))"

lemma length_json_sep: "length (json_sep xs) = sum_list (map length xs) + (length xs - 1)"
  by (induction xs rule: json_sep.induct) simp_all

lemma json_slice_growth: "length (json_slice (clone_slice s)) = length (json_slice s) + slice_growth s"
  by (auto simp: json_slice_def clone_slice_def slice_growth_def elems_def json_array_def split: option.splits)

lemma json_requirements_growth:
  "length (json_requirements \<lparr>reqs_Commands = clone_slice (reqs_Commands r), reqs_Secrets = clone_slice (reqs_Secrets r)\<rparr>)
     = length (json_requirements r) + slice_growth (reqs_Commands r) + slice_growth (reqs_Secrets r)"
  by (simp add: json_requirements_def json_object_def length_json_sep json_slice_growth)

lemma component_text_growth:
  "length (canonicalResolvedComponent cid (clone_resolved c))
     = length (canonicalResolvedComponent cid c) + component_growth c"
proof -
  have "length (json_requirements (rc_Requirements (clone_resolved c)))
      = length (json_requirements (rc_Requirements c)) + component_growth c"
    by (simp add: clone_resolved_def component_growth_def json_requirements_growth)
  then show ?thesis
    by (simp add: canonicalResolvedComponent_def json_object_def length_json_sep)
      (simp add: clone_resolved_def)
qed

lemma map_of_cloneResolvedComponents:
  "map_of (cloneResolvedComponents cs) key = map_option clone_resolved (map_of cs key)"
  by (induction cs) (auto simp: cloneResolvedComponents_def)

lemma lock_text_growth:
  assumes "lock = snapshot\<lparr>lock_Digest := digest, lock_ResolvedComponents :=
      cloneResolvedComponents (lock_ResolvedComponents snapshot)\<rparr>"
  shows "length (canonicalCapsuleLock lock) = length (canonicalCapsuleLock snapshot)
    + (\<Sum>cid \<leftarrow> sort (map fst (lock_ResolvedComponents snapshot)).
         component_growth (the (map_of (lock_ResolvedComponents snapshot) cid)))"
proof -
  let ?cs = "lock_ResolvedComponents snapshot"
  have "length (canonicalResolvedComponent cid (the (map_of (cloneResolvedComponents ?cs) cid)))
      = length (canonicalResolvedComponent cid (the (map_of ?cs cid)))
        + component_growth (the (map_of ?cs cid))" if "cid \<in> set (map fst ?cs)" for cid
    using that by (auto simp: map_of_cloneResolvedComponents component_text_growth map_of_eq_None_iff
        dest: weak_map_of_SomeI)
  then have "(\<Sum>cid \<leftarrow> sort (map fst ?cs).
        length (canonicalResolvedComponent cid (the (map_of (cloneResolvedComponents ?cs) cid))))
      = (\<Sum>cid \<leftarrow> sort (map fst ?cs). length (canonicalResolvedComponent cid (the (map_of ?cs cid)))
        + component_growth (the (map_of ?cs cid)))"
    by (intro arg_cong [where f = sum_list] map_cong) auto
  then show ?thesis
    by (simp add: assms canonicalCapsuleLock_def Let_def json_object_def json_array_def length_json_sep
        comp_def sum_list_addf)
qed

lemma clone_slice_fixed: "clone_slice s = s \<longleftrightarrow> slice_growth s = 0"
  by (auto simp: clone_slice_def slice_growth_def elems_def split: option.splits)

lemma clone_resolved_fixed: "clone_resolved c = c \<longleftrightarrow> component_growth c = 0"
  by (cases c; cases "rc_Requirements c")
    (auto simp: clone_resolved_def component_growth_def clone_slice_fixed)

lemma canonical_slices_iff:
  "canonical_slices snapshot \<longleftrightarrow> (\<forall>(key, c) \<in> set (lock_ResolvedComponents snapshot). component_growth c = 0)"
  unfolding canonical_slices_def cloneResolvedComponents_def map_idI clone_resolved_fixed [symmetric]
  by (auto simp: list_eq_iff_nth_eq all_set_conv_all_nth split: prod.splits)

text \<open>
  C38. When the snapshot of a created lock can be restored.  For every lock that is created, from a map
  of Components, the canonical text of the lock is the one its digest was computed over exactly if no
  Component had an empty list of commands or secrets that is not nil, and restoring its own snapshot
  gives the lock back exactly if SHA-256 maps the two texts to one digest: always when there was no
  such list, and only by a collision of two different texts when there was one.
\<close>

theorem capsule_lock_empty_requirements:
  assumes "CreateCapsuleLock snapshot = Inr lock" and "distinct (map fst (lock_ResolvedComponents snapshot))"
  shows "(canonicalCapsuleLock lock = canonicalCapsuleLock snapshot \<longleftrightarrow>
      \<not> (\<exists>(key, c) \<in> set (lock_ResolvedComponents snapshot).
          reqs_Commands (rc_Requirements c) = Some [] \<or> reqs_Secrets (rc_Requirements c) = Some []))
    \<and> (CreateCapsuleLock (capsule_lock_Snapshot lock) = Inr lock \<longleftrightarrow>
        sha256_digest (canonicalCapsuleLock lock) = sha256_digest (canonicalCapsuleLock snapshot))"
proof -
  note created = CreateCapsuleLock_Inr [OF assms(1)]
  have "canonicalCapsuleLock lock = canonicalCapsuleLock snapshot \<longleftrightarrow> canonical_slices snapshot"
  proof
    assume "canonicalCapsuleLock lock = canonicalCapsuleLock snapshot"
    then show "canonical_slices snapshot"
      using lock_text_growth [OF created(2)] assms(2)
      by (auto simp: canonical_slices_iff sum_list_eq_0_iff)
  next
    assume "canonical_slices snapshot"
    then show "canonicalCapsuleLock lock = canonicalCapsuleLock snapshot"
      by (simp add: created(2) canonical_slices_def)
  qed
  moreover have "canonical_slices snapshot \<longleftrightarrow> \<not> (\<exists>(key, c) \<in> set (lock_ResolvedComponents snapshot).
      reqs_Commands (rc_Requirements c) = Some [] \<or> reqs_Secrets (rc_Requirements c) = Some [])"
    by (auto simp: canonical_slices_iff component_growth_def slice_growth_def)
  ultimately show ?thesis
    using restored_iff [OF assms(1)] by (simp add: ComputeCapsuleLockDigest_def)
qed

theorem capsule_lock_empty_requirements_witness:
  "canonicalCapsuleLock (sample_lock (Some [])) \<noteq> canonicalCapsuleLock (sample_lock_snapshot (Some []))
   \<and> canonicalCapsuleLock (sample_lock None) = canonicalCapsuleLock (sample_lock_snapshot None)"
proof -
  have map: "distinct (map fst (lock_ResolvedComponents (sample_lock_snapshot commands)))" for commands
    by (simp add: sample_lock_snapshot_def)
  show ?thesis
    using capsule_lock_empty_requirements [OF sample_lock_created map, of "Some []"]
      capsule_lock_empty_requirements [OF sample_lock_created map, of None]
    by (simp add: sample_lock_snapshot_def sample_resolved_def)
qed

section \<open>The digest is of the map, not of its iteration order\<close>

lemma sort_key_fst_map_of:
  assumes "distinct (map fst m)" and "distinct (map fst m')" and "set m = set m'"
  shows "sort (map fst m) = sort (map fst m') \<and> map_of m = map_of m'"
proof
  have "fst ` set m = fst ` set m'"
    using assms(3) by simp
  then show "sort (map fst m) = sort (map fst m')"
    using assms(1,2) by (intro sorted_distinct_set_unique) simp_all
  show "map_of m = map_of m'"
    using assms by (metis map_of_inject_set)
qed

text \<open>
  The content address of a lock depends on the resolved Components as a map and on the order of
  the Capsules: two snapshots that differ only in the order their Components are iterated in, in
  their own identity, Environment or creation time, have the same digest.
\<close>

lemma capsule_lock_digest_order_independent:
  assumes "distinct (map fst (lock_ResolvedComponents a))"
    and "distinct (map fst (lock_ResolvedComponents b))"
    and "set (lock_ResolvedComponents a) = set (lock_ResolvedComponents b)"
    and "lock_ProfileVersionID a = lock_ProfileVersionID b"
    and "lock_ProjectCapsuleDigest a = lock_ProjectCapsuleDigest b"
    and "lock_Capsules a = lock_Capsules b"
  shows "ComputeCapsuleLockDigest a = ComputeCapsuleLockDigest b"
  unfolding ComputeCapsuleLockDigest_def canonicalCapsuleLock_def
  using sort_key_fst_map_of [OF assms(1-3)] assms(4-6) by simp

end
