(* ===== verification/Environments.thy ===== *)
theory Environments
  imports Aggregate Operations Runtimes Autostop_Policy Capsule_Locks
begin

text \<open>
  The Environment aggregate and its creation, \<open>libs/domain/environment.go\<close>.  An Environment has a
  lifecycle, a health, a pinned Capsule Lock and at most one current Runtime; its transitions take
  the Runtimes and locks they attach and check that they belong to it.
\<close>

section \<open>Data\<close>

datatype environment_lifecycle =
    EnvironmentCreating
  | EnvironmentActive
  | EnvironmentDeleting
  | EnvironmentDeleted
  | EnvironmentOtherLifecycle string

datatype environment_health =
    EnvironmentHealthHealthy
  | EnvironmentHealthDegraded
  | EnvironmentHealthBlocked
  | EnvironmentHealthUnknown
  | EnvironmentOtherHealth string

record environment_reservation =
  eres_ID :: string
  eres_OwnerUserID :: string
  eres_Name :: string
  eres_Slug :: string
  eres_Region :: string
  eres_AvailabilityZone :: string
  eres_RuntimePreset :: string
  eres_PinnedProfileVersionID :: string
  eres_AutoStopPolicyID :: string
  eres_CreatedAt :: gotime

record environment_snapshot =
  env_ID :: string
  env_OwnerUserID :: string
  env_Name :: string
  env_Slug :: string
  env_Lifecycle :: environment_lifecycle
  env_Health :: environment_health
  env_Region :: string
  env_AvailabilityZone :: string
  env_RuntimePreset :: string
  env_PinnedProfileVersionID :: string
  env_CapsuleLockID :: "string option"
  env_UpgradePolicy :: upgrade_policy
  env_CurrentRuntimeID :: "string option"
  env_AutoStopPolicyID :: string
  env_CreatedAt :: gotime
  env_UpdatedAt :: gotime
  env_DeletedAt :: "gotime option"
  env_Version :: int64

type_synonym environment = environment_snapshot

datatype environment_error =
    EnvironmentFieldRequired string
  | EnvironmentUnknownLifecycle environment_lifecycle
  | EnvironmentUnknownHealth environment_health
  | EnvironmentUnknownUpgradePolicy upgrade_policy
  | EnvironmentLockIDEmpty
  | EnvironmentRuntimeIDEmpty
  | EnvironmentCreationTimeRequired
  | EnvironmentUpdateTimeRequired
  | EnvironmentUpdateBeforeCreation
  | EnvironmentDeletionTimeRequired
  | EnvironmentDeletedHasRuntime
  | EnvironmentDeletionBeforeCreation
  | EnvironmentDeletionNotUpdate
  | EnvironmentDeletionTimeUnexpected
  | EnvironmentVersionNotPositive
  | EnvironmentTransitionTime
  | EnvironmentVersionExhausted
  | EnvironmentLifecycleRefused environment_lifecycle
  | EnvironmentRuntimeStillAttached
  | EnvironmentImmutable
  | ErrCapsuleLockAlreadyPinned
  | EnvironmentLockIDRequired
  | EnvironmentLockForeign
  | EnvironmentRuntimeInvalid runtime_error
  | EnvironmentRuntimeForeign
  | EnvironmentRuntimePlacement
  | EnvironmentRuntimeNotFresh
  | EnvironmentRuntimeNotRetired
  | EnvironmentReplacementNotFresh
  | EnvironmentReplacementSequence
  | EnvironmentOtherRuntime string
  | EnvironmentRetiredNotCurrent
  | ErrInitialRuntimeAlreadyReserved
  | ErrInitialRuntimeRequired
  | CreationParticipantsRequired
  | CreationPolicyForeign
  | CreationOperationForeign
  | CreationProjectSeedRequired
  | CreationSSHKeyRequired
  | CreationSSHKeyIDRequired
  | CreationSSHKeyDuplicate
  | CreationOperation operation_error
  | EnvironmentWrap string environment_error

section \<open>Validation\<close>

fun environment_lifecycle_valid :: "environment_lifecycle \<Rightarrow> bool" where
  "environment_lifecycle_valid (EnvironmentOtherLifecycle s) = False"
| "environment_lifecycle_valid _ = True"

fun environment_health_valid :: "environment_health \<Rightarrow> bool" where
  "environment_health_valid (EnvironmentOtherHealth s) = False"
| "environment_health_valid _ = True"

definition environment_required :: "environment_snapshot \<Rightarrow> (string \<times> string) list" where
  "environment_required snapshot =
     [(''ID'', env_ID snapshot), (''owner User ID'', env_OwnerUserID snapshot),
      (''name'', env_Name snapshot), (''slug'', env_Slug snapshot),
      (''region'', env_Region snapshot), (''availability zone'', env_AvailabilityZone snapshot),
      (''Runtime Preset'', env_RuntimePreset snapshot),
      (''Profile Version ID'', env_PinnedProfileVersionID snapshot),
      (''Auto-stop Policy ID'', env_AutoStopPolicyID snapshot)]"

definition validateDeletion :: "environment_snapshot \<Rightarrow> environment_error option" where
  "validateDeletion snapshot =
     (if env_Lifecycle snapshot = EnvironmentDeleted
      then case env_DeletedAt snapshot of
             None \<Rightarrow> Some EnvironmentDeletionTimeRequired
           | Some deletedAt \<Rightarrow>
               if env_CurrentRuntimeID snapshot \<noteq> None then Some EnvironmentDeletedHasRuntime
               else if before deletedAt (env_CreatedAt snapshot)
               then Some EnvironmentDeletionBeforeCreation
               else if \<not> same_instant deletedAt (env_UpdatedAt snapshot)
               then Some EnvironmentDeletionNotUpdate
               else None
      else if env_DeletedAt snapshot \<noteq> None then Some EnvironmentDeletionTimeUnexpected
      else None)"

definition validateEnvironmentSnapshot :: "environment_snapshot \<Rightarrow> environment_error option" where
  "validateEnvironmentSnapshot snapshot =
     (case first_name (\<lambda>val. blank val \<or> untrimmed val) (environment_required snapshot) of
        Some name \<Rightarrow> Some (EnvironmentFieldRequired name)
      | None \<Rightarrow>
          if \<not> environment_lifecycle_valid (env_Lifecycle snapshot)
          then Some (EnvironmentUnknownLifecycle (env_Lifecycle snapshot))
          else if \<not> environment_health_valid (env_Health snapshot)
          then Some (EnvironmentUnknownHealth (env_Health snapshot))
          else if \<not> upgrade_policy_Valid (env_UpgradePolicy snapshot)
          then Some (EnvironmentUnknownUpgradePolicy (env_UpgradePolicy snapshot))
          else if (case env_CapsuleLockID snapshot of None \<Rightarrow> False
                   | Some lid \<Rightarrow> blank lid \<or> untrimmed lid)
          then Some EnvironmentLockIDEmpty
          else if (case env_CurrentRuntimeID snapshot of None \<Rightarrow> False
                   | Some rid \<Rightarrow> rid = [] \<or> untrimmed rid)
          then Some EnvironmentRuntimeIDEmpty
          else if is_zero (env_CreatedAt snapshot) then Some EnvironmentCreationTimeRequired
          else if is_zero (env_UpdatedAt snapshot) then Some EnvironmentUpdateTimeRequired
          else if before (env_UpdatedAt snapshot) (env_CreatedAt snapshot)
          then Some EnvironmentUpdateBeforeCreation
          else case validateDeletion snapshot of
            Some err \<Rightarrow> Some err
          | None \<Rightarrow>
              if sint (env_Version snapshot) < 1 then Some EnvironmentVersionNotPositive else None)"

definition environment_transition ::
  "environment \<Rightarrow> gotime \<Rightarrow> environment_error + environment_snapshot" where
  "environment_transition environment at =
     (case validateEnvironmentSnapshot environment of
        Some err \<Rightarrow> Inl err
      | None \<Rightarrow>
          if is_zero at \<or> before at (env_UpdatedAt environment) then Inl EnvironmentTransitionTime
          else Inr environment)"

definition finalizeEnvironmentTransition ::
  "environment_snapshot \<Rightarrow> gotime \<Rightarrow> environment_error + environment" where
  "finalizeEnvironmentTransition nxt at =
     (if env_Version nxt = max_int64 then Inl EnvironmentVersionExhausted
      else
        let moved = nxt\<lparr>env_UpdatedAt := at, env_Version := env_Version nxt + 1\<rparr> in
        case validateEnvironmentSnapshot moved of
          Some err \<Rightarrow> Inl (EnvironmentWrap ''finalize Environment transition'' err)
        | None \<Rightarrow> Inr moved)"

section \<open>Construction and transitions\<close>

definition ReserveEnvironment :: "environment_reservation \<Rightarrow> environment_error + environment" where
  "ReserveEnvironment reservation =
     (let snapshot =
        \<lparr>env_ID = eres_ID reservation, env_OwnerUserID = eres_OwnerUserID reservation,
         env_Name = eres_Name reservation, env_Slug = eres_Slug reservation,
         env_Lifecycle = EnvironmentCreating, env_Health = EnvironmentHealthUnknown,
         env_Region = eres_Region reservation,
         env_AvailabilityZone = eres_AvailabilityZone reservation,
         env_RuntimePreset = eres_RuntimePreset reservation,
         env_PinnedProfileVersionID = eres_PinnedProfileVersionID reservation,
         env_CapsuleLockID = None, env_UpgradePolicy = UpgradeManual, env_CurrentRuntimeID = None,
         env_AutoStopPolicyID = eres_AutoStopPolicyID reservation,
         env_CreatedAt = eres_CreatedAt reservation, env_UpdatedAt = eres_CreatedAt reservation,
         env_DeletedAt = None, env_Version = 1\<rparr>
      in case validateEnvironmentSnapshot snapshot of
           Some err \<Rightarrow> Inl (EnvironmentWrap ''reserve Environment'' err)
         | None \<Rightarrow> Inr snapshot)"

definition RestoreEnvironment :: "environment_snapshot \<Rightarrow> environment_error + environment" where
  "RestoreEnvironment snapshot0 =
     (let snapshot = (if env_UpgradePolicy snapshot0 = UpgradeOther []
                      then snapshot0\<lparr>env_UpgradePolicy := UpgradeManual\<rparr> else snapshot0)
      in case validateEnvironmentSnapshot snapshot of
           Some err \<Rightarrow> Inl (EnvironmentWrap ''restore Environment'' err)
         | None \<Rightarrow> Inr snapshot)"

definition Activate :: "environment \<Rightarrow> gotime \<Rightarrow> environment_error + environment" where
  "Activate environment at =
     (case environment_transition environment at of
        Inl err \<Rightarrow> Inl (EnvironmentWrap ''activate Environment'' err)
      | Inr nxt \<Rightarrow>
          if env_Lifecycle nxt \<noteq> EnvironmentCreating
          then Inl (EnvironmentLifecycleRefused (env_Lifecycle nxt))
          else finalizeEnvironmentTransition (nxt\<lparr>env_Lifecycle := EnvironmentActive\<rparr>) at)"

definition BeginDeletion :: "environment \<Rightarrow> gotime \<Rightarrow> environment_error + environment" where
  "BeginDeletion environment at =
     (case environment_transition environment at of
        Inl err \<Rightarrow> Inl (EnvironmentWrap ''begin Environment deletion'' err)
      | Inr nxt \<Rightarrow>
          if env_Lifecycle nxt \<noteq> EnvironmentActive
          then Inl (EnvironmentLifecycleRefused (env_Lifecycle nxt))
          else finalizeEnvironmentTransition (nxt\<lparr>env_Lifecycle := EnvironmentDeleting\<rparr>) at)"

definition CompleteDeletion :: "environment \<Rightarrow> gotime \<Rightarrow> environment_error + environment" where
  "CompleteDeletion environment at =
     (case environment_transition environment at of
        Inl err \<Rightarrow> Inl (EnvironmentWrap ''complete Environment deletion'' err)
      | Inr nxt \<Rightarrow>
          if env_Lifecycle nxt \<noteq> EnvironmentDeleting
          then Inl (EnvironmentLifecycleRefused (env_Lifecycle nxt))
          else if env_CurrentRuntimeID nxt \<noteq> None then Inl EnvironmentRuntimeStillAttached
          else finalizeEnvironmentTransition
                 (nxt\<lparr>env_Lifecycle := EnvironmentDeleted, env_DeletedAt := Some at\<rparr>) at)"

definition UpdateHealth ::
  "environment \<Rightarrow> environment_health \<Rightarrow> gotime \<Rightarrow> environment_error + environment" where
  "UpdateHealth environment health at =
     (if \<not> environment_health_valid health then Inl (EnvironmentUnknownHealth health)
      else case environment_transition environment at of
        Inl err \<Rightarrow> Inl (EnvironmentWrap ''update Environment health'' err)
      | Inr nxt \<Rightarrow>
          if env_Lifecycle nxt = EnvironmentDeleted then Inl EnvironmentImmutable
          else if health = env_Health nxt then Inr environment
          else finalizeEnvironmentTransition (nxt\<lparr>env_Health := health\<rparr>) at)"

definition setCapsuleLock ::
  "environment \<Rightarrow> capsule_lock \<Rightarrow> upgrade_policy \<Rightarrow> gotime \<Rightarrow> bool \<Rightarrow> environment_error + environment" where
  "setCapsuleLock environment lock policy0 at repin =
     (let lockSnapshot = capsule_lock_Snapshot lock;
          policy = (if policy0 = UpgradeOther [] then UpgradeManual else policy0)
      in
      if blank (lock_ID lockSnapshot) then Inl EnvironmentLockIDRequired
      else if lock_EnvironmentID lockSnapshot \<noteq> env_ID environment then Inl EnvironmentLockForeign
      else if \<not> repin \<and> env_CapsuleLockID environment \<noteq> None then Inl ErrCapsuleLockAlreadyPinned
      else if \<not> upgrade_policy_Valid policy then Inl (EnvironmentUnknownUpgradePolicy policy)
      else case environment_transition environment at of
        Inl err \<Rightarrow> Inl (EnvironmentWrap ''set Capsule Lock'' err)
      | Inr nxt \<Rightarrow>
          if env_Lifecycle nxt = EnvironmentDeleted then Inl EnvironmentImmutable
          else finalizeEnvironmentTransition
                 (nxt\<lparr>env_CapsuleLockID := Some (lock_ID lockSnapshot),
                      env_UpgradePolicy := policy\<rparr>) at)"

definition PinCapsuleLock ::
  "environment \<Rightarrow> capsule_lock \<Rightarrow> upgrade_policy \<Rightarrow> gotime \<Rightarrow> environment_error + environment" where
  "PinCapsuleLock environment lock policy at =
     (if env_CapsuleLockID environment \<noteq> None then Inl ErrCapsuleLockAlreadyPinned
      else setCapsuleLock environment lock policy at False)"

definition RepinCapsuleLock ::
  "environment \<Rightarrow> capsule_lock \<Rightarrow> upgrade_policy \<Rightarrow> gotime \<Rightarrow> environment_error + environment" where
  "RepinCapsuleLock environment lock policy at = setCapsuleLock environment lock policy at True"

subsection \<open>Runtimes of an Environment\<close>

definition validateRuntimeOwnership ::
  "environment_snapshot \<Rightarrow> runtime_snapshot \<Rightarrow> environment_error option" where
  "validateRuntimeOwnership environment rt =
     (if rt_EnvironmentID rt \<noteq> env_ID environment then Some EnvironmentRuntimeForeign
      else if rt_Region rt \<noteq> env_Region environment
              \<or> rt_AvailabilityZone rt \<noteq> env_AvailabilityZone environment
              \<or> rt_RuntimePreset rt \<noteq> env_RuntimePreset environment
      then Some EnvironmentRuntimePlacement
      else None)"

definition validateInitialRuntime ::
  "environment_snapshot \<Rightarrow> runtime_snapshot \<Rightarrow> environment_error option" where
  "validateInitialRuntime environment rt =
     (case validateRuntimeSnapshot rt of
        Some err \<Rightarrow> Some (EnvironmentRuntimeInvalid err)
      | None \<Rightarrow>
          (case validateRuntimeOwnership environment rt of
             Some err \<Rightarrow> Some err
           | None \<Rightarrow>
               if rt_Sequence rt \<noteq> 1 \<or> rt_Status rt \<noteq> RuntimeAbsent \<or> rt_RetiredAt rt \<noteq> None
                  \<or> rt_ProviderInstanceRef rt \<noteq> None
               then Some EnvironmentRuntimeNotFresh
               else None))"

definition AttachRuntime :: "environment \<Rightarrow> runtime \<Rightarrow> gotime \<Rightarrow> environment_error + environment" where
  "AttachRuntime environment rt at =
     (let runtimeSnapshot = cloneRuntimeSnapshot rt in
      case validateInitialRuntime environment runtimeSnapshot of
        Some err \<Rightarrow> Inl (EnvironmentWrap ''attach Runtime'' err)
      | None \<Rightarrow>
          (case environment_transition environment at of
             Inl err \<Rightarrow> Inl (EnvironmentWrap ''attach Runtime'' err)
           | Inr nxt \<Rightarrow>
               if env_Lifecycle nxt \<noteq> EnvironmentCreating \<and> env_Lifecycle nxt \<noteq> EnvironmentActive
               then Inl (EnvironmentLifecycleRefused (env_Lifecycle nxt))
               else case env_CurrentRuntimeID nxt of
                 Some rid \<Rightarrow>
                   if rid = rt_ID runtimeSnapshot then Inr environment
                   else Inl (EnvironmentOtherRuntime rid)
               | None \<Rightarrow>
                   finalizeEnvironmentTransition
                     (nxt\<lparr>env_CurrentRuntimeID := Some (rt_ID runtimeSnapshot)\<rparr>) at))"

definition validateRetiredRuntime ::
  "environment_snapshot \<Rightarrow> runtime_snapshot \<Rightarrow> environment_error option" where
  "validateRetiredRuntime environment rt =
     (case validateRuntimeSnapshot rt of
        Some err \<Rightarrow> Some (EnvironmentRuntimeInvalid err)
      | None \<Rightarrow>
          (case validateRuntimeOwnership environment rt of
             Some err \<Rightarrow> Some err
           | None \<Rightarrow>
               if rt_Status rt \<noteq> RuntimeAbsent \<or> rt_RetiredAt rt = None
               then Some EnvironmentRuntimeNotRetired
               else None))"

definition DetachRuntime :: "environment \<Rightarrow> runtime \<Rightarrow> gotime \<Rightarrow> environment_error + environment" where
  "DetachRuntime environment rt at =
     (let runtimeSnapshot = cloneRuntimeSnapshot rt in
      case validateRetiredRuntime environment runtimeSnapshot of
        Some err \<Rightarrow> Inl (EnvironmentWrap ''detach Runtime'' err)
      | None \<Rightarrow>
          (case environment_transition environment at of
             Inl err \<Rightarrow> Inl (EnvironmentWrap ''detach Runtime'' err)
           | Inr nxt \<Rightarrow>
               if env_Lifecycle nxt = EnvironmentDeleted then Inl EnvironmentImmutable
               else case env_CurrentRuntimeID nxt of
                 None \<Rightarrow> Inr environment
               | Some rid \<Rightarrow>
                   if rid \<noteq> rt_ID runtimeSnapshot then Inl (EnvironmentOtherRuntime rid)
                   else finalizeEnvironmentTransition (nxt\<lparr>env_CurrentRuntimeID := None\<rparr>) at))"

definition validateRuntimeReplacement ::
  "environment_snapshot \<Rightarrow> runtime_snapshot \<Rightarrow> runtime_snapshot \<Rightarrow> environment_error option" where
  "validateRuntimeReplacement environment current replacement =
     (case validateRuntimeSnapshot current of
        Some err \<Rightarrow> Some (EnvironmentWrap ''invalid retired Runtime'' (EnvironmentRuntimeInvalid err))
      | None \<Rightarrow>
     (case validateRuntimeSnapshot replacement of
        Some err \<Rightarrow> Some (EnvironmentWrap ''invalid replacement Runtime'' (EnvironmentRuntimeInvalid err))
      | None \<Rightarrow>
     (case validateRuntimeOwnership environment current of
        Some err \<Rightarrow> Some (EnvironmentWrap ''retired Runtime ownership'' err)
      | None \<Rightarrow>
     (case validateRuntimeOwnership environment replacement of
        Some err \<Rightarrow> Some (EnvironmentWrap ''replacement Runtime ownership'' err)
      | None \<Rightarrow>
          if rt_Status current \<noteq> RuntimeAbsent \<or> rt_RetiredAt current = None
          then Some EnvironmentRuntimeNotRetired
          else if rt_Status replacement \<noteq> RuntimeAbsent \<or> rt_RetiredAt replacement \<noteq> None
                  \<or> rt_ProviderInstanceRef replacement \<noteq> None
          then Some EnvironmentReplacementNotFresh
          else if rt_Sequence replacement \<noteq> rt_Sequence current + 1
          then Some EnvironmentReplacementSequence
          else None))))"

definition ReplaceRuntime ::
  "environment \<Rightarrow> runtime \<Rightarrow> runtime \<Rightarrow> gotime \<Rightarrow> environment_error + environment" where
  "ReplaceRuntime environment retired replacement at =
     (let current = cloneRuntimeSnapshot retired; nextRuntime = cloneRuntimeSnapshot replacement in
      case validateRuntimeReplacement environment current nextRuntime of
        Some err \<Rightarrow> Inl (EnvironmentWrap ''replace current Runtime'' err)
      | None \<Rightarrow>
          (case environment_transition environment at of
             Inl err \<Rightarrow> Inl (EnvironmentWrap ''replace current Runtime'' err)
           | Inr nxt \<Rightarrow>
               if env_Lifecycle nxt \<noteq> EnvironmentCreating \<and> env_Lifecycle nxt \<noteq> EnvironmentActive
               then Inl (EnvironmentLifecycleRefused (env_Lifecycle nxt))
               else if env_CurrentRuntimeID nxt = Some (rt_ID nextRuntime) then Inr environment
               else if env_CurrentRuntimeID nxt \<noteq> Some (rt_ID current)
               then Inl EnvironmentRetiredNotCurrent
               else finalizeEnvironmentTransition
                      (nxt\<lparr>env_CurrentRuntimeID := Some (rt_ID nextRuntime)\<rparr>) at))"

section \<open>Creation\<close>

record environment_creation =
  ec_environment :: environment
  ec_policy :: auto_stop_policy
  ec_operation :: operation
  ec_projectSeedID :: string
  ec_sshKeyIDs :: "string list"

fun check_ssh_keys :: "string set \<Rightarrow> string list \<Rightarrow> environment_error option" where
  "check_ssh_keys seen [] = None"
| "check_ssh_keys seen (keyID # keyIDs) =
     (if keyID = [] then Some CreationSSHKeyIDRequired
      else if keyID \<in> seen then Some CreationSSHKeyDuplicate
      else check_ssh_keys (insert keyID seen) keyIDs)"

definition NewEnvironmentCreation ::
  "environment \<Rightarrow> auto_stop_policy \<Rightarrow> operation \<Rightarrow> string \<Rightarrow> string list
   \<Rightarrow> environment_error + environment_creation" where
  "NewEnvironmentCreation environment policy operation projectSeedID sshKeyIDs =
     (if env_ID environment = [] \<or> pol_ID policy = [] \<or> op_ID operation = []
      then Inl CreationParticipantsRequired
      else if env_AutoStopPolicyID environment \<noteq> pol_ID policy
              \<or> pol_EnvironmentID policy \<noteq> env_ID environment
      then Inl CreationPolicyForeign
      else if op_EnvironmentID operation \<noteq> env_ID environment
              \<or> op_RequestedByUserID operation \<noteq> env_OwnerUserID environment
      then Inl CreationOperationForeign
      else if projectSeedID = [] then Inl CreationProjectSeedRequired
      else if sshKeyIDs = [] then Inl CreationSSHKeyRequired
      else case check_ssh_keys {} sshKeyIDs of
        Some err \<Rightarrow> Inl err
      | None \<Rightarrow>
          Inr \<lparr>ec_environment = environment, ec_policy = policy, ec_operation = operation,
               ec_projectSeedID = projectSeedID, ec_sshKeyIDs = sshKeyIDs\<rparr>)"

definition creation_RecordRestateInvocation ::
  "environment_creation \<Rightarrow> string \<Rightarrow> environment_error + environment_creation" where
  "creation_RecordRestateInvocation creation invocationID =
     (case RecordRestateInvocation (ec_operation creation) invocationID of
        Inl err \<Rightarrow> Inl (CreationOperation err)
      | Inr operation \<Rightarrow> Inr (creation\<lparr>ec_operation := operation\<rparr>))"

definition ReserveInitialRuntime ::
  "environment_creation \<Rightarrow> runtime_reservation \<Rightarrow> environment_error + environment_creation \<times> runtime" where
  "ReserveInitialRuntime creation reservation =
     (if env_CurrentRuntimeID (ec_environment creation) \<noteq> None
      then Inl ErrInitialRuntimeAlreadyReserved
      else case ReserveRuntime reservation of
        Inl err \<Rightarrow> Inl (EnvironmentRuntimeInvalid err)
      | Inr rt \<Rightarrow>
          (case AttachRuntime (ec_environment creation) rt (rres_CreatedAt reservation) of
             Inl err \<Rightarrow> Inl err
           | Inr environment \<Rightarrow> Inr (creation\<lparr>ec_environment := environment\<rparr>, rt)))"

definition Complete :: "environment_creation \<Rightarrow> gotime \<Rightarrow> environment_error + environment_creation" where
  "Complete creation at =
     (if env_CurrentRuntimeID (ec_environment creation) = None then Inl ErrInitialRuntimeRequired
      else case Start (ec_operation creation) at of
        Inl err \<Rightarrow> Inl (CreationOperation err)
      | Inr operation \<Rightarrow>
     (case Activate (ec_environment creation) at of
        Inl err \<Rightarrow> Inl err
      | Inr activated \<Rightarrow>
     (case UpdateHealth activated EnvironmentHealthHealthy at of
        Inl err \<Rightarrow> Inl err
      | Inr environment \<Rightarrow>
     (case Succeed operation at of
        Inl err \<Rightarrow> Inl (CreationOperation err)
      | Inr succeeded \<Rightarrow>
          Inr (creation\<lparr>ec_environment := environment, ec_operation := succeeded\<rparr>)))))"

section \<open>Commands\<close>

datatype environment_command =
    CmdActivate gotime
  | CmdBeginDeletion gotime
  | CmdCompleteDeletion gotime
  | CmdUpdateHealth environment_health gotime
  | CmdPinCapsuleLock capsule_lock upgrade_policy gotime
  | CmdRepinCapsuleLock capsule_lock upgrade_policy gotime
  | CmdAttachRuntime runtime gotime
  | CmdDetachRuntime runtime gotime
  | CmdReplaceRuntime runtime runtime gotime

fun apply_environment :: "environment_command \<Rightarrow> environment \<Rightarrow> environment_error + environment" where
  "apply_environment (CmdActivate at) env = Activate env at"
| "apply_environment (CmdBeginDeletion at) env = BeginDeletion env at"
| "apply_environment (CmdCompleteDeletion at) env = CompleteDeletion env at"
| "apply_environment (CmdUpdateHealth health at) env = UpdateHealth env health at"
| "apply_environment (CmdPinCapsuleLock lock policy at) env = PinCapsuleLock env lock policy at"
| "apply_environment (CmdRepinCapsuleLock lock policy at) env = RepinCapsuleLock env lock policy at"
| "apply_environment (CmdAttachRuntime rt at) env = AttachRuntime env rt at"
| "apply_environment (CmdDetachRuntime rt at) env = DetachRuntime env rt at"
| "apply_environment (CmdReplaceRuntime retired replacement at) env =
     ReplaceRuntime env retired replacement at"

definition environment_valid :: "environment \<Rightarrow> bool" where
  "environment_valid env \<longleftrightarrow> validateEnvironmentSnapshot env = None"

text \<open>What no transition changes.\<close>

definition environment_identity ::
  "environment \<Rightarrow> string \<times> string \<times> string \<times> string \<times> string \<times> string \<times> string \<times> string \<times> string \<times> gotime" where
  "environment_identity env =
     (env_ID env, env_OwnerUserID env, env_Name env, env_Slug env, env_Region env,
      env_AvailabilityZone env, env_RuntimePreset env, env_PinnedProfileVersionID env,
      env_AutoStopPolicyID env, env_CreatedAt env)"

inductive lifecycle_edge :: "environment_lifecycle \<Rightarrow> environment_lifecycle \<Rightarrow> bool" where
  activate: "lifecycle_edge EnvironmentCreating EnvironmentActive"
| begin_deletion: "lifecycle_edge EnvironmentActive EnvironmentDeleting"
| complete_deletion: "lifecycle_edge EnvironmentDeleting EnvironmentDeleted"
| stay: "l \<noteq> EnvironmentDeleted \<Longrightarrow> lifecycle_edge l l"

inductive_simps lifecycle_edge_from_simps [simp]:
  "lifecycle_edge EnvironmentCreating l" "lifecycle_edge EnvironmentActive l"
  "lifecycle_edge EnvironmentDeleting l" "lifecycle_edge EnvironmentDeleted l"

section \<open>Facts about one transition\<close>

lemma environment_transition_Inr_iff:
  "environment_transition env at = Inr nxt \<longleftrightarrow>
     nxt = env \<and> environment_valid env \<and> \<not> is_zero at \<and> \<not> before at (env_UpdatedAt env)"
  by (auto simp: environment_transition_def environment_valid_def split: option.splits)

lemma finalizeEnvironmentTransition_Inr_iff:
  "finalizeEnvironmentTransition nxt at = Inr env \<longleftrightarrow>
     env_Version nxt \<noteq> max_int64
     \<and> env = nxt\<lparr>env_UpdatedAt := at, env_Version := env_Version nxt + 1\<rparr>
     \<and> environment_valid env"
  by (auto simp: finalizeEnvironmentTransition_def environment_valid_def Let_def split: option.splits)

lemma capsule_lock_Snapshot_fields [simp]:
  "lock_ID (capsule_lock_Snapshot lock) = lock_ID lock"
  "lock_EnvironmentID (capsule_lock_Snapshot lock) = lock_EnvironmentID lock"
  by (simp_all add: capsule_lock_Snapshot_def)

lemmas environment_command_defs = Activate_def BeginDeletion_def CompleteDeletion_def
  UpdateHealth_def setCapsuleLock_def PinCapsuleLock_def RepinCapsuleLock_def AttachRuntime_def
  DetachRuntime_def ReplaceRuntime_def

definition environment_moved :: "environment \<Rightarrow> environment \<Rightarrow> bool" where
  "environment_moved env env' \<longleftrightarrow>
     environment_valid env \<and> environment_valid env'
     \<and> environment_identity env' = environment_identity env
     \<and> env_Version env \<noteq> max_int64 \<and> env_Version env' = env_Version env + 1
     \<and> \<not> before (env_UpdatedAt env') (env_UpdatedAt env)
     \<and> env_Lifecycle env \<noteq> EnvironmentDeleted
     \<and> lifecycle_edge (env_Lifecycle env) (env_Lifecycle env')"

lemmas environment_step_facts = environment_moved_def environment_transition_Inr_iff
  finalizeEnvironmentTransition_Inr_iff environment_identity_def

lemma apply_environment_moved:
  assumes "apply_environment c env = Inr env'"
  shows "env' = env \<or> environment_moved env env'"
  using assms
  by (cases c) (auto simp: environment_command_defs environment_step_facts Let_def
      split: if_splits sum.splits option.splits intro: lifecycle_edge.intros)

section \<open>Histories\<close>

lemma ReserveEnvironment_valid: "ReserveEnvironment reservation = Inr env \<Longrightarrow> environment_valid env"
  by (auto simp: ReserveEnvironment_def environment_valid_def Let_def split: option.splits)

lemma RestoreEnvironment_valid: "RestoreEnvironment snapshot = Inr env \<Longrightarrow> environment_valid env"
  by (auto simp: RestoreEnvironment_def environment_valid_def Let_def split: option.splits if_splits)

interpretation environment_agg: versioned_aggregate
  environment_valid env_Version env_UpdatedAt environment_identity apply_environment
proof unfold_locales
  fix c env env'
  assume step: "apply_environment c env = Inr env'"
  show "env' = env \<or> env_Version env \<noteq> max_int64 \<and> env_Version env' = env_Version env + 1
      \<and> \<not> before (env_UpdatedAt env') (env_UpdatedAt env)"
    and "environment_identity env' = environment_identity env"
    using apply_environment_moved [OF step] by (auto simp: environment_moved_def)
  assume "environment_valid env"
  then show "environment_valid env'"
    using apply_environment_moved [OF step] by (auto simp: environment_moved_def)
qed

definition environment_reachable :: "environment \<Rightarrow> bool" where
  "environment_reachable env \<longleftrightarrow>
     (\<exists>start cs. ((\<exists>reservation. ReserveEnvironment reservation = Inr start)
                  \<or> (\<exists>snapshot. RestoreEnvironment snapshot = Inr start))
        \<and> env = run_commands apply_environment start cs)"

lemma environment_reachable_valid: "environment_reachable env \<Longrightarrow> environment_valid env"
  by (auto simp: environment_reachable_def intro!: environment_agg.run_valid
      dest: ReserveEnvironment_valid RestoreEnvironment_valid)

text \<open>
  C39. An Environment that starts from a reservation or a restored snapshot stays valid under every
  sequence of commands, keeps its identity, owner, placement and policy, never lowers its version or
  its update time, and is unchanged whenever its version is unchanged, which is what optimistic
  updates by version rely on.
\<close>

theorem environment_history:
  assumes "environment_reachable env"
  shows "validateEnvironmentSnapshot (run_commands apply_environment env cs) = None
    \<and> environment_identity (run_commands apply_environment env cs) = environment_identity env
    \<and> sint (env_Version env) \<le> sint (env_Version (run_commands apply_environment env cs))
    \<and> \<not> before (env_UpdatedAt (run_commands apply_environment env cs)) (env_UpdatedAt env)
    \<and> (env_Version (run_commands apply_environment env cs) = env_Version env \<longrightarrow>
         run_commands apply_environment env cs = env)"
  using environment_agg.run_history [OF environment_reachable_valid [OF assms]]
  by (simp add: environment_valid_def)

definition sample_environment :: environment where
  "sample_environment =
     \<lparr>env_ID = ''env-1'', env_OwnerUserID = ''user-1'', env_Name = ''dev'', env_Slug = ''dev'',
      env_Lifecycle = EnvironmentCreating, env_Health = EnvironmentHealthUnknown,
      env_Region = ''eu'', env_AvailabilityZone = ''eu-a'', env_RuntimePreset = ''small'',
      env_PinnedProfileVersionID = ''pv-1'', env_CapsuleLockID = None,
      env_UpgradePolicy = UpgradeManual, env_CurrentRuntimeID = None,
      env_AutoStopPolicyID = ''pol-1'', env_CreatedAt = \<lparr>wall = 4, loc = UTC\<rparr>,
      env_UpdatedAt = \<lparr>wall = 4, loc = UTC\<rparr>, env_DeletedAt = None, env_Version = 1\<rparr>"

lemmas environment_eval = validateEnvironmentSnapshot_def validateDeletion_def
  environment_required_def go_time

lemma sample_environment_restored: "RestoreEnvironment sample_environment = Inr sample_environment"
  by (simp add: RestoreEnvironment_def sample_environment_def environment_eval)

lemma sample_environment_reachable: "environment_reachable sample_environment"
  unfolding environment_reachable_def
  using sample_environment_restored by (metis run_commands.simps(1))

theorem environment_history_witness:
  "environment_reachable sample_environment
   \<and> validateEnvironmentSnapshot (run_commands apply_environment sample_environment
       [CmdActivate \<lparr>wall = 5, loc = UTC\<rparr>, CmdBeginDeletion \<lparr>wall = 6, loc = UTC\<rparr>]) = None"
  using sample_environment_reachable environment_history [OF sample_environment_reachable] by blast

section \<open>The lifecycle\<close>

lemma environment_valid_deleted:
  assumes "environment_valid env"
  shows "env_Lifecycle env = EnvironmentDeleted \<longleftrightarrow> env_DeletedAt env \<noteq> None"
    and "env_Lifecycle env = EnvironmentDeleted \<Longrightarrow> env_CurrentRuntimeID env = None"
  using assms by (auto simp: environment_valid_def validateEnvironmentSnapshot_def
      validateDeletion_def split: option.splits if_splits)

lemma deleted_stays:
  assumes "env_Lifecycle env = EnvironmentDeleted"
  shows "run_commands apply_environment env cs = env"
proof (induction cs)
  case (Cons c cs)
  show ?case
  proof (cases "apply_environment c env")
    case (Inr env')
    with assms have "env' = env"
      using apply_environment_moved [OF Inr] by (auto simp: environment_moved_def)
    with Inr Cons show ?thesis by simp
  qed (use Cons in simp)
qed simp

text \<open>
  The lifecycle only moves forward, creating to active to deleting to deleted, one step at a
  time; an Environment is deleted exactly when a deletion time is recorded, has then no current
  Runtime, and no further command changes it in any way.
\<close>

lemma environment_lifecycle:
  assumes "environment_reachable env" and "apply_environment c env = Inr env'"
  shows "(env' = env \<or> lifecycle_edge (env_Lifecycle env) (env_Lifecycle env'))
    \<and> (env_Lifecycle env' = EnvironmentDeleted \<longleftrightarrow> env_DeletedAt env' \<noteq> None)
    \<and> (env_Lifecycle env' = EnvironmentDeleted \<longrightarrow>
         env_CurrentRuntimeID env' = None \<and> run_commands apply_environment env' cs = env')"
proof -
  have "environment_valid env'"
    using assms environment_reachable_valid environment_agg.app_valid by blast
  then show ?thesis
    using apply_environment_moved [OF assms(2)] environment_valid_deleted [of env'] deleted_stays [of env']
    by (auto simp: environment_moved_def)
qed

lemma sample_environment_activates:
  "apply_environment (CmdActivate \<lparr>wall = 5, loc = UTC\<rparr>) sample_environment =
     Inr (sample_environment\<lparr>env_Lifecycle := EnvironmentActive,
            env_UpdatedAt := \<lparr>wall = 5, loc = UTC\<rparr>, env_Version := 2\<rparr>)"
  by (simp add: Activate_def environment_transition_def finalizeEnvironmentTransition_def
      sample_environment_def environment_eval max_int64_def)

section \<open>The current Runtime\<close>

text \<open>A Runtime of the Environment, in its place and of its size.\<close>

definition owned :: "environment \<Rightarrow> runtime \<Rightarrow> bool" where
  "owned env rt \<longleftrightarrow>
     runtime_valid rt \<and> rt_EnvironmentID rt = env_ID env \<and> rt_Region rt = env_Region env
     \<and> rt_AvailabilityZone rt = env_AvailabilityZone env
     \<and> rt_RuntimePreset rt = env_RuntimePreset env"

definition fresh_reservation :: "runtime \<Rightarrow> bool" where
  "fresh_reservation rt \<longleftrightarrow>
     rt_Status rt = RuntimeAbsent \<and> rt_RetiredAt rt = None \<and> rt_ProviderInstanceRef rt = None"

definition retired_runtime :: "runtime \<Rightarrow> bool" where
  "retired_runtime rt \<longleftrightarrow> rt_Status rt = RuntimeAbsent \<and> rt_RetiredAt rt \<noteq> None"

lemma validateInitialRuntime_None_iff:
  "validateInitialRuntime env rt = None \<longleftrightarrow> owned env rt \<and> rt_Sequence rt = 1 \<and> fresh_reservation rt"
  by (auto simp: validateInitialRuntime_def owned_def fresh_reservation_def runtime_valid_def
      validateRuntimeOwnership_def split: option.splits)

lemma validateRetiredRuntime_None_iff:
  "validateRetiredRuntime env rt = None \<longleftrightarrow> owned env rt \<and> retired_runtime rt"
  by (auto simp: validateRetiredRuntime_def owned_def retired_runtime_def runtime_valid_def
      validateRuntimeOwnership_def split: option.splits)

text \<open>Sequences of valid Runtimes are positive, so the next one is larger: no wrap-around.\<close>

lemma owned_next_sequence:
  assumes "owned env current" and "owned env replacement"
  shows "rt_Sequence replacement = rt_Sequence current + 1 \<longleftrightarrow>
    sint (rt_Sequence replacement) = sint (rt_Sequence current) + 1"
proof (cases "rt_Sequence current = max_int64")
  case True
  have "1 \<le> sint (rt_Sequence replacement)"
    using assms(2) by (simp add: owned_def runtime_valid_iff)
  then show ?thesis
    using True sint_int64_bounds(2) [of "rt_Sequence replacement"]
    by (auto simp: sint_succ_max sint_max_int64)
next
  case False
  then show ?thesis
    using sint_succ [OF False] sint_int64_eq_iff by metis
qed

lemma validateRuntimeReplacement_None_iff:
  "validateRuntimeReplacement env current replacement = None \<longleftrightarrow>
     owned env current \<and> owned env replacement \<and> retired_runtime current
     \<and> fresh_reservation replacement
     \<and> sint (rt_Sequence replacement) = sint (rt_Sequence current) + 1"
proof -
  have "validateRuntimeReplacement env current replacement = None \<longleftrightarrow>
     owned env current \<and> owned env replacement \<and> retired_runtime current
     \<and> fresh_reservation replacement \<and> rt_Sequence replacement = rt_Sequence current + 1"
    by (auto simp: validateRuntimeReplacement_def owned_def retired_runtime_def
        fresh_reservation_def runtime_valid_def validateRuntimeOwnership_def split: option.splits)
  then show ?thesis using owned_next_sequence by blast
qed

lemma owned_clone [simp]: "owned env (cloneRuntimeSnapshot rt) = owned env rt"
  by (simp add: owned_def)

lemma fresh_reservation_clone [simp]: "fresh_reservation (cloneRuntimeSnapshot rt) = fresh_reservation rt"
  by (simp add: fresh_reservation_def)

lemma retired_runtime_clone [simp]: "retired_runtime (cloneRuntimeSnapshot rt) = retired_runtime rt"
  by (simp add: retired_runtime_def)

text \<open>
  C19. The current Runtime of an Environment changes in three ways only: an Environment without one
  attaches a fresh first reservation, the current Runtime is detached after it was retired, or it is
  replaced, after it was retired, by a fresh reservation whose sequence is the next one (and never
  wraps around).  Every Runtime involved belongs to the Environment and has its placement and preset.
\<close>

theorem current_runtime_changes:
  assumes "apply_environment c env = Inr env'" and "env_CurrentRuntimeID env' \<noteq> env_CurrentRuntimeID env"
  shows "(\<exists>rt at. c = CmdAttachRuntime rt at \<and> env_CurrentRuntimeID env = None
            \<and> env_CurrentRuntimeID env' = Some (rt_ID rt) \<and> owned env rt \<and> fresh_reservation rt
            \<and> rt_Sequence rt = 1)
    \<or> (\<exists>rt at. c = CmdDetachRuntime rt at \<and> env_CurrentRuntimeID env = Some (rt_ID rt)
            \<and> env_CurrentRuntimeID env' = None \<and> owned env rt \<and> retired_runtime rt)
    \<or> (\<exists>old new at. c = CmdReplaceRuntime old new at \<and> env_CurrentRuntimeID env = Some (rt_ID old)
            \<and> env_CurrentRuntimeID env' = Some (rt_ID new) \<and> owned env old \<and> owned env new
            \<and> retired_runtime old \<and> fresh_reservation new
            \<and> sint (rt_Sequence new) = sint (rt_Sequence old) + 1)"
  using assms
  by (cases c) (auto simp: environment_command_defs environment_transition_Inr_iff
      finalizeEnvironmentTransition_Inr_iff validateInitialRuntime_None_iff
      validateRetiredRuntime_None_iff validateRuntimeReplacement_None_iff Let_def
      split: if_splits sum.splits option.splits)

lemma sample_environment_attaches:
  "apply_environment (CmdAttachRuntime sample_runtime \<lparr>wall = 5, loc = UTC\<rparr>) sample_environment =
     Inr (sample_environment\<lparr>env_CurrentRuntimeID := Some ''rt-1'',
            env_UpdatedAt := \<lparr>wall = 5, loc = UTC\<rparr>, env_Version := 2\<rparr>)"
proof -
  have initial: "validateInitialRuntime sample_environment (cloneRuntimeSnapshot sample_runtime) = None"
    using runtime_reachable_valid [OF sample_runtime_reachable]
    by (simp add: validateInitialRuntime_None_iff owned_def fresh_reservation_def
        sample_environment_def sample_runtime_def)
  show ?thesis
    unfolding apply_environment.simps AttachRuntime_def Let_def initial option.case
    by (simp add: environment_transition_def finalizeEnvironmentTransition_def
        sample_environment_def sample_runtime_def environment_eval max_int64_def)
qed

theorem current_runtime_changes_witness:
  "owned sample_environment sample_runtime \<and> fresh_reservation sample_runtime"
  using current_runtime_changes [OF sample_environment_attaches]
  by (simp add: sample_environment_def)

section \<open>Completing a creation\<close>

lemma environment_valid_iff:
  "environment_valid env \<longleftrightarrow>
     first_name (\<lambda>val. blank val \<or> untrimmed val) (environment_required env) = None
     \<and> environment_lifecycle_valid (env_Lifecycle env) \<and> environment_health_valid (env_Health env)
     \<and> upgrade_policy_Valid (env_UpgradePolicy env)
     \<and> (\<forall>lid. env_CapsuleLockID env = Some lid \<longrightarrow> \<not> blank lid \<and> \<not> untrimmed lid)
     \<and> (\<forall>rid. env_CurrentRuntimeID env = Some rid \<longrightarrow> rid \<noteq> [] \<and> \<not> untrimmed rid)
     \<and> \<not> is_zero (env_CreatedAt env) \<and> \<not> is_zero (env_UpdatedAt env)
     \<and> \<not> before (env_UpdatedAt env) (env_CreatedAt env)
     \<and> validateDeletion env = None \<and> 1 \<le> sint (env_Version env)"
  unfolding environment_valid_def validateEnvironmentSnapshot_def
  by (auto simp: not_less split: option.splits if_splits)

text \<open>A transition that keeps the named fields and is not about deletion is never refused.\<close>

lemma finalize_environment_succeeds:
  assumes "environment_valid env" and "\<not> is_zero at" and "\<not> before at (env_UpdatedAt env)"
    and "env_Version env \<noteq> max_int64" and "env_Lifecycle env \<noteq> EnvironmentDeleted"
    and "l \<noteq> EnvironmentDeleted" and "environment_lifecycle_valid l" and "environment_health_valid h"
  shows "finalizeEnvironmentTransition (env\<lparr>env_Lifecycle := l, env_Health := h\<rparr>) at =
    Inr (env\<lparr>env_Lifecycle := l, env_Health := h, env_UpdatedAt := at,
             env_Version := env_Version env + 1\<rparr>)"
proof -
  let ?moved = "env\<lparr>env_Lifecycle := l, env_Health := h, env_UpdatedAt := at,
                    env_Version := env_Version env + 1\<rparr>"
  note base = assms(1) [unfolded environment_valid_iff]
  have names: "environment_required ?moved = environment_required env"
    by (simp add: environment_required_def)
  have "validateDeletion ?moved = None"
    using base assms(5,6) by (auto simp: validateDeletion_def split: if_splits)
  moreover have "\<not> before at (env_CreatedAt env)"
    using base assms(3) by (auto simp: go_time)
  ultimately have "environment_valid ?moved"
    unfolding environment_valid_iff names using base assms(2,7,8) sint_succ [OF assms(4)] by auto
  then show ?thesis
    using assms(4) by (simp add: finalizeEnvironmentTransition_def environment_valid_def)
qed

lemma Activate_succeeds:
  assumes "environment_valid env" and "\<not> is_zero at" and "\<not> before at (env_UpdatedAt env)"
    and "env_Version env \<noteq> max_int64" and "env_Lifecycle env = EnvironmentCreating"
  shows "Activate env at = Inr (env\<lparr>env_Lifecycle := EnvironmentActive, env_UpdatedAt := at,
    env_Version := env_Version env + 1\<rparr>)"
proof -
  have "environment_health_valid (env_Health env)"
    using assms(1) unfolding environment_valid_iff by blast
  then show ?thesis
    using finalize_environment_succeeds [OF assms(1-4), of EnvironmentActive "env_Health env"] assms
    by (simp add: Activate_def environment_transition_def environment_valid_def)
qed

lemma UpdateHealth_succeeds:
  assumes "environment_valid env" and "\<not> is_zero at" and "\<not> before at (env_UpdatedAt env)"
    and "env_Version env \<noteq> max_int64" and "env_Lifecycle env = EnvironmentActive"
    and "environment_health_valid h"
  obtains env' where "UpdateHealth env h at = Inr env'" and "env_Health env' = h"
    and "env_Lifecycle env' = EnvironmentActive"
    and "env_CurrentRuntimeID env' = env_CurrentRuntimeID env"
proof (cases "env_Health env = h")
  case True
  with assms that [of env] show ?thesis
    by (simp add: UpdateHealth_def environment_transition_def environment_valid_def)
next
  case False
  have same: "env\<lparr>env_Lifecycle := EnvironmentActive\<rparr> = env"
    using assms(5) by (cases env) simp
  from False show ?thesis
    using finalize_environment_succeeds [OF assms(1-4), of EnvironmentActive h, unfolded same] assms
      that [of "env\<lparr>env_Health := h, env_UpdatedAt := at, env_Version := env_Version env + 1\<rparr>"]
    by (simp add: UpdateHealth_def environment_transition_def environment_valid_def)
qed

text \<open>
  When an Environment under creation is valid, has its initial Runtime, and its Operation was
  accepted by a workflow invocation and has not ended, completing the creation succeeds at any time
  that does not run backwards: the Environment is then active and healthy with the same Runtime, and
  the Operation has succeeded at that time.
\<close>

lemma creation_completes:
  assumes "environment_reachable (ec_environment creation)"
    and "env_Lifecycle (ec_environment creation) = EnvironmentCreating"
    and "env_CurrentRuntimeID (ec_environment creation) = Some rid"
    and "sint (env_Version (ec_environment creation)) + 2 \<le> 9223372036854775807"
    and "op_Status (ec_operation creation) \<in> {OperationQueued, OperationRunning}"
    and "op_RestateInvocationID (ec_operation creation) = Some invocation"
    and "\<not> is_zero at" and "\<not> before at (env_UpdatedAt (ec_environment creation))"
    and "\<not> before at (op_CreatedAt (ec_operation creation))"
  shows "\<exists>creation'. Complete creation at = Inr creation'
    \<and> env_Lifecycle (ec_environment creation') = EnvironmentActive
    \<and> env_Health (ec_environment creation') = EnvironmentHealthHealthy
    \<and> env_CurrentRuntimeID (ec_environment creation') = Some rid
    \<and> op_Status (ec_operation creation') = OperationSucceeded
    \<and> op_CompletedAt (ec_operation creation') = Some at
    \<and> op_RestateInvocationID (ec_operation creation') = Some invocation"
proof -
  let ?env = "ec_environment creation" and ?op = "ec_operation creation"
  have valid: "environment_valid ?env"
    by (rule environment_reachable_valid [OF assms(1)])
  have room: "env_Version ?env \<noteq> max_int64" "env_Version ?env + 1 \<noteq> max_int64"
  proof -
    show "env_Version ?env \<noteq> max_int64" using assms(4) by (auto simp: sint_max_int64)
    then show "env_Version ?env + 1 \<noteq> max_int64"
      using assms(4) sint_succ [of "env_Version ?env"] by (auto simp: sint_max_int64)
  qed
  define activated where "activated = ?env\<lparr>env_Lifecycle := EnvironmentActive, env_UpdatedAt := at,
    env_Version := env_Version ?env + 1\<rparr>"
  have active: "Activate ?env at = Inr activated"
    unfolding activated_def by (rule Activate_succeeds [OF valid assms(7,8) room(1) assms(2)])
  then have "environment_valid activated"
    using environment_agg.app_valid [OF valid, of "CmdActivate at"] by simp
  then obtain healthy where "UpdateHealth activated EnvironmentHealthHealthy at = Inr healthy"
    and "env_Health healthy = EnvironmentHealthHealthy" and "env_Lifecycle healthy = EnvironmentActive"
    and "env_CurrentRuntimeID healthy = Some rid"
    using assms(3,7) room(2) UpdateHealth_succeeds [of activated at EnvironmentHealthHealthy]
    unfolding activated_def by (auto simp: go_time)
  moreover have "Start ?op at = Inr (?op\<lparr>op_Status := OperationRunning\<rparr>)"
    using assms(5,9) by (auto simp: Start_def)
  ultimately show ?thesis
    using active assms(3,6,9) by (simp add: Complete_def Succeed_def)
qed

definition sample_creation :: environment_creation where
  "sample_creation =
     \<lparr>ec_environment = sample_environment\<lparr>env_CurrentRuntimeID := Some ''rt-1'',
        env_UpdatedAt := \<lparr>wall = 5, loc = UTC\<rparr>, env_Version := 2\<rparr>,
      ec_policy = \<lparr>pol_ID = ''pol-1'', pol_EnvironmentID = ''env-1'', pol_Mode = AutoStopManual,
                   pol_GracePeriodSeconds = 0\<rparr>,
      ec_operation = \<lparr>op_ID = ''op-1'', op_EnvironmentID = ''env-1'',
        op_Type = OperationEnvironmentCreate, op_Status = OperationQueued,
        op_RequestedByUserID = ''user-1'', op_IdempotencyKey = ''k'',
        op_RestateInvocationID = Some ''inv-1'', op_Input = ''x'',
        op_CreatedAt = \<lparr>wall = 4, loc = UTC\<rparr>, op_CompletedAt = None\<rparr>,
      ec_projectSeedID = ''seed-1'', ec_sshKeyIDs = [''key-1'']\<rparr>"

lemma sample_creation_reachable: "environment_reachable (ec_environment sample_creation)"
proof -
  have "ec_environment sample_creation = run_commands apply_environment sample_environment
      [CmdAttachRuntime sample_runtime \<lparr>wall = 5, loc = UTC\<rparr>]"
    using sample_environment_attaches by (simp add: sample_creation_def)
  then show ?thesis
    unfolding environment_reachable_def using sample_environment_restored by blast
qed

end
