(* ===== verification/Reconciliation.thy ===== *)
theory Reconciliation
  imports Capsule_Locks
begin

text \<open>
  \<open>libs/domain/reconciliation.go\<close>: the Components a Runtime reports as installed are compared
  with its Capsule Lock.  The specification says for one Component ID what, if anything, is wrong
  with it; the theorem says that the loop over sorted IDs reports exactly that, once per ID.
\<close>

record installed_component_state =
  ics_ComponentID :: string
  ics_LockDigest :: string
  ics_CapsuleDigest :: string
  ics_ComponentDigest :: string

datatype component_divergence_class =
    DivergenceMissing
  | DivergenceExtra
  | DivergenceChanged
  | DivergenceConflict

record component_divergence =
  div_ComponentID :: string
  div_Class :: component_divergence_class
  div_ExpectedDigest :: string
  div_ObservedDigest :: string
  div_ExpectedLock :: string
  div_ObservedLock :: string

text \<open>\<open>installedByID\<close>: a later report of the same Component replaces an earlier one.\<close>

definition installed_by_id :: "installed_component_state list \<Rightarrow> string \<Rightarrow> installed_component_state option" where
  "installed_by_id installed = map_of (rev (map (\<lambda>c. (ics_ComponentID c, c)) installed))"

definition both_divergence ::
  "capsule_lock_snapshot \<Rightarrow> string \<Rightarrow> component_divergence_class \<Rightarrow> resolved_component
   \<Rightarrow> installed_component_state \<Rightarrow> component_divergence" where
  "both_divergence lock cid cls expected observed =
     \<lparr>div_ComponentID = cid, div_Class = cls, div_ExpectedDigest = rc_ComponentDigest expected,
      div_ObservedDigest = ics_ComponentDigest observed, div_ExpectedLock = lock_Digest lock,
      div_ObservedLock = ics_LockDigest observed\<rparr>"

text \<open>The \<open>switch\<close> on one ID, in the order of its cases.\<close>

definition diverge ::
  "capsule_lock_snapshot \<Rightarrow> installed_component_state list \<Rightarrow> string \<Rightarrow> component_divergence option" where
  "diverge lock installed cid =
     (case map_of (lock_ResolvedComponents lock) cid of
        None \<Rightarrow>
          (case installed_by_id installed cid of
             Some observed \<Rightarrow>
               Some \<lparr>div_ComponentID = cid, div_Class = DivergenceExtra, div_ExpectedDigest = [],
                     div_ObservedDigest = ics_ComponentDigest observed, div_ExpectedLock = [],
                     div_ObservedLock = ics_LockDigest observed\<rparr>
           | None \<Rightarrow>
               Some \<lparr>div_ComponentID = cid, div_Class = DivergenceExtra, div_ExpectedDigest = [],
                     div_ObservedDigest = [], div_ExpectedLock = [], div_ObservedLock = []\<rparr>)
      | Some expected \<Rightarrow>
          (case installed_by_id installed cid of
             None \<Rightarrow>
               Some \<lparr>div_ComponentID = cid, div_Class = DivergenceMissing,
                     div_ExpectedDigest = rc_ComponentDigest expected, div_ObservedDigest = [],
                     div_ExpectedLock = lock_Digest lock, div_ObservedLock = []\<rparr>
           | Some observed \<Rightarrow>
               if ics_LockDigest observed = [] \<or> ics_CapsuleDigest observed = []
                  \<or> ics_ComponentDigest observed = []
               then Some (both_divergence lock cid DivergenceMissing expected observed)
               else if ics_LockDigest observed \<noteq> [] \<and> ics_LockDigest observed \<noteq> lock_Digest lock
               then Some (both_divergence lock cid DivergenceConflict expected observed)
               else if ics_CapsuleDigest observed \<noteq> []
                       \<and> ics_CapsuleDigest observed \<noteq> rc_CapsuleDigest expected
               then Some (both_divergence lock cid DivergenceChanged expected observed)
               else if ics_ComponentDigest observed \<noteq> rc_ComponentDigest expected
               then Some (both_divergence lock cid DivergenceChanged expected observed)
               else None))"

definition reconcile_ids :: "capsule_lock_snapshot \<Rightarrow> installed_component_state list \<Rightarrow> string list" where
  "reconcile_ids lock installed =
     (let locked = map fst (lock_ResolvedComponents lock)
      in sort (locked @ filter (\<lambda>cid. cid \<notin> set locked) (remdups (map ics_ComponentID installed))))"

fun reconcile_loop ::
  "(string \<Rightarrow> component_divergence option) \<Rightarrow> string list \<Rightarrow> string list \<Rightarrow> component_divergence list" where
  "reconcile_loop check seen [] = []"
| "reconcile_loop check seen (cid # ids) =
     (if cid \<in> set seen then reconcile_loop check seen ids
      else case check cid of
        None \<Rightarrow> reconcile_loop check (cid # seen) ids
      | Some divergence \<Rightarrow> divergence # reconcile_loop check (cid # seen) ids)"

definition ReconcileCapsuleLockComponents ::
  "capsule_lock_snapshot \<Rightarrow> installed_component_state list \<Rightarrow> component_divergence list" where
  "ReconcileCapsuleLockComponents lock installed =
     reconcile_loop (diverge lock installed) [] (reconcile_ids lock installed)"

section \<open>What the loop reports\<close>

lemma set_reconcile_ids:
  "set (reconcile_ids lock installed) =
     fst ` set (lock_ResolvedComponents lock) \<union> ics_ComponentID ` set installed"
  by (auto simp: reconcile_ids_def Let_def image_image)

lemma distinct_reconcile_ids:
  "distinct (map fst (lock_ResolvedComponents lock)) \<Longrightarrow> distinct (reconcile_ids lock installed)"
  by (auto simp: reconcile_ids_def Let_def)

lemma reconcile_loop_distinct:
  "distinct ids \<Longrightarrow> set ids \<inter> set seen = {} \<Longrightarrow>
   reconcile_loop check seen ids = List.map_filter check ids"
  by (induction ids arbitrary: seen) (auto simp: map_filter_simps split: option.splits)

lemma diverge_ComponentID: "diverge lock installed cid = Some d \<Longrightarrow> div_ComponentID d = cid"
  by (auto simp: diverge_def both_divergence_def split: option.splits if_splits)

lemma installed_by_id_Some_iff:
  "(\<exists>c. installed_by_id installed cid = Some c) \<longleftrightarrow> cid \<in> ics_ComponentID ` set installed"
  using map_of_eq_None_iff [of "rev (map (\<lambda>c. (ics_ComponentID c, c)) installed)" cid]
  by (force simp: installed_by_id_def image_image simp flip: not_None_eq)

lemma sorted_map_filter_ids:
  "sorted ids \<Longrightarrow> distinct ids \<Longrightarrow>
   sorted_wrt (<) (map div_ComponentID (List.map_filter (diverge lock installed) ids))"
proof (induction ids)
  case (Cons cid ids)
  have "cid < div_ComponentID d" if "d \<in> set (List.map_filter (diverge lock installed) ids)" for d
  proof -
    from that obtain cid' where "cid' \<in> set ids" "diverge lock installed cid' = Some d"
      by (auto simp: in_map_filter_iff)
    with Cons.prems show ?thesis
      using diverge_ComponentID by (fastforce simp: order.strict_iff_order)
  qed
  with Cons show ?case
    by (auto simp: map_filter_simps split: option.splits dest: diverge_ComponentID)
qed (simp add: map_filter_simps)

text \<open>The agreement a clean report certifies.\<close>

definition installed_as_locked ::
  "capsule_lock_snapshot \<Rightarrow> installed_component_state list \<Rightarrow> string \<Rightarrow> bool" where
  "installed_as_locked lock installed cid \<longleftrightarrow>
     (\<exists>expected observed. map_of (lock_ResolvedComponents lock) cid = Some expected
        \<and> installed_by_id installed cid = Some observed
        \<and> ics_LockDigest observed = lock_Digest lock
        \<and> ics_CapsuleDigest observed = rc_CapsuleDigest expected
        \<and> ics_ComponentDigest observed = rc_ComponentDigest expected
        \<and> [] \<notin> {ics_LockDigest observed, ics_CapsuleDigest observed, ics_ComponentDigest observed})"

lemma diverge_None_iff: "diverge lock installed cid = None \<longleftrightarrow> installed_as_locked lock installed cid"
  by (auto simp: diverge_def installed_as_locked_def split: option.splits)

text \<open>
  Reconciliation reports each diverging Component once, in the order of their IDs, and reports
  a Component exactly when it is locked or installed but not installed as locked: so an empty report
  means that the Runtime has every locked Component, no other, each from this very lock with its
  locked Capsule and content digests.
\<close>

lemma reconcile_exact:
  assumes "distinct (map fst (lock_ResolvedComponents lock))"
  shows "sorted_wrt (<) (map div_ComponentID (ReconcileCapsuleLockComponents lock installed))
    \<and> div_ComponentID ` set (ReconcileCapsuleLockComponents lock installed) =
        {cid \<in> fst ` set (lock_ResolvedComponents lock) \<union> ics_ComponentID ` set installed.
           \<not> installed_as_locked lock installed cid}"
proof -
  have loop: "ReconcileCapsuleLockComponents lock installed =
      List.map_filter (diverge lock installed) (reconcile_ids lock installed)"
    unfolding ReconcileCapsuleLockComponents_def
    by (rule reconcile_loop_distinct [OF distinct_reconcile_ids [OF assms]]) simp
  have "sorted (reconcile_ids lock installed)"
    by (simp add: reconcile_ids_def Let_def)
  note sorted_map_filter_ids [OF this distinct_reconcile_ids [OF assms]]
  moreover have "div_ComponentID ` set (List.map_filter (diverge lock installed) ids) =
      {cid \<in> set ids. \<not> installed_as_locked lock installed cid}" for ids
  proof -
    have "cid \<in> div_ComponentID ` set (List.map_filter (diverge lock installed) ids) \<longleftrightarrow>
        cid \<in> set ids \<and> diverge lock installed cid \<noteq> None" for cid
      using diverge_ComponentID by (force simp: in_map_filter_iff image_iff)
    then show ?thesis by (auto simp: diverge_None_iff)
  qed
  ultimately show ?thesis
    unfolding loop set_reconcile_ids [symmetric] by blast
qed

end
