(* ===== verification/Durable_Poll.thy ===== *)
theory Durable_Poll
  imports Prelude
begin

text \<open>
  \<open>apps/workflows/durable_deadline_poll.go\<close>: the poller every durable workflow shares.  It reads
  an external value until \<open>evaluate\<close> is satisfied or an absolute deadline passes, sleeping between
  reads with a doubling, capped delay.  The workflow engine is the argument \<open>journal\<close>: given the
  attempt, the time of the last check and the delay slept before the read, it returns the journaled
  read with its time, or an error.  The loop runs with fuel; \<open>poll_terminates\<close> says how much is
  enough when a sleep lasts at least as long as it was asked to.
\<close>

section \<open>Data\<close>

record poll_config =
  cfg_startedAt :: gotime
  cfg_timeout :: int64
  cfg_initialDelay :: int64
  cfg_maxDelay :: int64
  cfg_stepPrefix :: string
  cfg_readStepPrefix :: string

record 'a poll_read =
  read_Value :: 'a
  read_UseValue :: bool
  read_RetryableFailure :: bool

record 'a poll_result =
  res_value :: 'a
  res_hasValue :: bool
  res_startedAt :: gotime
  res_checkedAt :: gotime
  res_timedOut :: bool

datatype 'e poll_error =
    PollNotConfigured
  | PollStartRequired
  | PollInitialTimeRequired
  | PollReadTimeRequired
  | PollClockBackwards
  | PollEngine 'e

type_synonym ('e, 'a) journal = "nat \<Rightarrow> gotime \<Rightarrow> int64 option \<Rightarrow> 'e + 'a poll_read \<times> gotime"

section \<open>The loop\<close>

definition min_int64s :: "int64 \<Rightarrow> int64 \<Rightarrow> int64" where
  "min_int64s a b = (if sint a \<le> sint b then a else b)"

definition take_read ::
  "('a \<Rightarrow> gotime \<Rightarrow> 'a) option \<Rightarrow> 'a poll_result \<Rightarrow> 'a poll_read \<Rightarrow> gotime \<Rightarrow> 'a poll_result" where
  "take_read stamp result rd checkedAt =
     (let checked = result\<lparr>res_checkedAt := checkedAt\<rparr> in
      if read_UseValue rd
      then checked\<lparr>res_value := (case stamp of None \<Rightarrow> read_Value rd
                                 | Some f \<Rightarrow> f (read_Value rd) checkedAt), res_hasValue := True\<rparr>
      else checked)"

text \<open>One round of the loop ends the poll or leaves a delay and a result for the next round.\<close>

datatype ('e, 'a) round = Ended "'e poll_error + 'a poll_result" | Again int64 "'a poll_result"

definition poll_round ::
  "poll_config \<Rightarrow> gotime \<Rightarrow> ('e, 'a) journal \<Rightarrow> ('a \<Rightarrow> gotime \<Rightarrow> 'a \<times> bool)
   \<Rightarrow> ('a \<Rightarrow> gotime \<Rightarrow> 'a) option \<Rightarrow> nat \<Rightarrow> int64 \<Rightarrow> bool \<Rightarrow> 'a poll_result \<Rightarrow> ('e, 'a) round" where
  "poll_round config deadline journal evaluate stamp attempt delay immediate result =
     (if \<not> before (res_checkedAt result) deadline
      then Ended (Inr (result\<lparr>res_timedOut := True\<rparr>))
      else
        let remaining = time_sub deadline (res_checkedAt result);
            slept = (if \<not> immediate \<and> sint delay > sint remaining then remaining else delay)
        in case journal attempt (res_checkedAt result) (if immediate then None else Some slept) of
             Inl err \<Rightarrow> Ended (Inl (PollEngine err))
           | Inr (rd, checkedAt) \<Rightarrow>
               if is_zero checkedAt then Ended (Inl PollReadTimeRequired)
               else if before checkedAt (res_checkedAt result) then Ended (Inl PollClockBackwards)
               else
                 let taken = take_read stamp result rd checkedAt;
                     (evaluated, done) =
                       (if \<not> read_RetryableFailure rd \<and> res_hasValue taken
                        then evaluate (res_value taken) (res_startedAt taken)
                        else (res_value taken, False));
                     after = taken\<lparr>res_value := evaluated\<rparr>
                 in
                 if done then Ended (Inr after)
                 else if \<not> before (res_checkedAt after) deadline
                 then Ended (Inr (after\<lparr>res_timedOut := True\<rparr>))
                 else Again (if immediate then slept
                             else min_int64s (slept * 2) (cfg_maxDelay config)) after)"

fun poll_loop ::
  "nat \<Rightarrow> poll_config \<Rightarrow> gotime \<Rightarrow> ('e, 'a) journal \<Rightarrow> ('a \<Rightarrow> gotime \<Rightarrow> 'a \<times> bool)
   \<Rightarrow> ('a \<Rightarrow> gotime \<Rightarrow> 'a) option \<Rightarrow> nat \<Rightarrow> int64 \<Rightarrow> bool \<Rightarrow> 'a poll_result
   \<Rightarrow> ('e poll_error + 'a poll_result) option" where
  "poll_loop 0 config deadline journal evaluate stamp attempt delay immediate result = None"
| "poll_loop (Suc fuel) config deadline journal evaluate stamp attempt delay immediate result =
     (case poll_round config deadline journal evaluate stamp attempt delay immediate result of
        Ended r \<Rightarrow> Some r
      | Again delay' result' \<Rightarrow>
          poll_loop fuel config deadline journal evaluate stamp (Suc attempt) delay' False result')"

text \<open>
  \<open>durableDeadlinePoll\<close> after the nil checks on its function arguments; \<open>zero\<close> is the zero value
  of the polled type, \<open>start\<close> the journaled start time when the configuration has none.
\<close>

definition durableDeadlinePoll ::
  "nat \<Rightarrow> 'a \<Rightarrow> 'e + gotime \<Rightarrow> ('a \<times> gotime) option \<Rightarrow> poll_config \<Rightarrow> ('e, 'a) journal
   \<Rightarrow> ('a \<Rightarrow> gotime \<Rightarrow> 'a \<times> bool) \<Rightarrow> ('a \<Rightarrow> gotime \<Rightarrow> 'a) option
   \<Rightarrow> ('e poll_error + 'a poll_result) option" where
  "durableDeadlinePoll fuel zero start initial config journal evaluate stamp =
     (if sint (cfg_timeout config) \<le> 0 \<or> sint (cfg_initialDelay config) \<le> 0
         \<or> sint (cfg_maxDelay config) \<le> 0 \<or> cfg_stepPrefix config = []
         \<or> cfg_readStepPrefix config = []
      then Some (Inl PollNotConfigured)
      else case (if is_zero (cfg_startedAt config) then start else Inr (cfg_startedAt config)) of
        Inl err \<Rightarrow> Some (Inl (PollEngine err))
      | Inr startedAt \<Rightarrow>
          if is_zero startedAt then Some (Inl PollStartRequired)
          else
            let deadline = time_add startedAt (cfg_timeout config);
                result = \<lparr>res_value = zero, res_hasValue = False, res_startedAt = startedAt,
                          res_checkedAt = startedAt, res_timedOut = False\<rparr>
            in case initial of
                 None \<Rightarrow>
                   poll_loop fuel config deadline journal evaluate stamp 1
                     (cfg_initialDelay config) True result
               | Some (val, checkedAt) \<Rightarrow>
                   if is_zero checkedAt then Some (Inl PollInitialTimeRequired)
                   else
                     let (evaluated, done) = evaluate val startedAt;
                         seen = result\<lparr>res_value := evaluated, res_hasValue := True,
                                       res_checkedAt := checkedAt\<rparr>
                     in if done then Some (Inr seen)
                        else poll_loop fuel config deadline journal evaluate stamp 1
                               (cfg_initialDelay config) False seen)"

section \<open>Facts about one round\<close>

lemma take_read_fields [simp]:
  "res_checkedAt (take_read stamp result rd t) = t"
  "res_startedAt (take_read stamp result rd t) = res_startedAt result"
  "res_timedOut (take_read stamp result rd t) = res_timedOut result"
  by (simp_all add: take_read_def Let_def)

text \<open>Half of the range of a duration, 146 years: a delay below it can be doubled.\<close>

definition doubling_ok :: "int64 \<Rightarrow> bool" where
  "doubling_ok d \<longleftrightarrow> 0 < sint d \<and> sint d \<le> 4611686018427387903"

lemma doubled_ok:
  assumes "doubling_ok d" and "doubling_ok m"
  shows "doubling_ok (min_int64s (d * 2) m)"
proof -
  have "sint (d + d) = sint d + sint d"
    using assms(1) by (intro sint_add_exact) (auto simp: doubling_ok_def)
  then have "sint (d * 2) = 2 * sint d"
    by (simp add: mult_2_right)
  with assms show ?thesis
    by (auto simp: doubling_ok_def min_int64s_def)
qed

lemma remaining_exact:
  assumes "before t deadline"
  shows "0 < sint (time_sub deadline t) \<and> sint (time_sub deadline t) \<le> wall deadline - wall t"
proof -
  have "sint (word_of_int d :: int64) = d" if "0 < d" "d \<le> 9223372036854775807" for d
    using that by (simp add: sint_sbintrunc' signed_take_bit_int_eq_self)
  then show ?thesis
    using assms by (auto simp: time_sub_def before_def Let_def sint_max_int64 simp del: of_int_diff)
qed

text \<open>The delay a round sleeps: positive, and never past the deadline.\<close>

lemma slept_ok:
  assumes "doubling_ok delay" and "before t deadline"
    and "slept = (if \<not> immediate \<and> sint delay > sint (time_sub deadline t)
                  then time_sub deadline t else delay)"
  shows "doubling_ok slept \<and> (\<not> immediate \<longrightarrow> sint slept \<le> wall deadline - wall t)"
  using assms remaining_exact [OF assms(2)] by (auto simp: doubling_ok_def)

section \<open>Termination\<close>

text \<open>The engine sleeps at least as long as asked: the documented behaviour of a durable sleep.\<close>

definition sleeps_fully :: "('e, 'a) journal \<Rightarrow> bool" where
  "sleeps_fully journal \<longleftrightarrow>
     (\<forall>attempt t d rd checkedAt.
        journal attempt t (Some d) = Inr (rd, checkedAt) \<longrightarrow> wall t + sint d \<le> wall checkedAt)"

lemma poll_round_Again:
  assumes "sleeps_fully journal" and "doubling_ok (cfg_maxDelay config)" and "doubling_ok delay"
    and "poll_round config deadline journal evaluate stamp attempt delay immediate result
         = Again delay' result'"
  shows "doubling_ok delay'" and "before (res_checkedAt result) deadline"
    and "wall (res_checkedAt result) + (if immediate then 0 else 1) \<le> wall (res_checkedAt result')"
proof -
  let ?t = "res_checkedAt result"
  define slept where "slept = (if \<not> immediate \<and> sint delay > sint (time_sub deadline ?t)
      then time_sub deadline ?t else delay)"
  show deadline: "before ?t deadline"
    using assms(4) by (auto simp: poll_round_def split: if_splits)
  from assms(4) obtain rd where rd:
    "journal attempt ?t (if immediate then None else Some slept) = Inr (rd, res_checkedAt result')"
    "\<not> before (res_checkedAt result') ?t"
    and delay': "delay' = (if immediate then slept else min_int64s (slept * 2) (cfg_maxDelay config))"
    unfolding poll_round_def Let_def slept_def [symmetric]
    by (auto split: if_splits sum.splits prod.splits)
  note ok = slept_ok [OF assms(3) deadline slept_def]
  show "doubling_ok delay'"
    using ok doubled_ok assms(2) delay' by auto
  show "wall ?t + (if immediate then 0 else 1) \<le> wall (res_checkedAt result')"
  proof (cases immediate)
    case False
    then have "wall ?t + sint slept \<le> wall (res_checkedAt result')"
      using rd(1) assms(1) by (auto simp: sleeps_fully_def)
    then show ?thesis using ok False by (auto simp: doubling_ok_def)
  qed (use rd(2) in \<open>simp add: before_def\<close>)
qed

lemma poll_loop_terminates:
  assumes "sleeps_fully journal" and "doubling_ok (cfg_maxDelay config)"
  shows "doubling_ok delay \<Longrightarrow>
    nat (wall deadline - wall (res_checkedAt result)) + (if immediate then 2 else 1) \<le> fuel \<Longrightarrow>
    \<exists>r. poll_loop fuel config deadline journal evaluate stamp attempt delay immediate result = Some r"
proof (induction fuel arbitrary: attempt delay immediate result)
  case 0
  then show ?case by (simp split: if_splits)
next
  case (Suc fuel)
  show ?case
  proof (cases "poll_round config deadline journal evaluate stamp attempt delay immediate result")
    case (Again delay' result')
    note facts = poll_round_Again [OF assms Suc.prems(1) Again]
    have "nat (wall deadline - wall (res_checkedAt result')) + (if False then 2 else 1) \<le> fuel"
      using facts(2,3) Suc.prems(2) by (auto simp: before_def split: if_splits)
    from Suc.IH [OF facts(1) this] Again show ?thesis by simp
  qed simp
qed

section \<open>What a result means\<close>

lemma poll_round_Ended:
  assumes "poll_round config deadline journal evaluate stamp attempt delay immediate result
     = Ended (Inr r)" and "\<not> res_timedOut result"
  shows "res_startedAt r = res_startedAt result"
    and "if res_timedOut r then \<not> before (res_checkedAt r) deadline
         else res_hasValue r \<and> (\<exists>v. evaluate v (res_startedAt r) = (res_value r, True))"
  using assms by (auto simp: poll_round_def Let_def split: if_splits sum.splits prod.splits)

lemma poll_round_Again_fields:
  assumes "poll_round config deadline journal evaluate stamp attempt delay immediate result
     = Again delay' result'"
  shows "res_startedAt result' = res_startedAt result" and "res_timedOut result' = res_timedOut result"
  using assms by (auto simp: poll_round_def Let_def split: if_splits sum.splits prod.splits)

lemma poll_loop_sound:
  "poll_loop fuel config deadline journal evaluate stamp attempt delay immediate result = Some (Inr r)
   \<Longrightarrow> \<not> res_timedOut result
   \<Longrightarrow> res_startedAt r = res_startedAt result
     \<and> (if res_timedOut r then \<not> before (res_checkedAt r) deadline
        else res_hasValue r \<and> (\<exists>v. evaluate v (res_startedAt r) = (res_value r, True)))"
proof (induction fuel arbitrary: attempt delay immediate result)
  case (Suc fuel)
  show ?case
  proof (cases "poll_round config deadline journal evaluate stamp attempt delay immediate result")
    case (Ended e)
    with Suc.prems poll_round_Ended show ?thesis by fastforce
  next
    case (Again delay' result')
    note fields = poll_round_Again_fields [OF Again]
    have "poll_loop fuel config deadline journal evaluate stamp (Suc attempt) delay' False result'
        = Some (Inr r)" using Suc.prems(1) Again by simp
    from Suc.IH [OF this] Suc.prems(2) show ?thesis unfolding fields by blast
  qed
qed simp

text \<open>
  A poll that returns a result either was satisfied, and then it holds a value the evaluation
  accepted for this start, or reports a time-out, and then its last check was not before the
  deadline: a poll never gives up early and never reports an unsatisfied value as satisfied.
\<close>

lemma poll_sound:
  assumes "durableDeadlinePoll fuel zero start initial config journal evaluate stamp = Some (Inr r)"
  shows "if res_timedOut r
    then \<not> before (res_checkedAt r) (time_add (res_startedAt r) (cfg_timeout config))
    else res_hasValue r \<and> (\<exists>v. evaluate v (res_startedAt r) = (res_value r, True))"
  using assms unfolding durableDeadlinePoll_def Let_def
  by (auto split: if_splits sum.splits option.splits prod.splits dest: poll_loop_sound)

section \<open>Total correctness\<close>

text \<open>
  Rounds that are enough: two, and one per nanosecond from the last check that is known at the start to
  the deadline, for the configured start or the one the engine journals.
\<close>

definition enough_rounds :: "'e + gotime \<Rightarrow> ('a \<times> gotime) option \<Rightarrow> poll_config \<Rightarrow> nat" where
  "enough_rounds start initial config =
     (case (if is_zero (cfg_startedAt config) then start else Inr (cfg_startedAt config)) of
        Inl _ \<Rightarrow> 0
      | Inr startedAt \<Rightarrow>
          nat (wall startedAt + sint (cfg_timeout config)
               - (case initial of None \<Rightarrow> wall startedAt | Some (_, checkedAt) \<Rightarrow> wall checkedAt)) + 2)"

lemma poll_returns:
  assumes "sleeps_fully journal" and "doubling_ok (cfg_initialDelay config)"
    and "doubling_ok (cfg_maxDelay config)" and "enough_rounds start initial config \<le> fuel"
  shows "\<exists>r. durableDeadlinePoll fuel zero start initial config journal evaluate stamp = Some r"
proof -
  note loop = poll_loop_terminates [OF assms(1,3,2)]
  show ?thesis
    using assms(4) loop
    by (auto simp: durableDeadlinePoll_def enough_rounds_def Let_def time_add_def
        split: option.splits prod.splits sum.splits if_splits)
qed

text \<open>
  C40. A durable poll ends, with an error or with a result that is right.  If sleeps last at least as
  long as asked and the two configured delays are positive and below half the range of a duration,
  then with one round of fuel per nanosecond left to the deadline and two more the poll returns,
  whatever the reads return and however the evaluation answers, for a configured start and for one
  the engine journals.  A result either holds a value the evaluation accepted for its start or reports
  a time-out, and then its last check was not before the deadline.
\<close>

theorem poll_terminates:
  assumes "sleeps_fully journal" and "doubling_ok (cfg_initialDelay config)"
    and "doubling_ok (cfg_maxDelay config)" and "enough_rounds start initial config \<le> fuel"
  shows "\<exists>r. durableDeadlinePoll fuel zero start initial config journal evaluate stamp = Some r
    \<and> (case r of Inl _ \<Rightarrow> True
       | Inr result \<Rightarrow>
           if res_timedOut result
           then \<not> before (res_checkedAt result) (time_add (res_startedAt result) (cfg_timeout config))
           else res_hasValue result
             \<and> (\<exists>v. evaluate v (res_startedAt result) = (res_value result, True)))"
proof -
  obtain r where r: "durableDeadlinePoll fuel zero start initial config journal evaluate stamp = Some r"
    using poll_returns [OF assms] by blast
  then show ?thesis by (cases r) (auto dest: poll_sound)
qed

text \<open>A concrete engine: a read that finds nothing, on a clock that advances by what is slept.\<close>

definition sample_config :: poll_config where
  "sample_config =
     \<lparr>cfg_startedAt = \<lparr>wall = 5, loc = UTC\<rparr>, cfg_timeout = 10, cfg_initialDelay = 2,
      cfg_maxDelay = 5, cfg_stepPrefix = ''poll'', cfg_readStepPrefix = ''read''\<rparr>"

definition sample_journal :: "(string, nat) journal" where
  "sample_journal attempt t slept =
     Inr (\<lparr>read_Value = 0, read_UseValue = True, read_RetryableFailure = False\<rparr>,
          time_add t (case slept of None \<Rightarrow> 0 | Some d \<Rightarrow> d))"

text \<open>A poll whose start is journaled and whose evaluation accepts none of the values read.\<close>

theorem poll_terminates_witness:
  "\<exists>r. durableDeadlinePoll 12 0 (Inr \<lparr>wall = 5, loc = UTC\<rparr>) None (sample_config\<lparr>cfg_startedAt := zero_time\<rparr>)
       sample_journal (\<lambda>v t. (v, 0 < v)) None = Some r
    \<and> (case r of Inl _ \<Rightarrow> True
       | Inr result \<Rightarrow>
           if res_timedOut result
           then \<not> before (res_checkedAt result) (time_add (res_startedAt result) 10)
           else res_hasValue result \<and> 0 < res_value result)"
proof -
  let ?config = "sample_config\<lparr>cfg_startedAt := zero_time\<rparr>"
  have "sleeps_fully sample_journal"
    by (simp add: sleeps_fully_def sample_journal_def time_add_def)
  moreover have "doubling_ok (cfg_initialDelay ?config)" "doubling_ok (cfg_maxDelay ?config)"
    "enough_rounds (Inr \<lparr>wall = 5, loc = UTC\<rparr> :: string + gotime) None ?config \<le> 12"
    by (simp_all add: sample_config_def doubling_ok_def enough_rounds_def go_time zero_time_def)
  ultimately show ?thesis
    using poll_terminates [of sample_journal ?config "Inr \<lparr>wall = 5, loc = UTC\<rparr>" None 12 0
        "\<lambda>v t. (v, 0 < v)" None]
    by (fastforce simp: sample_config_def split: sum.splits if_splits)
qed

text \<open>
  A poll that starts without a value and replaces its value at every read was satisfied by a read.
\<close>

definition read_satisfies ::
  "('e, 'a) journal \<Rightarrow> ('a \<Rightarrow> gotime \<Rightarrow> 'a \<times> bool) \<Rightarrow> ('a \<Rightarrow> gotime \<Rightarrow> 'a) option \<Rightarrow> 'a \<Rightarrow> bool" where
  "read_satisfies journal evaluate stamp val \<longleftrightarrow>
     (\<exists>attempt t slept rd checkedAt startedAt. journal attempt t slept = Inr (rd, checkedAt)
        \<and> evaluate (case stamp of None \<Rightarrow> read_Value rd | Some f \<Rightarrow> f (read_Value rd) checkedAt) startedAt = (val, True))"

lemma poll_round_reads:
  assumes "poll_round config deadline journal evaluate stamp attempt delay immediate result = Ended (Inr r)"
    and "\<And>attempt t slept rd at. journal attempt t slept = Inr (rd, at) \<Longrightarrow> read_UseValue rd"
    and "\<not> res_timedOut r"
  shows "read_satisfies journal evaluate stamp (res_value r)"
proof -
  let ?t = "res_checkedAt result"
  define slept where "slept = (if immediate then None
    else Some (if \<not> immediate \<and> sint delay > sint (time_sub deadline ?t) then time_sub deadline ?t else delay))"
  from assms(1,3) obtain rd checkedAt
    where rd: "journal attempt ?t slept = Inr (rd, checkedAt)"
      and val: "evaluate (res_value (take_read stamp result rd checkedAt)) (res_startedAt result) = (res_value r, True)"
    unfolding poll_round_def Let_def slept_def
    by (auto split: if_splits sum.splits prod.splits)
  from assms(2) [OF rd] val have "evaluate (case stamp of None \<Rightarrow> read_Value rd
      | Some f \<Rightarrow> f (read_Value rd) checkedAt) (res_startedAt result) = (res_value r, True)"
    by (simp add: take_read_def Let_def)
  with rd show ?thesis unfolding read_satisfies_def by blast
qed

lemma poll_loop_reads:
  assumes "\<And>attempt t slept rd at. journal attempt t slept = Inr (rd, at) \<Longrightarrow> read_UseValue rd"
  shows "poll_loop fuel config deadline journal evaluate stamp attempt delay immediate result = Some (Inr r)
    \<Longrightarrow> \<not> res_timedOut r \<Longrightarrow> read_satisfies journal evaluate stamp (res_value r)"
proof (induction fuel arbitrary: attempt delay immediate result)
  case (Suc fuel)
  show ?case
  proof (cases "poll_round config deadline journal evaluate stamp attempt delay immediate result")
    case (Ended e)
    with Suc.prems poll_round_reads [OF _ assms] show ?thesis by fastforce
  next
    case (Again delay' result')
    with Suc.prems(1) have "poll_loop fuel config deadline journal evaluate stamp (Suc attempt) delay' False result'
        = Some (Inr r)" by simp
    from Suc.IH [OF this Suc.prems(2)] show ?thesis .
  qed
qed simp

lemma poll_reads:
  assumes "durableDeadlinePoll fuel zero start None config journal evaluate stamp = Some (Inr r)"
    and "\<not> res_timedOut r"
    and "\<And>attempt t slept rd at. journal attempt t slept = Inr (rd, at) \<Longrightarrow> read_UseValue rd"
  shows "read_satisfies journal evaluate stamp (res_value r)"
  using assms(1,2) poll_loop_reads [OF assms(3)] unfolding durableDeadlinePoll_def Let_def
  by (auto split: if_splits sum.splits)

end
