(* ===== verification/Autostop_Coordinator.thy ===== *)
theory Autostop_Coordinator
  imports Autostop_Policy Durable_Poll
begin

text \<open>
  The Auto-stop coordinator of \<open>apps/workflows/auto_stop_coordinator.go\<close> and the handlers of the
  virtual object around it, \<open>apps/workflows/auto_stop.go\<close>.  One object per Environment keeps a
  coordination state; Observations start, keep or cancel a grace timer, and an expiring timer stops
  the Runtime if fresh evidence still qualifies.  What the workflow engine journals (the times
  handlers read, the answer of the snapshot source, the outcome of the dispatch) is an argument of
  the handlers.
\<close>

section \<open>Data\<close>

record coordination_state =
  co_EnvironmentID :: string
  co_RuntimeID :: string
  co_PolicyID :: string
  co_PolicyMode :: auto_stop_mode
  co_PolicyGraceSeconds :: int64
  co_PolicyGeneration :: uint64
  co_TimerGeneration :: uint64
  co_TimerPending :: bool
  co_LastSnapshotSequence :: uint64
  co_DispatchedGeneration :: uint64
  co_SuppressedRuntimeID :: string
  co_GraceStartedAt :: gotime
  co_GraceStartSnapshot :: "auto_stop_activity_snapshot option"

record auto_stop_observation =
  aso_RuntimeID :: string
  aso_Policy :: auto_stop_policy_snapshot
  aso_PolicyGeneration :: uint64
  aso_FreshAfter :: gotime
  aso_ProcessedAt :: gotime
  aso_Snapshot :: "auto_stop_activity_snapshot option"
  aso_Conflicts :: "auto_stop_conflict list"

record auto_stop_timer =
  timer_RuntimeID :: string
  timer_Generation :: uint64
  timer_Delay :: int64

record runtime_stop_request =
  stop_EnvironmentID :: string
  stop_RuntimeID :: string
  stop_Reason :: runtime_stop_reason
  stop_IdempotencyKey :: string
  stop_AuditEvidence :: "runtime_stop_audit_evidence option"

record auto_stop_transition =
  tr_State :: coordination_state
  tr_Decision :: auto_stop_decision
  tr_Timer :: "auto_stop_timer option"
  tr_Stop :: "runtime_stop_request option"
  tr_Cancelled :: bool

record auto_stop_expiry =
  exp_RuntimeID :: string
  exp_Generation :: uint64
  exp_Observation :: auto_stop_observation

datatype coordination_error =
    SuppressIncomplete
  | ResumeIncomplete
  | CoordinateIncomplete
  | CoordinatePolicyForeign
  | CoordinateProcessingTimeRequired
  | CoordinateGraceEvidenceRequired
  | CoordinatePolicy auto_stop_error

definition no_decision :: auto_stop_decision where
  "no_decision = \<lparr>dec_Qualifies = False, dec_Reason = AutoStopNoReason, dec_SnapshotSequence = 0\<rparr>"

text \<open>\<open>AutoStopTransition{State: state}\<close>\<close>

definition plain_transition :: "coordination_state \<Rightarrow> auto_stop_transition" where
  "plain_transition state =
     \<lparr>tr_State = state, tr_Decision = no_decision, tr_Timer = None, tr_Stop = None,
      tr_Cancelled = False\<rparr>"

section \<open>The coordinator\<close>

definition restoreAutoStopPolicy ::
  "string \<Rightarrow> auto_stop_observation \<Rightarrow> coordination_error + auto_stop_policy" where
  "restoreAutoStopPolicy environmentID observation =
     (if environmentID = [] \<or> aso_RuntimeID observation = [] \<or> aso_PolicyGeneration observation = 0
      then Inl CoordinateIncomplete
      else if pol_EnvironmentID (aso_Policy observation) \<noteq> environmentID
      then Inl CoordinatePolicyForeign
      else case NewAutoStopPolicy (pol_ID (aso_Policy observation))
                  (pol_EnvironmentID (aso_Policy observation)) (pol_Mode (aso_Policy observation))
                  (pol_GracePeriodSeconds (aso_Policy observation)) of
        Inl err \<Rightarrow> Inl (CoordinatePolicy err)
      | Inr policy \<Rightarrow> Inr policy)"

definition coordinationChanged :: "coordination_state \<Rightarrow> auto_stop_observation \<Rightarrow> bool" where
  "coordinationChanged state observation \<longleftrightarrow>
     co_RuntimeID state \<noteq> aso_RuntimeID observation
     \<or> co_PolicyID state \<noteq> pol_ID (aso_Policy observation)
     \<or> co_PolicyMode state \<noteq> pol_Mode (aso_Policy observation)
     \<or> co_PolicyGraceSeconds state \<noteq> pol_GracePeriodSeconds (aso_Policy observation)
     \<or> co_PolicyGeneration state \<noteq> aso_PolicyGeneration observation"

definition evaluateAutoStop ::
  "coordination_state \<Rightarrow> auto_stop_observation \<Rightarrow> coordination_error + auto_stop_decision" where
  "evaluateAutoStop state observation =
     (case restoreAutoStopPolicy (co_EnvironmentID state) observation of
        Inl err \<Rightarrow> Inl err
      | Inr policy \<Rightarrow>
          (case Evaluate policy
                  \<lparr>ev_RuntimeID = aso_RuntimeID observation,
                   ev_PreviousSnapshotSequence = co_LastSnapshotSequence state,
                   ev_FreshAfter = aso_FreshAfter observation, ev_Snapshot = aso_Snapshot observation,
                   ev_Conflicts = aso_Conflicts observation\<rparr> of
             Inl err \<Rightarrow> Inl (CoordinatePolicy err)
           | Inr decision \<Rightarrow> Inr decision))"

text \<open>The four assignments that end a pending timer.\<close>

definition cancel_timer :: "coordination_state \<Rightarrow> coordination_state" where
  "cancel_timer state =
     state\<lparr>co_TimerGeneration := co_TimerGeneration state + 1, co_TimerPending := False,
           co_GraceStartedAt := zero_time, co_GraceStartSnapshot := None\<rparr>"

definition Suppress :: "coordination_state \<Rightarrow> string \<Rightarrow> coordination_error + auto_stop_transition" where
  "Suppress state runtimeID =
     (if co_EnvironmentID state = [] \<or> runtimeID = [] then Inl SuppressIncomplete
      else Inr ((plain_transition
             (state\<lparr>co_TimerGeneration :=
                      (if co_TimerPending state then co_TimerGeneration state + 1
                       else co_TimerGeneration state),
                    co_TimerPending := False, co_GraceStartedAt := zero_time,
                    co_GraceStartSnapshot := None, co_SuppressedRuntimeID := runtimeID\<rparr>))
             \<lparr>tr_Cancelled := co_TimerPending state\<rparr>))"

definition Resume :: "coordination_state \<Rightarrow> string \<Rightarrow> coordination_error + auto_stop_transition" where
  "Resume state runtimeID =
     (if co_EnvironmentID state = [] \<or> runtimeID = [] then Inl ResumeIncomplete
      else if co_SuppressedRuntimeID state = runtimeID
      then Inr (plain_transition
                  (state\<lparr>co_SuppressedRuntimeID := [], co_DispatchedGeneration := 0\<rparr>))
      else Inr (plain_transition state))"

definition adopt_observation ::
  "coordination_state \<Rightarrow> auto_stop_observation \<Rightarrow> coordination_state" where
  "adopt_observation state observation =
     state\<lparr>co_TimerGeneration :=
             (if co_TimerPending state then co_TimerGeneration state + 1
              else co_TimerGeneration state),
           co_RuntimeID := aso_RuntimeID observation,
           co_PolicyID := pol_ID (aso_Policy observation),
           co_PolicyMode := pol_Mode (aso_Policy observation),
           co_PolicyGraceSeconds := pol_GracePeriodSeconds (aso_Policy observation),
           co_PolicyGeneration := aso_PolicyGeneration observation,
           co_TimerPending := False, co_LastSnapshotSequence := 0, co_DispatchedGeneration := 0,
           co_GraceStartedAt := zero_time, co_GraceStartSnapshot := None,
           co_SuppressedRuntimeID :=
             (if co_RuntimeID state \<noteq> aso_RuntimeID observation then []
              else co_SuppressedRuntimeID state)\<rparr>"

definition see_sequence :: "coordination_state \<Rightarrow> uint64 \<Rightarrow> coordination_state" where
  "see_sequence state sequence =
     (if sequence > co_LastSnapshotSequence state
      then state\<lparr>co_LastSnapshotSequence := sequence\<rparr> else state)"

definition grace_delay :: "auto_stop_observation \<Rightarrow> int64" where
  "grace_delay observation = pol_GracePeriodSeconds (aso_Policy observation) * 1000000000"

definition Observe ::
  "coordination_state \<Rightarrow> auto_stop_observation \<Rightarrow> coordination_error + auto_stop_transition" where
  "Observe state observation =
     (case restoreAutoStopPolicy (co_EnvironmentID state) observation of
        Inl err \<Rightarrow> Inl err
      | Inr _ \<Rightarrow>
          let changed = coordinationChanged state observation;
              st = (if changed then adopt_observation state observation else state);
              transition = (plain_transition st)\<lparr>tr_Cancelled := changed \<and> co_TimerPending state\<rparr>
          in
          if co_SuppressedRuntimeID st = aso_RuntimeID observation
          then if co_TimerPending st
               then Inr (transition\<lparr>tr_Cancelled := True, tr_State := cancel_timer st\<rparr>)
               else Inr transition
          else case evaluateAutoStop st observation of
            Inl err \<Rightarrow> Inl err
          | Inr decision \<Rightarrow>
              let seen = see_sequence st (dec_SnapshotSequence decision);
                  decided = transition\<lparr>tr_Decision := decision, tr_State := seen\<rparr>
              in
              if \<not> dec_Qualifies decision
              then if co_TimerPending seen
                   then Inr (decided\<lparr>tr_Cancelled := True, tr_State := cancel_timer seen\<rparr>)
                   else Inr decided
              else if co_TimerPending seen
                      \<or> co_DispatchedGeneration seen \<noteq> 0
                        \<and> co_DispatchedGeneration seen = co_TimerGeneration seen
              then Inr decided
              else
                let armed = seen\<lparr>co_TimerGeneration := co_TimerGeneration seen + 1,
                                 co_TimerPending := True\<rparr>;
                    timer = \<lparr>timer_RuntimeID = aso_RuntimeID observation,
                             timer_Generation = co_TimerGeneration armed,
                             timer_Delay = grace_delay observation\<rparr>
                in case aso_Snapshot observation of
                     None \<Rightarrow> Inr (decided\<lparr>tr_State := armed, tr_Timer := Some timer\<rparr>)
                   | Some snapshot \<Rightarrow>
                       if is_zero (aso_ProcessedAt observation)
                       then Inl CoordinateProcessingTimeRequired
                       else Inr (decided\<lparr>tr_State :=
                                   armed\<lparr>co_GraceStartedAt := aso_ProcessedAt observation,
                                         co_GraceStartSnapshot := Some snapshot\<rparr>,
                                 tr_Timer := Some timer\<rparr>))"

definition stop_key :: "string \<Rightarrow> string \<Rightarrow> uint64 \<Rightarrow> string" where
  "stop_key environmentID runtimeID generation =
     ''system:'' @ ''runtime.stop:'' @ ''auto_stop'' @ '':'' @ environmentID @ '':'' @ runtimeID
     @ '':'' @ decimal_digits (unat generation)"

definition Expire ::
  "coordination_state \<Rightarrow> auto_stop_expiry \<Rightarrow> coordination_error + auto_stop_transition" where
  "Expire state expiry =
     (let observation = exp_Observation expiry in
      if \<not> co_TimerPending state \<or> exp_Generation expiry \<noteq> co_TimerGeneration state
         \<or> exp_RuntimeID expiry \<noteq> co_RuntimeID state
      then Inr (plain_transition state)
      else if coordinationChanged state observation
      then (case Observe state observation of
              Inl err \<Rightarrow> Inl err
            | Inr transition \<Rightarrow> Inr (transition\<lparr>tr_Cancelled := True\<rparr>))
      else case evaluateAutoStop state observation of
        Inl err \<Rightarrow> Inl err
      | Inr decision \<Rightarrow>
          let nxt = see_sequence (state\<lparr>co_TimerPending := False\<rparr>) (dec_SnapshotSequence decision);
              transition = (plain_transition nxt)\<lparr>tr_Decision := decision\<rparr>
          in
          if \<not> dec_Qualifies decision
          then Inr (transition\<lparr>tr_State := nxt\<lparr>co_GraceStartedAt := zero_time,
                                               co_GraceStartSnapshot := None\<rparr>\<rparr>)
          else case (co_GraceStartSnapshot state, aso_Snapshot observation) of
            (Some graceStart, Some graceExpiry) \<Rightarrow>
              if is_zero (co_GraceStartedAt state) then Inl CoordinateGraceEvidenceRequired
              else Inr (transition
                \<lparr>tr_State := nxt\<lparr>co_DispatchedGeneration := exp_Generation expiry\<rparr>,
                 tr_Stop := Some
                   \<lparr>stop_EnvironmentID = co_EnvironmentID state, stop_RuntimeID = co_RuntimeID state,
                    stop_Reason = RuntimeStopAutoStop,
                    stop_IdempotencyKey =
                      stop_key (co_EnvironmentID state) (co_RuntimeID state) (exp_Generation expiry),
                    stop_AuditEvidence = Some
                      \<lparr>audit_Policy = aso_Policy observation,
                       audit_PolicyGeneration = aso_PolicyGeneration observation,
                       audit_QualifyingSnapshots = [graceStart, graceExpiry],
                       audit_GraceStartedAt = co_GraceStartedAt state,
                       audit_GraceExpiredAt = act_ObservedAt graceExpiry,
                       audit_GracePeriodSeconds = co_PolicyGraceSeconds state\<rparr>\<rparr>\<rparr>)
          | _ \<Rightarrow> Inl CoordinateGraceEvidenceRequired)"

section \<open>The handlers\<close>

record refresh_request =
  rr_EnvironmentID :: string
  rr_RuntimeID :: string
  rr_AfterSnapshotSequence :: uint64
  rr_FreshAfter :: gotime

record snapshot_read =
  sr_Observation :: auto_stop_observation
  sr_ReferenceUnavailable :: bool

datatype dispatch_disposition =
    autoStopDispatchAccepted
  | autoStopDispatchConflict
  | autoStopDispatchReferenceUnavailable

datatype handler_error =
    HandlerTerminal coordination_error
  | HandlerRefreshIncomplete
  | HandlerPoll "string poll_error"
  | HandlerEngine string

text \<open>
  What the engine answers while a handler reads the snapshot source: the state before and after the
  poll, the journaled start of the poll and its reads.
\<close>

record snapshot_engine =
  eng_before :: "string + snapshot_read"
  eng_start :: "string + gotime"
  eng_journal :: "(string, auto_stop_activity_snapshot option) journal"
  eng_after :: "string + snapshot_read"

definition autoStopStaleThreshold :: int64 where
  "autoStopStaleThreshold = 300 * 1000000000"

text \<open>
  The limits a caller sets on the poll of the snapshot source; a limit that is not positive stands for
  the default.  The handlers set none.
\<close>

record snapshot_polling =
  polling_timeout :: int64
  polling_initialBackoff :: int64
  polling_maxBackoff :: int64

definition default_polling :: snapshot_polling where
  "default_polling = \<lparr>polling_timeout = 0, polling_initialBackoff = 0, polling_maxBackoff = 0\<rparr>"

definition refresh_polling :: "snapshot_polling \<Rightarrow> string \<Rightarrow> poll_config" where
  "refresh_polling polling stepPrefix =
     \<lparr>cfg_startedAt = zero_time,
      cfg_timeout = (if sint (polling_timeout polling) \<le> 0 then 90 * 1000000000
                     else polling_timeout polling),
      cfg_initialDelay = (if sint (polling_initialBackoff polling) \<le> 0 then 250 * 1000000
                          else polling_initialBackoff polling),
      cfg_maxDelay = (if sint (polling_maxBackoff polling) \<le> 0 then 5 * 1000000000
                      else polling_maxBackoff polling),
      cfg_stepPrefix = stepPrefix, cfg_readStepPrefix = stepPrefix @ ''-read-snapshot''\<rparr>"

definition coordinationState :: "string \<Rightarrow> coordination_state \<Rightarrow> coordination_state" where
  "coordinationState key stored =
     (if co_EnvironmentID stored = [] then stored\<lparr>co_EnvironmentID := key\<rparr> else stored)"

definition currentAutoStopTimer :: "coordination_state \<Rightarrow> auto_stop_timer \<Rightarrow> bool" where
  "currentAutoStopTimer state timer \<longleftrightarrow>
     co_TimerPending state \<and> co_RuntimeID state = timer_RuntimeID timer
     \<and> co_TimerGeneration state = timer_Generation timer"

definition abandonAutoStopRuntime :: "coordination_state \<Rightarrow> auto_stop_transition" where
  "abandonAutoStopRuntime state =
     (plain_transition
        (state\<lparr>co_TimerGeneration :=
                 (if co_TimerPending state then co_TimerGeneration state + 1
                  else co_TimerGeneration state),
               co_RuntimeID := [], co_PolicyID := [], co_PolicyMode := AutoStopOtherMode [],
               co_PolicyGraceSeconds := 0, co_PolicyGeneration := 0, co_TimerPending := False,
               co_LastSnapshotSequence := 0, co_DispatchedGeneration := 0,
               co_SuppressedRuntimeID := [], co_GraceStartedAt := zero_time,
               co_GraceStartSnapshot := None\<rparr>))
       \<lparr>tr_Cancelled := co_TimerPending state\<rparr>"

definition autoStopSnapshotSatisfies ::
  "auto_stop_activity_snapshot option \<Rightarrow> refresh_request \<Rightarrow> bool" where
  "autoStopSnapshotSatisfies snapshot request =
     (case snapshot of None \<Rightarrow> False
      | Some s \<Rightarrow>
          (rr_AfterSnapshotSequence request = 0 \<or> act_Sequence s > rr_AfterSnapshotSequence request)
          \<and> (is_zero (rr_FreshAfter request) \<or> \<not> before (act_ObservedAt s) (rr_FreshAfter request)))"

definition effective_request :: "refresh_request \<Rightarrow> gotime \<Rightarrow> refresh_request" where
  "effective_request request startedAt =
     (if is_zero (rr_FreshAfter request) then request\<lparr>rr_FreshAfter := startedAt\<rparr> else request)"

definition refreshAutoStopSnapshot ::
  "nat \<Rightarrow> snapshot_polling \<Rightarrow> string \<Rightarrow> snapshot_engine \<Rightarrow> refresh_request
   \<Rightarrow> (handler_error + snapshot_read) option" where
  "refreshAutoStopSnapshot fuel polling stepPrefix engine request =
     (if rr_EnvironmentID request = [] \<or> rr_RuntimeID request = []
      then Some (Inl HandlerRefreshIncomplete)
      else case eng_before engine of
        Inl err \<Rightarrow> Some (Inl (HandlerEngine err))
      | Inr initial \<Rightarrow>
          if sr_ReferenceUnavailable initial then Some (Inr initial)
          else case durableDeadlinePoll fuel None (eng_start engine) None (refresh_polling polling stepPrefix)
                      (eng_journal engine)
                      (\<lambda>snapshot startedAt.
                         (snapshot, autoStopSnapshotSatisfies snapshot (effective_request request startedAt)))
                      None of
            None \<Rightarrow> None
          | Some (Inl err) \<Rightarrow> Some (Inl (HandlerPoll err))
          | Some (Inr poll) \<Rightarrow>
              (case eng_after engine of
                 Inl err \<Rightarrow> Some (Inl (HandlerEngine err))
               | Inr final \<Rightarrow>
                   if sr_ReferenceUnavailable final then Some (Inr final)
                   else Some (Inr (final\<lparr>sr_Observation := (sr_Observation final)
                          \<lparr>aso_Snapshot := res_value poll,
                           aso_FreshAfter :=
                             rr_FreshAfter (effective_request request (res_startedAt poll))\<rparr>\<rparr>))))"

text \<open>A handler returns the state it leaves stored with its transition, or fails and stores nothing.\<close>

type_synonym handled = "handler_error + coordination_state \<times> auto_stop_transition"

definition stored_transition :: "coordination_error + auto_stop_transition \<Rightarrow> handled" where
  "stored_transition r =
     (case r of Inl err \<Rightarrow> Inl (HandlerTerminal err)
      | Inr transition \<Rightarrow> Inr (tr_State transition, transition))"

definition handle_Suppress :: "string \<Rightarrow> string \<Rightarrow> coordination_state \<Rightarrow> handled" where
  "handle_Suppress key runtimeID stored =
     stored_transition (Suppress (coordinationState key stored) runtimeID)"

definition handle_Resume :: "string \<Rightarrow> string \<Rightarrow> coordination_state \<Rightarrow> handled" where
  "handle_Resume key runtimeID stored =
     stored_transition (Resume (coordinationState key stored) runtimeID)"

definition handle_Observe ::
  "string \<Rightarrow> gotime \<Rightarrow> auto_stop_observation \<Rightarrow> coordination_state \<Rightarrow> handled" where
  "handle_Observe key processedAt input stored =
     stored_transition (Observe (coordinationState key stored) (input\<lparr>aso_ProcessedAt := processedAt\<rparr>))"

definition handle_Refresh ::
  "nat \<Rightarrow> string \<Rightarrow> gotime \<Rightarrow> snapshot_engine \<Rightarrow> coordination_state \<Rightarrow> handled option" where
  "handle_Refresh fuel key processedAt engine stored =
     (let state = coordinationState key stored;
          freshAfter = time_add processedAt (- autoStopStaleThreshold)
      in if co_RuntimeID state = [] then Some (Inr (stored, plain_transition state))
         else case refreshAutoStopSnapshot fuel default_polling ''refresh-auto-stop-policy'' engine
                \<lparr>rr_EnvironmentID = co_EnvironmentID state, rr_RuntimeID = co_RuntimeID state,
                 rr_AfterSnapshotSequence = 0, rr_FreshAfter = freshAfter\<rparr> of
           None \<Rightarrow> None
         | Some (Inl err) \<Rightarrow> Some (Inl err)
         | Some (Inr rd) \<Rightarrow>
             if sr_ReferenceUnavailable rd
             then Some (stored_transition (Inr (abandonAutoStopRuntime state)))
             else Some (stored_transition (Observe state
                    ((sr_Observation rd)\<lparr>aso_FreshAfter := freshAfter,
                                         aso_ProcessedAt := processedAt\<rparr>))))"

definition handle_Expire ::
  "nat \<Rightarrow> gotime \<Rightarrow> gotime \<Rightarrow> snapshot_engine \<Rightarrow> (runtime_stop_request \<Rightarrow> string + dispatch_disposition)
   \<Rightarrow> auto_stop_timer \<Rightarrow> coordination_state \<Rightarrow> handled option" where
  "handle_Expire fuel freshAfter processedAt engine dispatch timer state =
     (if \<not> currentAutoStopTimer state timer then Some (Inr (state, plain_transition state))
      else case refreshAutoStopSnapshot fuel default_polling ''refresh-activity-snapshot'' engine
             \<lparr>rr_EnvironmentID = co_EnvironmentID state, rr_RuntimeID = co_RuntimeID state,
              rr_AfterSnapshotSequence = co_LastSnapshotSequence state,
              rr_FreshAfter = freshAfter\<rparr> of
        None \<Rightarrow> None
      | Some (Inl err) \<Rightarrow> Some (Inl err)
      | Some (Inr rd) \<Rightarrow>
          if sr_ReferenceUnavailable rd
          then Some (stored_transition (Inr (abandonAutoStopRuntime state)))
          else case Expire state
                 \<lparr>exp_RuntimeID = timer_RuntimeID timer, exp_Generation = timer_Generation timer,
                  exp_Observation = (sr_Observation rd)\<lparr>aso_ProcessedAt := processedAt\<rparr>\<rparr> of
            Inl err \<Rightarrow> Some (Inl (HandlerTerminal err))
          | Inr transition \<Rightarrow>
              (case tr_Stop transition of
                 None \<Rightarrow> Some (Inr (tr_State transition, transition))
               | Some request \<Rightarrow>
                   (case dispatch request of
                      Inl err \<Rightarrow> Some (Inl (HandlerEngine err))
                    | Inr autoStopDispatchAccepted \<Rightarrow> Some (Inr (tr_State transition, transition))
                    | Inr _ \<Rightarrow>
                        let ended = (tr_State transition)
                              \<lparr>co_TimerPending := False, co_DispatchedGeneration := 0,
                               co_GraceStartedAt := zero_time, co_GraceStartSnapshot := None\<rparr>
                        in Some (Inr (ended, transition\<lparr>tr_Stop := None, tr_Cancelled := True,
                                                        tr_State := ended\<rparr>)))))"

section \<open>The evidence behind a timer\<close>

text \<open>
  While a timer is pending the state holds when the grace period began and the Snapshot that began
  it: a valid Snapshot of the watched Runtime, idle for the watched mode, already counted in the last
  sequence; and the Runtime is not suppressed.
\<close>

definition grace_evidence :: "coordination_state \<Rightarrow> auto_stop_activity_snapshot \<Rightarrow> bool" where
  "grace_evidence state s \<longleftrightarrow>
     co_GraceStartSnapshot state = Some s \<and> validateAutoStopActivity s = None
     \<and> act_RuntimeID s = co_RuntimeID state \<and> act_Sequence s \<le> co_LastSnapshotSequence state
     \<and> idle (watches (co_PolicyMode state)) s"

definition coordination_inv :: "coordination_state \<Rightarrow> bool" where
  "coordination_inv state \<longleftrightarrow>
     (co_TimerPending state \<longrightarrow>
        co_SuppressedRuntimeID state \<noteq> co_RuntimeID state \<and> \<not> is_zero (co_GraceStartedAt state)
        \<and> (\<exists>s. grace_evidence state s))"

lemma restoreAutoStopPolicy_Inr:
  "restoreAutoStopPolicy env observation = Inr policy \<Longrightarrow>
     pol_Mode policy = pol_Mode (aso_Policy observation) \<and> aso_RuntimeID observation \<noteq> []
     \<and> 0 \<le> sint (pol_GracePeriodSeconds (aso_Policy observation))
     \<and> sint (pol_GracePeriodSeconds (aso_Policy observation)) \<le> 86400"
  by (auto simp: restoreAutoStopPolicy_def NewAutoStopPolicy_def split: if_splits sum.splits)

lemma evaluateAutoStop_qualifies:
  assumes "evaluateAutoStop state observation = Inr d" and "dec_Qualifies d"
  obtains s where "aso_Snapshot observation = Some s" and "validateAutoStopActivity s = None"
    and "act_RuntimeID s = aso_RuntimeID observation"
    and "co_LastSnapshotSequence state < act_Sequence s"
    and "\<not> before (act_ObservedAt s) (aso_FreshAfter observation)"
    and "aso_Conflicts observation = []"
    and "idle (watches (pol_Mode (aso_Policy observation))) s"
    and "dec_SnapshotSequence d = act_Sequence s"
proof -
  from assms(1) obtain policy where policy: "restoreAutoStopPolicy (co_EnvironmentID state) observation = Inr policy"
    and evaluated: "Evaluate policy
        \<lparr>ev_RuntimeID = aso_RuntimeID observation,
         ev_PreviousSnapshotSequence = co_LastSnapshotSequence state,
         ev_FreshAfter = aso_FreshAfter observation, ev_Snapshot = aso_Snapshot observation,
         ev_Conflicts = aso_Conflicts observation\<rparr> = Inr d"
    by (auto simp: evaluateAutoStop_def split: sum.splits)
  note mode = restoreAutoStopPolicy_Inr [OF policy]
  show thesis
  proof (rule Evaluate_qualifies_cases [OF evaluated assms(2)])
    fix s
    assume "idle (watches (pol_Mode policy)) s"
      and "fresh_evidence \<lparr>ev_RuntimeID = aso_RuntimeID observation,
         ev_PreviousSnapshotSequence = co_LastSnapshotSequence state,
         ev_FreshAfter = aso_FreshAfter observation, ev_Snapshot = aso_Snapshot observation,
         ev_Conflicts = aso_Conflicts observation\<rparr> s"
      and "ev_Conflicts \<lparr>ev_RuntimeID = aso_RuntimeID observation,
         ev_PreviousSnapshotSequence = co_LastSnapshotSequence state,
         ev_FreshAfter = aso_FreshAfter observation, ev_Snapshot = aso_Snapshot observation,
         ev_Conflicts = aso_Conflicts observation\<rparr> = []"
      and "dec_SnapshotSequence d = act_Sequence s"
    then show thesis
      by (intro that [of s]) (simp_all add: fresh_evidence_def mode)
  qed
qed

lemma see_sequence_simps [simp]:
  "co_TimerPending (see_sequence s n) = co_TimerPending s"
  "co_TimerGeneration (see_sequence s n) = co_TimerGeneration s"
  "co_RuntimeID (see_sequence s n) = co_RuntimeID s"
  "co_EnvironmentID (see_sequence s n) = co_EnvironmentID s"
  "co_PolicyMode (see_sequence s n) = co_PolicyMode s"
  "co_SuppressedRuntimeID (see_sequence s n) = co_SuppressedRuntimeID s"
  "co_GraceStartedAt (see_sequence s n) = co_GraceStartedAt s"
  "co_GraceStartSnapshot (see_sequence s n) = co_GraceStartSnapshot s"
  "co_DispatchedGeneration (see_sequence s n) = co_DispatchedGeneration s"
  "co_LastSnapshotSequence (see_sequence s n) = max (co_LastSnapshotSequence s) n"
  by (auto simp: see_sequence_def max_def)

lemma coordination_inv_see [intro]: "coordination_inv s \<Longrightarrow> coordination_inv (see_sequence s n)"
  by (auto simp: coordination_inv_def grace_evidence_def le_max_iff_disj)

lemma coordination_inv_no_timer [intro]: "\<not> co_TimerPending s \<Longrightarrow> coordination_inv s"
  by (simp add: coordination_inv_def)

text \<open>The state \<open>Observe\<close> decides on, and the four ways it can end.\<close>

definition base_state :: "coordination_state \<Rightarrow> auto_stop_observation \<Rightarrow> coordination_state" where
  "base_state state observation =
     (if coordinationChanged state observation then adopt_observation state observation else state)"

lemma base_state_fields:
  "co_RuntimeID (base_state state observation) = aso_RuntimeID observation"
  "co_PolicyMode (base_state state observation) = pol_Mode (aso_Policy observation)"
  "co_EnvironmentID (base_state state observation) = co_EnvironmentID state"
  by (auto simp: base_state_def adopt_observation_def coordinationChanged_def)

lemma base_state_inv: "coordination_inv state \<Longrightarrow> coordination_inv (base_state state observation)"
  by (auto simp: base_state_def adopt_observation_def)

lemma Observe_cases:
  assumes "Observe state observation = Inr t"
  obtains
    (quiet) s where "tr_State t = (if co_TimerPending s then cancel_timer s else s)"
      "tr_Timer t = None" "tr_Stop t = None"
      "s = base_state state observation \<or> (\<exists>n. s = see_sequence (base_state state observation) n)"
  | (kept) n where "tr_State t = see_sequence (base_state state observation) n"
      "tr_Timer t = None" "tr_Stop t = None"
      "co_SuppressedRuntimeID (base_state state observation) \<noteq> aso_RuntimeID observation"
  | (armed) d snapshot where "evaluateAutoStop (base_state state observation) observation = Inr d"
      "dec_Qualifies d" "aso_Snapshot observation = Some snapshot"
      "\<not> is_zero (aso_ProcessedAt observation)"
      "\<not> co_TimerPending (base_state state observation)"
      "co_SuppressedRuntimeID (base_state state observation) \<noteq> aso_RuntimeID observation"
      "tr_State t = (see_sequence (base_state state observation) (dec_SnapshotSequence d))
         \<lparr>co_TimerGeneration := co_TimerGeneration (base_state state observation) + 1,
          co_TimerPending := True, co_GraceStartedAt := aso_ProcessedAt observation,
          co_GraceStartSnapshot := Some snapshot\<rparr>"
      "tr_Timer t = Some \<lparr>timer_RuntimeID = aso_RuntimeID observation,
         timer_Generation = co_TimerGeneration (base_state state observation) + 1,
         timer_Delay = grace_delay observation\<rparr>" "tr_Stop t = None"
proof (cases "co_SuppressedRuntimeID (base_state state observation) = aso_RuntimeID observation")
  case True
  then show thesis
    using assms quiet [of "base_state state observation"]
    by (auto simp: Observe_def base_state_def [symmetric] Let_def plain_transition_def
        split: sum.splits if_splits)
next
  case False
  with assms obtain d where d: "evaluateAutoStop (base_state state observation) observation = Inr d"
    by (auto simp: Observe_def base_state_def [symmetric] Let_def split: sum.splits)
  let ?seen = "see_sequence (base_state state observation) (dec_SnapshotSequence d)"
  consider (no) "\<not> dec_Qualifies d"
    | (keep) "dec_Qualifies d" "co_TimerPending ?seen \<or> co_DispatchedGeneration ?seen \<noteq> 0
        \<and> co_DispatchedGeneration ?seen = co_TimerGeneration ?seen"
    | (arm) "dec_Qualifies d" "\<not> (co_TimerPending ?seen \<or> co_DispatchedGeneration ?seen \<noteq> 0
        \<and> co_DispatchedGeneration ?seen = co_TimerGeneration ?seen)"
    by blast
  then show thesis
  proof cases
    case no
    have "tr_State t = (if co_TimerPending ?seen then cancel_timer ?seen else ?seen)"
      and "tr_Timer t = None" and "tr_Stop t = None"
      using no assms False d
      by (auto simp: Observe_def base_state_def [symmetric] Let_def plain_transition_def
          split: sum.splits if_splits)
    then show thesis by (rule quiet) blast
  next
    case keep
    then have "t = (plain_transition (base_state state observation))
        \<lparr>tr_Cancelled := coordinationChanged state observation \<and> co_TimerPending state,
         tr_Decision := d, tr_State := ?seen\<rparr>"
      using assms False d
      by (simp add: Observe_def base_state_def [symmetric] Let_def split: sum.splits)
    then show thesis
      by (intro kept [of "dec_SnapshotSequence d"]) (simp_all add: plain_transition_def False)
  next
    case arm
    from arm(1) d obtain snapshot where "aso_Snapshot observation = Some snapshot"
      using evaluateAutoStop_qualifies by blast
    with arm show thesis
      using assms False d armed [of d snapshot]
      by (auto simp: Observe_def base_state_def [symmetric] Let_def plain_transition_def
          split: sum.splits if_splits)
  qed
qed

lemma armed_inv:
  assumes "evaluateAutoStop st observation = Inr d" and "dec_Qualifies d"
    and "aso_Snapshot observation = Some snapshot" and "\<not> is_zero (aso_ProcessedAt observation)"
    and "co_SuppressedRuntimeID st \<noteq> aso_RuntimeID observation"
    and "co_RuntimeID st = aso_RuntimeID observation"
    and "co_PolicyMode st = pol_Mode (aso_Policy observation)"
  shows "coordination_inv ((see_sequence st (dec_SnapshotSequence d))
    \<lparr>co_TimerGeneration := g, co_TimerPending := True,
     co_GraceStartedAt := aso_ProcessedAt observation, co_GraceStartSnapshot := Some snapshot\<rparr>)"
proof (rule evaluateAutoStop_qualifies [OF assms(1,2)])
  fix s
  assume "aso_Snapshot observation = Some s" "validateAutoStopActivity s = None"
    "act_RuntimeID s = aso_RuntimeID observation"
    "idle (watches (pol_Mode (aso_Policy observation))) s" "dec_SnapshotSequence d = act_Sequence s"
  with assms(3-7) show ?thesis
    by (simp add: coordination_inv_def grace_evidence_def le_max_iff_disj)
qed

lemma Observe_inv:
  assumes "coordination_inv state" and "Observe state observation = Inr t"
  shows "coordination_inv (tr_State t)"
  using assms(2)
proof (cases rule: Observe_cases)
  case (quiet s)
  then have "coordination_inv s"
    using base_state_inv [OF assms(1)] by auto
  with quiet(1) show ?thesis
    by (auto simp: cancel_timer_def intro!: coordination_inv_no_timer)
next
  case (kept n)
  then show ?thesis using base_state_inv [OF assms(1)] by auto
next
  case (armed d snapshot)
  then show ?thesis
    using armed_inv [OF armed(1-4,6) base_state_fields(1,2)] by simp
qed

text \<open>An expiry that is not stale and finds the same Runtime and policy ends the timer.\<close>

definition stale_expiry :: "coordination_state \<Rightarrow> auto_stop_expiry \<Rightarrow> bool" where
  "stale_expiry state expiry \<longleftrightarrow>
     \<not> co_TimerPending state \<or> exp_Generation expiry \<noteq> co_TimerGeneration state
     \<or> exp_RuntimeID expiry \<noteq> co_RuntimeID state"

lemma Expire_stale: "stale_expiry state expiry \<Longrightarrow> Expire state expiry = Inr (plain_transition state)"
  by (simp add: stale_expiry_def Expire_def)

lemma Expire_changed:
  assumes "\<not> stale_expiry state expiry" and "coordinationChanged state (exp_Observation expiry)"
    and "Expire state expiry = Inr t"
  obtains u where "Observe state (exp_Observation expiry) = Inr u" and "t = u\<lparr>tr_Cancelled := True\<rparr>"
  using assms by (auto simp: stale_expiry_def Expire_def Let_def split: sum.splits)

lemma Expire_ends_timer:
  assumes "\<not> stale_expiry state expiry" and "\<not> coordinationChanged state (exp_Observation expiry)"
    and "Expire state expiry = Inr t"
  shows "\<not> co_TimerPending (tr_State t)" and "co_TimerGeneration (tr_State t) = co_TimerGeneration state"
    and "tr_Timer t = None"
  using assms by (auto simp: stale_expiry_def Expire_def Let_def plain_transition_def
      split: if_splits sum.splits option.splits)

lemma Expire_inv:
  assumes "coordination_inv state" and "Expire state expiry = Inr t"
  shows "coordination_inv (tr_State t)"
proof (cases "stale_expiry state expiry")
  case True
  then show ?thesis using assms by (auto simp: Expire_stale plain_transition_def)
next
  case False
  show ?thesis
  proof (cases "coordinationChanged state (exp_Observation expiry)")
    case True
    from False True assms(2) obtain u where "Observe state (exp_Observation expiry) = Inr u"
      and "t = u\<lparr>tr_Cancelled := True\<rparr>" by (rule Expire_changed)
    then show ?thesis using Observe_inv [OF assms(1)] by simp
  next
    case unchanged: False
    then show ?thesis using Expire_ends_timer [OF False unchanged assms(2)] by blast
  qed
qed

lemma Suppress_inv: "Suppress state runtimeID = Inr t \<Longrightarrow> coordination_inv (tr_State t)"
  by (auto simp: Suppress_def plain_transition_def split: if_splits)

lemma pending_runtime:
  assumes "coordination_inv state" and "co_TimerPending state"
  shows "co_RuntimeID state \<noteq> []"
proof -
  from assms obtain s where "validateAutoStopActivity s = None" "act_RuntimeID s = co_RuntimeID state"
    by (auto simp: coordination_inv_def grace_evidence_def)
  then show ?thesis by (auto simp: validateAutoStopActivity_def split: if_splits)
qed

lemma Resume_inv:
  assumes "coordination_inv state" and "Resume state runtimeID = Inr t"
  shows "coordination_inv (tr_State t)"
proof -
  have "coordination_inv (state\<lparr>co_SuppressedRuntimeID := [], co_DispatchedGeneration := 0\<rparr>)"
    using assms(1) pending_runtime [OF assms(1)] by (auto simp: coordination_inv_def grace_evidence_def)
  with assms show ?thesis
    by (auto simp: Resume_def plain_transition_def split: if_splits)
qed

lemma abandon_inv: "coordination_inv (tr_State (abandonAutoStopRuntime state))"
  by (auto simp: abandonAutoStopRuntime_def plain_transition_def)

section \<open>Stops\<close>

text \<open>The evidence a stop must carry.\<close>

definition stop_justified ::
  "coordination_state \<Rightarrow> auto_stop_observation \<Rightarrow> runtime_stop_request \<Rightarrow> bool" where
  "stop_justified state observation stop \<longleftrightarrow>
     (\<exists>start expired audit. stop_AuditEvidence stop = Some audit
        \<and> audit_QualifyingSnapshots audit = [start, expired]
        \<and> co_GraceStartSnapshot state = Some start \<and> aso_Snapshot observation = Some expired
        \<and> audit_GraceStartedAt audit = co_GraceStartedAt state \<and> \<not> is_zero (audit_GraceStartedAt audit)
        \<and> audit_Policy audit = aso_Policy observation
        \<and> act_RuntimeID start = stop_RuntimeID stop \<and> act_RuntimeID expired = stop_RuntimeID stop
        \<and> act_Sequence start < act_Sequence expired
        \<and> idle (watches (pol_Mode (audit_Policy audit))) start
        \<and> idle (watches (pol_Mode (audit_Policy audit))) expired
        \<and> \<not> before (act_ObservedAt expired) (aso_FreshAfter observation)
        \<and> audit_GraceExpiredAt audit = act_ObservedAt expired)"

lemma Expire_stop_current:
  assumes "Expire state expiry = Inr t" and "tr_Stop t = Some stop"
  shows "co_TimerPending state" and "exp_Generation expiry = co_TimerGeneration state"
    and "exp_RuntimeID expiry = co_RuntimeID state"
    and "\<not> coordinationChanged state (exp_Observation expiry)"
  using assms by (auto simp: Expire_def plain_transition_def Let_def
      split: if_splits sum.splits elim: Observe_cases)

lemma Expire_stop_cases:
  assumes "Expire state expiry = Inr t" and "tr_Stop t = Some stop"
  obtains d start expired where
    "evaluateAutoStop state (exp_Observation expiry) = Inr d" "dec_Qualifies d"
    "co_GraceStartSnapshot state = Some start" "\<not> is_zero (co_GraceStartedAt state)"
    "aso_Snapshot (exp_Observation expiry) = Some expired"
    "stop = \<lparr>stop_EnvironmentID = co_EnvironmentID state, stop_RuntimeID = co_RuntimeID state,
       stop_Reason = RuntimeStopAutoStop,
       stop_IdempotencyKey =
         stop_key (co_EnvironmentID state) (co_RuntimeID state) (co_TimerGeneration state),
       stop_AuditEvidence = Some
         \<lparr>audit_Policy = aso_Policy (exp_Observation expiry),
          audit_PolicyGeneration = aso_PolicyGeneration (exp_Observation expiry),
          audit_QualifyingSnapshots = [start, expired],
          audit_GraceStartedAt = co_GraceStartedAt state,
          audit_GraceExpiredAt = act_ObservedAt expired,
          audit_GracePeriodSeconds = co_PolicyGraceSeconds state\<rparr>\<rparr>"
    "tr_State t = (see_sequence (state\<lparr>co_TimerPending := False\<rparr>) (dec_SnapshotSequence d))
       \<lparr>co_DispatchedGeneration := co_TimerGeneration state\<rparr>"
  using assms Expire_stop_current [OF assms] that
  by (auto simp: Expire_def plain_transition_def Let_def split: if_splits sum.splits option.splits)

text \<open>What an expiry that stops finds in a state that keeps the invariant.\<close>

lemma stop_justified_by_state:
  assumes "coordination_inv state" and "Expire state expiry = Inr t" and "tr_Stop t = Some stop"
  shows "co_TimerPending state \<and> exp_Generation expiry = co_TimerGeneration state
    \<and> stop_RuntimeID stop = co_RuntimeID state \<and> exp_RuntimeID expiry = co_RuntimeID state
    \<and> co_SuppressedRuntimeID state \<noteq> stop_RuntimeID stop
    \<and> stop_Reason stop = RuntimeStopAutoStop
    \<and> stop_justified state (exp_Observation expiry) stop
    \<and> \<not> co_TimerPending (tr_State t)
    \<and> co_DispatchedGeneration (tr_State t) = co_TimerGeneration state"
proof -
  note current = Expire_stop_current [OF assms(2,3)]
  from current(1) assms(1) obtain s where grace: "grace_evidence state s"
    and suppressed: "co_SuppressedRuntimeID state \<noteq> co_RuntimeID state"
    by (auto simp: coordination_inv_def)
  have same: "aso_RuntimeID (exp_Observation expiry) = co_RuntimeID state"
    "pol_Mode (aso_Policy (exp_Observation expiry)) = co_PolicyMode state"
    using current(4) by (auto simp: coordinationChanged_def)
  show ?thesis
  proof (rule Expire_stop_cases [OF assms(2,3)])
    fix d start expired
    assume d: "evaluateAutoStop state (exp_Observation expiry) = Inr d" "dec_Qualifies d"
      and evidence: "co_GraceStartSnapshot state = Some start" "\<not> is_zero (co_GraceStartedAt state)"
        "aso_Snapshot (exp_Observation expiry) = Some expired"
      and stop: "stop = \<lparr>stop_EnvironmentID = co_EnvironmentID state, stop_RuntimeID = co_RuntimeID state,
       stop_Reason = RuntimeStopAutoStop,
       stop_IdempotencyKey =
         stop_key (co_EnvironmentID state) (co_RuntimeID state) (co_TimerGeneration state),
       stop_AuditEvidence = Some
         \<lparr>audit_Policy = aso_Policy (exp_Observation expiry),
          audit_PolicyGeneration = aso_PolicyGeneration (exp_Observation expiry),
          audit_QualifyingSnapshots = [start, expired],
          audit_GraceStartedAt = co_GraceStartedAt state,
          audit_GraceExpiredAt = act_ObservedAt expired,
          audit_GracePeriodSeconds = co_PolicyGraceSeconds state\<rparr>\<rparr>"
      and state: "tr_State t = (see_sequence (state\<lparr>co_TimerPending := False\<rparr>) (dec_SnapshotSequence d))
       \<lparr>co_DispatchedGeneration := co_TimerGeneration state\<rparr>"
    have "stop_justified state (exp_Observation expiry) stop"
      by (rule evaluateAutoStop_qualifies [OF d])
        (use grace evidence same in \<open>auto simp: stop_justified_def stop grace_evidence_def\<close>)
    then show ?thesis
      using current suppressed same by (simp add: stop state)
  qed
qed

section \<open>Histories of the object\<close>

datatype handler_event =
    OnSuppress string
  | OnResume string
  | OnObserve gotime auto_stop_observation
  | OnRefresh nat gotime snapshot_engine
  | OnExpire nat gotime gotime snapshot_engine "runtime_stop_request \<Rightarrow> string + dispatch_disposition"
      auto_stop_timer

fun handle :: "string \<Rightarrow> handler_event \<Rightarrow> coordination_state \<Rightarrow> handled option" where
  "handle key (OnSuppress runtimeID) stored = Some (handle_Suppress key runtimeID stored)"
| "handle key (OnResume runtimeID) stored = Some (handle_Resume key runtimeID stored)"
| "handle key (OnObserve processedAt input) stored =
     Some (handle_Observe key processedAt input stored)"
| "handle key (OnRefresh fuel processedAt engine) stored =
     handle_Refresh fuel key processedAt engine stored"
| "handle key (OnExpire fuel freshAfter processedAt engine dispatch timer) stored =
     handle_Expire fuel freshAfter processedAt engine dispatch timer stored"

text \<open>
  A sequence of handled events, with the stops that were dispatched and accepted.  An event whose
  handler fails, or has not returned yet, leaves the stored state as it was.
\<close>

fun run_handlers ::
  "string \<Rightarrow> coordination_state \<Rightarrow> handler_event list \<Rightarrow> coordination_state \<times> runtime_stop_request list" where
  "run_handlers key s [] = (s, [])"
| "run_handlers key s (e # es) =
     (case handle key e s of
        Some (Inr (s', t)) \<Rightarrow>
          let (s'', stops) = run_handlers key s' es
          in (s'', (case tr_Stop t of None \<Rightarrow> stops | Some stop \<Rightarrow> stop # stops))
      | _ \<Rightarrow> run_handlers key s es)"

text \<open>Every handled event is the effect of one coordinator step on the stored state.\<close>

inductive coordinator_step :: "coordination_state \<Rightarrow> coordination_state \<Rightarrow> runtime_stop_request option \<Rightarrow> bool" where
  idle_step: "coordinator_step s s None"
| suppress_step: "Suppress s r = Inr t \<Longrightarrow> coordinator_step s (tr_State t) None"
| resume_step: "Resume s r = Inr t \<Longrightarrow> coordinator_step s (tr_State t) None"
| observe_step: "Observe s observation = Inr t \<Longrightarrow> coordinator_step s (tr_State t) None"
| abandon_step: "coordinator_step s (tr_State (abandonAutoStopRuntime s)) None"
| expire_step: "Expire s expiry = Inr t \<Longrightarrow> coordinator_step s (tr_State t) (tr_Stop t)"
| refused_step: "Expire s expiry = Inr t \<Longrightarrow> tr_Stop t \<noteq> None \<Longrightarrow>
    coordinator_step s ((tr_State t)\<lparr>co_TimerPending := False, co_DispatchedGeneration := 0,
      co_GraceStartedAt := zero_time, co_GraceStartSnapshot := None\<rparr>) None"

lemma stored_transition_Inr_iff:
  "stored_transition r = Inr (s', t) \<longleftrightarrow> r = Inr t \<and> s' = tr_State t"
  by (auto simp: stored_transition_def split: sum.splits)

lemma quiet_transitions:
  "Suppress s r = Inr t \<Longrightarrow> tr_Stop t = None" "Resume s r = Inr t \<Longrightarrow> tr_Stop t = None"
  "tr_Stop (abandonAutoStopRuntime s) = None" "tr_Stop (plain_transition s) = None"
  by (auto simp: Suppress_def Resume_def abandonAutoStopRuntime_def plain_transition_def split: if_splits)

lemma Observe_no_stop: "Observe s observation = Inr t \<Longrightarrow> tr_Stop t = None"
  by (erule Observe_cases) simp_all

lemma handle_Refresh_step:
  assumes "handle_Refresh fuel key at engine stored = Some (Inr (s', t))"
  shows "\<exists>s. (s = stored \<or> s = coordinationState key stored) \<and> coordinator_step s s' (tr_Stop t)"
proof (cases "co_RuntimeID (coordinationState key stored) = []")
  case True
  with assms have "s' = stored" "tr_Stop t = None"
    by (auto simp: handle_Refresh_def Let_def quiet_transitions)
  then show ?thesis using idle_step by metis
next
  case False
  let ?s = "coordinationState key stored"
  from assms False obtain rd where rd: "refreshAutoStopSnapshot fuel default_polling ''refresh-auto-stop-policy'' engine
      \<lparr>rr_EnvironmentID = co_EnvironmentID ?s, rr_RuntimeID = co_RuntimeID ?s,
       rr_AfterSnapshotSequence = 0, rr_FreshAfter = time_add at (- autoStopStaleThreshold)\<rparr>
     = Some (Inr rd)"
    by (simp add: handle_Refresh_def Let_def split: option.splits sum.splits)
  show ?thesis
  proof (cases "sr_ReferenceUnavailable rd")
    case True
    with rd assms False have "t = abandonAutoStopRuntime ?s" "s' = tr_State t"
      by (auto simp: handle_Refresh_def Let_def stored_transition_def)
    then show ?thesis using abandon_step quiet_transitions(3) by metis
  next
    case available: False
    with rd assms False have "Observe ?s ((sr_Observation rd)
        \<lparr>aso_FreshAfter := time_add at (- autoStopStaleThreshold), aso_ProcessedAt := at\<rparr>) = Inr t"
      and "s' = tr_State t"
      by (simp_all add: handle_Refresh_def Let_def stored_transition_Inr_iff)
    then show ?thesis using observe_step Observe_no_stop by metis
  qed
qed

lemma handle_Expire_step:
  assumes "handle_Expire fuel freshAfter at engine dispatch timer stored = Some (Inr (s', t))"
  shows "coordinator_step stored s' (tr_Stop t)"
proof (cases "currentAutoStopTimer stored timer")
  case False
  with assms have "s' = stored" "tr_Stop t = None"
    by (auto simp: handle_Expire_def quiet_transitions)
  then show ?thesis using idle_step by metis
next
  case True
  from assms True obtain rd where rd: "refreshAutoStopSnapshot fuel default_polling ''refresh-activity-snapshot'' engine
      \<lparr>rr_EnvironmentID = co_EnvironmentID stored, rr_RuntimeID = co_RuntimeID stored,
       rr_AfterSnapshotSequence = co_LastSnapshotSequence stored, rr_FreshAfter = freshAfter\<rparr>
     = Some (Inr rd)"
    by (simp add: handle_Expire_def split: option.splits sum.splits)
  let ?expiry = "\<lparr>exp_RuntimeID = timer_RuntimeID timer, exp_Generation = timer_Generation timer,
     exp_Observation = (sr_Observation rd)\<lparr>aso_ProcessedAt := at\<rparr>\<rparr>"
  show ?thesis
  proof (cases "sr_ReferenceUnavailable rd")
    case unavailable: True
    with rd assms True have "t = abandonAutoStopRuntime stored" "s' = tr_State t"
      by (auto simp: handle_Expire_def stored_transition_def)
    then show ?thesis using abandon_step quiet_transitions(3) by metis
  next
    case False
    with rd assms True obtain u where u: "Expire stored ?expiry = Inr u"
      by (simp add: handle_Expire_def split: sum.splits)
    show ?thesis
    proof (cases "t = u \<and> s' = tr_State u")
      case True
      then show ?thesis using expire_step [OF u] by simp
    next
      case changed: False
      with rd assms True False u have "tr_Stop u \<noteq> None" "tr_Stop t = None"
        "s' = (tr_State u)\<lparr>co_TimerPending := False, co_DispatchedGeneration := 0,
          co_GraceStartedAt := zero_time, co_GraceStartSnapshot := None\<rparr>"
        by (auto simp: handle_Expire_def Let_def
            split: option.splits sum.splits dispatch_disposition.splits)
      then show ?thesis using refused_step [OF u] by simp
    qed
  qed
qed

lemma handle_step:
  assumes "handle key e stored = Some (Inr (s', t))"
  shows "\<exists>s. (s = stored \<or> s = coordinationState key stored) \<and> coordinator_step s s' (tr_Stop t)"
proof (cases e)
  case (OnSuppress r)
  with assms have "Suppress (coordinationState key stored) r = Inr t" "s' = tr_State t"
    by (auto simp: handle_Suppress_def stored_transition_Inr_iff)
  then show ?thesis using suppress_step quiet_transitions(1) by metis
next
  case (OnResume r)
  with assms have "Resume (coordinationState key stored) r = Inr t" "s' = tr_State t"
    by (auto simp: handle_Resume_def stored_transition_Inr_iff)
  then show ?thesis using resume_step quiet_transitions(2) by metis
next
  case (OnObserve at input)
  with assms have "Observe (coordinationState key stored) (input\<lparr>aso_ProcessedAt := at\<rparr>) = Inr t" "s' = tr_State t"
    by (auto simp: handle_Observe_def stored_transition_Inr_iff)
  then show ?thesis using observe_step Observe_no_stop by metis
next
  case (OnRefresh fuel at engine)
  with assms handle_Refresh_step show ?thesis by simp
next
  case (OnExpire fuel freshAfter at engine dispatch timer)
  with assms handle_Expire_step show ?thesis by (metis handle.simps(5))
qed

lemma coordinator_step_inv: "coordinator_step s s' stop \<Longrightarrow> coordination_inv s \<Longrightarrow> coordination_inv s'"
  by (induction rule: coordinator_step.induct)
    (auto intro: Suppress_inv Resume_inv Observe_inv abandon_inv Expire_inv)

text \<open>The state Restate gives an object that has stored nothing yet.\<close>

definition fresh_state :: coordination_state where
  "fresh_state =
     \<lparr>co_EnvironmentID = [], co_RuntimeID = [], co_PolicyID = [],
      co_PolicyMode = AutoStopOtherMode [], co_PolicyGraceSeconds = 0, co_PolicyGeneration = 0,
      co_TimerGeneration = 0, co_TimerPending = False, co_LastSnapshotSequence = 0,
      co_DispatchedGeneration = 0, co_SuppressedRuntimeID = [], co_GraceStartedAt = zero_time,
      co_GraceStartSnapshot = None\<rparr>"

lemma coordinationState_inv [intro]: "coordination_inv s \<Longrightarrow> coordination_inv (coordinationState key s)"
  by (auto simp: coordinationState_def coordination_inv_def grace_evidence_def)

lemma handle_inv:
  assumes "handle key e s = Some (Inr (s', t))" and "coordination_inv s"
  shows "coordination_inv s'"
  using handle_step [OF assms(1)] assms(2) coordinator_step_inv by blast

lemma run_handlers_inv: "coordination_inv s \<Longrightarrow> coordination_inv (fst (run_handlers key s events))"
proof (induction events arbitrary: s)
  case (Cons e es)
  show ?case
  proof (cases "\<exists>s' t. handle key e s = Some (Inr (s', t))")
    case True
    then obtain s' t where ok: "handle key e s = Some (Inr (s', t))" by blast
    with Cons.IH [OF handle_inv [OF ok Cons.prems]] show ?thesis by (simp add: Let_def case_prod_beta)
  next
    case False
    then have "run_handlers key s (e # es) = run_handlers key s es"
      by (auto split: option.splits sum.splits)
    with Cons show ?thesis by simp
  qed
qed simp

lemma reached_inv: "coordination_inv (fst (run_handlers key fresh_state events))"
  by (intro run_handlers_inv coordination_inv_no_timer) (simp add: fresh_state_def)

text \<open>Only the expiry handler stops a Runtime, by an accepted request for the timer it was given.\<close>

lemma handle_Expire_stop:
  assumes "handle_Expire fuel freshAfter at engine dispatch timer state = Some (Inr (s', t))"
    and "tr_Stop t = Some stop"
  obtains rd where "currentAutoStopTimer state timer" "dispatch stop = Inr autoStopDispatchAccepted"
    "refreshAutoStopSnapshot fuel default_polling ''refresh-activity-snapshot'' engine
       \<lparr>rr_EnvironmentID = co_EnvironmentID state, rr_RuntimeID = co_RuntimeID state,
        rr_AfterSnapshotSequence = co_LastSnapshotSequence state, rr_FreshAfter = freshAfter\<rparr>
     = Some (Inr rd)"
    "\<not> sr_ReferenceUnavailable rd" "s' = tr_State t"
    "Expire state \<lparr>exp_RuntimeID = timer_RuntimeID timer, exp_Generation = timer_Generation timer,
       exp_Observation = (sr_Observation rd)\<lparr>aso_ProcessedAt := at\<rparr>\<rparr> = Inr t"
  using assms by (auto simp: handle_Expire_def stored_transition_def quiet_transitions Let_def
      split: if_splits option.splits sum.splits dispatch_disposition.splits)

lemma handle_Refresh_quiet: "handle_Refresh fuel key at engine s = Some (Inr (s', t)) \<Longrightarrow> tr_Stop t = None"
  by (auto simp: handle_Refresh_def Let_def stored_transition_Inr_iff quiet_transitions
      split: if_splits option.splits sum.splits dest: Observe_no_stop)

lemma only_expiry_stops:
  assumes "handle key event state = Some (Inr (s', t))" and "tr_Stop t = Some stop"
  obtains fuel freshAfter at engine dispatch timer
  where "event = OnExpire fuel freshAfter at engine dispatch timer"
    "handle_Expire fuel freshAfter at engine dispatch timer state = Some (Inr (s', t))"
  using assms
  by (cases event) (auto simp: handle_Suppress_def handle_Resume_def handle_Observe_def
      stored_transition_Inr_iff quiet_transitions dest: Observe_no_stop handle_Refresh_quiet)

text \<open>
  C11. In every state the object's handlers can reach from the empty one, an event stops a Runtime
  only if it is the expiry of the timer that is pending there, of the Runtime the state watches and
  with the state's timer generation, while that Runtime is not the one the state marks as suppressed.
  The Snapshots have been refreshed for this expiry, and the stop rests on two of the Runtime: the
  stored one that began the grace period and a newer one, fresh at the refresh, both idle in
  everything the mode of the policy watches.  The request has been accepted, carries that evidence
  and is keyed by the timer's generation; afterwards no timer is pending and the generation is the
  dispatched one.
\<close>

theorem stop_needs_evidence:
  assumes "handle key event (fst (run_handlers key fresh_state earlier)) = Some (Inr (s', t))"
    and "tr_Stop t = Some stop"
  shows "let state = fst (run_handlers key fresh_state earlier) in
    \<exists>fuel freshAfter at engine dispatch timer rd.
      event = OnExpire fuel freshAfter at engine dispatch timer
      \<and> currentAutoStopTimer state timer
      \<and> co_SuppressedRuntimeID state \<noteq> stop_RuntimeID stop
      \<and> refreshAutoStopSnapshot fuel default_polling ''refresh-activity-snapshot'' engine
            \<lparr>rr_EnvironmentID = co_EnvironmentID state, rr_RuntimeID = co_RuntimeID state,
             rr_AfterSnapshotSequence = co_LastSnapshotSequence state, rr_FreshAfter = freshAfter\<rparr>
          = Some (Inr rd)
      \<and> stop_justified state ((sr_Observation rd)\<lparr>aso_ProcessedAt := at\<rparr>) stop
      \<and> stop_EnvironmentID stop = co_EnvironmentID state \<and> stop_RuntimeID stop = co_RuntimeID state
      \<and> stop_Reason stop = RuntimeStopAutoStop
      \<and> stop_IdempotencyKey stop
          = stop_key (co_EnvironmentID state) (co_RuntimeID state) (timer_Generation timer)
      \<and> dispatch stop = Inr autoStopDispatchAccepted
      \<and> \<not> co_TimerPending s' \<and> co_DispatchedGeneration s' = timer_Generation timer"
proof -
  let ?state = "fst (run_handlers key fresh_state earlier)"
  obtain fuel freshAfter at engine dispatch timer
    where event: "event = OnExpire fuel freshAfter at engine dispatch timer"
      and expire: "handle_Expire fuel freshAfter at engine dispatch timer ?state = Some (Inr (s', t))"
    by (rule only_expiry_stops [OF assms])
  obtain rd where facts: "currentAutoStopTimer ?state timer" "dispatch stop = Inr autoStopDispatchAccepted"
      "refreshAutoStopSnapshot fuel default_polling ''refresh-activity-snapshot'' engine
         \<lparr>rr_EnvironmentID = co_EnvironmentID ?state, rr_RuntimeID = co_RuntimeID ?state,
          rr_AfterSnapshotSequence = co_LastSnapshotSequence ?state, rr_FreshAfter = freshAfter\<rparr>
       = Some (Inr rd)" "s' = tr_State t"
    and expired: "Expire ?state \<lparr>exp_RuntimeID = timer_RuntimeID timer, exp_Generation = timer_Generation timer,
       exp_Observation = (sr_Observation rd)\<lparr>aso_ProcessedAt := at\<rparr>\<rparr> = Inr t"
    by (rule handle_Expire_stop [OF expire assms(2)])
  note state = stop_justified_by_state [OF reached_inv expired assms(2)]
  have "stop_EnvironmentID stop = co_EnvironmentID ?state"
    "stop_IdempotencyKey stop
       = stop_key (co_EnvironmentID ?state) (co_RuntimeID ?state) (co_TimerGeneration ?state)"
    by (rule Expire_stop_cases [OF expired assms(2)]; simp)+
  with event facts state show ?thesis
    unfolding Let_def by (intro exI [of _ fuel] exI [of _ freshAfter] exI [of _ at] exI [of _ engine]
        exI [of _ dispatch] exI [of _ timer] exI [of _ rd]) auto
qed

section \<open>Keys\<close>

text \<open>The decimal numeral of a number determines it.\<close>

definition decimal_value :: "string \<Rightarrow> nat" where
  "decimal_value s = foldl (\<lambda>acc c. 10 * acc + digit_value c) 0 s"

lemma digit_value_nth: "n < 10 \<Longrightarrow> digit_value (''0123456789'' ! n) = n"
  by (auto simp: digit_value_def numeral_eq_Suc less_Suc_eq)

lemma decimal_value_digits: "decimal_value (decimal_digits n) = n"
proof (induction n rule: decimal_digits.induct)
  case (1 n)
  show ?case
  proof (cases "n < 10")
    case True
    then show ?thesis by (subst decimal_digits.simps) (simp add: decimal_value_def digit_value_nth)
  next
    case False
    have "decimal_value (decimal_digits n)
        = 10 * decimal_value (decimal_digits (n div 10)) + digit_value (''0123456789'' ! (n mod 10))"
      using False by (subst decimal_digits.simps) (simp add: decimal_value_def)
    also have "\<dots> = n" using 1 [OF False] digit_value_nth [of "n mod 10"] by simp
    finally show ?thesis .
  qed
qed

lemma decimal_all_digits: "list_all is_digit (decimal_digits n)"
proof (induction n rule: decimal_digits.induct)
  case (1 n)
  have "is_digit (''0123456789'' ! k)" if "k < 10" for k
    unfolding is_digit_def using that by (intro nth_mem) simp
  with 1 show ?case by (subst decimal_digits.simps) simp
qed

lemma decimal_no_colon: "CHR '':'' \<notin> set (decimal_digits n)"
proof
  assume "CHR '':'' \<in> set (decimal_digits n)"
  with decimal_all_digits [of n] have "is_digit (CHR '':'')" unfolding list_all_iff by blast
  then show False by (simp add: is_digit_def)
qed

lemma append_last_colon:
  assumes "xs @ c # d = ys @ c # e" and "c \<notin> set d" and "c \<notin> set e"
  shows "d = e"
proof -
  have "takeWhile (\<lambda>x. x \<noteq> c) (rev (zs @ c # f)) = rev f" if "c \<notin> set f" for zs f
    using that by (simp add: takeWhile_append)
  with assms show ?thesis by (metis rev_is_rev_conv)
qed

lemma stop_key_generation:
  assumes "stop_key e r g = stop_key e' r' g'"
  shows "g = g'"
proof -
  have "decimal_digits (unat g) = decimal_digits (unat g')"
    using assms append_last_colon [of "e @ '':'' @ r" "CHR '':''" "decimal_digits (unat g)"
        "e' @ '':'' @ r'" "decimal_digits (unat g')"] decimal_no_colon
    by (simp add: stop_key_def)
  then have "unat g = unat g'"
    by (metis decimal_value_digits)
  then show ?thesis by (rule unsigned_word_eqI)
qed

section \<open>Generations only grow\<close>

text \<open>The smallest generation a future stop can have.\<close>

definition next_generation :: "coordination_state \<Rightarrow> nat" where
  "next_generation s = unat (co_TimerGeneration s) + (if co_TimerPending s then 0 else 1)"

definition room :: "nat \<Rightarrow> coordination_state \<Rightarrow> bool" where
  "room n s \<longleftrightarrow> unat (co_TimerGeneration s) + n < 18446744073709551616"

definition grows :: "coordination_state \<Rightarrow> coordination_state \<Rightarrow> bool" where
  "grows s s' \<longleftrightarrow>
     next_generation s \<le> next_generation s'
     \<and> unat (co_TimerGeneration s') \<le> unat (co_TimerGeneration s) + 2"

lemma unat_inc: "room n s \<Longrightarrow> 1 \<le> n \<Longrightarrow> unat (co_TimerGeneration s + 1) = unat (co_TimerGeneration s) + 1"
  unfolding room_def by (intro unat_succ) simp

lemma base_state_generation:
  "co_TimerPending (base_state s observation) \<longleftrightarrow>
     co_TimerPending s \<and> \<not> coordinationChanged s observation"
  "co_TimerGeneration (base_state s observation) =
     (if coordinationChanged s observation \<and> co_TimerPending s then co_TimerGeneration s + 1
      else co_TimerGeneration s)"
  by (auto simp: base_state_def adopt_observation_def)

lemma Observe_grows:
  assumes "Observe s observation = Inr t" and "room 2 s"
  shows "grows s (tr_State t)"
proof -
  note inc = unat_inc [OF assms(2)]
  have inc2: "unat (co_TimerGeneration s + 1 + 1) = unat (co_TimerGeneration s) + 2"
    using inc unat_succ [of "co_TimerGeneration s + 1"] assms(2) by (simp add: room_def)
  from assms(1) show ?thesis
  proof (cases rule: Observe_cases)
    case (quiet b)
    then have "co_TimerPending b = co_TimerPending (base_state s observation)"
      "co_TimerGeneration b = co_TimerGeneration (base_state s observation)"
      by auto
    with quiet(1) inc inc2 show ?thesis
      by (auto simp: grows_def next_generation_def cancel_timer_def base_state_generation)
  next
    case (kept n)
    with inc show ?thesis
      by (auto simp: grows_def next_generation_def base_state_generation)
  next
    case (armed d snapshot)
    with inc inc2 show ?thesis
      by (auto simp: grows_def next_generation_def base_state_generation)
  qed
qed

lemma Expire_grows:
  assumes "Expire s expiry = Inr t" and "room 2 s"
  shows "grows s (tr_State t)
    \<and> (tr_Stop t \<noteq> None \<longrightarrow> next_generation (tr_State t) = Suc (unat (co_TimerGeneration s)))"
proof (cases "stale_expiry s expiry")
  case True
  with assms(1) have "t = plain_transition s" by (simp add: Expire_stale)
  then show ?thesis by (simp add: plain_transition_def grows_def)
next
  case False
  show ?thesis
  proof (cases "coordinationChanged s (exp_Observation expiry)")
    case True
    from False True assms(1) obtain u where "Observe s (exp_Observation expiry) = Inr u"
      and "t = u\<lparr>tr_Cancelled := True\<rparr>" by (rule Expire_changed)
    then show ?thesis using Observe_grows [OF _ assms(2)] Observe_no_stop by simp
  next
    case unchanged: False
    then show ?thesis
      using Expire_ends_timer [OF False unchanged assms(1)]
      by (simp add: grows_def next_generation_def)
  qed
qed

lemma coordinator_step_grows:
  assumes "coordinator_step s s' stop" and "room 2 s"
  shows "grows s s'"
    and "stop = Some r \<Longrightarrow> next_generation s' = Suc (unat (co_TimerGeneration s)) \<and> co_TimerPending s
      \<and> stop_IdempotencyKey r = stop_key (co_EnvironmentID s) (co_RuntimeID s) (co_TimerGeneration s)"
proof -
  note inc = unat_inc [OF assms(2)]
  show "grows s s'"
    using assms
  proof cases
    case (refused_step expiry t)
    then show ?thesis
      using Expire_grows [of s expiry t] assms(2)
      by (auto simp: grows_def next_generation_def split: if_splits)
  qed (use inc Observe_grows Expire_grows in \<open>auto simp: grows_def next_generation_def Suppress_def
      Resume_def abandonAutoStopRuntime_def plain_transition_def split: if_splits\<close>)
  assume "stop = Some r"
  with assms(1) show "next_generation s' = Suc (unat (co_TimerGeneration s)) \<and> co_TimerPending s
      \<and> stop_IdempotencyKey r = stop_key (co_EnvironmentID s) (co_RuntimeID s) (co_TimerGeneration s)"
  proof cases
    case (expire_step expiry t)
    with \<open>stop = Some r\<close> have "tr_Stop t = Some r" by simp
    with expire_step show ?thesis
      using Expire_grows [of s expiry t] assms(2) Expire_stop_current(1) [of s expiry t r]
      by (auto elim!: Expire_stop_cases)
  qed simp_all
qed

lemma coordinationState_fields [simp]:
  "co_TimerGeneration (coordinationState key s) = co_TimerGeneration s"
  "co_TimerPending (coordinationState key s) = co_TimerPending s"
  by (simp_all add: coordinationState_def)

lemma handle_grows:
  assumes "handle key e s = Some (Inr (s', t))" and "room 2 s"
  shows "grows s s'"
    and "tr_Stop t = Some r \<Longrightarrow> next_generation s' = Suc (unat (co_TimerGeneration s)) \<and> co_TimerPending s
      \<and> (\<exists>env rt. stop_IdempotencyKey r = stop_key env rt (co_TimerGeneration s))"
proof -
  obtain b where b: "b = s \<or> b = coordinationState key s" and step: "coordinator_step b s' (tr_Stop t)"
    using handle_step [OF assms(1)] by blast
  have same: "co_TimerGeneration b = co_TimerGeneration s" "co_TimerPending b = co_TimerPending s"
    using b by auto
  with assms(2) have "room 2 b" by (simp add: room_def)
  note facts = coordinator_step_grows [OF step this]
  show "grows s s'"
    using facts(1) same by (simp add: grows_def next_generation_def)
  assume "tr_Stop t = Some r"
  then show "next_generation s' = Suc (unat (co_TimerGeneration s)) \<and> co_TimerPending s
      \<and> (\<exists>env rt. stop_IdempotencyKey r = stop_key env rt (co_TimerGeneration s))"
    using facts(2) same by metis
qed

definition stops_after :: "nat \<Rightarrow> runtime_stop_request list \<Rightarrow> bool" where
  "stops_after n stops \<longleftrightarrow>
     (\<forall>r \<in> set stops. \<exists>env rt g. stop_IdempotencyKey r = stop_key env rt g \<and> n \<le> unat g)
     \<and> distinct (map stop_IdempotencyKey stops)"

lemma stops_after_mono: "stops_after n stops \<Longrightarrow> m \<le> n \<Longrightarrow> stops_after m stops"
  unfolding stops_after_def by (meson order_trans)

lemma stops_after_Cons:
  assumes "stops_after n stops" and "stop_IdempotencyKey r = stop_key env rt g" and "unat g < n"
  shows "stops_after (unat g) (r # stops)"
proof -
  have "stop_IdempotencyKey r \<noteq> stop_IdempotencyKey r'" if "r' \<in> set stops" for r'
    using that assms stop_key_generation unfolding stops_after_def by (metis leD)
  moreover have "stops_after (unat g) stops"
    using assms(1,3) stops_after_mono by (metis less_imp_le)
  ultimately show ?thesis
    using assms(2) unfolding stops_after_def by fastforce
qed

lemma run_handlers_stops:
  "room (2 * length es) s \<Longrightarrow> stops_after (next_generation s) (snd (run_handlers key s es))"
proof (induction es arbitrary: s)
  case Nil
  then show ?case by (simp add: stops_after_def)
next
  case (Cons e es)
  have room2: "room 2 s" and rest: "room (2 * length es) s"
    using Cons.prems by (simp_all add: room_def)
  show ?case
  proof (cases "\<exists>s' t. handle key e s = Some (Inr (s', t))")
    case True
    then obtain s' t where ok: "handle key e s = Some (Inr (s', t))" by blast
    note facts = handle_grows [OF ok room2]
    from facts(1) Cons.prems have "room (2 * length es) s'"
      by (auto simp: room_def grows_def)
    from Cons.IH [OF this] have later: "stops_after (next_generation s') (snd (run_handlers key s' es))" .
    show ?thesis
    proof (cases "tr_Stop t")
      case None
      then show ?thesis
        using ok later facts(1) stops_after_mono
        by (auto simp: grows_def Let_def split: prod.splits)
    next
      case (Some r)
      from facts(2) [OF Some] obtain env rt
        where "stop_IdempotencyKey r = stop_key env rt (co_TimerGeneration s)"
          and "unat (co_TimerGeneration s) < next_generation s'"
          and "next_generation s = unat (co_TimerGeneration s)"
        by (auto simp: next_generation_def)
      then show ?thesis
        using ok Some stops_after_Cons [OF later] by (simp add: Let_def case_prod_beta)
    qed
  next
    case False
    then have "run_handlers key s (e # es) = run_handlers key s es"
      by (auto split: option.splits sum.splits)
    then show ?thesis using Cons.IH [OF rest] by simp
  qed
qed

text \<open>
  However Observations, refreshes, suppressions, resumptions and expiring timers (repeated,
  stale or out of order ones included) reach the object of an Environment, no two accepted automatic
  stops have the same idempotency key, as long as the generation counter does not wrap around.
\<close>

lemma stops_have_distinct_keys:
  assumes "unat (co_TimerGeneration s) + 2 * length events < 18446744073709551616"
  shows "distinct (map stop_IdempotencyKey (snd (run_handlers key s events)))"
  using run_handlers_stops [of events s key] assms by (simp add: room_def stops_after_def)

section \<open>Suppression\<close>

definition suppressed_for :: "string \<Rightarrow> coordination_state \<Rightarrow> bool" where
  "suppressed_for rid s \<longleftrightarrow>
     co_RuntimeID s = rid \<and> co_SuppressedRuntimeID s = rid \<and> \<not> co_TimerPending s"

lemma Suppress_suppresses:
  "Suppress s rid = Inr t \<Longrightarrow> co_RuntimeID s = rid \<Longrightarrow> suppressed_for rid (tr_State t)"
  by (auto simp: Suppress_def plain_transition_def suppressed_for_def split: if_splits)

lemma Observe_suppressed:
  assumes "suppressed_for rid s" and "aso_RuntimeID observation = rid" and "Observe s observation = Inr t"
  shows "suppressed_for rid (tr_State t)" and "tr_Timer t = None" and "tr_Stop t = None"
  using assms by (auto simp: Observe_def suppressed_for_def Let_def plain_transition_def
      adopt_observation_def coordinationChanged_def split: sum.splits if_splits)

text \<open>The events that concern only this Runtime and do not resume it.\<close>

fun concerns :: "string \<Rightarrow> handler_event \<Rightarrow> bool" where
  "concerns rid (OnSuppress r) \<longleftrightarrow> r = rid"
| "concerns rid (OnResume r) \<longleftrightarrow> r \<noteq> rid"
| "concerns rid (OnObserve at input) \<longleftrightarrow> aso_RuntimeID input = rid"
| "concerns rid (OnRefresh fuel at engine) \<longleftrightarrow>
     (\<forall>rd. eng_before engine = Inr rd \<longrightarrow> \<not> sr_ReferenceUnavailable rd)
     \<and> (\<forall>rd. eng_after engine = Inr rd \<longrightarrow>
          \<not> sr_ReferenceUnavailable rd \<and> aso_RuntimeID (sr_Observation rd) = rid)"
| "concerns rid (OnExpire fuel freshAfter at engine dispatch timer) \<longleftrightarrow> True"

lemma refresh_concerns:
  assumes "concerns rid (OnRefresh n at engine)"
    and "refreshAutoStopSnapshot fuel polling prefix engine request = Some (Inr rd)"
  shows "\<not> sr_ReferenceUnavailable rd" and "aso_RuntimeID (sr_Observation rd) = rid"
  using assms by (auto simp: refreshAutoStopSnapshot_def split: if_splits sum.splits option.splits)

lemma suppressed_coordinationState: "suppressed_for rid (coordinationState key s) = suppressed_for rid s"
  by (simp add: suppressed_for_def coordinationState_def)

lemma handle_Refresh_suppressed:
  assumes "suppressed_for rid s" and "concerns rid (OnRefresh fuel at engine)"
    and "handle_Refresh fuel key at engine s = Some (Inr (s', t))"
  shows "suppressed_for rid s' \<and> tr_Stop t = None"
proof (cases "co_RuntimeID (coordinationState key s) = []")
  case True
  with assms show ?thesis by (auto simp: handle_Refresh_def Let_def quiet_transitions)
next
  case False
  let ?s = "coordinationState key s"
  from assms(3) False obtain rd where rd: "refreshAutoStopSnapshot fuel default_polling ''refresh-auto-stop-policy'' engine
      \<lparr>rr_EnvironmentID = co_EnvironmentID ?s, rr_RuntimeID = co_RuntimeID ?s,
       rr_AfterSnapshotSequence = 0, rr_FreshAfter = time_add at (- autoStopStaleThreshold)\<rparr>
     = Some (Inr rd)"
    by (simp add: handle_Refresh_def Let_def split: option.splits sum.splits)
  note facts = refresh_concerns [OF assms(2) rd]
  let ?o = "(sr_Observation rd)\<lparr>aso_FreshAfter := time_add at (- autoStopStaleThreshold),
    aso_ProcessedAt := at\<rparr>"
  from rd assms(3) False facts(1) have "Observe ?s ?o = Inr t" and "s' = tr_State t"
    by (simp_all add: handle_Refresh_def Let_def stored_transition_Inr_iff)
  then show ?thesis
    using Observe_suppressed [of rid ?s ?o t] assms(1) facts(2) by (simp add: suppressed_coordinationState)
qed

lemma handle_suppressed:
  assumes "suppressed_for rid s" and "concerns rid e" and "handle key e s = Some (Inr (s', t))"
  shows "suppressed_for rid s' \<and> tr_Stop t = None"
proof (cases e)
  case (OnSuppress r)
  then show ?thesis
    using assms Suppress_suppresses [of "coordinationState key s" rid t] quiet_transitions(1)
    by (auto simp: handle_Suppress_def stored_transition_Inr_iff suppressed_for_def coordinationState_def
        split: if_splits)
next
  case (OnResume r)
  then show ?thesis
    using assms by (auto simp: handle_Resume_def stored_transition_Inr_iff Resume_def suppressed_for_def
        coordinationState_def plain_transition_def split: if_splits)
next
  case (OnObserve at input)
  then show ?thesis
    using assms Observe_suppressed [of rid "coordinationState key s" "input\<lparr>aso_ProcessedAt := at\<rparr>" t]
    by (auto simp: handle_Observe_def stored_transition_Inr_iff suppressed_coordinationState)
next
  case (OnRefresh fuel at engine)
  with assms handle_Refresh_suppressed show ?thesis by simp
next
  case (OnExpire fuel freshAfter at engine dispatch timer)
  then show ?thesis
    using assms by (auto simp: handle_Expire_def currentAutoStopTimer_def suppressed_for_def quiet_transitions)
qed

lemma run_handlers_suppressed:
  "suppressed_for rid s \<Longrightarrow> \<forall>e \<in> set events. concerns rid e
   \<Longrightarrow> suppressed_for rid (fst (run_handlers key s events)) \<and> snd (run_handlers key s events) = []"
proof (induction events arbitrary: s)
  case (Cons e es)
  show ?case
  proof (cases "\<exists>s' t. handle key e s = Some (Inr (s', t))")
    case True
    then obtain s' t where ok: "handle key e s = Some (Inr (s', t))" by blast
    with Cons.prems handle_suppressed have "suppressed_for rid s'" "tr_Stop t = None" by auto
    with ok Cons.IH [of s'] Cons.prems(2) show ?thesis by (simp add: Let_def case_prod_beta)
  next
    case False
    then have "run_handlers key s (e # es) = run_handlers key s es"
      by (auto split: option.splits sum.splits)
    with Cons show ?thesis by simp
  qed
qed simp

text \<open>
  Once the watched Runtime has been suppressed, nothing short of resuming it stops it: whatever
  Observations of it, refreshes and timers are handled, in whatever order, no automatic stop is
  accepted, no timer is pending afterwards and the suppression stands.
\<close>

lemma suppression_holds:
  assumes "co_RuntimeID s = rid" and "Suppress s rid = Inr t" and "\<forall>e \<in> set events. concerns rid e"
  shows "let (s', stops) = run_handlers key (tr_State t) events
         in stops = [] \<and> \<not> co_TimerPending s' \<and> co_SuppressedRuntimeID s' = rid"
  using run_handlers_suppressed [OF Suppress_suppresses [OF assms(2,1)] assms(3), of key]
  by (simp add: suppressed_for_def case_prod_beta Let_def)

section \<open>Concrete histories\<close>

definition idle_snapshot :: "uint64 \<Rightarrow> auto_stop_activity_snapshot" where
  "idle_snapshot n =
     \<lparr>act_RuntimeID = ''rt-1'', act_Sequence = n, act_ObservedAt = \<lparr>wall = 100, loc = UTC\<rparr>,
      act_SSHConnections = 0, act_IDEConnections = 0, act_CodexProcesses = 3,
      act_ClaudeProcesses = 0, act_ProtectedProcesses = 0, act_SelectedContainers = 0,
      act_UnknownUserProcesses = 0\<rparr>"

definition idle_observation :: "uint64 \<Rightarrow> auto_stop_observation" where
  "idle_observation n =
     \<lparr>aso_RuntimeID = ''rt-1'',
      aso_Policy = \<lparr>pol_ID = ''pol-1'', pol_EnvironmentID = ''env-1'',
                    pol_Mode = AutoStopWhenDisconnected, pol_GracePeriodSeconds = 60\<rparr>,
      aso_PolicyGeneration = 1, aso_FreshAfter = \<lparr>wall = 90, loc = UTC\<rparr>,
      aso_ProcessedAt = \<lparr>wall = 101, loc = UTC\<rparr>, aso_Snapshot = Some (idle_snapshot n),
      aso_Conflicts = []\<rparr>"

definition armed_state :: coordination_state where
  "armed_state =
     \<lparr>co_EnvironmentID = ''env-1'', co_RuntimeID = ''rt-1'', co_PolicyID = ''pol-1'',
      co_PolicyMode = AutoStopWhenDisconnected, co_PolicyGraceSeconds = 60,
      co_PolicyGeneration = 1, co_TimerGeneration = 1, co_TimerPending = True,
      co_LastSnapshotSequence = 1, co_DispatchedGeneration = 0, co_SuppressedRuntimeID = [],
      co_GraceStartedAt = \<lparr>wall = 101, loc = UTC\<rparr>,
      co_GraceStartSnapshot = Some (idle_snapshot 1)\<rparr>"

definition sample_timer :: auto_stop_timer where
  "sample_timer =
     \<lparr>timer_RuntimeID = ''rt-1'', timer_Generation = 1, timer_Delay = 60000000000\<rparr>"

lemma sequence_order: "\<not> (2 :: uint64) \<le> 1" "(1 :: uint64) < 2"
  by (simp_all add: word_le_nat_alt word_less_nat_alt)

lemmas coordinator_eval = sequence_order Observe_def Expire_def evaluateAutoStop_def restoreAutoStopPolicy_def
  NewAutoStopPolicy_def Evaluate_def validateAutoStopActivity_def activity_counts_def
  mode_qualifies_def coordinationChanged_def adopt_observation_def see_sequence_def
  plain_transition_def grace_delay_def idle_observation_def idle_snapshot_def go_time

lemma observing_arms_timer:
  "\<exists>t. Observe (coordinationState ''env-1'' fresh_state) (idle_observation 1) = Inr t
     \<and> tr_State t = armed_state \<and> tr_Timer t = Some sample_timer"
  by (simp add: coordinator_eval coordinationState_def fresh_state_def armed_state_def
      sample_timer_def)

definition sample_expiry :: auto_stop_expiry where
  "sample_expiry = \<lparr>exp_RuntimeID = ''rt-1'', exp_Generation = 1, exp_Observation = idle_observation 2\<rparr>"

lemma expiry_stops:
  "\<exists>t stop. Expire armed_state sample_expiry = Inr t \<and> tr_Stop t = Some stop
     \<and> stop_RuntimeID stop = ''rt-1'' \<and> stop_IdempotencyKey stop = stop_key ''env-1'' ''rt-1'' 1"
  by (simp add: coordinator_eval armed_state_def sample_expiry_def)

text \<open>The same expiry through the handlers, with an engine whose first read finds the Snapshot.\<close>

definition sample_engine :: snapshot_engine where
  "sample_engine =
     \<lparr>eng_before = Inr \<lparr>sr_Observation = idle_observation 1, sr_ReferenceUnavailable = False\<rparr>,
      eng_start = Inr \<lparr>wall = 95, loc = UTC\<rparr>,
      eng_journal = (\<lambda>attempt t slept.
        Inr (\<lparr>read_Value = Some (idle_snapshot 2), read_UseValue = True,
              read_RetryableFailure = False\<rparr>, \<lparr>wall = 100, loc = UTC\<rparr>)),
      eng_after = Inr \<lparr>sr_Observation = idle_observation 1, sr_ReferenceUnavailable = False\<rparr>\<rparr>"

definition sample_events :: "handler_event list" where
  "sample_events =
     [OnObserve \<lparr>wall = 101, loc = UTC\<rparr> (idle_observation 1),
      OnExpire 1 \<lparr>wall = 98, loc = UTC\<rparr> \<lparr>wall = 102, loc = UTC\<rparr> sample_engine
        (\<lambda>request. Inr autoStopDispatchAccepted) sample_timer]"

lemma observe_event:
  "\<exists>t. handle ''env-1'' (OnObserve \<lparr>wall = 101, loc = UTC\<rparr> (idle_observation 1)) fresh_state
     = Some (Inr (armed_state, t)) \<and> tr_Stop t = None"
  using observing_arms_timer Observe_no_stop
  by (auto simp: handle_Observe_def stored_transition_def idle_observation_def)

lemma expire_event:
  "\<exists>s' t stop. handle ''env-1'' (OnExpire 1 \<lparr>wall = 98, loc = UTC\<rparr> \<lparr>wall = 102, loc = UTC\<rparr> sample_engine
        (\<lambda>request. Inr autoStopDispatchAccepted) sample_timer) armed_state
     = Some (Inr (s', t)) \<and> tr_Stop t = Some stop"
  by (simp add: handle_Expire_def currentAutoStopTimer_def refreshAutoStopSnapshot_def
      durableDeadlinePoll_def refresh_polling_def default_polling_def poll_round_def take_read_def
      autoStopSnapshotSatisfies_def effective_request_def time_add_def sample_timer_def
      sample_engine_def armed_state_def coordinator_eval zero_time_def)

lemma sample_events_stop: "length (snd (run_handlers ''env-1'' fresh_state sample_events)) = 1"
  using observe_event expire_event
  by (auto simp: sample_events_def Let_def)

lemma armed_runtime: "co_RuntimeID armed_state = ''rt-1''"
  by (simp add: armed_state_def)

text \<open>Watching the Runtime idle and then the expiry of the timer stop it.\<close>

theorem stop_needs_evidence_witness:
  "\<exists>s' t stop (rd :: snapshot_read).
     handle ''env-1'' (sample_events ! 1) (fst (run_handlers ''env-1'' fresh_state [sample_events ! 0]))
       = Some (Inr (s', t)) \<and> tr_Stop t = Some stop
     \<and> stop_justified armed_state ((sr_Observation rd)\<lparr>aso_ProcessedAt := \<lparr>wall = 102, loc = UTC\<rparr>\<rparr>) stop
     \<and> stop_RuntimeID stop = ''rt-1'' \<and> co_DispatchedGeneration s' = 1"
proof -
  have reached: "fst (run_handlers ''env-1'' fresh_state [sample_events ! 0]) = armed_state"
    using observe_event by (auto simp: sample_events_def)
  obtain s' t stop where run: "handle ''env-1'' (sample_events ! 1) armed_state = Some (Inr (s', t))"
      "tr_Stop t = Some stop"
    using expire_event by (auto simp: sample_events_def)
  have "\<exists>rd :: snapshot_read. stop_justified armed_state ((sr_Observation rd)\<lparr>aso_ProcessedAt := \<lparr>wall = 102, loc = UTC\<rparr>\<rparr>) stop
    \<and> stop_RuntimeID stop = ''rt-1'' \<and> co_DispatchedGeneration s' = 1"
    using stop_needs_evidence [of "''env-1''" "sample_events ! 1" "[sample_events ! 0]" s' t stop] run
    unfolding reached Let_def
    by (simp add: sample_events_def sample_timer_def armed_runtime del: handle.simps) blast
  with run show ?thesis unfolding reached by blast
qed

text \<open>
  The suppression does not hold when it comes before the first Observation of the Runtime: adopting
  a Runtime the object has not watched yet clears the suppression, even when that very Runtime is
  the suppressed one.
\<close>

text \<open>
  When a Runtime is suppressed before the object has handled any Observation of it, the first
  idle Observation of that suppressed Runtime clears the suppression and starts the grace timer.
\<close>

lemma early_suppression_is_lost:
  "\<exists>t u. Suppress (coordinationState ''env-1'' fresh_state) ''rt-1'' = Inr t
     \<and> co_SuppressedRuntimeID (tr_State t) = ''rt-1''
     \<and> Observe (tr_State t) (idle_observation 1) = Inr u
     \<and> co_SuppressedRuntimeID (tr_State u) = [] \<and> tr_Timer u = Some sample_timer"
  by (simp add: Suppress_def coordinationState_def fresh_state_def sample_timer_def coordinator_eval)

end
