(* ===== verification/Billing.thy ===== *)
theory Billing
  imports Complex_Main Prelude Regexps
begin

text \<open>
  Credits (\<open>libs/billing\<close>): rates that convert a measured quantity into whole credits
  (\<open>rate.go\<close>, exact rational arithmetic), the transactions and the balance they are applied to
  (\<open>ledger.go\<close>), and the usage event reported for a debit (\<open>polar_event.go\<close>).  The theorems say
  that a balance is exactly the sum of the transactions it accepted, that no transaction counts
  twice, and that a debit charges exactly quantity times rate.
\<close>

section \<open>Decimals\<close>

text \<open>\<open>decimalPattern\<close>: \<open>^[0-9]+(?:\.[0-9]+)?$\<close>\<close>

definition decimalPattern :: regexp where
  "decimalPattern =
     Seq (Class digits) (Seq (Star (Class digits))
       (optional (Seq (literal ''.'') (Seq (Class digits) (Star (Class digits))))))"

definition digits_value :: "string \<Rightarrow> nat" where
  "digits_value s = foldl (\<lambda>acc c. 10 * acc + digit_value c) 0 s"

text \<open>
  \<open>big.Rat.SetString\<close> on a string the pattern accepts: the digits as one integer over the power of
  ten of the number of fractional digits.
\<close>

definition rat_of_decimal :: "string \<Rightarrow> rat" where
  "rat_of_decimal s =
     (let whole = takeWhile (\<lambda>c. c \<noteq> CHR ''.'') s;
          frac = drop 1 (dropWhile (\<lambda>c. c \<noteq> CHR ''.'') s)
      in of_nat (digits_value (whole @ frac)) / 10 ^ length frac)"

datatype billing_error =
    DecimalInvalid
  | RateIncomplete
  | RatePresetRequired
  | RatePresetForbidden
  | RateUnsupportedResource
  | RateNotPositive
  | RateNotInitialized
  | RateNotWhole
  | RawQuantity billing_error
  | GrantNotPositive
  | AdjustmentZero
  | RefundNotPositive
  | DebitIncomplete
  | TransactionIncomplete
  | TransactionCreatedEarly
  | BalanceUserRequired
  | BalanceNotInitialized
  | BalanceForeignUser
  | ErrIdempotencyConflict
  | ErrTransactionIDConflict
  | BalanceOverflow
  | EventNotDebit
  | EventNotInitialized

definition parseDecimal :: "string \<Rightarrow> billing_error + rat" where
  "parseDecimal val =
     (if \<not> matches decimalPattern val then Inl DecimalInvalid else Inr (rat_of_decimal val))"

section \<open>Rates\<close>

datatype resource_type = ResourceCompute | ResourceStorage | ResourceOther string

record credit_rate =
  rate_version :: string
  rate_resourceType :: resource_type
  rate_region :: string
  rate_preset :: string
  rate_rawUnit :: string
  rate_creditsPerUnit :: "rat option"
  rate_creditsText :: string
  rate_effectiveAt :: gotime

definition NewCreditRate ::
  "string \<Rightarrow> resource_type \<Rightarrow> string \<Rightarrow> string \<Rightarrow> string \<Rightarrow> string \<Rightarrow> gotime
   \<Rightarrow> billing_error + credit_rate" where
  "NewCreditRate version resourceType region preset rawUnit creditsPerUnit effectiveAt =
     (if version = [] \<or> region = [] \<or> rawUnit = [] \<or> is_zero effectiveAt then Inl RateIncomplete
      else if resourceType = ResourceCompute \<and> preset = [] then Inl RatePresetRequired
      else if resourceType = ResourceStorage \<and> preset \<noteq> [] then Inl RatePresetForbidden
      else if resourceType \<noteq> ResourceCompute \<and> resourceType \<noteq> ResourceStorage
      then Inl RateUnsupportedResource
      else case parseDecimal creditsPerUnit of
        Inl _ \<Rightarrow> Inl RateNotPositive
      | Inr rate \<Rightarrow>
          if rate \<le> 0 then Inl RateNotPositive
          else Inr \<lparr>rate_version = version, rate_resourceType = resourceType, rate_region = region,
                    rate_preset = preset, rate_rawUnit = rawUnit, rate_creditsPerUnit = Some rate,
                    rate_creditsText = creditsPerUnit, rate_effectiveAt = utc effectiveAt\<rparr>)"

text \<open>\<open>IsInt\<close> and \<open>IsInt64\<close> of the product, and its integer.\<close>

definition whole_int64 :: "rat \<Rightarrow> int64 option" where
  "whole_int64 credits =
     (let n = fst (quotient_of credits) in
      if snd (quotient_of credits) = 1 \<and> - 9223372036854775808 \<le> n \<and> n \<le> 9223372036854775807
      then Some (word_of_int n) else None)"

definition Convert :: "credit_rate \<Rightarrow> string \<Rightarrow> billing_error + int64" where
  "Convert r rawQuantity =
     (case rate_creditsPerUnit r of
        None \<Rightarrow> Inl RateNotInitialized
      | Some perUnit \<Rightarrow>
          (case parseDecimal rawQuantity of
             Inl err \<Rightarrow> Inl (RawQuantity err)
           | Inr quantity \<Rightarrow>
               (case whole_int64 (quantity * perUnit) of
                  None \<Rightarrow> Inl RateNotWhole
                | Some credits \<Rightarrow> Inr credits)))"

section \<open>Transactions\<close>

datatype transaction_kind =
    TransactionGrant
  | TransactionDebit
  | TransactionAdjustment
  | TransactionRefund

record debit_usage =
  use_ResourceType :: resource_type
  use_EnvironmentID :: string
  use_ResourceID :: string
  use_Region :: string
  use_RawQuantity :: string
  use_RawUnit :: string
  use_RateVersion :: string

record debit_measurement =
  meas_EnvironmentID :: string
  meas_ResourceID :: string
  meas_RawQuantity :: string

record credit_transaction =
  tx_id :: string
  tx_userID :: string
  tx_kind :: transaction_kind
  tx_credits :: int64
  tx_idempotencyKey :: string
  tx_usage :: debit_usage
  tx_occurredAt :: gotime
  tx_createdAt :: gotime

definition no_usage :: debit_usage where
  "no_usage =
     \<lparr>use_ResourceType = ResourceOther [], use_EnvironmentID = [], use_ResourceID = [],
      use_Region = [], use_RawQuantity = [], use_RawUnit = [], use_RateVersion = []\<rparr>"

definition newCreditTransaction ::
  "string \<Rightarrow> string \<Rightarrow> transaction_kind \<Rightarrow> int64 \<Rightarrow> string \<Rightarrow> debit_usage \<Rightarrow> gotime \<Rightarrow> gotime
   \<Rightarrow> billing_error + credit_transaction" where
  "newCreditTransaction txID userID kind credits idempotencyKey usage occurredAt createdAt =
     (if txID = [] \<or> userID = [] \<or> idempotencyKey = [] \<or> is_zero occurredAt \<or> is_zero createdAt
      then Inl TransactionIncomplete
      else if before createdAt occurredAt then Inl TransactionCreatedEarly
      else Inr \<lparr>tx_id = txID, tx_userID = userID, tx_kind = kind, tx_credits = credits,
                tx_idempotencyKey = idempotencyKey, tx_usage = usage,
                tx_occurredAt = utc occurredAt, tx_createdAt = utc createdAt\<rparr>)"

definition NewGrant ::
  "string \<Rightarrow> string \<Rightarrow> int64 \<Rightarrow> string \<Rightarrow> gotime \<Rightarrow> gotime \<Rightarrow> billing_error + credit_transaction" where
  "NewGrant txID userID credits idempotencyKey occurredAt createdAt =
     (if sint credits \<le> 0 then Inl GrantNotPositive
      else newCreditTransaction txID userID TransactionGrant credits idempotencyKey no_usage
             occurredAt createdAt)"

definition NewAdjustment ::
  "string \<Rightarrow> string \<Rightarrow> int64 \<Rightarrow> string \<Rightarrow> gotime \<Rightarrow> gotime \<Rightarrow> billing_error + credit_transaction" where
  "NewAdjustment txID userID credits idempotencyKey occurredAt createdAt =
     (if credits = 0 then Inl AdjustmentZero
      else newCreditTransaction txID userID TransactionAdjustment credits idempotencyKey no_usage
             occurredAt createdAt)"

definition NewRefund ::
  "string \<Rightarrow> string \<Rightarrow> int64 \<Rightarrow> string \<Rightarrow> gotime \<Rightarrow> gotime \<Rightarrow> billing_error + credit_transaction" where
  "NewRefund txID userID credits idempotencyKey occurredAt createdAt =
     (if sint credits \<le> 0 then Inl RefundNotPositive
      else newCreditTransaction txID userID TransactionRefund credits idempotencyKey no_usage
             occurredAt createdAt)"

definition NewDebit ::
  "string \<Rightarrow> string \<Rightarrow> string \<Rightarrow> debit_measurement \<Rightarrow> credit_rate \<Rightarrow> gotime \<Rightarrow> gotime
   \<Rightarrow> billing_error + credit_transaction" where
  "NewDebit txID userID idempotencyKey measurement rate occurredAt createdAt =
     (case Convert rate (meas_RawQuantity measurement) of
        Inl err \<Rightarrow> Inl err
      | Inr credits \<Rightarrow>
          if sint credits \<le> 0 \<or> meas_EnvironmentID measurement = [] \<or> meas_ResourceID measurement = []
          then Inl DebitIncomplete
          else newCreditTransaction txID userID TransactionDebit (- credits) idempotencyKey
                 \<lparr>use_ResourceType = rate_resourceType rate,
                  use_EnvironmentID = meas_EnvironmentID measurement,
                  use_ResourceID = meas_ResourceID measurement, use_Region = rate_region rate,
                  use_RawQuantity = meas_RawQuantity measurement, use_RawUnit = rate_rawUnit rate,
                  use_RateVersion = rate_version rate\<rparr>
                 occurredAt createdAt)"

section \<open>The balance\<close>

text \<open>
  The balance is changed in place; \<open>Apply\<close> returns the balance afterwards with the boolean or the
  error.  The maps are nil exactly in the zero value, which has no user.
\<close>

record credit_balance =
  bal_userID :: string
  bal_credits :: int64
  bal_version :: int64
  bal_updatedAt :: gotime
  bal_transactions :: "string \<rightharpoonup> credit_transaction"
  bal_transactionIDs :: "string \<rightharpoonup> string"

definition NewCreditBalance :: "string \<Rightarrow> billing_error + credit_balance" where
  "NewCreditBalance userID =
     (if userID = [] then Inl BalanceUserRequired
      else Inr \<lparr>bal_userID = userID, bal_credits = 0, bal_version = 0, bal_updatedAt = zero_time,
                bal_transactions = Map.empty, bal_transactionIDs = Map.empty\<rparr>)"

definition overflows :: "int64 \<Rightarrow> int64 \<Rightarrow> bool" where
  "overflows balance credits \<longleftrightarrow>
     0 < sint credits \<and> sint (max_int64 - credits) < sint balance
     \<or> sint credits < 0 \<and> sint balance < sint (min_int64 - credits)"

definition Apply ::
  "credit_balance \<Rightarrow> credit_transaction \<Rightarrow> credit_balance \<times> (billing_error + bool)" where
  "Apply b transaction =
     (if bal_userID b = [] then (b, Inl BalanceNotInitialized)
      else if tx_userID transaction \<noteq> bal_userID b then (b, Inl BalanceForeignUser)
      else case bal_transactions b (tx_idempotencyKey transaction) of
        Some existing \<Rightarrow>
          if existing = transaction then (b, Inr False) else (b, Inl ErrIdempotencyConflict)
      | None \<Rightarrow>
          if (case bal_transactionIDs b (tx_id transaction) of
                Some existingKey \<Rightarrow> existingKey \<noteq> tx_idempotencyKey transaction
              | None \<Rightarrow> False)
          then (b, Inl ErrTransactionIDConflict)
          else if overflows (bal_credits b) (tx_credits transaction) then (b, Inl BalanceOverflow)
          else (b\<lparr>bal_credits := bal_credits b + tx_credits transaction,
                  bal_version := bal_version b + 1, bal_updatedAt := tx_createdAt transaction,
                  bal_transactions := (bal_transactions b)(tx_idempotencyKey transaction \<mapsto> transaction),
                  bal_transactionIDs :=
                    (bal_transactionIDs b)(tx_id transaction \<mapsto> tx_idempotencyKey transaction)\<rparr>,
                Inr True))"

section \<open>The usage event\<close>

record credits_used_event =
  cue_externalCustomerID :: string
  cue_externalID :: string
  cue_timestamp :: gotime
  cue_Credits :: int64
  cue_ResourceType :: resource_type
  cue_EnvironmentID :: string
  cue_Region :: string
  cue_RawQuantity :: string
  cue_RawUnit :: string
  cue_RateVersion :: string

definition NewCreditsUsedEvent :: "credit_transaction \<Rightarrow> billing_error + credits_used_event" where
  "NewCreditsUsedEvent transaction =
     (if tx_kind transaction \<noteq> TransactionDebit then Inl EventNotDebit
      else let usage = tx_usage transaction in
        Inr \<lparr>cue_externalCustomerID = tx_userID transaction,
             cue_externalID = tx_idempotencyKey transaction,
             cue_timestamp = tx_occurredAt transaction, cue_Credits = - tx_credits transaction,
             cue_ResourceType = use_ResourceType usage, cue_EnvironmentID = use_EnvironmentID usage,
             cue_Region = use_Region usage, cue_RawQuantity = use_RawQuantity usage,
             cue_RawUnit = use_RawUnit usage, cue_RateVersion = use_RateVersion usage\<rparr>)"

section \<open>Exact conversion\<close>

lemma whole_int64_Some:
  assumes "whole_int64 q = Some w"
  shows "q = of_int (sint w)"
proof -
  obtain n d where nd: "quotient_of q = (n, d)" by (cases "quotient_of q")
  with assms have d: "d = 1" and range: "- 9223372036854775808 \<le> n" "n \<le> 9223372036854775807"
    and w: "w = word_of_int n"
    by (auto simp: whole_int64_def Let_def split: if_splits)
  have "sint w = n"
    unfolding w using range by (simp add: sint_sbintrunc' signed_take_bit_int_eq_self)
  with quotient_of_div [OF nd] d show ?thesis by simp
qed

lemma rat_of_decimal_nonneg: "0 \<le> rat_of_decimal s"
  by (simp add: rat_of_decimal_def Let_def)

lemma Convert_exact:
  assumes "Convert r q = Inr credits"
  obtains perUnit where "rate_creditsPerUnit r = Some perUnit" and "matches decimalPattern q"
    and "of_int (sint credits) = rat_of_decimal q * perUnit"
  using assms by (auto simp: Convert_def parseDecimal_def dest: whole_int64_Some
      split: option.splits sum.splits if_splits)

lemma sint_diff_exact:
  assumes "- 9223372036854775808 \<le> sint (v :: int64) - sint w"
    and "sint v - sint w \<le> 9223372036854775807"
  shows "sint (v - w) = sint v - sint w"
proof -
  have "sint (v - w) = signed_take_bit 63 (sint v - sint w)"
    by (simp add: sint_word_ariths)
  also have "\<dots> = sint v - sint w"
    using assms by (intro signed_take_bit_int_eq_self) simp_all
  finally show ?thesis .
qed

lemma sint_uminus_positive: "0 < sint (c :: int64) \<Longrightarrow> sint (- c) = - sint c"
  using sint_diff_exact [of 0 c] sint_int64_bounds(2) [of c] by simp

text \<open>
  A debit charges exactly the measured quantity times the rate, as rational numbers, with no
  rounding and no wrap-around: the amount is a positive whole number of credits, the transaction
  carries its negation, and the usage event reported for it carries the amount itself, the key of
  the transaction and the raw quantity, unit and rate version it was computed from.
\<close>

lemma debit_charges_exactly:
  assumes "NewDebit txID userID key measurement rate occurredAt createdAt = Inr tx"
  shows "\<exists>perUnit event. rate_creditsPerUnit rate = Some perUnit
    \<and> NewCreditsUsedEvent tx = Inr event
    \<and> of_int (sint (cue_Credits event)) = rat_of_decimal (meas_RawQuantity measurement) * perUnit
    \<and> 0 < sint (cue_Credits event) \<and> sint (tx_credits tx) = - sint (cue_Credits event)
    \<and> cue_externalID event = key \<and> cue_RawQuantity event = meas_RawQuantity measurement
    \<and> cue_RawUnit event = rate_rawUnit rate \<and> cue_RateVersion event = rate_version rate"
proof -
  from assms obtain credits where credits: "Convert rate (meas_RawQuantity measurement) = Inr credits"
    and pos: "0 < sint credits"
    by (auto simp: NewDebit_def split: sum.splits if_splits)
  with assms have tx: "tx_kind tx = TransactionDebit" "tx_credits tx = - credits"
    "tx_idempotencyKey tx = key"
    "use_RawQuantity (tx_usage tx) = meas_RawQuantity measurement"
    "use_RawUnit (tx_usage tx) = rate_rawUnit rate" "use_RateVersion (tx_usage tx) = rate_version rate"
    by (auto simp: NewDebit_def newCreditTransaction_def split: if_splits)
  show ?thesis
    by (rule Convert_exact [OF credits])
      (use tx pos in \<open>auto simp: NewCreditsUsedEvent_def Let_def sint_uminus_positive\<close>)
qed

definition sample_rate :: credit_rate where
  "sample_rate =
     \<lparr>rate_version = ''v1'', rate_resourceType = ResourceCompute, rate_region = ''eu'',
      rate_preset = ''small'', rate_rawUnit = ''hour'', rate_creditsPerUnit = Some (5 / 2),
      rate_creditsText = ''2.5'', rate_effectiveAt = \<lparr>wall = 1, loc = UTC\<rparr>\<rparr>"

definition sample_debit :: credit_transaction where
  "sample_debit =
     \<lparr>tx_id = ''tx-1'', tx_userID = ''user-1'', tx_kind = TransactionDebit, tx_credits = - 10,
      tx_idempotencyKey = ''key-1'',
      tx_usage = \<lparr>use_ResourceType = ResourceCompute, use_EnvironmentID = ''env-1'',
        use_ResourceID = ''rt-1'', use_Region = ''eu'', use_RawQuantity = ''4.0'',
        use_RawUnit = ''hour'', use_RateVersion = ''v1''\<rparr>,
      tx_occurredAt = \<lparr>wall = 3, loc = UTC\<rparr>, tx_createdAt = \<lparr>wall = 4, loc = UTC\<rparr>\<rparr>"

lemma sample_quantity_matches: "matches decimalPattern ''4.0''"
  by (simp add: decimalPattern_def digits_def optional_def)

lemma whole_int64_ten: "whole_int64 (10 :: rat) = Some 10"
  by (simp add: whole_int64_def)

lemma sample_quantity_value: "rat_of_decimal ''4.0'' = 4"
  by (simp add: rat_of_decimal_def digits_value_def digit_value_def)

lemma sample_debit_created:
  "NewDebit ''tx-1'' ''user-1'' ''key-1''
     \<lparr>meas_EnvironmentID = ''env-1'', meas_ResourceID = ''rt-1'', meas_RawQuantity = ''4.0''\<rparr>
     sample_rate \<lparr>wall = 3, loc = UTC\<rparr> \<lparr>wall = 4, loc = UTC\<rparr> = Inr sample_debit"
proof -
  have "Convert sample_rate ''4.0'' = Inr 10"
    unfolding Convert_def parseDecimal_def
    by (simp add: sample_rate_def sample_quantity_matches sample_quantity_value whole_int64_ten
        del: matches.simps)
  then show ?thesis
    by (simp add: NewDebit_def newCreditTransaction_def go_time)
      (simp add: sample_rate_def sample_debit_def utc_def)
qed

section \<open>The ledger\<close>

text \<open>Applying transactions one after another, with those that were accepted, in order.\<close>

fun run_apply :: "credit_balance \<Rightarrow> credit_transaction list \<Rightarrow> credit_balance \<times> credit_transaction list" where
  "run_apply b [] = (b, [])"
| "run_apply b (tx # txs) =
     (case Apply b tx of
        (b', Inr True) \<Rightarrow> let (b'', accepted) = run_apply b' txs in (b'', tx # accepted)
      | (b', _) \<Rightarrow> run_apply b' txs)"

lemma overflows_exact: "\<not> overflows b c \<Longrightarrow> sint (b + c) = sint b + sint c"
proof -
  assume no: "\<not> overflows b c"
  have up: "sint b + sint c \<le> 9223372036854775807"
  proof (cases "0 < sint c")
    case True
    then have "sint (max_int64 - c) = 9223372036854775807 - sint c"
      using sint_diff_exact [of max_int64 c] sint_int64_bounds(2) [of c] by (simp add: sint_max_int64)
    with no True show ?thesis by (auto simp: overflows_def)
  qed (use sint_int64_bounds(2) [of b] in simp)
  have down: "- 9223372036854775808 \<le> sint b + sint c"
  proof (cases "sint c < 0")
    case True
    then have "sint (min_int64 - c) = - 9223372036854775808 - sint c"
      using sint_diff_exact [of min_int64 c] sint_int64_bounds(1) [of c] by (simp add: sint_min_int64)
    with no True show ?thesis by (auto simp: overflows_def)
  qed (use sint_int64_bounds(1) [of b] in simp)
  from down up show ?thesis by (rule sint_add_exact)
qed

definition ledger :: "credit_balance \<Rightarrow> credit_transaction list \<Rightarrow> bool" where
  "ledger b accepted \<longleftrightarrow>
     sint (bal_credits b) = sum_list (map (\<lambda>tx. sint (tx_credits tx)) accepted)
     \<and> bal_version b = of_nat (length accepted)
     \<and> distinct (map tx_idempotencyKey accepted) \<and> distinct (map tx_id accepted)
     \<and> bal_transactions b = map_of (map (\<lambda>tx. (tx_idempotencyKey tx, tx)) accepted)
     \<and> bal_transactionIDs b = map_of (map (\<lambda>tx. (tx_id tx, tx_idempotencyKey tx)) accepted)
     \<and> bal_userID b \<noteq> [] \<and> (\<forall>tx \<in> set accepted. tx_userID tx = bal_userID b)"

lemma Apply_rejects: "Apply b tx = (b', r) \<Longrightarrow> r \<noteq> Inr True \<Longrightarrow> b' = b"
  by (auto simp: Apply_def split: if_splits option.splits)

lemma map_of_key_None:
  "map_of (map (\<lambda>tx. (f tx, g tx)) xs) k = None \<longleftrightarrow> k \<notin> f ` set xs"
  by (auto simp: map_of_eq_None_iff image_image)

lemma map_of_keyed:
  "distinct (map f xs) \<Longrightarrow> x \<in> set xs \<Longrightarrow> map_of (map (\<lambda>x. (f x, g x)) xs) (f x) = Some (g x)"
  by (induction xs) (auto simp: rev_image_eqI)

lemma Apply_accepts:
  assumes "ledger b accepted" and "Apply b tx = (b', Inr True)"
  shows "ledger b' (tx # accepted)"
proof -
  from assms(2) have new: "bal_transactions b (tx_idempotencyKey tx) = None"
    and sum: "\<not> overflows (bal_credits b) (tx_credits tx)"
    and user: "tx_userID tx = bal_userID b"
    and ids: "\<And>k. bal_transactionIDs b (tx_id tx) = Some k \<Longrightarrow> k = tx_idempotencyKey tx"
    and b': "b' = b\<lparr>bal_credits := bal_credits b + tx_credits tx,
                  bal_version := bal_version b + 1, bal_updatedAt := tx_createdAt tx,
                  bal_transactions := (bal_transactions b)(tx_idempotencyKey tx \<mapsto> tx),
                  bal_transactionIDs := (bal_transactionIDs b)(tx_id tx \<mapsto> tx_idempotencyKey tx)\<rparr>"
    by (auto simp: Apply_def split: if_splits option.splits)
  note base = assms(1) [unfolded ledger_def]
  have fresh: "tx_idempotencyKey tx \<notin> tx_idempotencyKey ` set accepted"
    using new base by (simp add: map_of_key_None)
  have "tx_id tx \<notin> tx_id ` set accepted"
  proof
    assume "tx_id tx \<in> tx_id ` set accepted"
    then obtain t where t: "t \<in> set accepted" "tx_id t = tx_id tx" by auto
    with base map_of_keyed [of tx_id accepted t tx_idempotencyKey]
    have "bal_transactionIDs b (tx_id tx) = Some (tx_idempotencyKey t)" by simp
    from ids [OF this] t fresh show False by (metis image_eqI)
  qed
  with base fresh user overflows_exact [OF sum] show ?thesis
    unfolding ledger_def b' by (auto simp: image_image)
qed

lemma ledger_replay:
  assumes "ledger b accepted" and "tx \<in> set accepted"
  shows "Apply b tx = (b, Inr False)"
proof -
  have "bal_transactions b (tx_idempotencyKey tx) = Some tx"
    using assms map_of_keyed [of tx_idempotencyKey accepted tx "\<lambda>tx. tx"] by (simp add: ledger_def)
  with assms show ?thesis by (auto simp: Apply_def ledger_def)
qed

lemma run_apply_ledger:
  "ledger b accepted \<Longrightarrow> run_apply b txs = (b', later) \<Longrightarrow> ledger b' (rev later @ accepted)"
proof (induction txs arbitrary: b accepted later)
  case (Cons tx txs)
  obtain b1 r where step: "Apply b tx = (b1, r)" by (cases "Apply b tx")
  show ?case
  proof (cases "r = Inr True")
    case True
    with step Cons.prems(2) obtain rest where rest: "run_apply b1 txs = (b', rest)" "later = tx # rest"
      by (auto simp: Let_def split: prod.splits)
    from Apply_accepts [OF Cons.prems(1)] step True have "ledger b1 (tx # accepted)" by simp
    from Cons.IH [OF this rest(1)] rest(2) show ?thesis by simp
  next
    case False
    with step Cons.prems(2) have "run_apply b1 txs = (b', later)"
      by (auto split: sum.splits bool.splits)
    with Apply_rejects [OF step False] Cons show ?thesis by blast
  qed
qed simp

lemma NewCreditBalance_ledger: "NewCreditBalance userID = Inr b \<Longrightarrow> ledger b []"
  by (auto simp: NewCreditBalance_def ledger_def split: if_splits)

text \<open>
  C34. Whatever transactions are applied to a new balance, in whatever order and however often, its
  credits are exactly the sum, as integers, of the transactions it accepted: no key and no
  transaction identity is counted twice, nothing wraps around, the version counts the accepted
  transactions, and applying an accepted transaction again changes nothing and is no error.
\<close>

theorem ledger_exact:
  assumes "NewCreditBalance userID = Inr b0" and "run_apply b0 txs = (b, accepted)"
  shows "sint (bal_credits b) = sum_list (map (\<lambda>tx. sint (tx_credits tx)) accepted)
    \<and> bal_version b = of_nat (length accepted)
    \<and> distinct (map tx_idempotencyKey accepted) \<and> distinct (map tx_id accepted)
    \<and> (\<forall>tx \<in> set accepted. tx_userID tx = bal_userID b \<and> Apply b tx = (b, Inr False))"
proof -
  have "ledger b (rev accepted)"
    using run_apply_ledger [OF NewCreditBalance_ledger [OF assms(1)] assms(2)] by simp
  then show ?thesis
    using ledger_replay [of b "rev accepted"]
    by (auto simp: ledger_def rev_map [symmetric] sum_list_rev)
qed

theorem ledger_exact_witness:
  "\<exists>b0 b accepted. NewCreditBalance ''user-1'' = Inr b0
     \<and> run_apply b0 [sample_debit, sample_debit] = (b, accepted)
     \<and> accepted = [sample_debit] \<and> sint (bal_credits b) = - 10"
proof -
  obtain b0 where b0: "NewCreditBalance ''user-1'' = Inr b0"
    by (simp add: NewCreditBalance_def)
  have run: "snd (run_apply b0 [sample_debit, sample_debit]) = [sample_debit]"
    using b0 by (auto simp: NewCreditBalance_def Apply_def sample_debit_def overflows_def min_int64_def
        max_int64_def)
  then obtain b where "run_apply b0 [sample_debit, sample_debit] = (b, [sample_debit])"
    by (metis prod.collapse)
  with ledger_exact [OF b0 this] b0 show ?thesis
    by (auto simp: sample_debit_def)
qed

end
