(* ===== verification/Json_Text.thy ===== *)
theory Json_Text
  imports Prelude
begin

text \<open>
  The syntax check of \<open>encoding/json\<close> that the domain calls: \<open>json.Valid\<close>, and whether
  \<open>json.Unmarshal\<close> into a \<open>map[string]json.RawMessage\<close> succeeds with a map that is not nil.  It
  is the byte automaton of the package's scanner, with the stack of open objects and arrays, which
  holds at most 10000 of them.
\<close>

datatype json_frame = ObjectKey | ObjectValue | ArrayValue

datatype json_state =
    BeginValue
  | BeginValueOrEmpty
  | BeginString
  | BeginStringOrEmpty
  | EndValue
  | EndTop
  | InString
  | InStringEsc
  | InStringHex nat
  | InNeg
  | InInteger
  | InZero
  | InDot
  | InFraction
  | InExponent
  | InExponentSign
  | InExponentDigits
  | InLiteral bytes

type_synonym json_scanner = "json_state \<times> json_frame list"

definition json_space :: "char \<Rightarrow> bool" where
  "json_space c \<longleftrightarrow> c \<in> {CHR 0x20, CHR 0x09, CHR 0x0D, CHR 0x0A}"

definition json_hex_digit :: "char \<Rightarrow> bool" where
  "json_hex_digit c \<longleftrightarrow> c \<in> set ''0123456789abcdefABCDEF''"

definition max_nesting :: nat where
  "max_nesting = 10000"

definition json_push :: "json_state \<Rightarrow> json_frame \<Rightarrow> json_frame list \<Rightarrow> json_scanner option" where
  "json_push state frame frames =
     (if length (frame # frames) \<le> max_nesting then Some (state, frame # frames) else None)"

text \<open>After the value in the innermost frame is closed: the end of the text, or the frame outside.\<close>

definition json_pop :: "json_frame list \<Rightarrow> json_scanner" where
  "json_pop frames = (if frames = [] then EndTop else EndValue, frames)"

fun json_end_value :: "json_frame list \<Rightarrow> char \<Rightarrow> json_scanner option" where
  "json_end_value [] c = (if json_space c then Some (EndTop, []) else None)"
| "json_end_value (ObjectKey # frames) c =
     (if json_space c then Some (EndValue, ObjectKey # frames)
      else if c = CHR '':'' then Some (BeginValue, ObjectValue # frames)
      else None)"
| "json_end_value (ObjectValue # frames) c =
     (if json_space c then Some (EndValue, ObjectValue # frames)
      else if c = CHR '','' then Some (BeginString, ObjectKey # frames)
      else if c = CHR ''}'' then Some (json_pop frames)
      else None)"
| "json_end_value (ArrayValue # frames) c =
     (if json_space c then Some (EndValue, ArrayValue # frames)
      else if c = CHR '','' then Some (BeginValue, ArrayValue # frames)
      else if c = CHR '']'' then Some (json_pop frames)
      else None)"

definition json_begin_value :: "json_frame list \<Rightarrow> char \<Rightarrow> json_scanner option" where
  "json_begin_value frames c =
     (if json_space c then Some (BeginValue, frames)
      else if c = CHR ''{'' then json_push BeginStringOrEmpty ObjectKey frames
      else if c = CHR ''['' then json_push BeginValueOrEmpty ArrayValue frames
      else if c = CHR 0x22 then Some (InString, frames)
      else if c = CHR ''-'' then Some (InNeg, frames)
      else if c = CHR ''0'' then Some (InZero, frames)
      else if c = CHR ''t'' then Some (InLiteral ''rue'', frames)
      else if c = CHR ''f'' then Some (InLiteral ''alse'', frames)
      else if c = CHR ''n'' then Some (InLiteral ''ull'', frames)
      else if is_digit c then Some (InInteger, frames)
      else None)"

definition json_begin_string :: "json_frame list \<Rightarrow> char \<Rightarrow> json_scanner option" where
  "json_begin_string frames c =
     (if json_space c then Some (BeginString, frames)
      else if c = CHR 0x22 then Some (InString, frames)
      else None)"

definition json_after_zero :: "json_frame list \<Rightarrow> char \<Rightarrow> json_scanner option" where
  "json_after_zero frames c =
     (if c = CHR ''.'' then Some (InDot, frames)
      else if c \<in> {CHR ''e'', CHR ''E''} then Some (InExponent, frames)
      else json_end_value frames c)"

definition json_exponent_sign :: "json_frame list \<Rightarrow> char \<Rightarrow> json_scanner option" where
  "json_exponent_sign frames c = (if is_digit c then Some (InExponentDigits, frames) else None)"

fun json_step :: "json_scanner \<Rightarrow> char \<Rightarrow> json_scanner option" where
  "json_step (BeginValue, frames) c = json_begin_value frames c"
| "json_step (BeginValueOrEmpty, frames) c =
     (if json_space c then Some (BeginValueOrEmpty, frames)
      else if c = CHR '']'' then json_end_value frames c
      else json_begin_value frames c)"
| "json_step (BeginString, frames) c = json_begin_string frames c"
| "json_step (BeginStringOrEmpty, frames) c =
     (if json_space c then Some (BeginStringOrEmpty, frames)
      else if c = CHR ''}'' then json_end_value (ObjectValue # tl frames) c
      else json_begin_string frames c)"
| "json_step (EndValue, frames) c = json_end_value frames c"
| "json_step (EndTop, frames) c = (if json_space c then Some (EndTop, frames) else None)"
| "json_step (InString, frames) c =
     (if c = CHR 0x22 then Some (EndValue, frames)
      else if c = CHR 0x5C then Some (InStringEsc, frames)
      else if of_char c < (0x20 :: nat) then None
      else Some (InString, frames))"
| "json_step (InStringEsc, frames) c =
     (if c \<in> set ''bfnrt/'' \<union> {CHR 0x5C, CHR 0x22} then Some (InString, frames)
      else if c = CHR ''u'' then Some (InStringHex 4, frames)
      else None)"
| "json_step (InStringHex n, frames) c =
     (if json_hex_digit c then Some (if n \<le> 1 then InString else InStringHex (n - 1), frames)
      else None)"
| "json_step (InNeg, frames) c =
     (if c = CHR ''0'' then Some (InZero, frames)
      else if is_digit c then Some (InInteger, frames)
      else None)"
| "json_step (InInteger, frames) c =
     (if is_digit c then Some (InInteger, frames) else json_after_zero frames c)"
| "json_step (InZero, frames) c = json_after_zero frames c"
| "json_step (InDot, frames) c = (if is_digit c then Some (InFraction, frames) else None)"
| "json_step (InFraction, frames) c =
     (if is_digit c then Some (InFraction, frames)
      else if c \<in> {CHR ''e'', CHR ''E''} then Some (InExponent, frames)
      else json_end_value frames c)"
| "json_step (InExponent, frames) c =
     (if c \<in> {CHR ''+'', CHR ''-''} then Some (InExponentSign, frames)
      else json_exponent_sign frames c)"
| "json_step (InExponentSign, frames) c = json_exponent_sign frames c"
| "json_step (InExponentDigits, frames) c =
     (if is_digit c then Some (InExponentDigits, frames) else json_end_value frames c)"
| "json_step (InLiteral [], frames) c = json_end_value frames c"
| "json_step (InLiteral (e # es), frames) c =
     (if c = e then Some (if es = [] then EndValue else InLiteral es, frames) else None)"

fun json_scan :: "json_scanner \<Rightarrow> bytes \<Rightarrow> json_scanner option" where
  "json_scan scanner [] = Some scanner"
| "json_scan scanner (c # s) =
     (case json_step scanner c of None \<Rightarrow> None | Some scanner' \<Rightarrow> json_scan scanner' s)"

text \<open>At the end of the input a space is fed, which ends a number or a literal at the top.\<close>

definition json_eof :: "json_scanner \<Rightarrow> bool" where
  "json_eof scanner \<longleftrightarrow>
     fst scanner = EndTop
     \<or> (case json_step scanner (CHR 0x20) of None \<Rightarrow> False | Some scanner' \<Rightarrow> fst scanner' = EndTop)"

definition json_Valid :: "bytes \<Rightarrow> bool" where
  "json_Valid s = (case json_scan (BeginValue, []) s of None \<Rightarrow> False | Some scanner \<Rightarrow> json_eof scanner)"

text \<open>
  Decoding into a map of raw messages fails on invalid text and on values that are not objects; the
  value \<open>null\<close> leaves the map nil.
\<close>

definition json_nonnil_object :: "bytes \<Rightarrow> bool" where
  "json_nonnil_object s \<longleftrightarrow>
     json_Valid s \<and> (case dropWhile json_space s of [] \<Rightarrow> False | c # _ \<Rightarrow> c = CHR ''{'')"

end
