(* ===== verification/Environment_States.thy ===== *)
theory Environment_States
  imports Environments Json_Text "HOL-Library.Multiset"
begin

text \<open>
  Environment State (\<open>libs/domain/environment_state.go\<close>): the four State Components every
  Environment has, the data volume behind them, their reservation during creation and their
  restoration from storage.
\<close>

section \<open>Data\<close>

datatype state_component_kind =
    StateWorkspace
  | StateHome
  | StateServices
  | StateCache
  | StateOtherKind string

datatype durability_class = DurabilityDurable | DurabilityDisposable | DurabilityOther string

record state_component_snapshot =
  sc_ID :: string
  sc_EnvironmentID :: string
  sc_Kind :: state_component_kind
  sc_Durability :: durability_class
  sc_MountPath :: string
  sc_BackendResourceID :: string
  sc_Health :: environment_health
  sc_ObservedDigest :: "string option"
  sc_CreatedAt :: gotime
  sc_UpdatedAt :: gotime

record data_volume_resource_snapshot =
  dv_ID :: string
  dv_EnvironmentID :: string
  dv_OperationID :: string
  dv_Provider :: string
  dv_Region :: string
  dv_ProviderID :: string
  dv_Metadata :: bytes
  dv_CreatedAt :: gotime
  dv_DeletedAt :: "gotime option"

record environment_state_reservation =
  esr_WorkspaceID :: string
  esr_HomeID :: string
  esr_ServicesID :: string
  esr_CacheID :: string
  esr_BackendResourceID :: string
  esr_Provider :: string
  esr_ProviderID :: string
  esr_Metadata :: bytes
  esr_CreatedAt :: gotime

record environment_state =
  st_environment :: environment
  st_components :: "state_component_snapshot list"
  st_backend :: data_volume_resource_snapshot

datatype environment_state_error =
    StateEnvironmentNotCreating
  | StateOperationForeign
  | StateOperationTerminal
  | StateIdentityNotCanonical
  | StateIdentityDuplicate
  | StateBackendNotCanonical
  | StateProviderNotCanonical
  | StateTimeOrMetadataInvalid
  | StateEnvironmentDeleted
  | StateVolumeInvalid
  | StateComponentInvalid
  | StateComponentIdentityDuplicated
  | StateComponentKindDuplicated
  | StateComponentSetNotExact

section \<open>The policy of the components\<close>

record state_component_policy =
  scp_kind :: state_component_kind
  scp_durability :: durability_class
  scp_mountPath :: string
  scp_reservationID :: "environment_state_reservation \<Rightarrow> string"

definition stateComponentPolicies :: "state_component_policy list" where
  "stateComponentPolicies =
     [\<lparr>scp_kind = StateWorkspace, scp_durability = DurabilityDurable,
       scp_mountPath = ''/workspace'', scp_reservationID = esr_WorkspaceID\<rparr>,
      \<lparr>scp_kind = StateHome, scp_durability = DurabilityDurable,
       scp_mountPath = ''/home/dev'', scp_reservationID = esr_HomeID\<rparr>,
      \<lparr>scp_kind = StateServices, scp_durability = DurabilityDurable,
       scp_mountPath = ''/var/lib/docker'', scp_reservationID = esr_ServicesID\<rparr>,
      \<lparr>scp_kind = StateCache, scp_durability = DurabilityDisposable,
       scp_mountPath = ''/var/cache/devm'', scp_reservationID = esr_CacheID\<rparr>]"

fun find_policy ::
  "state_component_kind \<Rightarrow> state_component_policy list \<Rightarrow> state_component_policy option" where
  "find_policy kind [] = None"
| "find_policy kind (policy # policies) =
     (if scp_kind policy = kind then Some policy else find_policy kind policies)"

definition stateComponentPolicyFor :: "state_component_kind \<Rightarrow> state_component_policy option" where
  "stateComponentPolicyFor kind = find_policy kind stateComponentPolicies"

definition newStateComponent ::
  "string \<Rightarrow> string \<Rightarrow> state_component_policy \<Rightarrow> string \<Rightarrow> gotime \<Rightarrow> state_component_snapshot" where
  "newStateComponent componentID environmentID policy backendID createdAt =
     \<lparr>sc_ID = componentID, sc_EnvironmentID = environmentID, sc_Kind = scp_kind policy,
      sc_Durability = scp_durability policy, sc_MountPath = scp_mountPath policy,
      sc_BackendResourceID = backendID, sc_Health = EnvironmentHealthUnknown,
      sc_ObservedDigest = None, sc_CreatedAt = createdAt, sc_UpdatedAt = createdAt\<rparr>"

section \<open>Restoring\<close>

definition not_canonical :: "string \<Rightarrow> bool" where
  "not_canonical v \<longleftrightarrow> v = [] \<or> untrimmed v"

definition volume_ok :: "environment \<Rightarrow> operation \<Rightarrow> data_volume_resource_snapshot \<Rightarrow> bool" where
  "volume_ok environment operation backend \<longleftrightarrow>
     \<not> (not_canonical (dv_ID backend)
        \<or> dv_EnvironmentID backend \<noteq> env_ID environment \<or> dv_Region backend \<noteq> env_Region environment
        \<or> not_canonical (dv_Provider backend) \<or> not_canonical (dv_ProviderID backend)
        \<or> dv_OperationID backend \<noteq> op_ID operation
        \<or> is_zero (dv_CreatedAt backend) \<or> before (dv_CreatedAt backend) (env_CreatedAt environment)
        \<or> dv_DeletedAt backend \<noteq> None
        \<or> \<not> json_nonnil_object (dv_Metadata backend))"

definition state_component_ok ::
  "environment \<Rightarrow> data_volume_resource_snapshot \<Rightarrow> state_component_snapshot \<Rightarrow> bool" where
  "state_component_ok environment backend component =
     (case stateComponentPolicyFor (sc_Kind component) of
        None \<Rightarrow> False
      | Some policy \<Rightarrow>
          \<not> (not_canonical (sc_ID component)
             \<or> sc_EnvironmentID component \<noteq> env_ID environment
             \<or> sc_BackendResourceID component \<noteq> dv_ID backend
             \<or> sc_Durability component \<noteq> scp_durability policy
             \<or> sc_MountPath component \<noteq> scp_mountPath policy
             \<or> \<not> environment_health_valid (sc_Health component)
             \<or> is_zero (sc_CreatedAt component)
             \<or> before (sc_UpdatedAt component) (sc_CreatedAt component)
             \<or> before (sc_CreatedAt component) (env_CreatedAt environment)
             \<or> (case sc_ObservedDigest component of
                  None \<Rightarrow> False | Some digest \<Rightarrow> \<not> contentDigestPattern digest)))"

text \<open>The loop over the stored components: the identities seen and the components by kind.\<close>

fun collect_components ::
  "environment \<Rightarrow> data_volume_resource_snapshot \<Rightarrow> string set
   \<Rightarrow> (state_component_kind \<rightharpoonup> state_component_snapshot) \<Rightarrow> state_component_snapshot list
   \<Rightarrow> environment_state_error + (state_component_kind \<rightharpoonup> state_component_snapshot)" where
  "collect_components environment backend identities byKind [] = Inr byKind"
| "collect_components environment backend identities byKind (component # components) =
     (if \<not> state_component_ok environment backend component then Inl StateComponentInvalid
      else if sc_ID component \<in> identities then Inl StateComponentIdentityDuplicated
      else if byKind (sc_Kind component) \<noteq> None then Inl StateComponentKindDuplicated
      else collect_components environment backend (insert (sc_ID component) identities)
             (byKind(sc_Kind component \<mapsto> component)) components)"

fun order_components ::
  "(state_component_kind \<rightharpoonup> state_component_snapshot) \<Rightarrow> state_component_policy list
   \<Rightarrow> state_component_snapshot list option" where
  "order_components byKind [] = Some []"
| "order_components byKind (policy # policies) =
     (case byKind (scp_kind policy) of
        None \<Rightarrow> None
      | Some component \<Rightarrow> map_option (\<lambda>rest. component # rest) (order_components byKind policies))"

definition restoreEnvironmentState ::
  "environment \<Rightarrow> operation \<Rightarrow> state_component_snapshot list \<Rightarrow> data_volume_resource_snapshot
   \<Rightarrow> environment_state_error + environment_state" where
  "restoreEnvironmentState environment operation components backend =
     (if env_Lifecycle environment = EnvironmentDeleted then Inl StateEnvironmentDeleted
      else if op_EnvironmentID operation \<noteq> env_ID environment
              \<or> op_RequestedByUserID operation \<noteq> env_OwnerUserID environment
              \<or> op_Type operation \<noteq> OperationEnvironmentCreate
      then Inl StateOperationForeign
      else if \<not> volume_ok environment operation backend then Inl StateVolumeInvalid
      else case collect_components environment backend {dv_ID backend} Map.empty components of
        Inl err \<Rightarrow> Inl err
      | Inr byKind \<Rightarrow>
          (case order_components byKind stateComponentPolicies of
             None \<Rightarrow> Inl StateComponentSetNotExact
           | Some ordered \<Rightarrow>
               Inr \<lparr>st_environment = environment, st_components = ordered, st_backend = backend\<rparr>))"

definition RestoreEnvironmentState ::
  "environment \<Rightarrow> operation \<Rightarrow> state_component_snapshot list \<Rightarrow> data_volume_resource_snapshot
   \<Rightarrow> environment_state_error + environment_state" where
  "RestoreEnvironmentState environment operation components backend =
     restoreEnvironmentState environment operation components backend"

section \<open>Reserving\<close>

fun check_identities ::
  "environment_state_reservation \<Rightarrow> string set \<Rightarrow> state_component_policy list
   \<Rightarrow> environment_state_error option" where
  "check_identities reservation seen [] = None"
| "check_identities reservation seen (policy # policies) =
     (let val = scp_reservationID policy reservation in
      if not_canonical val then Some StateIdentityNotCanonical
      else if val \<in> seen then Some StateIdentityDuplicate
      else check_identities reservation (insert val seen) policies)"

definition ReserveEnvironmentState ::
  "environment \<Rightarrow> operation \<Rightarrow> environment_state_reservation
   \<Rightarrow> environment_state_error + environment_state" where
  "ReserveEnvironmentState environment operation reservation =
     (if env_Lifecycle environment \<noteq> EnvironmentCreating then Inl StateEnvironmentNotCreating
      else if op_EnvironmentID operation \<noteq> env_ID environment
              \<or> op_RequestedByUserID operation \<noteq> env_OwnerUserID environment
              \<or> op_Type operation \<noteq> OperationEnvironmentCreate
      then Inl StateOperationForeign
      else if op_Status operation \<noteq> OperationQueued \<and> op_Status operation \<noteq> OperationRunning
      then Inl StateOperationTerminal
      else case check_identities reservation {esr_BackendResourceID reservation} stateComponentPolicies of
        Some err \<Rightarrow> Inl err
      | None \<Rightarrow>
          if not_canonical (esr_BackendResourceID reservation) then Inl StateBackendNotCanonical
          else if not_canonical (esr_Provider reservation) \<or> not_canonical (esr_ProviderID reservation)
          then Inl StateProviderNotCanonical
          else if is_zero (esr_CreatedAt reservation)
                  \<or> before (esr_CreatedAt reservation) (env_UpdatedAt environment)
                  \<or> \<not> json_Valid (esr_Metadata reservation)
          then Inl StateTimeOrMetadataInvalid
          else
            let createdAt = utc (esr_CreatedAt reservation);
                backend =
                  \<lparr>dv_ID = esr_BackendResourceID reservation, dv_EnvironmentID = env_ID environment,
                   dv_OperationID = op_ID operation, dv_Provider = esr_Provider reservation,
                   dv_Region = env_Region environment, dv_ProviderID = esr_ProviderID reservation,
                   dv_Metadata = esr_Metadata reservation, dv_CreatedAt = createdAt,
                   dv_DeletedAt = None\<rparr>;
                components =
                  map (\<lambda>policy. newStateComponent (scp_reservationID policy reservation)
                         (env_ID environment) policy (dv_ID backend) createdAt)
                    stateComponentPolicies
            in restoreEnvironmentState environment operation components backend)"

section \<open>Reading\<close>

definition state_Components :: "environment_state \<Rightarrow> state_component_snapshot list" where
  "state_Components state = st_components state"

definition state_Backend :: "environment_state \<Rightarrow> data_volume_resource_snapshot" where
  "state_Backend state =
     (st_backend state)\<lparr>dv_DeletedAt := map_option utc (dv_DeletedAt (st_backend state))\<rparr>"

definition DataVolumeProviderID :: "environment_state \<Rightarrow> string" where
  "DataVolumeProviderID state = dv_ProviderID (st_backend state)"

section \<open>Facts\<close>

definition by_kind ::
  "state_component_snapshot list \<Rightarrow> state_component_kind \<rightharpoonup> state_component_snapshot" where
  "by_kind components = map_of (map (\<lambda>c. (sc_Kind c, c)) components)"

lemma by_kind_Some_iff:
  "distinct (map sc_Kind components) \<Longrightarrow>
     by_kind components k = Some c \<longleftrightarrow> c \<in> set components \<and> sc_Kind c = k"
  by (auto simp: by_kind_def comp_def intro!: map_of_is_SomeI dest!: map_of_SomeD)

lemma collect_components_Inr_iff:
  "collect_components environment backend identities byKind components = Inr byKind' \<longleftrightarrow>
     list_all (state_component_ok environment backend) components
     \<and> distinct (map sc_ID components) \<and> sc_ID ` set components \<inter> identities = {}
     \<and> distinct (map sc_Kind components) \<and> (\<forall>c \<in> set components. byKind (sc_Kind c) = None)
     \<and> byKind' = fold (\<lambda>c m. m(sc_Kind c \<mapsto> c)) components byKind"
proof (induction components arbitrary: identities byKind)
  case (Cons c cs)
  have "(\<forall>d \<in> set cs. (byKind(sc_Kind c \<mapsto> c)) (sc_Kind d) = None) \<longleftrightarrow>
      sc_Kind c \<notin> sc_Kind ` set cs \<and> (\<forall>d \<in> set cs. byKind (sc_Kind d) = None)"
    by (auto, metis image_eqI)
  with Cons.IH [of "insert (sc_ID c) identities" "byKind(sc_Kind c \<mapsto> c)"] show ?case
    by (simp del: fun_upd_apply) blast
qed auto

lemma fold_by_kind:
  "distinct (map sc_Kind components) \<Longrightarrow>
     fold (\<lambda>c m. m(sc_Kind c \<mapsto> c)) components m = m ++ by_kind components"
proof (induction components arbitrary: m)
  case (Cons c cs)
  then have "by_kind cs (sc_Kind c) = None"
    by (auto simp: by_kind_def map_of_eq_None_iff image_image)
  with Cons show ?case
    by (simp add: by_kind_def map_add_def fun_eq_iff split: option.split)
qed (simp add: by_kind_def)

lemma order_components_Some_iff:
  "order_components byKind policies = Some ordered \<longleftrightarrow>
     map (byKind \<circ> scp_kind) policies = map Some ordered"
  by (induction policies arbitrary: ordered) (auto split: option.splits)

text \<open>What the guards before the loop ask.\<close>

definition state_guard :: "environment \<Rightarrow> operation \<Rightarrow> data_volume_resource_snapshot \<Rightarrow> bool" where
  "state_guard environment operation backend \<longleftrightarrow>
     env_Lifecycle environment \<noteq> EnvironmentDeleted \<and> op_EnvironmentID operation = env_ID environment
     \<and> op_RequestedByUserID operation = env_OwnerUserID environment
     \<and> op_Type operation = OperationEnvironmentCreate \<and> volume_ok environment operation backend"

lemma restore_Inr_iff:
  "restoreEnvironmentState environment operation components backend = Inr st \<longleftrightarrow>
     state_guard environment operation backend
     \<and> list_all (state_component_ok environment backend) components
     \<and> distinct (dv_ID backend # map sc_ID components) \<and> distinct (map sc_Kind components)
     \<and> map (by_kind components \<circ> scp_kind) stateComponentPolicies = map Some (st_components st)
     \<and> st_environment st = environment \<and> st_backend st = backend"
  (is "?lhs \<longleftrightarrow> ?rhs")
proof -
  let ?collect = "collect_components environment backend {dv_ID backend} Map.empty components"
  have collect: "?collect = Inr m \<longleftrightarrow>
      list_all (state_component_ok environment backend) components
      \<and> distinct (dv_ID backend # map sc_ID components) \<and> distinct (map sc_Kind components)
      \<and> m = by_kind components" for m
    by (auto simp: collect_components_Inr_iff fold_by_kind)
  have "?lhs \<longleftrightarrow> state_guard environment operation backend
      \<and> (\<exists>m. ?collect = Inr m \<and> order_components m stateComponentPolicies = Some (st_components st))
      \<and> st_environment st = environment \<and> st_backend st = backend"
    by (cases st) (auto simp: restoreEnvironmentState_def state_guard_def
        split: if_splits sum.splits option.splits)
  then show ?thesis
    unfolding collect order_components_Some_iff by auto
qed

lemma state_component_ok_kind:
  "state_component_ok environment backend c \<Longrightarrow> sc_Kind c \<in> set (map scp_kind stateComponentPolicies)"
  by (auto simp: state_component_ok_def stateComponentPolicyFor_def stateComponentPolicies_def
      split: option.splits if_splits)

lemma by_kind_mset:
  assumes "mset a = mset b" and "distinct (map sc_Kind a)"
  shows "by_kind a = by_kind b"
proof -
  have "distinct (map sc_Kind b)" and "set a = set b"
    using assms by (metis mset_map mset_eq_imp_distinct_iff, metis set_mset_mset)
  with assms(2) have "by_kind a k = Some c \<longleftrightarrow> by_kind b k = Some c" for k c
    by (simp add: by_kind_Some_iff)
  then show ?thesis by (metis option.exhaust ext)
qed

lemma ordered_permutes:
  assumes "list_all (state_component_ok environment backend) components"
    and "distinct (map sc_Kind components)"
    and "map (by_kind components \<circ> scp_kind) stateComponentPolicies = map Some ordered"
  shows "mset ordered = mset components \<and> map sc_Kind ordered = map scp_kind stateComponentPolicies"
proof -
  have pick: "by_kind components (scp_kind p) = Some c"
    if "(p, c) \<in> set (zip stateComponentPolicies ordered)" for p c
  proof -
    from that obtain i where "i < length ordered" "p = stateComponentPolicies ! i" "c = ordered ! i"
      "i < length stateComponentPolicies"
      by (auto simp: set_zip)
    then show ?thesis using arg_cong [OF assms(3), of "\<lambda>xs. xs ! i"] by simp
  qed
  have len: "length ordered = length stateComponentPolicies"
    using arg_cong [OF assms(3), of length] by simp
  have kinds: "map sc_Kind ordered = map scp_kind stateComponentPolicies"
    using pick len by (intro nth_equalityI) (auto simp: set_zip by_kind_Some_iff [OF assms(2)])
  have "set ordered \<subseteq> set components"
    using pick len by (force simp: in_set_conv_nth set_zip by_kind_Some_iff [OF assms(2)])
  moreover have "c \<in> set ordered" if "c \<in> set components" for c
  proof -
    have "sc_Kind c \<in> set (map sc_Kind ordered)"
      unfolding kinds using assms(1) that state_component_ok_kind by (auto simp: list_all_iff)
    then obtain d where "d \<in> set ordered" "sc_Kind d = sc_Kind c" by auto
    with calculation that assms(2) show ?thesis by (metis distinct_map inj_onD subsetD)
  qed
  ultimately have "set ordered = set components" by blast
  moreover have "distinct ordered"
  proof -
    have "distinct (map sc_Kind ordered)"
      unfolding kinds by (simp add: stateComponentPolicies_def)
    then show ?thesis by (simp add: distinct_map)
  qed
  moreover have "distinct components"
    using assms(2) by (simp add: distinct_map)
  ultimately show ?thesis
    using kinds by (simp add: set_eq_iff_mset_eq_distinct)
qed

section \<open>The state is exactly the four components\<close>

lemma policies_of_kinds:
  assumes "list_all (state_component_ok environment backend) ordered"
    and "map sc_Kind ordered = map scp_kind stateComponentPolicies"
  shows "map (\<lambda>c. (sc_Kind c, sc_Durability c, sc_MountPath c)) ordered =
    map (\<lambda>p. (scp_kind p, scp_durability p, scp_mountPath p)) stateComponentPolicies"
  using assms
  by (auto simp: stateComponentPolicies_def Cons_eq_map_conv map_eq_Cons_conv state_component_ok_def
      stateComponentPolicyFor_def)

lemma mset_same:
  assumes "mset xs = mset ys"
  shows "list_all ok xs = list_all ok ys" and "distinct (map f xs) = distinct (map f ys)"
    and "set (map f xs) = set (map f ys)"
  using assms by (metis list_all_iff set_mset_mset, metis mset_map mset_eq_imp_distinct_iff,
      metis mset_map set_mset_mset)

text \<open>
  Restoring gives exactly the four State Components, in the order of the policies: durable
  workspace, home and services and a disposable cache at their fixed mount paths, all of them the
  stored ones, with identities distinct from each other and from the data volume.  The order they
  were stored in does not matter: from any reordering of what the State shows, the same State is
  restored.
\<close>

lemma environment_state_restored:
  assumes "RestoreEnvironmentState environment operation components backend = Inr st"
  shows "map (\<lambda>c. (sc_Kind c, sc_Durability c, sc_MountPath c)) (state_Components st) =
      [(StateWorkspace, DurabilityDurable, ''/workspace''),
       (StateHome, DurabilityDurable, ''/home/dev''),
       (StateServices, DurabilityDurable, ''/var/lib/docker''),
       (StateCache, DurabilityDisposable, ''/var/cache/devm'')]
    \<and> mset (state_Components st) = mset components
    \<and> distinct (dv_ID (state_Backend st) # map sc_ID (state_Components st))
    \<and> (\<forall>stored. mset stored = mset (state_Components st) \<longrightarrow>
         RestoreEnvironmentState environment operation stored (state_Backend st) = Inr st)"
proof -
  note restored = assms [unfolded RestoreEnvironmentState_def restore_Inr_iff]
  have backend: "state_Backend st = backend"
    using restored by (simp add: state_Backend_def state_guard_def volume_ok_def)
  from restored ordered_permutes
  have perm: "mset (st_components st) = mset components"
    and kinds: "map sc_Kind (st_components st) = map scp_kind stateComponentPolicies" by blast+
  have "list_all (state_component_ok environment backend) (st_components st)"
    using restored mset_same(1) [OF perm] by blast
  note table = policies_of_kinds [OF this kinds]
  have "RestoreEnvironmentState environment operation stored backend = Inr st"
    if "mset stored = mset (st_components st)" for stored
  proof -
    from that perm have stored: "mset stored = mset components" by simp
    have "by_kind stored = by_kind components"
      using by_kind_mset [OF stored [symmetric]] restored by simp
    then show ?thesis
      unfolding RestoreEnvironmentState_def restore_Inr_iff
      using restored mset_same(1) [OF stored] mset_same(2,3) [OF stored, of sc_ID]
        mset_same(2) [OF stored, of sc_Kind]
      by simp
  qed
  moreover have "distinct (dv_ID backend # map sc_ID (st_components st))"
    using restored mset_same(2,3) [OF perm, of sc_ID] by simp
  ultimately show ?thesis
    using table perm unfolding backend state_Components_def
    by (simp add: stateComponentPolicies_def)
qed

section \<open>When a reservation is accepted\<close>

definition reserved_ids :: "environment_state_reservation \<Rightarrow> string list" where
  "reserved_ids reservation =
     [esr_BackendResourceID reservation, esr_WorkspaceID reservation, esr_HomeID reservation,
      esr_ServicesID reservation, esr_CacheID reservation]"

lemma check_identities_None_iff:
  "check_identities reservation seen policies = None \<longleftrightarrow>
     (\<forall>p \<in> set policies. \<not> not_canonical (scp_reservationID p reservation))
     \<and> distinct (map (\<lambda>p. scp_reservationID p reservation) policies)
     \<and> (\<forall>p \<in> set policies. scp_reservationID p reservation \<notin> seen)"
  by (induction policies arbitrary: seen) (auto simp: Let_def image_iff)

lemma check_reserved_iff:
  "check_identities reservation {esr_BackendResourceID reservation} stateComponentPolicies = None
     \<and> \<not> not_canonical (esr_BackendResourceID reservation) \<longleftrightarrow>
   (\<forall>v \<in> set (reserved_ids reservation). \<not> not_canonical v) \<and> distinct (reserved_ids reservation)"
  unfolding check_identities_None_iff by (auto simp: stateComponentPolicies_def reserved_ids_def)

definition reserved_backend ::
  "environment \<Rightarrow> operation \<Rightarrow> environment_state_reservation \<Rightarrow> data_volume_resource_snapshot" where
  "reserved_backend environment operation reservation =
     \<lparr>dv_ID = esr_BackendResourceID reservation, dv_EnvironmentID = env_ID environment,
      dv_OperationID = op_ID operation, dv_Provider = esr_Provider reservation,
      dv_Region = env_Region environment, dv_ProviderID = esr_ProviderID reservation,
      dv_Metadata = esr_Metadata reservation, dv_CreatedAt = utc (esr_CreatedAt reservation),
      dv_DeletedAt = None\<rparr>"

definition reserved_components ::
  "environment \<Rightarrow> environment_state_reservation \<Rightarrow> state_component_snapshot list" where
  "reserved_components environment reservation =
     map (\<lambda>policy. newStateComponent (scp_reservationID policy reservation) (env_ID environment)
            policy (esr_BackendResourceID reservation) (utc (esr_CreatedAt reservation)))
       stateComponentPolicies"

lemma restore_reserved_iff:
  assumes "\<forall>v \<in> set (reserved_ids reservation). \<not> not_canonical v"
    and "distinct (reserved_ids reservation)"
    and "\<not> is_zero (esr_CreatedAt reservation)"
    and "\<not> before (esr_CreatedAt reservation) (env_CreatedAt environment)"
  shows "restoreEnvironmentState environment operation
      (reserved_components environment reservation)
      (reserved_backend environment operation reservation) = Inr st \<longleftrightarrow>
    state_guard environment operation (reserved_backend environment operation reservation)
    \<and> st = \<lparr>st_environment = environment, st_components = reserved_components environment reservation,
            st_backend = reserved_backend environment operation reservation\<rparr>"
proof -
  let ?cs = "reserved_components environment reservation"
  let ?b = "reserved_backend environment operation reservation"
  have "list_all (state_component_ok environment ?b) ?cs"
    using assms by (simp add: reserved_components_def stateComponentPolicies_def reserved_ids_def
        state_component_ok_def newStateComponent_def stateComponentPolicyFor_def reserved_backend_def)
  moreover have "distinct (dv_ID ?b # map sc_ID ?cs)"
    using assms(2) by (auto simp: reserved_components_def stateComponentPolicies_def
        reserved_ids_def newStateComponent_def reserved_backend_def)
  moreover have "distinct (map sc_Kind ?cs)"
    and "map (by_kind ?cs \<circ> scp_kind) stateComponentPolicies = map Some ?cs"
    by (simp_all add: reserved_components_def stateComponentPolicies_def newStateComponent_def by_kind_def)
  ultimately show ?thesis
    unfolding restore_Inr_iff by (cases st) auto
qed

definition reservation_ok :: "environment \<Rightarrow> operation \<Rightarrow> environment_state_reservation \<Rightarrow> bool" where
  "reservation_ok environment operation reservation \<longleftrightarrow>
     env_Lifecycle environment = EnvironmentCreating
     \<and> op_EnvironmentID operation = env_ID environment
     \<and> op_RequestedByUserID operation = env_OwnerUserID environment
     \<and> op_Type operation = OperationEnvironmentCreate
     \<and> op_Status operation \<in> {OperationQueued, OperationRunning}
     \<and> list_all (\<lambda>v. \<not> not_canonical v)
         (esr_Provider reservation # esr_ProviderID reservation # reserved_ids reservation)
     \<and> distinct (reserved_ids reservation)
     \<and> \<not> is_zero (esr_CreatedAt reservation)
     \<and> \<not> before (esr_CreatedAt reservation) (env_UpdatedAt environment)
     \<and> json_nonnil_object (esr_Metadata reservation)"

lemma Reserve_Inr_iff:
  "ReserveEnvironmentState environment operation reservation = Inr st \<longleftrightarrow>
     env_Lifecycle environment = EnvironmentCreating
     \<and> op_Status operation \<in> {OperationQueued, OperationRunning}
     \<and> (\<forall>v \<in> set (reserved_ids reservation). \<not> not_canonical v) \<and> distinct (reserved_ids reservation)
     \<and> \<not> is_zero (esr_CreatedAt reservation)
     \<and> \<not> before (esr_CreatedAt reservation) (env_UpdatedAt environment)
     \<and> restoreEnvironmentState environment operation (reserved_components environment reservation)
         (reserved_backend environment operation reservation) = Inr st"
proof -
  have guards: "state_guard environment operation (reserved_backend environment operation reservation)"
    if "restoreEnvironmentState environment operation (reserved_components environment reservation)
         (reserved_backend environment operation reservation) = Inr st"
    using that by (simp add: restore_Inr_iff)
  show ?thesis
    using guards check_reserved_iff [of reservation]
    by (auto simp: ReserveEnvironmentState_def Let_def reserved_components_def reserved_backend_def
        state_guard_def volume_ok_def json_nonnil_object_def split: option.splits if_splits)
qed

lemma Reserve_iff_ok:
  assumes "environment_valid environment"
  shows "ReserveEnvironmentState environment operation reservation = Inr st \<longleftrightarrow>
    reservation_ok environment operation reservation
    \<and> st = \<lparr>st_environment = environment, st_components = reserved_components environment reservation,
            st_backend = reserved_backend environment operation reservation\<rparr>"
proof -
  have "\<not> before (env_UpdatedAt environment) (env_CreatedAt environment)"
    using assms by (auto simp: environment_valid_def validateEnvironmentSnapshot_def
        split: option.splits if_splits)
  then have created: "\<not> before (esr_CreatedAt reservation) (env_CreatedAt environment)"
    if "\<not> before (esr_CreatedAt reservation) (env_UpdatedAt environment)"
    using that not_before_trans by blast
  have guard: "state_guard environment operation (reserved_backend environment operation reservation)
    \<longleftrightarrow> env_Lifecycle environment \<noteq> EnvironmentDeleted
     \<and> op_EnvironmentID operation = env_ID environment
     \<and> op_RequestedByUserID operation = env_OwnerUserID environment
     \<and> op_Type operation = OperationEnvironmentCreate
     \<and> \<not> not_canonical (esr_BackendResourceID reservation)
     \<and> \<not> not_canonical (esr_Provider reservation) \<and> \<not> not_canonical (esr_ProviderID reservation)
     \<and> \<not> is_zero (esr_CreatedAt reservation)
     \<and> \<not> before (esr_CreatedAt reservation) (env_CreatedAt environment)
     \<and> json_nonnil_object (esr_Metadata reservation)"
    by (auto simp: state_guard_def volume_ok_def reserved_backend_def)
  show ?thesis
    unfolding Reserve_Inr_iff reservation_ok_def
    using created restore_reserved_iff [of reservation environment operation st] guard
    by (auto simp: list_all_iff) (simp_all add: reserved_ids_def)
qed

text \<open>
  A reservation of State is accepted exactly when the Environment is still being created, its
  creation Operation belongs to its owner and has not ended, the five identities and the provider
  names are canonical and the identities distinct, the time is not before the Environment's last
  update, and the metadata is a JSON object (\<open>reservation_ok\<close>).  The State then holds the four
  reserved components with unknown health, and it is restored from what it shows.
\<close>

lemma reserve_state_accepts_iff:
  assumes "environment_reachable environment"
  shows "((\<exists>st. ReserveEnvironmentState environment operation reservation = Inr st) \<longleftrightarrow>
      reservation_ok environment operation reservation)
    \<and> (\<forall>st. ReserveEnvironmentState environment operation reservation = Inr st \<longrightarrow>
      map sc_ID (state_Components st) = tl (reserved_ids reservation)
      \<and> map sc_Health (state_Components st) = replicate 4 EnvironmentHealthUnknown
      \<and> RestoreEnvironmentState environment operation (state_Components st) (state_Backend st) = Inr st)"
proof -
  have valid: "environment_valid environment"
    using assms by (rule environment_reachable_valid)
  have "map sc_ID (state_Components st) = tl (reserved_ids reservation)
      \<and> map sc_Health (state_Components st) = replicate 4 EnvironmentHealthUnknown
      \<and> RestoreEnvironmentState environment operation (state_Components st) (state_Backend st) = Inr st"
    if "ReserveEnvironmentState environment operation reservation = Inr st" for st
  proof -
    from that have st: "st = \<lparr>st_environment = environment,
        st_components = reserved_components environment reservation,
        st_backend = reserved_backend environment operation reservation\<rparr>"
      unfolding Reserve_iff_ok [OF valid] by blast
    have "state_Backend st = reserved_backend environment operation reservation"
      by (simp add: st state_Backend_def reserved_backend_def)
    with that show ?thesis
      unfolding Reserve_Inr_iff RestoreEnvironmentState_def state_Components_def
      by (simp add: st reserved_components_def newStateComponent_def stateComponentPolicies_def
          reserved_ids_def numeral_eq_Suc)
  qed
  then show ?thesis
    using Reserve_iff_ok [OF valid] by blast
qed

definition sample_state_reservation :: environment_state_reservation where
  "sample_state_reservation =
     \<lparr>esr_WorkspaceID = ''w'', esr_HomeID = ''h'', esr_ServicesID = ''s'', esr_CacheID = ''c'',
      esr_BackendResourceID = ''b'', esr_Provider = ''aws'', esr_ProviderID = ''vol-1'',
      esr_Metadata = ''{}'', esr_CreatedAt = \<lparr>wall = 6, loc = UTC\<rparr>\<rparr>"

definition sample_create_operation :: operation where
  "sample_create_operation =
     sample_operation\<lparr>op_EnvironmentID := ''env-1'', op_RequestedByUserID := ''user-1'',
       op_Type := OperationEnvironmentCreate\<rparr>"

lemma empty_object_nonnil: "json_nonnil_object ''{}''"
  by (simp add: json_nonnil_object_def json_Valid_def json_begin_value_def json_space_def
      json_push_def max_nesting_def json_pop_def json_eof_def)

lemma sample_reservation_ok: "reservation_ok sample_environment sample_create_operation sample_state_reservation"
  by (simp add: reservation_ok_def sample_environment_def sample_create_operation_def
      sample_operation_def sample_state_reservation_def reserved_ids_def not_canonical_def go_time
      empty_object_nonnil)

end
