(* ===== verification/Runtime_Operations.thy ===== *)
theory Runtime_Operations
  imports Environments
begin

text \<open>
  The admission of Runtime commands (\<open>libs/domain/environment_runtime_operation.go\<close>): an
  Operation that starts, stops or replaces the Runtime of an Environment, or applies a Profile to it,
  together with the Environment and the Runtime it targets.
\<close>

section \<open>Admission\<close>

record environment_runtime_operation =
  cmd_environment :: environment
  cmd_runtime :: runtime
  cmd_operation :: operation

datatype runtime_operation_error =
    CommandRuntimeForeign
  | CommandOperationForeign
  | CommandTypeRefused
  | CommandEnvironmentNotActive
  | CommandRuntimeNotCurrent
  | CommandStatusRefused

text \<open>The last three errors wrap \<open>ErrRuntimeCommandState\<close>.\<close>

fun runtime_command_state :: "runtime_operation_error \<Rightarrow> bool" where
  "runtime_command_state CommandEnvironmentNotActive = True"
| "runtime_command_state CommandRuntimeNotCurrent = True"
| "runtime_command_state CommandStatusRefused = True"
| "runtime_command_state _ = False"

definition runtimeCommand :: "operation_type \<Rightarrow> bool" where
  "runtimeCommand operationType \<longleftrightarrow>
     operationType = OperationRuntimeStart \<or> operationType = OperationRuntimeStop
     \<or> operationType = OperationRuntimeReplace \<or> operationType = OperationProfileApply"

fun acceptsRuntimeState :: "operation_type \<Rightarrow> runtime_status \<Rightarrow> operation_status \<Rightarrow> bool" where
  "acceptsRuntimeState OperationRuntimeStart runtimeStatus operationStatus \<longleftrightarrow>
     runtimeStatus = RuntimeReady \<or> runtimeStatus = RuntimeStopped
     \<or> runtimeStatus = RuntimeStarting \<and> operationStatus = OperationRunning"
| "acceptsRuntimeState OperationRuntimeStop runtimeStatus operationStatus \<longleftrightarrow>
     runtimeStatus = RuntimeReady \<or> runtimeStatus = RuntimeStopped
     \<or> runtimeStatus = RuntimeStopping \<and> operationStatus = OperationRunning"
| "acceptsRuntimeState OperationRuntimeReplace runtimeStatus operationStatus \<longleftrightarrow>
     runtimeStatus = RuntimeReady \<or> runtimeStatus = RuntimeStopped \<or> runtimeStatus = RuntimeError
     \<or> runtimeStatus = RuntimeReplacing \<and> operationStatus = OperationRunning"
| "acceptsRuntimeState OperationProfileApply runtimeStatus operationStatus \<longleftrightarrow>
     runtimeStatus = RuntimeReady"
| "acceptsRuntimeState _ runtimeStatus operationStatus \<longleftrightarrow> False"

definition restoreEnvironmentRuntimeOperation ::
  "environment \<Rightarrow> runtime \<Rightarrow> operation \<Rightarrow> runtime_operation_error + environment_runtime_operation" where
  "restoreEnvironmentRuntimeOperation environment rt operation =
     (if validateRuntimeOwnership environment (cloneRuntimeSnapshot rt) \<noteq> None
      then Inl CommandRuntimeForeign
      else if op_EnvironmentID operation \<noteq> env_ID environment
              \<or> op_RequestedByUserID operation \<noteq> env_OwnerUserID environment
      then Inl CommandOperationForeign
      else if \<not> runtimeCommand (op_Type operation) then Inl CommandTypeRefused
      else Inr \<lparr>cmd_environment = environment, cmd_runtime = rt, cmd_operation = operation\<rparr>)"

definition RestoreEnvironmentRuntimeOperation ::
  "environment \<Rightarrow> runtime \<Rightarrow> operation \<Rightarrow> runtime_operation_error + environment_runtime_operation" where
  "RestoreEnvironmentRuntimeOperation environment rt operation =
     restoreEnvironmentRuntimeOperation environment rt operation"

definition NewEnvironmentRuntimeOperation ::
  "environment \<Rightarrow> runtime \<Rightarrow> operation \<Rightarrow> runtime_operation_error + environment_runtime_operation" where
  "NewEnvironmentRuntimeOperation environment rt operation =
     (case restoreEnvironmentRuntimeOperation environment rt operation of
        Inl err \<Rightarrow> Inl err
      | Inr command \<Rightarrow>
          let runtimeSnapshot = cloneRuntimeSnapshot rt in
          if env_Lifecycle environment \<noteq> EnvironmentActive then Inl CommandEnvironmentNotActive
          else if env_CurrentRuntimeID environment \<noteq> Some (rt_ID runtimeSnapshot)
          then Inl CommandRuntimeNotCurrent
          else if \<not> acceptsRuntimeState (op_Type operation) (rt_Status runtimeSnapshot) (op_Status operation)
          then Inl CommandStatusRefused
          else Inr command)"

section \<open>Facts\<close>

definition belongs :: "environment \<Rightarrow> runtime \<Rightarrow> bool" where
  "belongs environment rt \<longleftrightarrow>
     rt_EnvironmentID rt = env_ID environment \<and> rt_Region rt = env_Region environment
     \<and> rt_AvailabilityZone rt = env_AvailabilityZone environment
     \<and> rt_RuntimePreset rt = env_RuntimePreset environment"

lemma restoreOperation_Inr_iff:
  "restoreEnvironmentRuntimeOperation environment rt operation = Inr command \<longleftrightarrow>
     belongs environment rt \<and> op_EnvironmentID operation = env_ID environment
     \<and> op_RequestedByUserID operation = env_OwnerUserID environment \<and> runtimeCommand (op_Type operation)
     \<and> command = \<lparr>cmd_environment = environment, cmd_runtime = rt, cmd_operation = operation\<rparr>"
  by (auto simp: restoreEnvironmentRuntimeOperation_def belongs_def validateRuntimeOwnership_def
      split: if_splits)

lemma NewOperation_Inr_iff:
  "NewEnvironmentRuntimeOperation environment rt operation = Inr command \<longleftrightarrow>
     restoreEnvironmentRuntimeOperation environment rt operation = Inr command
     \<and> env_Lifecycle environment = EnvironmentActive \<and> env_CurrentRuntimeID environment = Some (rt_ID rt)
     \<and> acceptsRuntimeState (op_Type operation) (rt_Status rt) (op_Status operation)"
  by (auto simp: NewEnvironmentRuntimeOperation_def Let_def split: sum.splits if_splits)

lemma BeginReplacement_arrives:
  assumes "runtime_valid rt" and "rt_Status rt \<in> {RuntimeReady, RuntimeStopped, RuntimeError}"
    and "rt_ProviderInstanceRef rt \<noteq> None" and "time_ok rt at" and "rt_Version rt \<noteq> max_int64"
  shows "arrives rt (BeginReplacement rt at) at RuntimeReplacing"
proof -
  let ?nxt = "(cloneRuntimeSnapshot rt)\<lparr>rt_Status := RuntimeReplacing, rt_PrivateAddress := None,
                rt_BootID := None\<rparr>"
  have "provider_ok rt"
    using state_of_valid [OF assms(1)] assms(3)
    by (auto simp: validateRuntimeState_def provider_ok_def Let_def present_def split: if_splits)
  then have "validateRuntimeState ?nxt = None"
    using assms(2) runtime_valid_unretired [OF assms(1)]
    by (auto simp: validateRuntimeState_def provider_ok_def present_def)
  then have "arrives rt (finalizeRuntimeTransition ?nxt at) at (rt_Status ?nxt)"
    using assms by (intro finalize_arrives) (auto simp: arrival_facts)
  then show ?thesis
    using assms by (auto simp: BeginReplacement_def arrival_facts)
qed

definition accepted_with :: "runtime_error + runtime \<Rightarrow> runtime_status set \<Rightarrow> bool" where
  "accepted_with r statuses \<longleftrightarrow> (case r of Inl err \<Rightarrow> False | Inr rt' \<Rightarrow> rt_Status rt' \<in> statuses)"

lemma arrives_accepted: "arrives rt r at status \<Longrightarrow> status \<in> statuses \<Longrightarrow> accepted_with r statuses"
  by (auto simp: arrives_def accepted_with_def)

lemma begin_idempotent:
  assumes "runtime_valid rt" and "time_ok rt at"
  shows "rt_Status rt = RuntimeStarting \<Longrightarrow> BeginStart rt at = Inr rt"
    and "rt_Status rt \<in> {RuntimeStopping, RuntimeStopped} \<Longrightarrow> BeginStop rt at = Inr rt"
    and "rt_Status rt = RuntimeReplacing \<Longrightarrow> BeginReplacement rt at = Inr rt"
  using assms
  by (auto simp: BeginStart_def BeginStop_def BeginReplacement_def runtime_transition_enabled)

section \<open>Properties\<close>

text \<open>
  Admission and the Runtime's own state machine agree.  For an admitted command, at a time not
  before the Runtime's last update and with a version left, the first transition of its workflow is
  accepted: a stop leaves the Runtime stopping or stopped, a start of a Runtime that is not already
  ready leaves it starting, a replacement of a Runtime that has a provider instance leaves it
  replacing, and a Profile is applied to a ready Runtime.
\<close>

lemma admitted_command_applies:
  assumes "NewEnvironmentRuntimeOperation environment rt operation = Inr command"
    and "runtime_reachable rt" and "time_ok rt at" and "rt_Version rt \<noteq> max_int64"
  shows "case op_Type (cmd_operation command) of
      OperationRuntimeStop \<Rightarrow> accepted_with (BeginStop rt at) {RuntimeStopping, RuntimeStopped}
    | OperationRuntimeStart \<Rightarrow>
        rt_Status rt = RuntimeReady \<or> accepted_with (BeginStart rt at) {RuntimeStarting}
    | OperationRuntimeReplace \<Rightarrow>
        rt_ProviderInstanceRef rt = None \<or> accepted_with (BeginReplacement rt at) {RuntimeReplacing}
    | OperationProfileApply \<Rightarrow> rt_Status rt = RuntimeReady
    | _ \<Rightarrow> False"
proof -
  note valid = runtime_reachable_valid [OF assms(2)]
  have command: "cmd_operation command = operation" "runtimeCommand (op_Type operation)"
    and accepts: "acceptsRuntimeState (op_Type operation) (rt_Status rt) (op_Status operation)"
    using assms(1) by (auto simp: NewOperation_Inr_iff restoreOperation_Inr_iff)
  note same = begin_idempotent [OF valid assms(3)]
  show ?thesis
    using command accepts
    by (cases "op_Type operation")
      (auto simp: runtimeCommand_def accepted_with_def [of "Inr rt"] same
        intro: arrives_accepted [OF BeginStop_arrives [OF valid _ assms(3,4)]]
          arrives_accepted [OF BeginStart_arrives [OF valid _ assms(3,4)]]
          arrives_accepted [OF BeginReplacement_arrives [OF valid _ _ assms(3,4)]])
qed

text \<open>Operations, too, keep what identifies them.\<close>

lemma operation_step_identity:
  "operation_step operation operation' \<Longrightarrow>
     op_ID operation' = op_ID operation \<and> op_EnvironmentID operation' = op_EnvironmentID operation
     \<and> op_Type operation' = op_Type operation
     \<and> op_RequestedByUserID operation' = op_RequestedByUserID operation"
  by (induction rule: operation_step.induct) (auto simp: operation_defs split: if_splits option.splits)

lemma operation_steps_identity:
  "operation_step\<^sup>*\<^sup>* operation operation' \<Longrightarrow>
     op_ID operation' = op_ID operation \<and> op_EnvironmentID operation' = op_EnvironmentID operation
     \<and> op_Type operation' = op_Type operation
     \<and> op_RequestedByUserID operation' = op_RequestedByUserID operation"
  by (induction rule: rtranclp_induct) (auto dest: operation_step_identity)

text \<open>
  A reserved Runtime command can always be replayed: whatever commands the Environment and the
  Runtime have gone through since and however far the Operation has got, even to the Environment's
  deletion or the Runtime's retirement, restoring it with the current states succeeds and returns the
  same Operation.
\<close>

lemma reserved_command_replays:
  assumes "NewEnvironmentRuntimeOperation environment rt operation = Inr command"
    and "operation_step\<^sup>*\<^sup>* operation operation'"
  shows "\<exists>command'. RestoreEnvironmentRuntimeOperation
      (run_commands apply_environment environment cs) (run_commands apply_runtime rt ds) operation'
      = Inr command' \<and> op_ID (cmd_operation command') = op_ID (cmd_operation command)
      \<and> op_Type (cmd_operation command') = op_Type (cmd_operation command)"
proof -
  have "belongs (run_commands apply_environment environment cs) (run_commands apply_runtime rt ds)
      = belongs environment rt"
    and "env_ID (run_commands apply_environment environment cs) = env_ID environment"
    and "env_OwnerUserID (run_commands apply_environment environment cs) = env_OwnerUserID environment"
    using environment_agg.run_ident [of environment cs] runtime_agg.run_ident [of rt ds]
    by (simp_all add: environment_identity_def runtime_identity_def belongs_def)
  then show ?thesis
    using assms(1) operation_steps_identity [OF assms(2)]
    unfolding RestoreEnvironmentRuntimeOperation_def
    by (auto simp: NewOperation_Inr_iff restoreOperation_Inr_iff)
qed

section \<open>A concrete command\<close>

definition active_environment :: environment where
  "active_environment =
     sample_environment\<lparr>env_Lifecycle := EnvironmentActive,
       env_CurrentRuntimeID := Some (rt_ID ready_runtime)\<rparr>"

definition stop_operation :: operation where
  "stop_operation =
     sample_operation\<lparr>op_EnvironmentID := ''env-1'', op_RequestedByUserID := ''user-1'',
       op_Type := OperationRuntimeStop\<rparr>"

lemma stop_admitted:
  "NewEnvironmentRuntimeOperation active_environment ready_runtime stop_operation =
     Inr \<lparr>cmd_environment = active_environment, cmd_runtime = ready_runtime, cmd_operation = stop_operation\<rparr>"
  by (simp add: NewOperation_Inr_iff restoreOperation_Inr_iff belongs_def active_environment_def
      ready_runtime_def sample_runtime_def stop_operation_def sample_environment_def runtimeCommand_def)

end
