(* ===== verification/Profiles.thy ===== *)
theory Profiles
  imports Capsule_Locks "HOL-Library.Multiset"
begin

text \<open>
  Profiles and their published versions (\<open>libs/domain/profile.go\<close>): the ordered Capsule Refs of a
  version, its digest of record, and publication on top of the head the publisher has seen.
\<close>

section \<open>Data\<close>

datatype freshness_policy =
    FreshnessTrack
  | FreshnessReview
  | FreshnessPin
  | FreshnessOther string

fun freshness_policy_string :: "freshness_policy \<Rightarrow> string" where
  "freshness_policy_string FreshnessTrack = ''track''"
| "freshness_policy_string FreshnessReview = ''review''"
| "freshness_policy_string FreshnessPin = ''pin''"
| "freshness_policy_string (FreshnessOther s) = s"

fun freshness_policy_Valid :: "freshness_policy \<Rightarrow> bool" where
  "freshness_policy_Valid (FreshnessOther s) = False"
| "freshness_policy_Valid _ = True"

record capsule_ref =
  cref_Ref :: string
  cref_FreshnessPolicy :: freshness_policy
  cref_Exclusions :: "string list"

record profile_snapshot =
  prof_ID :: string
  prof_OwnerUserID :: string
  prof_Name :: string
  prof_Slug :: string
  prof_CreatedAt :: gotime
  prof_ArchivedAt :: "gotime option"

type_synonym profile = profile_snapshot

record profile_version_snapshot =
  pv_ID :: string
  pv_ProfileID :: string
  pv_ParentVersionID :: "string option"
  pv_Version :: int64
  pv_Digest :: string
  pv_CapsuleRefs :: "capsule_ref list"
  pv_CreatedAt :: gotime

type_synonym profile_version = profile_version_snapshot

record profile_version_publication =
  pub_ID :: string
  pub_Digest :: string
  pub_CapsuleRefs :: "capsule_ref list"
  pub_CreatedAt :: gotime

datatype profile_error =
    ProfileFieldsRequired
  | ProfileCreationTimeRequired
  | ProfileArchiveBeforeCreation
  | ProfileArchived
  | ErrStaleProfileHead
  | ProfileHeadForeign
  | VersionFieldsRequired
  | VersionDigestInvalid
  | VersionCreationTimeRequired
  | VersionRefReferenceInvalid nat
  | VersionRefFreshnessInvalid nat
  | VersionRefExclusionEmpty nat
  | VersionRefDuplicate string
  | VersionParentEmpty
  | VersionFirstHasParent
  | VersionParentRequired
  | VersionParentsItself

section \<open>The digest of record\<close>

definition canonicalProfileVersionCapsuleRef :: "capsule_ref \<Rightarrow> bytes" where
  "canonicalProfileVersionCapsuleRef ref =
     json_object
       [(''ref'', json_string (cref_Ref ref)),
        (''freshnessPolicy'', json_string (freshness_policy_string (cref_FreshnessPolicy ref))),
        (''exclusions'', json_array (map json_string (sort (cref_Exclusions ref))))]"

definition canonicalProfileVersion :: "capsule_ref list \<Rightarrow> bytes" where
  "canonicalProfileVersion refs = json_array (map canonicalProfileVersionCapsuleRef refs)"

definition ComputeProfileVersionDigest :: "capsule_ref list \<Rightarrow> string" where
  "ComputeProfileVersionDigest refs = sha256_digest (canonicalProfileVersion refs)"

section \<open>Profiles\<close>

definition CreateProfile :: "profile_snapshot \<Rightarrow> profile_error + profile" where
  "CreateProfile snapshot =
     (if blank (prof_ID snapshot) \<or> blank (prof_OwnerUserID snapshot)
         \<or> blank (prof_Name snapshot) \<or> blank (prof_Slug snapshot)
      then Inl ProfileFieldsRequired
      else if is_zero (prof_CreatedAt snapshot) then Inl ProfileCreationTimeRequired
      else if (case prof_ArchivedAt snapshot of
                 None \<Rightarrow> False | Some archivedAt \<Rightarrow> before archivedAt (prof_CreatedAt snapshot))
      then Inl ProfileArchiveBeforeCreation
      else Inr (snapshot\<lparr>prof_CreatedAt := utc (prof_CreatedAt snapshot),
                         prof_ArchivedAt := map_option utc (prof_ArchivedAt snapshot)\<rparr>))"

definition profile_Snapshot :: "profile \<Rightarrow> profile_snapshot" where
  "profile_Snapshot profile = profile\<lparr>prof_ArchivedAt := map_option utc (prof_ArchivedAt profile)\<rparr>"

section \<open>Capsule Refs\<close>

definition validateCapsuleRef :: "nat \<Rightarrow> capsule_ref \<Rightarrow> profile_error option" where
  "validateCapsuleRef index ref =
     (if blank (cref_Ref ref) \<or> untrimmed (cref_Ref ref)
         \<or> \<not> matches registryCapsuleRefPattern (cref_Ref ref)
      then Some (VersionRefReferenceInvalid index)
      else if \<not> freshness_policy_Valid (cref_FreshnessPolicy ref)
      then Some (VersionRefFreshnessInvalid index)
      else if list_ex blank (cref_Exclusions ref) then Some (VersionRefExclusionEmpty index)
      else None)"

fun check_refs :: "string set \<Rightarrow> nat \<Rightarrow> capsule_ref list \<Rightarrow> profile_error option" where
  "check_refs seenRefs index [] = None"
| "check_refs seenRefs index (ref # refs) =
     (case validateCapsuleRef index ref of
        Some err \<Rightarrow> Some err
      | None \<Rightarrow>
          if cref_Ref ref \<in> seenRefs then Some (VersionRefDuplicate (cref_Ref ref))
          else check_refs (insert (cref_Ref ref) seenRefs) (Suc index) refs)"

definition ValidateCapsuleRefs :: "capsule_ref list \<Rightarrow> profile_error option" where
  "ValidateCapsuleRefs refs = check_refs {} 0 refs"

section \<open>Publication\<close>

definition publishProfileVersion :: "profile_version_snapshot \<Rightarrow> profile_error + profile_version" where
  "publishProfileVersion snapshot =
     (if blank (pv_ID snapshot) \<or> blank (pv_ProfileID snapshot) \<or> sint (pv_Version snapshot) < 1
      then Inl VersionFieldsRequired
      else if \<not> contentDigestPattern (pv_Digest snapshot) then Inl VersionDigestInvalid
      else if is_zero (pv_CreatedAt snapshot) then Inl VersionCreationTimeRequired
      else case ValidateCapsuleRefs (pv_CapsuleRefs snapshot) of
        Some err \<Rightarrow> Inl err
      | None \<Rightarrow>
          if (case pv_ParentVersionID snapshot of None \<Rightarrow> False | Some parent \<Rightarrow> blank parent)
          then Inl VersionParentEmpty
          else if pv_Version snapshot = 1 \<and> pv_ParentVersionID snapshot \<noteq> None
          then Inl VersionFirstHasParent
          else if sint (pv_Version snapshot) > 1 \<and> pv_ParentVersionID snapshot = None
          then Inl VersionParentRequired
          else if pv_ParentVersionID snapshot = Some (pv_ID snapshot) then Inl VersionParentsItself
          else Inr (snapshot\<lparr>pv_CreatedAt := utc (pv_CreatedAt snapshot)\<rparr>))"

definition RestoreProfileVersion :: "profile_version_snapshot \<Rightarrow> profile_error + profile_version" where
  "RestoreProfileVersion snapshot = publishProfileVersion snapshot"

definition PublishVersion ::
  "profile \<Rightarrow> profile_version option \<Rightarrow> string option \<Rightarrow> profile_version_publication
   \<Rightarrow> profile_error + profile_version" where
  "PublishVersion profile head expectedHeadVersionID publication =
     (let profileSnapshot = profile_Snapshot profile;
          publish = (\<lambda>parent version. publishProfileVersion
            \<lparr>pv_ID = pub_ID publication, pv_ProfileID = prof_ID profileSnapshot,
             pv_ParentVersionID = parent, pv_Version = version, pv_Digest = pub_Digest publication,
             pv_CapsuleRefs = pub_CapsuleRefs publication, pv_CreatedAt = pub_CreatedAt publication\<rparr>)
      in
      if prof_ArchivedAt profileSnapshot \<noteq> None then Inl ProfileArchived
      else case head of
        None \<Rightarrow>
          if expectedHeadVersionID \<noteq> None then Inl ErrStaleProfileHead else publish None 1
      | Some headSnapshot \<Rightarrow>
          if pv_ProfileID headSnapshot \<noteq> prof_ID profileSnapshot then Inl ProfileHeadForeign
          else if expectedHeadVersionID \<noteq> Some (pv_ID headSnapshot) then Inl ErrStaleProfileHead
          else publish (Some (pv_ID headSnapshot)) (pv_Version headSnapshot + 1))"

section \<open>Facts\<close>

lemma publishProfileVersion_Inr:
  assumes "publishProfileVersion snapshot = Inr v"
  shows "v = snapshot\<lparr>pv_CreatedAt := utc (pv_CreatedAt snapshot)\<rparr>"
    and "RestoreProfileVersion v = Inr v" and "1 \<le> sint (pv_Version v)"
    and "ValidateCapsuleRefs (pv_CapsuleRefs v) = None"
    and "pv_ParentVersionID v \<noteq> Some (pv_ID v)"
proof -
  show v: "v = snapshot\<lparr>pv_CreatedAt := utc (pv_CreatedAt snapshot)\<rparr>"
    using assms by (auto simp: publishProfileVersion_def split: if_splits option.splits)
  show "RestoreProfileVersion v = Inr v"
    using assms unfolding v RestoreProfileVersion_def
    by (auto simp: publishProfileVersion_def split: if_splits option.splits)
  show "1 \<le> sint (pv_Version v)" "ValidateCapsuleRefs (pv_CapsuleRefs v) = None"
    "pv_ParentVersionID v \<noteq> Some (pv_ID v)"
    using assms unfolding v
    by (auto simp: publishProfileVersion_def split: if_splits option.splits)
qed

lemma check_refs_None_iff:
  "check_refs seen index refs = None \<longleftrightarrow>
     (\<forall>ref \<in> set refs. matches registryCapsuleRefPattern (cref_Ref ref) \<and> \<not> blank (cref_Ref ref)
        \<and> \<not> untrimmed (cref_Ref ref) \<and> freshness_policy_Valid (cref_FreshnessPolicy ref)
        \<and> \<not> list_ex blank (cref_Exclusions ref))
     \<and> distinct (map cref_Ref refs) \<and> cref_Ref ` set refs \<inter> seen = {}"
proof (induction refs arbitrary: seen index)
  case (Cons ref refs)
  show ?case
  proof (cases "validateCapsuleRef index ref")
    case None
    then have "matches registryCapsuleRefPattern (cref_Ref ref) \<and> \<not> blank (cref_Ref ref)
        \<and> \<not> untrimmed (cref_Ref ref) \<and> freshness_policy_Valid (cref_FreshnessPolicy ref)
        \<and> \<not> list_ex blank (cref_Exclusions ref)"
      by (auto simp: validateCapsuleRef_def split: if_splits)
    with None show ?thesis by (auto simp: Cons.IH simp del: matches.simps)
  next
    case (Some err)
    then show ?thesis by (auto simp: validateCapsuleRef_def split: if_splits)
  qed
qed simp

text \<open>Publishing one version after another, each on the head the previous publication left.\<close>

fun publish_all ::
  "profile \<Rightarrow> profile_version option \<Rightarrow> profile_version_publication list
   \<Rightarrow> profile_error + profile_version list" where
  "publish_all profile head [] = Inr []"
| "publish_all profile head (publication # publications) =
     (case PublishVersion profile head (map_option pv_ID head) publication of
        Inl err \<Rightarrow> Inl err
      | Inr v \<Rightarrow>
          (case publish_all profile (Some v) publications of
             Inl err \<Rightarrow> Inl err
           | Inr vs \<Rightarrow> Inr (v # vs)))"

lemma PublishVersion_Inr:
  assumes "PublishVersion profile head expected publication = Inr v"
  shows "expected = map_option pv_ID head" and "pv_ProfileID v = prof_ID profile"
    and "pv_ParentVersionID v = map_option pv_ID head"
    and "pv_Version v = (case head of None \<Rightarrow> 1 | Some h \<Rightarrow> pv_Version h + 1)"
    and "RestoreProfileVersion v = Inr v" and "1 \<le> sint (pv_Version v)"
    and "ValidateCapsuleRefs (pv_CapsuleRefs v) = None"
    and "pv_ID v = pub_ID publication" and "pv_Digest v = pub_Digest publication"
    and "pv_CapsuleRefs v = pub_CapsuleRefs publication"
  using assms
  by (auto simp: PublishVersion_def Let_def profile_Snapshot_def split: if_splits option.splits
      dest: publishProfileVersion_Inr)

lemma next_version_exact:
  assumes "1 \<le> sint (v :: int64)" and "1 \<le> sint (v + 1)"
  shows "sint (v + 1) = sint v + 1"
proof (rule sint_succ)
  show "v \<noteq> max_int64"
    using assms(2) sint_succ_max by auto
qed

text \<open>What a version is, published on top of \<open>head\<close>.\<close>

definition follows :: "profile \<Rightarrow> profile_version option \<Rightarrow> profile_version \<Rightarrow> bool" where
  "follows profile head v \<longleftrightarrow>
     pv_ProfileID v = prof_ID profile \<and> pv_ParentVersionID v = map_option pv_ID head
     \<and> sint (pv_Version v) = (case head of None \<Rightarrow> 1 | Some h \<Rightarrow> sint (pv_Version h) + 1)
     \<and> RestoreProfileVersion v = Inr v \<and> distinct (map cref_Ref (pv_CapsuleRefs v))
     \<and> (\<forall>ref \<in> set (pv_CapsuleRefs v). matches registryCapsuleRefPattern (cref_Ref ref))"

fun history :: "profile \<Rightarrow> profile_version option \<Rightarrow> profile_version list \<Rightarrow> bool" where
  "history profile head [] = True"
| "history profile head (v # vs) = (follows profile head v \<and> history profile (Some v) vs)"

lemma publish_follows:
  assumes "PublishVersion profile head expected publication = Inr v"
    and "\<forall>h. head = Some h \<longrightarrow> 1 \<le> sint (pv_Version h)"
  shows "follows profile head v"
  using PublishVersion_Inr [OF assms(1)] assms(2) next_version_exact
  by (auto simp: follows_def ValidateCapsuleRefs_def check_refs_None_iff split: option.splits
      simp del: matches.simps)

lemma publish_all_history:
  "publish_all profile head publications = Inr vs
   \<Longrightarrow> \<forall>h. head = Some h \<longrightarrow> 1 \<le> sint (pv_Version h)
   \<Longrightarrow> history profile head vs \<and> map pv_ID vs = map pub_ID publications"
proof (induction publications arbitrary: head vs)
  case (Cons publication publications)
  then obtain v ws where v: "PublishVersion profile head (map_option pv_ID head) publication = Inr v"
    and ws: "publish_all profile (Some v) publications = Inr ws" "vs = v # ws"
    by (auto split: sum.splits)
  have "1 \<le> sint (pv_Version v)" and "pv_ID v = pub_ID publication"
    using PublishVersion_Inr [OF v] by simp_all
  with Cons.IH [OF ws(1)] publish_follows [OF v Cons.prems(2)] ws(2) show ?case by simp
qed simp

lemma history_nth:
  "history profile head vs \<Longrightarrow> i < length vs \<Longrightarrow>
     follows profile (if i = 0 then head else Some (vs ! (i - 1))) (vs ! i)"
proof (induction vs arbitrary: head i)
  case (Cons v vs)
  note step = Cons.IH [of "Some v"]
  show ?case
  proof (cases i)
    case (Suc j)
    with Cons.prems step [of j] show ?thesis by (cases j) simp_all
  qed (use Cons.prems in simp)
qed simp

lemma history_version:
  "history profile None vs \<Longrightarrow> i < length vs \<Longrightarrow> sint (pv_Version (vs ! i)) = int i + 1"
proof (induction i)
  case 0
  then show ?case using history_nth [of profile None vs 0] by (simp add: follows_def)
next
  case (Suc i)
  then show ?case using history_nth [of profile None vs "Suc i"] by (simp add: follows_def)
qed

text \<open>
  The versions of a Profile form one line: when they are published one after the other, each on
  the head the previous one left, the \<open>i\<close>-th has version number \<open>i + 1\<close>, without overflow, its parent
  is its predecessor, the first has no parent, all belong to the Profile and list well-formed Capsule
  Refs without duplicates, and each is restored from storage unchanged.
\<close>

lemma profile_history_linear:
  assumes "publish_all profile None publications = Inr vs"
  shows "map pv_ID vs = map pub_ID publications
    \<and> list_all (\<lambda>i. sint (pv_Version (vs ! i)) = int i + 1
        \<and> pv_ProfileID (vs ! i) = prof_ID profile
        \<and> pv_ParentVersionID (vs ! i) = (if i = 0 then None else Some (pv_ID (vs ! (i - 1))))
        \<and> distinct (map cref_Ref (pv_CapsuleRefs (vs ! i)))
        \<and> list_all (\<lambda>ref. matches registryCapsuleRefPattern (cref_Ref ref)) (pv_CapsuleRefs (vs ! i))
        \<and> RestoreProfileVersion (vs ! i) = Inr (vs ! i)) [0..<length vs]"
proof -
  have history: "history profile None vs" and ids: "map pv_ID vs = map pub_ID publications"
    using publish_all_history [OF assms] by simp_all
  show ?thesis
    using ids history_version [OF history] history_nth [OF history]
    by (auto simp: list_all_iff follows_def simp del: matches.simps)
qed

text \<open>
  Of two publishers that saw the same head only the first succeeds: once a version is published
  on that head, every other publication that still expects it is refused as stale.
\<close>

lemma stale_publisher_refused:
  assumes "PublishVersion profile head expected publication = Inr v"
  shows "PublishVersion profile (Some v) expected publication' = Inl ErrStaleProfileHead"
proof -
  have "expected \<noteq> Some (pv_ID v)"
    using PublishVersion_Inr(1,3) [OF assms] assms
    by (auto simp: PublishVersion_def Let_def split: if_splits option.splits
        dest!: publishProfileVersion_Inr(5))
  moreover have "prof_ArchivedAt profile = None"
    using assms by (auto simp: PublishVersion_def Let_def profile_Snapshot_def split: if_splits)
  ultimately show ?thesis
    using PublishVersion_Inr(2) [OF assms] by (simp add: PublishVersion_def profile_Snapshot_def Let_def)
qed

section \<open>What the digest distinguishes\<close>

definition same_ref :: "capsule_ref \<Rightarrow> capsule_ref \<Rightarrow> bool" where
  "same_ref a b \<longleftrightarrow>
     cref_Ref a = cref_Ref b \<and> cref_FreshnessPolicy a = cref_FreshnessPolicy b
     \<and> mset (cref_Exclusions a) = mset (cref_Exclusions b)"

lemma canonical_same_ref:
  assumes "same_ref a b"
  shows "canonicalProfileVersionCapsuleRef a = canonicalProfileVersionCapsuleRef b"
proof -
  have "sort (cref_Exclusions a) = sort (cref_Exclusions b)"
    using assms by (intro properties_for_sort) (simp_all add: same_ref_def)
  with assms show ?thesis
    by (simp add: canonicalProfileVersionCapsuleRef_def same_ref_def)
qed

lemma json_sep_map_eq:
  "list_all2 (\<lambda>x y. f x = f y) xs ys \<Longrightarrow> json_sep (map f xs) = json_sep (map f ys)"
proof -
  assume "list_all2 (\<lambda>x y. f x = f y) xs ys"
  then have "map f xs = map f ys" by (induction rule: list_all2_induct) auto
  then show ?thesis by simp
qed

definition sample_ref :: "string list \<Rightarrow> capsule_ref" where
  "sample_ref exclusions =
     \<lparr>cref_Ref = ''r:1'', cref_FreshnessPolicy = FreshnessTrack, cref_Exclusions = exclusions\<rparr>"

lemma repeated_exclusion_changes_text:
  "length (canonicalProfileVersion [sample_ref [''skill:a'', ''skill:a'']])
   = length (canonicalProfileVersion [sample_ref [''skill:a'']]) + length (json_string ''skill:a'') + 1"
  by (simp add: canonicalProfileVersion_def canonicalProfileVersionCapsuleRef_def sample_ref_def
      json_array_def json_object_def)

text \<open>
  The digest of record depends on the order of the Capsule Refs and on the exclusions of each as
  a bag: reordering exclusions leaves it unchanged.  They are not canonicalised as a set: naming an
  exclusion twice passes validation and gives another canonical text, so another digest unless
  SHA-256 collides on the two.
\<close>

lemma profile_digest_exclusions:
  shows "(list_all2 same_ref refs refs' \<longrightarrow>
      ComputeProfileVersionDigest refs = ComputeProfileVersionDigest refs')
    \<and> ValidateCapsuleRefs [sample_ref [''skill:a'', ''skill:a'']] = None
    \<and> canonicalProfileVersion [sample_ref [''skill:a'', ''skill:a'']]
        \<noteq> canonicalProfileVersion [sample_ref [''skill:a'']]"
proof -
  have "ComputeProfileVersionDigest refs = ComputeProfileVersionDigest refs'"
    if "list_all2 same_ref refs refs'"
    using json_sep_map_eq [OF list_all2_mono [OF that canonical_same_ref]]
    by (simp add: ComputeProfileVersionDigest_def canonicalProfileVersion_def json_array_def)
  moreover have "ValidateCapsuleRefs [sample_ref [''skill:a'', ''skill:a'']] = None"
    using sample_ref_matches
    by (simp add: ValidateCapsuleRefs_def check_refs_None_iff sample_ref_def
      del: matches.simps check_refs.simps)
  moreover have "canonicalProfileVersion [sample_ref [''skill:a'', ''skill:a'']]
      \<noteq> canonicalProfileVersion [sample_ref [''skill:a'']]"
  proof
    assume "canonicalProfileVersion [sample_ref [''skill:a'', ''skill:a'']]
      = canonicalProfileVersion [sample_ref [''skill:a'']]"
    from arg_cong [OF this, of length] repeated_exclusion_changes_text show False by linarith
  qed
  ultimately show ?thesis by blast
qed

section \<open>A concrete Profile\<close>

definition sample_profile :: profile where
  "sample_profile =
     \<lparr>prof_ID = ''prof-1'', prof_OwnerUserID = ''user-1'', prof_Name = ''dev'', prof_Slug = ''dev'',
      prof_CreatedAt = \<lparr>wall = 3, loc = UTC\<rparr>, prof_ArchivedAt = None\<rparr>"

definition sample_publication :: "string \<Rightarrow> profile_version_publication" where
  "sample_publication pid =
     \<lparr>pub_ID = pid, pub_Digest = sample_digest, pub_CapsuleRefs = [sample_ref []],
      pub_CreatedAt = \<lparr>wall = 4, loc = UTC\<rparr>\<rparr>"

definition sample_version :: "string \<Rightarrow> string option \<Rightarrow> int64 \<Rightarrow> profile_version" where
  "sample_version pid parent version =
     \<lparr>pv_ID = pid, pv_ProfileID = ''prof-1'', pv_ParentVersionID = parent, pv_Version = version,
      pv_Digest = sample_digest, pv_CapsuleRefs = [sample_ref []],
      pv_CreatedAt = \<lparr>wall = 4, loc = UTC\<rparr>\<rparr>"

lemma sample_refs_valid: "ValidateCapsuleRefs [sample_ref []] = None"
  using sample_ref_matches
  by (simp add: ValidateCapsuleRefs_def check_refs_None_iff sample_ref_def
      del: matches.simps check_refs.simps)

lemma sample_published:
  "PublishVersion sample_profile None None (sample_publication ''v1'') = Inr (sample_version ''v1'' None 1)"
  "PublishVersion sample_profile (Some (sample_version ''v1'' None 1)) (Some ''v1'') (sample_publication ''v2'')
   = Inr (sample_version ''v2'' (Some ''v1'') 2)"
  by (simp_all add: PublishVersion_def publishProfileVersion_def sample_profile_def
      sample_publication_def sample_version_def profile_Snapshot_def Let_def sample_refs_valid go_time
      utc_def)

end
