(* ===== verification/Base64.thy ===== *)
theory Base64
  imports Encodings Regexps
begin

text \<open>
  Base64 as \<open>encoding/base64\<close> writes and reads it: \<open>StdEncoding\<close> with padding, \<open>RawStdEncoding\<close>
  without, decoding that skips line breaks and ignores the unused bits of the last group, and the
  lengths and alphabets of the texts.
\<close>

section \<open>The alphabet\<close>

definition b64_alphabet :: "char list" where
  "b64_alphabet = upper @ lower @ digits @ ''+/''"

definition b64_char :: "nat \<Rightarrow> char" where
  "b64_char n = b64_alphabet ! (n mod 64)"

definition b64_value :: "char \<Rightarrow> nat option" where
  "b64_value c =
     (let n = length (takeWhile (\<lambda>d. d \<noteq> c) b64_alphabet) in if n < 64 then Some n else None)"

lemma b64_value_char: "n < 64 \<Longrightarrow> b64_value (b64_char n) = Some n"
proof -
  have "\<forall>n \<in> set [0..<64]. b64_value (b64_char n) = Some n"
    by code_simp
  then show "n < 64 \<Longrightarrow> b64_value (b64_char n) = Some n" by simp
qed

lemma b64_char_in: "b64_char n \<in> set (alnum @ ''+/'')"
proof -
  have "b64_alphabet ! (n mod 64) \<in> set b64_alphabet"
    by (rule nth_mem) (simp add: b64_alphabet_def upper_def lower_def digits_def)
  then show ?thesis
    by (auto simp: b64_char_def b64_alphabet_def alnum_def)
qed

section \<open>Encoding\<close>

definition sextet1 :: "char \<Rightarrow> nat" where
  "sextet1 a = of_char a div 4"

definition sextet2 :: "char \<Rightarrow> nat \<Rightarrow> nat" where
  "sextet2 a b = (of_char a mod 4) * 16 + b div 16"

definition sextet3 :: "char \<Rightarrow> nat \<Rightarrow> nat" where
  "sextet3 b c = (of_char b mod 16) * 4 + c div 64"

definition sextet4 :: "char \<Rightarrow> nat" where
  "sextet4 c = of_char c mod 64"

fun RawEncodeToString :: "bytes \<Rightarrow> bytes" where
  "RawEncodeToString [] = []"
| "RawEncodeToString [a] = [b64_char (sextet1 a), b64_char (sextet2 a 0)]"
| "RawEncodeToString [a, b] =
     [b64_char (sextet1 a), b64_char (sextet2 a (of_char b)), b64_char (sextet3 b 0)]"
| "RawEncodeToString (a # b # c # s) =
     b64_char (sextet1 a) # b64_char (sextet2 a (of_char b)) # b64_char (sextet3 b (of_char c))
       # b64_char (sextet4 c) # RawEncodeToString s"

definition b64_padding :: "nat \<Rightarrow> bytes" where
  "b64_padding n = replicate ((3 - n mod 3) mod 3) (CHR ''='')"

definition EncodeToString :: "bytes \<Rightarrow> bytes" where
  "EncodeToString s = RawEncodeToString s @ b64_padding (length s)"

section \<open>Decoding\<close>

text \<open>The bytes of up to four sextets.\<close>

definition b64_byte1 :: "nat \<Rightarrow> nat \<Rightarrow> char" where
  "b64_byte1 s1 s2 = char_of (s1 * 4 + s2 div 16)"

definition b64_byte2 :: "nat \<Rightarrow> nat \<Rightarrow> char" where
  "b64_byte2 s2 s3 = char_of ((s2 mod 16) * 16 + s3 div 4)"

definition b64_byte3 :: "nat \<Rightarrow> nat \<Rightarrow> char" where
  "b64_byte3 s3 s4 = char_of ((s3 mod 4) * 64 + s4)"

fun b64_groups :: "bytes \<Rightarrow> bytes option" where
  "b64_groups [] = Some []"
| "b64_groups (a # b # c # d # s) =
     (case (b64_value a, b64_value b) of
        (Some s1, Some s2) \<Rightarrow>
          (case b64_value c of
             None \<Rightarrow>
               if c = CHR ''='' \<and> d = CHR ''='' \<and> s = [] then Some [b64_byte1 s1 s2] else None
           | Some s3 \<Rightarrow>
               (case b64_value d of
                  None \<Rightarrow>
                    if d = CHR ''='' \<and> s = [] then Some [b64_byte1 s1 s2, b64_byte2 s2 s3] else None
                | Some s4 \<Rightarrow>
                    map_option (\<lambda>rest. b64_byte1 s1 s2 # b64_byte2 s2 s3 # b64_byte3 s3 s4 # rest)
                      (b64_groups s)))
      | _ \<Rightarrow> None)"
| "b64_groups _ = None"

definition DecodeString :: "bytes \<Rightarrow> bytes option" where
  "DecodeString s = b64_groups (filter (\<lambda>c. c \<noteq> CHR 0x0D \<and> c \<noteq> CHR 0x0A) s)"

section \<open>Facts\<close>

lemma of_char_less [simp]: "(of_char c :: nat) < 256"
  by (metis of_char_mod_256 mod_less_divisor zero_less_numeral)

lemma sextet_less [simp]: "sextet1 a < 64" "b < 256 \<Longrightarrow> sextet2 a b < 64"
  "c < 256 \<Longrightarrow> sextet3 a c < 64" "sextet4 a < 64"
proof -
  have "(of_char a :: nat) < 256" by simp
  then show "sextet1 a < 64" unfolding sextet1_def by linarith
  show "b < 256 \<Longrightarrow> sextet2 a b < 64" unfolding sextet2_def by linarith
  show "c < 256 \<Longrightarrow> sextet3 a c < 64" unfolding sextet3_def by linarith
  show "sextet4 a < 64" unfolding sextet4_def by simp
qed

lemma b64_bytes [simp]:
  "b < 256 \<Longrightarrow> b64_byte1 (sextet1 a) (sextet2 a b) = a"
  "c < 256 \<Longrightarrow> b64_byte2 (sextet2 x (of_char a)) (sextet3 a c) = a"
  "b64_byte3 (sextet3 x (of_char a)) (sextet4 a) = a"
proof -
  show "b64_byte1 (sextet1 a) (sextet2 a b) = a" if "b < 256"
  proof -
    have "b div 16 < 16" using that by linarith
    then have "of_char a div 4 * 4 + (of_char a mod 4 * 16 + b div 16) div 16 = (of_char a :: nat)"
      by simp
    then show ?thesis by (simp add: b64_byte1_def sextet1_def sextet2_def)
  qed
  show "b64_byte2 (sextet2 x (of_char a)) (sextet3 a c) = a" if "c < 256"
  proof -
    have *: "c div 64 < 4" using that by linarith
    have "(of_char a :: nat) div 16 < 16" using of_char_less [of a] by linarith
    then have "(of_char x mod 4 * 16 + of_char a div 16) mod 16 = (of_char a div 16 :: nat)"
      by simp
    moreover have "(of_char a mod 16 * 4 + c div 64) div 4 = (of_char a mod 16 :: nat)"
      using * by simp
    ultimately show ?thesis by (simp add: b64_byte2_def sextet3_def sextet2_def)
  qed
  show "b64_byte3 (sextet3 x (of_char a)) (sextet4 a) = a"
  proof -
    have "(of_char a :: nat) div 64 < 4" using of_char_less [of a] by linarith
    then have "(of_char x mod 16 * 4 + of_char a div 64) mod 4 = (of_char a div 64 :: nat)"
      by simp
    then show ?thesis by (simp add: b64_byte3_def sextet3_def sextet4_def)
  qed
qed

lemma b64_value_pad [simp]: "b64_value (CHR ''='') = None"
  by code_simp

lemma b64_groups_encode: "b64_groups (EncodeToString s) = Some s"
proof (induction s rule: RawEncodeToString.induct)
  case (4 a b c s)
  have "length (a # b # c # s) mod 3 = length s mod 3" by simp
  then have "EncodeToString (a # b # c # s) =
      b64_char (sextet1 a) # b64_char (sextet2 a (of_char b)) # b64_char (sextet3 b (of_char c))
       # b64_char (sextet4 c) # EncodeToString s"
    unfolding EncodeToString_def b64_padding_def by (metis RawEncodeToString.simps(4) append_Cons)
  then show ?case using 4 by (simp add: b64_value_char)
qed (simp_all add: EncodeToString_def b64_padding_def b64_value_char numeral_2_eq_2)

lemma RawEncode_alphabet: "set (RawEncodeToString s) \<subseteq> set (alnum @ ''+/'')"
  using b64_char_in by (induction s rule: RawEncodeToString.induct) auto

lemma EncodeToString_alphabet: "set (EncodeToString s) \<subseteq> set (alnum @ ''+/='')"
  using RawEncode_alphabet [of s] by (auto simp: EncodeToString_def b64_padding_def)

lemma DecodeString_Encode: "DecodeString (EncodeToString s) = Some s"
proof -
  have "filter (\<lambda>c. c \<noteq> CHR 0x0D \<and> c \<noteq> CHR 0x0A) (EncodeToString s) = EncodeToString s"
    using EncodeToString_alphabet [of s]
    by (intro filter_True) (auto simp: alnum_def upper_def lower_def digits_def)
  then show ?thesis by (simp add: DecodeString_def b64_groups_encode)
qed

lemma EncodeToString_inject: "EncodeToString s = EncodeToString t \<longleftrightarrow> s = t"
  by (metis DecodeString_Encode option.inject)

lemma length_RawEncode: "length (RawEncodeToString s) = (4 * length s + 2) div 3"
  by (induction s rule: RawEncodeToString.induct) simp_all

end
