(* ===== verification/SSH_Keys.thy ===== *)
theory SSH_Keys
  imports Base64
begin

text \<open>
  SSH keys (\<open>libs/domain/ssh_key.go\<close>): registration, restoration and revocation of Ed25519 public
  keys, the parsing of their wire format and their fingerprint.
\<close>

section \<open>Runes\<close>

text \<open>The runes of a string as their encodings; a byte that starts no UTF-8 sequence is a rune of its own.\<close>

fun go_runes :: "bytes \<Rightarrow> bytes list" where
  "go_runes [] = []"
| "go_runes (c # s) =
     (let n = max 1 (utf8_size (c # s)) in take n (c # s) # go_runes (drop (n - 1) s))"

text \<open>\<open>unicode.IsControl\<close>: U+0000 to U+001F and U+007F to U+009F.\<close>

definition control_rune :: "bytes \<Rightarrow> bool" where
  "control_rune r =
     (case r of
        [c] \<Rightarrow> of_char c < (0x20 :: nat) \<or> c = CHR 0x7F
      | [a, b] \<Rightarrow> a = CHR 0xC2 \<and> in_range 0x80 0x9F b
      | _ \<Rightarrow> False)"

section \<open>Slices that panic out of range\<close>

text \<open>\<open>v[lo:hi]\<close>: \<open>None\<close> when Go panics.\<close>

definition go_slice :: "bytes \<Rightarrow> int \<Rightarrow> int \<Rightarrow> bytes option" where
  "go_slice v lo hi =
     (if 0 \<le> lo \<and> lo \<le> hi \<and> hi \<le> int (length v) then Some (take (nat (hi - lo)) (drop (nat lo) v))
      else None)"

text \<open>\<open>binary.BigEndian.Uint32\<close> of the first four bytes.\<close>

definition be_uint32 :: "bytes \<Rightarrow> 32 word" where
  "be_uint32 v = of_nat (foldl (\<lambda>n c. 256 * n + of_char c) 0 (take 4 v))"

section \<open>Data\<close>

datatype ssh_key_algorithm = SSHKeyEd25519 | SSHKeyOtherAlgorithm string

definition ed25519_name :: string where
  "ed25519_name = ''ssh-ed25519''"

record ssh_key_snapshot =
  key_ID :: string
  key_OwnerUserID :: string
  key_Label :: string
  key_Algorithm :: ssh_key_algorithm
  key_Fingerprint :: string
  key_PublicKey :: string
  key_CreatedAt :: gotime
  key_RevokedAt :: "gotime option"

type_synonym ssh_key = ssh_key_snapshot

record ssh_key_registration =
  kreg_ID :: string
  kreg_OwnerUserID :: string
  kreg_Label :: string
  kreg_PublicKey :: string
  kreg_CreatedAt :: gotime

text \<open>\<open>SSHKeyPanics\<close> is not an error value of the code: it marks a run that panics.\<close>

datatype ssh_key_error =
    SSHKeyIdentityRequired
  | SSHKeyLabelInvalid
  | SSHKeyCreationTimeRequired
  | SSHKeyIdentityNotCanonical
  | SSHKeyRevokedBeforeCreation
  | SSHKeyRevocationTimeInvalid
  | SSHKeyPanics

section \<open>The public key\<close>

text \<open>The three results of the code; \<open>None\<close> when a slice is out of range.\<close>

definition sshWireString :: "bytes \<Rightarrow> (bytes \<times> bytes \<times> bool) option" where
  "sshWireString v =
     (if length v < 4 then Some ([], [], False)
      else let size = ucast (be_uint32 v) :: uint64 in
        if size > of_nat (length v - 4) then Some ([], [], False)
        else let stop = 4 + size :: int64 in
          case (go_slice v 4 (sint stop), go_slice v (sint stop) (int (length v))) of
            (Some head, Some rest) \<Rightarrow> Some (head, rest, True)
          | _ \<Rightarrow> None)"

definition ed25519Fingerprint :: "string \<Rightarrow> (string \<times> bool) option" where
  "ed25519Fingerprint publicKey =
     (if length publicKey > 8192 then Some ([], False)
      else case split_on (CHR '' '') publicKey of
        [algorithmName, encoded] \<Rightarrow>
          if algorithmName \<noteq> ed25519_name then Some ([], False)
          else case DecodeString encoded of
            None \<Rightarrow> Some ([], False)
          | Some blob \<Rightarrow>
              if EncodeToString blob \<noteq> encoded then Some ([], False)
              else case sshWireString blob of
                None \<Rightarrow> None
              | Some (algorithm, remainder, ok) \<Rightarrow>
                  if \<not> ok \<or> algorithm \<noteq> ed25519_name then Some ([], False)
                  else case sshWireString remainder of
                    None \<Rightarrow> None
                  | Some (key, remainder', ok') \<Rightarrow>
                      if \<not> ok' \<or> length key \<noteq> 32 \<or> length remainder' \<noteq> 0 then Some ([], False)
                      else Some (''SHA256:'' @ RawEncodeToString (Sum256 blob), True)
      | _ \<Rightarrow> Some ([], False))"

section \<open>Keys\<close>

definition validateSSHKeyIdentity ::
  "string \<Rightarrow> string \<Rightarrow> string \<Rightarrow> string \<Rightarrow> gotime \<Rightarrow> ssh_key_error + string" where
  "validateSSHKeyIdentity keyID ownerUserID label publicKey createdAt =
     (if keyID = [] \<or> untrimmed keyID \<or> ownerUserID = [] \<or> untrimmed ownerUserID
      then Inl SSHKeyIdentityRequired
      else if untrimmed label \<or> label = [] \<or> length (go_runes label) > 80
              \<or> list_ex control_rune (go_runes label)
      then Inl SSHKeyLabelInvalid
      else if is_zero createdAt then Inl SSHKeyCreationTimeRequired
      else case ed25519Fingerprint publicKey of
        None \<Rightarrow> Inl SSHKeyPanics
      | Some (fingerprint, ok) \<Rightarrow>
          if \<not> ok then Inl SSHKeyIdentityNotCanonical else Inr fingerprint)"

definition RegisterSSHKey :: "ssh_key_registration \<Rightarrow> ssh_key_error + ssh_key" where
  "RegisterSSHKey registration =
     (case validateSSHKeyIdentity (kreg_ID registration) (kreg_OwnerUserID registration)
             (kreg_Label registration) (kreg_PublicKey registration) (kreg_CreatedAt registration) of
        Inl err \<Rightarrow> Inl err
      | Inr fingerprint \<Rightarrow>
          Inr \<lparr>key_ID = kreg_ID registration, key_OwnerUserID = kreg_OwnerUserID registration,
               key_Label = kreg_Label registration, key_Algorithm = SSHKeyEd25519,
               key_Fingerprint = fingerprint, key_PublicKey = kreg_PublicKey registration,
               key_CreatedAt = utc (kreg_CreatedAt registration), key_RevokedAt = None\<rparr>)"

definition RestoreSSHKey :: "ssh_key_snapshot \<Rightarrow> ssh_key_error + ssh_key" where
  "RestoreSSHKey snapshot =
     (case validateSSHKeyIdentity (key_ID snapshot) (key_OwnerUserID snapshot) (key_Label snapshot)
             (key_PublicKey snapshot) (key_CreatedAt snapshot) of
        Inl err \<Rightarrow> Inl err
      | Inr fingerprint \<Rightarrow>
          if key_Algorithm snapshot \<noteq> SSHKeyEd25519
             \<or> \<not> matches sshFingerprintPattern (key_Fingerprint snapshot)
             \<or> key_Fingerprint snapshot \<noteq> fingerprint
          then Inl SSHKeyIdentityNotCanonical
          else
            let restored = snapshot\<lparr>key_CreatedAt := utc (key_CreatedAt snapshot),
                                    key_RevokedAt := map_option utc (key_RevokedAt snapshot)\<rparr>
            in if (case key_RevokedAt restored of
                     None \<Rightarrow> False | Some revokedAt \<Rightarrow> before revokedAt (key_CreatedAt restored))
               then Inl SSHKeyRevokedBeforeCreation
               else Inr restored)"

definition ssh_key_Snapshot :: "ssh_key \<Rightarrow> ssh_key_snapshot" where
  "ssh_key_Snapshot key = key\<lparr>key_RevokedAt := map_option utc (key_RevokedAt key)\<rparr>"

definition Revoke :: "ssh_key \<Rightarrow> gotime \<Rightarrow> ssh_key_error + ssh_key" where
  "Revoke key at =
     (if key_RevokedAt key \<noteq> None then Inr key
      else if is_zero at \<or> before at (key_CreatedAt key) then Inl SSHKeyRevocationTimeInvalid
      else Inr ((ssh_key_Snapshot key)\<lparr>key_RevokedAt := Some (utc at)\<rparr>))"

section \<open>The wire format\<close>

text \<open>A string of the SSH wire format: its length in four bytes, then its bytes.\<close>

definition wire_string :: "bytes \<Rightarrow> bytes" where
  "wire_string s = be_bytes 4 (length s) @ s"

lemma take_4:
  assumes "4 \<le> length v"
  obtains a b c d rest where "v = a # b # c # d # rest"
  using assms by (cases v; cases "tl v"; cases "tl (tl v)"; cases "tl (tl (tl v))") auto

lemma be_bytes_4:
  "be_bytes 4 n = [char_of (n div 16777216), char_of (n div 65536), char_of (n div 256), char_of n]"
proof -
  have "[0..<4] = [0, 1, 2, 3 :: nat]" by (simp add: upt_rec)
  then show ?thesis by (simp add: be_bytes_def)
qed

lemma be_uint32_bytes:
  "be_bytes 4 (unat (be_uint32 (a # b # c # d # rest))) = [a, b, c, d]"
proof -
  let ?n = "16777216 * of_char a + 65536 * of_char b + 256 * of_char c + of_char d :: nat"
  have bounds: "(of_char a :: nat) < 256" "(of_char b :: nat) < 256" "(of_char c :: nat) < 256"
    "(of_char d :: nat) < 256" by simp_all
  have fold: "foldl (\<lambda>n c. 256 * n + of_char c) 0 (take 4 (a # b # c # d # rest)) = ?n"
    by simp
  have "?n < 4294967296"
    using bounds by linarith
  then have "?n mod 2 ^ LENGTH(32) = ?n"
    by (intro mod_less) simp
  then have n: "unat (be_uint32 (a # b # c # d # rest)) = ?n"
    unfolding be_uint32_def fold unat_of_nat .
  have low: "char_of (of_char e + 256 * k) = e" for k :: nat and e
    by (metis char_of_mod_256 char_of_char mod_mult_self2)
  have "?n div 16777216 = of_char a"
    using bounds by linarith
  then have "?n div 16777216 = of_char a + 256 * 0"
    by simp
  moreover have "?n div 65536 = of_char b + 256 * of_char a"
    using bounds by linarith
  moreover have "?n div 256 = of_char c + (256 * of_char b + 65536 * of_char a)"
    using bounds by linarith
  then have "?n div 256 = of_char c + 256 * (of_char b + 256 * of_char a)"
    by simp
  moreover have "?n = of_char d + 256 * (of_char c + 256 * of_char b + 65536 * of_char a)"
    by simp
  ultimately show ?thesis
    unfolding n be_bytes_4 by (metis low)
qed

lemma horner_digits:
  "(n :: nat) = 256 * q1 + r1 \<Longrightarrow> q1 = 256 * q2 + r2 \<Longrightarrow> q2 = 256 * q3 + r3
   \<Longrightarrow> 16777216 * q3 + 65536 * r3 + 256 * r2 + r1 = n"
  by simp

lemma be_uint32_be_bytes:
  assumes "n < 4294967296"
  shows "unat (be_uint32 (be_bytes 4 n @ rest)) = n"
proof -
  let ?b = "\<lambda>k. of_char (char_of k :: char) :: nat"
  have "foldl (\<lambda>n c. 256 * n + of_char c) 0 (take 4 (be_bytes 4 n @ rest))
      = 16777216 * (n div 16777216 mod 256) + 65536 * (n div 65536 mod 256)
        + 256 * (n div 256 mod 256) + n mod 256"
    by (simp add: be_bytes_4)
  also have "\<dots> = n"
  proof -
    have "n div 65536 = n div 256 div 256" "n div 16777216 = n div 256 div 256 div 256"
      by (simp_all add: div_mult2_eq [symmetric])
    moreover have "n div 16777216 mod 256 = n div 16777216"
      using assms by (intro mod_less) linarith
    ultimately show ?thesis
      using horner_digits [OF mult_div_mod_eq [of 256 n, symmetric]
          mult_div_mod_eq [of 256 "n div 256", symmetric]
          mult_div_mod_eq [of 256 "n div 256 div 256", symmetric]] by metis
  qed
  finally have fold: "foldl (\<lambda>n c. 256 * n + of_char c) 0 (take 4 (be_bytes 4 n @ rest)) = n" .
  have "n mod 2 ^ LENGTH(32) = n" using assms by (intro mod_less) simp
  then show ?thesis unfolding be_uint32_def fold unat_of_nat .
qed

text \<open>Lengths are below \<open>2 ^ 63\<close>, as those of Go's slices are: no conversion of a length wraps.\<close>

lemma wire_size:
  assumes "4 \<le> length v" and "length v < 9223372036854775808"
  defines "sz \<equiv> ucast (be_uint32 v) :: 64 word"
  shows "sz > of_nat (length v - 4) \<longleftrightarrow> length v < 4 + unat (be_uint32 v)"
    and "4 + unat (be_uint32 v) \<le> length v \<Longrightarrow> sint (4 + sz) = 4 + int (unat (be_uint32 v))"
proof -
  have "unat (be_uint32 v) < 2 ^ LENGTH(32)"
    by (rule unsigned_less)
  then have bound: "unat (be_uint32 v) < 4294967296" by simp
  have sz: "unat sz = unat (be_uint32 v)"
  proof -
    have "unat (be_uint32 v) < 2 ^ 64"
      using bound by simp
    then show ?thesis
      unfolding sz_def by (simp add: unsigned_ucast_eq take_bit_nat_eq_self)
  qed
  have "(length v - 4) mod 2 ^ LENGTH(64) = length v - 4"
    using assms(2) by (intro mod_less) simp
  then have "unat (of_nat (length v - 4) :: 64 word) = length v - 4"
    unfolding unat_of_nat .
  then show "sz > of_nat (length v - 4) \<longleftrightarrow> length v < 4 + unat (be_uint32 v)"
    using assms(1) sz by (simp add: word_less_nat_alt) linarith
  assume fits: "4 + unat (be_uint32 v) \<le> length v"
  have "sint sz = int (unat sz)"
  proof -
    have "int (unat sz) < 9223372036854775808"
      using sz bound by linarith
    then have "uint sz < 2 ^ 63" by simp
    moreover have "- (2 ^ 63) \<le> uint sz"
      by (rule order_trans [of _ 0]) simp_all
    ultimately have "signed_take_bit 63 (uint sz) = uint sz"
      by (intro signed_take_bit_int_eq_self)
    then show ?thesis
      by (simp add: sint_uint)
  qed
  moreover have "sint (4 :: int64) = 4" by simp
  moreover have "sint (4 + sz) = sint (4 :: int64) + sint sz"
    using calculation sz bound by (intro sint_add_exact) linarith+
  ultimately show "sint (4 + sz) = 4 + int (unat (be_uint32 v))"
    using sz by simp
qed

lemma sshWireString_cases:
  assumes "length v < 9223372036854775808"
  shows "sshWireString v =
    (if length v < 4 \<or> length v < 4 + unat (be_uint32 v) then Some ([], [], False)
     else Some (take (unat (be_uint32 v)) (drop 4 v), drop (4 + unat (be_uint32 v)) v, True))"
proof (cases "length v < 4 \<or> length v < 4 + unat (be_uint32 v)")
  case True
  then show ?thesis
    using wire_size(1) [OF _ assms] by (auto simp: sshWireString_def Let_def not_less)
next
  case False
  then have len: "4 \<le> length v" and fits: "4 + unat (be_uint32 v) \<le> length v" by auto
  have "uint (be_uint32 v) = int (unat (be_uint32 v))" by simp
  then have in_range': "4 + uint (be_uint32 v) \<le> int (length v)"
    using fits by linarith
  have "\<not> (ucast (be_uint32 v) :: 64 word) > of_nat (length v - 4)"
    using wire_size(1) [OF len assms] fits by simp
  moreover have "go_slice v 4 (4 + int (unat (be_uint32 v))) = Some (take (unat (be_uint32 v)) (drop 4 v))"
    and "go_slice v (4 + int (unat (be_uint32 v))) (int (length v))
      = Some (drop (4 + unat (be_uint32 v)) v)"
    using in_range' fits by (simp_all add: go_slice_def nat_add_distrib nat_diff_distrib)
  ultimately show ?thesis
    using False wire_size(2) [OF len assms fits] by (simp add: sshWireString_def Let_def)
qed

lemma sshWireString_splits:
  assumes "length v < 9223372036854775808" and "sshWireString v = Some (head, rest, True)"
  shows "v = wire_string head @ rest"
proof -
  from assms have v: "4 \<le> length v" "4 + unat (be_uint32 v) \<le> length v"
    and parts: "head = take (unat (be_uint32 v)) (drop 4 v)" "rest = drop (4 + unat (be_uint32 v)) v"
    by (auto simp: sshWireString_cases split: if_splits)
  from v(1) obtain a b c d tail where abcd: "v = a # b # c # d # tail" by (rule take_4)
  have "length head = unat (be_uint32 v)" using parts(1) v(2) by simp
  then have "wire_string head @ rest = [a, b, c, d] @ head @ rest"
    using be_uint32_bytes [of a b c d tail] by (simp add: wire_string_def abcd)
  also have "head @ rest = drop 4 v"
    using parts by (metis add.commute append_take_drop_id drop_drop)
  finally show ?thesis by (simp add: abcd)
qed

lemma sshWireString_wire:
  assumes "length s < 4294967296" and "length rest < 4294967296"
  shows "sshWireString (wire_string s @ rest) = Some (s, rest, True)"
proof -
  let ?v = "wire_string s @ rest"
  have n: "unat (be_uint32 ?v) = length s"
    using be_uint32_be_bytes [OF assms(1)] by (simp add: wire_string_def)
  have "length ?v = 4 + length s + length rest"
    by (simp add: wire_string_def)
  then show ?thesis
    using assms n by (simp add: sshWireString_cases wire_string_def)
qed

text \<open>
  Reading a string of the SSH wire format never slices out of range: for every input, of any
  length Go can represent, \<open>sshWireString\<close> returns.  When it reports success the input is the encoding
  of the string it returns followed by the bytes it returns, and it succeeds whenever the announced
  length fits.
\<close>

lemma ssh_wire_string_bounds:
  assumes "length v < 2 ^ 63"
  shows "\<exists>head rest ok. sshWireString v = Some (head, rest, ok)
    \<and> (ok \<longleftrightarrow> 4 \<le> length v \<and> 4 + unat (be_uint32 v) \<le> length v)
    \<and> (ok \<longrightarrow> v = wire_string head @ rest)"
proof -
  from assms have len: "length v < 9223372036854775808" by simp
  obtain head rest ok where r: "sshWireString v = Some (head, rest, ok)"
    using sshWireString_cases [OF len] by (metis (full_types))
  moreover have "ok \<longleftrightarrow> 4 \<le> length v \<and> 4 + unat (be_uint32 v) \<le> length v"
    using r unfolding sshWireString_cases [OF len] by (auto split: if_splits)
  ultimately show ?thesis
    using sshWireString_splits [OF len, of head rest] by (cases ok) auto
qed

section \<open>Which public keys are accepted\<close>

definition key_blob :: "bytes \<Rightarrow> bytes" where
  "key_blob key = wire_string ed25519_name @ wire_string key"

definition key_text :: "bytes \<Rightarrow> string" where
  "key_text key = ed25519_name @ CHR '' '' # EncodeToString (key_blob key)"

definition key_fingerprint :: "bytes \<Rightarrow> string" where
  "key_fingerprint key = ''SHA256:'' @ RawEncodeToString (Sum256 (key_blob key))"

lemma length_wire_string [simp]: "length (wire_string s) = 4 + length s"
  by (simp add: wire_string_def)

lemma length_Encode_ge: "length s \<le> length (EncodeToString s)"
  using length_RawEncode [of s] by (simp add: EncodeToString_def)

lemma length_Encode_le: "length (EncodeToString s) \<le> (4 * length s + 2) div 3 + 2"
  using length_RawEncode [of s] by (simp add: EncodeToString_def b64_padding_def)

lemma EncodeToString_no_space: "CHR '' '' \<notin> set (EncodeToString s)"
  using EncodeToString_alphabet [of s] by (auto simp: alnum_def upper_def lower_def digits_def)

lemma fingerprint_accepts:
  assumes "length key = 32"
  shows "ed25519Fingerprint (key_text key) = Some (key_fingerprint key, True)"
proof -
  have blob: "length (key_blob key) = 51"
    using assms by (simp add: key_blob_def ed25519_name_def)
  then have "length (EncodeToString (key_blob key)) \<le> 70"
    using length_Encode_le [of "key_blob key"] by simp
  then have len: "length (key_text key) \<le> 8192"
    by (simp add: key_text_def ed25519_name_def)
  have split: "split_on (CHR '' '') (key_text key) = [ed25519_name, EncodeToString (key_blob key)]"
    unfolding split_on_pair_iff using EncodeToString_no_space by (simp add: key_text_def ed25519_name_def)
  have "sshWireString (key_blob key) = Some (ed25519_name, wire_string key, True)"
    and "sshWireString (wire_string key) = Some (key, [], True)"
    using assms sshWireString_wire [of ed25519_name "wire_string key"] sshWireString_wire [of key "[]"]
    by (simp_all add: key_blob_def ed25519_name_def)
  with len split assms show ?thesis
    by (simp add: ed25519Fingerprint_def DecodeString_Encode key_fingerprint_def)
qed

lemma fingerprint_total: "ed25519Fingerprint publicKey \<noteq> None
    \<and> (ed25519Fingerprint publicKey = Some (fp, True) \<longrightarrow>
        (\<exists>key. length key = 32 \<and> publicKey = key_text key \<and> fp = key_fingerprint key))"
proof (cases "length publicKey \<le> 8192 \<and> (\<exists>blob. publicKey = ed25519_name @ CHR '' '' # EncodeToString blob)")
  case True
  then obtain blob where pk: "publicKey = ed25519_name @ CHR '' '' # EncodeToString blob" by blast
  with True length_Encode_ge [of blob] have small: "length blob < 9223372036854775808" by simp
  have split: "split_on (CHR '' '') publicKey = [ed25519_name, EncodeToString blob]"
    unfolding split_on_pair_iff using EncodeToString_no_space by (simp add: pk ed25519_name_def)
  obtain algorithm remainder ok where w1: "sshWireString blob = Some (algorithm, remainder, ok)"
    using sshWireString_cases [OF small] by (metis (full_types))
  show ?thesis
  proof (cases "ok \<and> algorithm = ed25519_name")
    case accepted: True
    with w1 sshWireString_splits [OF small] have blob: "blob = wire_string ed25519_name @ remainder" by simp
    with small have small': "length remainder < 9223372036854775808" by simp
    obtain key remainder' ok' where w2: "sshWireString remainder = Some (key, remainder', ok')"
      using sshWireString_cases [OF small'] by (metis (full_types))
    have "remainder = wire_string key @ remainder'" if ok'
      using sshWireString_splits [OF small'] w2 that by simp
    then have "blob = key_blob key" if "ok' \<and> remainder' = []"
      using that blob by (simp add: key_blob_def)
    then show ?thesis
      using True accepted w1 w2 split pk
      by (auto simp: ed25519Fingerprint_def DecodeString_Encode key_text_def key_fingerprint_def)
  next
    case False
    then show ?thesis
      using True w1 split by (auto simp: ed25519Fingerprint_def DecodeString_Encode)
  qed
next
  case False
  have "ed25519Fingerprint publicKey = Some ([], False)"
    using False split_on_pair_iff [of "CHR '' ''" publicKey]
    by (auto simp: ed25519Fingerprint_def split: list.splits option.splits)
  then show ?thesis by simp
qed

text \<open>
  The accepted public keys are exactly the texts of 32-byte keys: the algorithm name, a space and
  the padded Base64 of the wire encoding of the name and the key, with nothing after them.  The
  fingerprint is then the unpadded Base64 of the SHA-256 of that encoding, and no input makes the
  parser panic.
\<close>

lemma fingerprint_exact:
  "ed25519Fingerprint publicKey \<noteq> None
   \<and> (ed25519Fingerprint publicKey = Some (fp, True) \<longleftrightarrow>
       (\<exists>key. length key = 32 \<and> publicKey = key_text key \<and> fp = key_fingerprint key))"
  using fingerprint_total fingerprint_accepts by blast

section \<open>Registered keys\<close>

lemma matches_literal_class:
  assumes "length t = n" and "set t \<subseteq> set cs"
  shows "matches (Seq (literal s) (Between (Class cs) n n)) (s @ t)"
proof -
  have literal: "s \<in> lang (literal s)" for s
    by (induction s) (auto simp: conc_def)
  have "t \<in> power_lang (lang (Class cs)) n"
    using assms
  proof (induction n arbitrary: t)
    case (Suc n)
    then obtain c u where t: "t = c # u" by (cases t) auto
    with Suc have "[c] \<in> lang (Class cs)" and "u \<in> power_lang (lang (Class cs)) n" by auto
    then have "[c] @ u \<in> conc (lang (Class cs)) (power_lang (lang (Class cs)) n)"
      unfolding conc_def by blast
    then show ?case by (simp add: t)
  qed simp
  with literal [of s] show ?thesis
    by (auto simp: matches_iff_lang conc_def)
qed

lemma key_fingerprint_pattern: "matches sshFingerprintPattern (key_fingerprint key)"
  unfolding sshFingerprintPattern_def key_fingerprint_def
  using RawEncode_alphabet by (intro matches_literal_class) (simp_all add: length_RawEncode length_Sum256)

lemma validateSSHKeyIdentity_Inr:
  assumes "validateSSHKeyIdentity keyID owner label publicKey createdAt = Inr fp"
  shows "\<exists>key. length key = 32 \<and> publicKey = key_text key \<and> fp = key_fingerprint key"
proof -
  have "ed25519Fingerprint publicKey = Some (fp, True)"
    using assms by (auto simp: validateSSHKeyIdentity_def split: if_splits option.splits prod.splits)
  then show ?thesis using fingerprint_total by blast
qed

lemma validateSSHKeyIdentity_utc [simp]:
  "validateSSHKeyIdentity keyID owner label publicKey (utc t)
   = validateSSHKeyIdentity keyID owner label publicKey t"
  by (simp add: validateSSHKeyIdentity_def)

definition well_formed_key :: "ssh_key \<Rightarrow> bool" where
  "well_formed_key key \<longleftrightarrow> RestoreSSHKey (ssh_key_Snapshot key) = Inr key"

lemma RestoreSSHKey_Inr_iff:
  "RestoreSSHKey snapshot = Inr key \<longleftrightarrow>
     validateSSHKeyIdentity (key_ID snapshot) (key_OwnerUserID snapshot) (key_Label snapshot)
       (key_PublicKey snapshot) (key_CreatedAt snapshot) = Inr (key_Fingerprint snapshot)
     \<and> key_Algorithm snapshot = SSHKeyEd25519
     \<and> matches sshFingerprintPattern (key_Fingerprint snapshot)
     \<and> (case key_RevokedAt snapshot of None \<Rightarrow> True | Some t \<Rightarrow> \<not> before t (key_CreatedAt snapshot))
     \<and> key = snapshot\<lparr>key_CreatedAt := utc (key_CreatedAt snapshot),
                       key_RevokedAt := map_option utc (key_RevokedAt snapshot)\<rparr>"
proof (cases "validateSSHKeyIdentity (key_ID snapshot) (key_OwnerUserID snapshot) (key_Label snapshot)
       (key_PublicKey snapshot) (key_CreatedAt snapshot)")
  case (Inr fp)
  then show ?thesis
    by (cases "key_RevokedAt snapshot") (auto simp: RestoreSSHKey_def Let_def)
qed (simp add: RestoreSSHKey_def)

lemma well_formed_key_iff:
  "well_formed_key key \<longleftrightarrow>
     validateSSHKeyIdentity (key_ID key) (key_OwnerUserID key) (key_Label key)
       (key_PublicKey key) (key_CreatedAt key) = Inr (key_Fingerprint key)
     \<and> key_Algorithm key = SSHKeyEd25519 \<and> matches sshFingerprintPattern (key_Fingerprint key)
     \<and> (case key_RevokedAt key of None \<Rightarrow> True | Some t \<Rightarrow> \<not> before t (key_CreatedAt key))
     \<and> key_CreatedAt key = utc (key_CreatedAt key)
     \<and> key_RevokedAt key = map_option utc (key_RevokedAt key)"
  unfolding well_formed_key_def RestoreSSHKey_Inr_iff ssh_key_Snapshot_def
  by (cases key; cases "key_RevokedAt key") auto

lemma RegisterSSHKey_restores:
  assumes "RegisterSSHKey registration = Inr key"
  shows "well_formed_key key"
proof -
  from assms obtain fp where fp: "validateSSHKeyIdentity (kreg_ID registration)
      (kreg_OwnerUserID registration) (kreg_Label registration) (kreg_PublicKey registration)
      (kreg_CreatedAt registration) = Inr fp"
    by (auto simp: RegisterSSHKey_def split: sum.splits)
  moreover have "matches sshFingerprintPattern fp"
    using validateSSHKeyIdentity_Inr [OF fp] key_fingerprint_pattern by blast
  ultimately show ?thesis
    using assms unfolding well_formed_key_iff by (auto simp: RegisterSSHKey_def)
qed

lemma RestoreSSHKey_restores: "RestoreSSHKey snapshot = Inr key \<Longrightarrow> well_formed_key key"
  unfolding RestoreSSHKey_Inr_iff well_formed_key_iff by (cases "key_RevokedAt snapshot") auto

lemma Revoke_restores:
  "well_formed_key key \<Longrightarrow> Revoke key at = Inr key' \<Longrightarrow> well_formed_key key'"
  unfolding well_formed_key_iff Revoke_def ssh_key_Snapshot_def by (auto split: if_splits)

text \<open>Keys as the program can hold them.\<close>

inductive key_reachable :: "ssh_key \<Rightarrow> bool" where
  registered: "RegisterSSHKey registration = Inr key \<Longrightarrow> key_reachable key"
| restored: "RestoreSSHKey snapshot = Inr key \<Longrightarrow> key_reachable key"
| revoked: "key_reachable key \<Longrightarrow> Revoke key at = Inr key' \<Longrightarrow> key_reachable key'"

lemma key_reachable_well_formed: "key_reachable key \<Longrightarrow> well_formed_key key"
  by (induction rule: key_reachable.induct)
    (blast intro: RegisterSSHKey_restores RestoreSSHKey_restores Revoke_restores)+

lemma well_formed_key_fingerprint:
  assumes "well_formed_key key"
  shows "\<exists>k. length k = 32 \<and> key_PublicKey key = key_text k \<and> key_Fingerprint key = key_fingerprint k"
proof -
  from assms obtain fp where "validateSSHKeyIdentity (key_ID key) (key_OwnerUserID key) (key_Label key)
      (key_PublicKey key) (key_CreatedAt key) = Inr fp" and "key_Fingerprint key = fp"
    by (auto simp: well_formed_key_iff)
  with validateSSHKeyIdentity_Inr show ?thesis by blast
qed

text \<open>
  Every SSH key the program holds, registered, restored or revoked, is restored from its own
  snapshot unchanged, and its fingerprint is the one of its public key.  Revoking is final: once a key
  is revoked, every later revocation leaves it as it is.
\<close>

lemma ssh_key_roundtrip:
  assumes "key_reachable key"
  shows "RestoreSSHKey (ssh_key_Snapshot key) = Inr key
    \<and> (\<exists>k. length k = 32 \<and> key_PublicKey key = key_text k \<and> key_Fingerprint key = key_fingerprint k)
    \<and> (\<forall>at later revoked. Revoke key at = Inr revoked \<longrightarrow>
        key_RevokedAt revoked \<noteq> None \<and> Revoke revoked later = Inr revoked)"
proof -
  have wf: "well_formed_key key"
    using assms by (rule key_reachable_well_formed)
  have "key_RevokedAt revoked \<noteq> None \<and> Revoke revoked later = Inr revoked"
    if "Revoke key at = Inr revoked" for at later revoked
    using that by (auto simp: Revoke_def split: if_splits)
  with wf well_formed_key_fingerprint show ?thesis
    by (simp add: well_formed_key_def)
qed

definition sample_registration :: ssh_key_registration where
  "sample_registration =
     \<lparr>kreg_ID = ''key-1'', kreg_OwnerUserID = ''user-1'', kreg_Label = ''laptop'',
      kreg_PublicKey = key_text (replicate 32 (CHR ''k'')), kreg_CreatedAt = \<lparr>wall = 5, loc = UTC\<rparr>\<rparr>"

lemma sample_label_ok: "go_runes ''laptop'' = map (\<lambda>c. [c]) ''laptop''"
  by (simp add: utf8_size_def of_char_def)

lemma sample_registered: "\<exists>key. RegisterSSHKey sample_registration = Inr key"
  using fingerprint_accepts [of "replicate 32 (CHR ''k'')"]
  by (simp add: RegisterSSHKey_def validateSSHKeyIdentity_def sample_registration_def sample_label_ok
      control_rune_def of_char_def go_time del: go_runes.simps)

end
