(* ===== verification/Go_Maps.thy ===== *)
theory Go_Maps
  imports Prelude
begin

text \<open>
  Go maps whose iteration the code sorts.  A map is represented by its entries in ascending order of
  their keys, each key once (\<open>go_map\<close>): the loops over the sorted keys are then loops over the
  list, and equal maps are equal lists.
\<close>

type_synonym 'v string_map = "(string \<times> 'v) list"

fun go_update :: "string \<Rightarrow> 'v \<Rightarrow> 'v string_map \<Rightarrow> 'v string_map" where
  "go_update k v [] = [(k, v)]"
| "go_update k v ((k', v') # m) =
     (if k < k' then (k, v) # (k', v') # m
      else if k = k' then (k, v) # m
      else (k', v') # go_update k v m)"

definition go_map :: "'v string_map \<Rightarrow> bool" where
  "go_map m \<longleftrightarrow> sorted (map fst m) \<and> distinct (map fst m)"

lemma go_map_Nil [simp]: "go_map []"
  by (simp add: go_map_def)

lemma go_map_Cons: "go_map ((k, v) # m) \<longleftrightarrow> (\<forall>k' \<in> fst ` set m. k < k') \<and> go_map m"
  by (auto simp: go_map_def order.strict_iff_order)

lemma map_of_go_update [simp]: "map_of (go_update k v m) = (map_of m)(k \<mapsto> v)"
  by (induction m) auto

lemma keys_go_update [simp]: "fst ` set (go_update k v m) = insert k (fst ` set m)"
proof -
  have "dom (map_of (go_update k v m)) = insert k (dom (map_of m))" by simp
  then show ?thesis unfolding dom_map_of_conv_image_fst .
qed

lemma go_map_update: "go_map m \<Longrightarrow> go_map (go_update k v m)"
proof (induction m)
  case (Cons e m)
  obtain k' v' where e: "e = (k', v')" by (cases e)
  from Cons.prems have m: "\<forall>l \<in> fst ` set m. k' < l" "go_map m" by (simp_all add: e go_map_Cons)
  show ?case
  proof (cases k k' rule: linorder_cases)
    case less
    then have "\<forall>l \<in> fst ` set m. k < l" using m(1) by (metis order.strict_trans)
    with less m show ?thesis by (simp add: e go_map_Cons)
  next
    case greater
    then have "\<not> k < k'" and "k \<noteq> k'" by auto
    with greater m Cons.IH [OF m(2)] show ?thesis by (simp add: e go_map_Cons)
  qed (use m in \<open>simp add: e go_map_Cons\<close>)
qed (simp add: go_map_Cons)

lemma go_map_filter: "go_map m \<Longrightarrow> go_map (filter P m)"
  by (auto simp: go_map_def distinct_map_filter sorted_filter)

lemma map_of_filter_key:
  "map_of (filter (\<lambda>(k, v). P k) m) k = (if P k then map_of m k else None)"
  by (induction m) auto

lemma go_map_map_of_Some_iff: "go_map m \<Longrightarrow> map_of m k = Some v \<longleftrightarrow> (k, v) \<in> set m"
  by (simp add: go_map_def)

end
