(* ===== verification/Config_Merge.thy ===== *)
theory Config_Merge
  imports Go_Maps
begin

text \<open>
  The merge of configuration documents with the provenance of their settings, the second half of
  \<open>libs/domain/capsule_composition.go\<close>: \<open>mergeConfigMaps\<close>, \<open>flattenConfigProvenance\<close>,
  \<open>clearConfigProvenance\<close> and \<open>cloneConfigValue\<close>.  A document is what decoding into a
  \<open>map[string]any\<close> gives; the scalars of the two formats that the merge does not look into are
  opaque values.
\<close>

section \<open>Documents\<close>

datatype config_value =
    ConfigMap "(string \<times> config_value) list"
  | ConfigList "config_value list"
  | ConfigString string
  | ConfigBool bool
  | ConfigScalar string
  | ConfigNil

type_synonym config_map = "config_value string_map"

fun is_map :: "config_value \<Rightarrow> bool" where
  "is_map (ConfigMap m) = True"
| "is_map _ = False"

text \<open>Every map of a value is a Go map.\<close>

fun config_ok :: "config_value \<Rightarrow> bool" where
  "config_ok (ConfigMap m) \<longleftrightarrow> go_map m \<and> (\<forall>(k, v) \<in> set m. config_ok v)"
| "config_ok (ConfigList vs) \<longleftrightarrow> (\<forall>v \<in> set vs. config_ok v)"
| "config_ok _ \<longleftrightarrow> True"

text \<open>A deep copy: the values of the model share nothing, so it is the identity.\<close>

fun cloneConfigValue :: "config_value \<Rightarrow> config_value" where
  "cloneConfigValue (ConfigMap m) = ConfigMap (map (\<lambda>(k, v). (k, cloneConfigValue v)) m)"
| "cloneConfigValue (ConfigList vs) = ConfigList (map cloneConfigValue vs)"
| "cloneConfigValue v = v"

section \<open>Provenance\<close>

definition config_path :: "string \<Rightarrow> string \<Rightarrow> string" where
  "config_path prefix key = (if prefix \<noteq> [] then prefix @ CHR ''.'' # key else key)"

fun flattenConfigProvenance ::
  "config_map \<Rightarrow> string \<Rightarrow> string string_map \<Rightarrow> string \<Rightarrow> string string_map" where
  "flattenConfigProvenance [] prefix provenance source = provenance"
| "flattenConfigProvenance ((key, val) # document) prefix provenance source =
     (let path = config_path prefix key in
      flattenConfigProvenance document prefix
        (case val of
           ConfigMap nested \<Rightarrow> flattenConfigProvenance nested path provenance source
         | _ \<Rightarrow> if source \<noteq> [] then go_update path source provenance else provenance)
        source)"

definition under :: "string \<Rightarrow> string \<Rightarrow> bool" where
  "under prefix key \<longleftrightarrow> key = prefix \<or> strip_prefix (prefix @ ''.'') key \<noteq> None"

definition clearConfigProvenance :: "string string_map \<Rightarrow> string \<Rightarrow> string string_map" where
  "clearConfigProvenance provenance prefix = filter (\<lambda>(key, source). \<not> under prefix key) provenance"

section \<open>The merge\<close>

fun mergeConfigMaps ::
  "config_map \<Rightarrow> config_map \<Rightarrow> string \<Rightarrow> string string_map \<Rightarrow> string
   \<Rightarrow> config_map \<times> string string_map" where
  "mergeConfigMaps destination [] prefix provenance sourceLabel = (destination, provenance)"
| "mergeConfigMaps destination ((key, sourceValue) # source) prefix provenance sourceLabel =
     (let path = config_path prefix key;
          (destination', provenance') =
            (case (sourceValue, map_of destination key) of
               (ConfigMap sourceMap, Some (ConfigMap destinationMap)) \<Rightarrow>
                 (let (merged, provenance') =
                        mergeConfigMaps destinationMap sourceMap path provenance sourceLabel
                  in (go_update key (ConfigMap merged) destination, provenance'))
             | (ConfigMap sourceMap, _) \<Rightarrow>
                 (go_update key (cloneConfigValue sourceValue) destination,
                  flattenConfigProvenance sourceMap path (clearConfigProvenance provenance path)
                    sourceLabel)
             | _ \<Rightarrow>
                 (go_update key (cloneConfigValue sourceValue) destination,
                  go_update path sourceLabel (clearConfigProvenance provenance path)))
      in mergeConfigMaps destination' source prefix provenance' sourceLabel)"

section \<open>Cloning\<close>

lemma cloneConfigValue_id [simp]: "cloneConfigValue v = v"
proof (induction v rule: cloneConfigValue.induct)
  case (1 m)
  have "map (\<lambda>(k, v). (k, cloneConfigValue v)) m = m"
    by (rule map_idI) (use 1 in \<open>auto split: prod.splits\<close>)
  then show ?case by simp
next
  case (2 vs)
  have "map cloneConfigValue vs = vs"
    by (rule map_idI) (use 2 in auto)
  then show ?case by simp
qed simp_all

section \<open>Settings by path\<close>

text \<open>
  What a document says about a path of keys: its setting, when the path leads to a value that is not
  a map, and whether it decides the path, by a value at the path itself or by a setting above it.
\<close>

fun setting :: "config_map \<Rightarrow> string list \<Rightarrow> config_value option" where
  "setting m [] = None"
| "setting m (k # ks) =
     (case map_of m k of
        None \<Rightarrow> None
      | Some (ConfigMap m') \<Rightarrow> setting m' ks
      | Some v \<Rightarrow> if ks = [] then Some v else None)"

lemma setting_Nil [simp]: "setting [] p = None"
  by (cases p) simp_all

fun decides :: "config_map \<Rightarrow> string list \<Rightarrow> bool" where
  "decides m [] = False"
| "decides m (k # ks) =
     (case map_of m k of
        None \<Rightarrow> False
      | Some (ConfigMap m') \<Rightarrow> ks = [] \<or> decides m' ks
      | Some v \<Rightarrow> True)"

lemma setting_decides: "setting m p \<noteq> None \<Longrightarrow> decides m p"
proof (induction p arbitrary: m)
  case (Cons k ks)
  then show ?case by (auto split: option.splits config_value.splits)
qed simp

lemma undecided_setting: "\<not> decides m p \<Longrightarrow> setting m p = None"
  using setting_decides by blast

text \<open>The abstract merge: the later document's settings, and the earlier ones it does not decide.\<close>

definition overlay ::
  "(string list \<Rightarrow> config_value option) \<Rightarrow> config_map \<Rightarrow> string list \<Rightarrow> config_value option" where
  "overlay earlier later p = (if decides later p then setting later p else earlier p)"

text \<open>The document alone: it does not depend on the prefix, the provenance and the label.\<close>

fun merge_doc :: "config_map \<Rightarrow> config_map \<Rightarrow> config_map" where
  "merge_doc d [] = d"
| "merge_doc d ((k, sv) # s) =
     merge_doc (go_update k (case (sv, map_of d k) of
         (ConfigMap sm, Some (ConfigMap dm)) \<Rightarrow> ConfigMap (merge_doc dm sm)
       | _ \<Rightarrow> sv) d) s"

lemma fst_merge: "fst (mergeConfigMaps d s prefix provenance label) = merge_doc d s"
  by (induction d s prefix provenance label rule: mergeConfigMaps.induct)
    (auto simp: Let_def case_prod_beta split: option.splits config_value.splits)

lemma map_of_merge_doc:
  "distinct (map fst s) \<Longrightarrow>
     map_of (merge_doc d s) k =
       (case map_of s k of
          None \<Rightarrow> map_of d k
        | Some sv \<Rightarrow> Some (case (sv, map_of d k) of
            (ConfigMap sm, Some (ConfigMap dm)) \<Rightarrow> ConfigMap (merge_doc dm sm)
          | _ \<Rightarrow> sv))"
proof (induction s arbitrary: d)
  case (Cons e s)
  obtain k' sv where e: "e = (k', sv)" by (cases e)
  with Cons.prems have fresh: "map_of s k' = None" and s: "distinct (map fst s)"
    by (auto simp: map_of_eq_None_iff)
  show ?case
    unfolding e merge_doc.simps Cons.IH [OF s] using fresh by (cases "k = k'"; cases "map_of s k") auto
qed simp

lemma config_ok_lookup: "config_ok (ConfigMap d) \<Longrightarrow> map_of d k = Some v \<Longrightarrow> config_ok v"
  by (auto dest!: map_of_SomeD)

lemma set_go_update: "set (go_update k v d) \<subseteq> insert (k, v) (set d)"
  by (induction d) (auto split: if_splits)

lemma config_ok_update:
  assumes "config_ok (ConfigMap d)" and "config_ok v"
  shows "config_ok (ConfigMap (go_update k v d))"
proof -
  have "config_ok w" if "(l, w) \<in> set (go_update k v d)" for l w
    using set_go_update [of k v d] that assms by auto
  then show ?thesis using assms(1) by (auto simp: go_map_update)
qed

lemma merge_doc_ok:
  "config_ok (ConfigMap d) \<Longrightarrow> config_ok (ConfigMap s) \<Longrightarrow> config_ok (ConfigMap (merge_doc d s))"
proof (induction d s rule: merge_doc.induct)
  case (2 d k sv s)
  let ?v = "case (sv, map_of d k) of (ConfigMap sm, Some (ConfigMap dm)) \<Rightarrow> ConfigMap (merge_doc dm sm)
    | _ \<Rightarrow> sv"
  have s: "config_ok (ConfigMap s)" and sv: "config_ok sv"
    using "2.prems"(2) by (auto simp: go_map_Cons)
  have "config_ok ?v"
    using sv config_ok_lookup [OF "2.prems"(1), of k] "2.IH"(1)
    by (cases sv; cases "map_of d k") (auto split: config_value.splits simp del: config_ok.simps)
  then have "config_ok (ConfigMap (go_update k ?v d))"
    by (rule config_ok_update [OF "2.prems"(1)])
  then show ?case
    using "2.IH"(2) s by simp
qed simp

lemma setting_merge_doc:
  assumes "config_ok (ConfigMap s)"
  shows "setting (merge_doc d s) p = overlay (setting d) s p"
  using assms
proof (induction p arbitrary: d s)
  case (Cons k ks)
  have dist: "distinct (map fst s)"
    using Cons.prems by (simp add: go_map_def)
  have nested: "config_ok v" if "map_of s k = Some v" for v
    using Cons.prems map_of_SomeD [OF that] by fastforce
  show ?case
    using nested Cons.IH
    by (auto simp: map_of_merge_doc [OF dist] overlay_def undecided_setting
        split: option.splits config_value.splits)
qed (simp add: overlay_def)

section \<open>Provenance by path\<close>

text \<open>The result for one entry of the source, and the induction it gives.\<close>

definition merge_entry ::
  "config_map \<Rightarrow> string \<Rightarrow> config_value \<Rightarrow> string \<Rightarrow> string string_map \<Rightarrow> string
   \<Rightarrow> config_map \<times> string string_map" where
  "merge_entry d k sv path provenance label =
     (case (sv, map_of d k) of
        (ConfigMap sm, Some (ConfigMap dm)) \<Rightarrow>
          (go_update k (ConfigMap (merge_doc dm sm)) d,
           snd (mergeConfigMaps dm sm path provenance label))
      | (ConfigMap sm, _) \<Rightarrow>
          (go_update k sv d,
           flattenConfigProvenance sm path (clearConfigProvenance provenance path) label)
      | _ \<Rightarrow> (go_update k sv d, go_update path label (clearConfigProvenance provenance path)))"

lemma merge_Cons:
  "mergeConfigMaps d ((k, sv) # s) prefix provenance label =
     mergeConfigMaps (fst (merge_entry d k sv (config_path prefix k) provenance label)) s prefix
       (snd (merge_entry d k sv (config_path prefix k) provenance label)) label"
  by (simp add: merge_entry_def Let_def case_prod_beta fst_merge split: config_value.split option.split)

declare mergeConfigMaps.simps(2) [simp del]

lemma merge_induct [case_names Nil Cons]:
  assumes "\<And>d prefix provenance. P d [] prefix provenance"
    and "\<And>d k sv s prefix provenance.
      (\<And>sm dm. sv = ConfigMap sm \<Longrightarrow> map_of d k = Some (ConfigMap dm)
         \<Longrightarrow> P dm sm (config_path prefix k) provenance)
      \<Longrightarrow> (\<And>d1 provenance1. P d1 s prefix provenance1)
      \<Longrightarrow> P d ((k, sv) # s) prefix provenance"
  shows "P d s prefix provenance"
proof (induction "size (ConfigMap s)" arbitrary: d s prefix provenance rule: less_induct)
  case less
  show ?case
  proof (cases s)
    case Nil
    then show ?thesis using assms(1) by simp
  next
    case (Cons e rest)
    obtain k sv where e: "e = (k, sv)" by (cases e)
    show ?thesis
      unfolding Cons e by (rule assms(2)) (rule less; simp add: Cons e)+
  qed
qed

text \<open>The text of a path below a prefix, and the texts of the settings of a document.\<close>

definition path_text :: "string \<Rightarrow> string list \<Rightarrow> string" where
  "path_text prefix p = foldl config_path prefix p"

fun setting_texts :: "config_map \<Rightarrow> string \<Rightarrow> string set" where
  "setting_texts [] prefix = {}"
| "setting_texts ((k, v) # m) prefix =
     (case v of ConfigMap n \<Rightarrow> setting_texts n (config_path prefix k) | _ \<Rightarrow> {config_path prefix k})
     \<union> setting_texts m prefix"

lemma map_of_flatten:
  "label \<noteq> [] \<Longrightarrow> map_of (flattenConfigProvenance m prefix provenance label) q =
     (if q \<in> setting_texts m prefix then Some label else map_of provenance q)"
  by (induction m prefix provenance label rule: flattenConfigProvenance.induct)
    (auto simp: Let_def split: config_value.splits)

lemma setting_texts_setting:
  "setting m p \<noteq> None \<Longrightarrow> path_text prefix p \<in> setting_texts m prefix"
proof (induction m prefix arbitrary: p rule: setting_texts.induct)
  case (2 k v m prefix)
  from "2.prems" obtain k' ks where p: "p = k' # ks" by (cases p) auto
  show ?case
  proof (cases "k' = k")
    case True
    with p "2.prems" "2.IH"(1) [of _ ks] show ?thesis
      by (auto simp: path_text_def split: config_value.splits if_splits)
  next
    case False
    then have "setting m p \<noteq> None" using "2.prems" by (simp add: p)
    with "2.IH"(2) show ?thesis by simp
  qed
next
  case (1 prefix)
  then show ?case by (cases p) simp_all
qed

text \<open>
  Keys without dots, and not empty: for them the text of a path determines the path.
\<close>

definition clean_key :: "string \<Rightarrow> bool" where
  "clean_key k \<longleftrightarrow> k \<noteq> [] \<and> CHR ''.'' \<notin> set k"

fun config_clean :: "config_value \<Rightarrow> bool" where
  "config_clean (ConfigMap m) \<longleftrightarrow> (\<forall>(k, v) \<in> set m. clean_key k \<and> config_clean v)"
| "config_clean _ \<longleftrightarrow> True"

lemma under_iff: "under a q \<longleftrightarrow> q = a \<or> (\<exists>t. q = a @ CHR ''.'' # t)"
  using strip_prefix_Some_iff [of "a @ ''.''" q] by (cases "strip_prefix (a @ ''.'') q") (auto simp: under_def)

lemma under_obtain:
  assumes "under a q"
  obtains u where "q = a @ u" and "u = [] \<or> hd u = CHR ''.''"
  using assms by (metis append.right_neutral list.sel(1) under_iff)

lemma config_path_nonempty: "clean_key k \<Longrightarrow> config_path prefix k \<noteq> []"
  by (auto simp: config_path_def clean_key_def)

lemma under_config_path:
  assumes "prefix \<noteq> []" and "under (config_path prefix k) q"
  shows "under prefix q"
  using assms by (auto simp: under_iff config_path_def)

lemma path_text_under:
  assumes "prefix \<noteq> []"
  shows "under prefix (path_text prefix p)"
  using assms
proof (induction p arbitrary: prefix)
  case (Cons k ks)
  then have "under (config_path prefix k) (path_text (config_path prefix k) ks)"
    by (simp add: config_path_def)
  then show ?case using under_config_path [OF Cons.prems] by (simp add: path_text_def)
qed (simp add: path_text_def under_iff)

lemma takeWhile_dot:
  assumes "CHR ''.'' \<notin> set k" and "u = [] \<or> hd u = CHR ''.''"
  shows "takeWhile (\<lambda>c. c \<noteq> CHR ''.'') (k @ u) = k"
proof -
  have "takeWhile (\<lambda>c. c \<noteq> CHR ''.'') u = []"
    using assms(2) by (cases u) auto
  moreover have "\<And>c. c \<in> set k \<Longrightarrow> c \<noteq> CHR ''.''" using assms(1) by auto
  ultimately show ?thesis by (subst takeWhile_append2) auto
qed

lemma dot_free_prefix:
  assumes "CHR ''.'' \<notin> set k" and "CHR ''.'' \<notin> set k'"
    and "k @ u = k' @ v" and "u = [] \<or> hd u = CHR ''.''" and "v = [] \<or> hd v = CHR ''.''"
  shows "k = k'"
  using takeWhile_dot [OF assms(1,4)] takeWhile_dot [OF assms(2,5)] assms(3) by simp

lemma under_other_key:
  assumes "clean_key k" and "clean_key k'" and "under (config_path prefix k) q"
    and "under (config_path prefix k') q"
  shows "k = k'"
proof -
  from assms(3) obtain u where u: "q = config_path prefix k @ u" and "u = [] \<or> hd u = CHR ''.''"
    by (rule under_obtain)
  moreover from assms(4) obtain v where v: "q = config_path prefix k' @ v"
    and "v = [] \<or> hd v = CHR ''.''" by (rule under_obtain)
  moreover have "k @ u = k' @ v"
    using u v by (auto simp: config_path_def split: if_splits)
  ultimately show ?thesis
    using assms(1,2) dot_free_prefix [of k k' u v] by (simp add: clean_key_def)
qed

lemma setting_texts_under:
  "config_clean (ConfigMap m) \<Longrightarrow> q \<in> setting_texts m prefix \<Longrightarrow>
     \<exists>k \<in> fst ` set m. under (config_path prefix k) q"
proof (induction m prefix rule: setting_texts.induct)
  case (2 k v m prefix)
  show ?case
  proof (cases "q \<in> setting_texts m prefix")
    case True
    with 2 show ?thesis by auto
  next
    case False
    show ?thesis
    proof (cases v)
      case (ConfigMap n)
      with False "2.prems" "2.IH"(1) obtain k2 where "under (config_path (config_path prefix k) k2) q"
        by auto
      then have "under (config_path prefix k) q"
        using under_config_path config_path_nonempty "2.prems"(1) by auto
      then show ?thesis by auto
    qed (use False "2.prems" in \<open>auto simp: under_iff\<close>)
  qed
qed simp

lemma map_of_clear:
  "map_of (clearConfigProvenance provenance prefix) q = (if under prefix q then None else map_of provenance q)"
  by (induction provenance) (auto simp: clearConfigProvenance_def)

lemma config_clean_lookup: "config_clean (ConfigMap d) \<Longrightarrow> map_of d k = Some v \<Longrightarrow> config_clean v"
  by (auto dest!: map_of_SomeD)

text \<open>Texts outside the keys of the source keep their provenance.\<close>

lemma entry_local:
  assumes "label \<noteq> []" and "config_clean sv" and "path \<noteq> []" and "\<not> under path q"
    and nested: "\<And>sm dm. sv = ConfigMap sm \<Longrightarrow> map_of d k = Some (ConfigMap dm)
      \<Longrightarrow> map_of (snd (mergeConfigMaps dm sm path provenance label)) q = map_of provenance q"
  shows "map_of (snd (merge_entry d k sv path provenance label)) q = map_of provenance q"
proof (cases sv)
  case (ConfigMap sm)
  have "q \<notin> setting_texts sm path"
    using setting_texts_under [of sm q path] assms(2,4) under_config_path [OF assms(3)] ConfigMap by blast
  then have "map_of (flattenConfigProvenance sm path (clearConfigProvenance provenance path) label) q
      = map_of provenance q"
    using assms(4) by (simp add: map_of_flatten [OF assms(1)] map_of_clear)
  with ConfigMap nested show ?thesis
    by (auto simp: merge_entry_def split: option.split config_value.split)
qed (use assms(4) in \<open>auto simp: merge_entry_def map_of_clear under_iff\<close>)

lemma merge_provenance_outside:
  assumes "label \<noteq> []" and "config_clean (ConfigMap s)"
    and "\<forall>k \<in> fst ` set s. \<not> under (config_path prefix k) q"
  shows "map_of (snd (mergeConfigMaps d s prefix provenance label)) q = map_of provenance q"
  using assms(2,3)
proof (induction d s prefix provenance rule: merge_induct)
  case (Cons d k sv s prefix provenance)
  let ?path = "config_path prefix k"
  have clean: "clean_key k" "config_clean sv" "config_clean (ConfigMap s)"
    and out: "\<not> under ?path q" "\<forall>k \<in> fst ` set s. \<not> under (config_path prefix k) q"
    using Cons.prems by auto
  note path = config_path_nonempty [OF clean(1), of prefix]
  have "map_of (snd (merge_entry d k sv ?path provenance label)) q = map_of provenance q"
  proof (rule entry_local [OF assms(1) clean(2) path out(1)])
    fix sm dm assume sv: "sv = ConfigMap sm" and dm: "map_of d k = Some (ConfigMap dm)"
    have "\<forall>k2 \<in> fst ` set sm. \<not> under (config_path ?path k2) q"
      using out(1) under_config_path [OF path] by blast
    with clean(2) show "map_of (snd (mergeConfigMaps dm sm ?path provenance label)) q = map_of provenance q"
      unfolding sv by (rule Cons.IH(1) [OF sv dm])
  qed
  with Cons.IH(2) clean(3) out(2) show ?case
    by (simp add: merge_Cons)
qed simp

text \<open>What one entry does to the texts below its key.\<close>

lemma entry_exact:
  assumes "label \<noteq> []" and nested: "\<And>sm dm. sv = ConfigMap sm \<Longrightarrow> map_of d k = Some (ConfigMap dm)
      \<Longrightarrow> (setting sm ks \<noteq> None \<longrightarrow>
            map_of (snd (mergeConfigMaps dm sm path provenance label)) (path_text path ks) = Some label)
        \<and> (\<not> decides sm ks \<and> setting dm ks \<noteq> None \<longrightarrow>
            map_of (snd (mergeConfigMaps dm sm path provenance label)) (path_text path ks)
            = map_of provenance (path_text path ks))"
  shows "(setting ((k, sv) # s) (k # ks) \<noteq> None \<longrightarrow>
        map_of (snd (merge_entry d k sv path provenance label)) (path_text path ks) = Some label)
    \<and> (\<not> decides ((k, sv) # s) (k # ks) \<and> setting d (k # ks) \<noteq> None \<longrightarrow>
        map_of (snd (merge_entry d k sv path provenance label)) (path_text path ks)
        = map_of provenance (path_text path ks))"
proof (cases sv)
  case (ConfigMap sm)
  have flat: "setting sm ks \<noteq> None \<Longrightarrow>
      map_of (flattenConfigProvenance sm path p label) (path_text path ks) = Some label" for p
    using setting_texts_setting by (simp add: map_of_flatten [OF assms(1)])
  show ?thesis
    using nested ConfigMap flat
    by (auto simp: merge_entry_def split: option.splits config_value.splits)
qed (auto simp: merge_entry_def path_text_def split: if_splits)

lemma merge_provenance_exact:
  assumes "label \<noteq> []" and "config_clean (ConfigMap s)" and "config_ok (ConfigMap s)"
    and "\<forall>k \<in> set p. clean_key k"
  shows "(setting s p \<noteq> None \<longrightarrow>
        map_of (snd (mergeConfigMaps d s prefix provenance label)) (path_text prefix p) = Some label)
    \<and> (\<not> decides s p \<and> setting d p \<noteq> None \<longrightarrow>
        map_of (snd (mergeConfigMaps d s prefix provenance label)) (path_text prefix p)
        = map_of provenance (path_text prefix p))"
  using assms(2-)
proof (induction d s prefix provenance arbitrary: p rule: merge_induct)
  case (Cons d k sv s prefix provenance)
  show ?case
  proof (cases p)
    case p: (Cons k' ks)
    let ?path = "config_path prefix k" and ?q = "path_text prefix p"
    let ?e = "merge_entry d k sv (config_path prefix k) provenance label"
    have clean: "clean_key k" "config_clean sv" "config_clean (ConfigMap s)" "clean_key k'"
      and ok: "config_ok sv" "config_ok (ConfigMap s)" "k \<notin> fst ` set s"
      and ks: "\<forall>k \<in> set ks. clean_key k"
      using Cons.prems p by (auto simp: go_map_Cons)
    have q: "?q = path_text (config_path prefix k') ks" by (simp add: p path_text_def)
    have under_k': "under (config_path prefix k') ?q"
      unfolding q by (rule path_text_under) (rule config_path_nonempty [OF clean(4)])
    have step: "mergeConfigMaps d ((k, sv) # s) prefix provenance label
        = mergeConfigMaps (fst ?e) s prefix (snd ?e) label"
      by (simp add: merge_Cons)
    show ?thesis
    proof (cases "k' = k")
      case True
      have "\<not> under (config_path prefix k2) ?q" if "k2 \<in> fst ` set s" for k2
        using that ok(3) under_k' True under_other_key [of k2 k prefix ?q] clean(1,3) by fastforce
      then have out: "map_of (snd (mergeConfigMaps (fst ?e) s prefix (snd ?e) label)) (path_text ?path ks)
          = map_of (snd ?e) (path_text ?path ks)"
        using q True by (intro merge_provenance_outside [OF assms(1) clean(3)]) auto
      have q': "path_text prefix (k # ks) = path_text ?path ks"
        by (simp add: path_text_def)
      have p': "p = k # ks" by (simp add: p True)
      show ?thesis
        unfolding step p' q' out
      proof (rule entry_exact [OF assms(1)])
        fix sm dm assume "sv = ConfigMap sm" and "map_of d k = Some (ConfigMap dm)"
        then show "(setting sm ks \<noteq> None \<longrightarrow>
            map_of (snd (mergeConfigMaps dm sm ?path provenance label)) (path_text ?path ks) = Some label)
          \<and> (\<not> decides sm ks \<and> setting dm ks \<noteq> None \<longrightarrow>
            map_of (snd (mergeConfigMaps dm sm ?path provenance label)) (path_text ?path ks)
            = map_of provenance (path_text ?path ks))"
          using Cons.IH(1) clean(2) ok(1) ks by blast
      qed
    next
      case False
      have "\<not> under ?path ?q"
        using False under_k' under_other_key [OF clean(1,4)] by blast
      then have out: "map_of (snd ?e) ?q = map_of provenance ?q"
      proof (rule entry_local [OF assms(1) clean(2) config_path_nonempty [OF clean(1)]])
        fix sm dm assume "sv = ConfigMap sm"
        then show "map_of (snd (mergeConfigMaps dm sm ?path provenance label)) ?q = map_of provenance ?q"
          using clean(2) \<open>\<not> under ?path ?q\<close> under_config_path [OF config_path_nonempty [OF clean(1)]]
          by (intro merge_provenance_outside [OF assms(1)]) blast+
      qed
      moreover have "setting (fst ?e) p = setting d p"
        using False by (auto simp: merge_entry_def p split: config_value.split option.split)
      ultimately show ?thesis
        using Cons.IH(2) [OF clean(3) ok(2) Cons.prems(3), of "fst ?e" "snd ?e"]
          False unfolding step by (simp add: p)
    qed
  qed simp
qed (auto split: list.split)

section \<open>Properties\<close>

text \<open>
  C33. Merging refines the overlay of settings: what the merged document sets at a path is what the
  later document sets there (possibly nothing), if it decides the path by a value at the path or a setting
  above it, and what the earlier one sets otherwise, whatever prefix, provenance and label the merge runs
  with.  Merging well-formed documents gives a well-formed one.
\<close>

theorem merge_refines_overlay:
  assumes "config_ok (ConfigMap destination)" and "config_ok (ConfigMap source)"
  shows "setting (fst (mergeConfigMaps destination source prefix provenance label)) =
      overlay (setting destination) source
    \<and> config_ok (ConfigMap (fst (mergeConfigMaps destination source prefix provenance label)))"
  using setting_merge_doc [OF assms(2)] merge_doc_ok [OF assms] by (auto simp: fst_merge)

text \<open>
  Provenance names the last writer: when no key is empty or contains a dot, every setting of the
  merged document is attributed to the source label if the source set it, and keeps the attribution it
  had otherwise.
\<close>

lemma merge_provenance_last_writer:
  assumes "label \<noteq> []" and "config_clean (ConfigMap destination)" and "config_clean (ConfigMap source)"
    and "config_ok (ConfigMap destination)" and "config_ok (ConfigMap source)"
    and "mergeConfigMaps destination source [] provenance label = (merged, provenance')"
    and "setting merged p \<noteq> None"
  shows "map_of provenance' (path_text [] p) =
    (if setting source p \<noteq> None then Some label else map_of provenance (path_text [] p))"
proof -
  have merged: "setting merged p = overlay (setting destination) source p"
    using setting_merge_doc [OF assms(5)] fst_merge [of destination source "[]" provenance label] assms(6)
    by simp
  have keys: "\<forall>k \<in> set q. clean_key k" if "setting m q \<noteq> None" "config_clean (ConfigMap m)" for m q
    using that
  proof (induction q arbitrary: m)
    case (Cons k ks)
    then obtain v where v: "map_of m k = Some v" by (auto split: option.splits)
    then have "clean_key k" and "config_clean v"
      using Cons.prems(2) by (auto dest!: map_of_SomeD)
    with Cons v show ?case by (auto split: config_value.splits if_splits simp del: config_clean.simps)
  qed simp
  have clean: "\<forall>k \<in> set p. clean_key k"
    using assms(2,3,7) keys unfolding merged by (auto simp: overlay_def split: if_splits)
  have exact: "(setting source p \<noteq> None \<longrightarrow> map_of provenance' (path_text [] p) = Some label)
      \<and> (\<not> decides source p \<and> setting destination p \<noteq> None \<longrightarrow>
          map_of provenance' (path_text [] p) = map_of provenance (path_text [] p))"
    using merge_provenance_exact [OF assms(1,3,5) clean, of destination "[]" provenance] assms(6) by simp
  then show ?thesis
    using assms(7) unfolding merged by (auto simp: overlay_def split: if_splits)
qed

text \<open>Two documents: the second replaces a nested setting and adds one.\<close>

definition base_document :: config_map where
  "base_document =
     [(''editor'', ConfigMap [(''font'', ConfigString ''mono''), (''size'', ConfigScalar ''12'')])]"

definition team_document :: config_map where
  "team_document =
     [(''editor'', ConfigMap [(''size'', ConfigScalar ''14'')]), (''theme'', ConfigString ''dark'')]"

lemmas document_eval = base_document_def team_document_def go_map_def config_path_def path_text_def
  mergeConfigMaps.simps(2) under_def clearConfigProvenance_def clean_key_def Let_def

lemma documents_ok:
  "config_ok (ConfigMap base_document)" "config_ok (ConfigMap team_document)"
  "config_clean (ConfigMap base_document)" "config_clean (ConfigMap team_document)"
  by (simp_all add: document_eval list_less_def lexord_def)

theorem merge_refines_overlay_witness:
  "setting (fst (mergeConfigMaps base_document team_document [] [] ''team'')) [''editor'', ''font'']
     = Some (ConfigString ''mono'')
   \<and> setting (fst (mergeConfigMaps base_document team_document [] [] ''team'')) [''editor'', ''size'']
     = Some (ConfigScalar ''14'')"
  using merge_refines_overlay [OF documents_ok(1,2)]
  by (simp add: overlay_def base_document_def team_document_def)

text \<open>
  With a dot in a key the attribution can be lost: the earlier document has the settings \<open>a\<close> and
  \<open>a.b\<close>, two keys of its top level; a later document that sets only \<open>a\<close> leaves the setting
  \<open>a.b\<close> in place and removes its provenance.
\<close>

lemma dotted_key_loses_provenance:
  "mergeConfigMaps [(''a'', ConfigBool True), (''a.b'', ConfigBool True)] [(''a'', ConfigBool False)] []
     [(''a'', ''base''), (''a.b'', ''base'')] ''team''
   = ([(''a'', ConfigBool False), (''a.b'', ConfigBool True)], [(''a'', ''team'')])"
  by (simp add: document_eval)

end
