(* ===== verification/Composition.thy ===== *)
theory Composition
  imports Capsule_Locks Config_Merge
begin

text \<open>
  Composition of Capsules (\<open>libs/domain/capsule_composition.go\<close> and the end of
  \<open>libs/domain/capsule_lock.go\<close>): the Components of an ordered list of Capsules and of the project
  Capsule, resolved to one Component per ID.  Equal layers are kept, configuration documents of the same
  format are merged, everything else that shares an ID is a conflict.

  Decoding and encoding of documents (\<open>encoding/json\<close> on \<open>map[string]any\<close> and \<open>go-toml\<close>) is
  an argument, \<open>config_codec\<close>; the theorems hold for every codec.
\<close>

section \<open>Data\<close>

record capsule_component_set =
  ccs_Ref :: string
  ccs_Digest :: string
  ccs_Exclusions :: "string list"
  ccs_Components :: "component list"

datatype resolution_classification = AutoSafe | RequiresReview

record component_contribution =
  con_source :: capsule_component_set
  con_component :: component
  con_label :: string

record component_conflict =
  conf_ID :: string
  conf_Capsules :: "string list"
  conf_Digests :: "string list"

record component_composition_result =
  ccr_Components :: "component string_map"
  ccr_ResolvedComponents :: "component string_map"
  ccr_Classification :: resolution_classification
  ccr_PermissionPolicyDigest :: string
  ccr_ComponentCapsuleDigests :: "string string_map"
  ccr_ComponentSources :: "resolved_component_source list string_map"

datatype composition_error =
    ComponentInvalid string component_error
  | ComponentConflictError "string list" "component_conflict list"

datatype config_error =
    ConfigParseJSON
  | ConfigObjectRequired
  | ConfigParseTOML
  | ConfigNotMergeable string
  | ConfigFormatsDiffer string string
  | ConfigEncode
  | ConfigSourceRequired
  | ConfigSource nat config_error

text \<open>
  The decoders return \<open>None\<close> for an error; the JSON one \<open>Some None\<close> for the value \<open>null\<close>.
\<close>

record config_codec =
  codec_json_decode :: "bytes \<Rightarrow> config_map option option"
  codec_json_encode :: "config_map \<Rightarrow> bytes option"
  codec_toml_decode :: "bytes \<Rightarrow> config_map option"
  codec_toml_encode :: "config_map \<Rightarrow> bytes option"

section \<open>Configuration formats\<close>

text \<open>
  \<open>strings.ToLower\<close> on ASCII letters.  No other rune has a letter of \<open>toml\<close> or \<open>json\<close> as
  its lower case, so the search for these words sees the same occurrences.
\<close>

definition ascii_lower :: "char \<Rightarrow> char" where
  "ascii_lower c = (if of_char c \<ge> (65 :: nat) \<and> of_char c \<le> (90 :: nat) then char_of (of_char c + 32 :: nat) else c)"

fun contains :: "bytes \<Rightarrow> bytes \<Rightarrow> bool" where
  "contains word [] \<longleftrightarrow> word = []"
| "contains word (c # s) \<longleftrightarrow> strip_prefix word (c # s) \<noteq> None \<or> contains word s"

definition configFormat :: "string \<Rightarrow> bytes \<Rightarrow> string" where
  "configFormat mediaType content =
     (let lowered = map ascii_lower mediaType in
      if contains ''toml'' lowered then ''toml''
      else if contains ''json'' lowered then ''json''
      else if strip_prefix ''{'' (trim_space content) \<noteq> None then ''json''
      else [])"

definition parseConfigDocument ::
  "config_codec \<Rightarrow> string \<Rightarrow> bytes \<Rightarrow> config_error + config_map \<times> string" where
  "parseConfigDocument codec mediaType content =
     (let format = configFormat mediaType content in
      if format = ''json''
      then case codec_json_decode codec content of
             None \<Rightarrow> Inl ConfigParseJSON
           | Some None \<Rightarrow> Inl ConfigObjectRequired
           | Some (Some document) \<Rightarrow> Inr (document, format)
      else if format = ''toml''
      then case codec_toml_decode codec content of
             None \<Rightarrow> Inl ConfigParseTOML
           | Some document \<Rightarrow> Inr (document, format)
      else Inl (ConfigNotMergeable mediaType))"

definition marshalConfigDocument :: "config_codec \<Rightarrow> config_map \<Rightarrow> string \<Rightarrow> bytes option" where
  "marshalConfigDocument codec document format =
     (if format = ''json'' then codec_json_encode codec document else codec_toml_encode codec document)"

definition digestBytes :: "bytes \<Rightarrow> string" where
  "digestBytes val = sha256_digest val"

section \<open>Merging two Components\<close>

definition cloneComponent :: "component \<Rightarrow> component" where
  "cloneComponent component =
     component\<lparr>com_Requirements :=
       \<lparr>reqs_Commands = clone_slice (reqs_Commands (com_Requirements component)),
        reqs_Secrets = clone_slice (reqs_Secrets (com_Requirements component))\<rparr>\<rparr>"

definition mergeableConfig :: "component \<Rightarrow> component \<Rightarrow> bool" where
  "mergeableConfig left right =
     (if com_Type left \<noteq> ComponentConfig \<or> com_Type right \<noteq> ComponentConfig
         \<or> com_Content left = [] \<or> com_Content right = []
      then False
      else
        let leftFormat = configFormat (com_MediaType left) (com_Content left);
            rightFormat = configFormat (com_MediaType right) (com_Content right)
        in leftFormat \<noteq> [] \<and> leftFormat = rightFormat)"

definition moreRestrictiveScope :: "component_scope \<Rightarrow> component_scope \<Rightarrow> component_scope" where
  "moreRestrictiveScope left right =
     (if left = ScopeProject \<or> right = ScopeProject then ScopeProject else ScopeUser)"

text \<open>A nil provenance is the empty map: flattening with an empty source adds nothing to it.\<close>

definition mergeConfigComponents ::
  "config_codec \<Rightarrow> component \<Rightarrow> component \<Rightarrow> string \<Rightarrow> config_error + component" where
  "mergeConfigComponents codec left right source =
     (case parseConfigDocument codec (com_MediaType left) (com_Content left) of
        Inl err \<Rightarrow> Inl err
      | Inr (leftDocument, format) \<Rightarrow>
          (case parseConfigDocument codec (com_MediaType right) (com_Content right) of
             Inl err \<Rightarrow> Inl err
           | Inr (rightDocument, rightFormat) \<Rightarrow>
               if format \<noteq> rightFormat then Inl (ConfigFormatsDiffer format rightFormat)
               else
                 let provenance =
                       (if com_Provenance left = []
                        then flattenConfigProvenance leftDocument [] [] []
                        else com_Provenance left);
                     (merged, provenance') =
                       mergeConfigMaps leftDocument rightDocument [] provenance source
                 in case marshalConfigDocument codec merged format of
                      None \<Rightarrow> Inl ConfigEncode
                    | Some encoded \<Rightarrow>
                        Inr ((cloneComponent left)
                          \<lparr>com_Content := encoded, com_SizeBytes := of_nat (length encoded),
                           com_Digest := digestBytes encoded,
                           com_Scope := moreRestrictiveScope (com_Scope left) (com_Scope right),
                           com_Provenance := provenance'\<rparr>)))"

fun merge_contents ::
  "config_codec \<Rightarrow> string \<Rightarrow> string \<Rightarrow> nat \<Rightarrow> config_map \<Rightarrow> bytes list \<Rightarrow> config_error + config_map" where
  "merge_contents codec mediaType format index document [] = Inr document"
| "merge_contents codec mediaType format index document (content # contents) =
     (case parseConfigDocument codec mediaType content of
        Inl err \<Rightarrow> Inl (ConfigSource index err)
      | Inr (sourceDocument, sourceFormat) \<Rightarrow>
          if sourceFormat \<noteq> format then Inl (ConfigFormatsDiffer format sourceFormat)
          else merge_contents codec mediaType format (Suc index)
                 (fst (mergeConfigMaps document sourceDocument [] [] [])) contents)"

definition MergeConfigContents ::
  "config_codec \<Rightarrow> string \<Rightarrow> bytes list \<Rightarrow> config_error + bytes" where
  "MergeConfigContents codec mediaType contents =
     (case contents of
        [] \<Rightarrow> Inl ConfigSourceRequired
      | first # rest \<Rightarrow>
          (case parseConfigDocument codec mediaType first of
             Inl err \<Rightarrow> Inl err
           | Inr (document, format) \<Rightarrow>
               (case merge_contents codec mediaType format 1 document rest of
                  Inl err \<Rightarrow> Inl err
                | Inr merged \<Rightarrow>
                    (case marshalConfigDocument codec merged format of
                       None \<Rightarrow> Inl ConfigEncode
                     | Some encoded \<Rightarrow> Inr encoded))))"

section \<open>Composing the contributions to one ID\<close>

definition sameStringSet :: "slice \<Rightarrow> slice \<Rightarrow> bool" where
  "sameStringSet left right \<longleftrightarrow>
     length (elems left) = length (elems right) \<and> sort (elems left) = sort (elems right)"

text \<open>The provenance of a configuration document starts with its first contributor.\<close>

definition initial_component :: "config_codec \<Rightarrow> component_contribution \<Rightarrow> component" where
  "initial_component codec part =
     (let resolved = cloneComponent (con_component part) in
      if com_Content resolved \<noteq> []
         \<and> configFormat (com_MediaType resolved) (com_Content resolved) \<noteq> []
      then case parseConfigDocument codec (com_MediaType resolved) (com_Content resolved) of
             Inl err \<Rightarrow> resolved
           | Inr (document, format) \<Rightarrow>
               resolved\<lparr>com_Provenance := flattenConfigProvenance document [] [] (con_label part)\<rparr>
      else resolved)"

text \<open>
  The loop over the later contributions.  Layers with the digest of the current result are skipped,
  whether or not their secrets agree.
\<close>

fun compose_rest ::
  "config_codec \<Rightarrow> component \<Rightarrow> string \<Rightarrow> component_contribution list \<Rightarrow> (component \<times> string) option" where
  "compose_rest codec resolved sourceDigest [] = Some (resolved, sourceDigest)"
| "compose_rest codec resolved sourceDigest (part # parts) =
     (let nxt = con_component part in
      if com_Digest resolved = com_Digest nxt
      then if \<not> sameStringSet (reqs_Secrets (com_Requirements resolved)) (reqs_Secrets (com_Requirements nxt))
           then compose_rest codec resolved sourceDigest parts
           else compose_rest codec resolved sourceDigest parts
      else if mergeableConfig resolved nxt
      then case mergeConfigComponents codec resolved nxt (con_label part) of
             Inl err \<Rightarrow> None
           | Inr merged \<Rightarrow> compose_rest codec merged (ccs_Digest (con_source part)) parts
      else None)"

text \<open>The contributions to an ID are never empty: the first one and the rest.\<close>

type_synonym contributions = "component_contribution \<times> component_contribution list"

definition all_parts :: "contributions \<Rightarrow> component_contribution list" where
  "all_parts parts = fst parts # snd parts"

definition composeContributions ::
  "config_codec \<Rightarrow> contributions
   \<Rightarrow> component_conflict + component \<times> string \<times> resolved_component_source list" where
  "composeContributions codec parts =
     (let resolved = initial_component codec (fst parts);
          conflict = \<lparr>conf_ID = com_ID resolved, conf_Capsules = map con_label (all_parts parts),
                      conf_Digests = map (\<lambda>part. com_Digest (con_component part)) (all_parts parts)\<rparr>;
          sources = map (\<lambda>part. \<lparr>rcs_CapsuleDigest = ccs_Digest (con_source part),
                                  rcs_ComponentDigest = com_Digest (con_component part)\<rparr>) (all_parts parts)
      in case compose_rest codec resolved (ccs_Digest (con_source (fst parts))) (snd parts) of
           None \<Rightarrow> Inl conflict
         | Some (component, sourceDigest) \<Rightarrow> Inr (component, sourceDigest, sources))"

section \<open>Resolution\<close>

definition componentRequiresReview :: "component \<Rightarrow> bool" where
  "componentRequiresReview component \<longleftrightarrow>
     com_TrustClass component = TrustPermission \<or> com_Type component = ComponentIntegration
     \<or> com_Type component = ComponentPermissionPolicy \<or> com_Type component = ComponentHook
     \<or> com_Type component = ComponentExtension
     \<or> length (elems (reqs_Secrets (com_Requirements component))) > 0"

definition capsuleSourceLabel :: "capsule_component_set \<Rightarrow> nat \<Rightarrow> string" where
  "capsuleSourceLabel source index =
     (if \<not> blank (ccs_Ref source) then ccs_Ref source
      else if \<not> blank (ccs_Digest source) then ccs_Digest source
      else ''capsule['' @ decimal_digits index @ '']'')"

record resolve_state =
  rs_contributions :: "contributions string_map"
  rs_classification :: resolution_classification
  rs_permissions :: "component_contribution list"

definition append_contribution ::
  "component_contribution \<Rightarrow> contributions string_map \<Rightarrow> contributions string_map" where
  "append_contribution part m =
     (let cid = com_ID (con_component part) in
      case map_of m cid of
        None \<Rightarrow> go_update cid (part, []) m
      | Some (first, rest) \<Rightarrow> go_update cid (first, rest @ [part]) m)"

definition contribute ::
  "capsule_component_set \<Rightarrow> string \<Rightarrow> component \<Rightarrow> resolve_state \<Rightarrow> resolve_state" where
  "contribute source label component state =
     (let part = \<lparr>con_source = source, con_component = cloneComponent component, con_label = label\<rparr> in
      \<lparr>rs_contributions = append_contribution part (rs_contributions state),
       rs_classification =
         (if componentRequiresReview component then RequiresReview else rs_classification state),
       rs_permissions =
         (if com_Type component = ComponentPermissionPolicy \<or> com_TrustClass component = TrustPermission
          then rs_permissions state @ [part] else rs_permissions state)\<rparr>)"

fun add_components ::
  "capsule_component_set \<Rightarrow> string \<Rightarrow> resolve_state \<Rightarrow> component list
   \<Rightarrow> (resolution_classification \<times> composition_error) + resolve_state" where
  "add_components source label state [] = Inr state"
| "add_components source label state (component # components) =
     (if com_ID component \<in> set (ccs_Exclusions source)
      then add_components source label state components
      else case Validate component of
        Some err \<Rightarrow> Inl (rs_classification state, ComponentInvalid (com_ID component) err)
      | None \<Rightarrow> add_components source label (contribute source label component state) components)"

fun add_sources ::
  "nat \<Rightarrow> resolve_state \<Rightarrow> capsule_component_set list
   \<Rightarrow> (resolution_classification \<times> composition_error) + resolve_state" where
  "add_sources index state [] = Inr state"
| "add_sources index state (source # sources) =
     (case add_components source (capsuleSourceLabel source index) state (ccs_Components source) of
        Inl err \<Rightarrow> Inl err
      | Inr state' \<Rightarrow> add_sources (Suc index) state' sources)"

definition effectivePermissionPolicyDigest :: "component_contribution list \<Rightarrow> string" where
  "effectivePermissionPolicyDigest parts =
     digestBytes (json_array
       (map (\<lambda>part. json_object
          [(''ID'', json_string (com_ID (con_component part))),
           (''Digest'', json_string (com_Digest (con_component part))),
           (''Capsule'', json_string (con_label part))])
        (sort_key (\<lambda>part. [com_ID (con_component part), com_Digest (con_component part)]) parts)))"

text \<open>The loop over the IDs in ascending order.\<close>

fun compose_all ::
  "config_codec \<Rightarrow> component_composition_result \<Rightarrow> component_conflict list \<Rightarrow> contributions string_map
   \<Rightarrow> component_composition_result \<times> component_conflict list" where
  "compose_all codec result conflicts [] = (result, conflicts)"
| "compose_all codec result conflicts ((cid, parts) # entries) =
     (case composeContributions codec parts of
        Inl conflict \<Rightarrow> compose_all codec result (conflicts @ [conflict]) entries
      | Inr (resolved, sourceDigest, sources) \<Rightarrow>
          compose_all codec
            (result\<lparr>ccr_Components := go_update cid resolved (ccr_Components result),
                    ccr_ComponentCapsuleDigests :=
                      go_update cid sourceDigest (ccr_ComponentCapsuleDigests result),
                    ccr_ComponentSources := go_update cid sources (ccr_ComponentSources result)\<rparr>)
            conflicts entries)"

definition empty_result :: "resolution_classification \<Rightarrow> component_composition_result" where
  "empty_result classification =
     \<lparr>ccr_Components = [], ccr_ResolvedComponents = [], ccr_Classification = classification,
      ccr_PermissionPolicyDigest = [], ccr_ComponentCapsuleDigests = [], ccr_ComponentSources = []\<rparr>"

definition empty_state :: resolve_state where
  "empty_state = \<lparr>rs_contributions = [], rs_classification = AutoSafe, rs_permissions = []\<rparr>"

definition all_sources ::
  "capsule_component_set list \<Rightarrow> capsule_component_set option \<Rightarrow> capsule_component_set list" where
  "all_sources capsules project = capsules @ (case project of None \<Rightarrow> [] | Some source \<Rightarrow> [source])"

definition ResolveCapsuleComposition ::
  "config_codec \<Rightarrow> capsule_component_set list \<Rightarrow> capsule_component_set option
   \<Rightarrow> component_composition_result \<times> composition_error option" where
  "ResolveCapsuleComposition codec capsules project =
     (case add_sources 0 empty_state (all_sources capsules project) of
        Inl (classification, err) \<Rightarrow> (empty_result classification, Some err)
      | Inr state \<Rightarrow>
          let (composed, conflicts) =
                compose_all codec (empty_result (rs_classification state)) [] (rs_contributions state);
              reviewed =
                (if rs_permissions state \<noteq> []
                 then composed\<lparr>ccr_PermissionPolicyDigest :=
                                 effectivePermissionPolicyDigest (rs_permissions state),
                               ccr_Classification := RequiresReview\<rparr>
                 else composed);
              result = reviewed\<lparr>ccr_ResolvedComponents := ccr_Components reviewed\<rparr>
          in if conflicts \<noteq> []
             then (result, Some (ComponentConflictError (map conf_ID conflicts) conflicts))
             else (result, None))"

definition ResolveComponents ::
  "config_codec \<Rightarrow> component list list
   \<Rightarrow> component string_map option \<times> resolution_classification \<times> composition_error option" where
  "ResolveComponents codec ordered =
     (let sets = map (\<lambda>(index, components).
                       \<lparr>ccs_Ref = ''capsule['' @ decimal_digits index @ '']'', ccs_Digest = [],
                        ccs_Exclusions = [], ccs_Components = components\<rparr>)
                   (List.enumerate 0 ordered);
          (result, err) = ResolveCapsuleComposition codec sets None
      in case err of
           Some e \<Rightarrow> (None, ccr_Classification result, Some e)
         | None \<Rightarrow> (Some (ccr_Components result), ccr_Classification result, None))"

section \<open>Which Components take part\<close>

definition source_parts :: "capsule_component_set \<Rightarrow> string \<Rightarrow> component list \<Rightarrow> component_contribution list" where
  "source_parts source label components =
     map (\<lambda>c. \<lparr>con_source = source, con_component = cloneComponent c, con_label = label\<rparr>)
       (filter (\<lambda>c. com_ID c \<notin> set (ccs_Exclusions source)) components)"

fun all_source_parts :: "nat \<Rightarrow> capsule_component_set list \<Rightarrow> component_contribution list" where
  "all_source_parts index [] = []"
| "all_source_parts index (source # sources) =
     source_parts source (capsuleSourceLabel source index) (ccs_Components source)
     @ all_source_parts (Suc index) sources"

definition included :: "capsule_component_set list \<Rightarrow> component list" where
  "included sources =
     concat (map (\<lambda>source. filter (\<lambda>c. com_ID c \<notin> set (ccs_Exclusions source)) (ccs_Components source))
       sources)"

lemma clone_fields [simp]:
  "com_ID (cloneComponent c) = com_ID c" "com_Type (cloneComponent c) = com_Type c"
  "com_Digest (cloneComponent c) = com_Digest c" "com_Content (cloneComponent c) = com_Content c"
  "com_TrustClass (cloneComponent c) = com_TrustClass c"
  by (simp_all add: cloneComponent_def)

lemma elems_clone_slice [simp]: "elems (clone_slice s) = elems s"
  by (auto simp: clone_slice_def elems_def split: option.splits)

lemma clone_requires_review [simp]:
  "componentRequiresReview (cloneComponent c) = componentRequiresReview c"
  by (simp add: componentRequiresReview_def cloneComponent_def)

lemma included_parts: "map con_component (all_source_parts index sources) = map cloneComponent (included sources)"
  by (induction index sources rule: all_source_parts.induct)
    (simp_all add: included_def source_parts_def comp_def)

text \<open>What the collected state holds after the contributions \<open>parts\<close>.\<close>

definition parts_for :: "string \<Rightarrow> component_contribution list \<Rightarrow> component_contribution list" where
  "parts_for cid parts = filter (\<lambda>part. com_ID (con_component part) = cid) parts"

definition permission_part :: "component_contribution \<Rightarrow> bool" where
  "permission_part part \<longleftrightarrow>
     com_Type (con_component part) = ComponentPermissionPolicy
     \<or> com_TrustClass (con_component part) = TrustPermission"

definition collected :: "resolve_state \<Rightarrow> component_contribution list \<Rightarrow> bool" where
  "collected state parts \<longleftrightarrow>
     go_map (rs_contributions state)
     \<and> (\<forall>cid. map_option all_parts (map_of (rs_contributions state) cid)
           = (if parts_for cid parts = [] then None else Some (parts_for cid parts)))
     \<and> (rs_classification state = RequiresReview \<longleftrightarrow>
           list_ex (\<lambda>part. componentRequiresReview (con_component part)) parts)
     \<and> rs_permissions state = filter permission_part parts"

lemma collected_empty: "collected empty_state []"
  by (simp add: collected_def empty_state_def parts_for_def)

lemma append_contribution_collected:
  assumes "\<forall>cid. map_option all_parts (map_of m cid)
      = (if parts_for cid parts = [] then None else Some (parts_for cid parts))"
  shows "map_option all_parts (map_of (append_contribution part m) cid)
      = (if parts_for cid (parts @ [part]) = [] then None else Some (parts_for cid (parts @ [part])))"
proof (cases "cid = com_ID (con_component part)")
  case True
  then show ?thesis
    using assms [rule_format, of cid]
    by (cases "map_of m cid")
      (auto simp: append_contribution_def Let_def parts_for_def all_parts_def split: if_splits prod.splits)
next
  case False
  then show ?thesis
    using assms [rule_format, of cid]
    by (auto simp: append_contribution_def Let_def parts_for_def split: option.splits prod.splits)
qed

lemma contribute_collected:
  assumes "collected state parts"
  shows "collected (contribute source label c state)
    (parts @ [\<lparr>con_source = source, con_component = cloneComponent c, con_label = label\<rparr>])"
proof -
  let ?part = "\<lparr>con_source = source, con_component = cloneComponent c, con_label = label\<rparr>"
  have "go_map (append_contribution ?part (rs_contributions state))"
    using assms by (auto simp: collected_def append_contribution_def Let_def go_map_update
        split: option.split prod.split)
  with assms append_contribution_collected [of "rs_contributions state" parts ?part] show ?thesis
    by (auto simp: collected_def contribute_def Let_def permission_part_def)
qed

lemma add_components_collected:
  "add_components source label state components = Inr state' \<Longrightarrow> collected state parts
   \<Longrightarrow> collected state' (parts @ source_parts source label components)
     \<and> list_all (\<lambda>c. com_ID c \<in> set (ccs_Exclusions source) \<or> Validate c = None) components"
proof (induction components arbitrary: state parts)
  case (Cons c cs)
  show ?case
  proof (cases "com_ID c \<in> set (ccs_Exclusions source)")
    case True
    with Cons show ?thesis by (simp add: source_parts_def)
  next
    case False
    with Cons.prems(1) have valid: "Validate c = None"
      and rest: "add_components source label (contribute source label c state) cs = Inr state'"
      by (auto split: option.splits)
    from Cons.IH [OF rest contribute_collected [OF Cons.prems(2)]] False valid show ?thesis
      by (simp add: source_parts_def)
  qed
qed (simp add: source_parts_def)

lemma add_sources_collected:
  "add_sources index state sources = Inr state' \<Longrightarrow> collected state parts
   \<Longrightarrow> collected state' (parts @ all_source_parts index sources)
     \<and> list_all (\<lambda>c. Validate c = None) (included sources)"
proof (induction index state sources arbitrary: parts rule: add_sources.induct)
  case (2 index state source sources)
  from "2.prems"(1) obtain mid
    where mid: "add_components source (capsuleSourceLabel source index) state (ccs_Components source) = Inr mid"
      and rest: "add_sources (Suc index) mid sources = Inr state'"
    by (auto split: sum.splits)
  note first = add_components_collected [OF mid "2.prems"(2)]
  from "2.IH" [OF mid rest conjunct1 [OF first]] conjunct2 [OF first] show ?case
    by (auto simp: included_def list_all_iff)
qed (simp add: included_def)

section \<open>Composing\<close>

lemma initial_fields [simp]:
  "com_ID (initial_component codec part) = com_ID (con_component part)"
  "com_Type (initial_component codec part) = com_Type (con_component part)"
  "com_Digest (initial_component codec part) = com_Digest (con_component part)"
  by (auto simp: initial_component_def Let_def split: sum.split prod.split)

lemma mergeConfigComponents_fields:
  "mergeConfigComponents codec left right source = Inr merged \<Longrightarrow>
     com_ID merged = com_ID left \<and> com_Type merged = com_Type left"
  by (auto simp: mergeConfigComponents_def Let_def split: sum.splits prod.splits if_splits option.splits)

lemma compose_rest_fields:
  "compose_rest codec resolved digest parts = Some (r, digest') \<Longrightarrow>
     com_ID r = com_ID resolved \<and> com_Type r = com_Type resolved"
  by (induction codec resolved digest parts rule: compose_rest.induct)
    (auto simp: Let_def split: if_splits sum.splits dest!: mergeConfigComponents_fields)

lemma compose_rest_same_digest:
  "compose_rest codec resolved digest parts = Some (r, digest') \<Longrightarrow> com_Type resolved \<noteq> ComponentConfig
   \<Longrightarrow> r = resolved \<and> list_all (\<lambda>part. com_Digest (con_component part) = com_Digest resolved) parts"
  by (induction codec resolved digest parts rule: compose_rest.induct)
    (auto simp: Let_def mergeableConfig_def split: if_splits)

lemma composeContributions_Inr:
  assumes "composeContributions codec parts = Inr (r, digest, sources)"
  shows "com_ID r = com_ID (con_component (fst parts))"
    and "com_Type r = com_Type (con_component (fst parts))"
    and "map rcs_ComponentDigest sources = map (\<lambda>part. com_Digest (con_component part)) (all_parts parts)"
    and "map rcs_CapsuleDigest sources = map (\<lambda>part. ccs_Digest (con_source part)) (all_parts parts)"
    and "com_Type r \<noteq> ComponentConfig \<Longrightarrow>
      list_all (\<lambda>part. com_Digest (con_component part) = com_Digest r) (all_parts parts)"
proof -
  let ?first = "initial_component codec (fst parts)"
  from assms have rest: "compose_rest codec ?first (ccs_Digest (con_source (fst parts))) (snd parts)
      = Some (r, digest)"
    and sources: "sources = map (\<lambda>part. \<lparr>rcs_CapsuleDigest = ccs_Digest (con_source part),
      rcs_ComponentDigest = com_Digest (con_component part)\<rparr>) (all_parts parts)"
    by (auto simp: composeContributions_def Let_def split: option.splits)
  show "com_ID r = com_ID (con_component (fst parts))"
    "com_Type r = com_Type (con_component (fst parts))"
    using compose_rest_fields [OF rest] by simp_all
  show "map rcs_ComponentDigest sources = map (\<lambda>part. com_Digest (con_component part)) (all_parts parts)"
    "map rcs_CapsuleDigest sources = map (\<lambda>part. ccs_Digest (con_source part)) (all_parts parts)"
    using sources by (simp_all add: comp_def)
  assume "com_Type r \<noteq> ComponentConfig"
  with compose_rest_fields [OF rest] compose_rest_same_digest [OF rest]
  show "list_all (\<lambda>part. com_Digest (con_component part) = com_Digest r) (all_parts parts)"
    by (simp add: all_parts_def)
qed

lemma compose_all_no_conflict:
  "compose_all codec result conflicts entries = (result', []) \<Longrightarrow> distinct (map fst entries) \<Longrightarrow>
     conflicts = [] \<and> ccr_Classification result' = ccr_Classification result
     \<and> ccr_PermissionPolicyDigest result' = ccr_PermissionPolicyDigest result
     \<and> (\<forall>cid. case map_of entries cid of
          None \<Rightarrow> map_of (ccr_Components result') cid = map_of (ccr_Components result) cid
            \<and> map_of (ccr_ComponentSources result') cid = map_of (ccr_ComponentSources result) cid
        | Some parts \<Rightarrow> \<exists>r digest sources. composeContributions codec parts = Inr (r, digest, sources)
            \<and> map_of (ccr_Components result') cid = Some r
            \<and> map_of (ccr_ComponentSources result') cid = Some sources)"
proof (induction codec result conflicts entries rule: compose_all.induct)
  case (2 codec result conflicts key parts entries)
  have fresh: "map_of entries key = None" "distinct (map fst entries)"
    using "2.prems"(2) by (auto simp: map_of_eq_None_iff)
  show ?case
  proof (cases "composeContributions codec parts")
    case (Inl conflict)
    with "2.IH"(1) [OF Inl] "2.prems"(1) fresh(2) show ?thesis by simp
  next
    case (Inr v)
    obtain r digest sources where v: "v = (r, digest, sources)" by (cases v)
    let ?next = "result\<lparr>ccr_Components := go_update key r (ccr_Components result),
      ccr_ComponentCapsuleDigests := go_update key digest (ccr_ComponentCapsuleDigests result),
      ccr_ComponentSources := go_update key sources (ccr_ComponentSources result)\<rparr>"
    have composed: "composeContributions codec parts = Inr (r, digest, sources)"
      using Inr v by simp
    have "compose_all codec ?next conflicts entries = (result', [])"
      using "2.prems"(1) composed by simp
    note ih = "2.IH"(2) [OF composed refl refl this fresh(2)]
    show ?thesis
    proof (intro conjI allI)
      fix cid
      show "case map_of ((key, parts) # entries) cid of
          None \<Rightarrow> map_of (ccr_Components result') cid = map_of (ccr_Components result) cid
            \<and> map_of (ccr_ComponentSources result') cid = map_of (ccr_ComponentSources result) cid
        | Some parts \<Rightarrow> \<exists>r digest sources. composeContributions codec parts = Inr (r, digest, sources)
            \<and> map_of (ccr_Components result') cid = Some r
            \<and> map_of (ccr_ComponentSources result') cid = Some sources"
        using ih fresh(1) Inr v by (cases "cid = key"; cases "map_of entries cid") (auto dest: spec [of _ cid])
    qed (use ih in simp_all)
  qed
qed (auto split: option.split)

section \<open>What a resolution returns\<close>

lemma requires_review_permission: "permission_part part \<Longrightarrow> componentRequiresReview (con_component part)"
  by (auto simp: permission_part_def componentRequiresReview_def)

text \<open>
  Everything a resolution without an error does, in terms of the contributions \<open>parts\<close>.
\<close>

lemma resolved_composition:
  assumes "ResolveCapsuleComposition codec capsules project = (result, None)"
  defines "parts \<equiv> all_source_parts 0 (all_sources capsules project)"
  shows "list_all (\<lambda>c. Validate c = None) (included (all_sources capsules project))"
    and "ccr_Classification result = RequiresReview \<longleftrightarrow>
      list_ex (\<lambda>part. componentRequiresReview (con_component part)) parts"
    and "case map_of (ccr_Components result) cid of
        None \<Rightarrow> parts_for cid parts = [] \<and> map_of (ccr_ComponentSources result) cid = None
      | Some r \<Rightarrow> \<exists>ps digest sources. all_parts ps = parts_for cid parts
          \<and> composeContributions codec ps = Inr (r, digest, sources)
          \<and> map_of (ccr_ComponentSources result) cid = Some sources"
proof -
  from assms(1) obtain state composed
    where state: "add_sources 0 empty_state (all_sources capsules project) = Inr state"
      and composed: "compose_all codec (empty_result (rs_classification state)) [] (rs_contributions state)
        = (composed, [])"
      and result: "ccr_Components result = ccr_Components composed"
        "ccr_ComponentSources result = ccr_ComponentSources composed"
        "ccr_Classification result
          = (if rs_permissions state \<noteq> [] then RequiresReview else ccr_Classification composed)"
    by (auto simp: ResolveCapsuleComposition_def Let_def split: sum.splits prod.splits if_splits)
  have collected: "collected state parts"
    and valid: "list_all (\<lambda>c. Validate c = None) (included (all_sources capsules project))"
    using add_sources_collected [OF state collected_empty] by (simp_all add: parts_def)
  show "list_all (\<lambda>c. Validate c = None) (included (all_sources capsules project))"
    by (rule valid)
  have "distinct (map fst (rs_contributions state))"
    using collected by (simp add: collected_def go_map_def)
  note composed = compose_all_no_conflict [OF composed this]
  show "ccr_Classification result = RequiresReview \<longleftrightarrow>
      list_ex (\<lambda>part. componentRequiresReview (con_component part)) parts"
    using composed collected requires_review_permission result(3)
    by (auto simp: collected_def empty_result_def list_ex_iff filter_empty_conv)
  show "case map_of (ccr_Components result) cid of
        None \<Rightarrow> parts_for cid parts = [] \<and> map_of (ccr_ComponentSources result) cid = None
      | Some r \<Rightarrow> \<exists>ps digest sources. all_parts ps = parts_for cid parts
          \<and> composeContributions codec ps = Inr (r, digest, sources)
          \<and> map_of (ccr_ComponentSources result) cid = Some sources"
  proof -
    have parts: "map_option all_parts (map_of (rs_contributions state) cid)
        = (if parts_for cid parts = [] then None else Some (parts_for cid parts))"
      using collected by (simp add: collected_def)
    have "case map_of (rs_contributions state) cid of
          None \<Rightarrow> map_of (ccr_Components composed) cid = None
            \<and> map_of (ccr_ComponentSources composed) cid = None
        | Some ps \<Rightarrow> \<exists>r digest sources. composeContributions codec ps = Inr (r, digest, sources)
            \<and> map_of (ccr_Components composed) cid = Some r
            \<and> map_of (ccr_ComponentSources composed) cid = Some sources"
      using conjunct2 [OF conjunct2 [OF conjunct2 [OF composed]], THEN spec, of cid]
      by (cases "map_of (rs_contributions state) cid") (simp_all add: empty_result_def)
    with parts result(1,2) show ?thesis
      by (cases "map_of (rs_contributions state) cid") (auto split: if_splits)
  qed
qed

text \<open>The contributors to one ID, in the order of the Capsules.\<close>

definition contributors :: "string \<Rightarrow> capsule_component_set list \<Rightarrow> component list" where
  "contributors cid sources = filter (\<lambda>c. com_ID c = cid) (included sources)"

lemma parts_for_contributors:
  "map con_component (parts_for cid (all_source_parts index sources))
   = map cloneComponent (contributors cid sources)"
proof -
  have "map con_component (parts_for cid (all_source_parts index sources))
      = filter (\<lambda>c. com_ID c = cid) (map con_component (all_source_parts index sources))"
    by (simp add: parts_for_def filter_map comp_def)
  also have "\<dots> = map cloneComponent (contributors cid sources)"
    by (simp add: included_parts contributors_def filter_map comp_def)
  finally show ?thesis .
qed

lemma parts_for_digests:
  "map (\<lambda>part. com_Digest (con_component part)) (parts_for cid (all_source_parts index sources))
   = map com_Digest (contributors cid sources)"
  using arg_cong [OF parts_for_contributors [of cid index sources], of "map com_Digest"]
  by (simp add: comp_def)

lemma list_ex_map_clone:
  "list_ex (\<lambda>part. componentRequiresReview (con_component part)) (all_source_parts index sources)
   \<longleftrightarrow> list_ex componentRequiresReview (included sources)"
proof -
  have "list_ex componentRequiresReview (map con_component (all_source_parts index sources))
      \<longleftrightarrow> list_ex componentRequiresReview (included sources)"
    by (simp add: included_parts list_ex_iff)
  then show ?thesis by (simp add: list_ex_iff)
qed

text \<open>
  C32. A resolution without an error holds exactly one Component for every ID that some Capsule
  contributes and does not exclude, under that ID, and lists for it the digests of all its
  contributors in the order of the Capsules; the result is classified auto-safe exactly when no
  contributed Component has permission trust, is an integration, a permission policy, a hook or an
  extension, or asks for a secret.
\<close>

theorem composition_exact:
  assumes "ResolveCapsuleComposition codec capsules project = (result, None)"
  shows "(case map_of (ccr_Components result) cid of
        None \<Rightarrow> contributors cid (all_sources capsules project) = []
      | Some component \<Rightarrow> com_ID component = cid
          \<and> contributors cid (all_sources capsules project) \<noteq> []
          \<and> map_option (map rcs_ComponentDigest) (map_of (ccr_ComponentSources result) cid)
              = Some (map com_Digest (contributors cid (all_sources capsules project))))
    \<and> (ccr_Classification result = AutoSafe \<longleftrightarrow>
         \<not> list_ex componentRequiresReview (included (all_sources capsules project)))"
proof
  let ?sources = "all_sources capsules project"
  let ?parts = "all_source_parts 0 ?sources"
  note resolved = resolved_composition [OF assms]
  show "ccr_Classification result = AutoSafe \<longleftrightarrow> \<not> list_ex componentRequiresReview (included ?sources)"
    using resolved(2) by (cases "ccr_Classification result") (simp_all add: list_ex_map_clone)
  show "case map_of (ccr_Components result) cid of
        None \<Rightarrow> contributors cid ?sources = []
      | Some component \<Rightarrow> com_ID component = cid \<and> contributors cid ?sources \<noteq> []
          \<and> map_option (map rcs_ComponentDigest) (map_of (ccr_ComponentSources result) cid)
              = Some (map com_Digest (contributors cid ?sources))"
  proof (cases "map_of (ccr_Components result) cid")
    case None
    with resolved(3) [of cid] parts_for_contributors [of cid 0 ?sources] show ?thesis by simp
  next
    case (Some component)
    with resolved(3) [of cid] obtain ps digest sources
      where ps: "all_parts ps = parts_for cid ?parts"
        and composed: "composeContributions codec ps = Inr (component, digest, sources)"
        and sources: "map_of (ccr_ComponentSources result) cid = Some sources"
      by auto
    have "fst ps \<in> set (parts_for cid ?parts)"
      using ps by (metis all_parts_def list.set_intros(1))
    then have "com_ID (con_component (fst ps)) = cid" by (simp add: parts_for_def)
    moreover have "contributors cid ?sources \<noteq> []"
      using ps parts_for_contributors [of cid 0 ?sources] by (auto simp: all_parts_def)
    ultimately show ?thesis
      using Some sources ps parts_for_digests [of cid 0 ?sources] composeContributions_Inr(1,3) [OF composed]
      by simp
  qed
qed

text \<open>
  C31. No Capsule overrides another silently: in a resolution without an error every contribution to
  the ID of a Component that is not a configuration has the digest and the type of the Component in
  the result, whatever the order of the Capsules.
\<close>

theorem composition_no_silent_override:
  assumes "ResolveCapsuleComposition codec capsules project = (result, None)"
    and "map_of (ccr_Components result) cid = Some component" and "com_Type component \<noteq> ComponentConfig"
  shows "\<forall>c \<in> set (contributors cid (all_sources capsules project)).
    com_Digest c = com_Digest component \<and> com_Type c = com_Type component"
proof
  fix c
  let ?sources = "all_sources capsules project"
  let ?parts = "all_source_parts 0 ?sources"
  assume c: "c \<in> set (contributors cid ?sources)"
  note resolved = resolved_composition [OF assms(1)]
  from resolved(3) [of cid] assms(2) obtain ps digest sources
    where ps: "all_parts ps = parts_for cid ?parts"
      and composed: "composeContributions codec ps = Inr (component, digest, sources)"
    by auto
  note facts = composeContributions_Inr [OF composed]
  have "list_all (\<lambda>d. d = com_Digest component) (map com_Digest (contributors cid ?sources))"
    using facts(5) [OF assms(3)] ps
    by (simp flip: parts_for_digests [of cid 0] add: list_all_iff)
  with c have digest: "com_Digest c = com_Digest component" by (simp add: list_all_iff)
  have "con_component (fst ps) \<in> set (map cloneComponent (contributors cid ?sources))"
    using ps by (simp flip: parts_for_contributors [of cid 0]) (metis all_parts_def image_eqI list.set_intros(1))
  then obtain d where d: "d \<in> set (contributors cid ?sources)" "con_component (fst ps) = cloneComponent d"
    by auto
  have "Validate c = None" "Validate d = None" "com_ID c = com_ID d"
    using resolved(1) c d(1) by (auto simp: contributors_def list_all_iff)
  then have "com_Type c = com_Type d" by (rule valid_same_type)
  with digest d(2) facts(2) show "com_Digest c = com_Digest component \<and> com_Type c = com_Type component"
    by simp
qed

section \<open>Examples\<close>

definition sample_codec :: config_codec where
  "sample_codec = \<lparr>codec_json_decode = (\<lambda>_. None), codec_json_encode = (\<lambda>_. None),
     codec_toml_decode = (\<lambda>_. None), codec_toml_encode = (\<lambda>_. None)\<rparr>"

definition sample_set :: "string \<Rightarrow> capsule_component_set" where
  "sample_set ref = \<lparr>ccs_Ref = ref, ccs_Digest = ref, ccs_Exclusions = [''hook:lint''],
     ccs_Components = [sample_component\<lparr>com_ID := ''hook:lint''\<rparr>, sample_component]\<rparr>"

lemma sample_composition:
  "\<exists>result. ResolveCapsuleComposition sample_codec [sample_set ''a''] (Some (sample_set ''b'')) = (result, None)
     \<and> map_of (ccr_Components result) ''hook:fmt'' = Some sample_component
     \<and> map_of (ccr_ComponentSources result) ''hook:fmt'' \<noteq> None
     \<and> ccr_Classification result = RequiresReview"
proof -
  have valid: "Validate sample_component = None"
    using sample_component_valid by (auto simp: NewComponent_def split: option.splits)
  have clone: "cloneComponent sample_component = sample_component"
    by (simp add: cloneComponent_def sample_component_def clone_slice_def elems_def)
  have fields: "com_ID sample_component = ''hook:fmt''" "com_Content sample_component = []"
    "com_Type sample_component = ComponentHook" "com_TrustClass sample_component = TrustExecutable"
    by (simp_all add: sample_component_def)
  show ?thesis
    by (simp add: ResolveCapsuleComposition_def all_sources_def sample_set_def valid contribute_def
        empty_state_def empty_result_def append_contribution_def composeContributions_def Let_def clone
        initial_component_def fields componentRequiresReview_def)
qed

theorem composition_exact_witness:
  "\<exists>result. ResolveCapsuleComposition sample_codec [sample_set ''a''] (Some (sample_set ''b'')) = (result, None)
     \<and> ccr_Classification result \<noteq> AutoSafe
     \<and> map_option (map rcs_ComponentDigest) (map_of (ccr_ComponentSources result) ''hook:fmt'')
         = Some [com_Digest sample_component, com_Digest sample_component]"
proof -
  from sample_composition obtain result
    where result: "ResolveCapsuleComposition sample_codec [sample_set ''a''] (Some (sample_set ''b'')) = (result, None)"
      "map_of (ccr_Components result) ''hook:fmt'' = Some sample_component"
      "ccr_Classification result = RequiresReview"
    by auto
  have "contributors ''hook:fmt'' (all_sources [sample_set ''a''] (Some (sample_set ''b'')))
      = [sample_component, sample_component]"
    by (simp add: contributors_def included_def all_sources_def sample_set_def sample_component_def)
  with composition_exact [OF result(1), of "''hook:fmt''"] result show ?thesis by auto
qed

theorem composition_no_silent_override_witness:
  "\<exists>result. ResolveCapsuleComposition sample_codec [sample_set ''a''] (Some (sample_set ''b'')) = (result, None)
     \<and> (\<forall>c \<in> set (contributors ''hook:fmt'' (all_sources [sample_set ''a''] (Some (sample_set ''b'')))).
          com_Digest c = com_Digest sample_component \<and> com_Type c = ComponentHook)"
proof -
  from sample_composition obtain result
    where result: "ResolveCapsuleComposition sample_codec [sample_set ''a''] (Some (sample_set ''b'')) = (result, None)"
      "map_of (ccr_Components result) ''hook:fmt'' = Some sample_component"
    by auto
  have "com_Type sample_component = ComponentHook" by (simp add: sample_component_def)
  with composition_no_silent_override [OF result] result(1) show ?thesis by auto
qed

end
