(* ===== verification/Materializations.thy ===== *)
theory Materializations
  imports Capsule_Locks
begin

text \<open>
  Materialization of Capsule Components (\<open>libs/profile/materialization.go\<close> and
  \<open>materialization_state.go\<close>): the three-way plan that decides what is done to a file of the user, the
  results the guest reports, the check of those results against the Capsule Lock
  (\<open>validateEnvironmentMaterializationResults\<close> of \<open>apps/workflows/environment_create.go\<close>) and the records
  that are persisted from them (\<open>apps/workflows/environment_capsule_state.go\<close>).
\<close>

section \<open>Planning\<close>

text \<open>A digest observation: absent, or present with a digest that is not empty.\<close>

record digest_state =
  ds_present :: bool
  ds_digest :: string

definition PresentDigest :: "string \<Rightarrow> digest_state option" where
  "PresentDigest digest = (if digest = [] then None else Some \<lparr>ds_present = True, ds_digest = digest\<rparr>)"

definition AbsentDigest :: digest_state where
  "AbsentDigest = \<lparr>ds_present = False, ds_digest = []\<rparr>"

text \<open>\<open>modeUnset\<close> stands for the zero value and every other number.\<close>

datatype materialization_kind = modeManaged | modeSeeded | modeReferenced | modeUnset

datatype requirement_state = RequirementNeedsInput | RequirementBound | RequirementOther string

record materialization_snapshot =
  ms_mode :: materialization_kind
  ms_desired :: digest_state
  ms_lastApplied :: digest_state
  ms_observed :: digest_state
  ms_requirement :: requirement_state

definition NewReferencedMaterialization ::
  "digest_state \<Rightarrow> digest_state \<Rightarrow> requirement_state \<Rightarrow> materialization_snapshot option" where
  "NewReferencedMaterialization requirement observed state =
     (if state \<noteq> RequirementNeedsInput \<and> state \<noteq> RequirementBound then None
      else Some \<lparr>ms_mode = modeReferenced, ms_desired = requirement, ms_lastApplied = AbsentDigest,
                 ms_observed = observed, ms_requirement = state\<rparr>)"

definition NewManagedMaterialization ::
  "digest_state \<Rightarrow> digest_state \<Rightarrow> digest_state \<Rightarrow> materialization_snapshot" where
  "NewManagedMaterialization desired lastApplied observed =
     \<lparr>ms_mode = modeManaged, ms_desired = desired, ms_lastApplied = lastApplied, ms_observed = observed,
      ms_requirement = RequirementOther []\<rparr>"

definition NewSeededMaterialization ::
  "digest_state \<Rightarrow> digest_state \<Rightarrow> digest_state \<Rightarrow> materialization_snapshot" where
  "NewSeededMaterialization desired lastApplied observed =
     \<lparr>ms_mode = modeSeeded, ms_desired = desired, ms_lastApplied = lastApplied, ms_observed = observed,
      ms_requirement = RequirementOther []\<rparr>"

datatype plan_intent = IntentReconcile | IntentPrune | IntentOther string

datatype plan_operation =
    OperationCreate
  | OperationUpdate
  | OperationSkip
  | OperationDrift
  | OperationConflict
  | OperationOrphan
  | OperationRemove
  | OperationRequiresInput
  | OperationOther string

datatype plan_error = UnsupportedIntent plan_intent | UnsupportedMode | PruneSourcePresent

definition PlanMaterialization :: "materialization_snapshot \<Rightarrow> plan_intent \<Rightarrow> plan_error + plan_operation" where
  "PlanMaterialization snapshot intent =
     (if intent \<noteq> IntentReconcile \<and> intent \<noteq> IntentPrune then Inl (UnsupportedIntent intent)
      else if ms_mode snapshot = modeUnset then Inl UnsupportedMode
      else if \<not> ds_present (ms_desired snapshot)
      then if intent = IntentPrune
           then if ds_present (ms_observed snapshot) then Inr OperationRemove else Inr OperationSkip
           else Inr OperationOrphan
      else if intent = IntentPrune then Inl PruneSourcePresent
      else case ms_mode snapshot of
        modeReferenced \<Rightarrow>
          if ms_requirement snapshot = RequirementNeedsInput then Inr OperationRequiresInput
          else Inr OperationSkip
      | modeSeeded \<Rightarrow>
          if ds_present (ms_lastApplied snapshot) then Inr OperationSkip
          else if ds_present (ms_observed snapshot) then Inr OperationConflict
          else Inr OperationCreate
      | modeManaged \<Rightarrow>
          if ms_observed snapshot = ms_lastApplied snapshot
          then if ms_desired snapshot = ms_lastApplied snapshot then Inr OperationSkip
               else if ds_present (ms_observed snapshot) then Inr OperationUpdate
               else Inr OperationCreate
          else if ms_desired snapshot = ms_lastApplied snapshot then Inr OperationDrift
          else Inr OperationConflict
      | modeUnset \<Rightarrow> Inl UnsupportedMode)"

section \<open>Results and installed state\<close>

datatype materialization_mode =
    MaterializationManaged
  | MaterializationSeeded
  | MaterializationReferenced
  | MaterializationOtherMode string

datatype materialization_root = MaterializationHome | MaterializationWorkspace | MaterializationOtherRoot string

record materialization_result =
  mr_ID :: string
  mr_LockID :: string
  mr_LockDigest :: string
  mr_CapsuleDigest :: string
  mr_ComponentID :: string
  mr_ComponentDigest :: string
  mr_Adapter :: string
  mr_AdapterID :: string
  mr_AdapterVersion :: string
  mr_TargetAgentVersion :: string
  mr_Scope :: component_scope
  mr_NonSecretOverridesDigest :: string
  mr_SecretVersionIdentifiers :: slice
  mr_EffectiveCacheKey :: string
  mr_Mode :: materialization_mode
  mr_Root :: materialization_root
  mr_Target :: string
  mr_Selector :: string
  mr_Directory :: bool
  mr_FilePaths :: slice
  mr_DesiredDigest :: string
  mr_LastAppliedDigest :: string
  mr_ObservedDigest :: string
  mr_Operation :: plan_operation
  mr_RequirementState :: requirement_state
  mr_ApprovalRequired :: bool
  mr_ApprovalReason :: string
  mr_CredentialRequirementDigest :: string

record installed_materialization =
  im_ID :: string
  im_LockID :: string
  im_LockDigest :: string
  im_CapsuleDigest :: string
  im_ComponentID :: string
  im_ComponentDigest :: string
  im_AdapterID :: string
  im_AdapterVersion :: string
  im_TargetAgentVersion :: string
  im_Scope :: component_scope
  im_NonSecretOverridesDigest :: string
  im_SecretVersionIdentifiers :: slice
  im_EffectiveCacheKey :: string
  im_Mode :: materialization_mode
  im_Root :: materialization_root
  im_Target :: string
  im_Selector :: string
  im_Directory :: bool
  im_FilePaths :: slice
  im_LastAppliedDigest :: string
  im_ObservedDigest :: string
  im_CredentialRequirementDigest :: string

definition installed_from :: "materialization_result \<Rightarrow> installed_materialization" where
  "installed_from result =
     \<lparr>im_ID = mr_ID result, im_LockID = mr_LockID result, im_LockDigest = mr_LockDigest result,
      im_CapsuleDigest = mr_CapsuleDigest result, im_ComponentID = mr_ComponentID result,
      im_ComponentDigest = mr_ComponentDigest result, im_AdapterID = mr_Adapter result,
      im_AdapterVersion = mr_AdapterVersion result, im_TargetAgentVersion = mr_TargetAgentVersion result,
      im_Scope = mr_Scope result, im_NonSecretOverridesDigest = mr_NonSecretOverridesDigest result,
      im_SecretVersionIdentifiers = clone_slice (mr_SecretVersionIdentifiers result),
      im_EffectiveCacheKey = mr_EffectiveCacheKey result, im_Mode = mr_Mode result, im_Root = mr_Root result,
      im_Target = mr_Target result, im_Selector = mr_Selector result, im_Directory = mr_Directory result,
      im_FilePaths = clone_slice (mr_FilePaths result), im_LastAppliedDigest = mr_LastAppliedDigest result,
      im_ObservedDigest = mr_ObservedDigest result,
      im_CredentialRequirementDigest = mr_CredentialRequirementDigest result\<rparr>"

definition InstalledMaterializationsFromResults ::
  "materialization_result list \<Rightarrow> installed_materialization list" where
  "InstalledMaterializationsFromResults results = map installed_from results"

section \<open>Acceptance of the results\<close>

datatype results_error =
    ResultCountDiffers nat nat
  | ResultUnknownComponent string
  | ResultDuplicateComponent string
  | ResultIdentityDiverged string
  | ResultNotConverged string plan_operation
  | ResultApprovalRequired string
  | ResultNotBound string
  | ResultInvalidMode string materialization_mode
  | ResultDigestsDiffer string

definition result_identity_ok ::
  "capsule_lock_snapshot \<Rightarrow> resolved_component \<Rightarrow> materialization_result \<Rightarrow> bool" where
  "result_identity_ok lock component result \<longleftrightarrow>
     mr_ID result \<noteq> [] \<and> mr_LockID result = lock_ID lock \<and> mr_LockDigest result = lock_Digest lock
     \<and> mr_CapsuleDigest result = rc_CapsuleDigest component
     \<and> mr_ComponentDigest result = rc_ComponentDigest component \<and> mr_Scope result = rc_Scope component"

text \<open>The checks of one result; a referenced Component has no digests to compare.\<close>

definition check_result ::
  "capsule_lock_snapshot \<Rightarrow> string set \<Rightarrow> materialization_result \<Rightarrow> results_error option" where
  "check_result lock seen result =
     (let name = mr_ComponentID result in
      case map_of (lock_ResolvedComponents lock) name of
        None \<Rightarrow> Some (ResultUnknownComponent name)
      | Some component \<Rightarrow>
          if name \<in> seen then Some (ResultDuplicateComponent name)
          else if \<not> result_identity_ok lock component result then Some (ResultIdentityDiverged name)
          else if mr_Operation result \<notin> {OperationCreate, OperationUpdate, OperationSkip}
          then Some (ResultNotConverged name (mr_Operation result))
          else if mr_ApprovalRequired result then Some (ResultApprovalRequired name)
          else
            let digests = (if mr_DesiredDigest result = [] \<or> mr_LastAppliedDigest result \<noteq> mr_DesiredDigest result
                              \<or> mr_ObservedDigest result \<noteq> mr_DesiredDigest result
                           then Some (ResultDigestsDiffer name) else None)
            in case mr_Mode result of
                 MaterializationManaged \<Rightarrow> digests
               | MaterializationSeeded \<Rightarrow> digests
               | MaterializationReferenced \<Rightarrow>
                   if mr_Operation result \<noteq> OperationSkip \<or> mr_RequirementState result \<noteq> RequirementBound
                   then Some (ResultNotBound name) else None
               | MaterializationOtherMode mode \<Rightarrow> Some (ResultInvalidMode name (MaterializationOtherMode mode)))"

fun check_results ::
  "capsule_lock_snapshot \<Rightarrow> string set \<Rightarrow> materialization_result list \<Rightarrow> results_error option" where
  "check_results lock seen [] = None"
| "check_results lock seen (result # results) =
     (case check_result lock seen result of
        Some err \<Rightarrow> Some err
      | None \<Rightarrow> check_results lock (insert (mr_ComponentID result) seen) results)"

definition validateEnvironmentMaterializationResults ::
  "capsule_lock_snapshot \<Rightarrow> materialization_result list \<Rightarrow> results_error option" where
  "validateEnvironmentMaterializationResults lock results =
     (if length results \<noteq> length (lock_ResolvedComponents lock)
      then Some (ResultCountDiffers (length results) (length (lock_ResolvedComponents lock)))
      else check_results lock {} results)"

section \<open>Persisted records\<close>

text \<open>The struct repeats the fields of the installed state one by one; here they are the one field \<open>em_Installed\<close>.\<close>

record environment_materialization =
  em_EnvironmentID :: string
  em_Installed :: installed_materialization
  em_ComponentType :: component_type
  em_TrustClass :: trust_class
  em_CreatedAt :: gotime
  em_UpdatedAt :: gotime

datatype capsule_state_error =
    StateComponentUnresolved string
  | StateMaterializationMismatch string

text \<open>
  One record: the fields of the installed state, with its slices copied once more, and the type and trust
  class of the locked Component.
\<close>

definition materialization_record ::
  "capsule_lock_snapshot \<Rightarrow> installed_materialization \<Rightarrow> capsule_state_error + environment_materialization" where
  "materialization_record lock m =
     (case map_of (lock_ResolvedComponents lock) (im_ComponentID m) of
        None \<Rightarrow> Inl (StateComponentUnresolved (im_ComponentID m))
      | Some component \<Rightarrow>
          if im_LockID m \<noteq> lock_ID lock \<or> im_LockDigest m \<noteq> lock_Digest lock
             \<or> im_CapsuleDigest m \<noteq> rc_CapsuleDigest component
             \<or> im_ComponentDigest m \<noteq> rc_ComponentDigest component \<or> im_Scope m \<noteq> rc_Scope component
          then Inl (StateMaterializationMismatch (im_ComponentID m))
          else Inr \<lparr>em_EnvironmentID = lock_EnvironmentID lock,
                    em_Installed = m\<lparr>im_SecretVersionIdentifiers := clone_slice (im_SecretVersionIdentifiers m),
                                     im_FilePaths := clone_slice (im_FilePaths m)\<rparr>,
                    em_ComponentType = rc_Type component, em_TrustClass = rc_TrustClass component,
                    em_CreatedAt = lock_CreatedAt lock, em_UpdatedAt = lock_CreatedAt lock\<rparr>)"

fun EnvironmentMaterializationRecords ::
  "capsule_lock_snapshot \<Rightarrow> installed_materialization list
   \<Rightarrow> capsule_state_error + environment_materialization list" where
  "EnvironmentMaterializationRecords lock [] = Inr []"
| "EnvironmentMaterializationRecords lock (m # ms) =
     (case materialization_record lock m of
        Inl err \<Rightarrow> Inl err
      | Inr r \<Rightarrow>
          (case EnvironmentMaterializationRecords lock ms of Inl err \<Rightarrow> Inl err | Inr rs \<Rightarrow> Inr (r # rs)))"

section \<open>Plans never destroy what a user wrote\<close>

text \<open>What an operation leaves at the target, and the snapshot after it was applied.\<close>

definition plan_effect :: "plan_operation \<Rightarrow> materialization_snapshot \<Rightarrow> digest_state" where
  "plan_effect operation snapshot =
     (case operation of
        OperationCreate \<Rightarrow> ms_desired snapshot
      | OperationUpdate \<Rightarrow> ms_desired snapshot
      | OperationRemove \<Rightarrow> AbsentDigest
      | _ \<Rightarrow> ms_observed snapshot)"

text \<open>
  A plan changes content that exists only if the program wrote it last (a managed file that is as it was
  applied), or if the user prunes a file whose source is gone; content the user wrote or changed is reported as
  drift or conflict and kept.  After a create or an update was applied the next plan has nothing to do.
\<close>

lemma plan_protects_user_content:
  assumes "PlanMaterialization snapshot intent = Inr operation"
  shows "(ds_present (ms_observed snapshot) \<and> plan_effect operation snapshot \<noteq> ms_observed snapshot
      \<longrightarrow> ms_mode snapshot = modeManaged \<and> intent = IntentReconcile \<and> ms_observed snapshot = ms_lastApplied snapshot
        \<or> intent = IntentPrune \<and> \<not> ds_present (ms_desired snapshot))
    \<and> (operation \<in> {OperationCreate, OperationUpdate} \<longrightarrow>
        PlanMaterialization (snapshot\<lparr>ms_observed := ms_desired snapshot, ms_lastApplied := ms_desired snapshot\<rparr>) intent
        = Inr OperationSkip)"
  using assms
  by (auto simp: PlanMaterialization_def plan_effect_def split: if_splits materialization_kind.splits)

text \<open>When a managed file is created, updated, left, or reported: the three-way comparison.\<close>

lemma managed_plan_three_way:
  assumes "ds_present desired"
  shows "PlanMaterialization (NewManagedMaterialization desired lastApplied observed) IntentReconcile
    = Inr (if observed = lastApplied
           then if desired = lastApplied then OperationSkip
                else if ds_present observed then OperationUpdate else OperationCreate
           else if desired = lastApplied then OperationDrift else OperationConflict)"
  using assms by (simp add: PlanMaterialization_def NewManagedMaterialization_def)

definition drifted_file :: materialization_snapshot where
  "drifted_file = NewManagedMaterialization \<lparr>ds_present = True, ds_digest = ''new''\<rparr>
     \<lparr>ds_present = True, ds_digest = ''old''\<rparr> \<lparr>ds_present = True, ds_digest = ''old''\<rparr>"

section \<open>Accepted results are complete and can be persisted\<close>

definition result_accepted :: "capsule_lock_snapshot \<Rightarrow> materialization_result \<Rightarrow> bool" where
  "result_accepted lock result \<longleftrightarrow>
     (\<exists>component. map_of (lock_ResolvedComponents lock) (mr_ComponentID result) = Some component
        \<and> result_identity_ok lock component result)
     \<and> mr_Operation result \<in> {OperationCreate, OperationUpdate, OperationSkip} \<and> \<not> mr_ApprovalRequired result
     \<and> (if mr_Mode result = MaterializationReferenced
        then mr_Operation result = OperationSkip \<and> mr_RequirementState result = RequirementBound
        else mr_Mode result \<in> {MaterializationManaged, MaterializationSeeded} \<and> mr_DesiredDigest result \<noteq> []
          \<and> mr_LastAppliedDigest result = mr_DesiredDigest result
          \<and> mr_ObservedDigest result = mr_DesiredDigest result)"

lemma check_result_None_iff:
  "check_result lock seen result = None \<longleftrightarrow> mr_ComponentID result \<notin> seen \<and> result_accepted lock result"
  by (cases "mr_Mode result")
    (auto simp: check_result_def result_accepted_def Let_def split: option.splits)

lemma check_results_None_iff:
  "check_results lock seen results = None \<longleftrightarrow>
     (\<forall>result \<in> set results. result_accepted lock result \<and> mr_ComponentID result \<notin> seen)
     \<and> distinct (map mr_ComponentID results)"
proof (induction results arbitrary: seen)
  case (Cons result results)
  show ?case
    by (cases "check_result lock seen result")
      (use Cons.IH check_result_None_iff [of lock seen result] in \<open>auto simp: image_iff\<close>)
qed simp

lemma record_of_accepted:
  "result_accepted lock result \<Longrightarrow> \<exists>component. map_of (lock_ResolvedComponents lock) (mr_ComponentID result) = Some component
     \<and> materialization_record lock (installed_from result)
       = Inr \<lparr>em_EnvironmentID = lock_EnvironmentID lock, em_Installed = installed_from result,
              em_ComponentType = rc_Type component, em_TrustClass = rc_TrustClass component,
              em_CreatedAt = lock_CreatedAt lock, em_UpdatedAt = lock_CreatedAt lock\<rparr>"
  by (auto simp: result_accepted_def result_identity_ok_def materialization_record_def installed_from_def)

lemma records_of_accepted:
  "(\<forall>result \<in> set results. result_accepted lock result) \<Longrightarrow>
   \<exists>records. EnvironmentMaterializationRecords lock (InstalledMaterializationsFromResults results) = Inr records
     \<and> map em_Installed records = InstalledMaterializationsFromResults results"
proof (induction results)
  case (Cons result results)
  then obtain records where "EnvironmentMaterializationRecords lock (map installed_from results) = Inr records"
    "map em_Installed records = map installed_from results"
    by (auto simp: InstalledMaterializationsFromResults_def)
  with record_of_accepted [of lock result] Cons.prems show ?case
    by (auto simp: InstalledMaterializationsFromResults_def)
qed (simp add: InstalledMaterializationsFromResults_def)

text \<open>
  Results the creation of an Environment accepts cover every Component of the Capsule Lock exactly once; the
  installed state made from them is accepted for persistence with every record kept; and a managed Component
  that was accepted is planned as nothing to do.
\<close>

lemma accepted_results_persist:
  assumes "validateEnvironmentMaterializationResults lock results = None"
    and "distinct (map fst (lock_ResolvedComponents lock))"
  shows "distinct (map mr_ComponentID results) \<and> mr_ComponentID ` set results = fst ` set (lock_ResolvedComponents lock)
    \<and> (\<exists>records. EnvironmentMaterializationRecords lock (InstalledMaterializationsFromResults results) = Inr records
         \<and> map em_Installed records = InstalledMaterializationsFromResults results)
    \<and> (\<forall>result \<in> set results. mr_Mode result = MaterializationManaged \<longrightarrow>
         (\<exists>d. PresentDigest (mr_DesiredDigest result) = Some d \<and> PresentDigest (mr_LastAppliedDigest result) = Some d
            \<and> PresentDigest (mr_ObservedDigest result) = Some d
            \<and> PlanMaterialization (NewManagedMaterialization d d d) IntentReconcile = Inr OperationSkip))"
proof (intro conjI)
  have count: "length results = length (lock_ResolvedComponents lock)"
    and checked: "\<forall>result \<in> set results. result_accepted lock result" "distinct (map mr_ComponentID results)"
    using assms(1) by (auto simp: validateEnvironmentMaterializationResults_def check_results_None_iff split: if_splits)
  show "distinct (map mr_ComponentID results)" by (fact checked(2))
  have sub: "mr_ComponentID ` set results \<subseteq> fst ` set (lock_ResolvedComponents lock)"
    using checked(1) unfolding dom_map_of_conv_image_fst [symmetric] by (auto simp: result_accepted_def)
  have "card (mr_ComponentID ` set results) = card (fst ` set (lock_ResolvedComponents lock))"
    using distinct_card [OF checked(2)] distinct_card [OF assms(2)] count by simp
  with sub show "mr_ComponentID ` set results = fst ` set (lock_ResolvedComponents lock)"
    by (intro card_subset_eq) simp_all
  show "\<exists>records. EnvironmentMaterializationRecords lock (InstalledMaterializationsFromResults results) = Inr records
      \<and> map em_Installed records = InstalledMaterializationsFromResults results"
    using records_of_accepted [OF checked(1)] .
  show "\<forall>result \<in> set results. mr_Mode result = MaterializationManaged \<longrightarrow>
         (\<exists>d. PresentDigest (mr_DesiredDigest result) = Some d \<and> PresentDigest (mr_LastAppliedDigest result) = Some d
            \<and> PresentDigest (mr_ObservedDigest result) = Some d
            \<and> PlanMaterialization (NewManagedMaterialization d d d) IntentReconcile = Inr OperationSkip)"
    using checked(1) by (auto simp: result_accepted_def PresentDigest_def managed_plan_three_way)
qed

definition sample_result :: materialization_result where
  "sample_result =
     \<lparr>mr_ID = ''m-1'', mr_LockID = lock_ID (sample_lock_snapshot None),
      mr_LockDigest = lock_Digest (sample_lock_snapshot None), mr_CapsuleDigest = rc_CapsuleDigest (sample_resolved None),
      mr_ComponentID = rc_ID (sample_resolved None), mr_ComponentDigest = rc_ComponentDigest (sample_resolved None),
      mr_Adapter = ''claude'', mr_AdapterID = ''claude'', mr_AdapterVersion = ''1'', mr_TargetAgentVersion = ''1'',
      mr_Scope = rc_Scope (sample_resolved None), mr_NonSecretOverridesDigest = [],
      mr_SecretVersionIdentifiers = None, mr_EffectiveCacheKey = ''key'', mr_Mode = MaterializationManaged,
      mr_Root = MaterializationHome, mr_Target = ''.claude/skills/s'', mr_Selector = ''$'', mr_Directory = False,
      mr_FilePaths = None, mr_DesiredDigest = ''d'', mr_LastAppliedDigest = ''d'', mr_ObservedDigest = ''d'',
      mr_Operation = OperationCreate, mr_RequirementState = RequirementOther [], mr_ApprovalRequired = False,
      mr_ApprovalReason = [], mr_CredentialRequirementDigest = []\<rparr>"

lemma sample_result_accepted:
  "validateEnvironmentMaterializationResults (sample_lock_snapshot None) [sample_result] = None"
proof -
  have "result_accepted (sample_lock_snapshot None) sample_result"
    by (simp add: result_accepted_def result_identity_ok_def sample_result_def sample_lock_snapshot_def
        sample_resolved_def)
  moreover have "length (lock_ResolvedComponents (sample_lock_snapshot None)) = 1"
    by (simp add: sample_lock_snapshot_def)
  ultimately show ?thesis
    by (simp add: validateEnvironmentMaterializationResults_def check_results_None_iff del: check_results.simps)
qed

end
