(* ===== verification/Creation_Data.thy ===== *)
theory Creation_Data
  imports Materializations Environment_States Runtimes
begin

text \<open>
  The data of the creation of an Environment (\<open>apps/workflows/environment_create.go\<close>): what is dispatched,
  what the store records, the data volume of the provider, the Capsule state and the outcome of binding
  credentials.
\<close>

record environment_create_dispatch =
  ecd_OperationID :: string
  ecd_EnvironmentID :: string
  ecd_Region :: string
  ecd_AvailabilityZone :: string
  ecd_RuntimePreset :: string

text \<open>
  Owner and Project Seed as the store holds them; the requests to the guest use these and not the dispatch.
\<close>

record environment_create_invocation =
  eci_OwnerUserID :: string
  eci_EnvironmentID :: string
  eci_ProjectSeedID :: string

datatype create_outcome_kind =
    EnvironmentCreateOutcomeFailed
  | EnvironmentCreateOutcomeRequiresInput
  | EnvironmentCreateOutcomeOther string

record ensure_data_volume_request =
  edv_EnvironmentID :: string
  edv_OperationID :: string
  edv_Region :: string
  edv_AvailabilityZone :: string

record data_volume =
  vol_Provider :: string
  vol_ProviderID :: string
  vol_EnvironmentID :: string
  vol_Region :: string
  vol_AvailabilityZone :: string

record reservation_seed =
  seed_BackendResourceID :: string
  seed_WorkspaceID :: string
  seed_HomeID :: string
  seed_ServicesID :: string
  seed_CacheID :: string
  seed_RuntimeID :: string
  seed_ImageVersion :: string
  seed_CreatedAt :: gotime

record approval_marker =
  am_ComponentID :: string
  am_ComponentDigest :: string
  am_LockID :: string
  am_LockDigest :: string

record environment_capsule_state =
  ecs_CapsuleLock :: capsule_lock_snapshot
  ecs_UpgradePolicy :: upgrade_policy
  ecs_Approvals :: "(string \<times> approval_marker) list"
  ecs_ApplyResults :: "materialization_result list"
  ecs_Materializations :: "installed_materialization list"

datatype credential_binding_status =
    EnvironmentCredentialsBound
  | EnvironmentCredentialsNotRequired
  | EnvironmentCredentialsRequireInput
  | EnvironmentCredentialsOther string

record credential_binding_outcome =
  cbo_Status :: credential_binding_status
  cbo_Code :: string
  cbo_Message :: string

definition NoProjectCredentialBinder :: credential_binding_outcome where
  "NoProjectCredentialBinder = \<lparr>cbo_Status = EnvironmentCredentialsNotRequired, cbo_Code = [], cbo_Message = []\<rparr>"

end
