(* ===== verification/Workflow_Engine.thy ===== *)
theory Workflow_Engine
  imports Autostop_Coordinator Operations Creation_Data
begin

text \<open>
  What the workflows of Runtimes and Environments (\<open>runtime_start.go\<close>, \<open>runtime_stop.go\<close>,
  \<open>runtime_replace.go\<close> and \<open>environment_create.go\<close> of \<open>apps/workflows\<close>) run on: the data they exchange with the provider, the guest and the stores,
  and durable steps.  A workflow maps the journal so far to an outcome and the journal it leaves.  Each
  durable step (\<open>restate.Run\<close>) appends one event, the call with the answer the engine journaled for it:
  whether the engine retries a failing call, as \<open>classifyDurableError\<close> directs, is up to the engine, and
  the answer is that of the attempt it keeps.  The services behind the calls are one argument, a record of
  functions that may answer differently after every journal.
\<close>

section \<open>Provider data\<close>

datatype provider_state =
    RuntimeStatePending
  | RuntimeStateRunning
  | RuntimeStateStopping
  | RuntimeStateStopped
  | RuntimeStateTerminated
  | RuntimeStateOther string

datatype error_code =
    ErrorCodeInvalidRequest
  | ErrorCodePlacementConflict
  | ErrorCodeResourceDiverged
  | ErrorCodeAuthorizationFailed
  | ErrorCodeCapacityUnavailable
  | ErrorCodeRateLimited
  | ErrorCodeUnavailable
  | ErrorCodeOther string

fun error_code_string :: "error_code \<Rightarrow> string" where
  "error_code_string ErrorCodeInvalidRequest = ''INVALID_REQUEST''"
| "error_code_string ErrorCodePlacementConflict = ''STATE_ATTACHMENT_CONFLICT''"
| "error_code_string ErrorCodeResourceDiverged = ''RESOURCE_DIVERGED''"
| "error_code_string ErrorCodeAuthorizationFailed = ''PROVIDER_AUTH_FAILED''"
| "error_code_string ErrorCodeCapacityUnavailable = ''CAPACITY_UNAVAILABLE''"
| "error_code_string ErrorCodeRateLimited = ''PROVIDER_RATE_LIMITED''"
| "error_code_string ErrorCodeUnavailable = ''PROVIDER_UNAVAILABLE''"
| "error_code_string (ErrorCodeOther code) = code"

definition Transient :: "error_code \<Rightarrow> bool" where
  "Transient code \<longleftrightarrow>
     code = ErrorCodeCapacityUnavailable \<or> code = ErrorCodeRateLimited \<or> code = ErrorCodeUnavailable"

record runtime_spec =
  spec_RuntimeID :: string
  spec_EnvironmentID :: string
  spec_Sequence :: int64
  spec_Region :: string
  spec_AvailabilityZone :: string
  spec_RuntimePreset :: string
  spec_ImageVersion :: string
  spec_DataVolumeProviderID :: string

record lifecycle_request =
  lr_Spec :: runtime_spec
  lr_ProviderID :: string

record provider_runtime =
  pr_Spec :: runtime_spec
  pr_Provider :: string
  pr_ProviderID :: string
  pr_SystemVolumeProviderID :: string
  pr_PrivateIPv4 :: string
  pr_State :: provider_state

record data_volume_attachment =
  att_DataVolumeProviderID :: string
  att_RuntimeProviderID :: string
  att_Attached :: bool
  att_ReadWrite :: bool

text \<open>
  An error of a provider call with its text: a \<open>*provider.Error\<close> with its code, or another error, which
  may classify itself as transient.
\<close>

datatype call_error = ProviderFailure error_code string | OtherFailure bool string

fun call_error_text :: "call_error \<Rightarrow> string" where
  "call_error_text (ProviderFailure code text) = text"
| "call_error_text (OtherFailure transient text) = text"

fun isTransientError :: "call_error \<Rightarrow> bool" where
  "isTransientError (ProviderFailure code text) = Transient code"
| "isTransientError (OtherFailure transient text) = transient"

section \<open>Workflow data\<close>

record runtime_operation_state =
  ros_OwnerUserID :: string
  ros_Runtime :: runtime_snapshot
  ros_DataVolumeProviderID :: string
  ros_ComputeUsageIntervalID :: string
  ros_OperationInput :: bytes

record runtime_operation_dispatch =
  rod_OperationID :: string
  rod_OperationType :: operation_type
  rod_EnvironmentID :: string
  rod_RuntimeID :: string
  rod_OwnerUserID :: string
  rod_StopReason :: runtime_stop_reason
  rod_StopAudit :: "runtime_stop_audit_evidence option"

record guest_request =
  gr_OwnerUserID :: string
  gr_EnvironmentID :: string
  gr_RuntimeID :: string
  gr_ProviderID :: string
  gr_PrivateIPv4 :: string

record guest_readiness =
  gready_BootID :: string
  gready_PrivateIPv4 :: string
  gready_DataMounted :: bool

record data_volume_request =
  dvr_OwnerUserID :: string
  dvr_EnvironmentID :: string
  dvr_RuntimeID :: string
  dvr_Region :: string
  dvr_AvailabilityZone :: string
  dvr_DataVolumeProviderID :: string

datatype closure_source = ComputeUsageClosedByRuntimeStop | ComputeUsageClosedByProviderReconciliation

record open_usage =
  ou_ID :: string
  ou_UserID :: string
  ou_EnvironmentID :: string
  ou_RuntimeID :: string
  ou_StartedAt :: gotime

record compute_usage_interval =
  cui_ID :: string
  cui_UserID :: string
  cui_EnvironmentID :: string
  cui_RuntimeID :: string

record resource_inventory =
  inv_RuntimeID :: string
  inv_RuntimeResourceID :: string
  inv_SystemVolumeResourceID :: string
  inv_RuntimeProviderID :: string
  inv_SystemVolumeProviderID :: string
  inv_Provider :: string
  inv_CreatedAt :: gotime

record replacement_identity =
  rid_RuntimeID :: string
  rid_RuntimeResourceID :: string
  rid_SystemVolumeResourceID :: string
  rid_CreatedAt :: gotime

text \<open>
  The text of a failure: a literal or the text of an error of a service (\<open>Text\<close>), or one the code formats
  from the listed values.  Only \<open>Text []\<close> is the empty text.
\<close>

datatype failure_message =
    Text string
  | StateDiverged provider_state "provider_state list"
  | WaitTimedOut provider_state
  | RuntimeFailure runtime_error
  | StopReasonInvalid runtime_stop_reason
  | StatusUnexpected runtime_status "runtime_status list"
  | SnapshotFailure handler_error
  | PollFailure "string poll_error"
  | ProviderStateUnusable provider_state
  | ReplacementStateUnusable provider_state
  | ProvisionedStateUnusable provider_state
  | NetworkingStateUnexpected provider_state
  | UpgradePolicyInvalid upgrade_policy
  | CredentialStatusUnknown credential_binding_status
  | ResultsRejected results_error

record create_operation_outcome =
  coo_Kind :: create_outcome_kind
  coo_Code :: string
  coo_Message :: failure_message

record provider_outcome =
  out_Runtime :: provider_runtime
  out_ObservedAt :: gotime
  out_RetryableFailure :: bool
  out_FailureCode :: string
  out_Failure :: failure_message

definition zero_spec :: runtime_spec where
  "zero_spec = \<lparr>spec_RuntimeID = [], spec_EnvironmentID = [], spec_Sequence = 0, spec_Region = [],
     spec_AvailabilityZone = [], spec_RuntimePreset = [], spec_ImageVersion = [],
     spec_DataVolumeProviderID = []\<rparr>"

definition zero_outcome :: provider_outcome where
  "zero_outcome = \<lparr>out_Runtime = \<lparr>pr_Spec = zero_spec, pr_Provider = [], pr_ProviderID = [],
       pr_SystemVolumeProviderID = [], pr_PrivateIPv4 = [], pr_State = RuntimeStateOther []\<rparr>,
     out_ObservedAt = zero_time, out_RetryableFailure = False, out_FailureCode = [],
     out_Failure = Text []\<rparr>"

section \<open>Calls, events and services\<close>

text \<open>The steps that answer only success or an error.\<close>

datatype call =
    RecordRuntimeStopReason string runtime_stop_reason
  | RecordRuntimeStopAudit string runtime_stop_audit_evidence
  | RecordRuntimeStopSnapshot string auto_stop_observation
  | RecordRuntimeStartDecision string string string
  | SuppressAutoStop string string
  | ResumeAutoStop string string
  | PrepareRuntimeShutdown guest_request
  | VerifyRuntimeDataVolume data_volume_request
  | PersistRuntimeTransition string int64 runtime_snapshot
  | PersistReplacementRuntimeTransition string int64 runtime_snapshot
  | InventoryReplacementRuntimeResources string resource_inventory
  | CompleteRuntimeOperation string gotime
  | RecordRuntimeFailure string string failure_message gotime
  | CloseComputeUsageInterval string gotime closure_source
  | RestoreRuntimeSSHHostIdentity guest_request
  | ReconcileRuntimeSSHKeys guest_request
  | ReconcileRuntimeManagedConfiguration guest_request
  | ValidateEnvironmentToolchain string guest_request
  | RestoreEnvironmentSSHIdentity string guest_request
  | EnsureEnvironmentProjectSeedApplied string guest_request string
  | PersistEnvironmentCapsuleState string environment_capsule_state
  | PersistEnvironmentCreateRuntimeTransition string int64 runtime_snapshot
  | RecordEnvironmentCreateOutcome string create_operation_outcome gotime
  | CompleteEnvironmentCreation string gotime

datatype provider_call =
    EnsureRuntime runtime_spec string
  | EnsureRuntimeDataVolumeAttachment lifecycle_request
  | StartRuntime lifecycle_request
  | StopRuntime lifecycle_request
  | RetireRuntime lifecycle_request
  | ObserveRuntime lifecycle_request

text \<open>What a wait ends with; \<open>WaitUnfinished\<close> is the fuel of the model running out.\<close>

datatype ('e, 'a) waited = WaitFailed 'e | WaitEnded 'a | WaitUnfinished

datatype event =
    Did call "string option"
  | Called provider_call "string + provider_outcome"
  | Waited string lifecycle_request "(string poll_error, provider_outcome) waited"
  | Loaded "string + runtime_operation_state"
  | ReadBalance string "string + string \<times> int64"
  | ReadImage string "string + string"
  | ReservedID string "string + string"
  | ReservedIdentity "string + replacement_identity"
  | OpenedUsage open_usage "string + compute_usage_interval"
  | GuestReady guest_request "(failure_message, guest_readiness) waited"
  | SnapshotRead "(handler_error, snapshot_read) waited"
  | ReadTime string "string + gotime"
  | DetachmentWaited lifecycle_request "(failure_message, unit) waited"
  | Replaced string string int64 runtime_snapshot runtime_reservation "string + runtime_snapshot"
  | RecordedCreateInvocation "string + environment_create_invocation"
  | EnsuredDataVolume ensure_data_volume_request "string + data_volume"
  | ReservedCreationIdentities "string + reservation_seed"
  | InventoriedState environment_state_reservation "string + string"
  | ReservedInitialRuntime runtime_reservation "string + string"
  | ResolvedProfileVersion gotime "string + environment_capsule_state"
  | MaterializedCapsule string guest_request environment_capsule_state "string + materialization_result list"
  | BoundCredentials string guest_request "string + credential_binding_outcome"

type_synonym trace = "event list"

text \<open>
  The services, as functions of the journal so far.  \<open>svc_now\<close> also gets the place of the call:
  the code reads the clock several times between two steps.
\<close>

record services =
  svc_do :: "trace \<Rightarrow> call \<Rightarrow> string option"
  svc_provider :: "trace \<Rightarrow> provider_call \<Rightarrow> string + (call_error + provider_runtime) \<times> gotime"
  svc_observe :: "trace \<Rightarrow> lifecycle_request \<Rightarrow> nat \<Rightarrow> gotime \<Rightarrow> int64 option
    \<Rightarrow> string + (call_error + provider_runtime) \<times> gotime"
  svc_load :: "trace \<Rightarrow> string + runtime_operation_state"
  svc_balance :: "trace \<Rightarrow> string \<Rightarrow> string + string \<times> int64"
  svc_image :: "trace \<Rightarrow> string \<Rightarrow> string + string"
  svc_new_id :: "trace \<Rightarrow> string \<Rightarrow> string + string"
  svc_identity :: "trace \<Rightarrow> string + replacement_identity"
  svc_open_usage :: "trace \<Rightarrow> open_usage \<Rightarrow> string + compute_usage_interval"
  svc_ready :: "trace \<Rightarrow> guest_request \<Rightarrow> string + guest_readiness"
  svc_ready_start :: "trace \<Rightarrow> string + gotime"
  svc_ready_poll :: "trace \<Rightarrow> guest_request \<Rightarrow> nat \<Rightarrow> gotime \<Rightarrow> int64 option
    \<Rightarrow> string + (call_error + guest_readiness) \<times> gotime"
  svc_snapshot :: "trace \<Rightarrow> snapshot_engine"
  svc_time :: "trace \<Rightarrow> string \<Rightarrow> string + gotime"
  svc_attachment_start :: "trace \<Rightarrow> string + gotime"
  svc_attachment :: "trace \<Rightarrow> lifecycle_request \<Rightarrow> nat \<Rightarrow> gotime \<Rightarrow> int64 option
    \<Rightarrow> string + (call_error + data_volume_attachment) \<times> gotime"
  svc_replace :: "trace \<Rightarrow> string \<Rightarrow> string \<Rightarrow> int64 \<Rightarrow> runtime_snapshot \<Rightarrow> runtime_reservation
    \<Rightarrow> string + runtime_snapshot"
  svc_now :: "trace \<Rightarrow> string \<Rightarrow> gotime"

section \<open>Steps\<close>

text \<open>
  How a workflow ends: with a value, with an error, by a nil dereference (\<open>Panicked\<close>), or without an
  answer because the fuel of a wait was not enough.
\<close>

datatype workflow_error =
    WorkflowKeyMismatch
  | StepFailed failure_message
  | TerminalFailure failure_message
  | OperationFailed string failure_message
  | TransitionFailed string failure_message failure_message

datatype 'a outcome = Returned 'a | Failed workflow_error | Panicked | OutOfFuel

type_synonym 'a workflow = "trace \<Rightarrow> 'a outcome \<times> trace"

definition log :: "trace \<Rightarrow> event \<Rightarrow> trace" where
  "log h e = h @ [e]"

definition return :: "'a \<Rightarrow> 'a workflow" where
  "return x h = (Returned x, h)"

definition fail :: "workflow_error \<Rightarrow> 'a workflow" where
  "fail err h = (Failed err, h)"

definition panic :: "'a workflow" where
  "panic h = (Panicked, h)"

definition do_step :: "services \<Rightarrow> call \<Rightarrow> (string \<Rightarrow> 'a workflow) \<Rightarrow> 'a workflow \<Rightarrow> 'a workflow" where
  "do_step svc c onError continue h =
     (case svc_do svc h c of
        Some err \<Rightarrow> onError err (log h (Did c (Some err)))
      | None \<Rightarrow> continue (log h (Did c None)))"

definition ask ::
  "(trace \<Rightarrow> 'e + 'b) \<Rightarrow> ('e + 'b \<Rightarrow> event) \<Rightarrow> ('e \<Rightarrow> 'a workflow) \<Rightarrow> ('b \<Rightarrow> 'a workflow)
   \<Rightarrow> 'a workflow" where
  "ask source event onError continue h =
     (case source h of
        Inl err \<Rightarrow> onError err (log h (event (Inl err)))
      | Inr answer \<Rightarrow> continue answer (log h (event (Inr answer))))"

definition wait ::
  "(trace \<Rightarrow> ('e, 'b) waited) \<Rightarrow> (('e, 'b) waited \<Rightarrow> event) \<Rightarrow> ('e \<Rightarrow> 'a workflow)
   \<Rightarrow> ('b \<Rightarrow> 'a workflow) \<Rightarrow> 'a workflow" where
  "wait source event onError continue h =
     (case source h of
        WaitFailed err \<Rightarrow> onError err (log h (event (WaitFailed err)))
      | WaitEnded answer \<Rightarrow> continue answer (log h (event (WaitEnded answer)))
      | WaitUnfinished \<Rightarrow> (OutOfFuel, log h (event WaitUnfinished)))"

definition read_now :: "services \<Rightarrow> string \<Rightarrow> (gotime \<Rightarrow> 'a workflow) \<Rightarrow> 'a workflow" where
  "read_now svc place continue h = continue (svc_now svc h place) h"

section \<open>Reasoning about workflows\<close>

text \<open>
  \<open>wp m Q h\<close>: from the journal \<open>h\<close> the workflow ends with an outcome and a journal that satisfy \<open>Q\<close>.
  The rules leave the answers of the services arbitrary.
\<close>

definition wp :: "'a workflow \<Rightarrow> ('a outcome \<Rightarrow> trace \<Rightarrow> bool) \<Rightarrow> trace \<Rightarrow> bool" where
  "wp m Q h = (case m h of (r, h') \<Rightarrow> Q r h')"

named_theorems wp_rules

lemma wp_return [wp_rules]: "Q (Returned x) h \<Longrightarrow> wp (return x) Q h"
  by (simp add: wp_def return_def)

lemma wp_fail [wp_rules]: "Q (Failed err) h \<Longrightarrow> wp (fail err) Q h"
  by (simp add: wp_def fail_def)

lemma wp_panic [wp_rules]: "Q Panicked h \<Longrightarrow> wp panic Q h"
  by (simp add: wp_def panic_def)

lemma wp_do_step [wp_rules]:
  "(\<And>err. wp (onError err) Q (log h (Did c (Some err)))) \<Longrightarrow> wp continue Q (log h (Did c None))
   \<Longrightarrow> wp (do_step svc c onError continue) Q h"
  by (simp add: wp_def do_step_def split: option.split)

lemma wp_ask [wp_rules]:
  "(\<And>err. wp (onError err) Q (log h (event (Inl err))))
   \<Longrightarrow> (\<And>answer. source h = Inr answer \<Longrightarrow> wp (continue answer) Q (log h (event (Inr answer))))
   \<Longrightarrow> wp (ask source event onError continue) Q h"
  by (simp add: wp_def ask_def split: sum.split)

lemma wp_wait [wp_rules]:
  "(\<And>err. wp (onError err) Q (log h (event (WaitFailed err))))
   \<Longrightarrow> (\<And>answer. source h = WaitEnded answer \<Longrightarrow> wp (continue answer) Q (log h (event (WaitEnded answer))))
   \<Longrightarrow> (source h = WaitUnfinished \<Longrightarrow> Q OutOfFuel (log h (event WaitUnfinished)))
   \<Longrightarrow> wp (wait source event onError continue) Q h"
  by (simp add: wp_def wait_def split: waited.split)

lemma wp_read_now [wp_rules]:
  "(\<And>at. wp (continue at) Q h) \<Longrightarrow> wp (read_now svc place continue) Q h"
  by (simp add: wp_def read_now_def)

lemma wp_if [wp_rules]:
  "(b \<Longrightarrow> wp m Q h) \<Longrightarrow> (\<not> b \<Longrightarrow> wp n Q h) \<Longrightarrow> wp (if b then m else n) Q h"
  by simp

lemma wp_case_option [wp_rules]:
  "(v = None \<Longrightarrow> wp m Q h) \<Longrightarrow> (\<And>x. v = Some x \<Longrightarrow> wp (n x) Q h)
   \<Longrightarrow> wp (case v of None \<Rightarrow> m | Some x \<Rightarrow> n x) Q h"
  by (simp split: option.split)

lemma wp_case_sum [wp_rules]:
  "(\<And>x. v = Inl x \<Longrightarrow> wp (m x) Q h) \<Longrightarrow> (\<And>x. v = Inr x \<Longrightarrow> wp (n x) Q h)
   \<Longrightarrow> wp (case v of Inl x \<Rightarrow> m x | Inr x \<Rightarrow> n x) Q h"
  by (simp split: sum.split)

lemma wp_Let [wp_rules]: "(\<And>x. x = v \<Longrightarrow> wp (m x) Q h) \<Longrightarrow> wp (let x = v in m x) Q h"
  by simp

lemma wp_mono: "wp m P h \<Longrightarrow> (\<And>r h'. P r h' \<Longrightarrow> Q r h') \<Longrightarrow> wp m Q h"
  by (auto simp: wp_def)

text \<open>
  A journal is safe for a guard when every event of it was allowed by the guard after the events
  before it.
\<close>

definition safe :: "(trace \<Rightarrow> event \<Rightarrow> bool) \<Rightarrow> trace \<Rightarrow> bool" where
  "safe guard h \<longleftrightarrow> (\<forall>before e after. h = before @ e # after \<longrightarrow> guard before e)"

lemma log_eq_iff [simp]: "log h e = log h' e' \<longleftrightarrow> h = h' \<and> e = e'"
  by (simp add: log_def)

lemma set_log [simp]: "set (log h e) = insert e (set h)"
  by (simp add: log_def)

lemma safe_Nil [simp]: "safe guard []"
  by (simp add: safe_def)

lemma safe_log [simp]: "safe guard (log h e) \<longleftrightarrow> safe guard h \<and> guard h e"
  unfolding log_def
proof
  assume all: "safe guard (h @ [e])"
  have "safe guard h"
    unfolding safe_def
  proof (intro allI impI)
    fix before e' after
    assume "h = before @ e' # after"
    then have "h @ [e] = before @ e' # (after @ [e])" by simp
    with all show "guard before e'" unfolding safe_def by blast
  qed
  with all show "safe guard h \<and> guard h e" unfolding safe_def by blast
next
  assume both: "safe guard h \<and> guard h e"
  show "safe guard (h @ [e])"
    unfolding safe_def
  proof (intro allI impI)
    fix before e' after
    assume split: "h @ [e] = before @ e' # after"
    show "guard before e'"
    proof (cases after rule: rev_cases)
      case Nil
      with split both show ?thesis by simp
    next
      case (snoc init last)
      with split have "h = before @ e' # init" by simp
      with both show ?thesis unfolding safe_def by blast
    qed
  qed
qed

end
