(* ===== verification/Runtime_Lifecycle.thy ===== *)
theory Runtime_Lifecycle
  imports Workflow_Engine
begin

text \<open>
  \<open>apps/workflows/runtime_lifecycle.go\<close>: what the start, stop and replacement of a Runtime share: the
  requests they build, the classification of provider answers, the wait for a provider state, the closing
  of compute usage and the two ways an Operation fails.
\<close>

section \<open>Configuration\<close>

text \<open>
  The limits of the waits, the fuel of the model for them, and which of the dependencies the code compares
  with nil are configured.
\<close>

record workflow_config =
  wc_fuel :: nat
  wc_ProviderPollInterval :: int64
  wc_ProviderPollTimeout :: int64
  wc_GuestPollInterval :: int64
  wc_GuestPollTimeout :: int64
  wc_SnapshotPolling :: snapshot_polling
  wc_ReplaceActions :: bool
  wc_Attachments :: bool
  wc_HostIdentity :: bool
  wc_Managed :: bool
  wc_Toolchain :: bool

section \<open>Requests and checks\<close>

definition runtimeLifecycleRequest :: "runtime_operation_state \<Rightarrow> failure_message + lifecycle_request" where
  "runtimeLifecycleRequest state =
     (let rt = ros_Runtime state in
      case rt_ProviderInstanceRef rt of
        None \<Rightarrow> Inl (Text ''Runtime provider instance and data volume are required'')
      | Some ref \<Rightarrow>
          if blank ref \<or> blank (ros_DataVolumeProviderID state)
          then Inl (Text ''Runtime provider instance and data volume are required'')
          else Inr \<lparr>lr_Spec =
                     \<lparr>spec_RuntimeID = rt_ID rt, spec_EnvironmentID = rt_EnvironmentID rt,
                      spec_Sequence = rt_Sequence rt, spec_Region = rt_Region rt,
                      spec_AvailabilityZone = rt_AvailabilityZone rt,
                      spec_RuntimePreset = rt_RuntimePreset rt, spec_ImageVersion = rt_ImageVersion rt,
                      spec_DataVolumeProviderID = ros_DataVolumeProviderID state\<rparr>,
                    lr_ProviderID = ref\<rparr>)"

definition validateRuntimeOperationInput ::
  "runtime_operation_dispatch \<Rightarrow> operation_type \<Rightarrow> runtime_operation_state \<Rightarrow> failure_message option" where
  "validateRuntimeOperationInput input expected state =
     (if rod_OperationID input = [] \<or> rod_OperationType input \<noteq> expected \<or> rod_EnvironmentID input = []
         \<or> rod_RuntimeID input = [] \<or> rod_OwnerUserID input = []
      then Some (Text ''Runtime Operation dispatch is incomplete or has the wrong type'')
      else if ros_OwnerUserID state \<noteq> rod_OwnerUserID input \<or> rt_ID (ros_Runtime state) \<noteq> rod_RuntimeID input
              \<or> rt_EnvironmentID (ros_Runtime state) \<noteq> rod_EnvironmentID input
      then Some (Text ''Runtime Operation target does not belong to the Environment'')
      else None)"

definition validateProviderRuntimeIdentity ::
  "provider_runtime \<Rightarrow> lifecycle_request \<Rightarrow> failure_message option" where
  "validateProviderRuntimeIdentity observed request =
     (if pr_Spec observed \<noteq> lr_Spec request \<or> pr_ProviderID observed \<noteq> lr_ProviderID request
      then Some (Text ''Runtime provider observation identity diverged'') else None)"

definition validateAttachedProviderRuntime ::
  "provider_runtime \<Rightarrow> lifecycle_request \<Rightarrow> failure_message option" where
  "validateAttachedProviderRuntime observed request =
     (case validateProviderRuntimeIdentity observed request of
        Some err \<Rightarrow> Some err
      | None \<Rightarrow>
          if blank (pr_Provider observed) \<or> blank (pr_SystemVolumeProviderID observed)
             \<or> (pr_State observed \<noteq> RuntimeStatePending \<and> pr_State observed \<noteq> RuntimeStateRunning)
          then Some (Text ''Runtime attachment identity diverged'') else None)"

definition validateRuntimeStopAudit :: "runtime_operation_dispatch \<Rightarrow> failure_message option" where
  "validateRuntimeStopAudit input =
     (if rod_StopReason input \<noteq> RuntimeStopAutoStop
      then if rod_StopAudit input \<noteq> None
           then Some (Text ''only an automatic stop may carry Auto-stop audit evidence'')
           else None
      else case rod_StopAudit input of
        None \<Rightarrow> Some (Text ''automatic stop requires complete policy, snapshot, and grace evidence'')
      | Some evidence \<Rightarrow>
          if pol_EnvironmentID (audit_Policy evidence) \<noteq> rod_EnvironmentID input
             \<or> audit_PolicyGeneration evidence = 0 \<or> is_zero (audit_GraceStartedAt evidence)
             \<or> before (audit_GraceExpiredAt evidence) (audit_GraceStartedAt evidence)
             \<or> audit_GracePeriodSeconds evidence \<noteq> pol_GracePeriodSeconds (audit_Policy evidence)
             \<or> length (audit_QualifyingSnapshots evidence) \<noteq> 2
          then Some (Text ''automatic stop requires complete policy, snapshot, and grace evidence'')
          else if list_ex (\<lambda>snapshot. act_RuntimeID snapshot \<noteq> rod_RuntimeID input
                      \<or> act_Sequence snapshot = 0 \<or> is_zero (act_ObservedAt snapshot))
                    (audit_QualifyingSnapshots evidence)
          then Some (Text ''automatic stop audit evidence belongs to another Runtime'')
          else None)"

definition dataVolumeRequest ::
  "runtime_operation_dispatch \<Rightarrow> runtime_operation_state \<Rightarrow> data_volume_request" where
  "dataVolumeRequest input state =
     \<lparr>dvr_OwnerUserID = rod_OwnerUserID input, dvr_EnvironmentID = rod_EnvironmentID input,
      dvr_RuntimeID = rod_RuntimeID input, dvr_Region = rt_Region (ros_Runtime state),
      dvr_AvailabilityZone = rt_AvailabilityZone (ros_Runtime state),
      dvr_DataVolumeProviderID = ros_DataVolumeProviderID state\<rparr>"

section \<open>Provider outcomes\<close>

definition providerDivergenceOutcome :: "failure_message \<Rightarrow> provider_outcome" where
  "providerDivergenceOutcome err =
     zero_outcome\<lparr>out_FailureCode := error_code_string ErrorCodeResourceDiverged, out_Failure := err\<rparr>"

definition providerStateDivergenceOutcome :: "provider_outcome \<Rightarrow> failure_message \<Rightarrow> provider_outcome" where
  "providerStateDivergenceOutcome observed err =
     observed\<lparr>out_RetryableFailure := False,
              out_FailureCode := error_code_string ErrorCodeResourceDiverged, out_Failure := err\<rparr>"

definition providerOutcome :: "call_error + provider_runtime \<Rightarrow> string + provider_outcome" where
  "providerOutcome answer =
     (case answer of
        Inr rt \<Rightarrow> Inr (zero_outcome\<lparr>out_Runtime := rt\<rparr>)
      | Inl err \<Rightarrow>
          if isTransientError err then Inl (call_error_text err)
          else Inr (zero_outcome
                 \<lparr>out_FailureCode := (case err of ProviderFailure code text \<Rightarrow> error_code_string code
                                      | OtherFailure transient text \<Rightarrow> ''PROVIDER_FAILED''),
                  out_Failure := Text (call_error_text err)\<rparr>))"

definition timestampProviderOutcome ::
  "string + provider_outcome \<Rightarrow> gotime \<Rightarrow> string + provider_outcome" where
  "timestampProviderOutcome outcome observedAt =
     (case outcome of Inl err \<Rightarrow> Inl err | Inr v \<Rightarrow> Inr (v\<lparr>out_ObservedAt := observedAt\<rparr>))"

definition providerPollOutcome :: "call_error + provider_runtime \<Rightarrow> gotime \<Rightarrow> provider_outcome" where
  "providerPollOutcome answer observedAt =
     (case providerOutcome answer of
        Inl err \<Rightarrow> zero_outcome\<lparr>out_ObservedAt := observedAt, out_RetryableFailure := True\<rparr>
      | Inr outcome \<Rightarrow> outcome\<lparr>out_ObservedAt := observedAt\<rparr>)"

text \<open>One provider call as a step: the outcome with the time it was observed.\<close>

definition provider_source :: "services \<Rightarrow> provider_call \<Rightarrow> trace \<Rightarrow> string + provider_outcome" where
  "provider_source svc c h =
     (case svc_provider svc h c of
        Inl err \<Rightarrow> Inl err
      | Inr (answer, at) \<Rightarrow> timestampProviderOutcome (providerOutcome answer) at)"

definition call_provider ::
  "services \<Rightarrow> provider_call \<Rightarrow> (string \<Rightarrow> 'a workflow) \<Rightarrow> (provider_outcome \<Rightarrow> 'a workflow) \<Rightarrow> 'a workflow" where
  "call_provider svc c = ask (provider_source svc c) (Called c)"

section \<open>Failing an Operation\<close>

definition failRuntimeOperation ::
  "services \<Rightarrow> string \<Rightarrow> string \<Rightarrow> failure_message \<Rightarrow> 'a workflow" where
  "failRuntimeOperation svc operationID code message =
     (let code = (if code = [] then ''RUNTIME_OPERATION_FAILED'' else code) in
      read_now svc ''fail-runtime-operation'' (\<lambda>now.
      do_step svc (RecordRuntimeFailure operationID code message now)
        (\<lambda>err. fail (StepFailed (Text err)))
        (fail (OperationFailed code message))))"

definition persistRuntimeTransition ::
  "services \<Rightarrow> string \<Rightarrow> runtime_snapshot \<Rightarrow> runtime \<Rightarrow> (string \<Rightarrow> 'a workflow)
   \<Rightarrow> (runtime_snapshot \<Rightarrow> 'a workflow) \<Rightarrow> 'a workflow" where
  "persistRuntimeTransition svc operationID current changed onError continue =
     (let nxt = cloneRuntimeSnapshot changed in
      do_step svc (PersistRuntimeTransition operationID (rt_Version current) nxt) onError (continue nxt))"

definition markRuntimeErrorAndFail ::
  "services \<Rightarrow> string \<Rightarrow> runtime_snapshot \<Rightarrow> string \<Rightarrow> failure_message \<Rightarrow> 'a workflow" where
  "markRuntimeErrorAndFail svc operationID current code message =
     (case RestoreRuntime current of
        Inl err \<Rightarrow> fail (TerminalFailure (RuntimeFailure err))
      | Inr rt \<Rightarrow>
          (case rt_ProviderInstanceRef current of
             None \<Rightarrow> panic
           | Some ref \<Rightarrow>
               read_now svc ''mark-runtime-error'' (\<lambda>now.
               case MarkError rt \<lparr>obs_ProviderInstanceRef = ref, obs_ExpectedVersion = rt_Version current,
                                  obs_ObservedAt = now\<rparr> of
                 Inl err \<Rightarrow> fail (TerminalFailure (RuntimeFailure err))
               | Inr failed \<Rightarrow>
                   persistRuntimeTransition svc operationID current failed
                     (\<lambda>err. fail (StepFailed (Text err)))
                     (\<lambda>_. failRuntimeOperation svc operationID code message))))"

definition markRuntimeProviderFailure ::
  "services \<Rightarrow> string \<Rightarrow> runtime_snapshot \<Rightarrow> provider_outcome \<Rightarrow> 'a workflow" where
  "markRuntimeProviderFailure svc operationID current outcome =
     markRuntimeErrorAndFail svc operationID current (out_FailureCode outcome) (out_Failure outcome)"

definition closeComputeUsageForProviderOutcome ::
  "services \<Rightarrow> string \<Rightarrow> provider_outcome \<Rightarrow> closure_source \<Rightarrow> (failure_message \<Rightarrow> 'a workflow)
   \<Rightarrow> 'a workflow \<Rightarrow> 'a workflow" where
  "closeComputeUsageForProviderOutcome svc intervalID outcome closureSource onError continue =
     (let computeGone = pr_State (out_Runtime outcome) = RuntimeStateStopped
            \<or> pr_State (out_Runtime outcome) = RuntimeStateTerminated
      in if \<not> computeGone \<or> intervalID = [] then continue
         else if is_zero (out_ObservedAt outcome)
         then onError (Text ''terminal Runtime provider observation time is required to close Compute Usage'')
         else do_step svc (CloseComputeUsageInterval intervalID (out_ObservedAt outcome) closureSource)
                (\<lambda>err. onError (Text err)) continue)"

definition failRuntimeOperationForProviderOutcome ::
  "services \<Rightarrow> string \<Rightarrow> runtime_snapshot \<Rightarrow> string \<Rightarrow> provider_outcome \<Rightarrow> string \<Rightarrow> closure_source
   \<Rightarrow> 'a workflow" where
  "failRuntimeOperationForProviderOutcome svc operationID current intervalID outcome fallbackCode closureSource =
     closeComputeUsageForProviderOutcome svc intervalID outcome closureSource
       (\<lambda>err. markRuntimeErrorAndFail svc operationID current fallbackCode err)
       (markRuntimeProviderFailure svc operationID current outcome)"

definition completeRuntimeOperation ::
  "services \<Rightarrow> string \<Rightarrow> (string \<Rightarrow> 'a workflow) \<Rightarrow> 'a workflow \<Rightarrow> 'a workflow" where
  "completeRuntimeOperation svc operationID onError continue =
     read_now svc ''complete-runtime-operation'' (\<lambda>now.
     do_step svc (CompleteRuntimeOperation operationID now) onError continue)"

section \<open>Waiting for a provider state\<close>

definition defaultProviderPollInterval :: int64 where
  "defaultProviderPollInterval = 5 * 1000000000"

definition defaultProviderPollTimeout :: int64 where
  "defaultProviderPollTimeout = 600 * 1000000000"

definition or_default :: "int64 \<Rightarrow> int64 \<Rightarrow> int64" where
  "or_default d fallback = (if sint d \<le> 0 then fallback else d)"

definition observe_journal :: "services \<Rightarrow> trace \<Rightarrow> lifecycle_request \<Rightarrow> (string, provider_outcome) journal" where
  "observe_journal svc h request attempt t slept =
     (case svc_observe svc h request attempt t slept of
        Inl err \<Rightarrow> Inl err
      | Inr (answer, at) \<Rightarrow>
          let outcome = providerPollOutcome answer zero_time in
          Inr (\<lparr>read_Value = outcome, read_UseValue = True,
                read_RetryableFailure = out_RetryableFailure outcome\<rparr>, at))"

definition evaluate_provider_state ::
  "lifecycle_request \<Rightarrow> provider_state \<Rightarrow> provider_state list \<Rightarrow> provider_outcome \<Rightarrow> gotime
   \<Rightarrow> provider_outcome \<times> bool" where
  "evaluate_provider_state request expected transitional observed startedAt =
     (if out_RetryableFailure observed then (observed, False)
      else if out_Failure observed \<noteq> Text [] then (observed, True)
      else case validateProviderRuntimeIdentity (out_Runtime observed) request of
        Some err \<Rightarrow> (providerDivergenceOutcome err, True)
      | None \<Rightarrow>
          let state = pr_State (out_Runtime observed) in
          if state = expected then (observed, True)
          else if state \<notin> set transitional
          then (providerStateDivergenceOutcome observed (StateDiverged state (expected # transitional)), True)
          else (observed, False))"

definition provider_poll_config :: "gotime \<Rightarrow> string \<Rightarrow> int64 \<Rightarrow> int64 \<Rightarrow> poll_config" where
  "provider_poll_config startedAt stepPrefix pollInterval pollTimeout =
     \<lparr>cfg_startedAt = startedAt, cfg_timeout = or_default pollTimeout defaultProviderPollTimeout,
      cfg_initialDelay = or_default pollInterval defaultProviderPollInterval,
      cfg_maxDelay = 30 * 1000000000, cfg_stepPrefix = stepPrefix,
      cfg_readStepPrefix = stepPrefix @ ''-observe''\<rparr>"

text \<open>\<open>transitional\<close> lists the transitional state and the additional ones.\<close>

definition waitForProviderState ::
  "nat \<Rightarrow> services \<Rightarrow> lifecycle_request \<Rightarrow> provider_outcome \<Rightarrow> provider_state \<Rightarrow> provider_state list
   \<Rightarrow> string \<Rightarrow> int64 \<Rightarrow> int64 \<Rightarrow> trace \<Rightarrow> (string poll_error, provider_outcome) waited" where
  "waitForProviderState fuel svc request initial expected transitional stepPrefix pollInterval pollTimeout h =
     (if is_zero (out_ObservedAt initial)
      then WaitEnded (providerDivergenceOutcome (Text ''Runtime provider observation time is required''))
      else case durableDeadlinePoll fuel zero_outcome (Inl []) (Some (initial, out_ObservedAt initial))
                  (provider_poll_config (out_ObservedAt initial) stepPrefix pollInterval pollTimeout)
                  (observe_journal svc h request)
                  (evaluate_provider_state request expected transitional)
                  (Some (\<lambda>outcome checkedAt. outcome\<lparr>out_ObservedAt := checkedAt\<rparr>)) of
        None \<Rightarrow> WaitUnfinished
      | Some (Inl err) \<Rightarrow> WaitFailed err
      | Some (Inr poll) \<Rightarrow>
          if res_timedOut poll
          then WaitEnded (zero_outcome\<lparr>out_FailureCode := error_code_string ErrorCodeUnavailable,
                                       out_Failure := WaitTimedOut expected\<rparr>)
          else WaitEnded (res_value poll))"

section \<open>What a wait ends with\<close>

lemma evaluate_provider_state_done:
  assumes "evaluate_provider_state request expected transitional observed t = (outcome, True)"
    and "out_Failure outcome = Text []"
  shows "pr_State (out_Runtime outcome) = expected"
    and "validateProviderRuntimeIdentity (out_Runtime outcome) request = None"
  using assms
  by (auto simp: evaluate_provider_state_def Let_def providerDivergenceOutcome_def
      providerStateDivergenceOutcome_def validateProviderRuntimeIdentity_def split: if_splits)

text \<open>A wait without a failure has seen the requested Runtime in the expected state.\<close>

lemma waitForProviderState_reached:
  assumes "waitForProviderState fuel svc request initial expected transitional stepPrefix interval timeout h
      = WaitEnded outcome" and "out_Failure outcome = Text []"
  shows "pr_State (out_Runtime outcome) = expected"
    and "validateProviderRuntimeIdentity (out_Runtime outcome) request = None"
proof -
  let ?evaluate = "evaluate_provider_state request expected transitional"
  from assms obtain poll
    where "durableDeadlinePoll fuel zero_outcome (Inl []) (Some (initial, out_ObservedAt initial))
        (provider_poll_config (out_ObservedAt initial) stepPrefix interval timeout)
        (observe_journal svc h request) ?evaluate (Some (\<lambda>outcome checkedAt. outcome\<lparr>out_ObservedAt := checkedAt\<rparr>)) = Some (Inr poll)"
      and "\<not> res_timedOut poll" and "res_value poll = outcome"
    by (auto simp: waitForProviderState_def providerDivergenceOutcome_def
        split: if_splits option.splits sum.splits)
  from poll_sound [OF this(1)] this(2,3) obtain v t where "?evaluate v t = (outcome, True)"
    by auto
  from evaluate_provider_state_done [OF this assms(2)]
  show "pr_State (out_Runtime outcome) = expected"
    and "validateProviderRuntimeIdentity (out_Runtime outcome) request = None" .
qed

section \<open>The stored Runtime\<close>

text \<open>
  The Runtime as the store holds it after a journal: loaded with the Operation, then replaced by each
  persisted transition.  A persist is a domain step when it replaces the stored Runtime, at its version, by
  the result of one command of the aggregate on it.
\<close>

definition stored_after :: "runtime_snapshot option \<Rightarrow> event \<Rightarrow> runtime_snapshot option" where
  "stored_after current e =
     (case e of
        Loaded (Inr state) \<Rightarrow> Some (ros_Runtime state)
      | Did (PersistRuntimeTransition operationID version snapshot) None \<Rightarrow> Some snapshot
      | _ \<Rightarrow> current)"

definition stored :: "trace \<Rightarrow> runtime_snapshot option" where
  "stored h = foldl stored_after None h"

lemma stored_Nil [simp]: "stored [] = None"
  by (simp add: stored_def)

lemma stored_log [simp]: "stored (log h e) = stored_after (stored h) e"
  by (simp add: stored_def log_def)

definition domain_step :: "runtime_snapshot \<Rightarrow> runtime_snapshot \<Rightarrow> bool" where
  "domain_step current nxt \<longleftrightarrow>
     (\<exists>rt command rt'. RestoreRuntime current = Inr rt \<and> apply_runtime command rt = Inr rt'
        \<and> nxt = cloneRuntimeSnapshot rt')"

definition persist_ok :: "trace \<Rightarrow> int64 \<Rightarrow> runtime_snapshot \<Rightarrow> bool" where
  "persist_ok h version snapshot \<longleftrightarrow>
     (\<exists>current. stored h = Some current \<and> version = rt_Version current \<and> domain_step current snapshot)"

lemma domain_stepI:
  "RestoreRuntime current = Inr rt \<Longrightarrow> apply_runtime command rt = Inr rt'
   \<Longrightarrow> domain_step current (cloneRuntimeSnapshot rt')"
  unfolding domain_step_def by blast

lemma domain_step_keeps:
  assumes "domain_step current nxt"
  shows "runtime_valid nxt" and "runtime_identity nxt = runtime_identity current"
    and "rt_ProviderInstanceRef current \<noteq> None \<Longrightarrow> rt_ProviderInstanceRef nxt = rt_ProviderInstanceRef current"
proof -
  from assms obtain rt command rt' where step: "RestoreRuntime current = Inr rt"
    "apply_runtime command rt = Inr rt'" "nxt = cloneRuntimeSnapshot rt'"
    by (auto simp: domain_step_def)
  show "runtime_valid nxt" and "runtime_identity nxt = runtime_identity current"
    and "rt_ProviderInstanceRef current \<noteq> None \<Longrightarrow> rt_ProviderInstanceRef nxt = rt_ProviderInstanceRef current"
    using apply_runtime_moved [OF step(2)] step
    by (auto simp: RestoreRuntime_Inr_iff runtime_moved_def runtime_identity_def)
qed

lemma BeginStop_status:
  "BeginStop rt at = Inr rt' \<Longrightarrow> rt_Status rt = RuntimeReady \<Longrightarrow> rt_Status rt' = RuntimeStopping"
  by (auto simp: BeginStop_def runtime_step_facts split: sum.splits if_splits)

lemma MarkStopped_status: "MarkStopped rt observation = Inr rt' \<Longrightarrow> rt_Status rt' = RuntimeStopped"
  by (auto simp: MarkStopped_def runtime_step_facts Let_def split: sum.splits if_splits option.splits)

lemmas domain_steps =
  domain_stepI [of _ _ "CmdBeginStart at" for at, simplified]
  domain_stepI [of _ _ "CmdMarkReady observation" for observation, simplified]
  domain_stepI [of _ _ "CmdBeginStop at" for at, simplified]
  domain_stepI [of _ _ "CmdMarkStopped observation" for observation, simplified]
  domain_stepI [of _ _ "CmdMarkError observation" for observation, simplified]
  domain_stepI [of _ _ "CmdBeginReplacement at" for at, simplified]

section \<open>Rules for the shared workflow parts\<close>

lemma wp_call_provider [wp_rules]:
  "(\<And>err. wp (onError err) Q (log h (Called c (Inl err))))
   \<Longrightarrow> (\<And>outcome. wp (continue outcome) Q (log h (Called c (Inr outcome))))
   \<Longrightarrow> wp (call_provider svc c onError continue) Q h"
  unfolding call_provider_def by (rule wp_ask)

lemma wp_failRuntimeOperation [wp_rules]:
  "(\<And>code now err. Q (Failed (StepFailed (Text err)))
      (log h (Did (RecordRuntimeFailure operationID code message now) (Some err))))
   \<Longrightarrow> (\<And>code now. Q (Failed (OperationFailed code message))
      (log h (Did (RecordRuntimeFailure operationID code message now) None)))
   \<Longrightarrow> wp (failRuntimeOperation svc operationID code message) Q h"
  unfolding failRuntimeOperation_def by (intro wp_rules) simp_all

lemma wp_persistRuntimeTransition [wp_rules]:
  "(\<And>err. wp (onError err) Q (log h (Did (PersistRuntimeTransition operationID (rt_Version current)
       (cloneRuntimeSnapshot changed)) (Some err))))
   \<Longrightarrow> wp (continue (cloneRuntimeSnapshot changed)) Q (log h (Did (PersistRuntimeTransition operationID
       (rt_Version current) (cloneRuntimeSnapshot changed)) None))
   \<Longrightarrow> wp (persistRuntimeTransition svc operationID current changed onError continue) Q h"
  unfolding persistRuntimeTransition_def Let_def by (intro wp_rules)

lemma wp_completeRuntimeOperation [wp_rules]:
  "(\<And>now err. wp (onError err) Q (log h (Did (CompleteRuntimeOperation operationID now) (Some err))))
   \<Longrightarrow> (\<And>now. wp continue Q (log h (Did (CompleteRuntimeOperation operationID now) None)))
   \<Longrightarrow> wp (completeRuntimeOperation svc operationID onError continue) Q h"
  unfolding completeRuntimeOperation_def by (intro wp_rules)

lemma wp_closeComputeUsage [wp_rules]:
  "(\<And>err. wp (onError err) Q h)
   \<Longrightarrow> (\<And>err. wp (onError (Text err)) Q
         (log h (Did (CloseComputeUsageInterval intervalID (out_ObservedAt outcome) source) (Some err))))
   \<Longrightarrow> (pr_State (out_Runtime outcome) \<noteq> RuntimeStateStopped
          \<and> pr_State (out_Runtime outcome) \<noteq> RuntimeStateTerminated \<or> intervalID = [] \<Longrightarrow> wp continue Q h)
   \<Longrightarrow> wp continue Q (log h (Did (CloseComputeUsageInterval intervalID (out_ObservedAt outcome) source) None))
   \<Longrightarrow> wp (closeComputeUsageForProviderOutcome svc intervalID outcome source onError continue) Q h"
  unfolding closeComputeUsageForProviderOutcome_def Let_def by (intro wp_rules) auto

section \<open>Guarded workflows\<close>

text \<open>
  What a workflow may do, as a guard on the next event.  Every guard of the Runtime workflows lets an
  Operation fail, compute usage close and a domain step of the stored Runtime persist; then the failing ends
  of the workflows keep the journal safe and end with an error, never with a nil dereference.
\<close>

definition failure_event :: "event \<Rightarrow> bool" where
  "failure_event e =
     (case e of
        Did (RecordRuntimeFailure operationID code message at) answer \<Rightarrow> True
      | Did (CloseComputeUsageInterval intervalID at source) answer \<Rightarrow> True
      | Did (PersistRuntimeTransition operationID version snapshot) answer \<Rightarrow> True
      | Did (PersistReplacementRuntimeTransition operationID version snapshot) answer \<Rightarrow> True
      | ReadTime place answer \<Rightarrow> True
      | _ \<Rightarrow> False)"

definition failing_end :: "trace \<Rightarrow> trace \<Rightarrow> bool" where
  "failing_end h h' \<longleftrightarrow> set h \<subseteq> set h' \<and> (\<forall>e \<in> set h'. e \<in> set h \<or> failure_event e)"

definition failed_after :: "trace \<Rightarrow> 'a outcome \<Rightarrow> trace \<Rightarrow> bool" where
  "failed_after h r h' \<longleftrightarrow> (\<exists>err. r = Failed err) \<and> failing_end h h'"

lemma failing_end_self [simp]: "failing_end h h"
  by (simp add: failing_end_def)

lemma failing_end_log [simp]: "failing_end h h' \<Longrightarrow> failure_event e \<Longrightarrow> failing_end h (log h' e)"
  by (auto simp: failing_end_def)

lemma failed_after_Failed [simp]: "failed_after h (Failed err) h' \<longleftrightarrow> failing_end h h'"
  by (simp add: failed_after_def)

lemma failed_after_later:
  "failed_after (log h e) r h' \<Longrightarrow> failure_event e \<Longrightarrow> failed_after h r h'"
  by (auto simp: failed_after_def failing_end_def)

lemma failure_events [simp]:
  "failure_event (Did (RecordRuntimeFailure operationID code message at) answer)"
  "failure_event (Did (CloseComputeUsageInterval intervalID at source) answer)"
  "failure_event (Did (PersistRuntimeTransition operationID version snapshot) answer)"
  "failure_event (Did (PersistReplacementRuntimeTransition operationID version snapshot) answer)"
  "failure_event (ReadTime place time)"
  by (simp_all add: failure_event_def)

locale workflow_guard =
  fixes guard :: "trace \<Rightarrow> event \<Rightarrow> bool" and operationID :: string
  assumes failure_allowed:
      "guard h (Did (RecordRuntimeFailure operationID code message at) answer)"
    and close_allowed: "guard h (Did (CloseComputeUsageInterval intervalID at source) answer)"
    and persist_allowed: "persist_ok h version snapshot
      \<Longrightarrow> guard h (Did (PersistRuntimeTransition operationID version snapshot) answer)"
begin

lemma fail_operation:
  assumes "safe guard h" and "\<And>r h'. safe guard h' \<Longrightarrow> failed_after h r h' \<Longrightarrow> Q r h'"
  shows "wp (failRuntimeOperation svc operationID code message) Q h"
  by (intro wp_rules assms(2)) (auto simp: assms(1) failure_allowed)

lemma mark_error:
  assumes "safe guard h" and "stored h = Some current" and "rt_ProviderInstanceRef current \<noteq> None"
    and "\<And>r h'. safe guard h' \<Longrightarrow> failed_after h r h' \<Longrightarrow> Q r h'"
  shows "wp (markRuntimeErrorAndFail svc operationID current code message) Q h"
proof -
  have allowed: "guard h (Did (PersistRuntimeTransition operationID (rt_Version current)
      (cloneRuntimeSnapshot failed)) answer)"
    if "RestoreRuntime current = Inr rt" "MarkError rt observation = Inr failed" for rt observation failed answer
    using assms(2) domain_steps(5) [OF that] by (auto intro!: persist_allowed simp: persist_ok_def)
  show ?thesis
    unfolding markRuntimeErrorAndFail_def
    by (intro wp_rules fail_operation assms(4)) (use assms allowed in \<open>auto simp: failure_allowed\<close>)
qed

lemma provider_failure:
  assumes "safe guard h" and "stored h = Some current" and "rt_ProviderInstanceRef current \<noteq> None"
    and "\<And>r h'. safe guard h' \<Longrightarrow> failed_after h r h' \<Longrightarrow> Q r h'"
  shows "wp (markRuntimeProviderFailure svc operationID current outcome) Q h"
  unfolding markRuntimeProviderFailure_def by (intro mark_error assms)

lemma provider_outcome_failure:
  assumes "safe guard h" and "stored h = Some current" and "rt_ProviderInstanceRef current \<noteq> None"
    and "\<And>r h'. safe guard h' \<Longrightarrow> failed_after h r h' \<Longrightarrow> Q r h'"
  shows "wp (failRuntimeOperationForProviderOutcome svc operationID current intervalID outcome code source) Q h"
  unfolding failRuntimeOperationForProviderOutcome_def
  by (intro wp_closeComputeUsage mark_error provider_failure assms(4))
    (use assms in \<open>auto simp: close_allowed stored_after_def dest: failed_after_later\<close>)

end

section \<open>Example services\<close>

text \<open>
  Services that answer every call: a provider that does what it is asked and echoes the requested
  Runtime, and stores that accept everything.
\<close>

definition echo_runtime :: "lifecycle_request \<Rightarrow> provider_state \<Rightarrow> provider_runtime" where
  "echo_runtime request state =
     \<lparr>pr_Spec = lr_Spec request, pr_Provider = ''aws'', pr_ProviderID = lr_ProviderID request,
      pr_SystemVolumeProviderID = ''sys-1'', pr_PrivateIPv4 = ''10.0.0.1'', pr_State = state\<rparr>"

fun willing_provider :: "provider_state \<Rightarrow> provider_call \<Rightarrow> provider_runtime" where
  "willing_provider seen (EnsureRuntime spec operationID) =
     echo_runtime \<lparr>lr_Spec = spec, lr_ProviderID = ''i-2''\<rparr> RuntimeStateRunning"
| "willing_provider seen (EnsureRuntimeDataVolumeAttachment request) = echo_runtime request RuntimeStateRunning"
| "willing_provider seen (StartRuntime request) = echo_runtime request RuntimeStateRunning"
| "willing_provider seen (StopRuntime request) = echo_runtime request RuntimeStateStopped"
| "willing_provider seen (RetireRuntime request) = echo_runtime request RuntimeStateTerminated"
| "willing_provider seen (ObserveRuntime request) = echo_runtime request seen"

abbreviation sample_now :: gotime where
  "sample_now \<equiv> \<lparr>wall = 8, loc = UTC\<rparr>"

definition sample_services :: "provider_state \<Rightarrow> runtime_operation_state \<Rightarrow> string \<Rightarrow> services" where
  "sample_services seen state promoted =
     \<lparr>svc_do = (\<lambda>h c. None),
      svc_provider = (\<lambda>h c. Inr (Inr (willing_provider seen c), sample_now)),
      svc_observe = (\<lambda>h request attempt t slept. Inr (Inr (echo_runtime request RuntimeStateStopped), sample_now)),
      svc_load = (\<lambda>h. Inr state), svc_balance = (\<lambda>h user. Inr (user, 10)),
      svc_image = (\<lambda>h region. Inr promoted), svc_new_id = (\<lambda>h purpose. Inr ''id-1''),
      svc_identity = (\<lambda>h. Inr \<lparr>rid_RuntimeID = ''rt-2'', rid_RuntimeResourceID = ''res-1'',
        rid_SystemVolumeResourceID = ''res-2'', rid_CreatedAt = sample_now\<rparr>),
      svc_open_usage = (\<lambda>h usage. Inr \<lparr>cui_ID = ou_ID usage, cui_UserID = ou_UserID usage,
        cui_EnvironmentID = ou_EnvironmentID usage, cui_RuntimeID = ou_RuntimeID usage\<rparr>),
      svc_ready = (\<lambda>h guest. Inr \<lparr>gready_BootID = ''boot-2'', gready_PrivateIPv4 = ''10.0.0.1'',
        gready_DataMounted = True\<rparr>),
      svc_ready_start = (\<lambda>h. Inr sample_now),
      svc_ready_poll = (\<lambda>h guest attempt t slept. Inr (Inr \<lparr>gready_BootID = ''boot-2'',
        gready_PrivateIPv4 = ''10.0.0.1'', gready_DataMounted = True\<rparr>, sample_now)),
      svc_snapshot = (\<lambda>h. sample_engine), svc_time = (\<lambda>h place. Inr sample_now),
      svc_attachment_start = (\<lambda>h. Inr sample_now),
      svc_attachment = (\<lambda>h request attempt t slept. Inr (Inr \<lparr>att_DataVolumeProviderID =
        spec_DataVolumeProviderID (lr_Spec request), att_RuntimeProviderID = lr_ProviderID request,
        att_Attached = False, att_ReadWrite = False\<rparr>, sample_now)),
      svc_replace = (\<lambda>h operationID owner version retired reservation.
        case ReserveRuntime reservation of Inl err \<Rightarrow> Inl [] | Inr rt \<Rightarrow> Inr (cloneRuntimeSnapshot rt)),
      svc_now = (\<lambda>h place. sample_now)\<rparr>"

definition sample_operation_state :: "runtime_snapshot \<Rightarrow> runtime_operation_state" where
  "sample_operation_state rt =
     \<lparr>ros_OwnerUserID = ''user-1'', ros_Runtime = rt, ros_DataVolumeProviderID = ''vol-1'',
      ros_ComputeUsageIntervalID = ''usage-1'', ros_OperationInput = []\<rparr>"

definition sample_dispatch :: "operation_type \<Rightarrow> runtime_operation_dispatch" where
  "sample_dispatch kind =
     \<lparr>rod_OperationID = ''op-1'', rod_OperationType = kind, rod_EnvironmentID = ''env-1'',
      rod_RuntimeID = ''rt-1'', rod_OwnerUserID = ''user-1'', rod_StopReason = RuntimeStopManual,
      rod_StopAudit = None\<rparr>"

definition sample_workflow_config :: workflow_config where
  "sample_workflow_config = \<lparr>wc_fuel = 1, wc_ProviderPollInterval = 0, wc_ProviderPollTimeout = 0,
     wc_GuestPollInterval = 0, wc_GuestPollTimeout = 0, wc_SnapshotPolling = default_polling,
     wc_ReplaceActions = True, wc_Attachments = True, wc_HostIdentity = True, wc_Managed = True,
     wc_Toolchain = True\<rparr>"

lemma sample_services_fields:
  "svc_do (sample_services seen state promoted) h c = None"
  "svc_provider (sample_services seen state promoted) h pc = Inr (Inr (willing_provider seen pc), sample_now)"
  "svc_load (sample_services seen state promoted) h = Inr state"
  "svc_balance (sample_services seen state promoted) h user = Inr (user, 10)"
  "svc_image (sample_services seen state promoted) h region = Inr promoted"
  "svc_new_id (sample_services seen state promoted) h purpose = Inr ''id-1''"
  "svc_identity (sample_services seen state promoted) h = Inr \<lparr>rid_RuntimeID = ''rt-2'',
     rid_RuntimeResourceID = ''res-1'', rid_SystemVolumeResourceID = ''res-2'', rid_CreatedAt = sample_now\<rparr>"
  "svc_snapshot (sample_services seen state promoted) h = sample_engine"
  "svc_time (sample_services seen state promoted) h place = Inr sample_now"
  "svc_now (sample_services seen state promoted) h place = sample_now"
  by (simp_all add: sample_services_def)

lemma sample_fields:
  "ros_Runtime (sample_operation_state rt) = rt" "ros_OwnerUserID (sample_operation_state rt) = ''user-1''"
  "ros_ComputeUsageIntervalID (sample_operation_state rt) = ''usage-1''"
  "ros_DataVolumeProviderID (sample_operation_state rt) = ''vol-1''"
  "rod_OperationID (sample_dispatch kind) = ''op-1''" "rod_OperationType (sample_dispatch kind) = kind"
  "rod_EnvironmentID (sample_dispatch kind) = ''env-1''" "rod_RuntimeID (sample_dispatch kind) = ''rt-1''"
  "rod_OwnerUserID (sample_dispatch kind) = ''user-1''"
  "rod_StopReason (sample_dispatch kind) = RuntimeStopManual" "rod_StopAudit (sample_dispatch kind) = None"
  by (simp_all add: sample_operation_state_def sample_dispatch_def)

lemmas workflow_eval = do_step_def ask_def wait_def read_now_def return_def log_def call_provider_def
  provider_source_def providerOutcome_def timestampProviderOutcome_def completeRuntimeOperation_def
  persistRuntimeTransition_def closeComputeUsageForProviderOutcome_def validateProviderRuntimeIdentity_def
  validateRuntimeOperationInput_def runtimeLifecycleRequest_def waitForProviderState_def
  durableDeadlinePoll_def evaluate_provider_state_def provider_poll_config_def or_default_def
  defaultProviderPollInterval_def defaultProviderPollTimeout_def zero_outcome_def echo_runtime_def
  sample_services_fields sample_fields Let_def

end
