(* ===== verification/Runtime_Stop.thy ===== *)
theory Runtime_Stop
  imports Runtime_Lifecycle
begin

text \<open>
  \<open>apps/workflows/runtime_stop.go\<close>: the workflow that stops a Runtime.  The body of \<open>Run\<close> is cut
  at its phases: the dispatched Operation is loaded and checked, the reason recorded, a Runtime stored
  as stopped observed, auto-stop suppressed, the guest prepared, the transition persisted, the provider
  asked to stop, and the stop finalized.
\<close>

section \<open>The workflow\<close>

record runtime_stop_output =
  rso_RuntimeID :: string
  rso_Reason :: runtime_stop_reason

definition RuntimeStopFailed :: string where
  "RuntimeStopFailed = ''RUNTIME_STOP_FAILED''"

definition stop_failed ::
  "services \<Rightarrow> runtime_operation_dispatch \<Rightarrow> failure_message \<Rightarrow> 'a workflow" where
  "stop_failed svc input message = failRuntimeOperation svc (rod_OperationID input) RuntimeStopFailed message"

definition resumeAutoStopAndFailRuntimeStop ::
  "services \<Rightarrow> runtime_operation_dispatch \<Rightarrow> runtime_operation_state \<Rightarrow> string \<Rightarrow> failure_message
   \<Rightarrow> 'a workflow" where
  "resumeAutoStopAndFailRuntimeStop svc input state code message =
     (if rt_Status (ros_Runtime state) = RuntimeReady \<or> rt_Status (ros_Runtime state) = RuntimeStopped
      then do_step svc (ResumeAutoStop (rod_EnvironmentID input) (rod_RuntimeID input))
             (\<lambda>err. fail (StepFailed (Text err)))
             (failRuntimeOperation svc (rod_OperationID input) code message)
      else failRuntimeOperation svc (rod_OperationID input) code message)"

text \<open>
  The end of a stop.  \<open>postStopErr\<close> keeps the first error of the verification of the data volume and of the
  closing of compute usage; the Runtime is marked stopped in any case.
\<close>

definition finish_stop ::
  "services \<Rightarrow> runtime_operation_dispatch \<Rightarrow> failure_message option \<Rightarrow> runtime_stop_output workflow" where
  "finish_stop svc input postStopErr =
     (case postStopErr of
        Some err \<Rightarrow> stop_failed svc input err
      | None \<Rightarrow>
          completeRuntimeOperation svc (rod_OperationID input) (\<lambda>err. stop_failed svc input (Text err))
            (return \<lparr>rso_RuntimeID = rod_RuntimeID input, rso_Reason = rod_StopReason input\<rparr>))"

definition mark_stopped ::
  "services \<Rightarrow> runtime_operation_dispatch \<Rightarrow> runtime_operation_state \<Rightarrow> failure_message option
   \<Rightarrow> runtime_stop_output workflow" where
  "mark_stopped svc input state postStopErr =
     (case RestoreRuntime (ros_Runtime state) of
        Inl err \<Rightarrow> stop_failed svc input (RuntimeFailure err)
      | Inr rt \<Rightarrow>
          (case rt_ProviderInstanceRef (ros_Runtime state) of
             None \<Rightarrow> panic
           | Some ref \<Rightarrow>
               read_now svc ''mark-runtime-stopped'' (\<lambda>now.
               case MarkStopped rt \<lparr>obs_ProviderInstanceRef = ref,
                      obs_ExpectedVersion = rt_Version (ros_Runtime state), obs_ObservedAt = now\<rparr> of
                 Inl err \<Rightarrow> stop_failed svc input (RuntimeFailure err)
               | Inr markedStopped \<Rightarrow>
                   persistRuntimeTransition svc (rod_OperationID input) (ros_Runtime state) markedStopped
                     (\<lambda>err. stop_failed svc input (Text err))
                     (\<lambda>_. finish_stop svc input postStopErr))))"

definition close_stopped_usage ::
  "services \<Rightarrow> runtime_operation_state \<Rightarrow> provider_outcome \<Rightarrow> bool \<Rightarrow> failure_message option
   \<Rightarrow> (failure_message option \<Rightarrow> 'a workflow) \<Rightarrow> 'a workflow" where
  "close_stopped_usage svc state observed storedStopped postStopErr continue =
     (if ros_ComputeUsageIntervalID state = []
      then continue (if \<not> storedStopped \<and> postStopErr = None
                     then Some (Text ''open Compute Usage Interval is required'') else postStopErr)
      else closeComputeUsageForProviderOutcome svc (ros_ComputeUsageIntervalID state) observed
             ComputeUsageClosedByRuntimeStop
             (\<lambda>err. continue (if postStopErr = None then Some err else postStopErr))
             (continue postStopErr))"

definition finalizeObservedStoppedRuntime ::
  "services \<Rightarrow> runtime_operation_dispatch \<Rightarrow> runtime_operation_state \<Rightarrow> provider_outcome \<Rightarrow> bool
   \<Rightarrow> runtime_stop_output workflow" where
  "finalizeObservedStoppedRuntime svc input state observed storedStopped =
     (let continue = (\<lambda>postStopErr.
            close_stopped_usage svc state observed storedStopped postStopErr (\<lambda>postStopErr.
              if storedStopped then finish_stop svc input postStopErr
              else mark_stopped svc input state postStopErr))
      in do_step svc (VerifyRuntimeDataVolume (dataVolumeRequest input state))
           (\<lambda>err. continue (Some (Text err))) (continue None))"

definition fail_for_stop_outcome ::
  "services \<Rightarrow> runtime_operation_dispatch \<Rightarrow> runtime_operation_state \<Rightarrow> provider_outcome \<Rightarrow> 'a workflow" where
  "fail_for_stop_outcome svc input state outcome =
     failRuntimeOperationForProviderOutcome svc (rod_OperationID input) (ros_Runtime state)
       (ros_ComputeUsageIntervalID state) outcome RuntimeStopFailed ComputeUsageClosedByRuntimeStop"

text \<open>The provider is asked to stop the Runtime and observed until it has.\<close>

definition stop_provider ::
  "services \<Rightarrow> workflow_config \<Rightarrow> runtime_operation_dispatch \<Rightarrow> runtime_operation_state \<Rightarrow> lifecycle_request
   \<Rightarrow> bool \<Rightarrow> runtime_stop_output workflow" where
  "stop_provider svc cfg input state request storedStopped =
     (let accepted = [RuntimeStateRunning, RuntimeStateStopping, RuntimeStateStopped] in
      call_provider svc (StopRuntime request) (\<lambda>err. fail (StepFailed (Text err))) (\<lambda>stopped.
      if out_Failure stopped \<noteq> Text [] then fail_for_stop_outcome svc input state stopped
      else case validateProviderRuntimeIdentity (out_Runtime stopped) request of
        Some err \<Rightarrow> markRuntimeProviderFailure svc (rod_OperationID input) (ros_Runtime state)
                      (providerDivergenceOutcome err)
      | None \<Rightarrow>
          (let stoppedState = pr_State (out_Runtime stopped) in
           if stoppedState = RuntimeStateTerminated
           then fail_for_stop_outcome svc input state
                  (providerStateDivergenceOutcome stopped (StateDiverged stoppedState accepted))
           else if stoppedState \<notin> set accepted
           then markRuntimeProviderFailure svc (rod_OperationID input) (ros_Runtime state)
                  (providerDivergenceOutcome (StateDiverged stoppedState accepted))
           else
             wait (waitForProviderState (wc_fuel cfg) svc request stopped RuntimeStateStopped
                     [RuntimeStateStopping, RuntimeStateRunning] ''wait-runtime-stopped''
                     (wc_ProviderPollInterval cfg) (wc_ProviderPollTimeout cfg))
               (Waited ''wait-runtime-stopped'' request)
               (\<lambda>err. fail (StepFailed (PollFailure err))) (\<lambda>observed.
             if out_Failure observed \<noteq> Text [] then fail_for_stop_outcome svc input state observed
             else finalizeObservedStoppedRuntime svc input state observed storedStopped))))"

text \<open>The Runtime leaves its ready state, unless it is stored as stopped already.\<close>

definition begin_stop ::
  "services \<Rightarrow> workflow_config \<Rightarrow> runtime_operation_dispatch \<Rightarrow> runtime_operation_state \<Rightarrow> lifecycle_request
   \<Rightarrow> bool \<Rightarrow> runtime_stop_output workflow" where
  "begin_stop svc cfg input state request storedStopped =
     (let failWhileReady = resumeAutoStopAndFailRuntimeStop svc input state RuntimeStopFailed in
      if storedStopped then stop_provider svc cfg input state request storedStopped
      else case RestoreRuntime (ros_Runtime state) of
        Inl err \<Rightarrow> failWhileReady (RuntimeFailure err)
      | Inr rt \<Rightarrow>
          read_now svc ''begin-runtime-stop'' (\<lambda>now.
          case BeginStop rt now of
            Inl err \<Rightarrow> failWhileReady (RuntimeFailure err)
          | Inr stopping \<Rightarrow>
              persistRuntimeTransition svc (rod_OperationID input) (ros_Runtime state) stopping
                (\<lambda>err. failWhileReady (Text err))
                (\<lambda>nextRuntime. stop_provider svc cfg input (state\<lparr>ros_Runtime := nextRuntime\<rparr>) request
                   storedStopped)))"

definition stop_guest_request ::
  "runtime_operation_dispatch \<Rightarrow> runtime_operation_state \<Rightarrow> lifecycle_request \<Rightarrow> provider_outcome option
   \<Rightarrow> guest_request" where
  "stop_guest_request input state request storedObservation =
     \<lparr>gr_OwnerUserID = rod_OwnerUserID input, gr_EnvironmentID = rod_EnvironmentID input,
      gr_RuntimeID = rod_RuntimeID input, gr_ProviderID = lr_ProviderID request,
      gr_PrivateIPv4 =
        (case rt_PrivateAddress (ros_Runtime state) of
           Some address \<Rightarrow> address
         | None \<Rightarrow> (case storedObservation of None \<Rightarrow> [] | Some observed \<Rightarrow> pr_PrivateIPv4 (out_Runtime observed)))\<rparr>"

text \<open>
  Auto-stop is suppressed, a current Activity Snapshot recorded and the guest prepared; an error on the
  way resumes auto-stop.  \<open>storedObservation\<close> is the observation of a Runtime stored as stopped.
\<close>

definition prepare_stop ::
  "services \<Rightarrow> workflow_config \<Rightarrow> runtime_operation_dispatch \<Rightarrow> runtime_operation_state \<Rightarrow> lifecycle_request
   \<Rightarrow> provider_outcome option \<Rightarrow> runtime_stop_output workflow" where
  "prepare_stop svc cfg input state request storedObservation =
     (let failWhileReady = resumeAutoStopAndFailRuntimeStop svc input state RuntimeStopFailed in
      do_step svc (SuppressAutoStop (rod_EnvironmentID input) (rod_RuntimeID input))
        (\<lambda>err. stop_failed svc input (Text err))
      (wait (\<lambda>h. case refreshAutoStopSnapshot (wc_fuel cfg) (wc_SnapshotPolling cfg)
                        ''request-activity-snapshot'' (svc_snapshot svc h)
                        \<lparr>rr_EnvironmentID = rod_EnvironmentID input, rr_RuntimeID = rod_RuntimeID input,
                         rr_AfterSnapshotSequence = 0, rr_FreshAfter = zero_time\<rparr> of
                    None \<Rightarrow> WaitUnfinished
                  | Some (Inl err) \<Rightarrow> WaitFailed err
                  | Some (Inr answer) \<Rightarrow> WaitEnded answer)
         SnapshotRead (\<lambda>err. failWhileReady (SnapshotFailure err)) (\<lambda>answer.
       let snapshot = sr_Observation answer in
       if sr_ReferenceUnavailable answer then failWhileReady (Text ''referenced resource is absent or not owned'')
       else case aso_Snapshot snapshot of
         None \<Rightarrow> failWhileReady (Text ''Activity Snapshot belongs to another Runtime'')
       | Some activity \<Rightarrow>
           if aso_RuntimeID snapshot \<noteq> rod_RuntimeID input \<or> act_RuntimeID activity \<noteq> rod_RuntimeID input
           then failWhileReady (Text ''Activity Snapshot belongs to another Runtime'')
           else if is_zero (aso_FreshAfter snapshot) \<or> before (act_ObservedAt activity) (aso_FreshAfter snapshot)
           then failWhileReady (Text ''Activity Snapshot is stale'')
           else
             do_step svc (RecordRuntimeStopSnapshot (rod_OperationID input) snapshot)
               (\<lambda>err. failWhileReady (Text err))
             (do_step svc (PrepareRuntimeShutdown (stop_guest_request input state request storedObservation))
               (\<lambda>err. failWhileReady (Text err))
             (begin_stop svc cfg input state request (storedObservation \<noteq> None))))))"

text \<open>A Runtime stored as stopped is observed first: the provider may have stopped it already.\<close>

definition observe_stored_stop ::
  "services \<Rightarrow> workflow_config \<Rightarrow> runtime_operation_dispatch \<Rightarrow> runtime_operation_state \<Rightarrow> lifecycle_request
   \<Rightarrow> runtime_stop_output workflow" where
  "observe_stored_stop svc cfg input state request =
     call_provider svc (ObserveRuntime request) (\<lambda>err. fail (StepFailed (Text err))) (\<lambda>observed.
     if out_Failure observed \<noteq> Text [] then fail_for_stop_outcome svc input state observed
     else case validateProviderRuntimeIdentity (out_Runtime observed) request of
       Some err \<Rightarrow> markRuntimeProviderFailure svc (rod_OperationID input) (ros_Runtime state)
                     (providerDivergenceOutcome err)
     | None \<Rightarrow>
         if pr_State (out_Runtime observed) = RuntimeStateStopped
         then finalizeObservedStoppedRuntime svc input state observed True
         else if pr_State (out_Runtime observed) = RuntimeStateTerminated
         then fail_for_stop_outcome svc input state
                (providerStateDivergenceOutcome observed
                   (StateDiverged (pr_State (out_Runtime observed)) [RuntimeStateStopped]))
         else prepare_stop svc cfg input state request (Some observed))"

definition stop_recorded ::
  "services \<Rightarrow> workflow_config \<Rightarrow> runtime_operation_dispatch \<Rightarrow> runtime_operation_state
   \<Rightarrow> runtime_stop_output workflow" where
  "stop_recorded svc cfg input state =
     (let status = rt_Status (ros_Runtime state); storedStopped = (status = RuntimeStopped) in
      if \<not> storedStopped \<and> status \<noteq> RuntimeReady
      then stop_failed svc input (StatusUnexpected status [RuntimeReady, RuntimeStopped])
      else case runtimeLifecycleRequest state of
        Inl err \<Rightarrow> stop_failed svc input err
      | Inr request \<Rightarrow>
          if storedStopped then observe_stored_stop svc cfg input state request
          else prepare_stop svc cfg input state request None)"

definition stop_loaded ::
  "services \<Rightarrow> workflow_config \<Rightarrow> runtime_operation_dispatch \<Rightarrow> runtime_operation_state
   \<Rightarrow> runtime_stop_output workflow" where
  "stop_loaded svc cfg input state =
     (case validateRuntimeOperationInput input OperationRuntimeStop state of
        Some err \<Rightarrow> stop_failed svc input err
      | None \<Rightarrow>
          if \<not> runtime_stop_reason_Valid (rod_StopReason input)
          then stop_failed svc input (StopReasonInvalid (rod_StopReason input))
          else case validateRuntimeStopAudit input of
            Some err \<Rightarrow> stop_failed svc input err
          | None \<Rightarrow>
              do_step svc (RecordRuntimeStopReason (rod_OperationID input) (rod_StopReason input))
                (\<lambda>err. stop_failed svc input (Text err))
              (case rod_StopAudit input of
                 None \<Rightarrow> stop_recorded svc cfg input state
               | Some audit \<Rightarrow>
                   do_step svc (RecordRuntimeStopAudit (rod_OperationID input) audit)
                     (\<lambda>err. stop_failed svc input (Text err))
                   (stop_recorded svc cfg input state)))"

definition stop_Run ::
  "services \<Rightarrow> workflow_config \<Rightarrow> string \<Rightarrow> runtime_operation_dispatch \<Rightarrow> runtime_stop_output workflow" where
  "stop_Run svc cfg key input =
     (if key \<noteq> rod_OperationID input then fail WorkflowKeyMismatch
      else ask (svc_load svc) Loaded (\<lambda>err. fail (StepFailed (Text err)))
             (\<lambda>state. stop_loaded svc cfg input state))"

section \<open>What the workflow may do\<close>

text \<open>
  The facts that must be in the journal before the provider is asked to stop, and before the Operation
  completes.
\<close>

definition stop_prepared ::
  "runtime_operation_dispatch \<Rightarrow> runtime_operation_state \<Rightarrow> lifecycle_request \<Rightarrow> trace \<Rightarrow> bool" where
  "stop_prepared input state request h \<longleftrightarrow>
     runtimeLifecycleRequest state = Inr request
     \<and> Did (RecordRuntimeStopReason (rod_OperationID input) (rod_StopReason input)) None \<in> set h
     \<and> (\<forall>audit. rod_StopAudit input = Some audit \<longrightarrow>
          Did (RecordRuntimeStopAudit (rod_OperationID input) audit) None \<in> set h)
     \<and> Did (SuppressAutoStop (rod_EnvironmentID input) (rod_RuntimeID input)) None \<in> set h
     \<and> (\<exists>snapshot activity.
          Did (RecordRuntimeStopSnapshot (rod_OperationID input) snapshot) None \<in> set h
          \<and> aso_Snapshot snapshot = Some activity \<and> act_RuntimeID activity = rod_RuntimeID input
          \<and> \<not> before (act_ObservedAt activity) (aso_FreshAfter snapshot))
     \<and> (\<exists>guest. Did (PrepareRuntimeShutdown guest) None \<in> set h \<and> gr_ProviderID guest = lr_ProviderID request)"

definition stop_call_ok ::
  "runtime_operation_dispatch \<Rightarrow> runtime_operation_state \<Rightarrow> lifecycle_request \<Rightarrow> trace \<Rightarrow> bool" where
  "stop_call_ok input state request h \<longleftrightarrow> stop_prepared input state request h
     \<and> (\<exists>rt. stored h = Some rt \<and> rt_ID rt = rt_ID (ros_Runtime state)
          \<and> rt_Status rt = (if rt_Status (ros_Runtime state) = RuntimeStopped then RuntimeStopped
                             else RuntimeStopping))"

definition observed_stopped :: "lifecycle_request \<Rightarrow> provider_outcome \<Rightarrow> trace \<Rightarrow> bool" where
  "observed_stopped request outcome h \<longleftrightarrow>
     (Called (ObserveRuntime request) (Inr outcome) \<in> set h
      \<or> Waited ''wait-runtime-stopped'' request (WaitEnded outcome) \<in> set h)
     \<and> pr_State (out_Runtime outcome) = RuntimeStateStopped
     \<and> validateProviderRuntimeIdentity (out_Runtime outcome) request = None"

definition stop_evidence ::
  "runtime_operation_dispatch \<Rightarrow> runtime_operation_state \<Rightarrow> provider_outcome \<Rightarrow> trace \<Rightarrow> bool" where
  "stop_evidence input state outcome h \<longleftrightarrow>
     (\<exists>request. runtimeLifecycleRequest state = Inr request \<and> observed_stopped request outcome h)
     \<and> (if ros_ComputeUsageIntervalID state = [] then rt_Status (ros_Runtime state) = RuntimeStopped
        else Did (CloseComputeUsageInterval (ros_ComputeUsageIntervalID state) (out_ObservedAt outcome)
               ComputeUsageClosedByRuntimeStop) None \<in> set h)
     \<and> Did (VerifyRuntimeDataVolume (dataVolumeRequest input state)) None \<in> set h"

definition stop_complete_ok ::
  "runtime_operation_dispatch \<Rightarrow> runtime_operation_state \<Rightarrow> trace \<Rightarrow> bool" where
  "stop_complete_ok input state h \<longleftrightarrow>
     (\<exists>outcome. stop_evidence input state outcome h)
     \<and> (\<exists>rt. stored h = Some rt \<and> rt_ID rt = rt_ID (ros_Runtime state) \<and> rt_Status rt = RuntimeStopped)"

definition stop_guard ::
  "runtime_operation_dispatch \<Rightarrow> runtime_operation_state \<Rightarrow> trace \<Rightarrow> event \<Rightarrow> bool" where
  "stop_guard input state h e =
     (case e of
        Did (PersistRuntimeTransition operationID version snapshot) answer \<Rightarrow> persist_ok h version snapshot
      | Did (CompleteRuntimeOperation operationID at) answer \<Rightarrow> stop_complete_ok input state h
      | Called (StopRuntime request) answer \<Rightarrow> stop_call_ok input state request h
      | Called (StartRuntime request) answer \<Rightarrow> False
      | Called (RetireRuntime request) answer \<Rightarrow> False
      | _ \<Rightarrow> True)"

interpretation stop: workflow_guard "stop_guard input state" "rod_OperationID input" for input state
  by unfold_locales (simp_all add: stop_guard_def)

text \<open>
  How a run may end: a returned stop ends with the completed Operation, and an Operation that failed
  before the provider was asked to stop has resumed auto-stop if it had suppressed it.
\<close>

definition stop_end ::
  "runtime_operation_dispatch \<Rightarrow> runtime_operation_state \<Rightarrow> runtime_stop_output outcome \<Rightarrow> trace \<Rightarrow> bool" where
  "stop_end input state r h \<longleftrightarrow>
     safe (stop_guard input state) h \<and> r \<noteq> Panicked
     \<and> (\<forall>out. r = Returned out \<longrightarrow>
          out = \<lparr>rso_RuntimeID = rod_RuntimeID input, rso_Reason = rod_StopReason input\<rparr>
          \<and> (\<exists>earlier at. h = log earlier (Did (CompleteRuntimeOperation (rod_OperationID input) at) None)))
     \<and> (\<forall>code message. r = Failed (OperationFailed code message)
          \<longrightarrow> Did (SuppressAutoStop (rod_EnvironmentID input) (rod_RuntimeID input)) None \<in> set h
          \<longrightarrow> Did (ResumeAutoStop (rod_EnvironmentID input) (rod_RuntimeID input)) None \<in> set h
            \<or> (\<exists>request answer. Called (StopRuntime request) answer \<in> set h))"

abbreviation stop_called :: "trace \<Rightarrow> bool" where
  "stop_called h \<equiv> (\<exists>request answer. Called (StopRuntime request) answer \<in> set h)"

abbreviation suppressed_by :: "runtime_operation_dispatch \<Rightarrow> trace \<Rightarrow> bool" where
  "suppressed_by input h \<equiv>
     Did (SuppressAutoStop (rod_EnvironmentID input) (rod_RuntimeID input)) None \<in> set h"

text \<open>A failure needs no resumption when auto-stop was not suppressed or the provider was asked to stop.\<close>

definition settled :: "runtime_operation_dispatch \<Rightarrow> trace \<Rightarrow> bool" where
  "settled input h \<longleftrightarrow> stop_called h \<or> \<not> suppressed_by input h"

lemma settled_failing_end: "settled input h \<Longrightarrow> failing_end h h' \<Longrightarrow> settled input h'"
  by (auto simp: settled_def failing_end_def failure_event_def)

lemma stop_end_failed:
  "safe (stop_guard input state) h' \<Longrightarrow> failed_after h r h' \<Longrightarrow> settled input h \<Longrightarrow> stop_end input state r h'"
  using settled_failing_end unfolding stop_end_def failed_after_def settled_def by blast

lemma stop_failed_ends:
  assumes "safe (stop_guard input state) h" and "settled input h"
  shows "wp (stop_failed svc input message) (stop_end input state) h"
  unfolding stop_failed_def using assms stop_end_failed by (intro stop.fail_operation)

lemma fail_for_stop_outcome_ends:
  assumes "safe (stop_guard input state) h" and "settled input h" and "stored h = Some (ros_Runtime state')"
    and "rt_ProviderInstanceRef (ros_Runtime state') \<noteq> None"
  shows "wp (fail_for_stop_outcome svc input state' outcome) (stop_end input state) h"
  unfolding fail_for_stop_outcome_def using assms stop_end_failed by (intro stop.provider_outcome_failure)

lemma provider_failure_ends:
  assumes "safe (stop_guard input state) h" and "settled input h" and "stored h = Some current"
    and "rt_ProviderInstanceRef current \<noteq> None"
  shows "wp (markRuntimeProviderFailure svc (rod_OperationID input) current outcome) (stop_end input state) h"
  using assms stop_end_failed by (intro stop.provider_failure)

lemma finish_stop_ends:
  assumes "safe (stop_guard input state) h" and "settled input h"
    and "postStopErr = None \<Longrightarrow> stop_complete_ok input state h"
  shows "wp (finish_stop svc input postStopErr) (stop_end input state) h"
proof (cases postStopErr)
  case None
  have complete: "stop_guard input state h (Did (CompleteRuntimeOperation operationID at) answer)"
    for operationID at answer
    using assms(3) [OF None] by (simp add: stop_guard_def)
  show ?thesis
    unfolding finish_stop_def None option.case
    by (intro wp_rules stop_failed_ends)
      (use assms complete in \<open>auto simp: stop_end_def settled_def\<close>)
next
  case (Some err)
  with assms show ?thesis by (simp add: finish_stop_def stop_failed_ends)
qed

text \<open>
  The state after the stop began is the loaded one with its Runtime moved on.  \<open>moved_on state state'\<close>
  says what the rest of the workflow relies on.
\<close>

definition moved_on :: "runtime_operation_state \<Rightarrow> runtime_operation_state \<Rightarrow> bool" where
  "moved_on state state' \<longleftrightarrow>
     ros_ComputeUsageIntervalID state' = ros_ComputeUsageIntervalID state
     \<and> ros_DataVolumeProviderID state' = ros_DataVolumeProviderID state
     \<and> runtime_identity (ros_Runtime state') = runtime_identity (ros_Runtime state)
     \<and> rt_ProviderInstanceRef (ros_Runtime state') \<noteq> None"

lemma moved_on_request: "moved_on state state' \<Longrightarrow> dataVolumeRequest input state' = dataVolumeRequest input state"
  by (simp add: moved_on_def dataVolumeRequest_def runtime_identity_def)

lemma moved_on_step:
  "moved_on state state' \<Longrightarrow> domain_step (ros_Runtime state') nxt \<Longrightarrow> moved_on state (state'\<lparr>ros_Runtime := nxt\<rparr>)"
  by (auto simp: moved_on_def domain_step_keeps)

lemma stop_evidence_log: "stop_evidence input state outcome h \<Longrightarrow> stop_evidence input state outcome (log h e)"
  by (auto simp: stop_evidence_def observed_stopped_def split: if_splits)

lemma mark_stopped_ends:
  assumes "safe (stop_guard input state) h" and "stop_called h" and "stored h = Some (ros_Runtime state')"
    and "moved_on state state'"
    and "postStopErr = None \<Longrightarrow> stop_evidence input state outcome h"
  shows "wp (mark_stopped svc input state' postStopErr) (stop_end input state) h"
proof -
  have provider: "rt_ProviderInstanceRef (ros_Runtime state') \<noteq> None"
    using assms(4) by (simp add: moved_on_def)
  have settled: "settled input h'" if "set h \<subseteq> set h'" for h'
    using assms(2) that by (auto simp: settled_def)
  have allowed: "stop_guard input state h (Did (PersistRuntimeTransition (rod_OperationID input)
      (rt_Version (ros_Runtime state')) (cloneRuntimeSnapshot marked)) answer)"
    and arrived: "rt_ID marked = rt_ID (ros_Runtime state) \<and> rt_Status marked = RuntimeStopped"
    if "RestoreRuntime (ros_Runtime state') = Inr rt" "MarkStopped rt observation = Inr marked"
    for rt observation marked answer
    using assms(3,4) domain_steps(4) [OF that] domain_step_keeps(2) [OF domain_steps(4) [OF that]]
      MarkStopped_status [OF that(2)]
    by (auto intro!: stop.persist_allowed simp: persist_ok_def moved_on_def runtime_identity_def)
  show ?thesis
    unfolding mark_stopped_def
    by (intro wp_rules stop_failed_ends finish_stop_ends settled)
      (use assms provider in \<open>auto simp: stop_complete_ok_def stored_after_def
         intro: allowed stop_evidence_log dest: arrived\<close>)
qed

lemma close_stopped_usage_ends:
  assumes "safe (stop_guard input state) h" and "moved_on state state'"
    and "runtimeLifecycleRequest state = Inr request" and "observed_stopped request observed h"
    and "storedStopped \<longleftrightarrow> rt_Status (ros_Runtime state) = RuntimeStopped"
    and "postStopErr = None \<Longrightarrow> Did (VerifyRuntimeDataVolume (dataVolumeRequest input state)) None \<in> set h"
    and "\<And>post h'. safe (stop_guard input state) h' \<Longrightarrow> failing_end h h' \<Longrightarrow> stored h' = stored h
      \<Longrightarrow> (post = None \<Longrightarrow> stop_evidence input state observed h') \<Longrightarrow> wp (continue post) Q h'"
  shows "wp (close_stopped_usage svc state' observed storedStopped postStopErr continue) Q h"
proof -
  have interval: "ros_ComputeUsageIntervalID state' = ros_ComputeUsageIntervalID state"
    using assms(2) by (simp add: moved_on_def)
  have stopped: "pr_State (out_Runtime observed) = RuntimeStateStopped"
    using assms(4) by (simp add: observed_stopped_def)
  have evidence: "stop_evidence input state observed h"
    if "postStopErr = None" "ros_ComputeUsageIntervalID state = []" "storedStopped"
    using that assms(3-6) by (auto simp: stop_evidence_def)
  have closed: "stop_evidence input state observed (log h (Did (CloseComputeUsageInterval
      (ros_ComputeUsageIntervalID state) (out_ObservedAt observed) ComputeUsageClosedByRuntimeStop) None))"
    if "postStopErr = None" "ros_ComputeUsageIntervalID state \<noteq> []"
    using that assms(3,4,6) by (auto simp: stop_evidence_def observed_stopped_def)
  show ?thesis
    unfolding close_stopped_usage_def interval
    by (intro wp_rules assms(7))
      (use assms(1) stopped evidence closed in \<open>auto simp: stop.close_allowed stored_after_def split: if_splits\<close>)
qed

lemma finalize_ends:
  assumes "safe (stop_guard input state) h" and "settled input h" and "\<not> storedStopped \<Longrightarrow> stop_called h"
    and "stored h = Some (ros_Runtime state')" and "moved_on state state'"
    and "runtimeLifecycleRequest state = Inr request" and "observed_stopped request observed h"
    and "storedStopped \<longleftrightarrow> rt_Status (ros_Runtime state) = RuntimeStopped"
    and "storedStopped \<Longrightarrow> state' = state"
  shows "wp (finalizeObservedStoppedRuntime svc input state' observed storedStopped) (stop_end input state) h"
proof -
  have rest: "wp (close_stopped_usage svc state' observed storedStopped post (\<lambda>postStopErr.
        if storedStopped then finish_stop svc input postStopErr else mark_stopped svc input state' postStopErr))
      (stop_end input state) (log h e)"
    if e: "e = Did (VerifyRuntimeDataVolume (dataVolumeRequest input state)) answer"
      and post: "post = None \<Longrightarrow> answer = None" for post answer e
  proof (rule close_stopped_usage_ends [OF _ assms(5,6) _ assms(8)])
    show "safe (stop_guard input state) (log h e)"
      using assms(1) e by (simp add: stop_guard_def)
    show "observed_stopped request observed (log h e)"
      using assms(7) by (auto simp: observed_stopped_def)
    show "Did (VerifyRuntimeDataVolume (dataVolumeRequest input state)) None \<in> set (log h e)" if "post = None"
      using e post that by simp
    fix post' :: "failure_message option" and h'
    assume h': "safe (stop_guard input state) h'" "failing_end (log h e) h'" "stored h' = stored (log h e)"
      and evidence: "post' = None \<Longrightarrow> stop_evidence input state observed h'"
    have "settled input (log h e)" using assms(2) e by (auto simp: settled_def)
    then have settled: "settled input h'" using settled_failing_end h'(2) by blast
    have stored: "stored h' = Some (ros_Runtime state')"
      using h'(3) assms(4) e by (simp add: stored_after_def)
    have called: "stop_called h'" if "\<not> storedStopped"
      using assms(3) [OF that] h'(2) by (auto simp: failing_end_def)
    have complete: "stop_complete_ok input state h'" if "post' = None" storedStopped
      using evidence [OF that(1)] stored that(2) assms(8,9) by (auto simp: stop_complete_ok_def)
    show "wp (if storedStopped then finish_stop svc input post' else mark_stopped svc input state' post')
        (stop_end input state) h'"
      by (intro wp_if finish_stop_ends mark_stopped_ends [where outcome = observed] h'(1) settled called stored assms(5) evidence complete)
  qed
  show ?thesis
    unfolding finalizeObservedStoppedRuntime_def Let_def moved_on_request [OF assms(5)]
    by (intro wp_do_step rest) simp_all
qed

lemma stop_provider_ends:
  assumes "safe (stop_guard input state) h" and "stop_call_ok input state request h"
    and "stored h = Some (ros_Runtime state')" and "moved_on state state'"
    and "storedStopped \<longleftrightarrow> rt_Status (ros_Runtime state) = RuntimeStopped"
    and "storedStopped \<Longrightarrow> state' = state"
  shows "wp (stop_provider svc cfg input state' request storedStopped) (stop_end input state) h"
proof -
  have called: "safe (stop_guard input state) (log h (Called (StopRuntime request) answer))"
    "stored (log h (Called (StopRuntime request) answer)) = Some (ros_Runtime state')"
    "settled input (log h (Called (StopRuntime request) answer))" for answer
    using assms(1-3) by (auto simp: stop_guard_def stored_after_def settled_def)
  have request: "runtimeLifecycleRequest state = Inr request"
    using assms(2) by (simp add: stop_call_ok_def stop_prepared_def)
  have provider: "rt_ProviderInstanceRef (ros_Runtime state') \<noteq> None"
    using assms(4) by (simp add: moved_on_def)
  have waited: "safe (stop_guard input state) (log h' (Waited p request answer))"
    "stored (log h' (Waited p request answer)) = stored h'"
    "settled input (log h' (Waited p request answer)) = settled input h'"
    if "safe (stop_guard input state) h'" for h' p answer
    using that by (simp_all add: stop_guard_def stored_after_def settled_def)
  show ?thesis
    unfolding stop_provider_def Let_def
    by (intro wp_rules fail_for_stop_outcome_ends provider_failure_ends
          finalize_ends [OF _ _ _ _ assms(4) request _ assms(5,6)])
      (use called waited [OF called(1)] provider waitForProviderState_reached in
        \<open>auto simp: stop_end_def observed_stopped_def\<close>)
qed

lemma resume_and_fail_ends:
  assumes "safe (stop_guard input state) h"
    and "rt_Status (ros_Runtime state) \<in> {RuntimeReady, RuntimeStopped}"
  shows "wp (resumeAutoStopAndFailRuntimeStop svc input state code message) (stop_end input state) h"
  unfolding resumeAutoStopAndFailRuntimeStop_def
  by (intro wp_rules) (use assms in \<open>auto simp: stop_end_def stop_guard_def\<close>)

lemma stop_prepared_log: "stop_prepared input state request h \<Longrightarrow> stop_prepared input state request (log h e)"
  by (auto simp: stop_prepared_def)

lemma request_moved_on: "runtimeLifecycleRequest state = Inr request \<Longrightarrow> moved_on state state"
  by (auto simp: runtimeLifecycleRequest_def moved_on_def Let_def split: option.splits)

lemma begin_stop_ends:
  assumes "safe (stop_guard input state) h" and "stop_prepared input state request h"
    and "stored h = Some (ros_Runtime state)"
    and "rt_Status (ros_Runtime state) = (if storedStopped then RuntimeStopped else RuntimeReady)"
  shows "wp (begin_stop svc cfg input state request storedStopped) (stop_end input state) h"
proof -
  have moved: "moved_on state state"
    using assms(2) request_moved_on by (auto simp: stop_prepared_def)
  let ?persist = "\<lambda>stopping. Did (PersistRuntimeTransition (rod_OperationID input)
    (rt_Version (ros_Runtime state)) (cloneRuntimeSnapshot stopping))"
  have persisted: "stop_guard input state h (?persist stopping answer)"
    "moved_on state (state\<lparr>ros_Runtime := cloneRuntimeSnapshot stopping\<rparr>)"
    "stop_call_ok input state request (log h (?persist stopping None))"
    if "\<not> storedStopped" "RestoreRuntime (ros_Runtime state) = Inr rt" "BeginStop rt at = Inr stopping"
    for rt at stopping answer
  proof -
    note step = domain_steps(3) [OF that(2,3)]
    show "stop_guard input state h (?persist stopping answer)"
      using assms(3) step by (auto intro!: stop.persist_allowed simp: persist_ok_def)
    show "moved_on state (state\<lparr>ros_Runtime := cloneRuntimeSnapshot stopping\<rparr>)"
      using moved_on_step [OF moved step] .
    have "rt_Status stopping = RuntimeStopping"
      using BeginStop_status [OF that(3)] assms(4) that(1,2) by (simp add: RestoreRuntime_Inr_iff)
    with that(1) assms(2,4) domain_step_keeps(2) [OF step]
    show "stop_call_ok input state request (log h (?persist stopping None))"
      by (simp add: stop_call_ok_def stored_after_def runtime_identity_def stop_prepared_log)
  qed
  have already: "stop_call_ok input state request h" if storedStopped
    using that assms(2-4) by (simp add: stop_call_ok_def)
  show ?thesis
    unfolding begin_stop_def Let_def
    by (intro wp_rules stop_provider_ends resume_and_fail_ends)
      (use assms moved in \<open>auto intro: persisted already simp: stored_after_def split: if_splits\<close>)
qed

text \<open>Before auto-stop is suppressed: the reason, and the evidence of an automatic stop, are recorded.\<close>

definition stop_reasoned :: "runtime_operation_dispatch \<Rightarrow> trace \<Rightarrow> bool" where
  "stop_reasoned input h \<longleftrightarrow>
     Did (RecordRuntimeStopReason (rod_OperationID input) (rod_StopReason input)) None \<in> set h
     \<and> (\<forall>audit. rod_StopAudit input = Some audit \<longrightarrow>
          Did (RecordRuntimeStopAudit (rod_OperationID input) audit) None \<in> set h)
     \<and> \<not> suppressed_by input h"

lemma prepare_stop_ends:
  assumes "safe (stop_guard input state) h" and "stop_reasoned input h"
    and "runtimeLifecycleRequest state = Inr request" and "stored h = Some (ros_Runtime state)"
    and "rt_Status (ros_Runtime state) = (if storedObservation \<noteq> None then RuntimeStopped else RuntimeReady)"
  shows "wp (prepare_stop svc cfg input state request storedObservation) (stop_end input state) h"
  unfolding prepare_stop_def Let_def
  by (intro wp_rules stop_failed_ends resume_and_fail_ends begin_stop_ends)
    (use assms in \<open>auto simp: stop_guard_def settled_def stop_reasoned_def stop_end_def stop_prepared_def
      stop_guest_request_def stored_after_def split: if_splits\<close>)

lemma observe_stored_stop_ends:
  assumes "safe (stop_guard input state) h" and "stop_reasoned input h"
    and "runtimeLifecycleRequest state = Inr request" and "stored h = Some (ros_Runtime state)"
    and "rt_Status (ros_Runtime state) = RuntimeStopped"
  shows "wp (observe_stored_stop svc cfg input state request) (stop_end input state) h"
proof -
  note moved = request_moved_on [OF assms(3)]
  then have provider: "rt_ProviderInstanceRef (ros_Runtime state) \<noteq> None"
    by (simp add: moved_on_def)
  show ?thesis
    unfolding observe_stored_stop_def
    by (intro wp_rules fail_for_stop_outcome_ends provider_failure_ends prepare_stop_ends
          finalize_ends [OF _ _ _ _ moved assms(3)])
      (use assms provider in \<open>auto simp: stop_guard_def settled_def stop_reasoned_def stop_end_def
        observed_stopped_def stored_after_def\<close>)
qed

lemma stop_recorded_ends:
  assumes "safe (stop_guard input state) h" and "stop_reasoned input h" and "stored h = Some (ros_Runtime state)"
  shows "wp (stop_recorded svc cfg input state) (stop_end input state) h"
  unfolding stop_recorded_def Let_def
  by (intro wp_rules stop_failed_ends observe_stored_stop_ends prepare_stop_ends)
    (use assms in \<open>auto simp: settled_def stop_reasoned_def\<close>)

lemma stop_loaded_ends:
  assumes "safe (stop_guard input state) h" and "\<not> suppressed_by input h" and "stored h = Some (ros_Runtime state)"
  shows "wp (stop_loaded svc cfg input state) (stop_end input state) h"
  unfolding stop_loaded_def
  by (intro wp_rules stop_failed_ends stop_recorded_ends)
    (use assms in \<open>auto simp: stop_guard_def settled_def stop_reasoned_def stored_after_def\<close>)

section \<open>The properties of a run\<close>

lemma stop_Run_ends:
  assumes "stop_Run svc cfg key input [] = (r, h)"
  shows "r = Failed WorkflowKeyMismatch \<and> h = [] \<or> (\<exists>err. r = Failed (StepFailed (Text err)) \<and> h = [Loaded (Inl err)])
    \<or> (\<exists>state. svc_load svc [] = Inr state \<and> stop_end input state r h)"
proof -
  have "wp (stop_loaded svc cfg input state) (stop_end input state) (log [] (Loaded (Inr state)))" for state
    by (intro stop_loaded_ends) (simp_all add: stop_guard_def stored_after_def)
  then have "wp (stop_Run svc cfg key input) (\<lambda>r h. r = Failed WorkflowKeyMismatch \<and> h = []
      \<or> (\<exists>err. r = Failed (StepFailed (Text err)) \<and> h = [Loaded (Inl err)])
      \<or> (\<exists>state. svc_load svc [] = Inr state \<and> stop_end input state r h)) []"
    unfolding stop_Run_def
    by (intro wp_rules) (auto simp: log_def intro: wp_mono)
  with assms show ?thesis by (simp add: wp_def)
qed

lemma stop_Run_event:
  assumes "stop_Run svc cfg key input [] = (r, h)" and "h = earlier @ e # later" and "\<And>answer. e \<noteq> Loaded answer"
  shows "\<exists>state. svc_load svc [] = Inr state \<and> stop_guard input state earlier e"
proof -
  from stop_Run_ends [OF assms(1)] assms(2,3) obtain state
    where "svc_load svc [] = Inr state" "stop_end input state r h"
    by (auto simp: append_eq_Cons_conv)
  then show ?thesis using assms(2) by (auto simp: stop_end_def safe_def)
qed

text \<open>
  C20. The stop workflow asks the provider to stop a Runtime only after the reason (and, for an automatic
  stop, its evidence) is recorded, auto-stop is suppressed, a current Activity Snapshot of this Runtime is
  recorded, the guest has prepared its shutdown, and the store holds the Runtime as stopping (or already
  as stopped).
\<close>

theorem stop_asks_provider_prepared:
  assumes "stop_Run svc cfg key input [] = (r, h)" and "h = earlier @ Called (StopRuntime request) answer # later"
  shows "\<exists>state. svc_load svc [] = Inr state \<and> stop_call_ok input state request earlier"
  using stop_Run_event [OF assms] by (auto simp: stop_guard_def)

text \<open>
  C3. A stop that returns has completed its Operation in its last step, and before that the provider was
  observed with this Runtime stopped, the compute usage interval was closed at the time of that observation
  (or there was none, for a Runtime stored as stopped), the data volume was verified and the Runtime is
  stored as stopped.
\<close>

theorem stop_returns_stopped:
  assumes "stop_Run svc cfg key input [] = (Returned out, h)"
  shows "\<exists>state earlier at. svc_load svc [] = Inr state
    \<and> h = earlier @ [Did (CompleteRuntimeOperation (rod_OperationID input) at) None]
    \<and> stop_complete_ok input state earlier
    \<and> out = \<lparr>rso_RuntimeID = rod_RuntimeID input, rso_Reason = rod_StopReason input\<rparr>"
proof -
  from stop_Run_ends [OF assms] obtain state earlier at
    where "svc_load svc [] = Inr state" "safe (stop_guard input state) h"
      "h = log earlier (Did (CompleteRuntimeOperation (rod_OperationID input) at) None)"
      "out = \<lparr>rso_RuntimeID = rod_RuntimeID input, rso_Reason = rod_StopReason input\<rparr>"
    by (auto simp: stop_end_def)
  then show ?thesis by (auto simp: stop_guard_def log_def [symmetric])
qed

text \<open>
  A stop that fails its Operation never leaves auto-stop suppressed for a Runtime it did not try to
  stop: either the provider was asked to stop the Runtime, or auto-stop was not suppressed, or it was
  resumed.
\<close>

lemma failed_stop_resumes_auto_stop:
  assumes "stop_Run svc cfg key input [] = (Failed (OperationFailed code message), h)"
    and "Did (SuppressAutoStop (rod_EnvironmentID input) (rod_RuntimeID input)) None \<in> set h"
  shows "Did (ResumeAutoStop (rod_EnvironmentID input) (rod_RuntimeID input)) None \<in> set h
    \<or> (\<exists>request answer. Called (StopRuntime request) answer \<in> set h)"
  using stop_Run_ends [OF assms(1)] assms(2) by (auto simp: stop_end_def)

text \<open>
  Every Runtime the stop workflow persists is the result of one domain command on the Runtime the store
  held, at the version of that Runtime; so it is valid and keeps the identity of the Runtime, and no run of
  the workflow dereferences a missing provider instance.
\<close>

lemma stop_persists_domain_steps:
  assumes "stop_Run svc cfg key input [] = (r, h)"
    and "h = earlier @ Did (PersistRuntimeTransition operationID version snapshot) answer # later"
  shows "r \<noteq> Panicked \<and> runtime_valid snapshot
    \<and> (\<exists>current. stored earlier = Some current \<and> version = rt_Version current
         \<and> domain_step current snapshot \<and> runtime_identity snapshot = runtime_identity current)"
proof -
  from stop_Run_event [OF assms] have "persist_ok earlier version snapshot"
    by (auto simp: stop_guard_def)
  moreover have "r \<noteq> Panicked"
    using stop_Run_ends [OF assms(1)] by (auto simp: stop_end_def)
  ultimately show ?thesis
    by (auto simp: persist_ok_def domain_step_keeps)
qed

section \<open>An example run\<close>

abbreviation sample_stop :: "runtime_stop_output outcome \<times> trace" where
  "sample_stop \<equiv> stop_Run (sample_services RuntimeStateRunning (sample_operation_state ready_runtime) ''v1'')
     sample_workflow_config ''op-1'' (sample_dispatch OperationRuntimeStop) []"

lemma sample_runtime_fields [simp]:
  "rt_Status ready_runtime = RuntimeReady" "rt_ProviderInstanceRef ready_runtime = Some ''i-1''"
  "rt_ID ready_runtime = ''rt-1''" "rt_EnvironmentID ready_runtime = ''env-1''"
  "rt_PrivateAddress ready_runtime = Some ''10.0.0.1''"
  "rt_Status stopping_runtime = RuntimeStopping" "rt_ProviderInstanceRef stopping_runtime = Some ''i-1''"
  "rt_Version stopping_runtime = 5"
  by (simp_all add: ready_runtime_def sample_runtime_def stopping_runtime_def)

lemma sample_stopping:
  "BeginStop ready_runtime sample_now = Inr stopping_runtime"
  "cloneRuntimeSnapshot stopping_runtime = stopping_runtime"
  "RestoreRuntime stopping_runtime = Inr stopping_runtime"
proof -
  show "BeginStop ready_runtime sample_now = Inr stopping_runtime"
    using ready_runtime_stops by simp
  show clone: "cloneRuntimeSnapshot stopping_runtime = stopping_runtime"
    by (simp add: stopping_runtime_def ready_runtime_def sample_runtime_def cloneRuntimeSnapshot_def utc_def)
  have "runtime_valid stopping_runtime"
    by (simp add: runtime_valid_def stopping_runtime_def ready_runtime_def sample_runtime_def runtime_eval)
  then show "RestoreRuntime stopping_runtime = Inr stopping_runtime"
    by (simp add: RestoreRuntime_Inr_iff clone)
qed

lemma sample_stopped:
  "\<exists>stopped. MarkStopped stopping_runtime \<lparr>obs_ProviderInstanceRef = ''i-1'', obs_ExpectedVersion = 5,
     obs_ObservedAt = sample_now\<rparr> = Inr stopped"
  by (simp add: MarkStopped_def validateCurrentRuntimeObservation_def runtime_transition_def
      finalizeRuntimeTransition_def ready_runtime_def sample_runtime_def stopping_runtime_def runtime_eval
      cloneRuntimeSnapshot_def utc_def max_int64_def)

lemma sample_snapshot:
  "refreshAutoStopSnapshot (Suc 0) default_polling ''request-activity-snapshot'' sample_engine
     \<lparr>rr_EnvironmentID = ''env-1'', rr_RuntimeID = ''rt-1'', rr_AfterSnapshotSequence = 0,
      rr_FreshAfter = zero_time\<rparr>
   = Some (Inr \<lparr>sr_Observation = (idle_observation 1)\<lparr>aso_Snapshot := Some (idle_snapshot 2),
       aso_FreshAfter := \<lparr>wall = 95, loc = UTC\<rparr>\<rparr>, sr_ReferenceUnavailable = False\<rparr>)"
  by (simp add: refreshAutoStopSnapshot_def durableDeadlinePoll_def refresh_polling_def default_polling_def
      poll_round_def take_read_def autoStopSnapshotSatisfies_def effective_request_def time_add_def
      sample_engine_def idle_observation_def idle_snapshot_def go_time zero_time_def)

lemmas stop_defs = stop_Run_def stop_loaded_def stop_recorded_def prepare_stop_def begin_stop_def
  stop_provider_def finalizeObservedStoppedRuntime_def close_stopped_usage_def mark_stopped_def
  finish_stop_def stop_failed_def validateRuntimeStopAudit_def

lemmas stop_eval = stop_defs workflow_eval sample_workflow_config_def ready_runtime_restored sample_stopping
  sample_snapshot idle_observation_def idle_snapshot_def go_time

lemma sample_stop_returns:
  "\<exists>out h. sample_stop = (Returned out, h)
     \<and> (\<exists>request answer. Called (StopRuntime request) answer \<in> set h)
     \<and> Did (PersistRuntimeTransition ''op-1'' (rt_Version ready_runtime) stopping_runtime) None \<in> set h"
proof -
  obtain stopped where stopped: "MarkStopped stopping_runtime \<lparr>obs_ProviderInstanceRef = ''i-1'',
      obs_ExpectedVersion = 5, obs_ObservedAt = sample_now\<rparr> = Inr stopped"
    using sample_stopped by blast
  show ?thesis by (simp add: stop_eval stopped)
qed

theorem stop_asks_provider_prepared_witness:
  "\<exists>request earlier. stop_call_ok (sample_dispatch OperationRuntimeStop)
     (sample_operation_state ready_runtime) request earlier"
proof -
  from sample_stop_returns obtain out h request answer
    where run: "sample_stop = (Returned out, h)" "Called (StopRuntime request) answer \<in> set h" by blast
  from split_list [OF run(2)] obtain earlier later
    where "h = earlier @ Called (StopRuntime request) answer # later" by blast
  from stop_asks_provider_prepared [OF run(1) this] show ?thesis
    by (auto simp: sample_services_fields)
qed

theorem stop_returns_stopped_witness:
  "\<exists>earlier. stop_complete_ok (sample_dispatch OperationRuntimeStop) (sample_operation_state ready_runtime) earlier"
proof -
  from sample_stop_returns obtain out h where run: "sample_stop = (Returned out, h)" by blast
  from stop_returns_stopped [OF run] show ?thesis by (auto simp: sample_services_fields)
qed

end
