(* ===== verification/Runtime_Replace.thy ===== *)
theory Runtime_Replace
  imports Runtime_Lifecycle
begin

text \<open>
  \<open>apps/workflows/runtime_replace.go\<close>: the workflow that replaces the Runtime of an Environment.  The old
  Runtime is stopped, its usage closed and its data volume verified; it is retired and its volume seen
  detached before the new Runtime is reserved, allocated, attached and made ready.  The body of
  \<open>fulfillRuntimeReplacement\<close> is cut at the steps its comments number.
\<close>

section \<open>Data and failures\<close>

record runtime_replace_output =
  rro_RetiredRuntimeID :: string
  rro_ReplacementRuntimeID :: string
  rro_PrivateRoute :: string

record attachment_outcome =
  ao_Attachment :: data_volume_attachment
  ao_ObservedAt :: gotime
  ao_RetryableFailure :: bool
  ao_Failure :: string

record readiness_outcome =
  ro_Readiness :: guest_readiness
  ro_RetryableFailure :: bool
  ro_Failure :: string

definition RuntimeReplaceFailed :: string where
  "RuntimeReplaceFailed = ''RUNTIME_REPLACE_FAILED''"

definition GuestNotReady :: string where
  "GuestNotReady = ''GUEST_NOT_READY''"

definition durableWorkflowTime ::
  "services \<Rightarrow> string \<Rightarrow> (string \<Rightarrow> 'a workflow) \<Rightarrow> (gotime \<Rightarrow> 'a workflow) \<Rightarrow> 'a workflow" where
  "durableWorkflowTime svc name = ask (\<lambda>h. svc_time svc h name) (ReadTime name)"

definition persistReplacementRuntimeTransition ::
  "services \<Rightarrow> string \<Rightarrow> runtime_snapshot \<Rightarrow> runtime \<Rightarrow> (string \<Rightarrow> 'a workflow)
   \<Rightarrow> (runtime_snapshot \<Rightarrow> 'a workflow) \<Rightarrow> 'a workflow" where
  "persistReplacementRuntimeTransition svc operationID current changed onError continue =
     (let nxt = cloneRuntimeSnapshot changed in
      do_step svc (PersistReplacementRuntimeTransition operationID (rt_Version current) nxt) onError
        (continue nxt))"

definition failRuntimeReplacement ::
  "services \<Rightarrow> runtime_operation_dispatch \<Rightarrow> string \<Rightarrow> failure_message \<Rightarrow> 'a workflow" where
  "failRuntimeReplacement svc input code message =
     failRuntimeOperation svc (rod_OperationID input) code message"

definition failReplacementRuntimeAndOperation ::
  "services \<Rightarrow> runtime_operation_dispatch \<Rightarrow> runtime_snapshot \<Rightarrow> string \<Rightarrow> failure_message \<Rightarrow> 'a workflow" where
  "failReplacementRuntimeAndOperation svc input current code message =
     (case (RestoreRuntime current, rt_ProviderInstanceRef current) of
        (Inr rt, Some ref) \<Rightarrow>
          if rt_Status current = RuntimeError then failRuntimeReplacement svc input code message
          else durableWorkflowTime svc ''record-replacement-failure-observed-at''
            (\<lambda>err. fail (StepFailed (Text err))) (\<lambda>at.
            case MarkError rt \<lparr>obs_ProviderInstanceRef = ref, obs_ExpectedVersion = rt_Version current,
                               obs_ObservedAt = at\<rparr> of
              Inl err \<Rightarrow> failRuntimeReplacement svc input code message
            | Inr failed \<Rightarrow>
                persistReplacementRuntimeTransition svc (rod_OperationID input) current failed
                  (\<lambda>err. fail (StepFailed (Text err)))
                  (\<lambda>_. failRuntimeReplacement svc input code message))
      | _ \<Rightarrow> failRuntimeReplacement svc input code message)"

text \<open>\<open>next, _ = domain.RestoreRuntime(replacement)\<close>: on an error \<open>next\<close> is the zero Runtime.\<close>

definition zero_runtime :: runtime where
  "zero_runtime =
     \<lparr>rt_ID = [], rt_EnvironmentID = [], rt_Sequence = 0, rt_Status = RuntimeOtherStatus [],
      rt_RuntimePreset = [], rt_Region = [], rt_AvailabilityZone = [], rt_ImageVersion = [],
      rt_ProviderInstanceRef = None, rt_PrivateAddress = None, rt_BootID = None, rt_StartedAt = None,
      rt_StoppedAt = None, rt_RetiredAt = None, rt_CreatedAt = zero_time, rt_UpdatedAt = zero_time,
      rt_Version = 0\<rparr>"

definition restored_or_zero :: "runtime_snapshot \<Rightarrow> runtime" where
  "restored_or_zero snapshot = (case RestoreRuntime snapshot of Inl err \<Rightarrow> zero_runtime | Inr rt \<Rightarrow> rt)"

section \<open>Waits\<close>

definition observeRuntimeForReplacement ::
  "services \<Rightarrow> lifecycle_request \<Rightarrow> (string \<Rightarrow> 'a workflow) \<Rightarrow> (provider_outcome \<Rightarrow> 'a workflow)
   \<Rightarrow> 'a workflow" where
  "observeRuntimeForReplacement svc request onError continue =
     call_provider svc (ObserveRuntime request) onError (\<lambda>observed.
     if out_Failure observed = Text []
     then case validateProviderRuntimeIdentity (out_Runtime observed) request of
            Some err \<Rightarrow> continue (providerDivergenceOutcome err)
          | None \<Rightarrow> continue observed
     else continue observed)"

definition zero_attachment :: attachment_outcome where
  "zero_attachment =
     \<lparr>ao_Attachment = \<lparr>att_DataVolumeProviderID = [], att_RuntimeProviderID = [], att_Attached = False,
                       att_ReadWrite = False\<rparr>,
      ao_ObservedAt = zero_time, ao_RetryableFailure = False, ao_Failure = []\<rparr>"

definition attachment_journal :: "services \<Rightarrow> trace \<Rightarrow> lifecycle_request \<Rightarrow> (string, attachment_outcome) journal" where
  "attachment_journal svc h request attempt t slept =
     (case svc_attachment svc h request attempt t slept of
        Inl err \<Rightarrow> Inl err
      | Inr (answer, at) \<Rightarrow>
          let outcome = (case answer of
                Inr attachment \<Rightarrow> zero_attachment\<lparr>ao_Attachment := attachment\<rparr>
              | Inl err \<Rightarrow> if isTransientError err then zero_attachment\<lparr>ao_RetryableFailure := True\<rparr>
                           else zero_attachment\<lparr>ao_Failure := call_error_text err\<rparr>)
          in Inr (\<lparr>read_Value = outcome, read_UseValue = True,
                   read_RetryableFailure = ao_RetryableFailure outcome\<rparr>, at))"

definition evaluate_detachment ::
  "lifecycle_request \<Rightarrow> attachment_outcome \<Rightarrow> gotime \<Rightarrow> attachment_outcome \<times> bool" where
  "evaluate_detachment request outcome startedAt =
     (let attachment = ao_Attachment outcome in
      if ao_RetryableFailure outcome then (outcome, False)
      else if ao_Failure outcome \<noteq> [] then (outcome, True)
      else if att_DataVolumeProviderID attachment \<noteq> spec_DataVolumeProviderID (lr_Spec request)
      then (outcome\<lparr>ao_Failure := ''Data Volume attachment observation identity diverged''\<rparr>, True)
      else if \<not> att_Attached attachment then (outcome, True)
      else if att_RuntimeProviderID attachment \<noteq> lr_ProviderID request \<or> \<not> att_ReadWrite attachment
      then (outcome\<lparr>ao_Failure := ''old Data Volume attachment ownership diverged''\<rparr>, True)
      else (outcome, False))"

definition waitForOldDataVolumeDetachment ::
  "workflow_config \<Rightarrow> services \<Rightarrow> lifecycle_request \<Rightarrow> trace \<Rightarrow> (failure_message, unit) waited" where
  "waitForOldDataVolumeDetachment cfg svc request h =
     (case durableDeadlinePoll (wc_fuel cfg) zero_attachment (svc_attachment_start svc h) None
             (provider_poll_config zero_time ''wait-retired-data-volume-detached''
                (wc_ProviderPollInterval cfg) (wc_ProviderPollTimeout cfg))
             (attachment_journal svc h request) (evaluate_detachment request)
             (Some (\<lambda>outcome checkedAt. outcome\<lparr>ao_ObservedAt := checkedAt\<rparr>)) of
        None \<Rightarrow> WaitUnfinished
      | Some (Inl err) \<Rightarrow> WaitFailed (PollFailure err)
      | Some (Inr poll) \<Rightarrow>
          if res_timedOut poll
          then WaitFailed (Text ''Data Volume remained attached after old Runtime retirement'')
          else if ao_Failure (res_value poll) \<noteq> [] then WaitFailed (Text (ao_Failure (res_value poll)))
          else WaitEnded ())"

definition zero_readiness :: readiness_outcome where
  "zero_readiness =
     \<lparr>ro_Readiness = \<lparr>gready_BootID = [], gready_PrivateIPv4 = [], gready_DataMounted = False\<rparr>,
      ro_RetryableFailure = False, ro_Failure = []\<rparr>"

definition readiness_journal :: "services \<Rightarrow> trace \<Rightarrow> guest_request \<Rightarrow> (string, readiness_outcome) journal" where
  "readiness_journal svc h request attempt t slept =
     (case svc_ready_poll svc h request attempt t slept of
        Inl err \<Rightarrow> Inl err
      | Inr (answer, at) \<Rightarrow>
          let outcome = (case answer of
                Inr readiness \<Rightarrow> zero_readiness\<lparr>ro_Readiness := readiness\<rparr>
              | Inl err \<Rightarrow> if isTransientError err then zero_readiness\<lparr>ro_RetryableFailure := True\<rparr>
                           else zero_readiness\<lparr>ro_Failure := call_error_text err\<rparr>)
          in Inr (\<lparr>read_Value = outcome, read_UseValue = True,
                   read_RetryableFailure = ro_RetryableFailure outcome\<rparr>, at))"

definition evaluate_readiness ::
  "guest_request \<Rightarrow> readiness_outcome \<Rightarrow> gotime \<Rightarrow> readiness_outcome \<times> bool" where
  "evaluate_readiness request outcome startedAt =
     (let ready = ro_Readiness outcome in
      if ro_RetryableFailure outcome then (outcome, False)
      else if ro_Failure outcome \<noteq> [] then (outcome, True)
      else (outcome, gready_DataMounted ready \<and> gready_BootID ready \<noteq> []
              \<and> gready_PrivateIPv4 ready = gr_PrivateIPv4 request))"

definition waitForRuntimeGuestReadiness ::
  "workflow_config \<Rightarrow> services \<Rightarrow> guest_request \<Rightarrow> trace \<Rightarrow> (failure_message, guest_readiness) waited" where
  "waitForRuntimeGuestReadiness cfg svc request h =
     (case durableDeadlinePoll (wc_fuel cfg) zero_readiness (svc_ready_start svc h) None
             \<lparr>cfg_startedAt = zero_time,
              cfg_timeout = or_default (wc_GuestPollTimeout cfg) defaultProviderPollTimeout,
              cfg_initialDelay = or_default (wc_GuestPollInterval cfg) defaultProviderPollInterval,
              cfg_maxDelay = 30 * 1000000000, cfg_stepPrefix = ''wait-created-runtime-guest-ready'',
              cfg_readStepPrefix = ''read-created-runtime-guest-readiness''\<rparr>
             (readiness_journal svc h request) (evaluate_readiness request) None of
        None \<Rightarrow> WaitUnfinished
      | Some (Inl err) \<Rightarrow> WaitFailed (PollFailure err)
      | Some (Inr poll) \<Rightarrow>
          if res_timedOut poll
          then WaitFailed
                 (Text ''guest did not report current boot and mounted data before the durable wait deadline'')
          else if ro_Failure (res_value poll) \<noteq> [] then WaitFailed (Text (ro_Failure (res_value poll)))
          else WaitEnded (ro_Readiness (res_value poll)))"

definition wait_state ::
  "workflow_config \<Rightarrow> services \<Rightarrow> lifecycle_request \<Rightarrow> provider_outcome \<Rightarrow> provider_state \<Rightarrow> provider_state list
   \<Rightarrow> string \<Rightarrow> (string poll_error \<Rightarrow> 'a workflow) \<Rightarrow> (provider_outcome \<Rightarrow> 'a workflow) \<Rightarrow> 'a workflow" where
  "wait_state cfg svc request initial expected transitional stepPrefix =
     wait (waitForProviderState (wc_fuel cfg) svc request initial expected transitional stepPrefix
             (wc_ProviderPollInterval cfg) (wc_ProviderPollTimeout cfg))
       (Waited stepPrefix request)"

section \<open>The workflow\<close>

text \<open>
  The end of a replacement: the guest is reconciled, the new Runtime marked ready, auto-stop resumed for it
  and the Operation completed.  \<open>fail_new\<close> marks the replacement Runtime failed before the Operation fails.
\<close>

abbreviation fail_new ::
  "services \<Rightarrow> runtime_operation_dispatch \<Rightarrow> runtime_snapshot \<Rightarrow> failure_message \<Rightarrow> 'a workflow" where
  "fail_new svc input replacement \<equiv> failReplacementRuntimeAndOperation svc input replacement RuntimeReplaceFailed"

abbreviation fail_replacement ::
  "services \<Rightarrow> runtime_operation_dispatch \<Rightarrow> failure_message \<Rightarrow> 'a workflow" where
  "fail_replacement svc input \<equiv> failRuntimeReplacement svc input RuntimeReplaceFailed"

definition finish_replacement ::
  "services \<Rightarrow> runtime_operation_dispatch \<Rightarrow> string \<Rightarrow> runtime_snapshot \<Rightarrow> guest_readiness
   \<Rightarrow> runtime_replace_output workflow" where
  "finish_replacement svc input oldRuntimeID replacement ready =
     do_step svc (ResumeAutoStop (rod_EnvironmentID input) (rt_ID replacement))
       (\<lambda>err. fail_new svc input replacement (Text err))
     (completeRuntimeOperation svc (rod_OperationID input) (\<lambda>err. fail_new svc input replacement (Text err))
     (return \<lparr>rro_RetiredRuntimeID = oldRuntimeID, rro_ReplacementRuntimeID = rt_ID replacement,
              rro_PrivateRoute = gready_PrivateIPv4 ready\<rparr>))"

definition ready_replacement ::
  "services \<Rightarrow> runtime_operation_dispatch \<Rightarrow> string \<Rightarrow> lifecycle_request \<Rightarrow> runtime_snapshot \<Rightarrow> guest_readiness
   \<Rightarrow> runtime_replace_output workflow" where
  "ready_replacement svc input oldRuntimeID request replacement ready =
     durableWorkflowTime svc ''record-replacement-ready-observed-at''
       (\<lambda>err. fail_new svc input replacement (Text err)) (\<lambda>at.
     case MarkReady (restored_or_zero replacement)
            \<lparr>ready_ProviderInstanceRef = lr_ProviderID request, ready_BootID = gready_BootID ready,
             ready_PrivateAddress = gready_PrivateIPv4 ready, ready_ExpectedVersion = rt_Version replacement,
             ready_ObservedAt = at\<rparr> of
       Inl err \<Rightarrow> fail_new svc input replacement (RuntimeFailure err)
     | Inr markedReady \<Rightarrow>
         persistReplacementRuntimeTransition svc (rod_OperationID input) replacement markedReady
           (\<lambda>err. fail_replacement svc input (Text err))
           (\<lambda>replacement. finish_replacement svc input oldRuntimeID replacement ready))"

definition reconcile_replacement ::
  "services \<Rightarrow> runtime_operation_dispatch \<Rightarrow> string \<Rightarrow> lifecycle_request \<Rightarrow> runtime_snapshot \<Rightarrow> guest_request
   \<Rightarrow> guest_readiness \<Rightarrow> runtime_replace_output workflow" where
  "reconcile_replacement svc input oldRuntimeID request replacement guestRequest ready =
     do_step svc (RestoreRuntimeSSHHostIdentity guestRequest) (\<lambda>err. fail_new svc input replacement (Text err))
     (do_step svc (ReconcileRuntimeSSHKeys guestRequest) (\<lambda>err. fail_new svc input replacement (Text err))
     (do_step svc (ReconcileRuntimeManagedConfiguration guestRequest)
        (\<lambda>err. fail_new svc input replacement (Text err))
     (do_step svc (ValidateEnvironmentToolchain (rod_OperationID input) guestRequest)
        (\<lambda>err. failReplacementRuntimeAndOperation svc input replacement ''PROFILE_INCOMPATIBLE'' (Text err))
     (ready_replacement svc input oldRuntimeID request replacement ready))))"

definition await_replacement_guest ::
  "services \<Rightarrow> workflow_config \<Rightarrow> runtime_operation_dispatch \<Rightarrow> string \<Rightarrow> lifecycle_request \<Rightarrow> runtime_snapshot
   \<Rightarrow> provider_outcome \<Rightarrow> runtime_replace_output workflow" where
  "await_replacement_guest svc cfg input oldRuntimeID request replacement running =
     (let guestRequest = \<lparr>gr_OwnerUserID = rod_OwnerUserID input, gr_EnvironmentID = rod_EnvironmentID input,
            gr_RuntimeID = rt_ID replacement, gr_ProviderID = lr_ProviderID request,
            gr_PrivateIPv4 = pr_PrivateIPv4 (out_Runtime running)\<rparr>
      in wait (waitForRuntimeGuestReadiness cfg svc guestRequest) (GuestReady guestRequest)
           (\<lambda>err. failReplacementRuntimeAndOperation svc input replacement GuestNotReady err) (\<lambda>ready.
         if \<not> gready_DataMounted ready \<or> gready_BootID ready = [] \<or> gready_PrivateIPv4 ready = []
            \<or> gready_PrivateIPv4 ready \<noteq> pr_PrivateIPv4 (out_Runtime running)
         then failReplacementRuntimeAndOperation svc input replacement GuestNotReady
                (Text ''current boot and mounted data are required'')
         else reconcile_replacement svc input oldRuntimeID request replacement
                (guestRequest\<lparr>gr_PrivateIPv4 := gready_PrivateIPv4 ready\<rparr>) ready))"

definition await_replacement_running ::
  "services \<Rightarrow> workflow_config \<Rightarrow> runtime_operation_dispatch \<Rightarrow> string \<Rightarrow> lifecycle_request \<Rightarrow> runtime_snapshot
   \<Rightarrow> provider_outcome \<Rightarrow> compute_usage_interval \<Rightarrow> runtime_replace_output workflow" where
  "await_replacement_running svc cfg input oldRuntimeID request replacement attached interval =
     wait_state cfg svc request attached RuntimeStateRunning [RuntimeStatePending]
       ''wait-replacement-runtime-running'' (\<lambda>err. fail (StepFailed (PollFailure err))) (\<lambda>running.
     if out_Failure running \<noteq> Text []
     then closeComputeUsageForProviderOutcome svc (cui_ID interval) running
            ComputeUsageClosedByProviderReconciliation (\<lambda>err. fail_new svc input replacement err)
            (failReplacementRuntimeAndOperation svc input replacement (out_FailureCode running)
               (out_Failure running))
     else await_replacement_guest svc cfg input oldRuntimeID request replacement running)"

definition open_replacement_usage ::
  "services \<Rightarrow> workflow_config \<Rightarrow> runtime_operation_dispatch \<Rightarrow> string \<Rightarrow> lifecycle_request \<Rightarrow> runtime_snapshot
   \<Rightarrow> provider_outcome \<Rightarrow> provider_outcome \<Rightarrow> runtime_replace_output workflow" where
  "open_replacement_usage svc cfg input oldRuntimeID request replacement ensured attached =
     ask (\<lambda>h. svc_new_id svc h ''reserve-replacement-compute-usage-identity'')
       (ReservedID ''reserve-replacement-compute-usage-identity'')
       (\<lambda>err. fail_new svc input replacement (Text err)) (\<lambda>usageID.
     let usage = \<lparr>ou_ID = usageID, ou_UserID = rod_OwnerUserID input, ou_EnvironmentID = rod_EnvironmentID input,
                  ou_RuntimeID = rt_ID replacement, ou_StartedAt = out_ObservedAt ensured\<rparr>
     in ask (\<lambda>h. svc_open_usage svc h usage) (OpenedUsage usage)
          (\<lambda>err. fail_new svc input replacement (Text err)) (\<lambda>interval.
        if cui_UserID interval \<noteq> rod_OwnerUserID input \<or> cui_EnvironmentID interval \<noteq> rod_EnvironmentID input
           \<or> cui_RuntimeID interval \<noteq> rt_ID replacement
        then fail_new svc input replacement (Text ''Compute Usage Interval ownership diverged'')
        else await_replacement_running svc cfg input oldRuntimeID request replacement attached interval))"

definition start_replacement ::
  "services \<Rightarrow> workflow_config \<Rightarrow> runtime_operation_dispatch \<Rightarrow> string \<Rightarrow> lifecycle_request \<Rightarrow> runtime_snapshot
   \<Rightarrow> provider_outcome \<Rightarrow> provider_outcome \<Rightarrow> runtime_replace_output workflow" where
  "start_replacement svc cfg input oldRuntimeID request replacement ensured attached =
     durableWorkflowTime svc ''record-replacement-start-requested-at''
       (\<lambda>err. fail_new svc input replacement (Text err)) (\<lambda>at.
     case BeginStart (restored_or_zero replacement) at of
       Inl err \<Rightarrow> fail_new svc input replacement (RuntimeFailure err)
     | Inr starting \<Rightarrow>
         persistReplacementRuntimeTransition svc (rod_OperationID input) replacement starting
           (\<lambda>err. fail_replacement svc input (Text err))
           (\<lambda>replacement. open_replacement_usage svc cfg input oldRuntimeID request replacement ensured attached))"

text \<open>The data volume is attached to the new Runtime and its resources are recorded.\<close>

definition attach_replacement ::
  "services \<Rightarrow> workflow_config \<Rightarrow> runtime_operation_dispatch \<Rightarrow> string \<Rightarrow> replacement_identity
   \<Rightarrow> lifecycle_request \<Rightarrow> runtime_snapshot \<Rightarrow> provider_outcome \<Rightarrow> runtime_replace_output workflow" where
  "attach_replacement svc cfg input oldRuntimeID identity request replacement ensured =
     call_provider svc (EnsureRuntimeDataVolumeAttachment request) (\<lambda>err. fail (StepFailed (Text err)))
       (\<lambda>attached.
     if out_Failure attached \<noteq> Text []
     then failReplacementRuntimeAndOperation svc input replacement (out_FailureCode attached)
            (out_Failure attached)
     else case validateAttachedProviderRuntime (out_Runtime attached) request of
       Some err \<Rightarrow> failReplacementRuntimeAndOperation svc input replacement
                     (error_code_string ErrorCodeResourceDiverged) err
     | None \<Rightarrow>
         do_step svc (InventoryReplacementRuntimeResources (rod_OperationID input)
             \<lparr>inv_RuntimeID = rt_ID replacement, inv_RuntimeResourceID = rid_RuntimeResourceID identity,
              inv_SystemVolumeResourceID = rid_SystemVolumeResourceID identity,
              inv_RuntimeProviderID = pr_ProviderID (out_Runtime attached),
              inv_SystemVolumeProviderID = pr_SystemVolumeProviderID (out_Runtime attached),
              inv_Provider = pr_Provider (out_Runtime attached), inv_CreatedAt = rid_CreatedAt identity\<rparr>)
           (\<lambda>err. fail_new svc input replacement (Text err))
         (start_replacement svc cfg input oldRuntimeID request replacement ensured attached))"

definition replacement_spec :: "runtime_snapshot \<Rightarrow> string \<Rightarrow> runtime_spec" where
  "replacement_spec replacement volume =
     \<lparr>spec_RuntimeID = rt_ID replacement, spec_EnvironmentID = rt_EnvironmentID replacement,
      spec_Sequence = rt_Sequence replacement, spec_Region = rt_Region replacement,
      spec_AvailabilityZone = rt_AvailabilityZone replacement,
      spec_RuntimePreset = rt_RuntimePreset replacement, spec_ImageVersion = rt_ImageVersion replacement,
      spec_DataVolumeProviderID = volume\<rparr>"

text \<open>The new Runtime is allocated and its provider identity persisted.\<close>

definition provision_replacement ::
  "services \<Rightarrow> workflow_config \<Rightarrow> runtime_operation_dispatch \<Rightarrow> string \<Rightarrow> replacement_identity
   \<Rightarrow> runtime_spec \<Rightarrow> runtime_snapshot \<Rightarrow> provider_outcome \<Rightarrow> runtime_replace_output workflow" where
  "provision_replacement svc cfg input oldRuntimeID identity spec replacement ensured =
     (case RestoreRuntime replacement of
        Inl err \<Rightarrow> fail_replacement svc input (RuntimeFailure err)
      | Inr nxt \<Rightarrow>
          (case Provision nxt (pr_ProviderID (out_Runtime ensured)) (out_ObservedAt ensured) of
             Inl err \<Rightarrow> fail_replacement svc input (RuntimeFailure err)
           | Inr provisioned \<Rightarrow>
               persistReplacementRuntimeTransition svc (rod_OperationID input) replacement provisioned
                 (\<lambda>err. fail_replacement svc input (Text err))
                 (\<lambda>replacement. attach_replacement svc cfg input oldRuntimeID identity
                    \<lparr>lr_Spec = spec, lr_ProviderID = pr_ProviderID (out_Runtime ensured)\<rparr> replacement
                    ensured)))"

definition ensure_replacement ::
  "services \<Rightarrow> workflow_config \<Rightarrow> runtime_operation_dispatch \<Rightarrow> runtime_operation_state
   \<Rightarrow> replacement_identity \<Rightarrow> runtime_snapshot \<Rightarrow> runtime_replace_output workflow" where
  "ensure_replacement svc cfg input state identity replacement =
     (let spec = replacement_spec replacement (ros_DataVolumeProviderID state);
          diverged = failRuntimeReplacement svc input (error_code_string ErrorCodeResourceDiverged)
      in call_provider svc (EnsureRuntime spec (rod_OperationID input)) (\<lambda>err. fail (StepFailed (Text err)))
           (\<lambda>ensured.
         if out_Failure ensured \<noteq> Text []
         then failRuntimeReplacement svc input (out_FailureCode ensured) (out_Failure ensured)
         else if pr_Spec (out_Runtime ensured) \<noteq> spec \<or> pr_Provider (out_Runtime ensured) = []
                 \<or> pr_ProviderID (out_Runtime ensured) = []
         then diverged (Text ''replacement Runtime provider identity diverged'')
         else if pr_State (out_Runtime ensured) \<noteq> RuntimeStatePending
                 \<and> pr_State (out_Runtime ensured) \<noteq> RuntimeStateRunning
         then diverged (ReplacementStateUnusable (pr_State (out_Runtime ensured)))
         else provision_replacement svc cfg input (rt_ID (ros_Runtime state)) identity spec replacement ensured))"

text \<open>The old Runtime is retired and the new one reserved in its place, in one transaction of the store.\<close>

definition reserve_replacement ::
  "services \<Rightarrow> workflow_config \<Rightarrow> runtime_operation_dispatch \<Rightarrow> runtime_operation_state \<Rightarrow> string \<Rightarrow> runtime
   \<Rightarrow> runtime_replace_output workflow" where
  "reserve_replacement svc cfg input state promoted retired =
     ask (svc_identity svc) ReservedIdentity (\<lambda>err. fail_replacement svc input (Text err)) (\<lambda>identity.
     let old = ros_Runtime state;
         reservation = \<lparr>rres_ID = rid_RuntimeID identity, rres_EnvironmentID = rod_EnvironmentID input,
           rres_Sequence = rt_Sequence old + 1, rres_RuntimePreset = rt_RuntimePreset old,
           rres_Region = rt_Region old, rres_AvailabilityZone = rt_AvailabilityZone old,
           rres_ImageVersion = promoted, rres_CreatedAt = rid_CreatedAt identity\<rparr>
     in ask (\<lambda>h. svc_replace svc h (rod_OperationID input) (rod_OwnerUserID input) (rt_Version old)
                    (cloneRuntimeSnapshot retired) reservation)
          (Replaced (rod_OperationID input) (rod_OwnerUserID input) (rt_Version old)
             (cloneRuntimeSnapshot retired) reservation)
          (\<lambda>err. fail_replacement svc input (Text err))
          (\<lambda>replacement. ensure_replacement svc cfg input state identity replacement))"

definition retire_old ::
  "services \<Rightarrow> workflow_config \<Rightarrow> runtime_operation_dispatch \<Rightarrow> runtime_operation_state \<Rightarrow> lifecycle_request
   \<Rightarrow> string \<Rightarrow> provider_outcome \<Rightarrow> runtime_replace_output workflow" where
  "retire_old svc cfg input state oldRequest promoted observed =
     wait (waitForOldDataVolumeDetachment cfg svc oldRequest) (DetachmentWaited oldRequest)
       (\<lambda>err. fail_replacement svc input err) (\<lambda>_.
     case RestoreRuntime (ros_Runtime state) of
       Inl err \<Rightarrow> fail_replacement svc input (RuntimeFailure err)
     | Inr old \<Rightarrow>
         (case Retire old \<lparr>obs_ProviderInstanceRef = lr_ProviderID oldRequest,
                 obs_ExpectedVersion = rt_Version (ros_Runtime state),
                 obs_ObservedAt = out_ObservedAt observed\<rparr> of
            Inl err \<Rightarrow> fail_replacement svc input (RuntimeFailure err)
          | Inr retired \<Rightarrow> reserve_replacement svc cfg input state promoted retired))"

text \<open>The provider retires the old Runtime, unless it was seen terminated already.\<close>

definition retire_provider ::
  "services \<Rightarrow> workflow_config \<Rightarrow> runtime_operation_dispatch \<Rightarrow> runtime_operation_state \<Rightarrow> lifecycle_request
   \<Rightarrow> string \<Rightarrow> provider_outcome \<Rightarrow> runtime_replace_output workflow" where
  "retire_provider svc cfg input state oldRequest promoted observed =
     (if pr_State (out_Runtime observed) = RuntimeStateTerminated
      then retire_old svc cfg input state oldRequest promoted observed
      else call_provider svc (RetireRuntime oldRequest) (\<lambda>err. fail (StepFailed (Text err))) (\<lambda>observed.
        if out_Failure observed \<noteq> Text []
        then failRuntimeReplacement svc input (out_FailureCode observed) (out_Failure observed)
        else case validateProviderRuntimeIdentity (out_Runtime observed) oldRequest of
          Some err \<Rightarrow> failRuntimeReplacement svc input (error_code_string ErrorCodeResourceDiverged) err
        | None \<Rightarrow>
            wait_state cfg svc oldRequest observed RuntimeStateTerminated
              [RuntimeStateStopping, RuntimeStateStopped] ''wait-runtime-retired''
              (\<lambda>err. fail (StepFailed (PollFailure err))) (\<lambda>observed.
            if out_Failure observed \<noteq> Text []
            then failRuntimeReplacement svc input (out_FailureCode observed) (out_Failure observed)
            else retire_old svc cfg input state oldRequest promoted observed)))"

text \<open>The compute usage of the old Runtime is closed and its data volume verified.\<close>

definition verify_old ::
  "services \<Rightarrow> workflow_config \<Rightarrow> runtime_operation_dispatch \<Rightarrow> runtime_operation_state \<Rightarrow> lifecycle_request
   \<Rightarrow> string \<Rightarrow> bool \<Rightarrow> provider_outcome \<Rightarrow> runtime_replace_output workflow" where
  "verify_old svc cfg input state oldRequest promoted providerWasRunning observed =
     (if providerWasRunning \<and> ros_ComputeUsageIntervalID state = []
      then fail_replacement svc input
             (Text ''running Runtime replacement requires an open Compute Usage Interval'')
      else closeComputeUsageForProviderOutcome svc (ros_ComputeUsageIntervalID state) observed
             ComputeUsageClosedByProviderReconciliation (\<lambda>err. fail_replacement svc input err)
           (let state = state\<lparr>ros_ComputeUsageIntervalID := []\<rparr> in
            do_step svc (VerifyRuntimeDataVolume (dataVolumeRequest input state))
              (\<lambda>err. fail_replacement svc input (Text err))
            (retire_provider svc cfg input state oldRequest promoted observed)))"

definition await_old_stopped ::
  "services \<Rightarrow> workflow_config \<Rightarrow> runtime_operation_dispatch \<Rightarrow> runtime_operation_state \<Rightarrow> lifecycle_request
   \<Rightarrow> string \<Rightarrow> bool \<Rightarrow> provider_outcome \<Rightarrow> runtime_replace_output workflow" where
  "await_old_stopped svc cfg input state oldRequest promoted providerWasRunning observed =
     wait_state cfg svc oldRequest observed RuntimeStateStopped [RuntimeStateStopping, RuntimeStateRunning]
       ''wait-replacement-runtime-stopped'' (\<lambda>err. fail (StepFailed (PollFailure err))) (\<lambda>observed.
     if out_Failure observed \<noteq> Text []
     then failRuntimeReplacement svc input (out_FailureCode observed) (out_Failure observed)
     else verify_old svc cfg input state oldRequest promoted providerWasRunning observed)"

definition stop_old ::
  "services \<Rightarrow> workflow_config \<Rightarrow> runtime_operation_dispatch \<Rightarrow> runtime_operation_state \<Rightarrow> lifecycle_request
   \<Rightarrow> string \<Rightarrow> bool \<Rightarrow> provider_outcome \<Rightarrow> runtime_replace_output workflow" where
  "stop_old svc cfg input state oldRequest promoted providerWasRunning observed =
     (let seen = pr_State (out_Runtime observed) in
      if seen = RuntimeStateStopped \<or> seen = RuntimeStateTerminated
      then verify_old svc cfg input state oldRequest promoted providerWasRunning observed
      else if seen \<noteq> RuntimeStateRunning \<and> seen \<noteq> RuntimeStateStopping
      then failRuntimeReplacement svc input (error_code_string ErrorCodeResourceDiverged)
             (ProviderStateUnusable seen)
      else if seen = RuntimeStateRunning
      then call_provider svc (StopRuntime oldRequest) (\<lambda>err. fail (StepFailed (Text err))) (\<lambda>observed.
             if out_Failure observed \<noteq> Text []
             then failRuntimeReplacement svc input (out_FailureCode observed) (out_Failure observed)
             else case validateProviderRuntimeIdentity (out_Runtime observed) oldRequest of
               Some err \<Rightarrow> failRuntimeReplacement svc input (error_code_string ErrorCodeResourceDiverged) err
             | None \<Rightarrow> await_old_stopped svc cfg input state oldRequest promoted providerWasRunning observed)
      else await_old_stopped svc cfg input state oldRequest promoted providerWasRunning observed)"

text \<open>The old Runtime is observed first; a pending one is waited for.\<close>

definition observe_old ::
  "services \<Rightarrow> workflow_config \<Rightarrow> runtime_operation_dispatch \<Rightarrow> runtime_operation_state \<Rightarrow> lifecycle_request
   \<Rightarrow> string \<Rightarrow> runtime_replace_output workflow" where
  "observe_old svc cfg input state oldRequest promoted =
     observeRuntimeForReplacement svc oldRequest (\<lambda>err. fail (StepFailed (Text err))) (\<lambda>observed.
     if out_Failure observed \<noteq> Text []
     then failRuntimeReplacement svc input (out_FailureCode observed) (out_Failure observed)
     else let providerWasRunning = (pr_State (out_Runtime observed) = RuntimeStateRunning) in
       if pr_State (out_Runtime observed) = RuntimeStatePending
       then wait_state cfg svc oldRequest observed RuntimeStateRunning [RuntimeStatePending]
              ''wait-pending-runtime-before-replacement-stop'' (\<lambda>err. fail (StepFailed (PollFailure err)))
              (\<lambda>observed.
              if out_Failure observed \<noteq> Text []
              then failRuntimeReplacement svc input (out_FailureCode observed) (out_Failure observed)
              else stop_old svc cfg input state oldRequest promoted providerWasRunning observed)
       else stop_old svc cfg input state oldRequest promoted providerWasRunning observed)"

text \<open>The old Runtime leaves its state, which removes its route, and auto-stop is suppressed.\<close>

definition begin_replacement ::
  "services \<Rightarrow> workflow_config \<Rightarrow> runtime_operation_dispatch \<Rightarrow> runtime_operation_state \<Rightarrow> lifecycle_request
   \<Rightarrow> string \<Rightarrow> runtime_replace_output workflow" where
  "begin_replacement svc cfg input state oldRequest promoted =
     (case RestoreRuntime (ros_Runtime state) of
        Inl err \<Rightarrow> fail_replacement svc input (RuntimeFailure err)
      | Inr old \<Rightarrow>
          durableWorkflowTime svc ''record-runtime-replacement-requested-at''
            (\<lambda>err. fail (StepFailed (Text err))) (\<lambda>at.
          case BeginReplacement old at of
            Inl err \<Rightarrow> fail_replacement svc input (RuntimeFailure err)
          | Inr replacing \<Rightarrow>
              persistRuntimeTransition svc (rod_OperationID input) (ros_Runtime state) replacing
                (\<lambda>err. fail_replacement svc input (Text err)) (\<lambda>nxt.
              do_step svc (SuppressAutoStop (rod_EnvironmentID input) (rt_ID (ros_Runtime state)))
                (\<lambda>err. fail_replacement svc input (Text err))
              (observe_old svc cfg input (state\<lparr>ros_Runtime := nxt\<rparr>) oldRequest promoted))))"

definition fulfillRuntimeReplacement ::
  "services \<Rightarrow> workflow_config \<Rightarrow> runtime_operation_dispatch \<Rightarrow> runtime_operation_state \<Rightarrow> string
   \<Rightarrow> runtime_replace_output workflow" where
  "fulfillRuntimeReplacement svc cfg input state promoted =
     (if \<not> wc_ReplaceActions cfg \<or> \<not> wc_HostIdentity cfg \<or> \<not> wc_Managed cfg \<or> \<not> wc_Toolchain cfg
      then fail (TerminalFailure (Text ''replacement actions, SSH host identity, managed configuration, and toolchain reconcilers are required''))
      else if \<not> wc_Attachments cfg
      then fail (TerminalFailure (Text ''Runtime data-volume attachment observer is required''))
      else case runtimeLifecycleRequest state of
        Inl err \<Rightarrow> fail_replacement svc input err
      | Inr oldRequest \<Rightarrow> begin_replacement svc cfg input state oldRequest promoted)"

definition replace_Run ::
  "services \<Rightarrow> workflow_config \<Rightarrow> string \<Rightarrow> runtime_operation_dispatch \<Rightarrow> runtime_replace_output workflow" where
  "replace_Run svc cfg key input =
     (if key \<noteq> rod_OperationID input then fail WorkflowKeyMismatch
      else ask (svc_load svc) Loaded (\<lambda>err. fail (StepFailed (Text err))) (\<lambda>state.
        case validateRuntimeOperationInput input OperationRuntimeReplace state of
          Some err \<Rightarrow> fail_replacement svc input err
        | None \<Rightarrow>
            ask (\<lambda>h. svc_image svc h (rt_Region (ros_Runtime state))) (ReadImage (rt_Region (ros_Runtime state)))
              (\<lambda>err. fail_replacement svc input (Text err)) (\<lambda>promoted.
            if promoted = [] then fail_replacement svc input (Text ''promoted image is required'')
            else fulfillRuntimeReplacement svc cfg input state promoted)))"

end
