(* ===== verification/Replacement_Safety.thy ===== *)
theory Replacement_Safety
  imports Runtime_Replace
begin

text \<open>
  What the replacement of a Runtime guarantees: the facts that are in the journal before each irreversible
  step, stated as a guard, and the proof that every phase of the workflow respects it.
\<close>

section \<open>What the workflow may do\<close>

text \<open>
  The replacement Runtime as the store holds it: reserved by the transaction that retires the old one, then
  replaced by each persisted transition.
\<close>

definition stored_new_after :: "runtime_snapshot option \<Rightarrow> event \<Rightarrow> runtime_snapshot option" where
  "stored_new_after current e =
     (case e of
        Replaced operationID owner version retired reservation (Inr replacement) \<Rightarrow> Some replacement
      | Did (PersistReplacementRuntimeTransition operationID version snapshot) None \<Rightarrow> Some snapshot
      | _ \<Rightarrow> current)"

definition stored_new :: "trace \<Rightarrow> runtime_snapshot option" where
  "stored_new h = foldl stored_new_after None h"

lemma stored_new_Nil [simp]: "stored_new [] = None"
  by (simp add: stored_new_def)

lemma stored_new_log [simp]: "stored_new (log h e) = stored_new_after (stored_new h) e"
  by (simp add: stored_new_def log_def)

definition new_persist_ok :: "trace \<Rightarrow> int64 \<Rightarrow> runtime_snapshot \<Rightarrow> bool" where
  "new_persist_ok h version snapshot \<longleftrightarrow>
     (\<exists>current. stored_new h = Some current \<and> version = rt_Version current \<and> domain_step current snapshot)"

text \<open>
  The facts that must be in the journal before each irreversible step: before the old Runtime is stopped,
  before it is retired, and before the data volume may be given to another Runtime.
\<close>

definition replacing_begun ::
  "runtime_operation_dispatch \<Rightarrow> runtime_operation_state \<Rightarrow> lifecycle_request \<Rightarrow> trace \<Rightarrow> bool" where
  "replacing_begun input state request h \<longleftrightarrow>
     runtimeLifecycleRequest state = Inr request
     \<and> Did (SuppressAutoStop (rod_EnvironmentID input) (rt_ID (ros_Runtime state))) None \<in> set h
     \<and> (\<exists>rt. stored h = Some rt \<and> rt_Status rt = RuntimeReplacing
          \<and> runtime_identity rt = runtime_identity (ros_Runtime state))"

definition compute_gone :: "lifecycle_request \<Rightarrow> provider_outcome \<Rightarrow> trace \<Rightarrow> bool" where
  "compute_gone request outcome h \<longleftrightarrow>
     (Called (ObserveRuntime request) (Inr outcome) \<in> set h
      \<or> Waited ''wait-replacement-runtime-stopped'' request (WaitEnded outcome) \<in> set h)
     \<and> pr_State (out_Runtime outcome) \<in> {RuntimeStateStopped, RuntimeStateTerminated}
     \<and> validateProviderRuntimeIdentity (out_Runtime outcome) request = None"

definition old_verified ::
  "runtime_operation_dispatch \<Rightarrow> runtime_operation_state \<Rightarrow> lifecycle_request \<Rightarrow> trace \<Rightarrow> bool" where
  "old_verified input state request h \<longleftrightarrow>
     replacing_begun input state request h
     \<and> (\<exists>outcome. compute_gone request outcome h
          \<and> (ros_ComputeUsageIntervalID state \<noteq> [] \<longrightarrow>
               Did (CloseComputeUsageInterval (ros_ComputeUsageIntervalID state) (out_ObservedAt outcome)
                 ComputeUsageClosedByProviderReconciliation) None \<in> set h))
     \<and> Did (VerifyRuntimeDataVolume (dataVolumeRequest input state)) None \<in> set h"

definition seen_terminated :: "lifecycle_request \<Rightarrow> trace \<Rightarrow> bool" where
  "seen_terminated request h \<longleftrightarrow>
     (\<exists>outcome. (Called (ObserveRuntime request) (Inr outcome) \<in> set h
                 \<or> Waited ''wait-runtime-retired'' request (WaitEnded outcome) \<in> set h)
        \<and> pr_State (out_Runtime outcome) = RuntimeStateTerminated
        \<and> validateProviderRuntimeIdentity (out_Runtime outcome) request = None)"

definition reported_detached :: "services \<Rightarrow> lifecycle_request \<Rightarrow> trace \<Rightarrow> bool" where
  "reported_detached svc request h \<longleftrightarrow>
     (\<exists>attempt t slept at attachment. svc_attachment svc h request attempt t slept = Inr (Inr attachment, at)
        \<and> att_DataVolumeProviderID attachment = spec_DataVolumeProviderID (lr_Spec request)
        \<and> \<not> att_Attached attachment)"

definition seen_detached :: "services \<Rightarrow> lifecycle_request \<Rightarrow> trace \<Rightarrow> bool" where
  "seen_detached svc request h \<longleftrightarrow>
     (\<exists>earlier later. h = earlier @ DetachmentWaited request (WaitEnded ()) # later
        \<and> reported_detached svc request earlier)"

definition old_released ::
  "services \<Rightarrow> runtime_operation_dispatch \<Rightarrow> runtime_operation_state \<Rightarrow> trace \<Rightarrow> bool" where
  "old_released svc input state h \<longleftrightarrow>
     (\<exists>request. old_verified input state request h \<and> seen_terminated request h
        \<and> seen_detached svc request h)"

text \<open>
  The transaction that replaces the rows: it retires the stored Runtime by a domain step and reserves the
  next sequence in the same placement on the promoted image.
\<close>

definition retires_and_reserves ::
  "runtime_operation_dispatch \<Rightarrow> runtime_operation_state \<Rightarrow> string \<Rightarrow> int64 \<Rightarrow> runtime_snapshot
   \<Rightarrow> runtime_reservation \<Rightarrow> trace \<Rightarrow> bool" where
  "retires_and_reserves input state promoted version retired reservation h \<longleftrightarrow>
     persist_ok h version retired \<and> rt_Status retired = RuntimeAbsent \<and> rt_RetiredAt retired \<noteq> None
     \<and> rt_ID retired = rt_ID (ros_Runtime state)
     \<and> rres_EnvironmentID reservation = rod_EnvironmentID input
     \<and> rres_Sequence reservation = rt_Sequence (ros_Runtime state) + 1
     \<and> rres_RuntimePreset reservation = rt_RuntimePreset (ros_Runtime state)
     \<and> rres_Region reservation = rt_Region (ros_Runtime state)
     \<and> rres_AvailabilityZone reservation = rt_AvailabilityZone (ros_Runtime state)
     \<and> rres_ImageVersion reservation = promoted"

text \<open>The facts before the Operation completes: the new Runtime is billed, serves its guest and is ready.\<close>

definition usage_opened :: "runtime_operation_dispatch \<Rightarrow> string \<Rightarrow> trace \<Rightarrow> bool" where
  "usage_opened input runtimeID h \<longleftrightarrow>
     (\<exists>usage interval. OpenedUsage usage (Inr interval) \<in> set h
        \<and> ou_UserID usage = rod_OwnerUserID input \<and> ou_RuntimeID usage = runtimeID
        \<and> cui_UserID interval = rod_OwnerUserID input \<and> cui_EnvironmentID interval = rod_EnvironmentID input
        \<and> cui_RuntimeID interval = runtimeID)"

definition guest_mounted :: "string \<Rightarrow> guest_request \<Rightarrow> guest_readiness \<Rightarrow> trace \<Rightarrow> bool" where
  "guest_mounted runtimeID guest ready h \<longleftrightarrow>
     GuestReady guest (WaitEnded ready) \<in> set h \<and> gr_RuntimeID guest = runtimeID
     \<and> gready_DataMounted ready \<and> gready_BootID ready \<noteq> [] \<and> gready_PrivateIPv4 ready = gr_PrivateIPv4 guest"

definition guest_served ::
  "runtime_operation_dispatch \<Rightarrow> string \<Rightarrow> guest_readiness \<Rightarrow> trace \<Rightarrow> bool" where
  "guest_served input runtimeID ready h \<longleftrightarrow>
     (\<exists>guest. guest_mounted runtimeID guest ready h
        \<and> Did (RestoreRuntimeSSHHostIdentity guest) None \<in> set h
        \<and> Did (ReconcileRuntimeSSHKeys guest) None \<in> set h
        \<and> Did (ReconcileRuntimeManagedConfiguration guest) None \<in> set h
        \<and> Did (ValidateEnvironmentToolchain (rod_OperationID input) guest) None \<in> set h)"

definition replace_complete_ok ::
  "services \<Rightarrow> runtime_operation_dispatch \<Rightarrow> runtime_operation_state \<Rightarrow> runtime_snapshot \<Rightarrow> guest_readiness
   \<Rightarrow> trace \<Rightarrow> bool" where
  "replace_complete_ok svc input state rt ready h \<longleftrightarrow>
     old_released svc input state h \<and> stored_new h = Some rt \<and> rt_Status rt = RuntimeReady
     \<and> rt_PrivateAddress rt = Some (gready_PrivateIPv4 ready) \<and> rt_BootID rt = Some (gready_BootID ready)
     \<and> usage_opened input (rt_ID rt) h \<and> guest_served input (rt_ID rt) ready h
     \<and> Did (ResumeAutoStop (rod_EnvironmentID input) (rt_ID rt)) None \<in> set h"

definition ensure_ok ::
  "services \<Rightarrow> runtime_operation_dispatch \<Rightarrow> runtime_operation_state \<Rightarrow> runtime_spec \<Rightarrow> trace \<Rightarrow> bool" where
  "ensure_ok svc input state spec h \<longleftrightarrow>
     old_released svc input state h
     \<and> (\<exists>rt. stored_new h = Some rt \<and> spec = replacement_spec rt (ros_DataVolumeProviderID state))"

definition attach_ok ::
  "services \<Rightarrow> runtime_operation_dispatch \<Rightarrow> runtime_operation_state \<Rightarrow> lifecycle_request \<Rightarrow> trace \<Rightarrow> bool" where
  "attach_ok svc input state request h \<longleftrightarrow>
     ensure_ok svc input state (lr_Spec request) h
     \<and> (\<exists>rt. stored_new h = Some rt \<and> rt_ProviderInstanceRef rt = Some (lr_ProviderID request))"

text \<open>Steps that are allowed at any time.\<close>

definition neutral_event :: "event \<Rightarrow> bool" where
  "neutral_event e =
     (case e of
        Did (SuppressAutoStop environment runtime) answer \<Rightarrow> True
      | Did (ResumeAutoStop environment runtime) answer \<Rightarrow> True
      | Did (VerifyRuntimeDataVolume request) answer \<Rightarrow> True
      | Did (InventoryReplacementRuntimeResources operationID resources) answer \<Rightarrow> True
      | Did (RestoreRuntimeSSHHostIdentity guest) answer \<Rightarrow> True
      | Did (ReconcileRuntimeSSHKeys guest) answer \<Rightarrow> True
      | Did (ReconcileRuntimeManagedConfiguration guest) answer \<Rightarrow> True
      | Did (ValidateEnvironmentToolchain operationID guest) answer \<Rightarrow> True
      | Called (ObserveRuntime request) answer \<Rightarrow> True
      | Waited place request answer \<Rightarrow> True
      | ReservedID place answer \<Rightarrow> True
      | ReservedIdentity answer \<Rightarrow> True
      | OpenedUsage usage answer \<Rightarrow> True
      | GuestReady guest answer \<Rightarrow> True
      | ReadTime place answer \<Rightarrow> True
      | DetachmentWaited request answer \<Rightarrow> True
      | _ \<Rightarrow> False)"

lemma neutral_events [simp]:
  "neutral_event (Did (SuppressAutoStop environment runtime) done)"
  "neutral_event (Did (ResumeAutoStop environment runtime) done)"
  "neutral_event (Did (VerifyRuntimeDataVolume volume) done)"
  "neutral_event (Did (InventoryReplacementRuntimeResources operationID resources) done)"
  "neutral_event (Did (RestoreRuntimeSSHHostIdentity guest) done)"
  "neutral_event (Did (ReconcileRuntimeSSHKeys guest) done)"
  "neutral_event (Did (ReconcileRuntimeManagedConfiguration guest) done)"
  "neutral_event (Did (ValidateEnvironmentToolchain operationID guest) done)"
  "neutral_event (Called (ObserveRuntime request) seen)"
  "neutral_event (Waited place request waited)"
  "neutral_event (ReservedID place reserved)"
  "neutral_event (ReservedIdentity identity)"
  "neutral_event (OpenedUsage usage opened)"
  "neutral_event (GuestReady guest readiness)"
  "neutral_event (ReadTime place time)"
  "neutral_event (DetachmentWaited request detached)"
  by (simp_all add: neutral_event_def)

lemma neutral_stored [simp]:
  assumes "neutral_event e"
  shows "stored_after current e = current" and "stored_new_after current' e = current'"
  using assms by (auto simp: neutral_event_def stored_after_def stored_new_after_def
      split: event.splits call.splits option.splits sum.splits)

section \<open>Facts that last\<close>

named_theorems lasting

lemma replacing_begun_log [lasting]:
  "replacing_begun input state request h \<Longrightarrow> stored_after (stored h) e = stored h
   \<Longrightarrow> replacing_begun input state request (log h e)"
  by (simp add: replacing_begun_def)

lemma compute_gone_log [lasting]: "compute_gone request outcome h \<Longrightarrow> compute_gone request outcome (log h e)"
  by (auto simp: compute_gone_def)

lemma old_verified_log [lasting]:
  "old_verified input state request h \<Longrightarrow> stored_after (stored h) e = stored h
   \<Longrightarrow> old_verified input state request (log h e)"
  unfolding old_verified_def by (auto intro: lasting)

lemma seen_terminated_log [lasting]: "seen_terminated request h \<Longrightarrow> seen_terminated request (log h e)"
  by (auto simp: seen_terminated_def)

lemma seen_detached_log [lasting]:
  assumes "seen_detached svc request h"
  shows "seen_detached svc request (log h e)"
proof -
  from assms obtain earlier later where "h = earlier @ DetachmentWaited request (WaitEnded ()) # later"
    and reported: "reported_detached svc request earlier"
    by (auto simp: seen_detached_def)
  then have "log h e = earlier @ DetachmentWaited request (WaitEnded ()) # (later @ [e])"
    by (simp add: log_def)
  with reported show ?thesis unfolding seen_detached_def by blast
qed

lemma seen_detached_now:
  "reported_detached svc request h \<Longrightarrow> seen_detached svc request (log h (DetachmentWaited request (WaitEnded ())))"
  unfolding seen_detached_def log_def by blast

lemma old_released_log [lasting]:
  "old_released svc input state h \<Longrightarrow> stored_after (stored h) e = stored h
   \<Longrightarrow> old_released svc input state (log h e)"
  unfolding old_released_def by (blast intro: lasting)

lemma usage_opened_log [lasting]: "usage_opened input runtimeID h \<Longrightarrow> usage_opened input runtimeID (log h e)"
  by (auto simp: usage_opened_def)

lemma usage_opened_now:
  "ou_UserID usage = rod_OwnerUserID input \<Longrightarrow> ou_RuntimeID usage = runtimeID
   \<Longrightarrow> cui_UserID interval = rod_OwnerUserID input \<Longrightarrow> cui_EnvironmentID interval = rod_EnvironmentID input
   \<Longrightarrow> cui_RuntimeID interval = runtimeID \<Longrightarrow> usage_opened input runtimeID (log h (OpenedUsage usage (Inr interval)))"
  unfolding usage_opened_def by auto

lemma guest_mounted_log [lasting]:
  "guest_mounted runtimeID guest ready h \<Longrightarrow> guest_mounted runtimeID guest ready (log h e)"
  by (auto simp: guest_mounted_def)

lemma guest_served_log [lasting]:
  "guest_served input runtimeID ready h \<Longrightarrow> guest_served input runtimeID ready (log h e)"
  unfolding guest_served_def by (auto intro: lasting)

lemma evaluate_detachment_done:
  "evaluate_detachment request outcome t = (val, True) \<Longrightarrow> ao_Failure val = []
   \<Longrightarrow> \<not> ao_RetryableFailure outcome \<and> ao_Failure outcome = []
     \<and> att_DataVolumeProviderID (ao_Attachment outcome) = spec_DataVolumeProviderID (lr_Spec request)
     \<and> \<not> att_Attached (ao_Attachment outcome)"
  by (auto simp: evaluate_detachment_def Let_def split: if_splits)

text \<open>The wait for the detachment ends only when a read reported the volume detached.\<close>

lemma detachment_reported:
  assumes "waitForOldDataVolumeDetachment cfg svc request h = WaitEnded v"
    and "spec_DataVolumeProviderID (lr_Spec request) \<noteq> []"
  shows "reported_detached svc request h"
proof -
  let ?evaluate = "evaluate_detachment request"
    and ?stamp = "Some (\<lambda>outcome checkedAt. outcome\<lparr>ao_ObservedAt := checkedAt\<rparr>)"
  have reads: "read_UseValue rd"
    if "attachment_journal svc h request attempt t slept = Inr (rd, at)" for attempt t slept rd at
    using that by (auto simp: attachment_journal_def Let_def split: sum.splits prod.splits)
  from assms(1) obtain poll
    where poll: "durableDeadlinePoll (wc_fuel cfg) zero_attachment (svc_attachment_start svc h) None
          (provider_poll_config zero_time ''wait-retired-data-volume-detached''
             (wc_ProviderPollInterval cfg) (wc_ProviderPollTimeout cfg))
          (attachment_journal svc h request) ?evaluate ?stamp = Some (Inr poll)" "\<not> res_timedOut poll"
      and ok: "ao_Failure (res_value poll) = []"
    unfolding waitForOldDataVolumeDetachment_def by (auto split: option.splits sum.splits if_splits)
  from poll_reads [OF poll] reads ok
  have "read_satisfies (attachment_journal svc h request) ?evaluate ?stamp (res_value poll)" by blast
  with ok obtain attempt t slept rd at startedAt where rd:
    "attachment_journal svc h request attempt t slept = Inr (rd, at)"
    "?evaluate ((read_Value rd)\<lparr>ao_ObservedAt := at\<rparr>) startedAt = (res_value poll, True)"
    "ao_Failure (res_value poll) = []"
    by (auto simp: read_satisfies_def)
  from evaluate_detachment_done [OF rd(2,3)]
  have "\<not> ao_RetryableFailure (read_Value rd) \<and> ao_Failure (read_Value rd) = []
    \<and> att_DataVolumeProviderID (ao_Attachment (read_Value rd)) = spec_DataVolumeProviderID (lr_Spec request)
    \<and> \<not> att_Attached (ao_Attachment (read_Value rd))" by simp
  with rd(1) assms(2) obtain attachment where "svc_attachment svc h request attempt t slept = Inr (Inr attachment, at)"
    "att_DataVolumeProviderID attachment = spec_DataVolumeProviderID (lr_Spec request)" "\<not> att_Attached attachment"
    by (auto simp: attachment_journal_def Let_def zero_attachment_def split: sum.splits if_splits)
  then show ?thesis unfolding reported_detached_def by blast
qed

lemma request_volume:
  "runtimeLifecycleRequest state = Inr request \<Longrightarrow> spec_DataVolumeProviderID (lr_Spec request) \<noteq> []"
  by (auto simp: runtimeLifecycleRequest_def Let_def blank_def split: option.splits if_splits)

lemma wp_wait_state:
  "(\<And>err. wp (onError err) Q (log h (Waited p request (WaitFailed err))))
   \<Longrightarrow> (\<And>outcome. (out_Failure outcome = Text [] \<Longrightarrow> pr_State (out_Runtime outcome) = expected
          \<and> validateProviderRuntimeIdentity (out_Runtime outcome) request = None)
        \<Longrightarrow> wp (continue outcome) Q (log h (Waited p request (WaitEnded outcome))))
   \<Longrightarrow> Q OutOfFuel (log h (Waited p request WaitUnfinished))
   \<Longrightarrow> wp (wait_state cfg svc request initial expected transitional p onError continue) Q h"
  unfolding wait_state_def by (intro wp_wait) (auto dest: waitForProviderState_reached)

lemma wp_durableWorkflowTime:
  "(\<And>err. wp (onError err) Q (log h (ReadTime name (Inl err))))
   \<Longrightarrow> (\<And>at. wp (continue at) Q (log h (ReadTime name (Inr at))))
   \<Longrightarrow> wp (durableWorkflowTime svc name onError continue) Q h"
  unfolding durableWorkflowTime_def by (intro wp_ask)

lemma wp_persistReplacement:
  "(\<And>err. wp (onError err) Q (log h (Did (PersistReplacementRuntimeTransition operationID (rt_Version current)
       (cloneRuntimeSnapshot changed)) (Some err))))
   \<Longrightarrow> wp (continue (cloneRuntimeSnapshot changed)) Q (log h (Did (PersistReplacementRuntimeTransition operationID
       (rt_Version current) (cloneRuntimeSnapshot changed)) None))
   \<Longrightarrow> wp (persistReplacementRuntimeTransition svc operationID current changed onError continue) Q h"
  unfolding persistReplacementRuntimeTransition_def Let_def by (intro wp_rules)

lemmas replace_rules = wp_rules wp_wait_state wp_durableWorkflowTime wp_persistReplacement

section \<open>Every phase respects the guard\<close>

lemma valid_restores: "runtime_valid rt \<Longrightarrow> RestoreRuntime rt = Inr (cloneRuntimeSnapshot rt)"
  by (simp add: RestoreRuntime_Inr_iff)

lemma restored_or_zero_valid: "runtime_valid rt \<Longrightarrow> restored_or_zero rt = cloneRuntimeSnapshot rt"
  by (simp add: restored_or_zero_def valid_restores)

lemma MarkReady_fields:
  "MarkReady rt observation = Inr rt' \<Longrightarrow> rt_Status rt' = RuntimeReady
     \<and> rt_PrivateAddress rt' = Some (ready_PrivateAddress observation)
     \<and> rt_BootID rt' = Some (ready_BootID observation)"
  by (auto simp: MarkReady_def runtime_step_facts Let_def split: sum.splits if_splits option.splits)

lemma BeginReplacement_status: "BeginReplacement rt at = Inr rt' \<Longrightarrow> rt_Status rt' = RuntimeReplacing"
  by (auto simp: BeginReplacement_def runtime_step_facts split: sum.splits if_splits)

lemma Retire_fields:
  "Retire rt observation = Inr rt' \<Longrightarrow> rt_Status rt' = RuntimeAbsent \<and> rt_RetiredAt rt' \<noteq> None"
  by (auto simp: Retire_def runtime_step_facts Let_def split: sum.splits if_splits option.splits)

lemma Provision_provider: "Provision rt ref at = Inr rt' \<Longrightarrow> rt_ProviderInstanceRef rt' = Some ref"
  by (auto simp: Provision_def runtime_step_facts Let_def split: sum.splits if_splits option.splits)

lemma replacement_spec_identity:
  "runtime_identity rt = runtime_identity rt' \<Longrightarrow> replacement_spec rt volume = replacement_spec rt' volume"
  by (simp add: runtime_identity_def replacement_spec_def)

lemma identity_error: "validateProviderRuntimeIdentity observed request = Some err \<Longrightarrow> err \<noteq> Text []"
  by (auto simp: validateProviderRuntimeIdentity_def split: if_splits)

text \<open>What is known of the replacement Runtime once its provider identity is persisted.\<close>

definition serving ::
  "services \<Rightarrow> runtime_operation_dispatch \<Rightarrow> runtime_operation_state \<Rightarrow> lifecycle_request \<Rightarrow> runtime_snapshot
   \<Rightarrow> trace \<Rightarrow> bool" where
  "serving svc input state request rt h \<longleftrightarrow>
     old_released svc input state h \<and> stored_new h = Some rt \<and> runtime_valid rt
     \<and> lr_Spec request = replacement_spec rt (ros_DataVolumeProviderID state)
     \<and> rt_ProviderInstanceRef rt = Some (lr_ProviderID request)"

lemma serving_log [lasting]:
  "serving svc input state request rt h \<Longrightarrow> neutral_event e \<Longrightarrow> serving svc input state request rt (log h e)"
  by (auto simp: serving_def intro: lasting)

lemma serving_persisted:
  assumes "serving svc input state request rt h" and "domain_step rt nxt"
  shows "serving svc input state request nxt
    (log h (Did (PersistReplacementRuntimeTransition operationID version nxt) None))"
  using assms(1) domain_step_keeps [OF assms(2)] replacement_spec_identity [OF domain_step_keeps(2) [OF assms(2)]]
  by (auto simp: serving_def stored_new_after_def stored_after_def intro: lasting)

text \<open>How a replacement may end: a returned one ends with the completed Operation.\<close>

definition replace_end ::
  "(trace \<Rightarrow> event \<Rightarrow> bool) \<Rightarrow> services \<Rightarrow> runtime_operation_dispatch \<Rightarrow> runtime_operation_state
   \<Rightarrow> runtime_replace_output outcome \<Rightarrow> trace \<Rightarrow> bool" where
  "replace_end guard svc input state r h \<longleftrightarrow>
     safe guard h \<and> r \<noteq> Panicked
     \<and> (\<forall>out. r = Returned out \<longrightarrow>
          (\<exists>earlier at rt ready. h = log earlier (Did (CompleteRuntimeOperation (rod_OperationID input) at) None)
             \<and> replace_complete_ok svc input state rt ready earlier
             \<and> out = \<lparr>rro_RetiredRuntimeID = rt_ID (ros_Runtime state), rro_ReplacementRuntimeID = rt_ID rt,
                      rro_PrivateRoute = gready_PrivateIPv4 ready\<rparr>))"

locale replacement_guard = workflow_guard guard "rod_OperationID input"
  for guard :: "trace \<Rightarrow> event \<Rightarrow> bool" and input :: runtime_operation_dispatch +
  fixes svc :: services and state :: runtime_operation_state and promoted :: string
  assumes neutral_allowed: "neutral_event e \<Longrightarrow> guard h e"
    and stop_allowed: "replacing_begun input state request h \<Longrightarrow> guard h (Called (StopRuntime request) answer)"
    and retire_allowed: "old_verified input state request h \<Longrightarrow> guard h (Called (RetireRuntime request) answer)"
    and replace_allowed: "old_released svc input state h
      \<Longrightarrow> retires_and_reserves input state promoted version retired reservation h
      \<Longrightarrow> guard h (Replaced (rod_OperationID input) (rod_OwnerUserID input) version retired reservation made)"
    and ensure_allowed: "ensure_ok svc input state spec h
      \<Longrightarrow> guard h (Called (EnsureRuntime spec (rod_OperationID input)) answer)"
    and attach_allowed: "attach_ok svc input state request h
      \<Longrightarrow> guard h (Called (EnsureRuntimeDataVolumeAttachment request) answer)"
    and new_persist_allowed: "new_persist_ok h version snapshot
      \<Longrightarrow> guard h (Did (PersistReplacementRuntimeTransition (rod_OperationID input) version snapshot) done)"
    and complete_allowed: "replace_complete_ok svc input state rt ready h
      \<Longrightarrow> guard h (Did (CompleteRuntimeOperation (rod_OperationID input) at) done)"
begin

abbreviation "ends \<equiv> replace_end guard svc input state"

lemma ends_failed [simp]: "ends (Failed err) h \<longleftrightarrow> safe guard h" "ends OutOfFuel h \<longleftrightarrow> safe guard h"
  by (auto simp: replace_end_def)

lemma neutral_guard [simp]: "neutral_event e \<Longrightarrow> guard h e"
  by (rule neutral_allowed)

lemma fail_ends: "safe guard h \<Longrightarrow> wp (failRuntimeReplacement svc input code message) ends h"
  unfolding failRuntimeReplacement_def by (intro wp_rules) (auto simp: failure_allowed)

lemma new_step_allowed:
  assumes "stored_new h = Some current" and "domain_step current (cloneRuntimeSnapshot changed)"
  shows "guard h (Did (PersistReplacementRuntimeTransition (rod_OperationID input) (rt_Version current)
    (cloneRuntimeSnapshot changed)) answer)"
  using assms by (auto intro!: new_persist_allowed simp: new_persist_ok_def)

lemma fail_new_ends:
  assumes "safe guard h" and "stored_new h = Some current"
  shows "wp (failReplacementRuntimeAndOperation svc input current code message) ends h"
proof -
  have allowed: "guard (log h (ReadTime place at)) (Did (PersistReplacementRuntimeTransition (rod_OperationID input)
      (rt_Version current) (cloneRuntimeSnapshot failed)) answer)"
    if "RestoreRuntime current = Inr rt" "MarkError rt observation = Inr failed" for rt observation failed answer place at
    using assms(2) domain_steps(5) [OF that] by (intro new_step_allowed) simp_all
  show ?thesis
  proof (cases "RestoreRuntime current")
    case (Inr rt)
    then show ?thesis
      unfolding failReplacementRuntimeAndOperation_def
      by (cases "rt_ProviderInstanceRef current")
        (auto intro!: replace_rules fail_ends simp: assms(1) intro: allowed [OF Inr])
  qed (simp add: failReplacementRuntimeAndOperation_def fail_ends assms(1))
qed

lemma finish_ends:
  assumes "safe guard h" and "old_released svc input state h" and "stored_new h = Some rt"
    and "rt_Status rt = RuntimeReady \<and> rt_PrivateAddress rt = Some (gready_PrivateIPv4 ready)
      \<and> rt_BootID rt = Some (gready_BootID ready)"
    and "usage_opened input (rt_ID rt) h" and "guest_served input (rt_ID rt) ready h"
  shows "wp (finish_replacement svc input (rt_ID (ros_Runtime state)) rt ready) ends h"
proof -
  let ?h = "log h (Did (ResumeAutoStop (rod_EnvironmentID input) (rt_ID rt)) None)"
  have ok: "replace_complete_ok svc input state rt ready ?h"
    using assms by (auto simp: replace_complete_ok_def intro: lasting)
  note allowed = complete_allowed [OF ok]
  have still: "stored_new (log ?h (Did (CompleteRuntimeOperation operationID at) answer)) = Some rt"
    for operationID at answer
    using assms(3) by (simp add: stored_new_after_def)
  show ?thesis
    unfolding finish_replacement_def
    by (intro replace_rules fail_new_ends)
      (use assms(1,3) ok allowed still in \<open>auto simp: replace_end_def\<close>)
qed

lemma ready_ends:
  assumes "safe guard h" and "serving svc input state request rt h"
    and "usage_opened input (rt_ID rt) h" and "guest_served input (rt_ID rt) ready h"
  shows "wp (ready_replacement svc input (rt_ID (ros_Runtime state)) request rt ready) ends h"
proof -
  have stored: "stored_new h = Some rt" "runtime_valid rt"
    using assms(2) by (simp_all add: serving_def)
  have step: "domain_step rt (cloneRuntimeSnapshot marked)"
    if "MarkReady (restored_or_zero rt) observation = Inr marked" for observation marked
    using that domain_steps(2) valid_restores restored_or_zero_valid stored(2) by metis
  have persisted: "wp (finish_replacement svc input (rt_ID (ros_Runtime state)) (cloneRuntimeSnapshot marked) ready) ends
      (log h' (Did (PersistReplacementRuntimeTransition (rod_OperationID input) (rt_Version rt)
         (cloneRuntimeSnapshot marked)) None))"
    if h': "h' = log h (ReadTime place at)" and marked: "MarkReady (restored_or_zero rt)
      \<lparr>ready_ProviderInstanceRef = ref, ready_BootID = gready_BootID ready,
       ready_PrivateAddress = gready_PrivateIPv4 ready, ready_ExpectedVersion = version,
       ready_ObservedAt = observed\<rparr> = Inr marked" for h' place at marked ref version observed
  proof (rule finish_ends)
    note st = step [OF marked]
    have same: "rt_ID marked = rt_ID rt"
      using domain_step_keeps(2) [OF st] by (simp add: runtime_identity_def)
    have "serving svc input state request rt h'"
      using assms(2) h' by (simp add: serving_log)
    note serving = serving_persisted [OF this st]
    then show "old_released svc input state (log h' (Did (PersistReplacementRuntimeTransition (rod_OperationID input)
        (rt_Version rt) (cloneRuntimeSnapshot marked)) None))"
      by (simp add: serving_def)
    show "safe guard (log h' (Did (PersistReplacementRuntimeTransition (rod_OperationID input) (rt_Version rt)
         (cloneRuntimeSnapshot marked)) None))"
      using assms(1) stored(1) st h' by (simp add: new_step_allowed)
  qed (use MarkReady_fields [OF marked] domain_step_keeps(2) [OF step [OF marked]] assms(3,4) h' in
      \<open>auto simp: stored_new_after_def runtime_identity_def intro: lasting\<close>)
  show ?thesis
    unfolding ready_replacement_def
    by (intro replace_rules fail_new_ends fail_ends persisted)
      (use assms(1) stored step in \<open>auto intro: new_step_allowed\<close>)
qed

lemma reconcile_ends:
  assumes "safe guard h" and "serving svc input state request rt h"
    and "usage_opened input (rt_ID rt) h" and "guest_mounted (rt_ID rt) guest ready h"
  shows "wp (reconcile_replacement svc input (rt_ID (ros_Runtime state)) request rt guest ready) ends h"
proof -
  have stored: "stored_new h = Some rt" using assms(2) by (simp add: serving_def)
  show ?thesis
    unfolding reconcile_replacement_def
    by (intro replace_rules fail_new_ends ready_ends)
      (use assms stored in \<open>auto intro!: lasting simp: guest_served_def\<close>)
qed

lemma await_guest_ends:
  assumes "safe guard h" and "serving svc input state request rt h" and "usage_opened input (rt_ID rt) h"
  shows "wp (await_replacement_guest svc cfg input (rt_ID (ros_Runtime state)) request rt running) ends h"
proof -
  have stored: "stored_new h = Some rt" using assms(2) by (simp add: serving_def)
  show ?thesis
    unfolding await_replacement_guest_def Let_def
    by (intro replace_rules fail_new_ends reconcile_ends)
      (use assms stored in \<open>auto intro!: lasting simp: guest_mounted_def\<close>)
qed

lemma close_log_new [simp]:
  "stored_new_after current (Did (CloseComputeUsageInterval intervalID at source) done) = current"
  "stored_after current' (Did (CloseComputeUsageInterval intervalID at source) done) = current'"
  by (simp_all add: stored_new_after_def stored_after_def)

lemma await_running_ends:
  assumes "safe guard h" and "serving svc input state request rt h" and "usage_opened input (rt_ID rt) h"
  shows "wp (await_replacement_running svc cfg input (rt_ID (ros_Runtime state)) request rt attached interval) ends h"
proof -
  have stored: "stored_new h = Some rt" using assms(2) by (simp add: serving_def)
  show ?thesis
    unfolding await_replacement_running_def
    by (intro replace_rules fail_new_ends await_guest_ends)
      (use assms stored in \<open>auto intro!: lasting simp: close_allowed\<close>)
qed

lemma open_usage_ends:
  assumes "safe guard h" and "serving svc input state request rt h"
  shows "wp (open_replacement_usage svc cfg input (rt_ID (ros_Runtime state)) request rt ensured attached) ends h"
proof -
  have stored: "stored_new h = Some rt" using assms(2) by (simp add: serving_def)
  show ?thesis
    unfolding open_replacement_usage_def Let_def
    by (intro replace_rules fail_new_ends await_running_ends)
      (use assms stored in \<open>auto intro!: serving_log usage_opened_now\<close>)
qed

lemma start_ends:
  assumes "safe guard h" and "serving svc input state request rt h"
  shows "wp (start_replacement svc cfg input (rt_ID (ros_Runtime state)) request rt ensured attached) ends h"
proof -
  have stored: "stored_new h = Some rt" "runtime_valid rt" using assms(2) by (simp_all add: serving_def)
  have step: "domain_step rt (cloneRuntimeSnapshot starting)"
    if "BeginStart (restored_or_zero rt) at = Inr starting" for at starting
    using that domain_steps(1) valid_restores restored_or_zero_valid stored(2) by metis
  have rest: "wp (open_replacement_usage svc cfg input (rt_ID (ros_Runtime state)) request
      (cloneRuntimeSnapshot starting) ensured attached) ends
      (log (log h (ReadTime place seen)) (Did (PersistReplacementRuntimeTransition (rod_OperationID input)
         (rt_Version rt) (cloneRuntimeSnapshot starting)) None))"
    if "BeginStart (restored_or_zero rt) at = Inr starting" for at starting place seen
    using assms stored step [OF that]
    by (intro open_usage_ends serving_persisted) (auto intro: lasting new_step_allowed)
  show ?thesis
    unfolding start_replacement_def
    by (intro replace_rules fail_new_ends fail_ends rest)
      (use assms(1) stored step in \<open>auto intro: new_step_allowed\<close>)
qed

lemma attach_ends:
  assumes "safe guard h" and "serving svc input state request rt h"
  shows "wp (attach_replacement svc cfg input (rt_ID (ros_Runtime state)) identity request rt ensured) ends h"
proof -
  have stored: "stored_new h = Some rt" using assms(2) by (simp add: serving_def)
  have "attach_ok svc input state request h"
    using assms(2) by (auto simp: attach_ok_def ensure_ok_def serving_def)
  note allowed = attach_allowed [OF this]
  have kept: "serving svc input state request rt (log h (Called (EnsureRuntimeDataVolumeAttachment request) answer))"
    "stored_new (log h (Called (EnsureRuntimeDataVolumeAttachment request) answer)) = Some rt" for answer
    using assms(2) by (auto simp: serving_def stored_new_after_def stored_after_def intro: lasting)
  show ?thesis
    unfolding attach_replacement_def
    by (intro replace_rules fail_new_ends start_ends)
      (use assms(1) allowed kept in \<open>auto intro: lasting\<close>)
qed

lemma provision_ends:
  assumes "safe guard h" and "old_released svc input state h" and "stored_new h = Some rt"
    and "spec = replacement_spec rt (ros_DataVolumeProviderID state)"
  shows "wp (provision_replacement svc cfg input (rt_ID (ros_Runtime state)) identity spec rt ensured) ends h"
proof -
  have rest: "guard h (Did (PersistReplacementRuntimeTransition (rod_OperationID input) (rt_Version rt)
      (cloneRuntimeSnapshot provisioned)) outcome)"
    "serving svc input state \<lparr>lr_Spec = spec, lr_ProviderID = ref\<rparr> (cloneRuntimeSnapshot provisioned)
      (log h (Did (PersistReplacementRuntimeTransition (rod_OperationID input) (rt_Version rt)
         (cloneRuntimeSnapshot provisioned)) None))"
    if "RestoreRuntime rt = Inr nxt" "Provision nxt ref at = Inr provisioned" for nxt ref at provisioned outcome
  proof -
    have step: "domain_step rt (cloneRuntimeSnapshot provisioned)"
      using domain_stepI [OF that(1), of "CmdProvision ref at"] that(2) by simp
    show "guard h (Did (PersistReplacementRuntimeTransition (rod_OperationID input) (rt_Version rt)
      (cloneRuntimeSnapshot provisioned)) outcome)"
      using new_step_allowed [OF assms(3) step] .
    show "serving svc input state \<lparr>lr_Spec = spec, lr_ProviderID = ref\<rparr> (cloneRuntimeSnapshot provisioned)
      (log h (Did (PersistReplacementRuntimeTransition (rod_OperationID input) (rt_Version rt)
         (cloneRuntimeSnapshot provisioned)) None))"
      using assms(2,4) domain_step_keeps(1) [OF step] Provision_provider [OF that(2)]
        replacement_spec_identity [OF domain_step_keeps(2) [OF step]]
      by (auto simp: serving_def stored_new_after_def stored_after_def intro: lasting)
  qed
  show ?thesis
    unfolding provision_replacement_def
    by (intro replace_rules fail_ends attach_ends) (use assms(1) rest in auto)
qed

lemma ensure_ends:
  assumes "safe guard h" and "old_released svc input state h" and "stored_new h = Some rt"
    and "ros_DataVolumeProviderID state' = ros_DataVolumeProviderID state"
    and "rt_ID (ros_Runtime state') = rt_ID (ros_Runtime state)"
  shows "wp (ensure_replacement svc cfg input state' identity rt) ends h"
proof -
  let ?call = "EnsureRuntime (replacement_spec rt (ros_DataVolumeProviderID state)) (rod_OperationID input)"
  have "ensure_ok svc input state (replacement_spec rt (ros_DataVolumeProviderID state)) h"
    using assms(2,3) by (auto simp: ensure_ok_def)
  note allowed = ensure_allowed [OF this]
  have kept: "old_released svc input state (log h (Called ?call answer))"
    "stored_new (log h (Called ?call answer)) = Some rt" for answer
    using assms(2,3) by (auto simp: stored_new_after_def stored_after_def intro: lasting)
  show ?thesis
    unfolding ensure_replacement_def Let_def assms(4,5)
    by (intro replace_rules fail_ends provision_ends) (use assms(1) allowed kept in auto)
qed

text \<open>
  The state of the workflow after the replacement began: the loaded one with its Runtime replacing, and
  with its compute usage interval forgotten once it is closed.
\<close>

abbreviation "begun state' request h \<equiv>
  replacing_begun input state request h \<and> stored h = Some (ros_Runtime state')
  \<and> ros_DataVolumeProviderID state' = ros_DataVolumeProviderID state"

lemma begun_identity:
  "begun state' request h \<Longrightarrow> runtime_identity (ros_Runtime state') = runtime_identity (ros_Runtime state)"
  by (auto simp: replacing_begun_def)

lemma begun_volume: "begun state' request h \<Longrightarrow> dataVolumeRequest input state' = dataVolumeRequest input state"
  by (frule begun_identity) (simp add: dataVolumeRequest_def runtime_identity_def)

lemma reserve_ends:
  assumes "safe guard h" and "old_released svc input state h" and "begun state' request h"
    and "RestoreRuntime (ros_Runtime state') = Inr old" and "Retire old observation = Inr retired"
  shows "wp (reserve_replacement svc cfg input state' promoted retired) ends h"
proof -
  note same = begun_identity [OF assms(3)]
  have step: "domain_step (ros_Runtime state') (cloneRuntimeSnapshot retired)"
    using domain_stepI [OF assms(4), of "CmdRetire observation"] assms(5) by simp
  have released: "old_released svc input state (log h (ReservedIdentity answer))" for answer
    using assms(2) by (simp add: old_released_log)
  have "retires_and_reserves input state promoted (rt_Version (ros_Runtime state')) (cloneRuntimeSnapshot retired)
      \<lparr>rres_ID = rid_RuntimeID identity, rres_EnvironmentID = rod_EnvironmentID input,
       rres_Sequence = rt_Sequence (ros_Runtime state') + 1,
       rres_RuntimePreset = rt_RuntimePreset (ros_Runtime state'), rres_Region = rt_Region (ros_Runtime state'),
       rres_AvailabilityZone = rt_AvailabilityZone (ros_Runtime state'), rres_ImageVersion = promoted,
       rres_CreatedAt = rid_CreatedAt identity\<rparr> (log h (ReservedIdentity answer))" for identity :: replacement_identity and answer
    using assms(3) step same domain_step_keeps(2) [OF step] Retire_fields [OF assms(5)]
    by (auto simp: retires_and_reserves_def persist_ok_def runtime_identity_def)
  note allowed = replace_allowed [OF released this]
  have same_id: "rt_ID (ros_Runtime state') = rt_ID (ros_Runtime state)"
    using same by (simp add: runtime_identity_def)
  have replaced: "old_released svc input state (log (log h (ReservedIdentity answer))
      (Replaced operationID owner version snapshot reservation made))" for answer operationID owner version snapshot reservation made
    using assms(2) by (auto intro!: lasting simp: stored_after_def)
  show ?thesis
    unfolding reserve_replacement_def Let_def
    by (intro replace_rules fail_ends ensure_ends replaced)
      (use assms(1,3) same_id in \<open>auto intro: allowed simp: stored_new_after_def\<close>)
qed

lemma retire_old_ends:
  assumes "safe guard h" and "old_verified input state request h" and "seen_terminated request h"
    and "begun state' request h"
  shows "wp (retire_old svc cfg input state' request promoted observed) ends h"
proof -
  have "spec_DataVolumeProviderID (lr_Spec request) \<noteq> []"
    using assms(4) request_volume by (auto simp: replacing_begun_def)
  note detached = seen_detached_now [OF detachment_reported [OF _ this]]
  have released: "old_released svc input state (log h (DetachmentWaited request (WaitEnded ())))"
    if "waitForOldDataVolumeDetachment cfg svc request h = WaitEnded ()"
    using assms(2,3) detached [OF that] by (auto simp: old_released_def intro!: lasting)
  have kept: "begun state' request (log h (DetachmentWaited request answer))" for answer
    using assms(4) by (simp add: replacing_begun_log)
  show ?thesis
    unfolding retire_old_def
    by (intro replace_rules fail_ends reserve_ends [where request = request and observation = "\<lparr>obs_ProviderInstanceRef = lr_ProviderID request,
          obs_ExpectedVersion = rt_Version (ros_Runtime state'), obs_ObservedAt = out_ObservedAt observed\<rparr>"])
      (use assms(1) released kept in auto)
qed

lemma retire_provider_ends:
  assumes "safe guard h" and "old_verified input state request h" and "begun state' request h"
    and "pr_State (out_Runtime observed) = RuntimeStateTerminated \<Longrightarrow> seen_terminated request h"
  shows "wp (retire_provider svc cfg input state' request promoted observed) ends h"
proof -
  have kept: "old_verified input state request (log h (Called (RetireRuntime request) answer))"
    "begun state' request (log h (Called (RetireRuntime request) answer))" for answer
    using assms(2,3) by (auto simp: stored_after_def intro!: lasting)
  have terminated: "seen_terminated request (log h' (Waited ''wait-runtime-retired'' request (WaitEnded outcome)))"
    if "pr_State (out_Runtime outcome) = RuntimeStateTerminated"
      "validateProviderRuntimeIdentity (out_Runtime outcome) request = None" for h' outcome
    using that by (auto simp: seen_terminated_def)
  show ?thesis
    unfolding retire_provider_def
    by (intro replace_rules fail_ends retire_old_ends)
      (use assms retire_allowed [OF assms(2)] kept terminated in \<open>auto intro: lasting\<close>)
qed

lemma compute_gone_terminated:
  assumes "compute_gone request observed h" and "pr_State (out_Runtime observed) = RuntimeStateTerminated"
    and "Waited ''wait-replacement-runtime-stopped'' request (WaitEnded observed) \<in> set h
      \<Longrightarrow> pr_State (out_Runtime observed) = RuntimeStateStopped"
  shows "seen_terminated request h"
  using assms by (auto simp: compute_gone_def seen_terminated_def)

lemma verify_ends:
  assumes "safe guard h" and "begun state' request h" and "compute_gone request observed h"
    and "ros_ComputeUsageIntervalID state' = ros_ComputeUsageIntervalID state"
    and "pr_State (out_Runtime observed) = RuntimeStateTerminated \<Longrightarrow> seen_terminated request h"
  shows "wp (verify_old svc cfg input state' request promoted running observed) ends h"
proof -
  let ?close = "Did (CloseComputeUsageInterval (ros_ComputeUsageIntervalID state) (out_ObservedAt observed)
      ComputeUsageClosedByProviderReconciliation)"
    and ?verify = "Did (VerifyRuntimeDataVolume (dataVolumeRequest input state))"
  have gone: "pr_State (out_Runtime observed) \<in> {RuntimeStateStopped, RuntimeStateTerminated}"
    using assms(3) by (simp add: compute_gone_def)
  have volume: "dataVolumeRequest input (state'\<lparr>ros_ComputeUsageIntervalID := []\<rparr>) = dataVolumeRequest input state"
    using begun_volume [OF assms(2)] by (simp add: dataVolumeRequest_def)
  have closed: "begun state' request (log h (?close answer))" for answer
    using assms(2) by (auto intro: lasting)
  have verified: "old_verified input state request (log h (?verify None))" if "ros_ComputeUsageIntervalID state = []"
    using that assms(2,3) unfolding old_verified_def by (auto intro: lasting)
  have closed_verified: "old_verified input state request (log (log h (?close None)) (?verify None))"
    using closed [of None] compute_gone_log [OF compute_gone_log [OF assms(3)]] unfolding old_verified_def
    by (auto intro: lasting)
  show ?thesis
    unfolding verify_old_def Let_def volume assms(4)
    by (intro replace_rules fail_ends retire_provider_ends)
      (use assms(1,2,5) closed [of None] gone verified closed_verified in \<open>auto simp: close_allowed intro: lasting\<close>)
qed

lemma await_stopped_ends:
  assumes "safe guard h" and "begun state' request h"
    and "ros_ComputeUsageIntervalID state' = ros_ComputeUsageIntervalID state"
  shows "wp (await_old_stopped svc cfg input state' request promoted running observed) ends h"
  unfolding await_old_stopped_def
  by (intro replace_rules fail_ends verify_ends) (use assms in \<open>auto simp: compute_gone_def intro: lasting\<close>)

lemma stop_old_ends:
  assumes "safe guard h" and "begun state' request h"
    and "ros_ComputeUsageIntervalID state' = ros_ComputeUsageIntervalID state"
    and "pr_State (out_Runtime observed) \<in> {RuntimeStateStopped, RuntimeStateTerminated}
      \<Longrightarrow> Called (ObserveRuntime request) (Inr observed) \<in> set h"
    and "validateProviderRuntimeIdentity (out_Runtime observed) request = None"
  shows "wp (stop_old svc cfg input state' request promoted running observed) ends h"
proof -
  have allowed: "guard h (Called (StopRuntime request) answer)" for answer
    using assms(2) by (intro stop_allowed) simp
  have kept: "begun state' request (log h (Called (StopRuntime request) answer))" for answer
    using assms(2) by (auto simp: stored_after_def intro: lasting)
  show ?thesis
    unfolding stop_old_def Let_def
    by (intro replace_rules fail_ends verify_ends await_stopped_ends)
      (use assms allowed kept in \<open>auto simp: compute_gone_def seen_terminated_def\<close>)
qed

lemma observe_old_ends:
  assumes "safe guard h" and "begun state' request h"
    and "ros_ComputeUsageIntervalID state' = ros_ComputeUsageIntervalID state"
  shows "wp (observe_old svc cfg input state' request promoted) ends h"
  unfolding observe_old_def observeRuntimeForReplacement_def Let_def
  by (intro replace_rules fail_ends stop_old_ends)
    (use assms in \<open>auto simp: providerDivergenceOutcome_def dest: identity_error intro!: replacing_begun_log\<close>)

lemma begin_ends:
  assumes "safe guard h" and "stored h = Some (ros_Runtime state)"
    and "runtimeLifecycleRequest state = Inr request"
  shows "wp (begin_replacement svc cfg input state request promoted) ends h"
proof -
  have persisted: "guard (log h (ReadTime place seen)) (Did (PersistRuntimeTransition (rod_OperationID input)
      (rt_Version (ros_Runtime state)) (cloneRuntimeSnapshot replacing)) answer)"
    "replacing_begun input state request (log (log (log h (ReadTime place seen))
       (Did (PersistRuntimeTransition (rod_OperationID input) (rt_Version (ros_Runtime state))
         (cloneRuntimeSnapshot replacing)) None))
       (Did (SuppressAutoStop (rod_EnvironmentID input) (rt_ID (ros_Runtime state))) None))"
    if "RestoreRuntime (ros_Runtime state) = Inr old" "BeginReplacement old at = Inr replacing"
    for old at replacing place seen answer
  proof -
    note step = domain_steps(6) [OF that]
    show "guard (log h (ReadTime place seen)) (Did (PersistRuntimeTransition (rod_OperationID input)
      (rt_Version (ros_Runtime state)) (cloneRuntimeSnapshot replacing)) answer)"
      using step assms(2) by (intro persist_allowed) (auto simp: persist_ok_def)
    show "replacing_begun input state request (log (log (log h (ReadTime place seen))
       (Did (PersistRuntimeTransition (rod_OperationID input) (rt_Version (ros_Runtime state))
         (cloneRuntimeSnapshot replacing)) None))
       (Did (SuppressAutoStop (rod_EnvironmentID input) (rt_ID (ros_Runtime state))) None))"
      using assms(3) BeginReplacement_status [OF that(2)] domain_step_keeps(2) [OF step]
      by (simp add: replacing_begun_def stored_after_def)
  qed
  show ?thesis
    unfolding begin_replacement_def
    by (intro replace_rules fail_ends observe_old_ends)
      (use assms(1) persisted in \<open>auto simp: stored_after_def\<close>)
qed

theorem fulfill_ends:
  assumes "safe guard h" and "stored h = Some (ros_Runtime state)"
  shows "wp (fulfillRuntimeReplacement svc cfg input state promoted) ends h"
  unfolding fulfillRuntimeReplacement_def
  by (intro replace_rules fail_ends begin_ends) (use assms in auto)

end

section \<open>The replacement Operation\<close>

definition replace_guard ::
  "services \<Rightarrow> runtime_operation_dispatch \<Rightarrow> runtime_operation_state \<Rightarrow> string \<Rightarrow> trace \<Rightarrow> event \<Rightarrow> bool" where
  "replace_guard svc input state promoted h e =
     (case e of
        Did (PersistRuntimeTransition operationID version snapshot) answer \<Rightarrow> persist_ok h version snapshot
      | Did (PersistReplacementRuntimeTransition operationID version snapshot) answer \<Rightarrow>
          new_persist_ok h version snapshot
      | Did (CompleteRuntimeOperation operationID at) answer \<Rightarrow>
          (\<exists>rt ready. replace_complete_ok svc input state rt ready h)
      | Called (StopRuntime request) answer \<Rightarrow> replacing_begun input state request h
      | Called (RetireRuntime request) answer \<Rightarrow> old_verified input state request h
      | Called (StartRuntime request) answer \<Rightarrow> False
      | Called (EnsureRuntime spec operationID) answer \<Rightarrow> ensure_ok svc input state spec h
      | Called (EnsureRuntimeDataVolumeAttachment request) answer \<Rightarrow> attach_ok svc input state request h
      | Replaced operationID owner version retired reservation answer \<Rightarrow>
          old_released svc input state h
          \<and> retires_and_reserves input state promoted version retired reservation h
      | _ \<Rightarrow> True)"

lemma neutral_replace_guard: "neutral_event e \<Longrightarrow> replace_guard svc input state promoted h e"
  by (auto simp: neutral_event_def replace_guard_def split: event.splits call.splits provider_call.splits)

interpretation replace: replacement_guard "replace_guard svc input state promoted" input svc state promoted
  for svc input state promoted
  by unfold_locales (auto simp: neutral_replace_guard, auto simp: replace_guard_def)

text \<open>The image the replacement is reserved on: the promoted image of the region, read after the load.\<close>

definition promoted_image :: "services \<Rightarrow> runtime_operation_state \<Rightarrow> string" where
  "promoted_image svc state =
     (case svc_image svc [Loaded (Inr state)] (rt_Region (ros_Runtime state)) of
        Inl err \<Rightarrow> [] | Inr promoted \<Rightarrow> promoted)"

abbreviation replace_run_guard ::
  "services \<Rightarrow> runtime_operation_dispatch \<Rightarrow> runtime_operation_state \<Rightarrow> trace \<Rightarrow> event \<Rightarrow> bool" where
  "replace_run_guard svc input state \<equiv> replace_guard svc input state (promoted_image svc state)"

lemma replace_guard_reads [simp]:
  "replace_guard svc input state promoted h (Loaded loaded)"
  "replace_guard svc input state promoted h (ReadImage region seen)"
  by (simp_all add: replace_guard_def)

lemma replace_Run_ends:
  assumes "replace_Run svc cfg key input [] = (r, h)"
  shows "(\<exists>err. r = Failed err) \<and> (\<forall>e \<in> set h. \<exists>answer. e = Loaded answer)
    \<or> (\<exists>state. svc_load svc [] = Inr state
         \<and> replace_end (replace_run_guard svc input state) svc input state r h)"
proof -
  have image: "promoted_image svc state = promoted"
    if "svc_image svc (log [] (Loaded (Inr state))) (rt_Region (ros_Runtime state)) = Inr promoted" for state promoted
    using that by (simp add: promoted_image_def log_def)
  have fails: "wp (failRuntimeReplacement svc input code message)
      (replace_end (replace_run_guard svc input state) svc input state) h"
    if "safe (replace_run_guard svc input state) h" for state code message h
    using that by (rule replace.fail_ends)
  have rest: "wp (fulfillRuntimeReplacement svc cfg input state promoted)
      (replace_end (replace_run_guard svc input state) svc input state)
      (log (log [] (Loaded (Inr state))) (ReadImage (rt_Region (ros_Runtime state)) (Inr promoted)))"
    if "svc_image svc (log [] (Loaded (Inr state))) (rt_Region (ros_Runtime state)) = Inr promoted" for state promoted
    unfolding image [OF that] by (intro replace.fulfill_ends) (simp_all add: stored_after_def)
  have "wp (replace_Run svc cfg key input) (\<lambda>r h. (\<exists>err. r = Failed err) \<and> (\<forall>e \<in> set h. \<exists>answer. e = Loaded answer)
      \<or> (\<exists>state. svc_load svc [] = Inr state
           \<and> replace_end (replace_run_guard svc input state) svc input state r h)) []"
    unfolding replace_Run_def
    by (intro wp_rules wp_mono [OF fails] wp_mono [OF rest]) auto
  with assms show ?thesis by (simp add: wp_def)
qed

lemma replace_Run_event:
  assumes "replace_Run svc cfg key input [] = (r, h)" and "h = earlier @ e # later" and "\<And>answer. e \<noteq> Loaded answer"
  shows "\<exists>state. svc_load svc [] = Inr state \<and> replace_run_guard svc input state earlier e"
proof -
  from replace_Run_ends [OF assms(1)] assms(2,3) obtain state
    where "svc_load svc [] = Inr state" "replace_end (replace_run_guard svc input state) svc input state r h"
    by auto
  then show ?thesis using assms(2) by (auto simp: replace_end_def safe_def)
qed

text \<open>
  C1. A replacement never lets two Runtimes write the data volume.  It stops the old Runtime only once it is
  stored as replacing with auto-stop suppressed, retires it only after it was observed stopped or terminated,
  its open compute usage was closed at that observation and its data volume was verified, and it allocates
  the new Runtime or attaches the volume to it only after the old one was seen terminated and the volume was
  reported detached, for exactly the Runtime the store holds as the replacement.
\<close>

theorem replacement_single_writer:
  assumes "replace_Run svc cfg key input [] = (r, h)" and "h = earlier @ Called c answer # later"
  shows "\<exists>state. svc_load svc [] = Inr state
    \<and> (case c of
         EnsureRuntime spec operationID \<Rightarrow> ensure_ok svc input state spec earlier
       | EnsureRuntimeDataVolumeAttachment request \<Rightarrow> attach_ok svc input state request earlier
       | StartRuntime request \<Rightarrow> False
       | StopRuntime request \<Rightarrow> replacing_begun input state request earlier
       | RetireRuntime request \<Rightarrow> old_verified input state request earlier
       | ObserveRuntime request \<Rightarrow> True)"
  using replace_Run_event [OF assms] by (cases c) (auto simp: replace_guard_def)

text \<open>
  C22. A replacement that returns has completed its Operation in its last step; before that the old Runtime was
  released, the new one is stored as ready at the reported address and boot, compute usage was opened for it,
  its guest reported the mounted data and was given its host identity, keys and configuration and passed the
  toolchain check, and auto-stop was resumed for it.
\<close>

theorem replacement_returns_ready:
  assumes "replace_Run svc cfg key input [] = (Returned out, h)"
  shows "\<exists>state earlier at rt ready. svc_load svc [] = Inr state
    \<and> h = earlier @ [Did (CompleteRuntimeOperation (rod_OperationID input) at) None]
    \<and> replace_complete_ok svc input state rt ready earlier
    \<and> out = \<lparr>rro_RetiredRuntimeID = rt_ID (ros_Runtime state), rro_ReplacementRuntimeID = rt_ID rt,
             rro_PrivateRoute = gready_PrivateIPv4 ready\<rparr>"
proof -
  from replace_Run_ends [OF assms] obtain state
    where "svc_load svc [] = Inr state" "replace_end (replace_run_guard svc input state) svc input state (Returned out) h"
    by auto
  then show ?thesis unfolding replace_end_def log_def by blast
qed

text \<open>
  The transaction that retires the old Runtime and reserves its replacement runs only after the old Runtime
  was released; it retires the stored Runtime by one domain command at its version and reserves the next
  sequence in the same placement on the promoted image.  No run of the workflow ends in a nil dereference.
\<close>

lemma replacement_retires_stored:
  assumes "replace_Run svc cfg key input [] = (r, h)"
    and "h = earlier @ Replaced operationID owner version retired reservation answer # later"
  shows "r \<noteq> Panicked \<and> (\<exists>state. svc_load svc [] = Inr state \<and> old_released svc input state earlier
    \<and> retires_and_reserves input state (promoted_image svc state) version retired reservation earlier)"
proof -
  from replace_Run_event [OF assms] have "\<exists>state. svc_load svc [] = Inr state \<and> old_released svc input state earlier
    \<and> retires_and_reserves input state (promoted_image svc state) version retired reservation earlier"
    by (simp add: replace_guard_def)
  moreover have "r \<noteq> Panicked"
    using replace_Run_ends [OF assms(1)] by (auto simp: replace_end_def)
  ultimately show ?thesis by blast
qed

section \<open>An example replacement\<close>

definition replacing_runtime :: runtime where
  "replacing_runtime =
     ready_runtime\<lparr>rt_Status := RuntimeReplacing, rt_PrivateAddress := None, rt_BootID := None,
       rt_UpdatedAt := sample_now, rt_Version := 5\<rparr>"

definition retired_runtime :: runtime where
  "retired_runtime =
     replacing_runtime\<lparr>rt_Status := RuntimeAbsent, rt_RetiredAt := Some sample_now, rt_Version := 6\<rparr>"

definition reserved_runtime :: runtime where
  "reserved_runtime =
     sample_runtime\<lparr>rt_ID := ''rt-2'', rt_Sequence := 2, rt_ImageVersion := ''v2'',
       rt_CreatedAt := sample_now, rt_UpdatedAt := sample_now\<rparr>"

definition provisioned_runtime :: runtime where
  "provisioned_runtime =
     reserved_runtime\<lparr>rt_Status := RuntimeProvisioning, rt_ProviderInstanceRef := Some ''i-2'', rt_Version := 2\<rparr>"

definition starting_runtime :: runtime where
  "starting_runtime =
     provisioned_runtime\<lparr>rt_Status := RuntimeStarting, rt_StartedAt := Some sample_now, rt_Version := 3\<rparr>"

definition served_runtime :: runtime where
  "served_runtime =
     starting_runtime\<lparr>rt_Status := RuntimeReady, rt_PrivateAddress := Some ''10.0.0.1'',
       rt_BootID := Some ''boot-2'', rt_Version := 4\<rparr>"

lemmas replaced_runtime_defs = served_runtime_def starting_runtime_def provisioned_runtime_def reserved_runtime_def
  retired_runtime_def replacing_runtime_def ready_runtime_def sample_runtime_def

lemma replaced_clones:
  "cloneRuntimeSnapshot replacing_runtime = replacing_runtime"
  "cloneRuntimeSnapshot retired_runtime = retired_runtime"
  "cloneRuntimeSnapshot reserved_runtime = reserved_runtime"
  "cloneRuntimeSnapshot provisioned_runtime = provisioned_runtime"
  "cloneRuntimeSnapshot starting_runtime = starting_runtime"
  "cloneRuntimeSnapshot served_runtime = served_runtime"
  by (simp_all add: replaced_runtime_defs cloneRuntimeSnapshot_def utc_def)

lemma replaced_restored:
  "RestoreRuntime replacing_runtime = Inr replacing_runtime"
  "RestoreRuntime reserved_runtime = Inr reserved_runtime"
  "RestoreRuntime provisioned_runtime = Inr provisioned_runtime"
  "RestoreRuntime starting_runtime = Inr starting_runtime"
  by (simp_all add: RestoreRuntime_Inr_iff replaced_clones)
    (simp_all add: runtime_valid_def replaced_runtime_defs runtime_eval)

lemma replaced_steps:
  "BeginReplacement ready_runtime sample_now = Inr replacing_runtime"
  "Retire replacing_runtime \<lparr>obs_ProviderInstanceRef = ''i-1'', obs_ExpectedVersion = 5,
     obs_ObservedAt = sample_now\<rparr> = Inr retired_runtime"
  "ReserveRuntime \<lparr>rres_ID = ''rt-2'', rres_EnvironmentID = ''env-1'', rres_Sequence = 2,
     rres_RuntimePreset = ''small'', rres_Region = ''eu'', rres_AvailabilityZone = ''eu-a'',
     rres_ImageVersion = ''v2'', rres_CreatedAt = sample_now\<rparr> = Inr reserved_runtime"
  "Provision reserved_runtime ''i-2'' sample_now = Inr provisioned_runtime"
  "BeginStart provisioned_runtime sample_now = Inr starting_runtime"
  "MarkReady starting_runtime \<lparr>ready_ProviderInstanceRef = ''i-2'', ready_BootID = ''boot-2'',
     ready_PrivateAddress = ''10.0.0.1'', ready_ExpectedVersion = 3, ready_ObservedAt = sample_now\<rparr>
   = Inr served_runtime"
  by (simp_all add: runtime_command_defs ReserveRuntime_def validateCurrentRuntimeObservation_def
      runtime_transition_def finalizeRuntimeTransition_def replaced_runtime_defs runtime_eval
      cloneRuntimeSnapshot_def utc_def max_int64_def)

lemma replaced_fields:
  "rt_Sequence replacing_runtime = 1" "rt_RuntimePreset replacing_runtime = ''small''"
  "rt_Region replacing_runtime = ''eu''" "rt_AvailabilityZone replacing_runtime = ''eu-a''"
  "rt_Version replacing_runtime = 5" "rt_ID replacing_runtime = ''rt-1''"
  "rt_ID reserved_runtime = ''rt-2''" "rt_EnvironmentID reserved_runtime = ''env-1''"
  "rt_Version reserved_runtime = 1" "rt_Version provisioned_runtime = 2" "rt_ID provisioned_runtime = ''rt-2''"
  "rt_Version starting_runtime = 3" "rt_ID starting_runtime = ''rt-2''" "rt_ID served_runtime = ''rt-2''"
  "rt_ID ready_runtime = ''rt-1''" "rt_EnvironmentID ready_runtime = ''env-1''"
  "rt_ProviderInstanceRef ready_runtime = Some ''i-1''" "rt_Region ready_runtime = ''eu''"
  by (simp_all add: replaced_runtime_defs)

lemma sample_waits:
  "waitForOldDataVolumeDetachment sample_workflow_config (sample_services seen state promoted) request h = WaitEnded ()"
  "gr_PrivateIPv4 guest = ''10.0.0.1''
   \<Longrightarrow> waitForRuntimeGuestReadiness sample_workflow_config (sample_services seen state promoted) guest h
     = WaitEnded \<lparr>gready_BootID = ''boot-2'', gready_PrivateIPv4 = ''10.0.0.1'', gready_DataMounted = True\<rparr>"
  by (simp_all add: waitForOldDataVolumeDetachment_def waitForRuntimeGuestReadiness_def durableDeadlinePoll_def
      sample_services_def sample_workflow_config_def provider_poll_config_def or_default_def Let_def
      defaultProviderPollInterval_def defaultProviderPollTimeout_def poll_round_def take_read_def
      attachment_journal_def readiness_journal_def evaluate_detachment_def evaluate_readiness_def
      zero_attachment_def zero_readiness_def time_add_def go_time zero_time_def)

lemma sample_config_fields:
  "wc_fuel sample_workflow_config = 1" "wc_ProviderPollInterval sample_workflow_config = 0"
  "wc_ProviderPollTimeout sample_workflow_config = 0" "wc_ReplaceActions sample_workflow_config"
  "wc_Attachments sample_workflow_config" "wc_HostIdentity sample_workflow_config"
  "wc_Managed sample_workflow_config" "wc_Toolchain sample_workflow_config"
  by (simp_all add: sample_workflow_config_def)

lemma sample_store_fields:
  "svc_replace (sample_services seen state promoted) h operationID owner version retired reservation
   = (case ReserveRuntime reservation of Inl err \<Rightarrow> Inl [] | Inr rt \<Rightarrow> Inr (cloneRuntimeSnapshot rt))"
  "svc_open_usage (sample_services seen state promoted) h usage = Inr \<lparr>cui_ID = ou_ID usage,
     cui_UserID = ou_UserID usage, cui_EnvironmentID = ou_EnvironmentID usage, cui_RuntimeID = ou_RuntimeID usage\<rparr>"
  by (simp_all add: sample_services_def)

lemmas replace_defs = replace_Run_def fulfillRuntimeReplacement_def begin_replacement_def observe_old_def
  observeRuntimeForReplacement_def stop_old_def await_old_stopped_def verify_old_def retire_provider_def
  retire_old_def reserve_replacement_def ensure_replacement_def provision_replacement_def attach_replacement_def
  start_replacement_def open_replacement_usage_def await_replacement_running_def await_replacement_guest_def
  reconcile_replacement_def ready_replacement_def finish_replacement_def wait_state_def durableWorkflowTime_def
  persistReplacementRuntimeTransition_def restored_or_zero_def validateAttachedProviderRuntime_def

lemmas replace_eval = replace_defs workflow_eval ready_runtime_restored replaced_clones replaced_restored
  replaced_steps replaced_fields sample_waits sample_store_fields sample_config_fields go_time

abbreviation sample_replace :: "runtime_replace_output outcome \<times> trace" where
  "sample_replace \<equiv> replace_Run (sample_services RuntimeStateRunning (sample_operation_state ready_runtime) ''v2'')
     sample_workflow_config ''op-1'' (sample_dispatch OperationRuntimeReplace) []"

lemma sample_replace_returns:
  "\<exists>out h request version reservation answer. sample_replace = (Returned out, h)
     \<and> Called (EnsureRuntimeDataVolumeAttachment request) answer \<in> set h
     \<and> Replaced ''op-1'' ''user-1'' version retired_runtime reservation (Inr reserved_runtime) \<in> set h"
  by (simp add: replace_eval replacement_spec_def)

theorem replacement_single_writer_witness:
  "\<exists>svc input state request earlier. attach_ok svc input state request earlier
     \<and> state = sample_operation_state ready_runtime"
proof -
  from sample_replace_returns obtain out h request answer
    where run: "sample_replace = (Returned out, h)"
      "Called (EnsureRuntimeDataVolumeAttachment request) answer \<in> set h" by blast
  from split_list [OF run(2)] obtain earlier later
    where "h = earlier @ Called (EnsureRuntimeDataVolumeAttachment request) answer # later" by blast
  from replacement_single_writer [OF run(1) this] show ?thesis
    by (auto simp: sample_services_fields)
qed

theorem replacement_returns_ready_witness:
  "\<exists>svc earlier rt ready. replace_complete_ok svc (sample_dispatch OperationRuntimeReplace)
     (sample_operation_state ready_runtime) rt ready earlier"
proof -
  from sample_replace_returns obtain out h where run: "sample_replace = (Returned out, h)" by blast
  from replacement_returns_ready [OF run] show ?thesis by (auto simp: sample_services_fields)
qed

end
