(* ===== verification/Runtime_Start.thy ===== *)
theory Runtime_Start
  imports Runtime_Replace
begin

text \<open>
  \<open>apps/workflows/runtime_start.go\<close>: the workflow that starts a stopped Runtime.  The body of \<open>Run\<close> is cut
  at its phases: the Runtime is observed stopped and stale usage closed; the data volume, the credit balance
  and the promoted image are checked; a Runtime on another image is replaced; otherwise it is started, billed,
  waited for, reconciled and marked ready.
\<close>

record runtime_start_output =
  rsto_RuntimeID :: string
  rsto_PrivateRoute :: string

definition RuntimeStartFailed :: string where
  "RuntimeStartFailed = ''RUNTIME_START_FAILED''"

definition CreditsPolicyBlocked :: string where
  "CreditsPolicyBlocked = ''CREDITS_POLICY_BLOCKED''"

abbreviation start_failed ::
  "services \<Rightarrow> runtime_operation_dispatch \<Rightarrow> failure_message \<Rightarrow> 'a workflow" where
  "start_failed svc input \<equiv> failRuntimeOperation svc (rod_OperationID input) RuntimeStartFailed"

abbreviation start_error ::
  "services \<Rightarrow> runtime_operation_dispatch \<Rightarrow> runtime_operation_state \<Rightarrow> failure_message \<Rightarrow> 'a workflow" where
  "start_error svc input state \<equiv>
     markRuntimeErrorAndFail svc (rod_OperationID input) (ros_Runtime state) RuntimeStartFailed"

abbreviation start_outcome_failed ::
  "services \<Rightarrow> runtime_operation_dispatch \<Rightarrow> runtime_operation_state \<Rightarrow> provider_outcome \<Rightarrow> 'a workflow" where
  "start_outcome_failed svc input state outcome \<equiv>
     failRuntimeOperationForProviderOutcome svc (rod_OperationID input) (ros_Runtime state)
       (ros_ComputeUsageIntervalID state) outcome RuntimeStartFailed ComputeUsageClosedByProviderReconciliation"

text \<open>The end of a start: the Runtime is marked ready, auto-stop resumed and the Operation completed.\<close>

definition finish_start ::
  "services \<Rightarrow> runtime_operation_dispatch \<Rightarrow> guest_readiness \<Rightarrow> runtime_start_output workflow" where
  "finish_start svc input ready =
     do_step svc (ResumeAutoStop (rod_EnvironmentID input) (rod_RuntimeID input))
       (\<lambda>err. start_failed svc input (Text err))
     (completeRuntimeOperation svc (rod_OperationID input) (\<lambda>err. start_failed svc input (Text err))
     (return \<lparr>rsto_RuntimeID = rod_RuntimeID input, rsto_PrivateRoute = gready_PrivateIPv4 ready\<rparr>))"

definition mark_started_ready ::
  "services \<Rightarrow> runtime_operation_dispatch \<Rightarrow> runtime_operation_state \<Rightarrow> lifecycle_request \<Rightarrow> guest_readiness
   \<Rightarrow> runtime_start_output workflow" where
  "mark_started_ready svc input state request ready =
     (case RestoreRuntime (ros_Runtime state) of
        Inl err \<Rightarrow> start_failed svc input (RuntimeFailure err)
      | Inr rt \<Rightarrow>
          read_now svc ''mark-runtime-ready'' (\<lambda>now.
          case MarkReady rt
                 \<lparr>ready_ProviderInstanceRef = lr_ProviderID request, ready_BootID = gready_BootID ready,
                  ready_PrivateAddress = gready_PrivateIPv4 ready,
                  ready_ExpectedVersion = rt_Version (ros_Runtime state), ready_ObservedAt = now\<rparr> of
            Inl err \<Rightarrow> start_failed svc input (RuntimeFailure err)
          | Inr markedReady \<Rightarrow>
              persistRuntimeTransition svc (rod_OperationID input) (ros_Runtime state) markedReady
                (\<lambda>err. start_failed svc input (Text err)) (\<lambda>_. finish_start svc input ready)))"

definition await_started_guest ::
  "services \<Rightarrow> runtime_operation_dispatch \<Rightarrow> runtime_operation_state \<Rightarrow> lifecycle_request \<Rightarrow> provider_outcome
   \<Rightarrow> runtime_start_output workflow" where
  "await_started_guest svc input state request running =
     (let guestRequest = \<lparr>gr_OwnerUserID = rod_OwnerUserID input, gr_EnvironmentID = rod_EnvironmentID input,
            gr_RuntimeID = rod_RuntimeID input, gr_ProviderID = lr_ProviderID request,
            gr_PrivateIPv4 = pr_PrivateIPv4 (out_Runtime running)\<rparr>;
          notReady = markRuntimeErrorAndFail svc (rod_OperationID input) (ros_Runtime state) GuestNotReady
      in ask (\<lambda>h. svc_ready svc h guestRequest)
           (\<lambda>answer. GuestReady guestRequest
              (case answer of Inl err \<Rightarrow> WaitFailed (Text err) | Inr ready \<Rightarrow> WaitEnded ready))
           (\<lambda>err. notReady (Text err)) (\<lambda>ready.
         if \<not> gready_DataMounted ready \<or> gready_BootID ready = [] \<or> gready_PrivateIPv4 ready = []
            \<or> gready_PrivateIPv4 ready \<noteq> pr_PrivateIPv4 (out_Runtime running)
         then notReady (Text ''current boot and mounted data are required'')
         else
           let guestRequest = guestRequest\<lparr>gr_PrivateIPv4 := gready_PrivateIPv4 ready\<rparr> in
           do_step svc (ReconcileRuntimeSSHKeys guestRequest) (\<lambda>err. start_error svc input state (Text err))
           (do_step svc (ReconcileRuntimeManagedConfiguration guestRequest)
              (\<lambda>err. start_error svc input state (Text err))
           (mark_started_ready svc input state request ready))))"

definition await_started_running ::
  "services \<Rightarrow> workflow_config \<Rightarrow> runtime_operation_dispatch \<Rightarrow> runtime_operation_state \<Rightarrow> lifecycle_request
   \<Rightarrow> provider_outcome \<Rightarrow> runtime_start_output workflow" where
  "await_started_running svc cfg input state request started =
     wait_state cfg svc request started RuntimeStateRunning [RuntimeStatePending] ''wait-runtime-running''
       (\<lambda>err. fail (StepFailed (PollFailure err))) (\<lambda>running.
     if out_Failure running \<noteq> Text [] then start_outcome_failed svc input state running
     else await_started_guest svc input state request running)"

definition open_started_usage ::
  "services \<Rightarrow> workflow_config \<Rightarrow> runtime_operation_dispatch \<Rightarrow> runtime_operation_state \<Rightarrow> lifecycle_request
   \<Rightarrow> provider_outcome \<Rightarrow> runtime_start_output workflow" where
  "open_started_usage svc cfg input state request started =
     ask (\<lambda>h. svc_new_id svc h ''reserve-compute-usage-identity'') (ReservedID ''reserve-compute-usage-identity'')
       (\<lambda>err. start_error svc input state (Text err)) (\<lambda>usageID.
     let usage = \<lparr>ou_ID = usageID, ou_UserID = rod_OwnerUserID input, ou_EnvironmentID = rod_EnvironmentID input,
                  ou_RuntimeID = rod_RuntimeID input, ou_StartedAt = out_ObservedAt started\<rparr>
     in ask (\<lambda>h. svc_open_usage svc h usage) (OpenedUsage usage)
          (\<lambda>err. start_error svc input state (Text err)) (\<lambda>interval.
        if cui_UserID interval \<noteq> rod_OwnerUserID input \<or> cui_EnvironmentID interval \<noteq> rod_EnvironmentID input
           \<or> cui_RuntimeID interval \<noteq> rod_RuntimeID input
        then start_error svc input state (Text ''Compute Usage Interval ownership diverged'')
        else await_started_running svc cfg input (state\<lparr>ros_ComputeUsageIntervalID := cui_ID interval\<rparr>) request
               started))"

definition start_provider ::
  "services \<Rightarrow> workflow_config \<Rightarrow> runtime_operation_dispatch \<Rightarrow> runtime_operation_state \<Rightarrow> lifecycle_request
   \<Rightarrow> runtime_start_output workflow" where
  "start_provider svc cfg input state request =
     call_provider svc (StartRuntime request) (\<lambda>err. fail (StepFailed (Text err))) (\<lambda>started.
     if out_Failure started \<noteq> Text [] then start_outcome_failed svc input state started
     else case validateProviderRuntimeIdentity (out_Runtime started) request of
       Some err \<Rightarrow> markRuntimeProviderFailure svc (rod_OperationID input) (ros_Runtime state)
                     (providerDivergenceOutcome err)
     | None \<Rightarrow>
         (let seen = pr_State (out_Runtime started) in
          if seen \<noteq> RuntimeStatePending \<and> seen \<noteq> RuntimeStateRunning
          then start_outcome_failed svc input state
                 (providerStateDivergenceOutcome started
                    (StateDiverged seen [RuntimeStatePending, RuntimeStateRunning]))
          else open_started_usage svc cfg input state request started))"

definition begin_start ::
  "services \<Rightarrow> workflow_config \<Rightarrow> runtime_operation_dispatch \<Rightarrow> runtime_operation_state \<Rightarrow> lifecycle_request
   \<Rightarrow> runtime_start_output workflow" where
  "begin_start svc cfg input state request =
     (case RestoreRuntime (ros_Runtime state) of
        Inl err \<Rightarrow> start_failed svc input (RuntimeFailure err)
      | Inr rt \<Rightarrow>
          read_now svc ''begin-runtime-start'' (\<lambda>now.
          case BeginStart rt now of
            Inl err \<Rightarrow> start_failed svc input (RuntimeFailure err)
          | Inr starting \<Rightarrow>
              persistRuntimeTransition svc (rod_OperationID input) (ros_Runtime state) starting
                (\<lambda>err. start_failed svc input (Text err))
                (\<lambda>nxt. start_provider svc cfg input (state\<lparr>ros_Runtime := nxt\<rparr>) request)))"

text \<open>A workflow whose value is converted: the other outcomes stay.\<close>

definition then_return :: "('a \<Rightarrow> 'b) \<Rightarrow> 'a workflow \<Rightarrow> 'b workflow" where
  "then_return f m h = (case m h of (r, h') \<Rightarrow> (map_outcome f r, h'))"

definition decide_start ::
  "services \<Rightarrow> workflow_config \<Rightarrow> runtime_operation_dispatch \<Rightarrow> runtime_operation_state \<Rightarrow> lifecycle_request
   \<Rightarrow> string \<Rightarrow> runtime_start_output workflow" where
  "decide_start svc cfg input state request promoted =
     (if promoted \<noteq> rt_ImageVersion (ros_Runtime state)
      then do_step svc (RecordRuntimeStartDecision (rod_OperationID input) ''replace'' promoted)
             (\<lambda>err. start_failed svc input (Text err))
           (then_return (\<lambda>output. \<lparr>rsto_RuntimeID = rro_ReplacementRuntimeID output,
                                   rsto_PrivateRoute = rro_PrivateRoute output\<rparr>)
              (fulfillRuntimeReplacement svc cfg input state promoted))
      else do_step svc (RecordRuntimeStartDecision (rod_OperationID input) ''start'' promoted)
             (\<lambda>err. start_failed svc input (Text err))
           (begin_start svc cfg input state request))"

text \<open>The data volume, the credit balance and the promoted image are checked.\<close>

definition admit_start ::
  "services \<Rightarrow> workflow_config \<Rightarrow> runtime_operation_dispatch \<Rightarrow> runtime_operation_state \<Rightarrow> lifecycle_request
   \<Rightarrow> runtime_start_output workflow" where
  "admit_start svc cfg input state request =
     do_step svc (VerifyRuntimeDataVolume (dataVolumeRequest input state))
       (\<lambda>err. start_failed svc input (Text err))
     (ask (\<lambda>h. svc_balance svc h (rod_OwnerUserID input)) (ReadBalance (rod_OwnerUserID input))
        (\<lambda>err. start_failed svc input (Text err)) (\<lambda>balance.
      if fst balance \<noteq> rod_OwnerUserID input
      then start_failed svc input (Text ''Credit Balance belongs to another User'')
      else if sint (snd balance) \<le> 0
      then failRuntimeOperation svc (rod_OperationID input) CreditsPolicyBlocked
             (Text ''Credit Balance must be positive to start a Runtime'')
      else
        ask (\<lambda>h. svc_image svc h (rt_Region (ros_Runtime state))) (ReadImage (rt_Region (ros_Runtime state)))
          (\<lambda>err. start_failed svc input (Text err)) (\<lambda>promoted.
        if promoted = [] then start_failed svc input (Text ''promoted image is required'')
        else decide_start svc cfg input state request promoted)))"

definition verify_stopped ::
  "services \<Rightarrow> workflow_config \<Rightarrow> runtime_operation_dispatch \<Rightarrow> runtime_operation_state \<Rightarrow> lifecycle_request
   \<Rightarrow> runtime_start_output workflow" where
  "verify_stopped svc cfg input state request =
     call_provider svc (ObserveRuntime request) (\<lambda>err. fail (StepFailed (Text err))) (\<lambda>observed.
     if out_Failure observed \<noteq> Text [] then start_outcome_failed svc input state observed
     else case validateProviderRuntimeIdentity (out_Runtime observed) request of
       Some err \<Rightarrow> markRuntimeProviderFailure svc (rod_OperationID input) (ros_Runtime state)
                     (providerDivergenceOutcome err)
     | None \<Rightarrow>
         (let seen = pr_State (out_Runtime observed) in
          if seen \<noteq> RuntimeStateStopped
          then start_outcome_failed svc input state
                 (providerStateDivergenceOutcome observed (StateDiverged seen [RuntimeStateStopped]))
          else closeComputeUsageForProviderOutcome svc (ros_ComputeUsageIntervalID state) observed
                 ComputeUsageClosedByProviderReconciliation (\<lambda>err. start_error svc input state err)
               (admit_start svc cfg input (state\<lparr>ros_ComputeUsageIntervalID := []\<rparr>) request)))"

definition start_loaded ::
  "services \<Rightarrow> workflow_config \<Rightarrow> runtime_operation_dispatch \<Rightarrow> runtime_operation_state
   \<Rightarrow> runtime_start_output workflow" where
  "start_loaded svc cfg input state =
     (case validateRuntimeOperationInput input OperationRuntimeStart state of
        Some err \<Rightarrow> start_failed svc input err
      | None \<Rightarrow>
          (let status = rt_Status (ros_Runtime state) in
           if status = RuntimeReady
           then completeRuntimeOperation svc (rod_OperationID input) (\<lambda>err. start_failed svc input (Text err))
                  (case rt_PrivateAddress (ros_Runtime state) of
                     None \<Rightarrow> panic
                   | Some address \<Rightarrow> return \<lparr>rsto_RuntimeID = rod_RuntimeID input, rsto_PrivateRoute = address\<rparr>)
           else if status \<noteq> RuntimeStopped
           then start_failed svc input (StatusUnexpected status [RuntimeStopped])
           else if \<not> wc_Managed cfg
           then start_failed svc input (Text ''managed configuration reconciler is required'')
           else case runtimeLifecycleRequest state of
             Inl err \<Rightarrow> start_failed svc input err
           | Inr request \<Rightarrow> verify_stopped svc cfg input state request))"

definition start_Run ::
  "services \<Rightarrow> workflow_config \<Rightarrow> string \<Rightarrow> runtime_operation_dispatch \<Rightarrow> runtime_start_output workflow" where
  "start_Run svc cfg key input =
     (if key \<noteq> rod_OperationID input then fail WorkflowKeyMismatch
      else ask (svc_load svc) Loaded (\<lambda>err. fail (StepFailed (Text err)))
             (\<lambda>state. start_loaded svc cfg input state))"

end
