(* ===== verification/Start_Safety.thy ===== *)
theory Start_Safety
  imports Replacement_Safety Runtime_Start
begin

text \<open>
  What the start of a Runtime guarantees: what must hold before compute is started or allocated, and what a
  start that returns has done.  A start on another image runs the replacement, whose guard this theory
  interprets for the journal of the start.
\<close>

section \<open>Workflows only append to the journal\<close>

definition extends :: "'a workflow \<Rightarrow> bool" where
  "extends m \<longleftrightarrow> (\<forall>h. \<exists>rest. snd (m h) = h @ rest)"

named_theorems extends_rules

lemma extends_step: "extends m \<Longrightarrow> \<exists>rest. snd (m (log h e)) = h @ rest"
  unfolding extends_def log_def by (metis append.assoc)

lemma extends_primitive [extends_rules]:
  "extends (return x)" "extends (fail err)" "extends panic"
  by (simp_all add: extends_def return_def fail_def panic_def)

lemma extends_do_step [extends_rules]:
  "(\<And>err. extends (onError err)) \<Longrightarrow> extends continue \<Longrightarrow> extends (do_step svc c onError continue)"
  unfolding extends_def [of "do_step svc c onError continue"] do_step_def
  by (auto split: option.split intro: extends_step)

lemma extends_ask [extends_rules]:
  "(\<And>err. extends (onError err)) \<Longrightarrow> (\<And>answer. extends (continue answer))
   \<Longrightarrow> extends (ask source event onError continue)"
  unfolding extends_def [of "ask source event onError continue"] ask_def
  by (auto split: sum.split intro: extends_step)

lemma extends_wait [extends_rules]:
  "(\<And>err. extends (onError err)) \<Longrightarrow> (\<And>answer. extends (continue answer))
   \<Longrightarrow> extends (wait source event onError continue)"
  unfolding extends_def [of "wait source event onError continue"] wait_def
  by (auto split: waited.split intro: extends_step) (simp add: log_def)

lemma extends_read_now [extends_rules]: "(\<And>at. extends (continue at)) \<Longrightarrow> extends (read_now svc place continue)"
  by (simp add: extends_def read_now_def)

lemma extends_if [extends_rules]: "extends m \<Longrightarrow> extends n \<Longrightarrow> extends (if b then m else n)"
  by simp

lemma extends_cases [extends_rules]:
  "extends m \<Longrightarrow> (\<And>x. extends (n x)) \<Longrightarrow> extends (case v of None \<Rightarrow> m | Some x \<Rightarrow> n x)"
  "(\<And>x. extends (m' x)) \<Longrightarrow> (\<And>x. extends (n' x)) \<Longrightarrow> extends (case w of Inl x \<Rightarrow> m' x | Inr x \<Rightarrow> n' x)"
  by (simp_all split: option.split sum.split)

lemmas failure_defs = failRuntimeOperation_def failRuntimeReplacement_def closeComputeUsageForProviderOutcome_def
  completeRuntimeOperation_def persistRuntimeTransition_def call_provider_def

lemma extends_failures [extends_rules]:
  "extends (failRuntimeReplacement svc input code message)"
  "extends (failReplacementRuntimeAndOperation svc input current code message)"
proof -
  show fails: "extends (failRuntimeReplacement svc input code message)" for code message
    unfolding failure_defs Let_def by (intro extends_rules)
  show "extends (failReplacementRuntimeAndOperation svc input current code message)"
    unfolding failReplacementRuntimeAndOperation_def prod.case persistReplacementRuntimeTransition_def
      durableWorkflowTime_def Let_def
    by (auto split: sum.split option.split intro!: fails extends_rules)
qed

lemma extends_replacement: "extends (fulfillRuntimeReplacement svc cfg input state promoted)"
  unfolding replace_defs failure_defs Let_def by (intro extends_rules)

lemma wp_extends:
  assumes "extends m" and "wp m Q h"
  shows "wp m (\<lambda>r h'. Q r h' \<and> (\<exists>rest. h' = h @ rest)) h"
proof (cases "m h")
  case (Pair r h')
  moreover from assms(1) obtain rest where "snd (m h) = h @ rest" by (auto simp: extends_def)
  ultimately show ?thesis using assms(2) by (simp add: wp_def)
qed

lemma wp_then_return: "wp m (\<lambda>r. Q (map_outcome f r)) h \<Longrightarrow> wp (then_return f m) Q h"
  by (simp add: wp_def then_return_def split: prod.splits)

section \<open>What the workflow may do\<close>

text \<open>
  A start is admitted when the provider shows the Runtime stopped, stale compute usage was closed at that
  observation, the data volume was verified and the balance of the owner is positive.
\<close>

definition start_observed :: "runtime_operation_state \<Rightarrow> trace \<Rightarrow> bool" where
  "start_observed state h \<longleftrightarrow>
     (\<exists>request outcome. runtimeLifecycleRequest state = Inr request
        \<and> Called (ObserveRuntime request) (Inr outcome) \<in> set h
        \<and> pr_State (out_Runtime outcome) = RuntimeStateStopped
        \<and> validateProviderRuntimeIdentity (out_Runtime outcome) request = None
        \<and> (ros_ComputeUsageIntervalID state \<noteq> [] \<longrightarrow>
             Did (CloseComputeUsageInterval (ros_ComputeUsageIntervalID state) (out_ObservedAt outcome)
               ComputeUsageClosedByProviderReconciliation) None \<in> set h))"

definition start_admitted ::
  "runtime_operation_dispatch \<Rightarrow> runtime_operation_state \<Rightarrow> trace \<Rightarrow> bool" where
  "start_admitted input state h \<longleftrightarrow>
     start_observed state h
     \<and> Did (VerifyRuntimeDataVolume (dataVolumeRequest input state)) None \<in> set h
     \<and> (\<exists>credits. ReadBalance (rod_OwnerUserID input) (Inr (rod_OwnerUserID input, credits)) \<in> set h
          \<and> 0 < sint credits)"

definition start_decided ::
  "runtime_operation_dispatch \<Rightarrow> runtime_operation_state \<Rightarrow> string \<Rightarrow> string \<Rightarrow> trace \<Rightarrow> bool" where
  "start_decided input state decision promoted h \<longleftrightarrow>
     start_admitted input state h
     \<and> ReadImage (rt_Region (ros_Runtime state)) (Inr promoted) \<in> set h
     \<and> Did (RecordRuntimeStartDecision (rod_OperationID input) decision promoted) None \<in> set h
     \<and> decision = (if promoted = rt_ImageVersion (ros_Runtime state) then ''start'' else ''replace'')"

definition start_call_ok ::
  "runtime_operation_dispatch \<Rightarrow> runtime_operation_state \<Rightarrow> lifecycle_request \<Rightarrow> trace \<Rightarrow> bool" where
  "start_call_ok input state request h \<longleftrightarrow>
     runtimeLifecycleRequest state = Inr request
     \<and> start_decided input state ''start'' (rt_ImageVersion (ros_Runtime state)) h
     \<and> (\<exists>rt. stored h = Some rt \<and> rt_Status rt = RuntimeStarting
          \<and> runtime_identity rt = runtime_identity (ros_Runtime state))"

definition started_running :: "lifecycle_request \<Rightarrow> trace \<Rightarrow> bool" where
  "started_running request h \<longleftrightarrow>
     (\<exists>answer. Called (StartRuntime request) answer \<in> set h)
     \<and> (\<exists>running. Waited ''wait-runtime-running'' request (WaitEnded running) \<in> set h
          \<and> pr_State (out_Runtime running) = RuntimeStateRunning
          \<and> validateProviderRuntimeIdentity (out_Runtime running) request = None)"

definition started_guest ::
  "runtime_operation_dispatch \<Rightarrow> guest_readiness \<Rightarrow> trace \<Rightarrow> bool" where
  "started_guest input ready h \<longleftrightarrow>
     (\<exists>guest. guest_mounted (rod_RuntimeID input) guest ready h
        \<and> Did (ReconcileRuntimeSSHKeys guest) None \<in> set h
        \<and> Did (ReconcileRuntimeManagedConfiguration guest) None \<in> set h)"

definition start_served ::
  "runtime_operation_dispatch \<Rightarrow> runtime_operation_state \<Rightarrow> lifecycle_request \<Rightarrow> trace \<Rightarrow> bool" where
  "start_served input state request h \<longleftrightarrow>
     runtimeLifecycleRequest state = Inr request
     \<and> start_decided input state ''start'' (rt_ImageVersion (ros_Runtime state)) h
     \<and> started_running request h \<and> usage_opened input (rod_RuntimeID input) h"

definition start_complete_ok ::
  "runtime_operation_dispatch \<Rightarrow> runtime_operation_state \<Rightarrow> guest_readiness \<Rightarrow> trace \<Rightarrow> bool" where
  "start_complete_ok input state ready h \<longleftrightarrow>
     (\<exists>request. start_served input state request h) \<and> started_guest input ready h
     \<and> Did (ResumeAutoStop (rod_EnvironmentID input) (rod_RuntimeID input)) None \<in> set h
     \<and> (\<exists>rt. stored h = Some rt \<and> rt_Status rt = RuntimeReady
          \<and> runtime_identity rt = runtime_identity (ros_Runtime state)
          \<and> rt_PrivateAddress rt = Some (gready_PrivateIPv4 ready) \<and> rt_BootID rt = Some (gready_BootID ready))"

text \<open>The state the replacement is given: the stale usage interval is closed and forgotten.\<close>

abbreviation settled_usage :: "runtime_operation_state \<Rightarrow> runtime_operation_state" where
  "settled_usage state \<equiv> state\<lparr>ros_ComputeUsageIntervalID := []\<rparr>"

definition start_replaces :: "runtime_operation_dispatch \<Rightarrow> runtime_operation_state \<Rightarrow> string \<Rightarrow> trace \<Rightarrow> bool" where
  "start_replaces input state promoted h \<longleftrightarrow> start_decided input state ''replace'' promoted h"

definition start_guard ::
  "services \<Rightarrow> runtime_operation_dispatch \<Rightarrow> runtime_operation_state \<Rightarrow> trace \<Rightarrow> event \<Rightarrow> bool" where
  "start_guard svc input state h e =
     (case e of
        Did (PersistRuntimeTransition operationID version snapshot) answer \<Rightarrow> persist_ok h version snapshot
      | Did (PersistReplacementRuntimeTransition operationID version snapshot) answer \<Rightarrow>
          new_persist_ok h version snapshot
      | Did (CompleteRuntimeOperation operationID at) answer \<Rightarrow>
          rt_Status (ros_Runtime state) = RuntimeReady
          \<or> (\<exists>ready. start_complete_ok input state ready h)
          \<or> (\<exists>promoted rt ready. start_replaces input state promoted h
               \<and> replace_complete_ok svc input (settled_usage state) rt ready h)
      | Called (StartRuntime request) answer \<Rightarrow> start_call_ok input state request h
      | Called (StopRuntime request) answer \<Rightarrow> replacing_begun input (settled_usage state) request h
      | Called (RetireRuntime request) answer \<Rightarrow> old_verified input (settled_usage state) request h
      | Called (EnsureRuntime spec operationID) answer \<Rightarrow>
          (\<exists>promoted. start_replaces input state promoted h) \<and> ensure_ok svc input (settled_usage state) spec h
      | Called (EnsureRuntimeDataVolumeAttachment request) answer \<Rightarrow>
          (\<exists>promoted. start_replaces input state promoted h) \<and> attach_ok svc input (settled_usage state) request h
      | Replaced operationID owner version retired reservation answer \<Rightarrow>
          old_released svc input (settled_usage state) h
          \<and> (\<exists>promoted. start_replaces input state promoted h
               \<and> retires_and_reserves input (settled_usage state) promoted version retired reservation h)
      | _ \<Rightarrow> True)"

interpretation start: workflow_guard "start_guard svc input state" "rod_OperationID input" for svc input state
  by unfold_locales (simp_all add: start_guard_def)

lemma start_guard_neutral [simp]: "neutral_event e \<Longrightarrow> start_guard svc input state h e"
  by (auto simp: neutral_event_def start_guard_def split: event.splits call.splits provider_call.splits)

lemma start_guard_reads [simp]:
  "start_guard svc input state h (Loaded loaded)" "start_guard svc input state h (ReadImage region seen)"
  "start_guard svc input state h (ReadBalance owner balance)"
  "start_guard svc input state h (Did (RecordRuntimeStartDecision operationID decision promoted) recorded)"
  by (simp_all add: start_guard_def)

section \<open>Facts that last\<close>

lemma start_observed_log [lasting]: "start_observed state h \<Longrightarrow> start_observed state (log h e)"
  unfolding start_observed_def by auto

lemma start_admitted_log [lasting]: "start_admitted input state h \<Longrightarrow> start_admitted input state (log h e)"
  by (auto simp: start_admitted_def intro: lasting)

lemma start_decided_log [lasting]:
  "start_decided input state decision promoted h \<Longrightarrow> start_decided input state decision promoted (log h e)"
  by (auto simp: start_decided_def start_admitted_log)

lemma start_decided_admitted:
  "start_decided input state decision promoted h \<Longrightarrow> start_admitted input state h"
  by (simp add: start_decided_def)

lemma started_running_log [lasting]: "started_running request h \<Longrightarrow> started_running request (log h e)"
  by (auto simp: started_running_def)

lemma started_guest_log [lasting]: "started_guest input ready h \<Longrightarrow> started_guest input ready (log h e)"
  by (auto simp: started_guest_def intro: lasting)

lemma start_served_log [lasting]:
  "start_served input state request h \<Longrightarrow> start_served input state request (log h e)"
  by (auto simp: start_served_def intro: lasting)

section \<open>A start that replaces\<close>

text \<open>
  The guard of a replacement that begins at the journal \<open>base\<close>: what the start allows, on every journal that
  extends one in which the replacement was decided.
\<close>

definition replacing_guard ::
  "services \<Rightarrow> runtime_operation_dispatch \<Rightarrow> runtime_operation_state \<Rightarrow> string \<Rightarrow> trace \<Rightarrow> trace \<Rightarrow> event \<Rightarrow> bool" where
  "replacing_guard svc input state promoted base h e \<longleftrightarrow>
     (start_replaces input state promoted base \<and> (\<exists>rest. h = base @ rest) \<longrightarrow> start_guard svc input state h e)"

lemma start_decided_append:
  "start_decided input state decision promoted base \<Longrightarrow> start_decided input state decision promoted (base @ rest)"
proof (induction rest rule: rev_induct)
  case (snoc e rest)
  from start_decided_log [OF snoc.IH [OF snoc.prems], of e] show ?case by (simp add: log_def)
qed simp

lemma start_replaces_append:
  "start_replaces input state promoted base \<Longrightarrow> start_replaces input state promoted (base @ rest)"
  by (simp add: start_replaces_def start_decided_append)

interpretation start_replace: replacement_guard "replacing_guard svc input state promoted base" input svc
    "settled_usage state" promoted for svc input state promoted base
  by unfold_locales
    (auto simp: replacing_guard_def, auto simp: start_guard_def intro: start_replaces_append)

lemma safe_base: "safe (replacing_guard svc input state promoted base) base"
  by (auto simp: safe_def replacing_guard_def)

lemma safe_from_base:
  assumes "safe (start_guard svc input state) base" and "start_replaces input state promoted base"
    and "safe (replacing_guard svc input state promoted base) (base @ rest)"
  shows "safe (start_guard svc input state) (base @ rest)"
  unfolding safe_def
proof (intro allI impI)
  fix before e after
  assume split: "base @ rest = before @ e # after"
  then consider "\<exists>us. before = base @ us" | us where "base = before @ e # us"
    by (auto simp: append_eq_append_conv2 append_eq_Cons_conv)
  then show "start_guard svc input state before e"
  proof cases
    case 1
    with assms(2,3) split show ?thesis by (auto simp: safe_def replacing_guard_def)
  next
    case 2
    with assms(1) show ?thesis by (auto simp: safe_def)
  qed
qed

section \<open>Every phase respects the guard\<close>

text \<open>What a start that returns was: of a ready Runtime, of a stopped one, or a replacement.\<close>

definition start_result ::
  "services \<Rightarrow> runtime_operation_dispatch \<Rightarrow> runtime_operation_state \<Rightarrow> runtime_start_output \<Rightarrow> trace \<Rightarrow> bool" where
  "start_result svc input state out h \<longleftrightarrow>
     rt_Status (ros_Runtime state) = RuntimeReady
       \<and> (\<exists>address. rt_PrivateAddress (ros_Runtime state) = Some address
            \<and> out = \<lparr>rsto_RuntimeID = rod_RuntimeID input, rsto_PrivateRoute = address\<rparr>)
     \<or> (\<exists>ready. start_complete_ok input state ready h
          \<and> out = \<lparr>rsto_RuntimeID = rod_RuntimeID input, rsto_PrivateRoute = gready_PrivateIPv4 ready\<rparr>)
     \<or> (\<exists>promoted rt ready. start_replaces input state promoted h
          \<and> replace_complete_ok svc input (settled_usage state) rt ready h
          \<and> out = \<lparr>rsto_RuntimeID = rt_ID rt, rsto_PrivateRoute = gready_PrivateIPv4 ready\<rparr>)"

definition start_end ::
  "services \<Rightarrow> runtime_operation_dispatch \<Rightarrow> runtime_operation_state \<Rightarrow> runtime_start_output outcome \<Rightarrow> trace \<Rightarrow> bool" where
  "start_end svc input state r h \<longleftrightarrow>
     safe (start_guard svc input state) h \<and> (runtime_valid (ros_Runtime state) \<longrightarrow> r \<noteq> Panicked)
     \<and> (\<forall>out. r = Returned out \<longrightarrow>
          (\<exists>earlier at. h = log earlier (Did (CompleteRuntimeOperation (rod_OperationID input) at) None)
             \<and> start_result svc input state out earlier))"

lemma start_end_failed [simp]:
  "start_end svc input state (Failed err) h \<longleftrightarrow> safe (start_guard svc input state) h"
  "start_end svc input state OutOfFuel h \<longleftrightarrow> safe (start_guard svc input state) h"
  by (simp_all add: start_end_def)

lemma start_failed_after:
  "safe (start_guard svc input state) h' \<Longrightarrow> failed_after h r h' \<Longrightarrow> start_end svc input state r h'"
  by (auto simp: start_end_def failed_after_def)

lemma start_fails:
  "safe (start_guard svc input state) h
   \<Longrightarrow> wp (failRuntimeOperation svc (rod_OperationID input) code message) (start_end svc input state) h"
  by (rule start.fail_operation) (auto intro: start_failed_after)

text \<open>The state of the workflow holds the stored Runtime, which has a provider instance.\<close>

definition current :: "runtime_operation_state \<Rightarrow> runtime_operation_state \<Rightarrow> trace \<Rightarrow> bool" where
  "current state state' h \<longleftrightarrow>
     stored h = Some (ros_Runtime state') \<and> rt_ProviderInstanceRef (ros_Runtime state') \<noteq> None
     \<and> runtime_identity (ros_Runtime state') = runtime_identity (ros_Runtime state)"

lemma current_log [lasting]:
  "current state state' h \<Longrightarrow> stored_after (stored h) e = stored h \<Longrightarrow> current state state' (log h e)"
  by (simp add: current_def)

lemma start_marks_error:
  "safe (start_guard svc input state) h \<Longrightarrow> current state state' h
   \<Longrightarrow> wp (markRuntimeErrorAndFail svc (rod_OperationID input) (ros_Runtime state') code message)
        (start_end svc input state) h"
  "safe (start_guard svc input state) h \<Longrightarrow> current state state' h
   \<Longrightarrow> wp (markRuntimeProviderFailure svc (rod_OperationID input) (ros_Runtime state') outcome)
        (start_end svc input state) h"
  "safe (start_guard svc input state) h \<Longrightarrow> current state state' h
   \<Longrightarrow> wp (failRuntimeOperationForProviderOutcome svc (rod_OperationID input) (ros_Runtime state') intervalID
        outcome code source) (start_end svc input state) h"
  by (rule start.mark_error start.provider_failure start.provider_outcome_failure;
      auto simp: current_def intro: start_failed_after)+

lemmas start_ends = start_fails start_marks_error

lemma finish_start_ends:
  assumes "safe (start_guard svc input state) h" and "start_served input state request h"
    and "started_guest input ready h" and "stored h = Some rt"
    and "rt_Status rt = RuntimeReady \<and> runtime_identity rt = runtime_identity (ros_Runtime state)
      \<and> rt_PrivateAddress rt = Some (gready_PrivateIPv4 ready) \<and> rt_BootID rt = Some (gready_BootID ready)"
  shows "wp (finish_start svc input ready) (start_end svc input state) h"
proof -
  let ?h = "log h (Did (ResumeAutoStop (rod_EnvironmentID input) (rod_RuntimeID input)) None)"
  have ok: "start_complete_ok input state ready ?h"
    using assms(2-5) by (auto simp: start_complete_ok_def intro: lasting)
  have allowed: "start_guard svc input state ?h (Did (CompleteRuntimeOperation operationID at) answer)"
    for operationID at answer
    using ok by (auto simp: start_guard_def)
  show ?thesis
    unfolding finish_start_def
    by (intro wp_rules start_ends) (use assms(1) ok allowed in \<open>auto simp: start_end_def start_result_def\<close>)
qed

lemma mark_ready_ends:
  assumes "safe (start_guard svc input state) h" and "current state state' h"
    and "start_served input state request h" and "started_guest input ready h"
  shows "wp (mark_started_ready svc input state' request ready) (start_end svc input state) h"
proof -
  have marked: "start_guard svc input state h (Did (PersistRuntimeTransition (rod_OperationID input)
      (rt_Version (ros_Runtime state')) (cloneRuntimeSnapshot marked)) answer)"
    "runtime_identity marked = runtime_identity (ros_Runtime state)"
    if "RestoreRuntime (ros_Runtime state') = Inr rt" "MarkReady rt observation = Inr marked"
    for rt observation marked answer
    using assms(2) domain_steps(2) [OF that] domain_step_keeps(2) [OF domain_steps(2) [OF that]]
    by (auto intro!: start.persist_allowed simp: persist_ok_def current_def runtime_identity_def)
  show ?thesis
    unfolding mark_started_ready_def
    by (intro wp_rules start_ends finish_start_ends [where request = request])
      (use assms in \<open>auto simp: stored_after_def runtime_identity_def intro: marked(1) lasting
        dest: marked(2) MarkReady_fields\<close>)
qed

lemma started_guest_now:
  "gready_DataMounted ready \<Longrightarrow> gready_BootID ready \<noteq> [] \<Longrightarrow> gready_PrivateIPv4 ready = gr_PrivateIPv4 guest
   \<Longrightarrow> gr_RuntimeID guest = rod_RuntimeID input \<Longrightarrow> guest' = guest
   \<Longrightarrow> started_guest input ready (log (log (log h (GuestReady guest (WaitEnded ready)))
        (Did (ReconcileRuntimeSSHKeys guest') None)) (Did (ReconcileRuntimeManagedConfiguration guest') None))"
  unfolding started_guest_def guest_mounted_def by auto

lemma started_guest_ends:
  assumes "safe (start_guard svc input state) h" and "current state state' h"
    and "start_served input state request h"
  shows "wp (await_started_guest svc input state' request running) (start_end svc input state) h"
  unfolding await_started_guest_def Let_def
  by (intro wp_rules start_ends mark_ready_ends)
    (use assms in \<open>auto intro!: current_log start_served_log started_guest_now\<close>)

text \<open>Once the provider was asked to start: the Runtime is stored as starting.\<close>

definition start_called ::
  "runtime_operation_dispatch \<Rightarrow> runtime_operation_state \<Rightarrow> lifecycle_request \<Rightarrow> trace \<Rightarrow> bool" where
  "start_called input state request h \<longleftrightarrow>
     runtimeLifecycleRequest state = Inr request
     \<and> start_decided input state ''start'' (rt_ImageVersion (ros_Runtime state)) h
     \<and> (\<exists>answer. Called (StartRuntime request) answer \<in> set h)"

lemma start_called_log [lasting]:
  "start_called input state request h \<Longrightarrow> start_called input state request (log h e)"
  by (auto simp: start_called_def intro: lasting)

lemma started_running_ends:
  assumes "safe (start_guard svc input state) h" and "current state state' h"
    and "start_called input state request h" and "usage_opened input (rod_RuntimeID input) h"
  shows "wp (await_started_running svc cfg input state' request started) (start_end svc input state) h"
proof -
  have served: "start_served input state request (log h (Waited ''wait-runtime-running'' request (WaitEnded running)))"
    if "pr_State (out_Runtime running) = RuntimeStateRunning"
      "validateProviderRuntimeIdentity (out_Runtime running) request = None" for running
    using assms(3,4) that
    by (auto simp: start_served_def start_called_def started_running_def intro: lasting)
  show ?thesis
    unfolding await_started_running_def
    by (intro replace_rules start_ends started_guest_ends)
      (use assms(1,2) served in \<open>auto intro: lasting\<close>)
qed

lemma current_interval [simp]: "current state (state'\<lparr>ros_ComputeUsageIntervalID := intervalID\<rparr>) h = current state state' h"
  by (simp add: current_def)

lemma started_usage_ends:
  assumes "safe (start_guard svc input state) h" and "current state state' h"
    and "start_called input state request h"
  shows "wp (open_started_usage svc cfg input state' request started) (start_end svc input state) h"
  unfolding open_started_usage_def Let_def
  by (intro wp_rules start_ends started_running_ends)
    (use assms in \<open>auto intro!: current_log start_called_log usage_opened_now\<close>)

lemma start_provider_ends:
  assumes "safe (start_guard svc input state) h" and "current state state' h"
    and "start_call_ok input state request h"
  shows "wp (start_provider svc cfg input state' request) (start_end svc input state) h"
proof -
  have allowed: "start_guard svc input state h (Called (StartRuntime request) answer)" for answer
    using assms(3) by (simp add: start_guard_def)
  have kept: "current state state' (log h (Called (StartRuntime request) answer))"
    "start_called input state request (log h (Called (StartRuntime request) answer))" for answer
    using assms(2,3) by (auto simp: stored_after_def start_called_def start_call_ok_def intro: lasting)
  show ?thesis
    unfolding start_provider_def Let_def
    by (intro wp_rules start_ends started_usage_ends) (use assms(1) allowed kept in auto)
qed

lemma BeginStart_status: "BeginStart rt at = Inr rt' \<Longrightarrow> rt_Status rt' = RuntimeStarting"
  by (auto simp: BeginStart_def runtime_step_facts split: sum.splits if_splits)

lemma begin_start_ends:
  assumes "safe (start_guard svc input state) h" and "current state state' h"
    and "runtimeLifecycleRequest state = Inr request"
    and "start_decided input state ''start'' (rt_ImageVersion (ros_Runtime state)) h"
  shows "wp (begin_start svc cfg input state' request) (start_end svc input state) h"
proof -
  let ?persist = "\<lambda>starting. Did (PersistRuntimeTransition (rod_OperationID input)
    (rt_Version (ros_Runtime state')) (cloneRuntimeSnapshot starting))"
  have started: "start_guard svc input state h (?persist starting answer)"
    "current state (state'\<lparr>ros_Runtime := cloneRuntimeSnapshot starting\<rparr>) (log h (?persist starting None))"
    "start_call_ok input state request (log h (?persist starting None))"
    if "RestoreRuntime (ros_Runtime state') = Inr rt" "BeginStart rt at = Inr starting" for rt at starting answer
  proof -
    note step = domain_steps(1) [OF that] and keeps = domain_step_keeps [OF domain_steps(1) [OF that]]
    show "start_guard svc input state h (?persist starting answer)"
      using assms(2) step by (auto intro!: start.persist_allowed simp: persist_ok_def current_def)
    show "current state (state'\<lparr>ros_Runtime := cloneRuntimeSnapshot starting\<rparr>) (log h (?persist starting None))"
      using assms(2) keeps(2,3) by (auto simp: current_def stored_after_def)
    show "start_call_ok input state request (log h (?persist starting None))"
      using assms(2-4) keeps(2) BeginStart_status [OF that(2)]
      by (auto simp: start_call_ok_def current_def stored_after_def intro: lasting)
  qed
  show ?thesis
    unfolding begin_start_def
    by (intro wp_rules start_ends start_provider_ends) (use assms(1) started in auto)
qed

lemma start_decided_completed:
  "start_decided input state decision promoted (log h (Did (CompleteRuntimeOperation operationID at) answer))
   \<Longrightarrow> start_decided input state decision promoted h"
  by (auto simp: start_decided_def start_admitted_def start_observed_def)

lemma replaces_ends:
  assumes "safe (start_guard svc input state) h" and "stored h = Some (ros_Runtime state)"
    and "start_replaces input state promoted h"
  shows "wp (then_return (\<lambda>output. \<lparr>rsto_RuntimeID = rro_ReplacementRuntimeID output,
      rsto_PrivateRoute = rro_PrivateRoute output\<rparr>)
      (fulfillRuntimeReplacement svc cfg input (settled_usage state) promoted)) (start_end svc input state) h"
proof (intro wp_then_return wp_mono [OF wp_extends [OF extends_replacement start_replace.fulfill_ends [OF safe_base]]])
  show "stored h = Some (ros_Runtime (settled_usage state))" using assms(2) by simp
  fix r :: "runtime_replace_output outcome" and h'
  assume ends: "replace_end (replacing_guard svc input state promoted h) svc input (settled_usage state) r h'
      \<and> (\<exists>rest. h' = h @ rest)"
  then obtain rest where rest: "h' = h @ rest" by blast
  have safe: "safe (start_guard svc input state) h'"
    using ends safe_from_base [OF assms(1,3)] unfolding rest replace_end_def by blast
  show "start_end svc input state (map_outcome (\<lambda>output. \<lparr>rsto_RuntimeID = rro_ReplacementRuntimeID output,
      rsto_PrivateRoute = rro_PrivateRoute output\<rparr>) r) h'"
  proof (cases r)
    case (Returned out)
    with ends obtain earlier at rt ready
      where fin: "h' = log earlier (Did (CompleteRuntimeOperation (rod_OperationID input) at) None)"
        "replace_complete_ok svc input (settled_usage state) rt ready earlier"
        "out = \<lparr>rro_RetiredRuntimeID = rt_ID (ros_Runtime (settled_usage state)), rro_ReplacementRuntimeID = rt_ID rt,
           rro_PrivateRoute = gready_PrivateIPv4 ready\<rparr>"
      unfolding replace_end_def by blast
    have "start_replaces input state promoted h'"
      using start_replaces_append [OF assms(3)] rest by simp
    then have "start_replaces input state promoted earlier"
      unfolding fin(1) start_replaces_def by (rule start_decided_completed)
    with safe fin Returned show ?thesis
      by (auto simp: start_end_def start_result_def)
  qed (use safe ends in \<open>auto simp: start_end_def replace_end_def\<close>)
qed

lemma decide_ends:
  assumes "safe (start_guard svc input state) h" and "stored h = Some (ros_Runtime state)"
    and "runtimeLifecycleRequest state = Inr request" and "start_admitted input state h"
    and "ReadImage (rt_Region (ros_Runtime state)) (Inr promoted) \<in> set h"
  shows "wp (decide_start svc cfg input (settled_usage state) request promoted) (start_end svc input state) h"
proof -
  let ?decided = "\<lambda>decision. log h (Did (RecordRuntimeStartDecision (rod_OperationID input) decision promoted) None)"
  have decided: "start_decided input state decision promoted (?decided decision)"
    if "decision = (if promoted = rt_ImageVersion (ros_Runtime state) then ''start'' else ''replace'')" for decision
    using that assms(4,5) by (auto simp: start_decided_def intro: lasting)
  have same: "stored (?decided decision) = Some (ros_Runtime state)" for decision
    using assms(2) by (simp add: stored_after_def)
  have current: "current state (settled_usage state) (?decided decision)" for decision
    using same assms(3) by (auto simp: current_def runtimeLifecycleRequest_def Let_def split: option.splits)
  show ?thesis
    unfolding decide_start_def
    by (intro wp_rules start_ends begin_start_ends replaces_ends)
      (use assms(1,3) decided same current in \<open>auto simp: start_replaces_def\<close>)
qed

lemma settled_volume [simp]: "dataVolumeRequest input (settled_usage state) = dataVolumeRequest input state"
  by (simp add: dataVolumeRequest_def)

lemma admit_ends:
  assumes "safe (start_guard svc input state) h" and "stored h = Some (ros_Runtime state)"
    and "runtimeLifecycleRequest state = Inr request" and "start_observed state h"
  shows "wp (admit_start svc cfg input (settled_usage state) request) (start_end svc input state) h"
  unfolding admit_start_def
  by (intro wp_rules start_ends decide_ends)
    (use assms in \<open>auto simp: start_admitted_def stored_after_def intro!: start_observed_log\<close>)

lemma verify_stopped_ends:
  assumes "safe (start_guard svc input state) h" and "stored h = Some (ros_Runtime state)"
    and "runtimeLifecycleRequest state = Inr request"
  shows "wp (verify_stopped svc cfg input state request) (start_end svc input state) h"
proof -
  let ?seen = "\<lambda>answer. log h (Called (ObserveRuntime request) answer)"
  have current: "current state state (?seen answer)" for answer
    using assms(2,3) by (auto simp: current_def runtimeLifecycleRequest_def Let_def split: option.splits)
  have closed: "current state state (log (?seen answer) (Did (CloseComputeUsageInterval intervalID at source) d))"
    for answer intervalID at source d
    using current by (simp add: current_log)
  have observed: "start_observed state (?seen (Inr outcome))"
    if "pr_State (out_Runtime outcome) = RuntimeStateStopped"
      "validateProviderRuntimeIdentity (out_Runtime outcome) request = None"
      "ros_ComputeUsageIntervalID state = []" for outcome
    using that assms(3) unfolding start_observed_def by auto
  have observed_closed: "start_observed state (log (?seen (Inr outcome)) (Did (CloseComputeUsageInterval
      (ros_ComputeUsageIntervalID state) (out_ObservedAt outcome) ComputeUsageClosedByProviderReconciliation) None))"
    if "pr_State (out_Runtime outcome) = RuntimeStateStopped"
      "validateProviderRuntimeIdentity (out_Runtime outcome) request = None" for outcome
    using that assms(3) unfolding start_observed_def by auto
  show ?thesis
    unfolding verify_stopped_def Let_def
    by (intro wp_rules start_ends admit_ends)
      (use assms current closed observed observed_closed in \<open>auto simp: start.close_allowed\<close>)
qed

lemma start_loaded_ends:
  assumes "safe (start_guard svc input state) h" and "stored h = Some (ros_Runtime state)"
  shows "wp (start_loaded svc cfg input state) (start_end svc input state) h"
proof -
  have allowed: "start_guard svc input state h (Did (CompleteRuntimeOperation operationID at) answer)"
    if "rt_Status (ros_Runtime state) = RuntimeReady" for operationID at answer
    using that by (simp add: start_guard_def)
  show ?thesis
    unfolding start_loaded_def Let_def
    by (intro wp_rules start_ends verify_stopped_ends)
      (use assms allowed in \<open>auto simp: start_end_def start_result_def dest: runtime_valid_route\<close>)
qed

section \<open>The start Operation\<close>

lemma start_Run_ends:
  assumes "start_Run svc cfg key input [] = (r, h)"
  shows "(\<exists>err. r = Failed err) \<and> (\<forall>e \<in> set h. \<exists>answer. e = Loaded answer)
    \<or> (\<exists>state. svc_load svc [] = Inr state \<and> start_end svc input state r h)"
proof -
  have loaded: "wp (start_loaded svc cfg input state) (start_end svc input state) (log [] (Loaded (Inr state)))" for state
    by (intro start_loaded_ends) (simp_all add: stored_after_def)
  have "wp (start_Run svc cfg key input) (\<lambda>r h. (\<exists>err. r = Failed err) \<and> (\<forall>e \<in> set h. \<exists>answer. e = Loaded answer)
      \<or> (\<exists>state. svc_load svc [] = Inr state \<and> start_end svc input state r h)) []"
    unfolding start_Run_def by (intro wp_rules wp_mono [OF loaded]) auto
  with assms show ?thesis by (simp add: wp_def)
qed

lemma start_Run_event:
  assumes "start_Run svc cfg key input [] = (r, h)" and "h = earlier @ e # later" and "\<And>answer. e \<noteq> Loaded answer"
  shows "\<exists>state. svc_load svc [] = Inr state \<and> start_guard svc input state earlier e"
proof -
  from start_Run_ends [OF assms(1)] assms(2,3) obtain state
    where "svc_load svc [] = Inr state" "start_end svc input state r h"
    by auto
  then show ?thesis using assms(2) by (auto simp: start_end_def safe_def)
qed

text \<open>
  C2. Compute is started or allocated by a start only when it is admitted: the provider showed the Runtime
  stopped, stale usage was closed at that observation, the data volume was verified and the balance of the
  owner is positive.  The stored Runtime is then starting on the promoted image, or the decision to replace it
  is recorded and the old Runtime has released the volume.
\<close>

theorem start_only_admitted:
  assumes "start_Run svc cfg key input [] = (r, h)" and "h = earlier @ Called c answer # later"
    and "c = StartRuntime request \<or> c = EnsureRuntime spec operationID"
  shows "\<exists>state. svc_load svc [] = Inr state \<and> start_admitted input state earlier
    \<and> (c = StartRuntime request \<longrightarrow> start_call_ok input state request earlier)
    \<and> (c = EnsureRuntime spec operationID \<longrightarrow>
         (\<exists>promoted. start_decided input state ''replace'' promoted earlier)
         \<and> ensure_ok svc input (settled_usage state) spec earlier)"
  using start_Run_event [OF assms(1,2)] assms(3)
  by (auto simp: start_guard_def start_call_ok_def start_replaces_def dest: start_decided_admitted)

text \<open>
  C23. A start that returns has completed its Operation in its last step, and it reports one of three things: the
  Runtime was ready already; it was started, billed, seen running with its data mounted, given its keys and
  configuration, stored as ready with the reported address and handed back to auto-stop; or it was replaced by
  a Runtime of which all that holds.
\<close>

theorem start_returns_ready:
  assumes "start_Run svc cfg key input [] = (Returned out, h)"
  shows "\<exists>state earlier at. svc_load svc [] = Inr state
    \<and> h = earlier @ [Did (CompleteRuntimeOperation (rod_OperationID input) at) None]
    \<and> start_result svc input state out earlier"
proof -
  from start_Run_ends [OF assms] obtain state
    where "svc_load svc [] = Inr state" "start_end svc input state (Returned out) h"
    by auto
  then show ?thesis unfolding start_end_def log_def by blast
qed

text \<open>
  Every Runtime the start persists is one domain command away from the stored one, and no run of a valid
  Runtime dereferences a missing address or provider instance.
\<close>

lemma start_persists_domain_steps:
  assumes "start_Run svc cfg key input [] = (r, h)" and "svc_load svc [] = Inr state"
    and "runtime_valid (ros_Runtime state)"
  shows "r \<noteq> Panicked"
    and "h = earlier @ Did (PersistRuntimeTransition operationID version snapshot) answer # later
      \<Longrightarrow> persist_ok earlier version snapshot"
proof -
  show "r \<noteq> Panicked"
    using start_Run_ends [OF assms(1)] assms(2,3) by (auto simp: start_end_def)
  assume "h = earlier @ Did (PersistRuntimeTransition operationID version snapshot) answer # later"
  from start_Run_event [OF assms(1) this] show "persist_ok earlier version snapshot"
    by (simp add: start_guard_def)
qed

section \<open>An example start\<close>

definition stopped_runtime :: runtime where
  "stopped_runtime =
     ready_runtime\<lparr>rt_Status := RuntimeStopped, rt_PrivateAddress := None, rt_BootID := None,
       rt_StoppedAt := Some \<lparr>wall = 7, loc = UTC\<rparr>, rt_Version := 5\<rparr>"

definition restarting_runtime :: runtime where
  "restarting_runtime =
     stopped_runtime\<lparr>rt_Status := RuntimeStarting, rt_StartedAt := Some sample_now, rt_StoppedAt := None,
       rt_UpdatedAt := sample_now, rt_Version := 6\<rparr>"

definition restarted_runtime :: runtime where
  "restarted_runtime =
     restarting_runtime\<lparr>rt_Status := RuntimeReady, rt_PrivateAddress := Some ''10.0.0.1'',
       rt_BootID := Some ''boot-2'', rt_Version := 7\<rparr>"

lemmas restarted_defs = restarted_runtime_def restarting_runtime_def stopped_runtime_def ready_runtime_def
  sample_runtime_def

lemma restarted_clones:
  "cloneRuntimeSnapshot restarting_runtime = restarting_runtime"
  "cloneRuntimeSnapshot restarted_runtime = restarted_runtime"
  "cloneRuntimeSnapshot stopped_runtime = stopped_runtime"
  by (simp_all add: restarted_defs cloneRuntimeSnapshot_def utc_def)

lemma restarted_restored:
  "RestoreRuntime stopped_runtime = Inr stopped_runtime" "RestoreRuntime restarting_runtime = Inr restarting_runtime"
  by (simp_all add: RestoreRuntime_Inr_iff restarted_clones)
    (simp_all add: runtime_valid_def restarted_defs runtime_eval)

lemma restarted_steps:
  "BeginStart stopped_runtime sample_now = Inr restarting_runtime"
  "MarkReady restarting_runtime \<lparr>ready_ProviderInstanceRef = ''i-1'', ready_BootID = ''boot-2'',
     ready_PrivateAddress = ''10.0.0.1'', ready_ExpectedVersion = 6, ready_ObservedAt = sample_now\<rparr>
   = Inr restarted_runtime"
  by (simp_all add: runtime_command_defs validateCurrentRuntimeObservation_def runtime_transition_def
      finalizeRuntimeTransition_def restarted_defs runtime_eval cloneRuntimeSnapshot_def utc_def max_int64_def)

lemma restarted_fields:
  "rt_ID stopped_runtime = ''rt-1''" "rt_EnvironmentID stopped_runtime = ''env-1''"
  "rt_Status stopped_runtime = RuntimeStopped" "rt_ProviderInstanceRef stopped_runtime = Some ''i-1''"
  "rt_Region stopped_runtime = ''eu''" "rt_ImageVersion stopped_runtime = ''v1''"
  "rt_Version restarting_runtime = 6"
  by (simp_all add: restarted_defs)

lemma sample_guest_ready:
  "svc_ready (sample_services seen state promoted) h guest
   = Inr \<lparr>gready_BootID = ''boot-2'', gready_PrivateIPv4 = ''10.0.0.1'', gready_DataMounted = True\<rparr>"
  by (simp add: sample_services_def)

lemmas start_defs = start_Run_def start_loaded_def verify_stopped_def admit_start_def decide_start_def
  begin_start_def start_provider_def open_started_usage_def await_started_running_def await_started_guest_def
  mark_started_ready_def finish_start_def wait_state_def

abbreviation sample_start :: "runtime_start_output outcome \<times> trace" where
  "sample_start \<equiv> start_Run (sample_services RuntimeStateStopped (sample_operation_state stopped_runtime) ''v1'')
     sample_workflow_config ''op-1'' (sample_dispatch OperationRuntimeStart) []"

lemma sample_start_returns:
  "\<exists>out h request answer. sample_start = (Returned out, h) \<and> Called (StartRuntime request) answer \<in> set h"
  by (simp add: start_defs workflow_eval restarted_restored restarted_steps restarted_fields restarted_clones
      sample_guest_ready sample_store_fields sample_config_fields go_time)

theorem start_only_admitted_witness:
  "\<exists>earlier. start_admitted (sample_dispatch OperationRuntimeStart) (sample_operation_state stopped_runtime) earlier"
proof -
  from sample_start_returns obtain out h request answer
    where run: "sample_start = (Returned out, h)" "Called (StartRuntime request) answer \<in> set h" by blast
  from split_list [OF run(2)] obtain earlier later
    where h: "h = earlier @ Called (StartRuntime request) answer # later" by blast
  have "StartRuntime request = StartRuntime request \<or> StartRuntime request = EnsureRuntime zero_spec []" by simp
  from start_only_admitted [OF run(1) h this] show ?thesis
    by (auto simp: sample_services_fields)
qed

theorem start_returns_ready_witness:
  "\<exists>svc out earlier. start_result svc (sample_dispatch OperationRuntimeStart)
     (sample_operation_state stopped_runtime) out earlier"
proof -
  from sample_start_returns obtain out h where run: "sample_start = (Returned out, h)" by blast
  from start_returns_ready [OF run] show ?thesis by (auto simp: sample_services_fields)
qed

end
