(* ===== verification/Environment_Create.thy ===== *)
theory Environment_Create
  imports Runtime_Replace
begin

text \<open>
  \<open>apps/workflows/environment_create.go\<close>: the workflow that creates an Environment.  It records the
  invocation, ensures and inventories the data volume, reserves and allocates the first Runtime, prepares the
  guest, materializes the Capsule Lock, binds credentials, marks the Runtime ready and completes the creation.
  \<open>Run\<close> is one function of the source; it is cut here after each group of steps.
\<close>

section \<open>Dependencies and services\<close>

text \<open>
  The interfaces the workflow compares with nil, the image of new Runtimes and the limits of its waits.
\<close>

record create_dependencies =
  dep_Provider :: bool
  dep_Actions :: bool
  dep_Capsules :: bool
  dep_SSHIdentity :: bool
  dep_GuestReadiness :: bool
  dep_SSHKeys :: bool
  dep_ProjectSeed :: bool
  dep_CapsuleApplication :: bool
  dep_Credentials :: bool
  dep_Toolchain :: bool
  dep_IDs :: bool
  dep_Now :: bool
  dep_ImageVersion :: string
  dep_Polling :: workflow_config

text \<open>
  The services only a creation calls, as functions of the journal.  The identities of a creation are the six
  texts the generator returns, with the time read in the same step.
\<close>

record creation_services =
  cre_invocation :: "trace \<Rightarrow> string \<Rightarrow> string + environment_create_invocation"
  cre_volume :: "trace \<Rightarrow> ensure_data_volume_request \<Rightarrow> string + data_volume"
  cre_identities :: "trace \<Rightarrow> string + reservation_seed"
  cre_inventory :: "trace \<Rightarrow> string \<Rightarrow> environment_state_reservation \<Rightarrow> string + string"
  cre_reserve :: "trace \<Rightarrow> string \<Rightarrow> runtime_reservation \<Rightarrow> string + string"
  cre_resolve :: "trace \<Rightarrow> string \<Rightarrow> gotime \<Rightarrow> string + environment_capsule_state"
  cre_materialize :: "trace \<Rightarrow> guest_request \<Rightarrow> environment_capsule_state \<Rightarrow> string + materialization_result list"
  cre_bind :: "trace \<Rightarrow> guest_request \<Rightarrow> string + credential_binding_outcome"

record environment_create_output =
  eco_DataVolumeProviderID :: string
  eco_RuntimeID :: string

definition EnvironmentCreateFailed :: string where
  "EnvironmentCreateFailed = ''ENVIRONMENT_CREATE_FAILED''"

definition CredentialRequired :: string where
  "CredentialRequired = ''CREDENTIAL_REQUIRED''"

section \<open>Checks\<close>

definition validateEnvironmentCreateDependencies :: "create_dependencies \<Rightarrow> failure_message option" where
  "validateEnvironmentCreateDependencies d =
     (if \<not> dep_Provider d \<or> \<not> dep_Actions d \<or> \<not> dep_Capsules d \<or> \<not> dep_SSHIdentity d
         \<or> \<not> dep_GuestReadiness d \<or> \<not> dep_SSHKeys d \<or> \<not> dep_ProjectSeed d \<or> \<not> dep_CapsuleApplication d
         \<or> \<not> dep_Credentials d \<or> \<not> dep_Toolchain d \<or> \<not> dep_IDs d \<or> \<not> dep_Now d
         \<or> blank (dep_ImageVersion d)
      then Some (Text ''Environment create workflow dependencies are incomplete'') else None)"

definition validateEnvironmentCreateInvocation ::
  "environment_create_dispatch \<Rightarrow> environment_create_invocation \<Rightarrow> failure_message option" where
  "validateEnvironmentCreateInvocation input invocation =
     (if blank (eci_OwnerUserID invocation) \<or> blank (eci_ProjectSeedID invocation)
         \<or> eci_EnvironmentID invocation \<noteq> ecd_EnvironmentID input
      then Some (Text ''Environment create invocation ownership or Project Seed diverged'') else None)"

definition validateDataVolume :: "environment_create_dispatch \<Rightarrow> data_volume \<Rightarrow> failure_message option" where
  "validateDataVolume input volume =
     (if vol_EnvironmentID volume \<noteq> ecd_EnvironmentID input \<or> vol_Region volume \<noteq> ecd_Region input
         \<or> vol_AvailabilityZone volume \<noteq> ecd_AvailabilityZone input
         \<or> vol_Provider volume = [] \<or> vol_Provider volume \<noteq> trim_space (vol_Provider volume)
         \<or> vol_ProviderID volume = [] \<or> vol_ProviderID volume \<noteq> trim_space (vol_ProviderID volume)
      then Some (Text ''Data Volume ownership or placement does not match Environment creation'') else None)"

definition validateCreatedRuntimeNetworking ::
  "environment_create_dispatch \<Rightarrow> runtime_spec \<Rightarrow> provider_runtime \<Rightarrow> failure_message option" where
  "validateCreatedRuntimeNetworking input spec observed =
     (case validateProviderRuntimeIdentity observed \<lparr>lr_Spec = spec, lr_ProviderID = pr_ProviderID observed\<rparr> of
        Some err \<Rightarrow> Some err
      | None \<Rightarrow>
          if pr_State observed \<noteq> RuntimeStateRunning then Some (NetworkingStateUnexpected (pr_State observed))
          else if \<not> private_ipv4 (pr_PrivateIPv4 observed)
          then Some (Text ''Runtime networking requires a private IPv4 address'')
          else if spec_Region (pr_Spec observed) \<noteq> ecd_Region input
                  \<or> spec_AvailabilityZone (pr_Spec observed) \<noteq> ecd_AvailabilityZone input
          then Some (Text ''Runtime networking placement diverged'')
          else None)"

definition validateCredentialBindingOutcome :: "credential_binding_outcome \<Rightarrow> failure_message option" where
  "validateCredentialBindingOutcome outcome =
     (let completed = (if cbo_Code outcome \<noteq> [] \<or> cbo_Message outcome \<noteq> []
            then Some (Text ''completed credential binding cannot carry an error outcome'') else None)
      in case cbo_Status outcome of
           EnvironmentCredentialsBound \<Rightarrow> completed
         | EnvironmentCredentialsNotRequired \<Rightarrow> completed
         | EnvironmentCredentialsRequireInput \<Rightarrow>
             if cbo_Code outcome \<noteq> CredentialRequired \<or> cbo_Message outcome = []
             then Some (Text ''requires_input credential binding requires CREDENTIAL_REQUIRED and a message'')
             else None
         | EnvironmentCredentialsOther status \<Rightarrow> Some (CredentialStatusUnknown (cbo_Status outcome)))"

definition validateEnvironmentCapsuleState ::
  "environment_create_dispatch \<Rightarrow> environment_capsule_state \<Rightarrow> failure_message option" where
  "validateEnvironmentCapsuleState input state =
     (if lock_ID (ecs_CapsuleLock state) = []
         \<or> lock_EnvironmentID (ecs_CapsuleLock state) \<noteq> ecd_EnvironmentID input
         \<or> lock_ProfileVersionID (ecs_CapsuleLock state) = []
      then Some (Text ''Environment Capsule state has an invalid Capsule Lock'')
      else if \<not> upgrade_policy_Valid (ecs_UpgradePolicy state)
      then Some (UpgradePolicyInvalid (ecs_UpgradePolicy state))
      else None)"

section \<open>Failing a creation\<close>

definition persistEnvironmentCreateRuntimeTransition ::
  "services \<Rightarrow> string \<Rightarrow> runtime_snapshot \<Rightarrow> runtime \<Rightarrow> (string \<Rightarrow> 'a workflow)
   \<Rightarrow> (runtime_snapshot \<Rightarrow> 'a workflow) \<Rightarrow> 'a workflow" where
  "persistEnvironmentCreateRuntimeTransition svc operationID current changed onError continue =
     (let nxt = cloneRuntimeSnapshot changed in
      do_step svc (PersistEnvironmentCreateRuntimeTransition operationID (rt_Version current) nxt) onError
        (continue nxt))"

text \<open>The outcome with the fields the function fills in; \<open>Text (code)\<close> when there is no message.\<close>

definition complete_outcome :: "create_operation_outcome \<Rightarrow> create_operation_outcome" where
  "complete_outcome outcome =
     (let outcome = (if coo_Kind outcome = EnvironmentCreateOutcomeOther []
            then outcome\<lparr>coo_Kind := EnvironmentCreateOutcomeFailed\<rparr> else outcome);
          outcome = (if coo_Code outcome = [] then outcome\<lparr>coo_Code := EnvironmentCreateFailed\<rparr> else outcome)
      in if coo_Message outcome = Text [] then outcome\<lparr>coo_Message := Text (coo_Code outcome)\<rparr> else outcome)"

definition record_create_outcome ::
  "services \<Rightarrow> string \<Rightarrow> create_operation_outcome \<Rightarrow> failure_message option \<Rightarrow> 'a workflow" where
  "record_create_outcome svc operationID outcome transitionErr =
     read_now svc ''record-environment-create-outcome'' (\<lambda>now.
     do_step svc (RecordEnvironmentCreateOutcome operationID outcome now) (\<lambda>err. fail (StepFailed (Text err)))
     (case transitionErr of
        Some err \<Rightarrow> fail (TransitionFailed (coo_Code outcome) (coo_Message outcome) err)
      | None \<Rightarrow> fail (OperationFailed (coo_Code outcome) (coo_Message outcome))))"

text \<open>
  The Runtime as it is after the failure: a reserved one is marked as failing to provision, one with a
  provider instance as failed; any other stays the zero Runtime, whose ID is empty.
\<close>

definition failed_runtime :: "runtime_snapshot \<Rightarrow> runtime \<Rightarrow> gotime \<Rightarrow> runtime_error + runtime" where
  "failed_runtime current rt now =
     (if rt_Status current = RuntimeAbsent then MarkProvisionError rt now
      else case rt_ProviderInstanceRef current of
        Some ref \<Rightarrow> MarkError rt \<lparr>obs_ProviderInstanceRef = ref, obs_ExpectedVersion = rt_Version current,
                                  obs_ObservedAt = now\<rparr>
      | None \<Rightarrow> Inr zero_runtime)"

definition failEnvironmentCreation ::
  "services \<Rightarrow> string \<Rightarrow> runtime_snapshot option \<Rightarrow> create_operation_outcome \<Rightarrow> 'a workflow" where
  "failEnvironmentCreation svc operationID current outcome0 =
     (let outcome = complete_outcome outcome0;
          finish = record_create_outcome svc operationID outcome
      in case current of
           None \<Rightarrow> finish None
         | Some current \<Rightarrow>
             if coo_Kind outcome \<noteq> EnvironmentCreateOutcomeFailed \<or> rt_Status current = RuntimeError
             then finish None
             else case RestoreRuntime current of
               Inl err \<Rightarrow> finish (Some (RuntimeFailure err))
             | Inr rt \<Rightarrow>
                 read_now svc ''mark-environment-create-runtime-error'' (\<lambda>now.
                 case failed_runtime current rt now of
                   Inl err \<Rightarrow> finish (Some (RuntimeFailure err))
                 | Inr failed \<Rightarrow>
                     if rt_ID failed = [] then finish None
                     else persistEnvironmentCreateRuntimeTransition svc operationID current failed
                            (\<lambda>err. finish (Some (Text err))) (\<lambda>_. finish None)))"

abbreviation fail_create ::
  "services \<Rightarrow> environment_create_dispatch \<Rightarrow> runtime_snapshot option \<Rightarrow> string \<Rightarrow> failure_message
   \<Rightarrow> 'a workflow" where
  "fail_create svc input current code message \<equiv> failEnvironmentCreation svc (ecd_OperationID input) current
     \<lparr>coo_Kind = EnvironmentCreateOutcomeFailed, coo_Code = code, coo_Message = message\<rparr>"

abbreviation create_diverged ::
  "services \<Rightarrow> environment_create_dispatch \<Rightarrow> runtime_snapshot option \<Rightarrow> failure_message \<Rightarrow> 'a workflow" where
  "create_diverged svc input current \<equiv> fail_create svc input current (error_code_string ErrorCodeResourceDiverged)"

abbreviation create_failed ::
  "services \<Rightarrow> environment_create_dispatch \<Rightarrow> runtime_snapshot option \<Rightarrow> failure_message \<Rightarrow> 'a workflow" where
  "create_failed svc input current \<equiv> fail_create svc input current EnvironmentCreateFailed"

section \<open>The workflow\<close>

text \<open>The creation is completed.\<close>

definition complete_creation ::
  "services \<Rightarrow> environment_create_dispatch \<Rightarrow> string \<Rightarrow> runtime_snapshot \<Rightarrow> string
   \<Rightarrow> environment_create_output workflow" where
  "complete_creation svc input volumeID runtimeState runtimeID =
     read_now svc ''complete-projection'' (\<lambda>now.
     do_step svc (CompleteEnvironmentCreation (ecd_OperationID input) now)
       (\<lambda>err. create_failed svc input (Some runtimeState) (Text err))
     (return \<lparr>eco_DataVolumeProviderID = volumeID, eco_RuntimeID = runtimeID\<rparr>))"

definition mark_created_ready ::
  "services \<Rightarrow> environment_create_dispatch \<Rightarrow> string \<Rightarrow> runtime_snapshot \<Rightarrow> string \<Rightarrow> provider_outcome
   \<Rightarrow> guest_readiness \<Rightarrow> environment_create_output workflow" where
  "mark_created_ready svc input volumeID runtimeState runtimeID running ready =
     (case RestoreRuntime runtimeState of
        Inl err \<Rightarrow> create_failed svc input (Some runtimeState) (RuntimeFailure err)
      | Inr rt \<Rightarrow>
          read_now svc ''mark-created-runtime-ready'' (\<lambda>now.
          case MarkReady rt \<lparr>ready_ProviderInstanceRef = pr_ProviderID (out_Runtime running),
                 ready_BootID = gready_BootID ready, ready_PrivateAddress = gready_PrivateIPv4 ready,
                 ready_ExpectedVersion = rt_Version runtimeState, ready_ObservedAt = now\<rparr> of
            Inl err \<Rightarrow> create_failed svc input (Some runtimeState) (RuntimeFailure err)
          | Inr markedReady \<Rightarrow>
              persistEnvironmentCreateRuntimeTransition svc (ecd_OperationID input) runtimeState markedReady
                (\<lambda>err. create_failed svc input (Some runtimeState) (Text err))
                (\<lambda>runtimeState. complete_creation svc input volumeID runtimeState runtimeID)))"

text \<open>Credentials are bound and the toolchain is validated.\<close>

definition bind_credentials ::
  "services \<Rightarrow> creation_services \<Rightarrow> environment_create_dispatch \<Rightarrow> string \<Rightarrow> runtime_snapshot \<Rightarrow> string
   \<Rightarrow> provider_outcome \<Rightarrow> guest_readiness \<Rightarrow> guest_request \<Rightarrow> environment_create_output workflow" where
  "bind_credentials svc cre input volumeID runtimeState runtimeID running ready guestRequest =
     (let operationID = ecd_OperationID input; failed = create_failed svc input (Some runtimeState) in
      ask (\<lambda>h. cre_bind cre h guestRequest) (BoundCredentials operationID guestRequest)
        (\<lambda>err. failed (Text err)) (\<lambda>binding.
      case validateCredentialBindingOutcome binding of
        Some err \<Rightarrow> failed err
      | None \<Rightarrow>
          if cbo_Status binding = EnvironmentCredentialsRequireInput
          then failEnvironmentCreation svc operationID None
                 \<lparr>coo_Kind = EnvironmentCreateOutcomeRequiresInput, coo_Code = cbo_Code binding,
                  coo_Message = Text (cbo_Message binding)\<rparr>
          else do_step svc (ValidateEnvironmentToolchain operationID guestRequest)
                 (\<lambda>err. fail_create svc input (Some runtimeState) ''PROFILE_INCOMPATIBLE'' (Text err))
               (mark_created_ready svc input volumeID runtimeState runtimeID running ready)))"

text \<open>The Capsule Lock is materialized and the installed state persisted.\<close>

definition materialize_capsule ::
  "services \<Rightarrow> creation_services \<Rightarrow> environment_create_dispatch \<Rightarrow> string \<Rightarrow> runtime_snapshot \<Rightarrow> string
   \<Rightarrow> provider_outcome \<Rightarrow> guest_readiness \<Rightarrow> guest_request \<Rightarrow> environment_capsule_state
   \<Rightarrow> environment_create_output workflow" where
  "materialize_capsule svc cre input volumeID runtimeState runtimeID running ready guestRequest state =
     (let operationID = ecd_OperationID input;
          conflict = fail_create svc input (Some runtimeState) ''PROFILE_CONFLICT'' in
      ask (\<lambda>h. cre_materialize cre h guestRequest state) (MaterializedCapsule operationID guestRequest state)
        (\<lambda>err. conflict (Text err)) (\<lambda>applyResults.
      case validateEnvironmentMaterializationResults (ecs_CapsuleLock state) applyResults of
        Some err \<Rightarrow> conflict (ResultsRejected err)
      | None \<Rightarrow>
          do_step svc (PersistEnvironmentCapsuleState operationID
              (state\<lparr>ecs_ApplyResults := applyResults,
                     ecs_Materializations := InstalledMaterializationsFromResults applyResults\<rparr>))
            (\<lambda>err. create_failed svc input (Some runtimeState) (Text err))
          (bind_credentials svc cre input volumeID runtimeState runtimeID running ready guestRequest)))"

text \<open>The pinned Profile version is resolved; an empty upgrade policy is the manual one.\<close>

definition resolve_profile ::
  "services \<Rightarrow> creation_services \<Rightarrow> environment_create_dispatch \<Rightarrow> string \<Rightarrow> runtime_snapshot \<Rightarrow> string
   \<Rightarrow> provider_outcome \<Rightarrow> guest_readiness \<Rightarrow> guest_request \<Rightarrow> environment_create_output workflow" where
  "resolve_profile svc cre input volumeID runtimeState runtimeID running ready guestRequest =
     read_now svc ''resolve-profile-version'' (\<lambda>now.
     ask (\<lambda>h. cre_resolve cre h (ecd_OperationID input) (utc now)) (ResolvedProfileVersion (utc now))
       (\<lambda>err. create_failed svc input (Some runtimeState) (Text err)) (\<lambda>state.
     let state = (if ecs_UpgradePolicy state = UpgradeOther [] then state\<lparr>ecs_UpgradePolicy := UpgradeManual\<rparr>
                  else state)
     in case validateEnvironmentCapsuleState input state of
          Some err \<Rightarrow> fail_create svc input (Some runtimeState) ''PROFILE_INCOMPATIBLE'' err
        | None \<Rightarrow> materialize_capsule svc cre input volumeID runtimeState runtimeID running ready guestRequest state))"

text \<open>The ready guest gets the keys of the owner and the Project Seed.\<close>

definition seed_guest ::
  "services \<Rightarrow> creation_services \<Rightarrow> environment_create_dispatch \<Rightarrow> environment_create_invocation \<Rightarrow> string
   \<Rightarrow> runtime_snapshot \<Rightarrow> string \<Rightarrow> provider_outcome \<Rightarrow> guest_readiness \<Rightarrow> guest_request
   \<Rightarrow> environment_create_output workflow" where
  "seed_guest svc cre input invocation volumeID runtimeState runtimeID running ready guestRequest =
     do_step svc (ReconcileRuntimeSSHKeys guestRequest) (\<lambda>err. create_failed svc input (Some runtimeState) (Text err))
     (do_step svc (EnsureEnvironmentProjectSeedApplied (ecd_OperationID input) guestRequest
          (eci_ProjectSeedID invocation))
        (\<lambda>err. fail_create svc input (Some runtimeState) ''PROJECT_SEED_INVALID'' (Text err))
     (resolve_profile svc cre input volumeID runtimeState runtimeID running ready guestRequest))"

text \<open>The guest gets its host identity and becomes ready.\<close>

definition prepare_guest ::
  "services \<Rightarrow> creation_services \<Rightarrow> create_dependencies \<Rightarrow> environment_create_dispatch
   \<Rightarrow> environment_create_invocation \<Rightarrow> string \<Rightarrow> runtime_snapshot \<Rightarrow> string \<Rightarrow> provider_outcome
   \<Rightarrow> environment_create_output workflow" where
  "prepare_guest svc cre d input invocation volumeID runtimeState runtimeID running =
     (let guestRequest = \<lparr>gr_OwnerUserID = eci_OwnerUserID invocation, gr_EnvironmentID = ecd_EnvironmentID input,
            gr_RuntimeID = runtimeID, gr_ProviderID = pr_ProviderID (out_Runtime running),
            gr_PrivateIPv4 = pr_PrivateIPv4 (out_Runtime running)\<rparr>
      in do_step svc (RestoreEnvironmentSSHIdentity (ecd_OperationID input) guestRequest)
           (\<lambda>err. create_failed svc input (Some runtimeState) (Text err))
         (wait (waitForRuntimeGuestReadiness (dep_Polling d) svc guestRequest) (GuestReady guestRequest)
            (\<lambda>err. fail_create svc input (Some runtimeState) GuestNotReady err)
            (\<lambda>ready. seed_guest svc cre input invocation volumeID runtimeState runtimeID running ready
               (guestRequest\<lparr>gr_PrivateIPv4 := gready_PrivateIPv4 ready\<rparr>))))"

definition await_created_running ::
  "services \<Rightarrow> creation_services \<Rightarrow> create_dependencies \<Rightarrow> environment_create_dispatch
   \<Rightarrow> environment_create_invocation \<Rightarrow> string \<Rightarrow> runtime_snapshot \<Rightarrow> lifecycle_request \<Rightarrow> provider_outcome
   \<Rightarrow> environment_create_output workflow" where
  "await_created_running svc cre d input invocation volumeID runtimeState request ensured =
     wait_state (dep_Polling d) svc request ensured RuntimeStateRunning [RuntimeStatePending]
       ''wait-created-runtime-running''
       (\<lambda>err. create_failed svc input (Some runtimeState) (PollFailure err)) (\<lambda>running.
     if out_Failure running \<noteq> Text []
     then fail_create svc input (Some runtimeState) (out_FailureCode running) (out_Failure running)
     else case validateCreatedRuntimeNetworking input (lr_Spec request) (out_Runtime running) of
       Some err \<Rightarrow> create_diverged svc input (Some runtimeState) err
     | None \<Rightarrow> prepare_guest svc cre d input invocation volumeID runtimeState (spec_RuntimeID (lr_Spec request))
                 running)"

text \<open>The data volume is attached and the Runtime persisted as starting.\<close>

definition attach_created ::
  "services \<Rightarrow> creation_services \<Rightarrow> create_dependencies \<Rightarrow> environment_create_dispatch
   \<Rightarrow> environment_create_invocation \<Rightarrow> string \<Rightarrow> runtime \<Rightarrow> runtime_snapshot \<Rightarrow> lifecycle_request
   \<Rightarrow> provider_outcome \<Rightarrow> environment_create_output workflow" where
  "attach_created svc cre d input invocation volumeID provisioning runtimeState request ensured =
     call_provider svc (EnsureRuntimeDataVolumeAttachment request)
       (\<lambda>err. create_failed svc input (Some runtimeState) (Text err)) (\<lambda>attached.
     if out_Failure attached \<noteq> Text []
     then fail_create svc input (Some runtimeState) (out_FailureCode attached) (out_Failure attached)
     else case validateAttachedProviderRuntime (out_Runtime attached) request of
       Some err \<Rightarrow> create_diverged svc input (Some runtimeState) err
     | None \<Rightarrow>
         read_now svc ''begin-created-runtime-start'' (\<lambda>now.
         case BeginStart provisioning now of
           Inl err \<Rightarrow> create_failed svc input (Some runtimeState) (RuntimeFailure err)
         | Inr starting \<Rightarrow>
             persistEnvironmentCreateRuntimeTransition svc (ecd_OperationID input) runtimeState starting
               (\<lambda>err. create_failed svc input (Some runtimeState) (Text err))
               (\<lambda>runtimeState. await_created_running svc cre d input invocation volumeID runtimeState request
                  ensured)))"

definition created_spec :: "environment_create_dispatch \<Rightarrow> reservation_seed \<Rightarrow> string \<Rightarrow> string \<Rightarrow> runtime_spec" where
  "created_spec input seed runtimeID volumeID =
     \<lparr>spec_RuntimeID = runtimeID, spec_EnvironmentID = ecd_EnvironmentID input, spec_Sequence = 1,
      spec_Region = ecd_Region input, spec_AvailabilityZone = ecd_AvailabilityZone input,
      spec_RuntimePreset = ecd_RuntimePreset input, spec_ImageVersion = seed_ImageVersion seed,
      spec_DataVolumeProviderID = volumeID\<rparr>"

text \<open>The reserved Runtime is allocated and its provider identity persisted.\<close>

definition provision_created ::
  "services \<Rightarrow> creation_services \<Rightarrow> create_dependencies \<Rightarrow> environment_create_dispatch
   \<Rightarrow> environment_create_invocation \<Rightarrow> reservation_seed \<Rightarrow> string \<Rightarrow> runtime
   \<Rightarrow> environment_create_output workflow" where
  "provision_created svc cre d input invocation seed volumeID reservedRuntime =
     (let runtimeState = cloneRuntimeSnapshot reservedRuntime;
          spec = created_spec input seed (seed_RuntimeID seed) volumeID
      in call_provider svc (EnsureRuntime spec (ecd_OperationID input))
           (\<lambda>err. create_failed svc input (Some runtimeState) (Text err)) (\<lambda>ensured.
         if out_Failure ensured \<noteq> Text []
         then fail_create svc input (Some runtimeState) (out_FailureCode ensured) (out_Failure ensured)
         else
           let request = \<lparr>lr_Spec = spec, lr_ProviderID = pr_ProviderID (out_Runtime ensured)\<rparr> in
           case validateProviderRuntimeIdentity (out_Runtime ensured) request of
             Some err \<Rightarrow> create_diverged svc input (Some runtimeState) err
           | None \<Rightarrow>
               (case Provision reservedRuntime (pr_ProviderID (out_Runtime ensured)) (out_ObservedAt ensured) of
                  Inl err \<Rightarrow> create_failed svc input (Some runtimeState) (RuntimeFailure err)
                | Inr provisioning \<Rightarrow>
                    persistEnvironmentCreateRuntimeTransition svc (ecd_OperationID input) runtimeState provisioning
                      (\<lambda>err. create_failed svc input (Some runtimeState) (Text err)) (\<lambda>runtimeState.
                    if pr_State (out_Runtime ensured) \<noteq> RuntimeStatePending
                       \<and> pr_State (out_Runtime ensured) \<noteq> RuntimeStateRunning
                    then create_diverged svc input (Some runtimeState)
                           (ProvisionedStateUnusable (pr_State (out_Runtime ensured)))
                    else attach_created svc cre d input invocation volumeID provisioning runtimeState request
                           ensured))))"

definition reserve_created ::
  "services \<Rightarrow> creation_services \<Rightarrow> create_dependencies \<Rightarrow> environment_create_dispatch
   \<Rightarrow> environment_create_invocation \<Rightarrow> reservation_seed \<Rightarrow> string \<Rightarrow> environment_create_output workflow" where
  "reserve_created svc cre d input invocation seed volumeID =
     (let reservation = \<lparr>rres_ID = seed_RuntimeID seed, rres_EnvironmentID = ecd_EnvironmentID input,
            rres_Sequence = 1, rres_RuntimePreset = ecd_RuntimePreset input, rres_Region = ecd_Region input,
            rres_AvailabilityZone = ecd_AvailabilityZone input, rres_ImageVersion = seed_ImageVersion seed,
            rres_CreatedAt = seed_CreatedAt seed\<rparr>
      in ask (\<lambda>h. cre_reserve cre h (ecd_OperationID input) reservation) (ReservedInitialRuntime reservation)
           (\<lambda>err. create_failed svc input None (Text err)) (\<lambda>runtimeID.
         if runtimeID \<noteq> seed_RuntimeID seed
         then create_diverged svc input None (Text ''reserved Runtime identity diverged'')
         else case ReserveRuntime reservation of
           Inl err \<Rightarrow> create_failed svc input None (RuntimeFailure err)
         | Inr reservedRuntime \<Rightarrow> provision_created svc cre d input invocation seed volumeID reservedRuntime))"

text \<open>The identities are reserved and the State of the Environment inventoried on the volume.\<close>

definition state_reservation :: "data_volume \<Rightarrow> reservation_seed \<Rightarrow> environment_state_reservation" where
  "state_reservation volume seed =
     \<lparr>esr_WorkspaceID = seed_WorkspaceID seed, esr_HomeID = seed_HomeID seed,
      esr_ServicesID = seed_ServicesID seed, esr_CacheID = seed_CacheID seed,
      esr_BackendResourceID = seed_BackendResourceID seed, esr_Provider = vol_Provider volume,
      esr_ProviderID = vol_ProviderID volume,
      esr_Metadata = json_object [(''availabilityZone'', json_string (vol_AvailabilityZone volume))],
      esr_CreatedAt = seed_CreatedAt seed\<rparr>"

definition inventory_volume ::
  "services \<Rightarrow> creation_services \<Rightarrow> create_dependencies \<Rightarrow> environment_create_dispatch
   \<Rightarrow> environment_create_invocation \<Rightarrow> data_volume \<Rightarrow> environment_create_output workflow" where
  "inventory_volume svc cre d input invocation volume =
     (let failed = create_failed svc input None in
      ask (\<lambda>h. case cre_identities cre h of
                 Inl err \<Rightarrow> Inl err
               | Inr seed \<Rightarrow> Inr (seed\<lparr>seed_ImageVersion := dep_ImageVersion d\<rparr>))
        ReservedCreationIdentities (\<lambda>err. failed (Text err)) (\<lambda>seed.
      ask (\<lambda>h. cre_inventory cre h (ecd_OperationID input) (state_reservation volume seed))
        (InventoriedState (state_reservation volume seed)) (\<lambda>err. failed (Text err))
        (\<lambda>volumeID. reserve_created svc cre d input invocation seed volumeID)))"

definition ensure_volume ::
  "services \<Rightarrow> creation_services \<Rightarrow> create_dependencies \<Rightarrow> environment_create_dispatch
   \<Rightarrow> environment_create_invocation \<Rightarrow> environment_create_output workflow" where
  "ensure_volume svc cre d input invocation =
     (let request = \<lparr>edv_EnvironmentID = ecd_EnvironmentID input, edv_OperationID = ecd_OperationID input,
            edv_Region = ecd_Region input, edv_AvailabilityZone = ecd_AvailabilityZone input\<rparr>
      in ask (\<lambda>h. cre_volume cre h request) (EnsuredDataVolume request)
           (\<lambda>err. create_failed svc input None (Text err)) (\<lambda>volume.
         case validateDataVolume input volume of
           Some err \<Rightarrow> create_diverged svc input None err
         | None \<Rightarrow> inventory_volume svc cre d input invocation volume))"

definition create_Run ::
  "services \<Rightarrow> creation_services \<Rightarrow> create_dependencies \<Rightarrow> string \<Rightarrow> environment_create_dispatch
   \<Rightarrow> environment_create_output workflow" where
  "create_Run svc cre d key input =
     (if key \<noteq> ecd_OperationID input then fail WorkflowKeyMismatch
      else if \<not> dep_Actions d \<or> \<not> dep_Now d
      then fail (TerminalFailure (Text ''Environment create workflow projection dependencies are incomplete''))
      else ask (\<lambda>h. cre_invocation cre h (ecd_OperationID input)) RecordedCreateInvocation
             (\<lambda>err. create_failed svc input None (Text err)) (\<lambda>invocation.
           case validateEnvironmentCreateInvocation input invocation of
             Some err \<Rightarrow> create_failed svc input None err
           | None \<Rightarrow>
               (case validateEnvironmentCreateDependencies d of
                  Some err \<Rightarrow> create_failed svc input None err
                | None \<Rightarrow> ensure_volume svc cre d input invocation)))"

end
