(* ===== verification/Creation_Safety.thy ===== *)
theory Creation_Safety
  imports Environment_Create Replacement_Safety
begin

text \<open>
  What the creation of an Environment guarantees: compute is allocated on an inventoried data volume only, the
  guest is prepared with the identities the store holds, the creation completes only after every part of it is
  in place, and a failing creation leaves its Runtime marked as failed.
\<close>

section \<open>What the workflow may do\<close>

text \<open>
  The Runtime of the creation as the store holds it: reserved under the requested identity, then replaced by
  each persisted transition.
\<close>

definition created_after :: "runtime_snapshot option \<Rightarrow> event \<Rightarrow> runtime_snapshot option" where
  "created_after current e =
     (case e of
        ReservedInitialRuntime reservation (Inr runtimeID) \<Rightarrow>
          (case ReserveRuntime reservation of
             Inr rt \<Rightarrow> if runtimeID = rres_ID reservation then Some (cloneRuntimeSnapshot rt) else current
           | Inl err \<Rightarrow> current)
      | Did (PersistEnvironmentCreateRuntimeTransition operationID version snapshot) None \<Rightarrow> Some snapshot
      | _ \<Rightarrow> current)"

definition created :: "trace \<Rightarrow> runtime_snapshot option" where
  "created h = foldl created_after None h"

lemma created_Nil [simp]: "created [] = None"
  by (simp add: created_def)

lemma created_log [simp]: "created (log h e) = created_after (created h) e"
  by (simp add: created_def log_def)

definition invocation_recorded ::
  "environment_create_dispatch \<Rightarrow> environment_create_invocation \<Rightarrow> trace \<Rightarrow> bool" where
  "invocation_recorded input invocation h \<longleftrightarrow>
     RecordedCreateInvocation (Inr invocation) \<in> set h \<and> validateEnvironmentCreateInvocation input invocation = None"

definition volume_inventoried :: "environment_create_dispatch \<Rightarrow> string \<Rightarrow> trace \<Rightarrow> bool" where
  "volume_inventoried input volumeID h \<longleftrightarrow>
     (\<exists>request volume seed. EnsuredDataVolume request (Inr volume) \<in> set h \<and> validateDataVolume input volume = None
        \<and> InventoriedState (state_reservation volume seed) (Inr volumeID) \<in> set h)"

text \<open>
  Before compute is allocated: the volume is inventoried, and the request is for the Runtime the store has
  reserved in the placement of the dispatch.
\<close>

definition allocate_ok :: "environment_create_dispatch \<Rightarrow> runtime_spec \<Rightarrow> trace \<Rightarrow> bool" where
  "allocate_ok input spec h \<longleftrightarrow>
     (\<exists>invocation volumeID rt. invocation_recorded input invocation h \<and> volume_inventoried input volumeID h
        \<and> created h = Some rt \<and> rt_Status rt = RuntimeAbsent \<and> spec = replacement_spec rt volumeID
        \<and> spec_EnvironmentID spec = ecd_EnvironmentID input \<and> spec_Region spec = ecd_Region input
        \<and> spec_AvailabilityZone spec = ecd_AvailabilityZone input)"

definition hosted ::
  "environment_create_dispatch \<Rightarrow> environment_create_invocation \<Rightarrow> string \<Rightarrow> lifecycle_request
   \<Rightarrow> runtime_snapshot \<Rightarrow> trace \<Rightarrow> bool" where
  "hosted input invocation volumeID request rt h \<longleftrightarrow>
     invocation_recorded input invocation h \<and> volume_inventoried input volumeID h
     \<and> created h = Some rt \<and> runtime_valid rt \<and> lr_Spec request = replacement_spec rt volumeID
     \<and> rt_ProviderInstanceRef rt = Some (lr_ProviderID request)"

definition created_attach_ok :: "environment_create_dispatch \<Rightarrow> lifecycle_request \<Rightarrow> trace \<Rightarrow> bool" where
  "created_attach_ok input request h \<longleftrightarrow> (\<exists>invocation volumeID rt. hosted input invocation volumeID request rt h)"

text \<open>
  The guest the requests address: the owner is the one of the store, the address is private and was reported
  by the guest with its data mounted.
\<close>

definition guest_of ::
  "environment_create_dispatch \<Rightarrow> environment_create_invocation \<Rightarrow> runtime_snapshot \<Rightarrow> guest_request \<Rightarrow> bool" where
  "guest_of input invocation rt guest \<longleftrightarrow>
     gr_OwnerUserID guest = eci_OwnerUserID invocation \<and> gr_EnvironmentID guest = ecd_EnvironmentID input
     \<and> gr_RuntimeID guest = rt_ID rt \<and> rt_ProviderInstanceRef rt = Some (gr_ProviderID guest)
     \<and> private_ipv4 (gr_PrivateIPv4 guest)"

definition guest_up ::
  "environment_create_dispatch \<Rightarrow> environment_create_invocation \<Rightarrow> runtime_snapshot \<Rightarrow> guest_request
   \<Rightarrow> guest_readiness \<Rightarrow> trace \<Rightarrow> bool" where
  "guest_up input invocation rt guest ready h \<longleftrightarrow>
     guest_of input invocation rt guest
     \<and> Did (RestoreEnvironmentSSHIdentity (ecd_OperationID input) guest) None \<in> set h
     \<and> guest_mounted (rt_ID rt) guest ready h"

definition guest_seeded ::
  "environment_create_dispatch \<Rightarrow> environment_create_invocation \<Rightarrow> runtime_snapshot \<Rightarrow> guest_request
   \<Rightarrow> guest_readiness \<Rightarrow> trace \<Rightarrow> bool" where
  "guest_seeded input invocation rt guest ready h \<longleftrightarrow>
     guest_up input invocation rt guest ready h \<and> Did (ReconcileRuntimeSSHKeys guest) None \<in> set h
     \<and> Did (EnsureEnvironmentProjectSeedApplied (ecd_OperationID input) guest (eci_ProjectSeedID invocation)) None \<in> set h"

definition capsule_installed :: "environment_create_dispatch \<Rightarrow> guest_request \<Rightarrow> trace \<Rightarrow> bool" where
  "capsule_installed input guest h \<longleftrightarrow>
     (\<exists>state results. MaterializedCapsule (ecd_OperationID input) guest state (Inr results) \<in> set h
        \<and> validateEnvironmentCapsuleState input state = None
        \<and> validateEnvironmentMaterializationResults (ecs_CapsuleLock state) results = None
        \<and> Did (PersistEnvironmentCapsuleState (ecd_OperationID input)
            (state\<lparr>ecs_ApplyResults := results,
                   ecs_Materializations := InstalledMaterializationsFromResults results\<rparr>)) None \<in> set h)"

definition credentials_settled :: "environment_create_dispatch \<Rightarrow> guest_request \<Rightarrow> trace \<Rightarrow> bool" where
  "credentials_settled input guest h \<longleftrightarrow>
     (\<exists>binding. BoundCredentials (ecd_OperationID input) guest (Inr binding) \<in> set h
        \<and> cbo_Status binding \<in> {EnvironmentCredentialsBound, EnvironmentCredentialsNotRequired})
     \<and> Did (ValidateEnvironmentToolchain (ecd_OperationID input) guest) None \<in> set h"

definition creation_complete_ok ::
  "environment_create_dispatch \<Rightarrow> string \<Rightarrow> runtime_snapshot \<Rightarrow> trace \<Rightarrow> bool" where
  "creation_complete_ok input volumeID rt h \<longleftrightarrow>
     (\<exists>invocation request guest ready. hosted input invocation volumeID request rt h
        \<and> guest_seeded input invocation rt guest ready h \<and> capsule_installed input guest h
        \<and> credentials_settled input guest h
        \<and> rt_Status rt = RuntimeReady \<and> rt_PrivateAddress rt = Some (gready_PrivateIPv4 ready)
        \<and> rt_BootID rt = Some (gready_BootID ready))"

definition outcome_ok :: "environment_create_dispatch \<Rightarrow> create_operation_outcome \<Rightarrow> trace \<Rightarrow> bool" where
  "outcome_ok input outcome h \<longleftrightarrow>
     coo_Code outcome \<noteq> [] \<and> coo_Message outcome \<noteq> Text []
     \<and> (coo_Kind outcome = EnvironmentCreateOutcomeFailed
        \<or> coo_Kind outcome = EnvironmentCreateOutcomeRequiresInput
          \<and> (\<exists>guest binding. BoundCredentials (ecd_OperationID input) guest (Inr binding) \<in> set h
               \<and> cbo_Status binding = EnvironmentCredentialsRequireInput
               \<and> coo_Code outcome = CredentialRequired \<and> coo_Message outcome = Text (cbo_Message binding)))"

text \<open>Steps that are allowed at any time.\<close>

definition create_neutral :: "event \<Rightarrow> bool" where
  "create_neutral e =
     (case e of
        Did (RestoreEnvironmentSSHIdentity operationID guest) answer \<Rightarrow> True
      | Did (ReconcileRuntimeSSHKeys guest) answer \<Rightarrow> True
      | Did (ValidateEnvironmentToolchain operationID guest) answer \<Rightarrow> True
      | Did (PersistEnvironmentCapsuleState operationID state) answer \<Rightarrow> True
      | Waited place request answer \<Rightarrow> True
      | GuestReady guest answer \<Rightarrow> True
      | RecordedCreateInvocation answer \<Rightarrow> True
      | EnsuredDataVolume request answer \<Rightarrow> True
      | ReservedCreationIdentities answer \<Rightarrow> True
      | InventoriedState reservation answer \<Rightarrow> True
      | ResolvedProfileVersion at answer \<Rightarrow> True
      | MaterializedCapsule operationID guest state answer \<Rightarrow> True
      | BoundCredentials operationID guest answer \<Rightarrow> True
      | _ \<Rightarrow> False)"

text \<open>A creation makes no call of the provider but the two that allocate and attach.\<close>

definition create_guard :: "environment_create_dispatch \<Rightarrow> trace \<Rightarrow> event \<Rightarrow> bool" where
  "create_guard input h e =
     (case e of
        ReservedInitialRuntime reservation answer \<Rightarrow> (\<exists>volumeID. volume_inventoried input volumeID h)
      | Called (EnsureRuntime spec operationID) answer \<Rightarrow> allocate_ok input spec h
      | Called (EnsureRuntimeDataVolumeAttachment request) answer \<Rightarrow> created_attach_ok input request h
      | Did (PersistEnvironmentCreateRuntimeTransition operationID version snapshot) answer \<Rightarrow>
          (\<exists>current. created h = Some current \<and> version = rt_Version current \<and> domain_step current snapshot)
      | Did (EnsureEnvironmentProjectSeedApplied operationID guest seedID) answer \<Rightarrow>
          (\<exists>invocation rt ready. invocation_recorded input invocation h \<and> created h = Some rt
             \<and> seedID = eci_ProjectSeedID invocation \<and> guest_up input invocation rt guest ready h)
      | Did (RecordEnvironmentCreateOutcome operationID outcome at) answer \<Rightarrow> outcome_ok input outcome h
      | Did (CompleteEnvironmentCreation operationID at) answer \<Rightarrow>
          (\<exists>volumeID rt. creation_complete_ok input volumeID rt h)
      | _ \<Rightarrow> create_neutral e)"

lemma create_neutral_events [simp]:
  "create_neutral (Did (RestoreEnvironmentSSHIdentity operationID guest) done)"
  "create_neutral (Did (ReconcileRuntimeSSHKeys guest) done)"
  "create_neutral (Did (ValidateEnvironmentToolchain operationID guest) done)"
  "create_neutral (Did (PersistEnvironmentCapsuleState operationID state) done)"
  "create_neutral (Waited place request waited)"
  "create_neutral (GuestReady guest readiness)"
  "create_neutral (RecordedCreateInvocation invocation)"
  "create_neutral (EnsuredDataVolume volume ensured)"
  "create_neutral (ReservedCreationIdentities identities)"
  "create_neutral (InventoriedState reservation inventoried)"
  "create_neutral (ResolvedProfileVersion at resolved)"
  "create_neutral (MaterializedCapsule operationID guest capsules results)"
  "create_neutral (BoundCredentials operationID guest binding)"
  by (simp_all add: create_neutral_def)

lemma create_neutral_keeps [simp]:
  assumes "create_neutral e"
  shows "created_after current e = current" and "create_guard input h e"
  using assms by (auto simp: create_neutral_def created_after_def create_guard_def
      split: event.splits call.splits option.splits)

section \<open>Facts that last\<close>

lemma invocation_recorded_log [lasting]:
  "invocation_recorded input invocation h \<Longrightarrow> invocation_recorded input invocation (log h e)"
  by (simp add: invocation_recorded_def)

lemma volume_inventoried_log [lasting]:
  "volume_inventoried input volumeID h \<Longrightarrow> volume_inventoried input volumeID (log h e)"
  unfolding volume_inventoried_def by auto

lemma hosted_log [lasting]:
  "hosted input invocation volumeID request rt h \<Longrightarrow> created_after (created h) e = created h
   \<Longrightarrow> hosted input invocation volumeID request rt (log h e)"
  by (auto simp: hosted_def intro: lasting)

lemma guest_up_log [lasting]:
  "guest_up input invocation rt guest ready h \<Longrightarrow> guest_up input invocation rt guest ready (log h e)"
  by (auto simp: guest_up_def intro: lasting)

lemma guest_seeded_log [lasting]:
  "guest_seeded input invocation rt guest ready h \<Longrightarrow> guest_seeded input invocation rt guest ready (log h e)"
  by (auto simp: guest_seeded_def intro: lasting)

lemma capsule_installed_log [lasting]: "capsule_installed input guest h \<Longrightarrow> capsule_installed input guest (log h e)"
  unfolding capsule_installed_def by auto

lemma credentials_settled_log [lasting]:
  "credentials_settled input guest h \<Longrightarrow> credentials_settled input guest (log h e)"
  unfolding credentials_settled_def by auto

lemma hosted_persisted:
  assumes "hosted input invocation volumeID request rt h" and "domain_step rt nxt"
  shows "hosted input invocation volumeID request nxt
    (log h (Did (PersistEnvironmentCreateRuntimeTransition operationID version nxt) None))"
  using assms(1) domain_step_keeps [OF assms(2)] replacement_spec_identity [OF domain_step_keeps(2) [OF assms(2)]]
  by (auto simp: hosted_def created_after_def intro: lasting)

text \<open>A guest keeps its address over a step of its Runtime.\<close>

lemma guest_seeded_step:
  "guest_seeded input invocation rt guest ready h \<Longrightarrow> domain_step rt nxt
   \<Longrightarrow> guest_seeded input invocation nxt guest ready h"
  using domain_step_keeps(2,3) [of rt nxt]
  by (auto simp: guest_seeded_def guest_up_def guest_of_def runtime_identity_def)

lemma evaluate_readiness_done:
  "evaluate_readiness request outcome t = (val, True) \<Longrightarrow> ro_Failure val = []
   \<Longrightarrow> gready_DataMounted (ro_Readiness val) \<and> gready_BootID (ro_Readiness val) \<noteq> []
     \<and> gready_PrivateIPv4 (ro_Readiness val) = gr_PrivateIPv4 request"
  by (auto simp: evaluate_readiness_def Let_def split: if_splits)

text \<open>A guest that is waited for is ready on its current boot, with its data mounted, at the requested address.\<close>

lemma guest_readiness_reached:
  assumes "waitForRuntimeGuestReadiness cfg svc request h = WaitEnded ready"
  shows "gready_DataMounted ready" and "gready_BootID ready \<noteq> []"
    and "gready_PrivateIPv4 ready = gr_PrivateIPv4 request"
proof -
  from assms obtain poll
    where "\<not> res_timedOut poll" and ok: "ro_Failure (res_value poll) = []" "ready = ro_Readiness (res_value poll)"
      and poll: "durableDeadlinePoll (wc_fuel cfg) zero_readiness (svc_ready_start svc h) None
             \<lparr>cfg_startedAt = zero_time,
              cfg_timeout = or_default (wc_GuestPollTimeout cfg) defaultProviderPollTimeout,
              cfg_initialDelay = or_default (wc_GuestPollInterval cfg) defaultProviderPollInterval,
              cfg_maxDelay = 30 * 1000000000, cfg_stepPrefix = ''wait-created-runtime-guest-ready'',
              cfg_readStepPrefix = ''read-created-runtime-guest-readiness''\<rparr>
             (readiness_journal svc h request) (evaluate_readiness request) None = Some (Inr poll)"
    unfolding waitForRuntimeGuestReadiness_def by (auto split: option.splits sum.splits if_splits)
  with poll_sound [OF poll] obtain v t where "evaluate_readiness request v t = (res_value poll, True)" by auto
  from evaluate_readiness_done [OF this ok(1)] ok(2)
  show "gready_DataMounted ready" and "gready_BootID ready \<noteq> []"
    and "gready_PrivateIPv4 ready = gr_PrivateIPv4 request" by simp_all
qed

section \<open>Every phase respects the guard\<close>

text \<open>A command on a Runtime in memory is the same step of its snapshot.\<close>

lemma clone_runtime_idem [simp]: "cloneRuntimeSnapshot (cloneRuntimeSnapshot rt) = cloneRuntimeSnapshot rt"
proof -
  have "utc (utc t) = utc t" for t by (simp add: utc_def)
  then show ?thesis by (cases rt) (simp add: cloneRuntimeSnapshot_def option.map_comp comp_def)
qed

lemma transition_clone: "runtime_transition (cloneRuntimeSnapshot rt) at = runtime_transition rt at"
  by (simp add: runtime_transition_def)

lemma live_commands:
  "Provision rt ref at = Inr rt' \<Longrightarrow> Provision (cloneRuntimeSnapshot rt) ref at = Inr rt'
     \<or> rt' = rt \<and> Provision (cloneRuntimeSnapshot rt) ref at = Inr (cloneRuntimeSnapshot rt)"
  "BeginStart rt at = Inr rt' \<Longrightarrow> BeginStart (cloneRuntimeSnapshot rt) at = Inr rt'
     \<or> rt' = rt \<and> BeginStart (cloneRuntimeSnapshot rt) at = Inr (cloneRuntimeSnapshot rt)"
  by (auto simp: Provision_def BeginStart_def transition_clone split: sum.splits if_splits)

lemma live_step:
  assumes "runtime_valid rt"
  shows "Provision rt ref at = Inr rt' \<Longrightarrow> domain_step (cloneRuntimeSnapshot rt) (cloneRuntimeSnapshot rt')"
    and "BeginStart rt at = Inr rt' \<Longrightarrow> domain_step (cloneRuntimeSnapshot rt) (cloneRuntimeSnapshot rt')"
proof -
  have restored: "RestoreRuntime (cloneRuntimeSnapshot rt) = Inr (cloneRuntimeSnapshot rt)"
    using assms by (simp add: RestoreRuntime_Inr_iff)
  show "Provision rt ref at = Inr rt' \<Longrightarrow> domain_step (cloneRuntimeSnapshot rt) (cloneRuntimeSnapshot rt')"
    using live_commands(1) domain_stepI [OF restored, of "CmdProvision ref at"] by fastforce
  show "BeginStart rt at = Inr rt' \<Longrightarrow> domain_step (cloneRuntimeSnapshot rt) (cloneRuntimeSnapshot rt')"
    using live_commands(2) domain_stepI [OF restored, of "CmdBeginStart at"] by fastforce
qed

lemma failed_status:
  "MarkProvisionError rt at = Inr rt' \<Longrightarrow> rt_Status rt' = RuntimeError"
  "MarkError rt observation = Inr rt' \<Longrightarrow> rt_Status rt' = RuntimeError"
  by (auto simp: MarkProvisionError_def MarkError_def runtime_step_facts Let_def
      split: sum.splits if_splits option.splits)

lemma valid_named: "runtime_valid rt \<Longrightarrow> rt_ID rt \<noteq> []"
  by (auto simp: runtime_valid_def validateRuntimeSnapshot_def runtime_required_def split: if_splits option.splits)

lemma failed_runtime_step:
  assumes "RestoreRuntime rt = Inr restored" and "failed_runtime rt restored now = Inr failed"
    and "rt_Status rt = RuntimeAbsent \<or> rt_ProviderInstanceRef rt \<noteq> None"
  shows "domain_step rt (cloneRuntimeSnapshot failed)" and "rt_Status failed = RuntimeError" and "rt_ID failed \<noteq> []"
proof -
  show step: "domain_step rt (cloneRuntimeSnapshot failed)"
    using assms domain_steps(5) domain_stepI [OF assms(1), of "CmdMarkProvisionError now"]
    by (auto simp: failed_runtime_def split: if_splits)
  from domain_step_keeps(1) [OF this] show "rt_ID failed \<noteq> []"
    using valid_named by simp
  show "rt_Status failed = RuntimeError"
    using assms by (auto simp: failed_runtime_def dest: failed_status split: if_splits)
qed

lemma complete_outcome_facts [simp]:
  "coo_Code (complete_outcome outcome) \<noteq> []" "coo_Message (complete_outcome outcome) \<noteq> Text []"
  "coo_Kind outcome \<noteq> EnvironmentCreateOutcomeOther [] \<Longrightarrow> coo_Kind (complete_outcome outcome) = coo_Kind outcome"
  by (auto simp: complete_outcome_def Let_def EnvironmentCreateFailed_def)

text \<open>
  How a creation may end.  One that returns has completed last.  One that fails its Operation has recorded that
  last, and the Runtime the store holds is then marked as failed unless the user has to provide credentials; one that could
  not mark the Runtime has recorded its outcome last as well.
\<close>

definition failed_recorded ::
  "environment_create_dispatch \<Rightarrow> string \<Rightarrow> failure_message \<Rightarrow> create_operation_outcome \<Rightarrow> trace \<Rightarrow> bool" where
  "failed_recorded input code message outcome h \<longleftrightarrow>
     coo_Code outcome = code \<and> coo_Message outcome = message \<and> outcome_ok input outcome h
     \<and> (\<forall>rt. coo_Kind outcome = EnvironmentCreateOutcomeFailed \<longrightarrow> created h = Some rt \<longrightarrow> rt_Status rt = RuntimeError)"

definition create_end ::
  "environment_create_dispatch \<Rightarrow> environment_create_output outcome \<Rightarrow> trace \<Rightarrow> bool" where
  "create_end input r h \<longleftrightarrow>
     safe (create_guard input) h \<and> r \<noteq> Panicked
     \<and> (\<forall>out. r = Returned out \<longrightarrow>
          (\<exists>earlier at rt. h = log earlier (Did (CompleteEnvironmentCreation (ecd_OperationID input) at) None)
             \<and> creation_complete_ok input (eco_DataVolumeProviderID out) rt earlier \<and> eco_RuntimeID out = rt_ID rt))
     \<and> (\<forall>code message. r = Failed (OperationFailed code message) \<longrightarrow>
          (\<exists>earlier outcome at.
             h = log earlier (Did (RecordEnvironmentCreateOutcome (ecd_OperationID input) outcome at) None)
             \<and> failed_recorded input code message outcome earlier))
     \<and> (\<forall>code message problem. r = Failed (TransitionFailed code message problem) \<longrightarrow>
          (\<exists>earlier outcome at.
             h = log earlier (Did (RecordEnvironmentCreateOutcome (ecd_OperationID input) outcome at) None)
             \<and> coo_Code outcome = code \<and> coo_Message outcome = message \<and> outcome_ok input outcome earlier))"

lemma create_end_simps [simp]:
  "create_end input (Failed (StepFailed message)) h \<longleftrightarrow> safe (create_guard input) h"
  "create_end input (Failed WorkflowKeyMismatch) h \<longleftrightarrow> safe (create_guard input) h"
  "create_end input (Failed (TerminalFailure message)) h \<longleftrightarrow> safe (create_guard input) h"
  "create_end input OutOfFuel h \<longleftrightarrow> safe (create_guard input) h"
  by (auto simp: create_end_def)

lemma create_persist_allowed:
  "created h = Some rt \<Longrightarrow> domain_step rt nxt \<Longrightarrow>
   create_guard input h (Did (PersistEnvironmentCreateRuntimeTransition operationID (rt_Version rt) nxt) answer)"
  by (simp add: create_guard_def)

lemma wp_persistCreated:
  "(\<And>err. wp (onError err) Q (log h (Did (PersistEnvironmentCreateRuntimeTransition operationID (rt_Version rt)
       (cloneRuntimeSnapshot changed)) (Some err))))
   \<Longrightarrow> wp (continue (cloneRuntimeSnapshot changed)) Q (log h (Did (PersistEnvironmentCreateRuntimeTransition operationID
       (rt_Version rt) (cloneRuntimeSnapshot changed)) None))
   \<Longrightarrow> wp (persistEnvironmentCreateRuntimeTransition svc operationID rt changed onError continue) Q h"
  unfolding persistEnvironmentCreateRuntimeTransition_def Let_def by (intro wp_rules)

lemmas create_rules = wp_rules wp_wait_state wp_persistCreated

lemma record_ends:
  assumes "safe (create_guard input) h" and "outcome_ok input outcome h"
    and "problem = None \<Longrightarrow> failed_recorded input (coo_Code outcome) (coo_Message outcome) outcome h"
  shows "wp (record_create_outcome svc (ecd_OperationID input) outcome problem) (create_end input) h"
proof -
  have allowed: "create_guard input h (Did (RecordEnvironmentCreateOutcome operationID outcome at) answer)"
    for operationID at answer
    using assms(2) by (simp add: create_guard_def)
  show ?thesis
    unfolding record_create_outcome_def
    by (intro create_rules) (use assms allowed in \<open>auto simp: create_end_def\<close>)
qed

text \<open>A failure with the Runtime the store holds, or before there is one.\<close>

lemma fail_create_ends:
  assumes "safe (create_guard input) h" and "created h = found"
    and "\<And>rt. found = Some rt \<Longrightarrow> runtime_valid rt \<and> (rt_Status rt = RuntimeAbsent \<or> rt_ProviderInstanceRef rt \<noteq> None)"
  shows "wp (fail_create svc input found code message) (create_end input) h"
proof -
  let ?outcome = "complete_outcome \<lparr>coo_Kind = EnvironmentCreateOutcomeFailed, coo_Code = code, coo_Message = message\<rparr>"
  have ok: "outcome_ok input ?outcome h'" for h' by (simp add: outcome_ok_def)
  have recorded: "failed_recorded input (coo_Code ?outcome) (coo_Message ?outcome) ?outcome h'"
    if "\<And>rt. created h' = Some rt \<Longrightarrow> rt_Status rt = RuntimeError" for h'
    using that ok by (simp add: failed_recorded_def)
  show ?thesis
  proof (cases found)
    case None
    with assms show ?thesis
      unfolding failEnvironmentCreation_def Let_def by (auto intro!: record_ends ok recorded)
  next
    case (Some rt)
    then have rt: "created h = Some rt" "runtime_valid rt"
      "rt_Status rt = RuntimeAbsent \<or> rt_ProviderInstanceRef rt \<noteq> None" using assms by auto
    then have restored: "RestoreRuntime rt = Inr (cloneRuntimeSnapshot rt)" by (simp add: valid_restores)
    note step = failed_runtime_step [OF restored _ rt(3)]
    have allowed: "create_guard input h (Did (PersistEnvironmentCreateRuntimeTransition operationID (rt_Version rt)
        (cloneRuntimeSnapshot failed)) answer)"
      if "failed_runtime rt (cloneRuntimeSnapshot rt) now = Inr failed" for operationID failed answer now
      using rt(1) step(1) [OF that] by (rule create_persist_allowed)
    show ?thesis
      unfolding failEnvironmentCreation_def Let_def Some restored
      by (simp, intro conjI impI create_rules record_ends ok recorded)
        (use assms(1) rt restored allowed step in \<open>auto simp: created_after_def\<close>)
  qed
qed

lemma hosted_fails:
  "safe (create_guard input) h \<Longrightarrow> hosted input invocation volumeID request rt h
   \<Longrightarrow> wp (fail_create svc input (Some rt) code message) (create_end input) h"
  by (rule fail_create_ends) (auto simp: hosted_def)

lemma complete_ends:
  assumes "safe (create_guard input) h" and "hosted input invocation volumeID request rt h"
    and "creation_complete_ok input volumeID rt h"
  shows "wp (complete_creation svc input volumeID rt (rt_ID rt)) (create_end input) h"
proof -
  have allowed: "create_guard input h (Did (CompleteEnvironmentCreation operationID at) answer)" for operationID at answer
    using assms(3) by (auto simp: create_guard_def)
  have kept: "hosted input invocation volumeID request rt (log h (Did (CompleteEnvironmentCreation operationID at) answer))"
    for operationID at answer
    using assms(2) by (rule hosted_log) (simp add: created_after_def)
  show ?thesis
    unfolding complete_creation_def
    by (intro create_rules hosted_fails [where request = request and invocation = invocation and volumeID = volumeID])
      (use assms allowed kept in \<open>auto simp: create_end_def\<close>)
qed

lemma created_ready_ends:
  assumes "safe (create_guard input) h" and "hosted input invocation volumeID request rt h"
    and "guest_seeded input invocation rt guest ready h" and "capsule_installed input guest h"
    and "credentials_settled input guest h"
  shows "wp (mark_created_ready svc input volumeID rt (rt_ID rt) running ready) (create_end input) h"
proof -
  have rt: "created h = Some rt" using assms(2) by (simp add: hosted_def)
  let ?persist = "\<lambda>marked. Did (PersistEnvironmentCreateRuntimeTransition (ecd_OperationID input) (rt_Version rt)
      (cloneRuntimeSnapshot marked))"
  have marked: "create_guard input h (?persist marked answer)"
    "hosted input invocation volumeID request rt (log h (?persist marked (Some err)))"
    "wp (complete_creation svc input volumeID (cloneRuntimeSnapshot marked) (rt_ID rt)) (create_end input)
       (log h (?persist marked None))"
    if restored: "RestoreRuntime rt = Inr live" and ready: "MarkReady live \<lparr>ready_ProviderInstanceRef = ref,
      ready_BootID = gready_BootID ready, ready_PrivateAddress = gready_PrivateIPv4 ready,
      ready_ExpectedVersion = version, ready_ObservedAt = at\<rparr> = Inr marked"
    for live ref version at marked answer err
  proof -
    note step = domain_steps(2) [OF that]
    show allowed: "create_guard input h (?persist marked answer)" for answer
      using rt step by (rule create_persist_allowed)
    show "hosted input invocation volumeID request rt (log h (?persist marked (Some err)))"
      using assms(2) by (rule hosted_log) (simp add: created_after_def)
    let ?h = "log h (?persist marked None)"
    have same: "rt_ID marked = rt_ID rt"
      using domain_step_keeps(2) [OF step] by (simp add: runtime_identity_def)
    have hosted: "hosted input invocation volumeID request (cloneRuntimeSnapshot marked) ?h"
      using assms(2) step by (rule hosted_persisted)
    moreover have "guest_seeded input invocation (cloneRuntimeSnapshot marked) guest ready ?h"
      using guest_seeded_step [OF assms(3) step] by (rule guest_seeded_log)
    ultimately have "creation_complete_ok input volumeID (cloneRuntimeSnapshot marked) ?h"
      using MarkReady_fields [OF ready] assms(4,5) by (auto simp: creation_complete_ok_def intro: lasting)
    from complete_ends [OF _ hosted this, of svc] allowed assms(1)
    show "wp (complete_creation svc input volumeID (cloneRuntimeSnapshot marked) (rt_ID rt)) (create_end input) ?h"
      by (simp add: same)
  qed
  show ?thesis
    unfolding mark_created_ready_def
    by (intro create_rules hosted_fails [where request = request and invocation = invocation and volumeID = volumeID] marked(3))
      (use assms(1,2) marked(1,2) in auto)
qed

lemma bind_ends:
  assumes "safe (create_guard input) h" and "hosted input invocation volumeID request rt h"
    and "guest_seeded input invocation rt guest ready h" and "capsule_installed input guest h"
  shows "wp (bind_credentials svc cre input volumeID rt (rt_ID rt) running ready guest) (create_end input) h"
proof -
  have input_needed: "wp (failEnvironmentCreation svc (ecd_OperationID input) None
      \<lparr>coo_Kind = EnvironmentCreateOutcomeRequiresInput, coo_Code = cbo_Code binding,
       coo_Message = Text (cbo_Message binding)\<rparr>) (create_end input)
      (log h (BoundCredentials (ecd_OperationID input) guest (Inr binding)))"
    if "validateCredentialBindingOutcome binding = None" "cbo_Status binding = EnvironmentCredentialsRequireInput"
    for binding
  proof -
    let ?outcome = "\<lparr>coo_Kind = EnvironmentCreateOutcomeRequiresInput, coo_Code = cbo_Code binding,
       coo_Message = Text (cbo_Message binding)\<rparr>" and ?h = "log h (BoundCredentials (ecd_OperationID input) guest (Inr binding))"
    have "cbo_Code binding = CredentialRequired" "cbo_Message binding \<noteq> []"
      using that by (auto simp: validateCredentialBindingOutcome_def Let_def split: if_splits)
    then have "complete_outcome ?outcome = ?outcome" and ok: "outcome_ok input ?outcome ?h"
      using that(2) by (auto simp: complete_outcome_def outcome_ok_def CredentialRequired_def)
    with assms(1) show ?thesis
      unfolding failEnvironmentCreation_def Let_def
      by (auto intro!: record_ends simp: failed_recorded_def)
  qed
  have settled: "credentials_settled input guest (log (log h (BoundCredentials (ecd_OperationID input) guest (Inr binding)))
      (Did (ValidateEnvironmentToolchain (ecd_OperationID input) guest) None))"
    if "validateCredentialBindingOutcome binding = None" "cbo_Status binding \<noteq> EnvironmentCredentialsRequireInput" for binding
    using that unfolding credentials_settled_def
    by (auto simp: validateCredentialBindingOutcome_def Let_def split: credential_binding_status.splits)
  show ?thesis
    unfolding bind_credentials_def Let_def
    by (intro create_rules hosted_fails [where request = request and invocation = invocation and volumeID = volumeID]
        created_ready_ends [where request = request and invocation = invocation and guest = guest] input_needed settled)
      (use assms in \<open>auto intro!: lasting\<close>)
qed

lemma materialize_ends:
  assumes "safe (create_guard input) h" and "hosted input invocation volumeID request rt h"
    and "guest_seeded input invocation rt guest ready h" and "validateEnvironmentCapsuleState input state = None"
  shows "wp (materialize_capsule svc cre input volumeID rt (rt_ID rt) running ready guest state) (create_end input) h"
proof -
  have installed: "capsule_installed input guest (log (log h (MaterializedCapsule (ecd_OperationID input) guest state (Inr results)))
      (Did (PersistEnvironmentCapsuleState (ecd_OperationID input) (state\<lparr>ecs_ApplyResults := results,
         ecs_Materializations := InstalledMaterializationsFromResults results\<rparr>)) None))"
    if "validateEnvironmentMaterializationResults (ecs_CapsuleLock state) results = None" for results
    unfolding capsule_installed_def
    by (intro exI [where x = state] exI [where x = results]) (simp add: assms(4) that)
  show ?thesis
    unfolding materialize_capsule_def Let_def
    by (intro create_rules hosted_fails [where request = request and invocation = invocation and volumeID = volumeID]
        bind_ends [where request = request and invocation = invocation] installed)
      (use assms in \<open>auto intro!: lasting\<close>)
qed

lemma resolve_ends:
  assumes "safe (create_guard input) h" and "hosted input invocation volumeID request rt h"
    and "guest_seeded input invocation rt guest ready h"
  shows "wp (resolve_profile svc cre input volumeID rt (rt_ID rt) running ready guest) (create_end input) h"
  unfolding resolve_profile_def Let_def
  by (intro create_rules hosted_fails [where request = request and invocation = invocation and volumeID = volumeID]
      materialize_ends [where request = request and invocation = invocation])
    (use assms in \<open>auto intro!: lasting\<close>)

lemma seed_ends:
  assumes "safe (create_guard input) h" and "hosted input invocation volumeID request rt h"
    and "guest_up input invocation rt guest ready h"
  shows "wp (seed_guest svc cre input invocation volumeID rt (rt_ID rt) running ready guest) (create_end input) h"
proof -
  let ?keyed = "log h (Did (ReconcileRuntimeSSHKeys guest) None)"
  let ?seed = "\<lambda>answer. Did (EnsureEnvironmentProjectSeedApplied (ecd_OperationID input) guest
      (eci_ProjectSeedID invocation)) answer"
  have "invocation_recorded input invocation ?keyed" "guest_up input invocation rt guest ready ?keyed" "created ?keyed = Some rt"
    using assms(2,3) by (auto simp: hosted_def intro: lasting)
  then have allowed: "create_guard input ?keyed (?seed answer)" for answer
    by (auto simp: create_guard_def)
  have kept: "hosted input invocation volumeID request rt (log ?keyed (?seed answer))" for answer
    using assms(2) by (intro hosted_log) (auto simp: created_after_def)
  show ?thesis
    unfolding seed_guest_def
    by (intro create_rules hosted_fails [where request = request and invocation = invocation and volumeID = volumeID]
        resolve_ends [where request = request and invocation = invocation])
      (use assms allowed kept in \<open>auto simp: guest_seeded_def intro!: lasting\<close>)
qed

lemma prepare_ends:
  assumes "safe (create_guard input) h" and "hosted input invocation volumeID request rt h"
    and "pr_ProviderID (out_Runtime running) = lr_ProviderID request"
    and "private_ipv4 (pr_PrivateIPv4 (out_Runtime running))"
  shows "wp (prepare_guest svc cre d input invocation volumeID rt (rt_ID rt) running) (create_end input) h"
proof -
  define guest where "guest = \<lparr>gr_OwnerUserID = eci_OwnerUserID invocation, gr_EnvironmentID = ecd_EnvironmentID input,
      gr_RuntimeID = rt_ID rt, gr_ProviderID = pr_ProviderID (out_Runtime running),
      gr_PrivateIPv4 = pr_PrivateIPv4 (out_Runtime running)\<rparr>"
  let ?restored = "log h (Did (RestoreEnvironmentSSHIdentity (ecd_OperationID input) guest) None)"
  have of: "guest_of input invocation rt guest"
    using assms(2-4) by (simp add: guest_of_def hosted_def guest_def)
  have seeded: "wp (seed_guest svc cre input invocation volumeID rt (rt_ID rt) running ready
      (guest\<lparr>gr_PrivateIPv4 := gready_PrivateIPv4 ready\<rparr>)) (create_end input)
      (log ?restored (GuestReady guest (WaitEnded ready)))"
    if "waitForRuntimeGuestReadiness (dep_Polling d) svc guest ?restored = WaitEnded ready" for ready
  proof -
    have same: "guest\<lparr>gr_PrivateIPv4 := gready_PrivateIPv4 ready\<rparr> = guest"
      using guest_readiness_reached(3) [OF that] by simp
    have "guest_up input invocation rt guest ready (log ?restored (GuestReady guest (WaitEnded ready)))"
      using guest_readiness_reached [OF that] of by (simp add: guest_up_def guest_mounted_def guest_of_def)
    then show ?thesis
      unfolding same by (intro seed_ends) (use assms(1,2) in \<open>auto intro!: lasting\<close>)
  qed
  show ?thesis
    unfolding prepare_guest_def Let_def guest_def [symmetric]
    by (intro create_rules hosted_fails [where request = request and invocation = invocation and volumeID = volumeID] seeded)
      (use assms(1,2) in \<open>auto intro!: lasting\<close>)
qed

lemma created_running_ends:
  assumes "safe (create_guard input) h" and "hosted input invocation volumeID request rt h"
  shows "wp (await_created_running svc cre d input invocation volumeID rt request ensured) (create_end input) h"
proof -
  have rt: "spec_RuntimeID (lr_Spec request) = rt_ID rt"
    using assms(2) by (simp add: hosted_def replacement_spec_def)
  have seen: "pr_ProviderID (out_Runtime running) = lr_ProviderID request"
    if "validateProviderRuntimeIdentity (out_Runtime running) request = None" for running
    using that by (simp add: validateProviderRuntimeIdentity_def split: if_splits)
  have address: "private_ipv4 (pr_PrivateIPv4 (out_Runtime running))"
    if "validateCreatedRuntimeNetworking input spec (out_Runtime running) = None" for spec running
    using that by (simp add: validateCreatedRuntimeNetworking_def split: option.splits if_splits)
  show ?thesis
    unfolding await_created_running_def rt
    by (intro create_rules hosted_fails [where request = request and invocation = invocation and volumeID = volumeID]
        prepare_ends [where request = request])
      (use assms seen address in \<open>auto intro!: lasting\<close>)
qed

lemma attach_created_ends:
  assumes "safe (create_guard input) h" and "hosted input invocation volumeID request (cloneRuntimeSnapshot live) h"
  shows "wp (attach_created svc cre d input invocation volumeID live (cloneRuntimeSnapshot live) request ensured)
    (create_end input) h"
proof -
  let ?rt = "cloneRuntimeSnapshot live" and ?attach = "\<lambda>answer. Called (EnsureRuntimeDataVolumeAttachment request) answer"
  have allowed: "create_guard input h (?attach answer)" for answer
    using assms(2) by (auto simp: create_guard_def created_attach_ok_def)
  have kept: "hosted input invocation volumeID request ?rt (log h (?attach answer))" for answer
    using assms(2) by (rule hosted_log) (simp add: created_after_def)
  let ?persist = "\<lambda>starting. Did (PersistEnvironmentCreateRuntimeTransition (ecd_OperationID input) (rt_Version ?rt)
      (cloneRuntimeSnapshot starting))"
  have started: "create_guard input (log h (?attach answer)) (?persist starting saved)"
    "hosted input invocation volumeID request ?rt (log (log h (?attach answer)) (?persist starting (Some err)))"
    "hosted input invocation volumeID request (cloneRuntimeSnapshot starting)
       (log (log h (?attach answer)) (?persist starting None))"
    if "BeginStart live at = Inr starting" for at starting answer saved err
  proof -
    have step: "domain_step ?rt (cloneRuntimeSnapshot starting)"
      using assms(2) that by (intro live_step(2)) (auto simp: hosted_def)
    show "create_guard input (log h (?attach answer)) (?persist starting saved)"
      using kept [of answer] step by (intro create_persist_allowed) (auto simp: hosted_def)
    show "hosted input invocation volumeID request ?rt (log (log h (?attach answer)) (?persist starting (Some err)))"
      using kept by (rule hosted_log) (simp add: created_after_def)
    show "hosted input invocation volumeID request (cloneRuntimeSnapshot starting)
       (log (log h (?attach answer)) (?persist starting None))"
      using kept step by (rule hosted_persisted)
  qed
  show ?thesis
    unfolding attach_created_def
    by (intro create_rules hosted_fails [where request = request and invocation = invocation and volumeID = volumeID]
        created_running_ends)
      (use assms(1) allowed kept started in auto)
qed

lemma reserved_spec:
  "ReserveRuntime \<lparr>rres_ID = seed_RuntimeID seed, rres_EnvironmentID = ecd_EnvironmentID input, rres_Sequence = 1,
     rres_RuntimePreset = ecd_RuntimePreset input, rres_Region = ecd_Region input,
     rres_AvailabilityZone = ecd_AvailabilityZone input, rres_ImageVersion = seed_ImageVersion seed,
     rres_CreatedAt = seed_CreatedAt seed\<rparr> = Inr rt \<Longrightarrow>
   rt_Status rt = RuntimeAbsent
   \<and> created_spec input seed (seed_RuntimeID seed) volumeID = replacement_spec (cloneRuntimeSnapshot rt) volumeID"
  by (auto simp: ReserveRuntime_def Let_def created_spec_def replacement_spec_def split: option.splits)

lemma created_provision_ends:
  assumes "safe (create_guard input) h" and "invocation_recorded input invocation h"
    and "volume_inventoried input volumeID h" and "created h = Some (cloneRuntimeSnapshot live)"
    and "runtime_valid live" and "rt_Status live = RuntimeAbsent"
    and spec: "created_spec input seed (seed_RuntimeID seed) volumeID = replacement_spec (cloneRuntimeSnapshot live) volumeID"
  shows "wp (provision_created svc cre d input invocation seed volumeID live) (create_end input) h"
proof -
  let ?rt = "cloneRuntimeSnapshot live" and ?spec = "created_spec input seed (seed_RuntimeID seed) volumeID"
  let ?ensure = "\<lambda>answer. Called (EnsureRuntime ?spec (ecd_OperationID input)) answer"
  have placed: "spec_EnvironmentID ?spec = ecd_EnvironmentID input" "spec_Region ?spec = ecd_Region input"
    "spec_AvailabilityZone ?spec = ecd_AvailabilityZone input"
    by (simp_all add: created_spec_def)
  have "allocate_ok input ?spec h"
    unfolding allocate_ok_def using assms(2-6) spec placed by (metis clone_simps(4))
  then have allowed: "create_guard input h (?ensure answer)" for answer
    by (simp add: create_guard_def)
  have kept: "created (log h (?ensure answer)) = Some ?rt" for answer
    using assms(4) by (simp add: created_after_def)
  have failing: "wp (fail_create svc input (Some ?rt) code message) (create_end input) h'"
    if "safe (create_guard input) h'" "created h' = Some ?rt" for h' code message
    using that assms(5,6) by (intro fail_create_ends) auto
  let ?persist = "\<lambda>provisioned. Did (PersistEnvironmentCreateRuntimeTransition (ecd_OperationID input) (rt_Version ?rt)
      (cloneRuntimeSnapshot provisioned))"
  have provisioned: "create_guard input (log h (?ensure answer)) (?persist provisioned saved)"
    "created (log (log h (?ensure answer)) (?persist provisioned (Some err))) = Some ?rt"
    "hosted input invocation volumeID \<lparr>lr_Spec = ?spec, lr_ProviderID = ref\<rparr> (cloneRuntimeSnapshot provisioned)
       (log (log h (?ensure answer)) (?persist provisioned None))"
    if "Provision live ref at = Inr provisioned" for ref at provisioned answer saved err
  proof -
    note step = live_step(1) [OF assms(5) that]
    show "create_guard input (log h (?ensure answer)) (?persist provisioned saved)"
      using kept step by (rule create_persist_allowed)
    show "created (log (log h (?ensure answer)) (?persist provisioned (Some err))) = Some ?rt"
      using kept by (simp add: created_after_def)
    show "hosted input invocation volumeID \<lparr>lr_Spec = ?spec, lr_ProviderID = ref\<rparr> (cloneRuntimeSnapshot provisioned)
       (log (log h (?ensure answer)) (?persist provisioned None))"
      using assms(2,3) domain_step_keeps(1) [OF step] Provision_provider [OF that] spec
        replacement_spec_identity [OF domain_step_keeps(2) [OF step]]
      by (auto simp: hosted_def created_after_def intro!: lasting)
  qed
  show ?thesis
    unfolding provision_created_def Let_def
    by (intro create_rules failing attach_created_ends
        hosted_fails [where request = "\<lparr>lr_Spec = ?spec, lr_ProviderID = ref\<rparr>" for ref])
      (use assms(1) allowed kept provisioned in auto)
qed

lemma created_reserve_ends:
  assumes "safe (create_guard input) h" and "invocation_recorded input invocation h"
    and "volume_inventoried input volumeID h" and "created h = None"
  shows "wp (reserve_created svc cre d input invocation seed volumeID) (create_end input) h"
proof -
  let ?reservation = "\<lparr>rres_ID = seed_RuntimeID seed, rres_EnvironmentID = ecd_EnvironmentID input, rres_Sequence = 1,
     rres_RuntimePreset = ecd_RuntimePreset input, rres_Region = ecd_Region input,
     rres_AvailabilityZone = ecd_AvailabilityZone input, rres_ImageVersion = seed_ImageVersion seed,
     rres_CreatedAt = seed_CreatedAt seed\<rparr>"
  have allowed: "create_guard input h (ReservedInitialRuntime ?reservation answer)" for answer
    using assms(3) by (auto simp: create_guard_def)
  have missing: "created_after None (ReservedInitialRuntime ?reservation (Inl err)) = None"
    "runtimeID \<noteq> seed_RuntimeID seed \<Longrightarrow> created_after None (ReservedInitialRuntime ?reservation (Inr runtimeID)) = None"
    "ReserveRuntime ?reservation = Inl problem \<Longrightarrow> created_after None (ReservedInitialRuntime ?reservation (Inr runtimeID)) = None"
    for err runtimeID problem
    by (auto simp: created_after_def split: sum.splits)
  have reserved: "created (log h (ReservedInitialRuntime ?reservation (Inr (seed_RuntimeID seed)))) = Some (cloneRuntimeSnapshot rt)"
    if "ReserveRuntime ?reservation = Inr rt" for rt
    using that by (simp add: created_after_def)
  show ?thesis
    unfolding reserve_created_def Let_def
    by (intro create_rules fail_create_ends created_provision_ends)
      (use assms allowed missing reserved reserved_spec ReserveRuntime_valid in \<open>auto intro!: lasting\<close>)
qed

lemma inventory_ends:
  assumes "safe (create_guard input) h" and "invocation_recorded input invocation h"
    and "EnsuredDataVolume request (Inr volume) \<in> set h" and "validateDataVolume input volume = None"
    and "created h = None"
  shows "wp (inventory_volume svc cre d input invocation volume) (create_end input) h"
proof -
  have inventoried: "volume_inventoried input volumeID
      (log (log h (ReservedCreationIdentities (Inr identities))) (InventoriedState (state_reservation volume seed) (Inr volumeID)))"
    for volumeID identities seed
    using assms(3,4) unfolding volume_inventoried_def by auto
  show ?thesis
    unfolding inventory_volume_def Let_def
    by (intro create_rules fail_create_ends created_reserve_ends inventoried) (use assms in \<open>auto intro!: lasting\<close>)
qed

lemma ensure_volume_ends:
  assumes "safe (create_guard input) h" and "invocation_recorded input invocation h" and "created h = None"
  shows "wp (ensure_volume svc cre d input invocation) (create_end input) h"
  unfolding ensure_volume_def Let_def
  by (intro create_rules fail_create_ends inventory_ends) (use assms in \<open>auto intro!: lasting\<close>)

section \<open>The create Operation\<close>

lemma create_Run_ends:
  assumes "create_Run svc cre d key input [] = (r, h)"
  shows "create_end input r h"
proof -
  have "wp (create_Run svc cre d key input) (create_end input) []"
    unfolding create_Run_def
    by (intro create_rules fail_create_ends ensure_volume_ends) (auto simp: invocation_recorded_def)
  with assms show ?thesis by (simp add: wp_def)
qed

lemma create_Run_event:
  "create_Run svc cre d key input [] = (r, h) \<Longrightarrow> h = earlier @ e # later \<Longrightarrow> create_guard input earlier e"
  using create_Run_ends [of svc cre d key input r h] by (auto simp: create_end_def safe_def)

text \<open>
  C4. A creation that returns has completed in its last step.  Before that step the data volume was inventoried,
  the guest of the returned Runtime was up at a private address on its current boot with its data mounted and
  had received the host identity, the keys of the owner and the Project Seed the store names; the Capsule Lock was
  materialized with accepted results and persisted, credentials were settled, the toolchain was validated, and
  the Runtime was stored as ready with the reported address and boot.
\<close>

theorem creation_returns_ready:
  assumes "create_Run svc cre d key input [] = (Returned out, h)"
  shows "\<exists>earlier at rt. h = earlier @ [Did (CompleteEnvironmentCreation (ecd_OperationID input) at) None]
    \<and> creation_complete_ok input (eco_DataVolumeProviderID out) rt earlier \<and> eco_RuntimeID out = rt_ID rt"
  using create_Run_ends [OF assms] unfolding create_end_def log_def by blast

text \<open>
  C5. A creation asks the provider for nothing but the allocation and the attachment of its Runtime.  It allocates
  only the Runtime the store has reserved, in the placement of the dispatch, on a data volume that was checked and
  inventoried; it attaches the volume only to the instance the stored Runtime records.
\<close>

theorem creation_allocates_reserved:
  assumes "create_Run svc cre d key input [] = (r, h)" and "h = earlier @ Called c answer # later"
  shows "(\<exists>spec operationID. c = EnsureRuntime spec operationID \<and> allocate_ok input spec earlier)
    \<or> (\<exists>request. c = EnsureRuntimeDataVolumeAttachment request \<and> created_attach_ok input request earlier)"
  using create_Run_event [OF assms] by (cases c) (auto simp: create_guard_def create_neutral_def)

text \<open>
  C6. How a creation records its failure.  One that ends as a failed Operation has recorded the outcome in its last
  step, with the code and message it reports, and the Runtime the store then holds, if there is one, is marked as
  failed unless the outcome asks the user for credentials, which only the credential binder can say.  One that ends
  because the Runtime could not be marked has recorded the outcome in its last step too, but its Runtime need not be
  marked.  A creation that ends because a step of the failure handling fails, or in another way, is not covered by
  these two; but every Runtime a creation persists is one domain command away from the stored one.
\<close>

theorem failed_creation_marks_runtime:
  assumes "create_Run svc cre d key input [] = (r, h)"
  shows "(\<forall>code message. r = Failed (OperationFailed code message) \<longrightarrow>
       (\<exists>earlier outcome at. h = earlier @ [Did (RecordEnvironmentCreateOutcome (ecd_OperationID input) outcome at) None]
          \<and> failed_recorded input code message outcome earlier))
    \<and> (\<forall>code message problem. r = Failed (TransitionFailed code message problem) \<longrightarrow>
       (\<exists>earlier outcome at. h = earlier @ [Did (RecordEnvironmentCreateOutcome (ecd_OperationID input) outcome at) None]
          \<and> coo_Code outcome = code \<and> coo_Message outcome = message \<and> outcome_ok input outcome earlier))
    \<and> (\<forall>earlier operationID version snapshot answer later.
         h = earlier @ Did (PersistEnvironmentCreateRuntimeTransition operationID version snapshot) answer # later \<longrightarrow>
         (\<exists>rt. created earlier = Some rt \<and> version = rt_Version rt \<and> domain_step rt snapshot))"
proof (intro conjI allI impI)
  fix earlier operationID version snapshot answer later
  assume "h = earlier @ Did (PersistEnvironmentCreateRuntimeTransition operationID version snapshot) answer # later"
  from create_Run_event [OF assms this]
  show "\<exists>rt. created earlier = Some rt \<and> version = rt_Version rt \<and> domain_step rt snapshot"
    by (simp add: create_guard_def)
qed (use create_Run_ends [OF assms] in \<open>unfold create_end_def log_def, blast\<close>)+

section \<open>An example creation\<close>

definition sample_create :: environment_create_dispatch where
  "sample_create = \<lparr>ecd_OperationID = ''op-1'', ecd_EnvironmentID = ''env-1'', ecd_Region = ''eu'',
     ecd_AvailabilityZone = ''eu-a'', ecd_RuntimePreset = ''small''\<rparr>"

definition sample_dependencies :: create_dependencies where
  "sample_dependencies = \<lparr>dep_Provider = True, dep_Actions = True, dep_Capsules = True, dep_SSHIdentity = True,
     dep_GuestReadiness = True, dep_SSHKeys = True, dep_ProjectSeed = True, dep_CapsuleApplication = True,
     dep_Credentials = True, dep_Toolchain = True, dep_IDs = True, dep_Now = True, dep_ImageVersion = ''v1'',
     dep_Polling = sample_workflow_config\<rparr>"

definition sample_capsules :: environment_capsule_state where
  "sample_capsules = \<lparr>ecs_CapsuleLock = sample_lock_snapshot None, ecs_UpgradePolicy = UpgradeManual,
     ecs_Approvals = [], ecs_ApplyResults = [], ecs_Materializations = []\<rparr>"

definition willing_creation :: "materialization_result list \<Rightarrow> creation_services" where
  "willing_creation results =
     \<lparr>cre_invocation = (\<lambda>h operationID. Inr \<lparr>eci_OwnerUserID = ''user-1'', eci_EnvironmentID = ''env-1'',
        eci_ProjectSeedID = ''seed-1''\<rparr>),
      cre_volume = (\<lambda>h request. Inr \<lparr>vol_Provider = ''aws'', vol_ProviderID = ''vol-1'',
        vol_EnvironmentID = edv_EnvironmentID request, vol_Region = edv_Region request,
        vol_AvailabilityZone = edv_AvailabilityZone request\<rparr>),
      cre_identities = (\<lambda>h. Inr \<lparr>seed_BackendResourceID = ''res-1'', seed_WorkspaceID = ''w-1'', seed_HomeID = ''h-1'',
        seed_ServicesID = ''s-1'', seed_CacheID = ''c-1'', seed_RuntimeID = ''rt-1'', seed_ImageVersion = [],
        seed_CreatedAt = sample_now\<rparr>),
      cre_inventory = (\<lambda>h operationID reservation. Inr (esr_ProviderID reservation)),
      cre_reserve = (\<lambda>h operationID reservation. Inr (rres_ID reservation)),
      cre_resolve = (\<lambda>h operationID at. Inr sample_capsules),
      cre_materialize = (\<lambda>h guest state. Inr results),
      cre_bind = (\<lambda>h guest. Inr NoProjectCredentialBinder)\<rparr>"

definition first_runtime :: runtime where
  "first_runtime = sample_runtime\<lparr>rt_CreatedAt := sample_now, rt_UpdatedAt := sample_now\<rparr>"

definition first_provisioned :: runtime where
  "first_provisioned =
     first_runtime\<lparr>rt_Status := RuntimeProvisioning, rt_ProviderInstanceRef := Some ''i-2'', rt_Version := 2\<rparr>"

definition first_starting :: runtime where
  "first_starting = first_provisioned\<lparr>rt_Status := RuntimeStarting, rt_StartedAt := Some sample_now, rt_Version := 3\<rparr>"

definition first_ready :: runtime where
  "first_ready = first_starting\<lparr>rt_Status := RuntimeReady, rt_PrivateAddress := Some ''10.0.0.1'',
     rt_BootID := Some ''boot-2'', rt_Version := 4\<rparr>"

definition first_failed :: runtime where
  "first_failed = first_starting\<lparr>rt_Status := RuntimeError, rt_Version := 4\<rparr>"

lemmas first_defs = first_failed_def first_ready_def first_starting_def first_provisioned_def first_runtime_def
  sample_runtime_def

lemma first_clones:
  "cloneRuntimeSnapshot first_runtime = first_runtime" "cloneRuntimeSnapshot first_provisioned = first_provisioned"
  "cloneRuntimeSnapshot first_starting = first_starting" "cloneRuntimeSnapshot first_ready = first_ready"
  "cloneRuntimeSnapshot first_failed = first_failed"
  by (simp_all add: first_defs cloneRuntimeSnapshot_def utc_def)

lemma first_restored: "RestoreRuntime first_starting = Inr first_starting"
  by (simp add: RestoreRuntime_Inr_iff first_clones) (simp add: runtime_valid_def first_defs runtime_eval)

lemma first_steps:
  "ReserveRuntime \<lparr>rres_ID = ''rt-1'', rres_EnvironmentID = ''env-1'', rres_Sequence = 1,
     rres_RuntimePreset = ''small'', rres_Region = ''eu'', rres_AvailabilityZone = ''eu-a'',
     rres_ImageVersion = ''v1'', rres_CreatedAt = sample_now\<rparr> = Inr first_runtime"
  "Provision first_runtime ''i-2'' sample_now = Inr first_provisioned"
  "BeginStart first_provisioned sample_now = Inr first_starting"
  "MarkReady first_starting \<lparr>ready_ProviderInstanceRef = ''i-2'', ready_BootID = ''boot-2'',
     ready_PrivateAddress = ''10.0.0.1'', ready_ExpectedVersion = 3, ready_ObservedAt = sample_now\<rparr> = Inr first_ready"
  "MarkError first_starting \<lparr>obs_ProviderInstanceRef = ''i-2'', obs_ExpectedVersion = 3, obs_ObservedAt = sample_now\<rparr>
   = Inr first_failed"
  by (simp_all add: runtime_command_defs ReserveRuntime_def validateCurrentRuntimeObservation_def
      runtime_transition_def finalizeRuntimeTransition_def first_defs runtime_eval
      cloneRuntimeSnapshot_def utc_def max_int64_def)

lemma first_fields:
  "rt_Version first_starting = 3" "rt_Status first_starting = RuntimeStarting" "rt_ID first_failed = ''rt-1''"
  "rt_ProviderInstanceRef first_starting = Some ''i-2''"
  by (simp_all add: first_defs)

lemmas create_defs = create_Run_def ensure_volume_def inventory_volume_def reserve_created_def provision_created_def
  attach_created_def await_created_running_def prepare_guest_def seed_guest_def resolve_profile_def
  persistEnvironmentCreateRuntimeTransition_def wait_state_def

lemmas create_last_defs = materialize_capsule_def bind_credentials_def mark_created_ready_def complete_creation_def

lemmas create_fail_defs = failEnvironmentCreation_def record_create_outcome_def failed_runtime_def fail_def
  persistEnvironmentCreateRuntimeTransition_def

lemmas create_checks = validateEnvironmentCreateDependencies_def validateEnvironmentCreateInvocation_def
  validateDataVolume_def validateCreatedRuntimeNetworking_def validateCredentialBindingOutcome_def
  validateEnvironmentCapsuleState_def validateAttachedProviderRuntime_def created_spec_def
  state_reservation_def NoProjectCredentialBinder_def

lemma create_samples:
  "ecd_OperationID sample_create = ''op-1''" "ecd_EnvironmentID sample_create = ''env-1''"
  "ecd_Region sample_create = ''eu''" "ecd_AvailabilityZone sample_create = ''eu-a''"
  "ecd_RuntimePreset sample_create = ''small''"
  "dep_Provider sample_dependencies" "dep_Actions sample_dependencies" "dep_Capsules sample_dependencies"
  "dep_SSHIdentity sample_dependencies" "dep_GuestReadiness sample_dependencies" "dep_SSHKeys sample_dependencies"
  "dep_ProjectSeed sample_dependencies" "dep_CapsuleApplication sample_dependencies"
  "dep_Credentials sample_dependencies" "dep_Toolchain sample_dependencies" "dep_IDs sample_dependencies"
  "dep_Now sample_dependencies" "dep_ImageVersion sample_dependencies = ''v1''"
  "dep_Polling sample_dependencies = sample_workflow_config"
  "ecs_CapsuleLock sample_capsules = sample_lock_snapshot None" "ecs_UpgradePolicy sample_capsules = UpgradeManual"
  by (simp_all add: sample_create_def sample_dependencies_def sample_capsules_def)

lemma creation_samples:
  "cre_invocation (willing_creation results) h operationID = Inr \<lparr>eci_OwnerUserID = ''user-1'',
     eci_EnvironmentID = ''env-1'', eci_ProjectSeedID = ''seed-1''\<rparr>"
  "cre_volume (willing_creation results) h volume = Inr \<lparr>vol_Provider = ''aws'', vol_ProviderID = ''vol-1'',
     vol_EnvironmentID = edv_EnvironmentID volume, vol_Region = edv_Region volume,
     vol_AvailabilityZone = edv_AvailabilityZone volume\<rparr>"
  "cre_identities (willing_creation results) h = Inr \<lparr>seed_BackendResourceID = ''res-1'', seed_WorkspaceID = ''w-1'',
     seed_HomeID = ''h-1'', seed_ServicesID = ''s-1'', seed_CacheID = ''c-1'', seed_RuntimeID = ''rt-1'',
     seed_ImageVersion = [], seed_CreatedAt = sample_now\<rparr>"
  "cre_inventory (willing_creation results) h operationID state = Inr (esr_ProviderID state)"
  "cre_reserve (willing_creation results) h operationID reservation = Inr (rres_ID reservation)"
  "cre_resolve (willing_creation results) h operationID at = Inr sample_capsules"
  "cre_materialize (willing_creation results) h guest capsules = Inr results"
  "cre_bind (willing_creation results) h guest = Inr NoProjectCredentialBinder"
  by (simp_all add: willing_creation_def)

abbreviation sample_create_run :: "materialization_result list \<Rightarrow> environment_create_output outcome \<times> trace" where
  "sample_create_run results \<equiv> create_Run (sample_services RuntimeStateRunning (sample_operation_state first_runtime) ''v1'')
     (willing_creation results) sample_dependencies ''op-1'' sample_create []"

lemma sample_lock_fields:
  "lock_ID (sample_lock_snapshot None) = ''lock-1''" "lock_EnvironmentID (sample_lock_snapshot None) = ''env-1''"
  "lock_ProfileVersionID (sample_lock_snapshot None) = ''pv-1''"
  by (simp_all add: sample_lock_snapshot_def)

lemma sample_address: "private_ipv4 ''10.0.0.1''"
  by (simp add: runtime_eval)

lemma sample_creation_returns:
  "\<exists>out h request answer. sample_create_run [sample_result] = (Returned out, h)
     \<and> Called (EnsureRuntimeDataVolumeAttachment request) answer \<in> set h"
  by (simp add: create_defs create_last_defs create_checks create_samples creation_samples workflow_eval sample_waits sample_config_fields first_clones
      first_restored first_steps first_fields sample_lock_fields sample_address sample_result_accepted go_time)

theorem creation_returns_ready_witness:
  "\<exists>volumeID rt earlier. creation_complete_ok sample_create volumeID rt earlier"
proof -
  from sample_creation_returns obtain out h where run: "sample_create_run [sample_result] = (Returned out, h)" by blast
  from creation_returns_ready [OF run] show ?thesis by blast
qed

theorem creation_allocates_reserved_witness:
  "\<exists>request earlier. created_attach_ok sample_create request earlier"
proof -
  from sample_creation_returns obtain out h request answer
    where run: "sample_create_run [sample_result] = (Returned out, h)"
      "Called (EnsureRuntimeDataVolumeAttachment request) answer \<in> set h" by blast
  from split_list [OF run(2)] obtain earlier later
    where h: "h = earlier @ Called (EnsureRuntimeDataVolumeAttachment request) answer # later" by blast
  from creation_allocates_reserved [OF run(1) h] show ?thesis by blast
qed

text \<open>A creation whose guest reports no result fails with its Runtime marked.\<close>

lemma sample_results_missing:
  "validateEnvironmentMaterializationResults (sample_lock_snapshot None) [] = Some (ResultCountDiffers 0 1)"
  by (simp add: validateEnvironmentMaterializationResults_def sample_lock_snapshot_def)

lemma sample_conflict:
  "failEnvironmentCreation (sample_services seen state promoted) operationID (Some first_starting)
     \<lparr>coo_Kind = EnvironmentCreateOutcomeFailed, coo_Code = ''PROFILE_CONFLICT'', coo_Message = ResultsRejected problem\<rparr> h
   = (Failed (OperationFailed ''PROFILE_CONFLICT'' (ResultsRejected problem)),
      h @ [Did (PersistEnvironmentCreateRuntimeTransition operationID 3 first_failed) None,
           Did (RecordEnvironmentCreateOutcome operationID \<lparr>coo_Kind = EnvironmentCreateOutcomeFailed,
             coo_Code = ''PROFILE_CONFLICT'', coo_Message = ResultsRejected problem\<rparr> sample_now) None])"
  by (simp add: create_fail_defs workflow_eval first_clones first_restored first_steps first_fields complete_outcome_def)

lemma sample_unmaterialized:
  "materialize_capsule (sample_services seen state promoted) (willing_creation []) sample_create volumeID
     first_starting runtimeID running ready guest sample_capsules h
   = (Failed (OperationFailed ''PROFILE_CONFLICT'' (ResultsRejected (ResultCountDiffers 0 1))),
      h @ [MaterializedCapsule ''op-1'' guest sample_capsules (Inr []),
        Did (PersistEnvironmentCreateRuntimeTransition ''op-1'' 3 first_failed) None,
        Did (RecordEnvironmentCreateOutcome ''op-1'' \<lparr>coo_Kind = EnvironmentCreateOutcomeFailed,
          coo_Code = ''PROFILE_CONFLICT'', coo_Message = ResultsRejected (ResultCountDiffers 0 1)\<rparr> sample_now) None])"
  by (simp add: materialize_capsule_def Let_def create_samples creation_samples ask_def log_def sample_results_missing sample_conflict)

lemma sample_creation_fails:
  "\<exists>message h. sample_create_run [] = (Failed (OperationFailed ''PROFILE_CONFLICT'' message), h)"
  by (simp add: create_defs create_checks create_samples creation_samples workflow_eval sample_waits sample_config_fields first_clones
      first_restored first_steps first_fields sample_lock_fields sample_address sample_unmaterialized
      go_time)

theorem failed_creation_marks_runtime_witness:
  "\<exists>message outcome earlier. failed_recorded sample_create ''PROFILE_CONFLICT'' message outcome earlier"
proof -
  from sample_creation_fails obtain message h
    where run: "sample_create_run [] = (Failed (OperationFailed ''PROFILE_CONFLICT'' message), h)" by blast
  note conjunct1 [OF failed_creation_marks_runtime [OF run], THEN spec [of _ "''PROFILE_CONFLICT''"], THEN spec [of _ message]]
  then show ?thesis by blast
qed

end
