(* ===== verification/Creation_Actions.thy ===== *)
theory Creation_Actions
  imports Environment_Create Environments
begin

text \<open>
  The actions behind the creation workflow (\<open>environmentCreationActions\<close> of
  \<open>apps/workflows/environment_create.go\<close> and \<open>environmentCreationCapsuleActions\<close> of
  \<open>environment_capsule_state.go\<close>): how the answers of the repository are projected for the workflow, and how
  the Capsule state is turned into the input of the store.  The repository is an argument.
\<close>

section \<open>Projections of the repository\<close>

definition action_RecordEnvironmentCreateInvocation ::
  "'e + environment_creation \<Rightarrow> 'e + environment_create_invocation" where
  "action_RecordEnvironmentCreateInvocation answer =
     (case answer of
        Inl err \<Rightarrow> Inl err
      | Inr creation \<Rightarrow>
          Inr \<lparr>eci_OwnerUserID = env_OwnerUserID (ec_environment creation),
               eci_EnvironmentID = env_ID (ec_environment creation),
               eci_ProjectSeedID = ec_projectSeedID creation\<rparr>)"

definition action_InventoryEnvironmentState :: "'e + environment_state \<Rightarrow> 'e + string" where
  "action_InventoryEnvironmentState answer =
     (case answer of Inl err \<Rightarrow> Inl err | Inr state \<Rightarrow> Inr (DataVolumeProviderID state))"

definition action_ReserveInitialRuntime :: "'e + runtime \<Rightarrow> 'e + string" where
  "action_ReserveInitialRuntime answer =
     (case answer of Inl err \<Rightarrow> Inl err | Inr rt \<Rightarrow> Inr (rt_ID (cloneRuntimeSnapshot rt)))"

text \<open>The status, code and message the Operation is finished with.\<close>

definition action_RecordEnvironmentCreateOutcome ::
  "create_operation_outcome \<Rightarrow> operation_status \<times> string \<times> failure_message" where
  "action_RecordEnvironmentCreateOutcome outcome =
     (if coo_Kind outcome = EnvironmentCreateOutcomeRequiresInput then OperationBlocked else operation_status.OperationFailed,
      coo_Code outcome, coo_Message outcome)"

section \<open>Persisting the Capsule state\<close>

record capsule_state_input =
  csi_OperationID :: string
  csi_EnvironmentID :: string
  csi_CapsuleLock :: capsule_lock
  csi_UpgradePolicy :: upgrade_policy
  csi_Materializations :: "environment_materialization list"

datatype capsule_action_error =
    MalformedCapsuleLock capsule_lock_error
  | InvalidMaterialization capsule_state_error
  | RepositoryError string

definition action_PersistEnvironmentCapsuleState ::
  "(capsule_state_input \<Rightarrow> string option) \<Rightarrow> string \<Rightarrow> environment_capsule_state \<Rightarrow> capsule_action_error option" where
  "action_PersistEnvironmentCapsuleState repository operationID state =
     (case CreateCapsuleLock (ecs_CapsuleLock state) of
        Inl err \<Rightarrow> Some (MalformedCapsuleLock err)
      | Inr lock \<Rightarrow>
          (case EnvironmentMaterializationRecords (capsule_lock_Snapshot lock) (ecs_Materializations state) of
             Inl err \<Rightarrow> Some (InvalidMaterialization err)
           | Inr records \<Rightarrow>
               map_option RepositoryError (repository
                 \<lparr>csi_OperationID = operationID,
                  csi_EnvironmentID = lock_EnvironmentID (capsule_lock_Snapshot lock), csi_CapsuleLock = lock,
                  csi_UpgradePolicy = ecs_UpgradePolicy state, csi_Materializations = records\<rparr>)))"

section \<open>What the workflow hands over is persisted\<close>

lemma map_of_clone: "map_of (cloneResolvedComponents cs) k = map_option clone_resolved (map_of cs k)"
  by (induction cs) (auto simp: cloneResolvedComponents_def)

lemma clone_resolved_identity [simp]:
  "rc_CapsuleDigest (clone_resolved c) = rc_CapsuleDigest c" "rc_ComponentDigest (clone_resolved c) = rc_ComponentDigest c"
  "rc_Scope (clone_resolved c) = rc_Scope c"
  by (simp_all add: clone_resolved_def)

text \<open>A result accepted against a lock with its digest is accepted against the lock created from it.\<close>

lemma accepted_by_created_lock:
  assumes "CreateCapsuleLock snapshot = Inr lock" and "lock_Digest snapshot \<noteq> []" and "result_accepted snapshot result"
  shows "result_accepted (capsule_lock_Snapshot lock) result"
proof -
  have "ComputeCapsuleLockDigest snapshot = lock_Digest snapshot"
    using assms(1,2) by (auto simp: CreateCapsuleLock_def Let_def split: option.splits if_splits)
  with assms(3) CreateCapsuleLock_Inr(2) [OF assms(1)] show ?thesis
    by (auto simp: result_accepted_def capsule_lock_Snapshot_def map_of_clone result_identity_ok_def)
qed

text \<open>
  With a valid Capsule Lock that carries its digest, results the workflow accepts reach the store: the action
  calls the repository with one record for every result.
\<close>

lemma accepted_capsule_state_persisted:
  assumes "CreateCapsuleLock (ecs_CapsuleLock state) = Inr lock" and "lock_Digest (ecs_CapsuleLock state) \<noteq> []"
    and "validateEnvironmentMaterializationResults (ecs_CapsuleLock state) results = None"
  shows "\<exists>records. map em_Installed records = InstalledMaterializationsFromResults results
    \<and> action_PersistEnvironmentCapsuleState repository operationID
        (state\<lparr>ecs_ApplyResults := results, ecs_Materializations := InstalledMaterializationsFromResults results\<rparr>)
      = map_option RepositoryError (repository \<lparr>csi_OperationID = operationID,
          csi_EnvironmentID = lock_EnvironmentID (ecs_CapsuleLock state), csi_CapsuleLock = lock,
          csi_UpgradePolicy = ecs_UpgradePolicy state, csi_Materializations = records\<rparr>)"
proof -
  have "\<forall>result \<in> set results. result_accepted (capsule_lock_Snapshot lock) result"
    using assms accepted_by_created_lock
    by (auto simp: validateEnvironmentMaterializationResults_def check_results_None_iff split: if_splits)
  from records_of_accepted [OF this] obtain records
    where records: "EnvironmentMaterializationRecords (capsule_lock_Snapshot lock)
        (InstalledMaterializationsFromResults results) = Inr records"
      "map em_Installed records = InstalledMaterializationsFromResults results" by blast
  moreover have "lock_EnvironmentID (capsule_lock_Snapshot lock) = lock_EnvironmentID (ecs_CapsuleLock state)"
    using CreateCapsuleLock_Inr(2) [OF assms(1)] by (simp add: capsule_lock_Snapshot_def)
  ultimately show ?thesis
    using assms(1) by (auto simp: action_PersistEnvironmentCapsuleState_def)
qed

text \<open>The invocation of a persisted creation passes the check of the workflow.\<close>

lemma recorded_invocation_valid:
  assumes "action_RecordEnvironmentCreateInvocation (Inr creation) = (Inr invocation :: 'e + environment_create_invocation)"
    and "env_ID (ec_environment creation) = ecd_EnvironmentID input"
    and "\<not> blank (env_OwnerUserID (ec_environment creation))" and "\<not> blank (ec_projectSeedID creation)"
  shows "validateEnvironmentCreateInvocation input invocation = None"
  using assms by (auto simp: action_RecordEnvironmentCreateInvocation_def validateEnvironmentCreateInvocation_def)

end
