(* ===== verification/Durable_Steps.thy ===== *)
theory Durable_Steps
  imports Prelude
begin

text \<open>
  Durable workflows over a journal of events of any type.  A workflow maps the journal so far to
  how it ends (an error or a value) and the journal it leaves; each durable step appends one event,
  the answer the engine keeps for it.  The workflows of Profiles, Capsules and Credits use this
  form, each with a journal and errors of its own; \<open>Workflow_Engine\<close> has the richer one the
  lifecycle workflows need.
\<close>

type_synonym ('ev, 'e, 'a) durable = "'ev list \<Rightarrow> ('e + 'a) \<times> 'ev list"

definition finish :: "'a \<Rightarrow> ('ev, 'e, 'a) durable" where
  "finish x h = (Inr x, h)"

definition abandon :: "'e \<Rightarrow> ('ev, 'e, 'a) durable" where
  "abandon err h = (Inl err, h)"

text \<open>One step: its answer, an error or a value, is journaled, then the workflow goes on with it.\<close>

definition run_step ::
  "('ev list \<Rightarrow> 'x + 'b) \<Rightarrow> ('x + 'b \<Rightarrow> 'ev) \<Rightarrow> ('x \<Rightarrow> ('ev, 'e, 'a) durable)
   \<Rightarrow> ('b \<Rightarrow> ('ev, 'e, 'a) durable) \<Rightarrow> ('ev, 'e, 'a) durable" where
  "run_step source event onError continue h =
     (let answer = source h; h' = h @ [event answer]
      in case answer of Inl err \<Rightarrow> onError err h' | Inr x \<Rightarrow> continue x h')"

text \<open>A step that answers only success (\<open>None\<close>) or an error.\<close>

definition run_void ::
  "('ev list \<Rightarrow> 'x option) \<Rightarrow> ('x option \<Rightarrow> 'ev) \<Rightarrow> ('x \<Rightarrow> ('ev, 'e, 'a) durable)
   \<Rightarrow> ('ev, 'e, 'a) durable \<Rightarrow> ('ev, 'e, 'a) durable" where
  "run_void source event onError continue h =
     (let answer = source h; h' = h @ [event answer]
      in case answer of Some err \<Rightarrow> onError err h' | None \<Rightarrow> continue h')"

text \<open>An effect outside every step, such as a counter.\<close>

definition emit :: "bool \<Rightarrow> 'ev \<Rightarrow> ('ev, 'e, 'a) durable \<Rightarrow> ('ev, 'e, 'a) durable" where
  "emit wanted event continue h = continue (if wanted then h @ [event] else h)"

text \<open>A clock or another source read outside every step, or at the start of one.\<close>

definition read_from :: "('ev list \<Rightarrow> 'b) \<Rightarrow> ('b \<Rightarrow> ('ev, 'e, 'a) durable) \<Rightarrow> ('ev, 'e, 'a) durable" where
  "read_from source continue h = continue (source h) h"

section \<open>Reasoning\<close>

text \<open>
  \<open>ends m Q h\<close>: from the journal \<open>h\<close> the workflow ends so that \<open>Q\<close> holds of its result and of the
  journal it leaves.  The answers of the services stay arbitrary.
\<close>

definition ends :: "('ev, 'e, 'a) durable \<Rightarrow> ('e + 'a \<Rightarrow> 'ev list \<Rightarrow> bool) \<Rightarrow> 'ev list \<Rightarrow> bool" where
  "ends m Q h = (case m h of (r, h') \<Rightarrow> Q r h')"

named_theorems durable_rules

lemma ends_finish [durable_rules]: "Q (Inr x) h \<Longrightarrow> ends (finish x) Q h"
  by (simp add: ends_def finish_def)

lemma ends_abandon [durable_rules]: "Q (Inl err) h \<Longrightarrow> ends (abandon err) Q h"
  by (simp add: ends_def abandon_def)

lemma ends_run_step [durable_rules]:
  "(\<And>err. source h = Inl err \<Longrightarrow> ends (onError err) Q (h @ [event (Inl err)]))
   \<Longrightarrow> (\<And>x. source h = Inr x \<Longrightarrow> ends (continue x) Q (h @ [event (Inr x)]))
   \<Longrightarrow> ends (run_step source event onError continue) Q h"
  by (simp add: ends_def run_step_def Let_def split: sum.split)

lemma ends_run_void [durable_rules]:
  "(\<And>err. source h = Some err \<Longrightarrow> ends (onError err) Q (h @ [event (Some err)]))
   \<Longrightarrow> (source h = None \<Longrightarrow> ends continue Q (h @ [event None]))
   \<Longrightarrow> ends (run_void source event onError continue) Q h"
  by (simp add: ends_def run_void_def Let_def split: option.split)

lemma ends_emit [durable_rules]:
  "(wanted \<Longrightarrow> ends continue Q (h @ [event])) \<Longrightarrow> (\<not> wanted \<Longrightarrow> ends continue Q h)
   \<Longrightarrow> ends (emit wanted event continue) Q h"
  by (simp add: ends_def emit_def)

lemma ends_read_from [durable_rules]:
  "(\<And>x. ends (continue x) Q h) \<Longrightarrow> ends (read_from source continue) Q h"
  by (simp add: ends_def read_from_def)

lemma ends_if [durable_rules]:
  "(b \<Longrightarrow> ends m Q h) \<Longrightarrow> (\<not> b \<Longrightarrow> ends n Q h) \<Longrightarrow> ends (if b then m else n) Q h"
  by simp

lemma ends_case_option [durable_rules]:
  "(v = None \<Longrightarrow> ends m Q h) \<Longrightarrow> (\<And>x. v = Some x \<Longrightarrow> ends (n x) Q h)
   \<Longrightarrow> ends (case v of None \<Rightarrow> m | Some x \<Rightarrow> n x) Q h"
  by (simp split: option.split)

lemma ends_case_sum [durable_rules]:
  "(\<And>x. v = Inl x \<Longrightarrow> ends (m x) Q h) \<Longrightarrow> (\<And>x. v = Inr x \<Longrightarrow> ends (n x) Q h)
   \<Longrightarrow> ends (case v of Inl x \<Rightarrow> m x | Inr x \<Rightarrow> n x) Q h"
  by (simp split: sum.split)

lemma ends_case_prod [durable_rules]:
  "(\<And>x y. v = (x, y) \<Longrightarrow> ends (m x y) Q h) \<Longrightarrow> ends (case v of (x, y) \<Rightarrow> m x y) Q h"
  by (simp split: prod.split)

lemma ends_Let [durable_rules]: "(\<And>x. x = v \<Longrightarrow> ends (m x) Q h) \<Longrightarrow> ends (let x = v in m x) Q h"
  by simp

lemma endsD: "ends m Q h \<Longrightarrow> m h = (r, h') \<Longrightarrow> Q r h'"
  by (simp add: ends_def)

end
