(* ===== verification/Capsule_Refs.thy ===== *)
theory Capsule_Refs
  imports Encodings Regexps
begin

text \<open>
  The owner-scoped Capsule references of \<open>src/libs/contracts/capsule_ref.go\<close>: the pattern, the
  parser and the two printers.  \<open>FindStringSubmatch\<close> returns the capture groups of a match; as no
  segment holds \<open>/\<close>, \<open>:\<close> or \<open>@\<close> the groups are what stands between these bytes
  (\<open>owned_groups_unique\<close> below shows that no other split of the text matches).
\<close>

section \<open>The pattern\<close>

text \<open>\<open>[A-Za-z0-9][A-Za-z0-9._-]{0,127}\<close>\<close>

definition owned_segment :: regexp where
  "owned_segment = Seq (Class alnum) (Between (Class (alnum @ ''._-'')) 0 127)"

text \<open>\<open>sha256:[a-f0-9]{64}\<close>\<close>

definition owned_digest :: regexp where
  "owned_digest = Seq (literal ''sha256:'') (Between (Class (''abcdef'' @ digits)) 64 64)"

definition ownedCapsuleRefPattern :: regexp where
  "ownedCapsuleRefPattern =
     Seq (literal ''owner/'')
      (Seq owned_segment
        (Seq (literal ''/'')
          (Seq owned_segment
            (Alt (Seq (literal '':'') owned_segment) (Seq (literal ''@'') owned_digest)))))"

section \<open>References\<close>

record owned_capsule_ref =
  ocr_OwnerID :: string
  ocr_Name :: string
  ocr_Digest :: string
  ocr_Tag :: string

datatype capsule_ref_error =
    CapsuleRefSurroundingWhitespace
  | CapsuleRefNotCanonical

text \<open>The four capture groups of a text that matches; a group that took no part is empty.\<close>

definition owned_groups :: "bytes \<Rightarrow> owned_capsule_ref" where
  "owned_groups ref =
     (let scoped = drop 6 ref;
          owner = takeWhile (\<lambda>c. c \<noteq> CHR ''/'') scoped;
          named = drop (length owner + 1) scoped;
          name = takeWhile (\<lambda>c. c \<noteq> CHR '':'' \<and> c \<noteq> CHR ''@'') named;
          suffix = drop (length name) named
      in \<lparr>ocr_OwnerID = owner, ocr_Name = name,
          ocr_Digest = (if take 1 suffix = ''@'' then drop 1 suffix else []),
          ocr_Tag = (if take 1 suffix = '':'' then drop 1 suffix else [])\<rparr>)"

definition ParseOwnedCapsuleRef :: "bytes \<Rightarrow> capsule_ref_error + owned_capsule_ref" where
  "ParseOwnedCapsuleRef ref =
     (if trim_space ref \<noteq> ref then Inl CapsuleRefSurroundingWhitespace
      else if \<not> matches ownedCapsuleRefPattern ref then Inl CapsuleRefNotCanonical
      else Inr (owned_groups ref))"

definition FormatOwnedCapsuleRef :: "string \<Rightarrow> string \<Rightarrow> string" where
  "FormatOwnedCapsuleRef ownerID digest = ''owner/'' @ ownerID @ ''/capsule@'' @ digest"

definition FormatOwnedCapsuleTagRef :: "string \<Rightarrow> string \<Rightarrow> string \<Rightarrow> string" where
  "FormatOwnedCapsuleTagRef ownerID name tag = ''owner/'' @ ownerID @ ''/'' @ name @ '':'' @ tag"

section \<open>The language of the pattern\<close>

definition segment_char :: "char \<Rightarrow> bool" where
  "segment_char c \<longleftrightarrow> c \<in> set (alnum @ ''._-'')"

definition ref_segment :: "bytes \<Rightarrow> bool" where
  "ref_segment s \<longleftrightarrow>
     s \<noteq> [] \<and> length s \<le> 128 \<and> hd s \<in> set alnum \<and> list_all segment_char s"

lemma lang_literal [simp]: "lang (literal s) = {s}"
  by (induction s) (auto simp: conc_def)

lemma conc_singleton: "s \<in> conc {p} B \<longleftrightarrow> (\<exists>v \<in> B. s = p @ v)"
  by (auto simp: conc_def)

lemma conc_iff: "s \<in> conc A B \<longleftrightarrow> (\<exists>u \<in> A. \<exists>v \<in> B. s = u @ v)"
  by (auto simp: conc_def)

lemma conc_class: "c # t \<in> conc (lang (Class cs)) B \<longleftrightarrow> c \<in> set cs \<and> t \<in> B"
  by (auto simp: conc_Cons)

lemma power_lang_class:
  "s \<in> power_lang {[c] |c. c \<in> set cs} n \<longleftrightarrow> length s = n \<and> set s \<subseteq> set cs"
proof (induction n arbitrary: s)
  case (Suc n)
  have "s \<in> power_lang {[c] |c. c \<in> set cs} (Suc n) \<longleftrightarrow>
      (\<exists>c t. s = c # t \<and> c \<in> set cs \<and> t \<in> power_lang {[c] |c. c \<in> set cs} n)"
    unfolding power_lang.simps conc_iff by force
  then show ?case unfolding Suc by (cases s) auto
qed auto

lemma lang_between_class:
  "s \<in> lang (Between (Class cs) m n) \<longleftrightarrow> m \<le> length s \<and> length s \<le> n \<and> set s \<subseteq> set cs"
  unfolding lang.simps UN_iff power_lang_class by auto

lemma lang_owned_segment: "s \<in> lang owned_segment \<longleftrightarrow> ref_segment s"
proof (cases s)
  case Nil
  then show ?thesis by (auto simp: owned_segment_def ref_segment_def conc_iff)
next
  case (Cons c t)
  have "s \<in> lang owned_segment \<longleftrightarrow>
      c \<in> set alnum \<and> t \<in> lang (Between (Class (alnum @ ''._-'')) 0 127)"
    unfolding owned_segment_def lang.simps(4) conc_class Cons by blast
  also have "\<dots> \<longleftrightarrow> ref_segment s"
    unfolding lang_between_class ref_segment_def Cons by (auto simp: list_all_iff segment_char_def)
  finally show ?thesis .
qed

lemma lower_hex_set: "set (''abcdef'' @ digits) = {c. is_lower_hex c}"
  by (auto simp: digits_def is_lower_hex_def)

lemma lang_owned_digest: "s \<in> lang owned_digest \<longleftrightarrow> contentDigestPattern s"
proof -
  have "s \<in> lang owned_digest \<longleftrightarrow>
      (\<exists>v. s = ''sha256:'' @ v \<and> length v = 64 \<and> list_all is_lower_hex v)"
    unfolding owned_digest_def lang.simps(4) lang_literal conc_singleton Bex_def lang_between_class
      lower_hex_set by (auto simp: list_all_iff)
  also have "\<dots> \<longleftrightarrow> contentDigestPattern s"
    by (auto simp: contentDigestPattern_def split: option.splits simp: strip_prefix_Some_iff)
  finally show ?thesis .
qed

section \<open>Printing and parsing\<close>

text \<open>A well-formed reference names a tag or an exact digest, never both.\<close>

definition valid_owned_ref :: "owned_capsule_ref \<Rightarrow> bool" where
  "valid_owned_ref p \<longleftrightarrow>
     ref_segment (ocr_OwnerID p) \<and> ref_segment (ocr_Name p)
     \<and> (ref_segment (ocr_Tag p) \<and> ocr_Digest p = []
        \<or> ocr_Tag p = [] \<and> contentDigestPattern (ocr_Digest p))"

definition print_owned_ref :: "owned_capsule_ref \<Rightarrow> string" where
  "print_owned_ref p =
     ''owner/'' @ ocr_OwnerID p @ ''/'' @ ocr_Name p
       @ (if ocr_Tag p \<noteq> [] then '':'' @ ocr_Tag p else ''@'' @ ocr_Digest p)"

lemma segment_char_graphic: "segment_char c \<Longrightarrow> graphic c"
  by (auto simp: segment_char_def alnum_def upper_def lower_def digits_def)

lemma segment_char_separators [simp]:
  "\<not> segment_char CHR ''/''" "\<not> segment_char CHR '':''" "\<not> segment_char CHR ''@''"
  by (simp_all add: segment_char_def alnum_def upper_def lower_def digits_def)

lemma ref_segment_chars: "ref_segment s \<Longrightarrow> c \<in> set s \<Longrightarrow> segment_char c"
  by (simp add: ref_segment_def list_all_iff)

lemma contentDigestPattern_nonempty: "contentDigestPattern s \<Longrightarrow> s \<noteq> []"
  by (auto simp: contentDigestPattern_def)

lemma lower_hex_graphic: "is_lower_hex c \<Longrightarrow> graphic c"
  by (auto simp: is_lower_hex_def)

lemma contentDigestPattern_graphic:
  assumes "contentDigestPattern s"
  shows "list_all graphic s"
proof -
  from assms obtain v where s: "s = ''sha256:'' @ v" and "list_all is_lower_hex v"
    unfolding contentDigestPattern_def
    by (cases "strip_prefix ''sha256:'' s") (simp_all add: strip_prefix_Some_iff del: strip_prefix.simps)
  then have "list_all graphic v" by (simp add: list_all_iff lower_hex_graphic)
  then show ?thesis unfolding s by simp
qed

lemma matches_owned_iff:
  "matches ownedCapsuleRefPattern ref \<longleftrightarrow> (\<exists>p. valid_owned_ref p \<and> ref = print_owned_ref p)"
proof
  assume "matches ownedCapsuleRefPattern ref"
  then obtain u n t where segments: "ref_segment u" "ref_segment n"
    and ref: "ref = ''owner/'' @ u @ ''/'' @ n @ t"
    and t: "t \<in> conc {'':''} (lang owned_segment) \<union> conc {''@''} (lang owned_digest)"
    unfolding matches_iff_lang ownedCapsuleRefPattern_def lang.simps(4,5) lang_literal
      conc_singleton conc_iff [of _ "lang owned_segment"] lang_owned_segment Bex_def by blast
  from t consider (tag) v where "t = '':'' @ v" "ref_segment v"
    | (digest) v where "t = ''@'' @ v" "contentDigestPattern v"
    by (auto simp: conc_singleton lang_owned_segment lang_owned_digest)
  then show "\<exists>p. valid_owned_ref p \<and> ref = print_owned_ref p"
  proof cases
    case tag
    with segments ref show ?thesis
      by (intro exI [of _ "\<lparr>ocr_OwnerID = u, ocr_Name = n, ocr_Digest = [], ocr_Tag = v\<rparr>"])
        (simp add: valid_owned_ref_def print_owned_ref_def ref_segment_def)
  next
    case digest
    with segments ref show ?thesis
      by (intro exI [of _ "\<lparr>ocr_OwnerID = u, ocr_Name = n, ocr_Digest = v, ocr_Tag = []\<rparr>"])
        (simp add: valid_owned_ref_def print_owned_ref_def)
  qed
next
  assume "\<exists>p. valid_owned_ref p \<and> ref = print_owned_ref p"
  then obtain p where p: "valid_owned_ref p" and ref: "ref = print_owned_ref p" by blast
  let ?t = "if ocr_Tag p \<noteq> [] then '':'' @ ocr_Tag p else ''@'' @ ocr_Digest p"
  from p have "?t \<in> conc {'':''} (lang owned_segment) \<union> conc {''@''} (lang owned_digest)"
    by (auto simp: conc_singleton lang_owned_segment lang_owned_digest valid_owned_ref_def
        ref_segment_def)
  moreover from p have "ref_segment (ocr_OwnerID p)" "ref_segment (ocr_Name p)"
    by (simp_all add: valid_owned_ref_def)
  ultimately show "matches ownedCapsuleRefPattern ref"
    unfolding matches_iff_lang ownedCapsuleRefPattern_def lang.simps(4,5) lang_literal
      conc_singleton conc_iff [of _ "lang owned_segment"] lang_owned_segment Bex_def ref
      print_owned_ref_def by blast
qed

lemma takeWhile_separated:
  "(\<And>c. c \<in> set s \<Longrightarrow> P c) \<Longrightarrow> \<not> P d \<Longrightarrow> takeWhile P (s @ d # t) = s"
  by (simp add: takeWhile_tail)

lemma owned_groups_unique:
  assumes "valid_owned_ref p"
  shows "owned_groups (print_owned_ref p) = p"
proof -
  let ?t = "if ocr_Tag p \<noteq> [] then '':'' @ ocr_Tag p else ''@'' @ ocr_Digest p"
  let ?d = "if ocr_Tag p \<noteq> [] then CHR '':'' else CHR ''@''"
  let ?r = "if ocr_Tag p \<noteq> [] then ocr_Tag p else ocr_Digest p"
  have t: "?t = ?d # ?r" by simp
  from assms have owner: "takeWhile (\<lambda>c. c \<noteq> CHR ''/'') (ocr_OwnerID p @ CHR ''/'' # x) = ocr_OwnerID p"
    and name: "takeWhile (\<lambda>c. c \<noteq> CHR '':'' \<and> c \<noteq> CHR ''@'') (ocr_Name p @ CHR '':'' # x) = ocr_Name p"
      "takeWhile (\<lambda>c. c \<noteq> CHR '':'' \<and> c \<noteq> CHR ''@'') (ocr_Name p @ CHR ''@'' # x) = ocr_Name p"
    for x by (auto intro!: takeWhile_separated simp: valid_owned_ref_def dest: ref_segment_chars)
  have scoped: "drop 6 (print_owned_ref p) = ocr_OwnerID p @ CHR ''/'' # ocr_Name p @ ?d # ?r"
    by (simp add: print_owned_ref_def)
  have groups: "owned_groups (print_owned_ref p) =
      \<lparr>ocr_OwnerID = ocr_OwnerID p, ocr_Name = ocr_Name p,
       ocr_Digest = (if ocr_Tag p \<noteq> [] then [] else ocr_Digest p), ocr_Tag = ocr_Tag p\<rparr>"
    unfolding owned_groups_def Let_def scoped owner by (simp add: name)
  from assms show ?thesis
    unfolding groups by (cases p) (auto simp: valid_owned_ref_def)
qed

lemma print_owned_ref_trimmed:
  assumes "valid_owned_ref p"
  shows "trim_space (print_owned_ref p) = print_owned_ref p"
proof -
  from assms have "list_all graphic (print_owned_ref p)"
    by (auto simp: print_owned_ref_def valid_owned_ref_def list_all_iff
        dest: ref_segment_chars segment_char_graphic contentDigestPattern_graphic)
  moreover have "print_owned_ref p = CHR ''o'' # tl (print_owned_ref p)"
    by (simp add: print_owned_ref_def)
  ultimately show ?thesis
    using trim_space_graphic [of "CHR ''o''" "tl (print_owned_ref p)"]
    by (metis last_in_set list.set_intros(1) list_all_iff list.distinct(1))
qed

lemma parse_owned_parts:
  "ParseOwnedCapsuleRef ref = Inr p \<longleftrightarrow> valid_owned_ref p \<and> ref = print_owned_ref p"
proof
  assume accepted: "ParseOwnedCapsuleRef ref = Inr p"
  then have "matches ownedCapsuleRefPattern ref" and p: "p = owned_groups ref"
    by (auto simp: ParseOwnedCapsuleRef_def split: if_splits)
  then obtain q where "valid_owned_ref q" "ref = print_owned_ref q"
    by (auto simp: matches_owned_iff)
  with p show "valid_owned_ref p \<and> ref = print_owned_ref p"
    by (simp add: owned_groups_unique)
next
  assume "valid_owned_ref p \<and> ref = print_owned_ref p"
  then show "ParseOwnedCapsuleRef ref = Inr p"
    by (auto simp: ParseOwnedCapsuleRef_def print_owned_ref_trimmed owned_groups_unique
        matches_owned_iff)
qed

text \<open>
  C28. Parsing an owner-scoped Capsule reference is the inverse of printing one: a text is accepted
  with the parts \<open>p\<close> exactly when it is the print of \<open>p\<close> and \<open>p\<close> is well formed (segments of at
  most 128 bytes of the class, a tag or a digest but not both).  So the owner read off an accepted
  reference is the only owner it can name.
\<close>

theorem parse_owned_ref_iff:
  "ParseOwnedCapsuleRef ref = Inr p \<longleftrightarrow> valid_owned_ref p \<and> ref = print_owned_ref p"
  by (rule parse_owned_parts)

end
