(* ===== verification/Profile_Resolve.thy ===== *)
theory Profile_Resolve
  imports Durable_Steps Capsule_Refs Composition Profiles
begin

text \<open>
  The workflow \<open>ProfileResolve\<close> of \<open>src/apps/workflows/profile_resolve.go\<close>: it resolves the Capsule
  refs of a Profile Version in the owner's namespace, composes their Components, decides under the
  Environment's upgrade policy whether the result may be applied without a user, and persists the
  Capsule Lock.  The Capsule store behind \<open>CapsuleResolver\<close> is an argument.
\<close>

section \<open>Data\<close>

record capsule_resolution =
  cres_OwnerID :: string
  cres_Digest :: string
  cres_Components :: "component list"
  cres_DiffSinceLastApproval :: string

record profile_version_data =
  pvd_ID :: string
  pvd_CapsuleRefs :: "capsule_ref list"

text \<open>
  The text kept for a Capsule whose digest differs from the approved one: the resolver's, or the one
  the code formats from the two digests.
\<close>

datatype approval_diff = ResolverDiff string | DigestChanged string string

record resolved_capsule_set =
  rset_LockedCapsules :: "locked_capsule list"
  rset_Components :: "resolved_component string_map"
  rset_ProjectDigest :: string
  rset_Classification :: resolution_classification
  rset_DiffSinceLastApproval :: "approval_diff string_map"

datatype resolve_error =
    RefNotOwned string capsule_ref_error
  | RefForeignOwner string string
  | RefPinNotExact string
  | RefResolveFailed string string
  | ResolutionForeignOwner string string
  | ResolutionDigestInvalid string capsule_ref_error
  | DigestNotPinned string string string
  | DigestUnresolved string
  | ProjectResolveFailed string string
  | ProjectDigestDiffers string string
  | ComponentsUnresolved composition_error

text \<open>
  The store is asked once per ref and once for the project Capsule; its answer may depend on how
  many questions came before.
\<close>

type_synonym capsule_resolver = "nat \<Rightarrow> string \<Rightarrow> capsule_ref \<Rightarrow> string + capsule_resolution"

section \<open>Checks on refs and resolutions\<close>

text \<open>\<open>strings.LastIndex\<close>, searching down from a position.\<close>

fun last_index_from :: "bytes \<Rightarrow> bytes \<Rightarrow> nat \<Rightarrow> nat option" where
  "last_index_from s sub 0 = (if take (length sub) s = sub then Some 0 else None)"
| "last_index_from s sub (Suc n) =
     (if take (length sub) (drop (Suc n) s) = sub then Some (Suc n) else last_index_from s sub n)"

definition LastIndex :: "bytes \<Rightarrow> bytes \<Rightarrow> nat option" where
  "LastIndex s sub = last_index_from s sub (length s)"

definition validateOwnedCapsuleRef :: "string \<Rightarrow> string \<Rightarrow> resolve_error option" where
  "validateOwnedCapsuleRef ownerID ref =
     (case ParseOwnedCapsuleRef ref of
        Inl err \<Rightarrow> Some (RefNotOwned ref err)
      | Inr parsed \<Rightarrow>
          if ocr_OwnerID parsed \<noteq> ownerID then Some (RefForeignOwner ref (ocr_OwnerID parsed)) else None)"

definition validateCapsuleResolution ::
  "string \<Rightarrow> string \<Rightarrow> capsule_resolution \<Rightarrow> resolve_error option" where
  "validateCapsuleResolution ownerID ref resolution =
     (if cres_OwnerID resolution \<noteq> ownerID
      then Some (ResolutionForeignOwner ref (cres_OwnerID resolution))
      else case ParseOwnedCapsuleRef (FormatOwnedCapsuleRef ownerID (cres_Digest resolution)) of
             Inl err \<Rightarrow> Some (ResolutionDigestInvalid ref err)
           | Inr parsed \<Rightarrow> None)"

definition exactOrResolvedDigest :: "string \<Rightarrow> string \<Rightarrow> resolve_error + string" where
  "exactOrResolvedDigest ref resolved =
     (case LastIndex ref ''@sha256:'' of
        Some at \<Rightarrow>
          let exact = drop (at + 1) ref
          in if resolved \<noteq> [] \<and> resolved \<noteq> exact then Inl (DigestNotPinned ref resolved exact)
             else Inr exact
      | None \<Rightarrow> if resolved = [] then Inl (DigestUnresolved ref) else Inr resolved)"

section \<open>Resolving the Capsules\<close>

text \<open>A missing key of \<open>lastApproved\<close> reads as the empty string.\<close>

definition approved_digest :: "(string \<rightharpoonup> string) \<Rightarrow> string \<Rightarrow> string" where
  "approved_digest lastApproved ref = (case lastApproved ref of None \<Rightarrow> [] | Some digest \<Rightarrow> digest)"

text \<open>One round of the loop over the refs: the locked digest and the resolution.\<close>

definition resolve_ref ::
  "(string \<Rightarrow> capsule_ref \<Rightarrow> string + capsule_resolution) \<Rightarrow> string \<Rightarrow> capsule_ref
   \<Rightarrow> resolve_error + string \<times> capsule_resolution" where
  "resolve_ref resolve ownerID ref =
     (case validateOwnedCapsuleRef ownerID (cref_Ref ref) of
        Some err \<Rightarrow> Inl err
      | None \<Rightarrow>
          if cref_FreshnessPolicy ref = FreshnessPin \<and> \<not> contains ''@sha256:'' (cref_Ref ref)
          then Inl (RefPinNotExact (cref_Ref ref))
          else case resolve ownerID ref of
                 Inl err \<Rightarrow> Inl (RefResolveFailed (cref_Ref ref) err)
               | Inr resolution \<Rightarrow>
                   (case validateCapsuleResolution ownerID (cref_Ref ref) resolution of
                      Some err \<Rightarrow> Inl err
                    | None \<Rightarrow>
                        (case exactOrResolvedDigest (cref_Ref ref) (cres_Digest resolution) of
                           Inl err \<Rightarrow> Inl err
                         | Inr digest \<Rightarrow> Inr (digest, resolution))))"

definition review_diff ::
  "(string \<rightharpoonup> string) \<Rightarrow> capsule_ref \<Rightarrow> string \<Rightarrow> capsule_resolution \<Rightarrow> approval_diff option" where
  "review_diff lastApproved ref digest resolution =
     (let approved = approved_digest lastApproved (cref_Ref ref)
      in if cref_FreshnessPolicy ref = FreshnessReview \<and> (approved = [] \<or> approved \<noteq> digest)
         then Some (if cres_DiffSinceLastApproval resolution = [] then DigestChanged approved digest
                    else ResolverDiff (cres_DiffSinceLastApproval resolution))
         else None)"

record resolved_refs =
  rr_locked :: "locked_capsule list"
  rr_sources :: "capsule_component_set list"
  rr_diffs :: "approval_diff string_map"

fun resolve_refs ::
  "capsule_resolver \<Rightarrow> string \<Rightarrow> (string \<rightharpoonup> string) \<Rightarrow> nat \<Rightarrow> resolved_refs \<Rightarrow> capsule_ref list
   \<Rightarrow> resolve_error + resolved_refs" where
  "resolve_refs resolver ownerID lastApproved index acc [] = Inr acc"
| "resolve_refs resolver ownerID lastApproved index acc (ref # refs) =
     (case resolve_ref (resolver index) ownerID ref of
        Inl err \<Rightarrow> Inl err
      | Inr (digest, resolution) \<Rightarrow>
          resolve_refs resolver ownerID lastApproved (Suc index)
            \<lparr>rr_locked = rr_locked acc @ [\<lparr>lcap_Ref = cref_Ref ref, lcap_Digest = digest\<rparr>],
             rr_sources = rr_sources acc @
               [\<lparr>ccs_Ref = cref_Ref ref, ccs_Digest = digest, ccs_Exclusions = cref_Exclusions ref,
                 ccs_Components = cres_Components resolution\<rparr>],
             rr_diffs = (case review_diff lastApproved ref digest resolution of
                           None \<Rightarrow> rr_diffs acc
                         | Some diff \<Rightarrow> go_update (cref_Ref ref) diff (rr_diffs acc))\<rparr>
            refs)"

definition emptyProjectDigest :: string where
  "emptyProjectDigest = ''sha256:e3b0c44298fc1c149afbf4c8996fb92427ae41e4649b934ca495991b7852b855''"

definition resolve_project ::
  "(string \<Rightarrow> capsule_ref \<Rightarrow> string + capsule_resolution) \<Rightarrow> string \<Rightarrow> string
   \<Rightarrow> resolve_error + capsule_component_set" where
  "resolve_project resolve ownerID selected =
     (let projectRef = \<lparr>cref_Ref = FormatOwnedCapsuleRef ownerID selected,
                        cref_FreshnessPolicy = FreshnessPin, cref_Exclusions = []\<rparr>
      in case resolve ownerID projectRef of
           Inl err \<Rightarrow> Inl (ProjectResolveFailed selected err)
         | Inr resolution \<Rightarrow>
             (case validateCapsuleResolution ownerID (cref_Ref projectRef) resolution of
                Some err \<Rightarrow> Inl err
              | None \<Rightarrow>
                  (case exactOrResolvedDigest (cref_Ref projectRef) (cres_Digest resolution) of
                     Inl err \<Rightarrow> Inl err
                   | Inr digest \<Rightarrow>
                       if digest \<noteq> selected then Inl (ProjectDigestDiffers digest selected)
                       else Inr \<lparr>ccs_Ref = cref_Ref projectRef, ccs_Digest = digest,
                                 ccs_Exclusions = [], ccs_Components = cres_Components resolution\<rparr>)))"

definition resolved_component_of ::
  "component_composition_result \<Rightarrow> string \<Rightarrow> string \<times> component \<Rightarrow> string \<times> resolved_component" where
  "resolved_component_of composition selected entry =
     (case entry of (cid, component) \<Rightarrow>
        let listed = (case map_of (ccr_ComponentCapsuleDigests composition) cid of
                        None \<Rightarrow> [] | Some digest \<Rightarrow> digest);
            sources = (case map_of (ccr_ComponentSources composition) cid of
                         None \<Rightarrow> [] | Some xs \<Rightarrow> xs)
        in (cid, \<lparr>rc_ID = cid, rc_Type = com_Type component,
                  rc_CapsuleDigest = (if listed = [] then selected else listed),
                  rc_ComponentDigest = com_Digest component, rc_Scope = com_Scope component,
                  rc_TrustClass = com_TrustClass component,
                  rc_Requirements = com_Requirements component,
                  rc_Provenance = com_Provenance component, rc_Sources = sources\<rparr>))"

definition project_wanted :: "string option \<Rightarrow> string option" where
  "project_wanted projectDigest =
     (case projectDigest of None \<Rightarrow> None | Some digest \<Rightarrow> if blank digest then None else Some digest)"

definition resolveCapsules ::
  "config_codec \<Rightarrow> capsule_resolver \<Rightarrow> string \<Rightarrow> profile_version_data \<Rightarrow> string option
   \<Rightarrow> (string \<rightharpoonup> string) \<Rightarrow> resolve_error + resolved_capsule_set" where
  "resolveCapsules codec resolver ownerID version projectDigest lastApproved =
     (case resolve_refs resolver ownerID lastApproved 0
             \<lparr>rr_locked = [], rr_sources = [], rr_diffs = []\<rparr> (pvd_CapsuleRefs version) of
        Inl err \<Rightarrow> Inl err
      | Inr refs \<Rightarrow>
          let resolved_project =
            (case project_wanted projectDigest of
               None \<Rightarrow> Inr (emptyProjectDigest, None)
             | Some selected \<Rightarrow>
                 (case resolve_project (resolver (length (pvd_CapsuleRefs version))) ownerID selected of
                    Inl err \<Rightarrow> Inl err
                  | Inr source \<Rightarrow> Inr (selected, Some source)))
          in case resolved_project of
               Inl err \<Rightarrow> Inl err
             | Inr (selected, project) \<Rightarrow>
                 (case ResolveCapsuleComposition codec (rr_sources refs) project of
                    (composition, Some err) \<Rightarrow> Inl (ComponentsUnresolved err)
                  | (composition, None) \<Rightarrow>
                      Inr \<lparr>rset_LockedCapsules = rr_locked refs,
                           rset_Components =
                             map (resolved_component_of composition selected) (ccr_Components composition),
                           rset_ProjectDigest = selected,
                           rset_Classification =
                             (if rr_diffs refs \<noteq> [] then RequiresReview
                              else ccr_Classification composition),
                           rset_DiffSinceLastApproval = rr_diffs refs\<rparr>))"

section \<open>The upgrade decision\<close>

definition policy_rank :: "upgrade_policy \<Rightarrow> nat" where
  "policy_rank policy = (case policy of UpgradeManual \<Rightarrow> 0 | UpgradeNotify \<Rightarrow> 1 | _ \<Rightarrow> 2)"

definition narrowerUpgradePolicy :: "upgrade_policy \<Rightarrow> upgrade_policy \<Rightarrow> upgrade_policy" where
  "narrowerUpgradePolicy first second =
     (if policy_rank first \<le> policy_rank second then first else second)"

text \<open>The \<open>switch\<close> in the loop over the Components: the first case that holds.\<close>

definition mark_component :: "resolved_component \<Rightarrow> auto_safe_plan \<Rightarrow> auto_safe_plan" where
  "mark_component component plan =
     (if rc_TrustClass component = TrustExecutable then plan\<lparr>asp_ExecutableDigestChanged := True\<rparr>
      else if rc_TrustClass component = TrustPermission
              \<or> rc_Type component = ComponentPermissionPolicy
      then plan\<lparr>asp_PermissionChanged := True\<rparr>
      else if rc_Type component = ComponentIntegration then plan\<lparr>asp_IntegrationChanged := True\<rparr>
      else if elems (reqs_Secrets (rc_Requirements component)) \<noteq> []
      then plan\<lparr>asp_CredentialRequirementChanged := True\<rparr>
      else plan)"

definition initial_plan ::
  "managed_target_state list \<Rightarrow> auto_safe_plan option \<Rightarrow> auto_safe_plan" where
  "initial_plan managedTargets supplied =
     (case supplied of
        None \<Rightarrow> \<lparr>asp_ManagedTargets = managedTargets, asp_ManagedTargetsClean = False,
                 asp_ExecutableDigestChanged = False, asp_PermissionChanged = False,
                 asp_IntegrationChanged = False, asp_CredentialRequirementChanged = False,
                 asp_HasConflicts = False\<rparr>
      | Some plan \<Rightarrow> plan\<lparr>asp_ManagedTargets := managedTargets\<rparr>)"

record upgrade_decision =
  ud_Applyable :: bool
  ud_RequiresReview :: bool
  ud_Reason :: string

definition classifyUpgrade ::
  "upgrade_policy \<Rightarrow> resolved_capsule_set \<Rightarrow> managed_target_state list \<Rightarrow> auto_safe_plan option
   \<Rightarrow> upgrade_decision" where
  "classifyUpgrade policy resolved managedTargets supplied =
     (let plan = fold (\<lambda>(cid, component). mark_component component) (rset_Components resolved)
                   (initial_plan managedTargets supplied);
          decision = EvaluateAutoSafe plan;
          verdict = (\<lambda>applyable review reason.
            \<lparr>ud_Applyable = applyable, ud_RequiresReview = review, ud_Reason = reason\<rparr>)
      in case policy of
           UpgradeManual \<Rightarrow> verdict False True ''manual_upgrade''
         | UpgradeNotify \<Rightarrow>
             if rset_Classification resolved \<noteq> AutoSafe \<or> rset_DiffSinceLastApproval resolved \<noteq> []
             then verdict False True ''requires_review''
             else verdict False False ''notify_upgrade''
         | UpgradeAutoSafe \<Rightarrow>
             if rset_DiffSinceLastApproval resolved \<noteq> []
             then verdict False True ''freshness_review_required''
             else if rset_Classification resolved \<noteq> AutoSafe \<and> asd_Reason decision = []
             then verdict False True ''requires_review''
             else if \<not> asd_Applyable decision then verdict False True (asd_Reason decision)
             else verdict True False []
         | UpgradeOther s \<Rightarrow> verdict False True ''invalid_upgrade_policy'')"

section \<open>The workflow\<close>

record profile_resolve_input =
  pri_OperationID :: string
  pri_EnvironmentID :: string
  pri_ProfileVersionID :: string
  pri_OwnerID :: string
  pri_ProjectCapsuleDigest :: "string option"
  pri_UpgradePolicy :: upgrade_policy
  pri_LastApprovedCapsuleDigests :: "string \<rightharpoonup> string"
  pri_AutoSafePlan :: "auto_safe_plan option"

record profile_resolve_state =
  prst_ManagedTargets :: "managed_target_state list"
  prst_LastApprovedCapsuleDigests :: "string \<rightharpoonup> string"
  prst_PersistedUpgradePolicy :: "upgrade_policy option"

text \<open>\<open>formatApprovalDiffs\<close> joins the pairs in the order of their keys; the pairs stand for the text.\<close>

definition formatApprovalDiffs :: "approval_diff string_map \<Rightarrow> (string \<times> approval_diff) list" where
  "formatApprovalDiffs values = sort_key fst values"

record profile_resolve_output =
  pro_LockID :: string
  pro_Digest :: string
  pro_Classification :: resolution_classification
  pro_RequiresReview :: bool
  pro_Applyable :: bool
  pro_UpgradeReason :: string
  pro_DiffSinceLastApproval :: "(string \<times> approval_diff) list"

text \<open>A step whose closure is code of the workflow fails with its error or the engine's.\<close>

datatype 'e step_failure = EngineFailed string | CodeFailed 'e

datatype resolve_event =
    RecordedResolve string string string string "string option" gotime "string option"
  | LoadedVersion string string "string + profile_version_data"
  | LoadedResolveState string "string + profile_resolve_state"
  | ResolvedCapsules "resolve_error step_failure + resolved_capsule_set"
  | CountedConflict
  | CountedResolution
  | CreatedLock "capsule_lock_error step_failure + capsule_lock_snapshot"
  | PersistedLock capsule_lock_snapshot "capsule_lock_error step_failure + capsule_lock_snapshot"
  | CompletedResolve string gotime "string option"

type_synonym resolve_trace = "resolve_event list"

text \<open>
  The services behind the workflow, as functions of the journal.  \<open>rsv_engine\<close> is an error of the
  engine itself for a step whose closure is code.
\<close>

record resolve_services =
  rsv_configured :: bool
  rsv_metrics :: bool
  rsv_now :: "resolve_trace \<Rightarrow> gotime"
  rsv_new_id :: "resolve_trace \<Rightarrow> string"
  rsv_engine :: "resolve_trace \<Rightarrow> string option"
  rsv_record :: "resolve_trace \<Rightarrow> string option"
  rsv_version :: "resolve_trace \<Rightarrow> string + profile_version_data"
  rsv_state :: "resolve_trace \<Rightarrow> string + profile_resolve_state"
  rsv_resolver :: "resolve_trace \<Rightarrow> capsule_resolver"
  rsv_persist :: "resolve_trace \<Rightarrow> capsule_lock \<Rightarrow> string + capsule_lock"
  rsv_complete :: "resolve_trace \<Rightarrow> string option"

datatype resolve_run_error =
    ResolveKeyMismatch
  | ResolveDependenciesIncomplete
  | ResolveOwnerRequired
  | ResolvePolicyInvalid upgrade_policy
  | ResolvePersistedPolicyInvalid upgrade_policy
  | ResolveStepFailed string
  | ResolveCapsulesFailed "resolve_error step_failure"
  | ResolveLockRejected "capsule_lock_error step_failure"

definition code_step ::
  "('ev list \<Rightarrow> string option) \<Rightarrow> ('ev list \<Rightarrow> 'e + 'a) \<Rightarrow> 'ev list \<Rightarrow> 'e step_failure + 'a" where
  "code_step engine code h =
     (case engine h of
        Some err \<Rightarrow> Inl (EngineFailed err)
      | None \<Rightarrow> (case code h of Inl err \<Rightarrow> Inl (CodeFailed err) | Inr x \<Rightarrow> Inr x))"

text \<open>The action \<open>PersistCapsuleLock\<close>: the lock is checked again before it is stored.\<close>

definition PersistCapsuleLock_action ::
  "(capsule_lock \<Rightarrow> string + capsule_lock) \<Rightarrow> capsule_lock_snapshot
   \<Rightarrow> capsule_lock_error step_failure + capsule_lock_snapshot" where
  "PersistCapsuleLock_action repository snapshot =
     (case CreateCapsuleLock snapshot of
        Inl err \<Rightarrow> Inl (CodeFailed err)
      | Inr lock \<Rightarrow>
          (case repository lock of
             Inl err \<Rightarrow> Inl (EngineFailed err)
           | Inr persisted \<Rightarrow> Inr (capsule_lock_Snapshot persisted)))"

definition lock_candidate ::
  "string \<Rightarrow> string \<Rightarrow> string \<Rightarrow> resolved_capsule_set \<Rightarrow> gotime \<Rightarrow> capsule_lock_snapshot" where
  "lock_candidate lockID environmentID profileVersionID resolved at =
     \<lparr>lock_ID = lockID, lock_EnvironmentID = environmentID, lock_ProfileVersionID = profileVersionID,
      lock_ProjectCapsuleDigest = rset_ProjectDigest resolved,
      lock_Capsules = rset_LockedCapsules resolved,
      lock_ResolvedComponents = rset_Components resolved, lock_Digest = [], lock_CreatedAt = utc at\<rparr>"

definition create_lock ::
  "string \<Rightarrow> string \<Rightarrow> string \<Rightarrow> resolved_capsule_set \<Rightarrow> gotime
   \<Rightarrow> capsule_lock_error + capsule_lock_snapshot" where
  "create_lock lockID environmentID profileVersionID resolved at =
     (case CreateCapsuleLock (lock_candidate lockID environmentID profileVersionID resolved at) of
        Inl err \<Rightarrow> Inl err
      | Inr lock \<Rightarrow> Inr (capsule_lock_Snapshot lock))"

text \<open>The part of \<open>Run\<close> after the state is loaded and the policy narrowed.\<close>

definition resolve_and_lock ::
  "resolve_services \<Rightarrow> config_codec \<Rightarrow> profile_resolve_input \<Rightarrow> upgrade_policy \<Rightarrow> profile_version_data
   \<Rightarrow> profile_resolve_state \<Rightarrow> (resolve_event, resolve_run_error, profile_resolve_output) durable" where
  "resolve_and_lock svc codec input policy version state =
     run_step
       (code_step (rsv_engine svc) (\<lambda>h. resolveCapsules codec (rsv_resolver svc h) (pri_OwnerID input)
          version (pri_ProjectCapsuleDigest input) (prst_LastApprovedCapsuleDigests state)))
       ResolvedCapsules
       (\<lambda>err. emit (rsv_metrics svc \<and> (case err of
                 CodeFailed (ComponentsUnresolved (ComponentConflictError ids conflicts)) \<Rightarrow> True
               | _ \<Rightarrow> False)) CountedConflict
          (abandon (ResolveCapsulesFailed err)))
       (\<lambda>resolved.
          let decision = classifyUpgrade policy resolved (prst_ManagedTargets state) (pri_AutoSafePlan input)
          in emit (rsv_metrics svc) CountedResolution
            (run_step
              (code_step (rsv_engine svc) (\<lambda>h. create_lock (rsv_new_id svc h) (pri_EnvironmentID input)
                 (pri_ProfileVersionID input) resolved (rsv_now svc h)))
              CreatedLock
              (\<lambda>err. abandon (ResolveLockRejected err))
              (\<lambda>lock.
                run_step (\<lambda>h. PersistCapsuleLock_action (rsv_persist svc h) lock)
                  (PersistedLock lock)
                  (\<lambda>err. abandon (ResolveLockRejected err))
                  (\<lambda>persisted. read_from (rsv_now svc) (\<lambda>now.
                    run_void (rsv_complete svc) (CompletedResolve (pri_OperationID input) (utc now))
                      (\<lambda>err. abandon (ResolveStepFailed err))
                      (finish \<lparr>pro_LockID = lock_ID persisted, pro_Digest = lock_Digest persisted,
                               pro_Classification = rset_Classification resolved,
                               pro_RequiresReview = ud_RequiresReview decision,
                               pro_Applyable = ud_Applyable decision,
                               pro_UpgradeReason = ud_Reason decision,
                               pro_DiffSinceLastApproval =
                                 formatApprovalDiffs (rset_DiffSinceLastApproval resolved)\<rparr>))))))"

definition ProfileResolve_Run ::
  "resolve_services \<Rightarrow> config_codec \<Rightarrow> string \<Rightarrow> string \<Rightarrow> profile_resolve_input
   \<Rightarrow> (resolve_event, resolve_run_error, profile_resolve_output) durable" where
  "ProfileResolve_Run svc codec key invocationID input =
     (let policy = (if pri_UpgradePolicy input = UpgradeOther [] then UpgradeManual
                    else pri_UpgradePolicy input)
      in if key \<noteq> pri_OperationID input then abandon ResolveKeyMismatch
         else if \<not> rsv_configured svc then abandon ResolveDependenciesIncomplete
         else if blank (pri_OwnerID input) then abandon ResolveOwnerRequired
         else if \<not> upgrade_policy_Valid policy then abandon (ResolvePolicyInvalid policy)
         else read_from (rsv_now svc) (\<lambda>now. run_void (rsv_record svc)
           (RecordedResolve (pri_OperationID input) invocationID (pri_EnvironmentID input)
              (pri_ProfileVersionID input) (pri_ProjectCapsuleDigest input) (utc now))
           (\<lambda>err. abandon (ResolveStepFailed err))
           (run_step (rsv_version svc) (LoadedVersion (pri_EnvironmentID input) (pri_ProfileVersionID input))
             (\<lambda>err. abandon (ResolveStepFailed err))
             (\<lambda>version. run_step (rsv_state svc) (LoadedResolveState (pri_EnvironmentID input))
               (\<lambda>err. abandon (ResolveStepFailed err))
               (\<lambda>state. case prst_PersistedUpgradePolicy state of
                  None \<Rightarrow> resolve_and_lock svc codec input policy version state
                | Some persisted \<Rightarrow>
                    if \<not> upgrade_policy_Valid persisted
                    then abandon (ResolvePersistedPolicyInvalid persisted)
                    else resolve_and_lock svc codec input (narrowerUpgradePolicy policy persisted)
                           version state)))))"

section \<open>Exact digests\<close>

lemma last_index_from_spec:
  "(case last_index_from s sub n of
      None \<Rightarrow> \<forall>j \<le> n. take (length sub) (drop j s) \<noteq> sub
    | Some i \<Rightarrow> i \<le> n \<and> take (length sub) (drop i s) = sub
        \<and> (\<forall>j. i < j \<and> j \<le> n \<longrightarrow> take (length sub) (drop j s) \<noteq> sub))"
proof (induction n)
  case (Suc n)
  then show ?case by (auto split: option.splits simp: le_Suc_eq)
qed auto

lemma LastIndex_Some: "LastIndex s sub = Some i \<Longrightarrow> take (length sub) (drop i s) = sub"
  using last_index_from_spec [where s = s and sub = sub and n = "length s"] by (simp add: LastIndex_def)

lemma LastIndex_None:
  "LastIndex s sub = None \<Longrightarrow> j \<le> length s \<Longrightarrow> take (length sub) (drop j s) \<noteq> sub"
  using last_index_from_spec [where s = s and sub = sub and n = "length s"] by (simp add: LastIndex_def)

lemma occurrence_marker:
  assumes "take (length (c # w)) (drop j s) = c # w"
  shows "j < length s \<and> s ! j = c"
proof -
  from assms have "drop j s \<noteq> []" by auto
  then show ?thesis using assms by (auto simp: Cons_nth_drop_Suc [symmetric] not_le)
qed

lemma LastIndex_absent: "c \<notin> set s \<Longrightarrow> LastIndex s (c # w) = None"
  using LastIndex_Some [of s "c # w"] occurrence_marker [of c w _ s]
  by (cases "LastIndex s (c # w)") (auto simp: in_set_conv_nth)

lemma LastIndex_unique:
  assumes "c \<notin> set u" "c \<notin> set (w @ v)"
  shows "LastIndex (u @ c # w @ v) (c # w) = Some (length u)"
proof -
  let ?s = "u @ c # w @ v"
  have only: "j = length u" if "take (length (c # w)) (drop j ?s) = c # w" for j
  proof -
    from occurrence_marker [OF that] have j: "j < length ?s" "?s ! j = c" by auto
    then consider "j < length u" | "j = length u" | "length u < j" by linarith
    then show ?thesis
    proof cases
      case 1
      with j assms(1) show ?thesis by (auto simp: nth_append)
    next
      case 3
      with j have "(w @ v) ! (j - length u - 1) = c" "j - length u - 1 < length (w @ v)"
        by (auto simp: nth_append nth_Cons')
      with assms(2) show ?thesis by (metis nth_mem)
    qed
  qed
  have here: "take (length (c # w)) (drop (length u) ?s) = c # w" and "length u \<le> length ?s"
    by simp_all
  show ?thesis
  proof (cases "LastIndex ?s (c # w)")
    case None
    from LastIndex_None [OF None, of "length u"] here show ?thesis by simp
  next
    case (Some i)
    from only [OF LastIndex_Some [OF Some]] Some show ?thesis by simp
  qed
qed

lemma digest_text:
  assumes "contentDigestPattern d"
  shows "\<exists>v. d = ''sha256:'' @ v \<and> CHR ''@'' \<notin> set d \<and> CHR ''/'' \<notin> set d"
proof -
  from assms obtain v where d: "d = ''sha256:'' @ v" and hex: "list_all is_lower_hex v"
    unfolding contentDigestPattern_def
    by (cases "strip_prefix ''sha256:'' d") (simp_all add: strip_prefix_Some_iff del: strip_prefix.simps)
  have "\<not> is_lower_hex CHR ''@''" "\<not> is_lower_hex CHR ''/''" by (simp_all add: is_lower_hex_def)
  with hex have "CHR ''@'' \<notin> set v" "CHR ''/'' \<notin> set v" by (auto simp: list_all_iff)
  with d show ?thesis by simp
qed

lemma segment_separators:
  "ref_segment s \<Longrightarrow> CHR ''@'' \<notin> set s" "ref_segment s \<Longrightarrow> CHR ''/'' \<notin> set s"
  by (auto dest: ref_segment_chars)

lemma exact_digest_of_parsed:
  assumes "ParseOwnedCapsuleRef ref = Inr p"
  shows "exactOrResolvedDigest ref resolved =
    (if ocr_Digest p \<noteq> []
     then (if resolved \<noteq> [] \<and> resolved \<noteq> ocr_Digest p
           then Inl (DigestNotPinned ref resolved (ocr_Digest p)) else Inr (ocr_Digest p))
     else if resolved = [] then Inl (DigestUnresolved ref) else Inr resolved)"
proof -
  from assms have valid: "valid_owned_ref p" and ref: "ref = print_owned_ref p"
    by (simp_all add: parse_owned_parts)
  let ?u = "''owner/'' @ ocr_OwnerID p @ ''/'' @ ocr_Name p"
  from valid have u: "CHR ''@'' \<notin> set ?u" by (auto simp: valid_owned_ref_def dest: segment_separators)
  show ?thesis
  proof (cases "ocr_Tag p = []")
    case True
    with valid have digest: "contentDigestPattern (ocr_Digest p)"
      by (auto simp: valid_owned_ref_def ref_segment_def)
    then obtain v where d: "ocr_Digest p = ''sha256:'' @ v" and "CHR ''@'' \<notin> set (ocr_Digest p)"
      using digest_text by blast
    with LastIndex_unique [OF u, of "''sha256:''" v]
    have index: "LastIndex ref (CHR ''@'' # ''sha256:'') = Some (length ?u)"
      by (simp add: ref print_owned_ref_def True)
    have "ref = (?u @ ''@'') @ ocr_Digest p" by (simp add: ref print_owned_ref_def True)
    then have "drop (length (?u @ ''@'')) ref = ocr_Digest p"
      by (metis append_eq_conv_conj)
    with index d show ?thesis by (simp add: exactOrResolvedDigest_def)
  next
    case False
    with valid have "ref_segment (ocr_Tag p)" "ocr_Digest p = []"
      by (auto simp: valid_owned_ref_def)
    with u have "CHR ''@'' \<notin> set ref"
      by (auto simp: ref print_owned_ref_def False dest: segment_separators)
    with LastIndex_absent \<open>ocr_Digest p = []\<close> show ?thesis
      by (simp add: exactOrResolvedDigest_def)
  qed
qed

section \<open>What a resolution is made of\<close>

lemma split_at_unique:
  assumes "u @ c # v = x @ c # y" and "c \<notin> set x" "c \<notin> set y"
  shows "u = x \<and> v = y"
proof -
  have "c \<notin> set u"
  proof
    assume "c \<in> set u"
    then have "2 \<le> count_list (u @ c # v) c" using count_list_0_iff [of u c] by (cases "count_list u c") auto
    moreover have "count_list (x @ c # y) c = 1" using assms(2,3) by (simp add: count_list_0_iff)
    ultimately show False using assms(1) by simp
  qed
  with assms(1,2) show ?thesis by (auto simp: append_eq_append_conv2 Cons_eq_append_conv append_eq_Cons_conv)
qed

lemma formatted_ref_parts:
  assumes "ParseOwnedCapsuleRef (FormatOwnedCapsuleRef ownerID digest) = Inr p"
  shows "ocr_OwnerID p = ownerID \<and> ocr_Digest p = digest \<and> contentDigestPattern digest"
proof -
  from assms have valid: "valid_owned_ref p" and "FormatOwnedCapsuleRef ownerID digest = print_owned_ref p"
    by (simp_all add: parse_owned_parts)
  then have shape: "ownerID @ CHR ''/'' # ''capsule@'' @ digest = ocr_OwnerID p @ CHR ''/'' # ocr_Name p
      @ (if ocr_Tag p \<noteq> [] then '':'' @ ocr_Tag p else ''@'' @ ocr_Digest p)"
    (is "_ = _ @ _ # ?rest")
    by (simp add: FormatOwnedCapsuleRef_def print_owned_ref_def)
  from valid have rest: "CHR ''/'' \<notin> set ?rest" and owner: "CHR ''/'' \<notin> set (ocr_OwnerID p)"
    by (auto simp: valid_owned_ref_def dest: segment_separators digest_text)
  from split_at_unique [OF shape owner rest]
  have parts: "ownerID = ocr_OwnerID p" and named: "''capsule@'' @ digest = ?rest" by simp_all
  have "ocr_Tag p = []"
  proof (rule ccontr)
    assume tag: "ocr_Tag p \<noteq> []"
    with valid have "CHR ''@'' \<notin> set ?rest"
      by (auto simp: valid_owned_ref_def dest: segment_separators)
    moreover have "CHR ''@'' \<in> set (''capsule@'' @ digest)" by simp
    ultimately show False unfolding named by blast
  qed
  with valid have digest: "contentDigestPattern (ocr_Digest p)"
    by (auto simp: valid_owned_ref_def ref_segment_def)
  from named \<open>ocr_Tag p = []\<close>
  have split: "''capsule'' @ CHR ''@'' # digest = ocr_Name p @ CHR ''@'' # ocr_Digest p" by simp
  have "CHR ''@'' \<notin> set (ocr_Name p)" "CHR ''@'' \<notin> set (ocr_Digest p)"
    using valid digest digest_text by (auto simp: valid_owned_ref_def dest: segment_separators)
  with split_at_unique [OF split] have "digest = ocr_Digest p" by simp
  with parts digest show ?thesis by simp
qed

text \<open>What the workflow knows of a locked Capsule.\<close>

definition locked_from :: "string \<Rightarrow> capsule_ref \<Rightarrow> locked_capsule \<Rightarrow> bool" where
  "locked_from ownerID ref locked \<longleftrightarrow>
     lcap_Ref locked = cref_Ref ref \<and> contentDigestPattern (lcap_Digest locked)
     \<and> (\<exists>p. ParseOwnedCapsuleRef (cref_Ref ref) = Inr p \<and> ocr_OwnerID p = ownerID
           \<and> (ocr_Digest p \<noteq> [] \<or> cref_FreshnessPolicy ref = FreshnessPin
              \<longrightarrow> lcap_Digest locked = ocr_Digest p))"

lemma contains_set: "contains word s \<Longrightarrow> set word \<subseteq> set s"
proof (induction s)
  case (Cons c s)
  show ?case
  proof (cases "contains word s")
    case False
    with Cons.prems obtain t where "strip_prefix word (c # s) = Some t" by auto
    then have "c # s = word @ t" by (simp add: strip_prefix_Some_iff)
    then show ?thesis by (metis set_append sup_ge1)
  qed (use Cons.IH in auto)
qed auto

lemma resolve_ref_locked:
  assumes "resolve_ref resolve ownerID ref = Inr (digest, resolution)"
  shows "locked_from ownerID ref \<lparr>lcap_Ref = cref_Ref ref, lcap_Digest = digest\<rparr>
    \<and> resolve ownerID ref = Inr resolution \<and> cres_OwnerID resolution = ownerID
    \<and> cres_Digest resolution = digest"
proof -
  from assms have owned: "validateOwnedCapsuleRef ownerID (cref_Ref ref) = None"
    and pin: "cref_FreshnessPolicy ref = FreshnessPin \<Longrightarrow> contains ''@sha256:'' (cref_Ref ref)"
    and answer: "resolve ownerID ref = Inr resolution"
    and checked: "validateCapsuleResolution ownerID (cref_Ref ref) resolution = None"
    and exact: "exactOrResolvedDigest (cref_Ref ref) (cres_Digest resolution) = Inr digest"
    by (auto simp: resolve_ref_def split: option.splits if_splits sum.splits)
  from owned obtain p where p: "ParseOwnedCapsuleRef (cref_Ref ref) = Inr p" "ocr_OwnerID p = ownerID"
    by (auto simp: validateOwnedCapsuleRef_def split: sum.splits if_splits)
  from checked have "cres_OwnerID resolution = ownerID"
    and valid: "contentDigestPattern (cres_Digest resolution)"
    by (auto simp: validateCapsuleResolution_def split: if_splits sum.splits dest: formatted_ref_parts)
  moreover from exact contentDigestPattern_nonempty [OF valid]
  have digest: "digest = cres_Digest resolution" and "ocr_Digest p \<noteq> [] \<Longrightarrow> digest = ocr_Digest p"
    by (auto simp: exact_digest_of_parsed [OF p(1)] split: if_splits)
  moreover have "ocr_Digest p \<noteq> []" if "cref_FreshnessPolicy ref = FreshnessPin"
  proof
    assume none: "ocr_Digest p = []"
    from p have parsed: "valid_owned_ref p" "cref_Ref ref = print_owned_ref p"
      by (simp_all add: parse_owned_parts)
    with none have tag: "ref_segment (ocr_Tag p)"
      by (auto simp: valid_owned_ref_def dest: contentDigestPattern_nonempty)
    then have "ocr_Tag p \<noteq> []" by (simp add: ref_segment_def)
    with parsed tag have "CHR ''@'' \<notin> set (cref_Ref ref)"
      by (auto simp: valid_owned_ref_def print_owned_ref_def dest: segment_separators)
    with contains_set [OF pin [OF that]] show False by auto
  qed
  ultimately show ?thesis
    using p answer valid by (auto simp: locked_from_def)
qed

definition approved_as_locked :: "(string \<rightharpoonup> string) \<Rightarrow> capsule_ref \<Rightarrow> locked_capsule \<Rightarrow> bool" where
  "approved_as_locked lastApproved ref locked \<longleftrightarrow>
     (cref_FreshnessPolicy ref = FreshnessReview
      \<longrightarrow> lastApproved (cref_Ref ref) = Some (lcap_Digest locked))"

lemma go_update_nonempty [simp]: "go_update k v m \<noteq> []"
  using keys_go_update [of k v m] by (metis empty_iff image_empty insertI1 list.set(1))

lemma review_diff_None:
  "review_diff lastApproved ref digest resolution = None \<Longrightarrow>
   approved_as_locked lastApproved ref \<lparr>lcap_Ref = cref_Ref ref, lcap_Digest = digest\<rparr>"
  by (auto simp: review_diff_def approved_as_locked_def approved_digest_def Let_def
      split: if_splits option.splits)

lemma resolve_refs_result:
  assumes "resolve_refs resolver ownerID lastApproved index acc refs = Inr out"
  shows "\<exists>new. rr_locked out = rr_locked acc @ new \<and> list_all2 (locked_from ownerID) refs new
    \<and> (rr_diffs out = [] \<longrightarrow> rr_diffs acc = [] \<and> list_all2 (approved_as_locked lastApproved) refs new)"
  using assms
proof (induction resolver ownerID lastApproved index acc refs rule: resolve_refs.induct)
  case (2 resolver ownerID lastApproved index acc ref refs)
  from "2.prems" obtain digest resolution
    where found: "resolve_ref (resolver index) ownerID ref = Inr (digest, resolution)"
    by (auto split: sum.splits)
  let ?locked = "\<lparr>lcap_Ref = cref_Ref ref, lcap_Digest = digest\<rparr>"
  have head: "locked_from ownerID ref ?locked" using resolve_ref_locked [OF found] by simp
  from "2.IH" [OF found refl] "2.prems" found obtain new
    where new: "rr_locked out = rr_locked acc @ ?locked # new" "list_all2 (locked_from ownerID) refs new"
      and diffs: "rr_diffs out = [] \<Longrightarrow> review_diff lastApproved ref digest resolution = None
        \<and> rr_diffs acc = [] \<and> list_all2 (approved_as_locked lastApproved) refs new"
    by (auto split: option.splits)
  show ?case
    by (intro exI [of _ "?locked # new"]) (use new head diffs review_diff_None in auto)
qed simp

lemma resolveCapsules_Inr:
  assumes "resolveCapsules codec resolver ownerID version projectDigest lastApproved = Inr resolved"
  shows "\<exists>refs selected project composition.
    resolve_refs resolver ownerID lastApproved 0
      \<lparr>rr_locked = [], rr_sources = [], rr_diffs = []\<rparr> (pvd_CapsuleRefs version) = Inr refs
    \<and> ResolveCapsuleComposition codec (rr_sources refs) project = (composition, None)
    \<and> rset_LockedCapsules resolved = rr_locked refs
    \<and> rset_DiffSinceLastApproval resolved = rr_diffs refs
    \<and> rset_Components resolved = map (resolved_component_of composition selected) (ccr_Components composition)
    \<and> rset_ProjectDigest resolved = selected
    \<and> (case project_wanted projectDigest of
         None \<Rightarrow> selected = emptyProjectDigest \<and> project = None
       | Some digest \<Rightarrow> selected = digest \<and> (\<exists>source. project = Some source
           \<and> resolve_project (resolver (length (pvd_CapsuleRefs version))) ownerID digest = Inr source))
    \<and> (rr_diffs refs = [] \<longrightarrow> rset_Classification resolved = ccr_Classification composition)"
  using assms unfolding resolveCapsules_def Let_def
  by (auto split: sum.splits option.splits prod.splits)

lemma locked_content:
  assumes "resolveCapsules codec resolver ownerID version projectDigest lastApproved = Inr resolved"
  shows "list_all2 (locked_from ownerID) (pvd_CapsuleRefs version) (rset_LockedCapsules resolved)
    \<and> (rset_DiffSinceLastApproval resolved = [] \<longrightarrow>
        list_all2 (approved_as_locked lastApproved) (pvd_CapsuleRefs version) (rset_LockedCapsules resolved))"
proof -
  from resolveCapsules_Inr [OF assms] obtain refs
    where loop: "resolve_refs resolver ownerID lastApproved 0
        \<lparr>rr_locked = [], rr_sources = [], rr_diffs = []\<rparr> (pvd_CapsuleRefs version) = Inr refs"
      and out: "rset_LockedCapsules resolved = rr_locked refs" "rset_DiffSinceLastApproval resolved = rr_diffs refs"
    by blast
  from resolve_refs_result [OF loop] show ?thesis by (auto simp: out)
qed

text \<open>
  C24. Resolving the Capsules of a Profile Version locks, ref by ref and in order, a well-formed
  SHA-256 digest for a ref of the owner's own namespace: a ref that embeds a digest is locked to
  exactly that digest, and a ref with pin freshness embeds one.  When no difference is reported,
  every ref that is to be reviewed is locked to the digest the user approved last.
\<close>

theorem resolve_locks_owned_content:
  assumes "resolveCapsules codec resolver ownerID version projectDigest lastApproved = Inr resolved"
  shows "list_all2 (locked_from ownerID) (pvd_CapsuleRefs version) (rset_LockedCapsules resolved)
    \<and> (rset_DiffSinceLastApproval resolved = [] \<longrightarrow>
        list_all2 (approved_as_locked lastApproved) (pvd_CapsuleRefs version) (rset_LockedCapsules resolved))"
  using assms by (rule locked_content)

section \<open>Locks that can be restored\<close>

text \<open>
  Composition clones every Component it keeps, so its requirements hold no empty slice that is not
  nil: the lock the workflow creates is one that is restored unchanged.
\<close>

definition cloned :: "component \<Rightarrow> bool" where
  "cloned component \<longleftrightarrow> cloneComponent component = component"

lemma cloned_clone [simp]: "cloned (cloneComponent component)"
  by (simp add: cloned_def cloneComponent_def)

lemma cloned_iff:
  "cloned component \<longleftrightarrow>
     clone_slice (reqs_Commands (com_Requirements component)) = reqs_Commands (com_Requirements component)
     \<and> clone_slice (reqs_Secrets (com_Requirements component)) = reqs_Secrets (com_Requirements component)"
  by (cases component; cases "com_Requirements component") (auto simp: cloned_def cloneComponent_def)

lemma initial_component_cloned: "cloned (initial_component codec part)"
proof -
  have "com_Requirements (initial_component codec part) = com_Requirements (cloneComponent (con_component part))"
    by (auto simp: initial_component_def Let_def split: sum.split prod.split)
  then show ?thesis using cloned_clone [of "con_component part"] by (simp add: cloned_iff)
qed

lemma mergeConfigComponents_cloned:
  assumes "mergeConfigComponents codec left right source = Inr merged"
  shows "cloned merged"
proof -
  from assms have "com_Requirements merged = com_Requirements (cloneComponent left)"
    by (auto simp: mergeConfigComponents_def Let_def split: sum.splits prod.splits if_splits option.splits)
  then show ?thesis using cloned_clone [of left] by (simp add: cloned_iff)
qed

lemma compose_rest_cloned:
  "compose_rest codec resolved digest parts = Some (r, digest') \<Longrightarrow> cloned resolved \<Longrightarrow> cloned r"
  by (induction codec resolved digest parts rule: compose_rest.induct)
    (auto simp: Let_def split: if_splits sum.splits dest: mergeConfigComponents_cloned)

lemma composeContributions_cloned:
  "composeContributions codec parts = Inr (r, digest, sources) \<Longrightarrow> cloned r"
  by (auto simp: composeContributions_def Let_def split: option.splits
      intro: compose_rest_cloned initial_component_cloned)

lemma elements_go_update: "set (go_update k v m) \<subseteq> insert (k, v) (set m)"
  by (induction k v m rule: go_update.induct) auto

lemma compose_all_cloned:
  "compose_all codec result conflicts entries = (result', conflicts') \<Longrightarrow>
   \<forall>(cid, c) \<in> set (ccr_Components result). cloned c \<Longrightarrow> \<forall>(cid, c) \<in> set (ccr_Components result'). cloned c"
proof (induction codec result conflicts entries rule: compose_all.induct)
  case (2 codec result conflicts cid parts entries)
  show ?case
  proof (cases "composeContributions codec parts")
    case (Inl conflict)
    with "2.IH"(1) [OF Inl] "2.prems" show ?thesis by simp
  next
    case (Inr v)
    obtain r digest sources where v: "v = (r, digest, sources)" by (cases v)
    have composed: "composeContributions codec parts = Inr (r, digest, sources)" using Inr v by simp
    then have "cloned r" by (rule composeContributions_cloned)
    with elements_go_update [of cid r "ccr_Components result"] "2.prems"(2)
    have "\<forall>(cid, c) \<in> set (go_update cid r (ccr_Components result)). cloned c" by fastforce
    with "2.IH"(2) [OF composed refl refl] "2.prems"(1) composed show ?thesis by simp
  qed
qed simp

lemma composition_cloned:
  assumes "ResolveCapsuleComposition codec capsules project = (result, None)"
  shows "\<forall>(cid, c) \<in> set (ccr_Components result). cloned c"
proof -
  from assms obtain state composed
    where "add_sources 0 empty_state (all_sources capsules project) = Inr state"
      and composed: "compose_all codec (empty_result (rs_classification state)) [] (rs_contributions state)
        = (composed, [])"
      and result: "ccr_Components result = ccr_Components composed"
    by (auto simp: ResolveCapsuleComposition_def Let_def split: sum.splits prod.splits if_splits)
  from compose_all_cloned [OF composed] show ?thesis by (simp add: result empty_result_def)
qed

lemma resolved_component_cloned:
  "cloned (snd entry) \<Longrightarrow>
   (case resolved_component_of composition selected entry of (cid, c) \<Rightarrow> (cid, clone_resolved c))
     = resolved_component_of composition selected entry"
  by (cases entry) (simp add: resolved_component_of_def clone_resolved_def Let_def cloned_iff)

lemma resolved_components_cloned:
  assumes "\<forall>(cid, c) \<in> set cs. cloned c"
  shows "cloneResolvedComponents (map (resolved_component_of composition selected) cs)
    = map (resolved_component_of composition selected) cs"
proof -
  have "cloned (snd entry)" if "entry \<in> set cs" for entry
    using assms that by (cases entry) auto
  then show ?thesis
    unfolding cloneResolvedComponents_def map_map
    by (intro map_cong refl) (auto simp: comp_def dest: resolved_component_cloned)
qed

text \<open>
  The Capsule Lock the workflow creates for resolved Capsules is accepted again, unchanged and
  with the same content address, when the persist step (or a later load) restores it from its
  snapshot: composition leaves no requirement list whose restored form would encode differently.
\<close>

lemma resolved_lock_restorable:
  assumes "resolveCapsules codec resolver ownerID version projectDigest lastApproved = Inr resolved"
    and "create_lock lockID environmentID profileVersionID resolved at = Inr lock"
  shows "CreateCapsuleLock lock = Inr lock
    \<and> PersistCapsuleLock_action (\<lambda>lock. Inr lock) lock = Inr lock"
proof -
  let ?candidate = "lock_candidate lockID environmentID profileVersionID resolved at"
  from assms(2) obtain created where created: "CreateCapsuleLock ?candidate = Inr created"
    and lock: "lock = capsule_lock_Snapshot created"
    by (auto simp: create_lock_def split: sum.splits)
  from resolveCapsules_Inr [OF assms(1)] obtain refs :: resolved_refs and selected project composition
    where composed: "ResolveCapsuleComposition codec (rr_sources refs) project = (composition, None)"
      and components: "rset_Components resolved = map (resolved_component_of composition selected) (ccr_Components composition)"
    by blast
  from resolved_components_cloned [OF composition_cloned [OF composed]]
  have "canonical_slices ?candidate"
    by (simp add: canonical_slices_def lock_candidate_def components)
  with CreateCapsuleLock_Inr(2) [OF created]
  have fixed: "created = ?candidate\<lparr>lock_Digest := ComputeCapsuleLockDigest ?candidate\<rparr>"
    and snapshot: "capsule_lock_Snapshot created = created"
    by (simp_all add: canonical_slices_def capsule_lock_Snapshot_def)
  have "CreateCapsuleLock created = Inr created"
    using restored_iff [OF created] snapshot by (simp add: fixed ComputeCapsuleLockDigest_def)
  with lock snapshot show ?thesis by (simp add: PersistCapsuleLock_action_def)
qed

section \<open>Upgrades that need no user\<close>

lemma mark_component_keeps:
  "asp_ManagedTargets (mark_component c plan) = asp_ManagedTargets plan"
  "asp_HasConflicts (mark_component c plan) = asp_HasConflicts plan"
  "asp_ExecutableDigestChanged plan \<Longrightarrow> asp_ExecutableDigestChanged (mark_component c plan)"
  "asp_PermissionChanged plan \<Longrightarrow> asp_PermissionChanged (mark_component c plan)"
  "asp_IntegrationChanged plan \<Longrightarrow> asp_IntegrationChanged (mark_component c plan)"
  "asp_CredentialRequirementChanged plan \<Longrightarrow> asp_CredentialRequirementChanged (mark_component c plan)"
  by (simp_all add: mark_component_def)

text \<open>A plan with no change, and a Component that marks none.\<close>

definition unmarked :: "auto_safe_plan \<Rightarrow> bool" where
  "unmarked plan \<longleftrightarrow>
     \<not> asp_ExecutableDigestChanged plan \<and> \<not> asp_PermissionChanged plan
     \<and> \<not> asp_IntegrationChanged plan \<and> \<not> asp_CredentialRequirementChanged plan"

definition harmless :: "resolved_component \<Rightarrow> bool" where
  "harmless component \<longleftrightarrow>
     rc_TrustClass component \<noteq> TrustExecutable \<and> rc_TrustClass component \<noteq> TrustPermission
     \<and> rc_Type component \<noteq> ComponentPermissionPolicy \<and> rc_Type component \<noteq> ComponentIntegration
     \<and> elems (reqs_Secrets (rc_Requirements component)) = []"

lemma unmarked_mark: "unmarked (mark_component c plan) \<longleftrightarrow> unmarked plan \<and> harmless c"
  by (auto simp: unmarked_def harmless_def mark_component_def)

lemma marked_plan:
  "unmarked (fold (\<lambda>(cid, c). mark_component c) cs plan) \<longleftrightarrow>
     unmarked plan \<and> (\<forall>(cid, c) \<in> set cs. harmless c)"
  by (induction cs arbitrary: plan) (auto simp: unmarked_mark mark_component_keeps)

lemma marked_targets [simp]:
  "asp_ManagedTargets (fold (\<lambda>(cid, c). mark_component c) cs plan) = asp_ManagedTargets plan"
  "asp_HasConflicts (fold (\<lambda>(cid, c). mark_component c) cs plan) = asp_HasConflicts plan"
  by (induction cs arbitrary: plan) (auto simp: mark_component_keeps)

lemma evaluate_applyable:
  "asd_Applyable (EvaluateAutoSafe plan) \<longleftrightarrow>
     ManagedTargetsAreClean (asp_ManagedTargets plan) \<and> unmarked plan \<and> \<not> asp_HasConflicts plan"
  "asd_Reason (EvaluateAutoSafe plan) = [] \<longleftrightarrow> asd_Applyable (EvaluateAutoSafe plan)"
  by (auto simp: EvaluateAutoSafe_def unmarked_def)

lemma classify_applyable_iff:
  "ud_Applyable (classifyUpgrade policy resolved targets supplied) \<longleftrightarrow>
     policy = UpgradeAutoSafe \<and> rset_DiffSinceLastApproval resolved = []
     \<and> rset_Classification resolved = AutoSafe \<and> ManagedTargetsAreClean targets
     \<and> (\<forall>(cid, component) \<in> set (rset_Components resolved). harmless component)
     \<and> (\<forall>plan. supplied = Some plan \<longrightarrow> unmarked plan \<and> \<not> asp_HasConflicts plan)"
proof -
  have targets: "asp_ManagedTargets (initial_plan targets supplied) = targets"
    by (simp add: initial_plan_def split: option.splits)
  have plan: "unmarked (initial_plan targets supplied) \<and> \<not> asp_HasConflicts (initial_plan targets supplied)
      \<longleftrightarrow> (\<forall>plan. supplied = Some plan \<longrightarrow> unmarked plan \<and> \<not> asp_HasConflicts plan)"
    by (auto simp: initial_plan_def unmarked_def split: option.splits)
  show ?thesis
    by (cases policy) (auto simp: classifyUpgrade_def Let_def evaluate_applyable marked_plan targets
        simp flip: plan)
qed

text \<open>The stages of a run that returns.\<close>

definition resolved_upgrade ::
  "resolve_services \<Rightarrow> config_codec \<Rightarrow> profile_resolve_input \<Rightarrow> resolve_trace \<Rightarrow> profile_version_data
   \<Rightarrow> profile_resolve_state \<Rightarrow> resolved_capsule_set \<Rightarrow> bool" where
  "resolved_upgrade svc codec input h version state resolved \<longleftrightarrow>
     LoadedVersion (pri_EnvironmentID input) (pri_ProfileVersionID input) (Inr version) \<in> set h
     \<and> LoadedResolveState (pri_EnvironmentID input) (Inr state) \<in> set h
     \<and> (\<forall>policy. prst_PersistedUpgradePolicy state = Some policy \<longrightarrow> upgrade_policy_Valid policy)
     \<and> (\<exists>h'. resolveCapsules codec (rsv_resolver svc h') (pri_OwnerID input) version
           (pri_ProjectCapsuleDigest input) (prst_LastApprovedCapsuleDigests state) = Inr resolved)"

definition effective_policy :: "profile_resolve_input \<Rightarrow> profile_resolve_state \<Rightarrow> upgrade_policy" where
  "effective_policy input state =
     (let policy = (if pri_UpgradePolicy input = UpgradeOther [] then UpgradeManual
                    else pri_UpgradePolicy input)
      in case prst_PersistedUpgradePolicy state of
           None \<Rightarrow> policy | Some persisted \<Rightarrow> narrowerUpgradePolicy policy persisted)"

text \<open>The lock of a resolution: exactly its Capsules, Components and project digest, under their digest.\<close>

definition locks_resolution :: "profile_resolve_input \<Rightarrow> resolved_capsule_set \<Rightarrow> capsule_lock_snapshot \<Rightarrow> bool" where
  "locks_resolution input resolved lock \<longleftrightarrow>
     lock_EnvironmentID lock = pri_EnvironmentID input
     \<and> lock_ProfileVersionID lock = pri_ProfileVersionID input
     \<and> lock_ProjectCapsuleDigest lock = rset_ProjectDigest resolved
     \<and> lock_Capsules lock = rset_LockedCapsules resolved
     \<and> lock_ResolvedComponents lock = cloneResolvedComponents (rset_Components resolved)
     \<and> lock_Digest lock = ComputeCapsuleLockDigest (lock\<lparr>lock_ResolvedComponents := rset_Components resolved\<rparr>)"

definition resolve_returned ::
  "resolve_services \<Rightarrow> config_codec \<Rightarrow> profile_resolve_input \<Rightarrow> resolve_run_error + profile_resolve_output
   \<Rightarrow> resolve_trace \<Rightarrow> bool" where
  "resolve_returned svc codec input r h \<longleftrightarrow>
     (\<forall>out. r = Inr out \<longrightarrow>
       (\<exists>version state resolved lock persisted at.
          resolved_upgrade svc codec input h version state resolved
          \<and> pro_Applyable out =
              ud_Applyable (classifyUpgrade (effective_policy input state) resolved
                (prst_ManagedTargets state) (pri_AutoSafePlan input))
          \<and> locks_resolution input resolved lock
          \<and> PersistedLock lock (Inr persisted) \<in> set h
          \<and> pro_LockID out = lock_ID persisted
          \<and> last h = CompletedResolve (pri_OperationID input) at None))"

lemma code_step_Inr: "code_step engine code h = Inr x \<Longrightarrow> code h = Inr x"
  by (auto simp: code_step_def split: option.splits sum.splits)

lemma create_lock_locks:
  assumes "create_lock lockID (pri_EnvironmentID input) (pri_ProfileVersionID input) resolved at = Inr lock"
  shows "locks_resolution input resolved lock"
proof -
  obtain created where created: "CreateCapsuleLock (lock_candidate lockID (pri_EnvironmentID input)
      (pri_ProfileVersionID input) resolved at) = Inr created" and lock: "lock = capsule_lock_Snapshot created"
    using assms by (auto simp: create_lock_def split: sum.splits)
  show ?thesis
    using CreateCapsuleLock_Inr(2) [OF created]
    by (simp add: lock locks_resolution_def capsule_lock_Snapshot_def lock_candidate_def
        ComputeCapsuleLockDigest_def canonicalCapsuleLock_def)
qed

lemma resolve_returnedI:
  assumes "resolved_upgrade svc codec input h version state resolved"
    and "pro_Applyable out = ud_Applyable (classifyUpgrade (effective_policy input state) resolved
           (prst_ManagedTargets state) (pri_AutoSafePlan input))"
    and "locks_resolution input resolved lock"
    and "PersistedLock lock (Inr persisted) \<in> set h"
    and "pro_LockID out = lock_ID persisted"
    and "last h = CompletedResolve (pri_OperationID input) at None"
  shows "resolve_returned svc codec input (Inr out) h"
  using assms unfolding resolve_returned_def by blast

lemma resolve_returned_error [simp]: "resolve_returned svc codec input (Inl err) h"
  by (simp add: resolve_returned_def)

lemma resolved_upgradeI:
  assumes "LoadedVersion (pri_EnvironmentID input) (pri_ProfileVersionID input) (Inr version) \<in> set h"
    and "LoadedResolveState (pri_EnvironmentID input) (Inr state) \<in> set h"
    and "\<forall>policy. prst_PersistedUpgradePolicy state = Some policy \<longrightarrow> upgrade_policy_Valid policy"
    and "code_step engine (\<lambda>h. resolveCapsules codec (rsv_resolver svc h) (pri_OwnerID input) version
      (pri_ProjectCapsuleDigest input) (prst_LastApprovedCapsuleDigests state)) h0 = Inr resolved"
  shows "resolved_upgrade svc codec input h version state resolved"
  using assms unfolding resolved_upgrade_def by (blast dest: code_step_Inr)

lemma resolve_and_lock_returned:
  assumes loaded: "LoadedVersion (pri_EnvironmentID input) (pri_ProfileVersionID input) (Inr version) \<in> set h"
    "LoadedResolveState (pri_EnvironmentID input) (Inr state) \<in> set h"
    "\<forall>policy. prst_PersistedUpgradePolicy state = Some policy \<longrightarrow> upgrade_policy_Valid policy"
    and policy: "policy = effective_policy input state"
  shows "ends (resolve_and_lock svc codec input policy version state) (resolve_returned svc codec input) h"
  unfolding resolve_and_lock_def policy
  by (intro durable_rules)
    (simp_all, (rule resolve_returnedI, erule resolved_upgradeI [rotated 3];
      auto simp: loaded dest!: code_step_Inr create_lock_locks)+)

lemma ProfileResolve_Run_returned:
  "ends (ProfileResolve_Run svc codec key invocationID input) (resolve_returned svc codec input) h"
  unfolding ProfileResolve_Run_def
  by (intro durable_rules resolve_and_lock_returned) (auto simp: effective_policy_def Let_def)

lemma effective_policy_auto_safe:
  assumes "effective_policy input state = UpgradeAutoSafe"
    and "\<forall>policy. prst_PersistedUpgradePolicy state = Some policy \<longrightarrow> upgrade_policy_Valid policy"
  shows "pri_UpgradePolicy input = UpgradeAutoSafe
    \<and> prst_PersistedUpgradePolicy state \<in> {None, Some UpgradeAutoSafe}"
  using assms
  by (cases "prst_PersistedUpgradePolicy state"; cases "the (prst_PersistedUpgradePolicy state)";
      cases "pri_UpgradePolicy input")
    (auto simp: effective_policy_def Let_def narrowerUpgradePolicy_def policy_rank_def split: if_splits)


section \<open>Examples\<close>

text \<open>One Capsule under review, with one skill, in the namespace of the user \<open>u\<close>.\<close>

definition sample_skill :: component where
  "sample_skill = sample_component\<lparr>com_ID := ''skill:fmt'', com_Type := ComponentSkill,
     com_TrustClass := TrustDeclarative, com_Digest := sample_digest\<rparr>"

definition sample_tagged :: "freshness_policy \<Rightarrow> capsule_ref" where
  "sample_tagged freshness =
     \<lparr>cref_Ref = ''owner/u/c:t'', cref_FreshnessPolicy = freshness, cref_Exclusions = []\<rparr>"

definition sample_resolver :: capsule_resolver where
  "sample_resolver index ownerID ref =
     Inr \<lparr>cres_OwnerID = ownerID, cres_Digest = sample_digest, cres_Components = [sample_skill],
          cres_DiffSinceLastApproval = []\<rparr>"

definition sample_version_data :: profile_version_data where
  "sample_version_data = \<lparr>pvd_ID = ''pv-1'', pvd_CapsuleRefs = [sample_tagged FreshnessReview]\<rparr>"

lemma sample_segments [simp]: "ref_segment ''u''" "ref_segment ''c''" "ref_segment ''t''" "ref_segment ''capsule''"
  by (simp_all add: ref_segment_def segment_char_def alnum_def upper_def lower_def digits_def)

lemma parse_sample_tagged [simp]:
  "ParseOwnedCapsuleRef ''owner/u/c:t'' =
     Inr \<lparr>ocr_OwnerID = ''u'', ocr_Name = ''c'', ocr_Digest = [], ocr_Tag = ''t''\<rparr>"
  unfolding parse_owned_parts by (simp add: valid_owned_ref_def print_owned_ref_def)

lemma parse_formatted:
  "ref_segment ownerID \<Longrightarrow> contentDigestPattern digest \<Longrightarrow>
   ParseOwnedCapsuleRef (FormatOwnedCapsuleRef ownerID digest) =
     Inr \<lparr>ocr_OwnerID = ownerID, ocr_Name = ''capsule'', ocr_Digest = digest, ocr_Tag = []\<rparr>"
  unfolding parse_owned_parts by (simp add: valid_owned_ref_def print_owned_ref_def FormatOwnedCapsuleRef_def)

lemma sample_digest_nonempty [simp]: "sample_digest \<noteq> []"
  by (simp add: sample_digest_def)

lemma sample_skill_fields [simp]:
  "com_ID sample_skill = ''skill:fmt''" "com_Type sample_skill = ComponentSkill"
  "com_TrustClass sample_skill = TrustDeclarative" "com_Digest sample_skill = sample_digest"
  "com_Scope sample_skill = ScopeUser" "com_Content sample_skill = []" "com_Provenance sample_skill = []"
  "com_Requirements sample_skill = \<lparr>reqs_Commands = None, reqs_Secrets = None\<rparr>"
  by (simp_all add: sample_skill_def sample_component_def)

lemma sample_skill_valid [simp]: "Validate sample_skill = None"
  by (simp add: sample_skill_def sample_component_def Validate_def elems_def id_qualified_def
      del: sample_skill_fields)

definition sample_resolved_skill :: resolved_component where
  "sample_resolved_skill =
     \<lparr>rc_ID = ''skill:fmt'', rc_Type = ComponentSkill, rc_CapsuleDigest = sample_digest,
      rc_ComponentDigest = sample_digest, rc_Scope = ScopeUser, rc_TrustClass = TrustDeclarative,
      rc_Requirements = \<lparr>reqs_Commands = None, reqs_Secrets = None\<rparr>, rc_Provenance = [],
      rc_Sources = [\<lparr>rcs_CapsuleDigest = sample_digest, rcs_ComponentDigest = sample_digest\<rparr>]\<rparr>"

definition sample_set_resolved :: resolved_capsule_set where
  "sample_set_resolved =
     \<lparr>rset_LockedCapsules = [\<lparr>lcap_Ref = ''owner/u/c:t'', lcap_Digest = sample_digest\<rparr>],
      rset_Components = [(''skill:fmt'', sample_resolved_skill)], rset_ProjectDigest = emptyProjectDigest,
      rset_Classification = AutoSafe, rset_DiffSinceLastApproval = []\<rparr>"

lemma sample_skill_clone: "cloneComponent sample_skill = sample_skill"
  by (simp add: cloneComponent_def sample_skill_def sample_component_def clone_slice_def elems_def
      del: sample_skill_fields)

lemma sample_resolves:
  "resolveCapsules sample_codec sample_resolver ''u'' sample_version_data None [''owner/u/c:t'' \<mapsto> sample_digest]
     = Inr sample_set_resolved"
  by (simp add: resolveCapsules_def sample_version_data_def sample_tagged_def resolve_ref_def
      validateOwnedCapsuleRef_def sample_resolver_def validateCapsuleResolution_def parse_formatted
      exact_digest_of_parsed review_diff_def approved_digest_def project_wanted_def sample_set_resolved_def
      ResolveCapsuleComposition_def all_sources_def contribute_def empty_state_def empty_result_def
      append_contribution_def composeContributions_def Let_def sample_skill_clone initial_component_def
      componentRequiresReview_def resolved_component_of_def sample_resolved_skill_def elems_def
      all_parts_def)

theorem resolve_locks_owned_content_witness:
  "resolveCapsules sample_codec sample_resolver ''u'' sample_version_data None [''owner/u/c:t'' \<mapsto> sample_digest]
     = Inr sample_set_resolved
   \<and> list_all2 (approved_as_locked [''owner/u/c:t'' \<mapsto> sample_digest]) [sample_tagged FreshnessReview]
       (rset_LockedCapsules sample_set_resolved)"
  using resolve_locks_owned_content [OF sample_resolves] sample_resolves
  by (simp add: sample_version_data_def) (simp add: sample_set_resolved_def)

definition sample_resolve_services :: resolve_services where
  "sample_resolve_services =
     \<lparr>rsv_configured = True, rsv_metrics = False, rsv_now = (\<lambda>h. \<lparr>wall = 5, loc = UTC\<rparr>),
      rsv_new_id = (\<lambda>h. ''lock-2''), rsv_engine = (\<lambda>h. None), rsv_record = (\<lambda>h. None),
      rsv_version = (\<lambda>h. Inr sample_version_data),
      rsv_state = (\<lambda>h. Inr \<lparr>prst_ManagedTargets = [],
        prst_LastApprovedCapsuleDigests = [''owner/u/c:t'' \<mapsto> sample_digest],
        prst_PersistedUpgradePolicy = Some UpgradeAutoSafe\<rparr>),
      rsv_resolver = (\<lambda>h. sample_resolver), rsv_persist = (\<lambda>h lock. Inr lock), rsv_complete = (\<lambda>h. None)\<rparr>"

definition sample_resolve_input :: profile_resolve_input where
  "sample_resolve_input =
     \<lparr>pri_OperationID = ''op-1'', pri_EnvironmentID = ''env-1'', pri_ProfileVersionID = ''pv-1'',
      pri_OwnerID = ''u'', pri_ProjectCapsuleDigest = None, pri_UpgradePolicy = UpgradeAutoSafe,
      pri_LastApprovedCapsuleDigests = Map.empty, pri_AutoSafePlan = None\<rparr>"

definition sample_candidate :: capsule_lock_snapshot where
  "sample_candidate = lock_candidate ''lock-2'' ''env-1'' ''pv-1'' sample_set_resolved \<lparr>wall = 5, loc = UTC\<rparr>"

lemma sample_tagged_matches: "matches registryCapsuleRefPattern ''owner/u/c:t''"
  unfolding registryCapsuleRefPattern_def registry_segment_def optional_def alnum_def
    upper_def lower_def digits_def by simp

lemma emptyProjectDigest_pattern [simp]: "contentDigestPattern emptyProjectDigest"
  by (simp add: emptyProjectDigest_def contentDigestPattern_def is_lower_hex_def list_all_iff)

lemma sample_candidate_checked: "check_lock sample_candidate = None"
  by (simp add: check_lock_def sample_candidate_def lock_candidate_def sample_set_resolved_def
      sample_resolved_skill_def check_component_def listed_digest_def sample_tagged_matches go_time utc_def
      del: matches.simps)

definition sample_resolved_lock :: capsule_lock where
  "sample_resolved_lock =
     sample_candidate\<lparr>lock_Digest := ComputeCapsuleLockDigest sample_candidate,
       lock_ResolvedComponents := cloneResolvedComponents (lock_ResolvedComponents sample_candidate)\<rparr>"

lemma sample_candidate_created: "CreateCapsuleLock sample_candidate = Inr sample_resolved_lock"
  unfolding CreateCapsuleLock_def sample_candidate_checked
  by (simp add: sample_resolved_lock_def) (simp add: sample_candidate_def lock_candidate_def)

lemma sample_candidate_canonical: "canonical_slices sample_candidate"
  by (simp add: canonical_slices_def sample_candidate_def lock_candidate_def sample_set_resolved_def
      sample_resolved_skill_def cloneResolvedComponents_def clone_resolved_def clone_slice_def elems_def)

lemma sample_lock_restored:
  "CreateCapsuleLock (capsule_lock_Snapshot sample_resolved_lock) = Inr sample_resolved_lock"
  using restored_iff [OF sample_candidate_created] sample_candidate_canonical
  by (simp add: sample_resolved_lock_def canonical_slices_def ComputeCapsuleLockDigest_def)

lemma sample_resolve_run:
  "\<exists>out h. ProfileResolve_Run sample_resolve_services sample_codec ''op-1'' ''inv-1'' sample_resolve_input []
       = (Inr out, h) \<and> pro_Applyable out"
proof -
  have verdict: "ud_Applyable (classifyUpgrade UpgradeAutoSafe sample_set_resolved [] None)"
    by (simp add: classify_applyable_iff sample_set_resolved_def sample_resolved_skill_def harmless_def elems_def)
  show ?thesis
    by (simp add: ProfileResolve_Run_def resolve_and_lock_def sample_resolve_services_def sample_resolve_input_def
        run_void_def run_step_def read_from_def emit_def finish_def code_step_def sample_resolves
        create_lock_def sample_candidate_created PersistCapsuleLock_action_def sample_lock_restored
        narrowerUpgradePolicy_def policy_rank_def go_time Let_def verdict
        sample_candidate_def [symmetric])
qed


end
