(* ===== verification/Profile_Apply.thy ===== *)
theory Profile_Apply
  imports Profile_Resolve Runtime_Lifecycle
begin

text \<open>
  The workflow \<open>ProfileApply\<close> of \<open>src/apps/workflows/profile_apply.go\<close>: on a ready Runtime it resolves
  a Profile Version, demands the approvals that are missing, creates a candidate Capsule Lock, has the
  guest materialize it, and pins the lock only when every result is accepted.  Every failure is recorded
  with a code and leaves the old lock in place.
\<close>

section \<open>Data\<close>

record profile_apply_state =
  pas_OwnerUserID :: string
  pas_Runtime :: runtime_snapshot
  pas_Version :: profile_version_data
  pas_PreviousLock :: "capsule_lock_snapshot option"
  pas_Materializations :: "installed_materialization list"
  pas_UpgradePolicy :: upgrade_policy
  pas_RequestVersionID :: string
  pas_ApprovedReviewItems :: "string list"

record materialization_request =
  mq_OperationID :: string
  mq_Guest :: guest_request
  mq_State :: environment_capsule_state

record apply_outcome =
  ao_Results :: "materialization_result list"
  ao_Failure :: string
  ao_GuestUnavailable :: bool

text \<open>An error of the guest: transient or not, whether it is \<open>ErrGuestUnavailable\<close>, and its text.\<close>

record guest_error =
  ge_Transient :: bool
  ge_Unavailable :: bool
  ge_Text :: string

text \<open>The causes of a failure; \<open>ApplyUnfinished\<close> is the fuel of the model running out.\<close>

datatype apply_cause =
    ApplyStateInvalid failure_message
  | ApplyResolveFailed "resolve_error step_failure"
  | ApplyReviewRequired "string list"
  | ApplyLockRejected "capsule_lock_error step_failure"
  | ApplyPollFailed "string poll_error"
  | ApplyTimedOut
  | ApplyGuestUnavailable string
  | ApplyGuestFailed string
  | ApplyResultsRejected results_error
  | ApplyCompleteFailed string
  | ApplyUnfinished

datatype apply_event =
    LoadedApply runtime_operation_dispatch string gotime "string + profile_apply_state"
  | ResolvedForApply "resolve_error step_failure + resolved_capsule_set"
  | CreatedCandidate "capsule_lock_error step_failure + capsule_lock_snapshot"
  | MaterializedLock materialization_request "apply_cause + materialization_result list"
  | CompletedApply string "string option" environment_capsule_state gotime "string option"
  | RecordedApplyFailure string string apply_cause gotime "string option"

type_synonym apply_trace = "apply_event list"

record apply_services =
  asv_configured :: bool
  asv_now :: "apply_trace \<Rightarrow> gotime"
  asv_new_id :: "apply_trace \<Rightarrow> string"
  asv_engine :: "apply_trace \<Rightarrow> string option"
  asv_load :: "apply_trace \<Rightarrow> string + profile_apply_state"
  asv_resolver :: "apply_trace \<Rightarrow> capsule_resolver"
  asv_poll_start :: "apply_trace \<Rightarrow> string + gotime"
  asv_materialize :: "apply_trace \<Rightarrow> materialization_request \<Rightarrow> nat \<Rightarrow> gotime \<Rightarrow> int64 option
    \<Rightarrow> string + (guest_error + materialization_result list) \<times> gotime"
  asv_complete :: "apply_trace \<Rightarrow> string option"
  asv_record_failure :: "apply_trace \<Rightarrow> string option"
  asv_RetryInterval :: int64
  asv_Timeout :: int64
  asv_fuel :: nat

datatype apply_error =
    ApplyKeyMismatch
  | ApplyDependenciesIncomplete
  | ApplyStepFailed string
  | ApplyFailed string apply_cause
  | ApplyOutOfFuel

record profile_apply_output =
  pao_ProfileVersionID :: string
  pao_CapsuleLockID :: string

text \<open>\<open>errors.Is(err, ErrGuestUnavailable)\<close>.\<close>

fun guest_unavailable :: "apply_cause \<Rightarrow> bool" where
  "guest_unavailable ApplyTimedOut = True"
| "guest_unavailable (ApplyGuestUnavailable text) = True"
| "guest_unavailable cause = False"

section \<open>Checks\<close>

definition ProfileApplyFailed :: string where
  "ProfileApplyFailed = ''PROFILE_APPLY_FAILED''"

definition validateProfileApplyState ::
  "runtime_operation_dispatch \<Rightarrow> profile_apply_state \<Rightarrow> failure_message option" where
  "validateProfileApplyState input state =
     (case validateRuntimeOperationInput input OperationProfileApply
             \<lparr>ros_OwnerUserID = pas_OwnerUserID state, ros_Runtime = pas_Runtime state,
              ros_DataVolumeProviderID = [], ros_ComputeUsageIntervalID = [], ros_OperationInput = []\<rparr> of
        Some err \<Rightarrow> Some err
      | None \<Rightarrow>
          if rt_Status (pas_Runtime state) \<noteq> RuntimeReady
             \<or> rt_ProviderInstanceRef (pas_Runtime state) = None
             \<or> rt_PrivateAddress (pas_Runtime state) = None \<or> rt_BootID (pas_Runtime state) = None
          then Some (Text ''Profile application requires the current Runtime to be ready'')
          else if blank (pas_RequestVersionID state) \<or> pvd_ID (pas_Version state) \<noteq> pas_RequestVersionID state
          then Some (Text ''persisted Profile Version input is invalid'')
          else None)"

definition missingReviewApprovals :: "resolved_capsule_set \<Rightarrow> string list \<Rightarrow> string list" where
  "missingReviewApprovals resolved approved =
     sort (filter (\<lambda>ref. ref \<notin> set approved) (map fst (rset_DiffSinceLastApproval resolved)))"

definition approvalMarkers :: "capsule_lock_snapshot \<Rightarrow> string list \<Rightarrow> approval_marker string_map" where
  "approvalMarkers lock approved =
     fold (\<lambda>componentID markers.
        case map_of (lock_ResolvedComponents lock) componentID of
          None \<Rightarrow> markers
        | Some component \<Rightarrow>
            go_update componentID
              \<lparr>am_ComponentID = componentID, am_ComponentDigest = rc_ComponentDigest component,
               am_LockID = lock_ID lock, am_LockDigest = lock_Digest lock\<rparr> markers)
       approved []"

text \<open>What the loop over the Capsules of the previous lock leaves in \<open>lastApproved\<close>.\<close>

definition last_approved :: "capsule_lock_snapshot option \<Rightarrow> string \<rightharpoonup> string" where
  "last_approved previous =
     (case previous of
        None \<Rightarrow> Map.empty
      | Some lock \<Rightarrow> fold (\<lambda>capsule m. m(lcap_Ref capsule \<mapsto> lcap_Digest capsule)) (lock_Capsules lock) Map.empty)"

section \<open>Materializing through the guest\<close>

definition zero_apply_outcome :: apply_outcome where
  "zero_apply_outcome = \<lparr>ao_Results = [], ao_Failure = [], ao_GuestUnavailable = False\<rparr>"

definition materialize_journal ::
  "apply_services \<Rightarrow> apply_trace \<Rightarrow> materialization_request \<Rightarrow> (string, apply_outcome) journal" where
  "materialize_journal svc h request attempt t slept =
     (case asv_materialize svc h request attempt t slept of
        Inl err \<Rightarrow> Inl err
      | Inr (Inr results, at) \<Rightarrow>
          Inr (\<lparr>read_Value = zero_apply_outcome\<lparr>ao_Results := results\<rparr>, read_UseValue = True,
                read_RetryableFailure = False\<rparr>, at)
      | Inr (Inl err, at) \<Rightarrow>
          if ge_Transient err
          then Inr (\<lparr>read_Value = zero_apply_outcome, read_UseValue = False, read_RetryableFailure = True\<rparr>, at)
          else Inr (\<lparr>read_Value = zero_apply_outcome\<lparr>ao_Failure := ge_Text err,
                                    ao_GuestUnavailable := ge_Unavailable err\<rparr>,
                     read_UseValue = True, read_RetryableFailure = False\<rparr>, at))"

definition apply_poll_config :: "apply_services \<Rightarrow> poll_config" where
  "apply_poll_config svc =
     \<lparr>cfg_startedAt = zero_time, cfg_timeout = or_default (asv_Timeout svc) (300 * 1000000000),
      cfg_initialDelay = or_default (asv_RetryInterval svc) (5 * 1000000000),
      cfg_maxDelay = 30 * 1000000000, cfg_stepPrefix = ''materialize-profile'',
      cfg_readStepPrefix = ''apply-capsule-lock''\<rparr>"

definition materializeProfileApply ::
  "apply_services \<Rightarrow> materialization_request \<Rightarrow> apply_trace \<Rightarrow> apply_cause + materialization_result list" where
  "materializeProfileApply svc request h =
     (case durableDeadlinePoll (asv_fuel svc) zero_apply_outcome (asv_poll_start svc h) None
             (apply_poll_config svc) (materialize_journal svc h request) (\<lambda>outcome startedAt. (outcome, True)) None of
        None \<Rightarrow> Inl ApplyUnfinished
      | Some (Inl err) \<Rightarrow> Inl (ApplyPollFailed err)
      | Some (Inr poll) \<Rightarrow>
          if res_timedOut poll then Inl ApplyTimedOut
          else if ao_Failure (res_value poll) \<noteq> []
          then Inl (if ao_GuestUnavailable (res_value poll)
                    then ApplyGuestUnavailable (ao_Failure (res_value poll))
                    else ApplyGuestFailed (ao_Failure (res_value poll)))
          else Inr (ao_Results (res_value poll)))"

section \<open>The workflow\<close>

definition failProfileApply ::
  "apply_services \<Rightarrow> string \<Rightarrow> string \<Rightarrow> apply_cause \<Rightarrow> (apply_event, apply_error, 'a) durable" where
  "failProfileApply svc operationID code cause =
     (let code' = (if code = [] then ProfileApplyFailed else code)
      in read_from (asv_now svc) (\<lambda>now.
           run_void (asv_record_failure svc) (RecordedApplyFailure operationID code' cause (utc now))
             (\<lambda>err. abandon (ApplyStepFailed err))
             (abandon (ApplyFailed code' cause))))"

definition guest_of :: "runtime_operation_dispatch \<Rightarrow> profile_apply_state \<Rightarrow> guest_request" where
  "guest_of input state =
     \<lparr>gr_OwnerUserID = pas_OwnerUserID state, gr_EnvironmentID = rod_EnvironmentID input,
      gr_RuntimeID = rod_RuntimeID input, gr_ProviderID = the (rt_ProviderInstanceRef (pas_Runtime state)),
      gr_PrivateIPv4 = the (rt_PrivateAddress (pas_Runtime state))\<rparr>"

definition state_for_guest ::
  "profile_apply_state \<Rightarrow> capsule_lock_snapshot \<Rightarrow> environment_capsule_state" where
  "state_for_guest state lock =
     \<lparr>ecs_CapsuleLock = lock, ecs_UpgradePolicy = pas_UpgradePolicy state,
      ecs_Approvals = approvalMarkers lock (pas_ApprovedReviewItems state), ecs_ApplyResults = [],
      ecs_Materializations = pas_Materializations state\<rparr>"

definition applied_state ::
  "profile_apply_state \<Rightarrow> capsule_lock_snapshot \<Rightarrow> materialization_result list \<Rightarrow> environment_capsule_state" where
  "applied_state state lock results =
     (state_for_guest state lock)\<lparr>ecs_ApplyResults := results,
       ecs_Materializations := InstalledMaterializationsFromResults results\<rparr>"

definition previous_lock_id :: "profile_apply_state \<Rightarrow> string option" where
  "previous_lock_id state = map_option lock_ID (pas_PreviousLock state)"

definition previous_project :: "profile_apply_state \<Rightarrow> string option" where
  "previous_project state = map_option lock_ProjectCapsuleDigest (pas_PreviousLock state)"

text \<open>\<open>Run\<close> from the candidate lock on.\<close>

definition apply_candidate ::
  "apply_services \<Rightarrow> runtime_operation_dispatch \<Rightarrow> profile_apply_state \<Rightarrow> capsule_lock_snapshot
   \<Rightarrow> (apply_event, apply_error, profile_apply_output) durable" where
  "apply_candidate svc input state lock =
     (let request = \<lparr>mq_OperationID = rod_OperationID input, mq_Guest = guest_of input state,
                     mq_State = state_for_guest state lock\<rparr>
      in run_step (materializeProfileApply svc request) (MaterializedLock request)
           (\<lambda>cause.
             if cause = ApplyUnfinished then abandon ApplyOutOfFuel
             else failProfileApply svc (rod_OperationID input)
                    (if guest_unavailable cause then ''GUEST_NOT_READY'' else ''PROFILE_CONFLICT'') cause)
           (\<lambda>results.
             case validateEnvironmentMaterializationResults lock results of
               Some err \<Rightarrow> failProfileApply svc (rod_OperationID input) ''PROFILE_CONFLICT'' (ApplyResultsRejected err)
             | None \<Rightarrow>
                 read_from (asv_now svc) (\<lambda>now.
                   run_void (asv_complete svc)
                     (CompletedApply (rod_OperationID input) (previous_lock_id state)
                        (applied_state state lock results) (utc now))
                     (\<lambda>err. failProfileApply svc (rod_OperationID input) ProfileApplyFailed (ApplyCompleteFailed err))
                     (finish \<lparr>pao_ProfileVersionID = pas_RequestVersionID state,
                              pao_CapsuleLockID = lock_ID lock\<rparr>))))"

definition ProfileApply_Run ::
  "apply_services \<Rightarrow> config_codec \<Rightarrow> string \<Rightarrow> string \<Rightarrow> runtime_operation_dispatch
   \<Rightarrow> (apply_event, apply_error, profile_apply_output) durable" where
  "ProfileApply_Run svc codec key invocationID input =
     (if key \<noteq> rod_OperationID input then abandon ApplyKeyMismatch
      else if \<not> asv_configured svc then abandon ApplyDependenciesIncomplete
      else read_from (asv_now svc) (\<lambda>now.
        run_step (asv_load svc) (LoadedApply input invocationID (utc now))
          (\<lambda>err. abandon (ApplyStepFailed err))
          (\<lambda>state.
            case validateProfileApplyState input state of
              Some err \<Rightarrow> failProfileApply svc (rod_OperationID input) ProfileApplyFailed (ApplyStateInvalid err)
            | None \<Rightarrow>
                run_step
                  (code_step (asv_engine svc) (\<lambda>h. resolveCapsules codec (asv_resolver svc h)
                     (pas_OwnerUserID state) (pas_Version state) (previous_project state)
                     (last_approved (pas_PreviousLock state))))
                  ResolvedForApply
                  (\<lambda>err. failProfileApply svc (rod_OperationID input) ''PROFILE_INCOMPATIBLE'' (ApplyResolveFailed err))
                  (\<lambda>resolved.
                    let missing = missingReviewApprovals resolved (pas_ApprovedReviewItems state)
                    in if missing \<noteq> []
                       then failProfileApply svc (rod_OperationID input) ''PROFILE_REVIEW_REQUIRED''
                              (ApplyReviewRequired missing)
                       else run_step
                         (code_step (asv_engine svc) (\<lambda>h. create_lock (asv_new_id svc h)
                            (rod_EnvironmentID input) (pas_RequestVersionID state) resolved (asv_now svc h)))
                         CreatedCandidate
                         (\<lambda>err. failProfileApply svc (rod_OperationID input) ''PROFILE_INCOMPATIBLE''
                                  (ApplyLockRejected err))
                         (apply_candidate svc input state)))))"

section \<open>Only accepted results replace the lock\<close>

text \<open>What stands behind a step that pins the state \<open>st\<close> over the lock \<open>previous\<close>.\<close>

definition completion_justified ::
  "apply_services \<Rightarrow> config_codec \<Rightarrow> runtime_operation_dispatch \<Rightarrow> apply_trace \<Rightarrow> string option
   \<Rightarrow> environment_capsule_state \<Rightarrow> bool" where
  "completion_justified svc codec input h previous st \<longleftrightarrow>
     (\<exists>invocationID now state h' resolved lockID at lock results.
        LoadedApply input invocationID now (Inr state) \<in> set h
        \<and> validateProfileApplyState input state = None
        \<and> resolveCapsules codec (asv_resolver svc h') (pas_OwnerUserID state) (pas_Version state)
            (previous_project state) (last_approved (pas_PreviousLock state)) = Inr resolved
        \<and> fst ` set (rset_DiffSinceLastApproval resolved) \<subseteq> set (pas_ApprovedReviewItems state)
        \<and> create_lock lockID (rod_EnvironmentID input) (pas_RequestVersionID state) resolved at = Inr lock
        \<and> MaterializedLock \<lparr>mq_OperationID = rod_OperationID input, mq_Guest = guest_of input state,
            mq_State = state_for_guest state lock\<rparr> (Inr results) \<in> set h
        \<and> validateEnvironmentMaterializationResults lock results = None
        \<and> st = applied_state state lock results \<and> previous = previous_lock_id state)"

lemma completion_justified_mono:
  "completion_justified svc codec input h previous st \<Longrightarrow> set h \<subseteq> set h'
   \<Longrightarrow> completion_justified svc codec input h' previous st"
  unfolding completion_justified_def by blast

definition apply_ok ::
  "apply_services \<Rightarrow> config_codec \<Rightarrow> runtime_operation_dispatch \<Rightarrow> apply_error + profile_apply_output
   \<Rightarrow> apply_trace \<Rightarrow> bool" where
  "apply_ok svc codec input r h \<longleftrightarrow>
     (\<forall>op previous st at ans. CompletedApply op previous st at ans \<in> set h \<longrightarrow>
        completion_justified svc codec input h previous st \<and> (ans = None \<longrightarrow> (\<exists>out. r = Inr out)))
     \<and> (\<forall>out. r = Inr out \<longrightarrow> (\<exists>previous st at.
          h \<noteq> [] \<and> last h = CompletedApply (rod_OperationID input) previous st at None
          \<and> pao_CapsuleLockID out = lock_ID (ecs_CapsuleLock st)))
     \<and> (\<forall>code cause. r = Inl (ApplyFailed code cause) \<longrightarrow>
          (\<exists>at. last h = RecordedApplyFailure (rod_OperationID input) code cause at None))"

lemma apply_ok_justified:
  "apply_ok svc codec input r h \<Longrightarrow> CompletedApply op previous st at ans \<in> set h
   \<Longrightarrow> completion_justified svc codec input h previous st"
  unfolding apply_ok_def by (drule conjunct1, elim allE, drule (1) mp, drule conjunct1)

text \<open>A journal in which no completion succeeded and every attempt is justified.\<close>

definition uncommitted ::
  "apply_services \<Rightarrow> config_codec \<Rightarrow> runtime_operation_dispatch \<Rightarrow> apply_trace \<Rightarrow> bool" where
  "uncommitted svc codec input h \<longleftrightarrow>
     (\<forall>op previous st at ans. CompletedApply op previous st at ans \<in> set h \<longrightarrow>
        completion_justified svc codec input h previous st \<and> ans \<noteq> None)"

lemma uncommitted_Nil [simp]: "uncommitted svc codec input []"
  by (simp add: uncommitted_def)

lemma uncommitted_snoc:
  assumes "uncommitted svc codec input h"
    and "\<And>op previous st at ans. e = CompletedApply op previous st at ans \<Longrightarrow>
      completion_justified svc codec input h previous st \<and> ans \<noteq> None"
  shows "uncommitted svc codec input (h @ [e])"
proof -
  have keep: "completion_justified svc codec input (h @ [e]) previous st"
    if "completion_justified svc codec input h previous st" for previous st
    using that by (rule completion_justified_mono) auto
  show ?thesis
    unfolding uncommitted_def
  proof (intro allI impI)
    fix op previous st at ans
    assume "CompletedApply op previous st at ans \<in> set (h @ [e])"
    then have "CompletedApply op previous st at ans \<in> set h \<or> e = CompletedApply op previous st at ans"
      by auto
    with assms have "completion_justified svc codec input h previous st \<and> ans \<noteq> None"
      unfolding uncommitted_def by blast
    with keep show "completion_justified svc codec input (h @ [e]) previous st \<and> ans \<noteq> None" by blast
  qed
qed

lemma uncommitted_abandon:
  "uncommitted svc codec input h \<Longrightarrow> (\<And>code cause. err \<noteq> ApplyFailed code cause)
   \<Longrightarrow> apply_ok svc codec input (Inl err) h"
  by (auto simp: apply_ok_def uncommitted_def)

lemma failProfileApply_ok:
  assumes "uncommitted svc codec input h"
  shows "ends (failProfileApply svc (rod_OperationID input) code cause) (apply_ok svc codec input) h"
  unfolding failProfileApply_def
proof (intro durable_rules, goal_cases)
  case (1 code' now err)
  then show ?case by (intro uncommitted_abandon uncommitted_snoc assms) auto
next
  case (2 code' now)
  have "uncommitted svc codec input (h @ [RecordedApplyFailure (rod_OperationID input) code' cause (utc now) None])"
    by (intro uncommitted_snoc assms) auto
  then show ?case by (auto simp: apply_ok_def uncommitted_def)
qed

lemma completed_ok:
  assumes "uncommitted svc codec input h" and "completion_justified svc codec input h previous st"
    and "pao_CapsuleLockID out = lock_ID (ecs_CapsuleLock st)"
  shows "apply_ok svc codec input (Inr out) (h @ [CompletedApply (rod_OperationID input) previous st at None])"
    (is "apply_ok _ _ _ _ ?h")
proof -
  have keep: "completion_justified svc codec input ?h p s"
    if "completion_justified svc codec input h p s" for p s
    using that by (rule completion_justified_mono) auto
  then show ?thesis
    using assms unfolding apply_ok_def uncommitted_def by auto
qed

lemma apply_candidate_ok:
  assumes clean: "uncommitted svc codec input h"
    and justified: "\<And>results. validateEnvironmentMaterializationResults lock results = None \<Longrightarrow>
      completion_justified svc codec input
        (h @ [MaterializedLock \<lparr>mq_OperationID = rod_OperationID input, mq_Guest = guest_of input state,
            mq_State = state_for_guest state lock\<rparr> (Inr results)])
        (previous_lock_id state) (applied_state state lock results)"
  shows "ends (apply_candidate svc input state lock) (apply_ok svc codec input) h"
  unfolding apply_candidate_def Let_def
proof (intro durable_rules failProfileApply_ok, goal_cases)
  case (3 results now err)
  let ?h = "h @ [MaterializedLock \<lparr>mq_OperationID = rod_OperationID input, mq_Guest = guest_of input state,
      mq_State = state_for_guest state lock\<rparr> (Inr results)]"
  have "uncommitted svc codec input ?h" by (intro uncommitted_snoc clean) auto
  from uncommitted_snoc [OF this, of "CompletedApply (rod_OperationID input) (previous_lock_id state)
      (applied_state state lock results) (utc now) (Some err)"] justified [of results] 3
  show ?case by auto
next
  case (4 results now)
  have "uncommitted svc codec input (h @ [MaterializedLock \<lparr>mq_OperationID = rod_OperationID input,
      mq_Guest = guest_of input state, mq_State = state_for_guest state lock\<rparr> (Inr results)])"
    by (intro uncommitted_snoc clean) auto
  with justified [of results] 4 show ?case
    by (intro completed_ok) (auto simp: applied_state_def state_for_guest_def)
qed (auto intro!: uncommitted_snoc clean uncommitted_abandon)

lemma missing_none:
  "missingReviewApprovals resolved approved = [] \<longleftrightarrow> fst ` set (rset_DiffSinceLastApproval resolved) \<subseteq> set approved"
proof -
  have "missingReviewApprovals resolved approved = [] \<longleftrightarrow> set (missingReviewApprovals resolved approved) = {}"
    by simp
  also have "\<dots> \<longleftrightarrow> fst ` set (rset_DiffSinceLastApproval resolved) \<subseteq> set approved"
    unfolding missingReviewApprovals_def set_sort by auto
  finally show ?thesis .
qed

lemma completion_justifiedI:
  assumes "LoadedApply input invocationID now (Inr state) \<in> set h"
    and "validateProfileApplyState input state = None"
    and "code_step engine (\<lambda>h. resolveCapsules codec (asv_resolver svc h) (pas_OwnerUserID state)
      (pas_Version state) (previous_project state) (last_approved (pas_PreviousLock state))) h1 = Inr resolved"
    and "missingReviewApprovals resolved (pas_ApprovedReviewItems state) = []"
    and "code_step engine' (\<lambda>h. create_lock (asv_new_id svc h) (rod_EnvironmentID input)
      (pas_RequestVersionID state) resolved (asv_now svc h)) h2 = Inr lock"
    and "MaterializedLock \<lparr>mq_OperationID = rod_OperationID input, mq_Guest = guest_of input state,
      mq_State = state_for_guest state lock\<rparr> (Inr results) \<in> set h"
    and "validateEnvironmentMaterializationResults lock results = None"
  shows "completion_justified svc codec input h (previous_lock_id state) (applied_state state lock results)"
  using assms unfolding completion_justified_def missing_none by (blast dest: code_step_Inr)

lemma ProfileApply_Run_ok: "ends (ProfileApply_Run svc codec key invocationID input) (apply_ok svc codec input) []"
  unfolding ProfileApply_Run_def Let_def
  by (intro durable_rules failProfileApply_ok apply_candidate_ok)
    (auto simp: uncommitted_def intro!: uncommitted_abandon intro: completion_justifiedI)


section \<open>Examples\<close>

text \<open>A ready Runtime of the user \<open>u\<close> without a lock, and a request that approves the one Capsule under review.\<close>

definition sample_apply_state :: profile_apply_state where
  "sample_apply_state =
     \<lparr>pas_OwnerUserID = ''u'', pas_Runtime = ready_runtime, pas_Version = sample_version_data,
      pas_PreviousLock = None, pas_Materializations = [], pas_UpgradePolicy = UpgradeManual,
      pas_RequestVersionID = ''pv-1'', pas_ApprovedReviewItems = [''owner/u/c:t'']\<rparr>"

definition sample_apply_dispatch :: runtime_operation_dispatch where
  "sample_apply_dispatch =
     \<lparr>rod_OperationID = ''op-1'', rod_OperationType = OperationProfileApply, rod_EnvironmentID = ''env-1'',
      rod_RuntimeID = ''rt-1'', rod_OwnerUserID = ''u'', rod_StopReason = RuntimeStopManual,
      rod_StopAudit = None\<rparr>"

definition sample_skill_result :: materialization_result where
  "sample_skill_result = sample_result\<lparr>mr_LockID := lock_ID sample_resolved_lock,
     mr_LockDigest := lock_Digest sample_resolved_lock, mr_CapsuleDigest := sample_digest,
     mr_ComponentID := ''skill:fmt'', mr_ComponentDigest := sample_digest, mr_Scope := ScopeUser\<rparr>"

definition sample_apply_services :: apply_services where
  "sample_apply_services =
     \<lparr>asv_configured = True, asv_now = (\<lambda>h. \<lparr>wall = 5, loc = UTC\<rparr>), asv_new_id = (\<lambda>h. ''lock-2''),
      asv_engine = (\<lambda>h. None), asv_load = (\<lambda>h. Inr sample_apply_state),
      asv_resolver = (\<lambda>h. sample_resolver), asv_poll_start = (\<lambda>h. Inr \<lparr>wall = 5, loc = UTC\<rparr>),
      asv_materialize = (\<lambda>h request attempt t slept. Inr (Inr [sample_skill_result], \<lparr>wall = 5, loc = UTC\<rparr>)),
      asv_complete = (\<lambda>h. None), asv_record_failure = (\<lambda>h. None), asv_RetryInterval = 0, asv_Timeout = 0,
      asv_fuel = 1\<rparr>"

definition sample_pending :: resolved_capsule_set where
  "sample_pending = sample_set_resolved\<lparr>rset_Classification := RequiresReview,
     rset_DiffSinceLastApproval := [(''owner/u/c:t'', DigestChanged [] sample_digest)]\<rparr>"

lemma sample_resolves_pending:
  "resolveCapsules sample_codec sample_resolver ''u'' sample_version_data None Map.empty = Inr sample_pending"
  by (simp add: resolveCapsules_def sample_version_data_def sample_tagged_def resolve_ref_def
      validateOwnedCapsuleRef_def sample_resolver_def validateCapsuleResolution_def parse_formatted
      exact_digest_of_parsed review_diff_def approved_digest_def project_wanted_def sample_pending_def
      sample_set_resolved_def
      ResolveCapsuleComposition_def all_sources_def contribute_def empty_state_def empty_result_def
      append_contribution_def composeContributions_def Let_def sample_skill_clone initial_component_def
      componentRequiresReview_def resolved_component_of_def sample_resolved_skill_def elems_def
      all_parts_def)

lemma sample_pending_lock:
  "create_lock ''lock-2'' ''env-1'' ''pv-1'' sample_pending \<lparr>wall = 5, loc = UTC\<rparr> = Inr sample_resolved_lock"
proof -
  have "lock_candidate ''lock-2'' ''env-1'' ''pv-1'' sample_pending \<lparr>wall = 5, loc = UTC\<rparr> = sample_candidate"
    by (simp add: sample_candidate_def lock_candidate_def sample_pending_def)
  moreover have "capsule_lock_Snapshot sample_resolved_lock = sample_resolved_lock"
    by (simp add: capsule_lock_Snapshot_def sample_resolved_lock_def)
  ultimately show ?thesis by (simp add: create_lock_def sample_candidate_created)
qed

lemma sample_apply_valid: "validateProfileApplyState sample_apply_dispatch sample_apply_state = None"
  by (simp add: validateProfileApplyState_def validateRuntimeOperationInput_def sample_apply_dispatch_def
      sample_apply_state_def ready_runtime_def sample_runtime_def sample_version_data_def)

lemma sample_missing: "missingReviewApprovals sample_pending [''owner/u/c:t''] = []"
  by (simp add: missingReviewApprovals_def sample_pending_def)

lemma sample_skill_accepted: "validateEnvironmentMaterializationResults sample_resolved_lock [sample_skill_result] = None"
proof -
  have components: "lock_ResolvedComponents sample_resolved_lock = [(''skill:fmt'', sample_resolved_skill)]"
    by (simp add: sample_resolved_lock_def sample_candidate_def lock_candidate_def sample_set_resolved_def
        cloneResolvedComponents_def clone_resolved_def sample_resolved_skill_def clone_slice_def elems_def)
  have "result_accepted sample_resolved_lock sample_skill_result"
    by (simp add: result_accepted_def result_identity_ok_def sample_skill_result_def sample_result_def
        components sample_resolved_skill_def)
  then show ?thesis
    by (simp add: validateEnvironmentMaterializationResults_def check_results_None_iff components
        del: check_results.simps)
qed

lemma sample_materialized:
  "materializeProfileApply sample_apply_services request h = Inr [sample_skill_result]"
  by (simp add: materializeProfileApply_def sample_apply_services_def durableDeadlinePoll_def apply_poll_config_def
      or_default_def poll_round_def materialize_journal_def zero_apply_outcome_def take_read_def go_time
      zero_time_def time_add_def Let_def)

lemma sample_apply_run:
  "\<exists>out h. ProfileApply_Run sample_apply_services sample_codec ''op-1'' ''inv-1'' sample_apply_dispatch []
      = (Inr out, h)"
proof -
  have services: "asv_configured sample_apply_services" "asv_now sample_apply_services h = \<lparr>wall = 5, loc = UTC\<rparr>"
    "asv_new_id sample_apply_services h = ''lock-2''" "asv_engine sample_apply_services h = None"
    "asv_load sample_apply_services h = Inr sample_apply_state" "asv_resolver sample_apply_services h = sample_resolver"
    "asv_complete sample_apply_services h = None" for h
    by (simp_all add: sample_apply_services_def)
  have state: "pas_OwnerUserID sample_apply_state = ''u''" "pas_Version sample_apply_state = sample_version_data"
    "previous_project sample_apply_state = None" "last_approved (pas_PreviousLock sample_apply_state) = Map.empty"
    "pas_ApprovedReviewItems sample_apply_state = [''owner/u/c:t'']" "pas_RequestVersionID sample_apply_state = ''pv-1''"
    by (simp_all add: sample_apply_state_def previous_project_def last_approved_def)
  have dispatch: "rod_OperationID sample_apply_dispatch = ''op-1''" "rod_EnvironmentID sample_apply_dispatch = ''env-1''"
    by (simp_all add: sample_apply_dispatch_def)
  show ?thesis
    unfolding ProfileApply_Run_def apply_candidate_def
    by (simp add: read_from_def run_step_def run_void_def finish_def code_step_def Let_def services state dispatch
        sample_apply_valid sample_resolves_pending sample_missing sample_pending_lock sample_materialized
        sample_skill_accepted)
qed


end
