(* ===== verification/Pinned_Versions.thy ===== *)
theory Pinned_Versions
  imports Profile_Apply
begin

text \<open>
  The resolver of pinned Profile Versions that Environment creation uses
  (\<open>pinnedProfileVersionResolver\<close> of \<open>src/apps/workflows/cmd/workflows/deps.go\<close>), compared with the
  resolution of the Profile workflows, and what its locks mean for a later Profile apply.
\<close>

section \<open>Resolving a pinned Profile Version\<close>

record environment_create_pin =
  ecp_EnvironmentID :: string
  ecp_OwnerUserID :: string
  ecp_PinnedProfileVersionID :: string

datatype pinned_error =
    PinnedNotConfigured
  | PinnedPinUnloaded string
  | PinnedVersionUnloaded string
  | PinnedVersionEmpty string
  | PinnedNotExact string
  | PinnedRefFailed string string
  | PinnedDigestDiffers string string string
  | PinnedComponents composition_error
  | PinnedLock capsule_lock_error

definition emptyTreeCapsuleDigest :: string where
  "emptyTreeCapsuleDigest = ''sha256:e3b0c44298fc1c149afbf4c8996fb92427ae41e4649b934ca495991b7852b855''"

definition embeddedExactDigest :: "string \<Rightarrow> pinned_error + string" where
  "embeddedExactDigest ref =
     (case LastIndex ref ''@sha256:'' of
        None \<Rightarrow> Inl (PinnedNotExact ref)
      | Some at \<Rightarrow> Inr (drop (at + 1) ref))"

fun pin_refs ::
  "capsule_resolver \<Rightarrow> string \<Rightarrow> nat \<Rightarrow> locked_capsule list \<Rightarrow> capsule_component_set list \<Rightarrow> capsule_ref list
   \<Rightarrow> pinned_error + locked_capsule list \<times> capsule_component_set list" where
  "pin_refs resolver ownerID index locked sources [] = Inr (locked, sources)"
| "pin_refs resolver ownerID index locked sources (ref # refs) =
     (case embeddedExactDigest (cref_Ref ref) of
        Inl err \<Rightarrow> Inl err
      | Inr exactDigest \<Rightarrow>
          (case resolver index ownerID ref of
             Inl err \<Rightarrow> Inl (PinnedRefFailed (cref_Ref ref) err)
           | Inr resolution \<Rightarrow>
               if cres_Digest resolution \<noteq> [] \<and> cres_Digest resolution \<noteq> exactDigest
               then Inl (PinnedDigestDiffers (cref_Ref ref) (cres_Digest resolution) exactDigest)
               else pin_refs resolver ownerID (Suc index)
                      (locked @ [\<lparr>lcap_Ref = cref_Ref ref, lcap_Digest = exactDigest\<rparr>])
                      (sources @ [\<lparr>ccs_Ref = cref_Ref ref, ccs_Digest = exactDigest,
                                   ccs_Exclusions = cref_Exclusions ref,
                                   ccs_Components = cres_Components resolution\<rparr>])
                      refs))"

definition pinned_lock ::
  "string \<Rightarrow> environment_create_pin \<Rightarrow> locked_capsule list \<Rightarrow> component_composition_result \<Rightarrow> gotime
   \<Rightarrow> capsule_lock_snapshot" where
  "pinned_lock lockID pin locked composition at =
     \<lparr>lock_ID = lockID, lock_EnvironmentID = ecp_EnvironmentID pin,
      lock_ProfileVersionID = ecp_PinnedProfileVersionID pin,
      lock_ProjectCapsuleDigest = emptyTreeCapsuleDigest, lock_Capsules = locked,
      lock_ResolvedComponents =
        map (resolved_component_of composition emptyTreeCapsuleDigest) (ccr_Components composition),
      lock_Digest = [], lock_CreatedAt = utc at\<rparr>"

text \<open>Only the lock of the state is set; the other fields keep their zero values.\<close>

definition lock_only :: "capsule_lock_snapshot \<Rightarrow> environment_capsule_state" where
  "lock_only lock =
     \<lparr>ecs_CapsuleLock = lock, ecs_UpgradePolicy = UpgradeOther [], ecs_Approvals = [],
      ecs_ApplyResults = [], ecs_Materializations = []\<rparr>"

definition ResolvePinnedProfileVersion ::
  "config_codec \<Rightarrow> bool \<Rightarrow> (string \<Rightarrow> string + environment_create_pin)
   \<Rightarrow> (string \<Rightarrow> string \<Rightarrow> string + profile_version_data) \<Rightarrow> capsule_resolver \<Rightarrow> string \<Rightarrow> string \<Rightarrow> gotime
   \<Rightarrow> pinned_error + environment_capsule_state" where
  "ResolvePinnedProfileVersion codec configured pins versions resolver newID operationID at =
     (if \<not> configured then Inl PinnedNotConfigured
      else case pins operationID of
        Inl err \<Rightarrow> Inl (PinnedPinUnloaded err)
      | Inr pin \<Rightarrow>
          (case versions (ecp_EnvironmentID pin) (ecp_PinnedProfileVersionID pin) of
             Inl err \<Rightarrow> Inl (PinnedVersionUnloaded err)
           | Inr version \<Rightarrow>
               if pvd_CapsuleRefs version = [] then Inl (PinnedVersionEmpty (ecp_PinnedProfileVersionID pin))
               else case pin_refs resolver (ecp_OwnerUserID pin) 0 [] [] (pvd_CapsuleRefs version) of
                 Inl err \<Rightarrow> Inl err
               | Inr (locked, sources) \<Rightarrow>
                   (case ResolveCapsuleComposition codec sources None of
                      (composition, Some err) \<Rightarrow> Inl (PinnedComponents err)
                    | (composition, None) \<Rightarrow>
                        (case CreateCapsuleLock (pinned_lock newID pin locked composition at) of
                           Inl err \<Rightarrow> Inl (PinnedLock err)
                         | Inr lock \<Rightarrow> Inr (lock_only (capsule_lock_Snapshot lock))))))"

section \<open>The same locks as the Profile workflows\<close>

lemma emptyTree_eq: "emptyTreeCapsuleDigest = emptyProjectDigest"
  by (simp add: emptyTreeCapsuleDigest_def emptyProjectDigest_def)

definition exact_ref :: "capsule_ref \<Rightarrow> bool" where
  "exact_ref ref \<longleftrightarrow>
     (case ParseOwnedCapsuleRef (cref_Ref ref) of Inl err \<Rightarrow> False | Inr p \<Rightarrow> ocr_Digest p \<noteq> [])"

lemma embedded_of_exact:
  assumes "exactOrResolvedDigest ref resolved = Inr digest" and "LastIndex ref ''@sha256:'' = Some at"
  shows "embeddedExactDigest ref = Inr digest \<and> (resolved = [] \<or> resolved = digest)"
  using assms by (auto simp: exactOrResolvedDigest_def embeddedExactDigest_def Let_def split: if_splits)

lemma exact_ref_index:
  assumes "exact_ref ref"
  obtains at where "LastIndex (cref_Ref ref) ''@sha256:'' = Some at"
proof -
  from assms obtain p where p: "ParseOwnedCapsuleRef (cref_Ref ref) = Inr p" "ocr_Digest p \<noteq> []"
    by (auto simp: exact_ref_def split: sum.splits)
  show ?thesis
  proof (cases "LastIndex (cref_Ref ref) ''@sha256:''")
    case None
    then have "exactOrResolvedDigest (cref_Ref ref) [] = Inl (DigestUnresolved (cref_Ref ref))"
      by (simp add: exactOrResolvedDigest_def)
    with exact_digest_of_parsed [OF p(1), of "[]"] p(2) show ?thesis by simp
  qed (rule that)
qed

text \<open>A ref that embeds no digest: a moving tag.\<close>

definition moving_ref :: "capsule_ref \<Rightarrow> bool" where
  "moving_ref ref \<longleftrightarrow> LastIndex (cref_Ref ref) ''@sha256:'' = None"

lemma exact_not_moving: "exact_ref ref \<Longrightarrow> \<not> moving_ref ref"
  by (auto simp: moving_ref_def elim: exact_ref_index)

lemma pin_refs_agrees:
  assumes "resolve_refs resolver ownerID lastApproved index acc refs = Inr out"
  shows "pin_refs resolver ownerID index (rr_locked acc) (rr_sources acc) refs
    = (case find moving_ref refs of
         Some ref \<Rightarrow> Inl (PinnedNotExact (cref_Ref ref))
       | None \<Rightarrow> Inr (rr_locked out, rr_sources out))"
  using assms
proof (induction resolver ownerID lastApproved index acc refs rule: resolve_refs.induct)
  case (2 resolver ownerID lastApproved index acc ref refs)
  from "2.prems"(1) obtain digest resolution
    where found: "resolve_ref (resolver index) ownerID ref = Inr (digest, resolution)"
    by (auto split: sum.splits)
  then have answer: "resolver index ownerID ref = Inr resolution"
    and exact: "exactOrResolvedDigest (cref_Ref ref) (cres_Digest resolution) = Inr digest"
    by (auto simp: resolve_ref_def split: option.splits if_splits sum.splits)
  show ?case
  proof (cases "LastIndex (cref_Ref ref) ''@sha256:''")
    case None
    then show ?thesis by (simp add: embeddedExactDigest_def moving_ref_def)
  next
    case (Some at)
    from embedded_of_exact [OF exact this] "2.IH" [OF found refl] "2.prems" found answer Some show ?thesis
      by (auto simp: moving_ref_def)
  qed
qed simp

lemma pinned_locks_agree:
  assumes "pins operationID = Inr pin"
    and "versions (ecp_EnvironmentID pin) (ecp_PinnedProfileVersionID pin) = Inr version"
    and "pvd_CapsuleRefs version \<noteq> []"
    and "resolveCapsules codec resolver (ecp_OwnerUserID pin) version None lastApproved = Inr resolved"
  shows "ResolvePinnedProfileVersion codec True pins versions resolver newID operationID at =
    (case find moving_ref (pvd_CapsuleRefs version) of
       Some ref \<Rightarrow> Inl (PinnedNotExact (cref_Ref ref))
     | None \<Rightarrow>
         (case create_lock newID (ecp_EnvironmentID pin) (ecp_PinnedProfileVersionID pin) resolved at of
            Inl err \<Rightarrow> Inl (PinnedLock err)
          | Inr lock \<Rightarrow> Inr (lock_only lock)))"
proof -
  from assms(4) obtain refs :: resolved_refs and composition
    where loop: "resolve_refs resolver (ecp_OwnerUserID pin) lastApproved 0
        \<lparr>rr_locked = [], rr_sources = [], rr_diffs = []\<rparr> (pvd_CapsuleRefs version) = Inr refs"
      and composed: "ResolveCapsuleComposition codec (rr_sources refs) None = (composition, None)"
      and locked: "rset_LockedCapsules resolved = rr_locked refs"
      and components: "rset_Components resolved
        = map (resolved_component_of composition emptyProjectDigest) (ccr_Components composition)"
      and project: "rset_ProjectDigest resolved = emptyProjectDigest"
    by (auto simp: resolveCapsules_def project_wanted_def Let_def split: sum.splits prod.splits option.splits)
  have "pinned_lock newID pin (rr_locked refs) composition at
      = lock_candidate newID (ecp_EnvironmentID pin) (ecp_PinnedProfileVersionID pin) resolved at"
    by (simp add: pinned_lock_def lock_candidate_def locked components project emptyTree_eq)
  with pin_refs_agrees [OF loop] assms(1-3) composed show ?thesis
    by (simp add: ResolvePinnedProfileVersion_def create_lock_def split: sum.split option.split)
qed


section \<open>A lock from creation blocks every later apply\<close>

lemma emptyProject_wanted [simp]: "project_wanted (Some emptyProjectDigest) = Some emptyProjectDigest"
  by (simp add: project_wanted_def emptyProjectDigest_def)

lemma placeholder_unresolved:
  assumes "\<And>index. \<exists>err. resolver index ownerID
      \<lparr>cref_Ref = FormatOwnedCapsuleRef ownerID emptyProjectDigest, cref_FreshnessPolicy = FreshnessPin,
       cref_Exclusions = []\<rparr> = Inl err"
  shows "resolveCapsules codec resolver ownerID version (Some emptyProjectDigest) lastApproved \<noteq> Inr resolved"
proof
  assume "resolveCapsules codec resolver ownerID version (Some emptyProjectDigest) lastApproved = Inr resolved"
  from resolveCapsules_Inr [OF this] obtain source
    where "resolve_project (resolver (length (pvd_CapsuleRefs version))) ownerID emptyProjectDigest = Inr source"
    by auto
  with assms [of "length (pvd_CapsuleRefs version)"] show False
    by (auto simp: resolve_project_def Let_def)
qed

lemma pinned_lock_project:
  assumes "ResolvePinnedProfileVersion codec configured pins versions resolver newID operationID at = Inr created"
  shows "lock_ProjectCapsuleDigest (ecs_CapsuleLock created) = emptyProjectDigest"
  using assms unfolding ResolvePinnedProfileVersion_def
  by (auto simp: lock_only_def capsule_lock_Snapshot_def pinned_lock_def emptyTree_eq dest!: CreateCapsuleLock_Inr(2)
      split: if_splits sum.splits prod.splits option.splits)

text \<open>
  C27. The lock Environment creation pins names no project Capsule: its project digest is the
  placeholder, the digest of the empty string.  Profile apply hands the digest of the previous lock to
  the store as if it were a project Capsule.  If the store answers, as the registry client does for a
  Capsule whose manifest does not hash to the digest, that it cannot resolve the placeholder, no apply
  on such an Environment ever completes.
\<close>

theorem created_lock_blocks_apply:
  assumes "ResolvePinnedProfileVersion codec configured pins versions resolver newID operationID at = Inr created"
    and "\<And>h index ownerID. \<exists>err. asv_resolver svc h index ownerID
      \<lparr>cref_Ref = FormatOwnedCapsuleRef ownerID emptyProjectDigest, cref_FreshnessPolicy = FreshnessPin,
       cref_Exclusions = []\<rparr> = Inl err"
    and "ProfileApply_Run svc codec' key invocationID input [] = (r, h)"
    and "\<And>inv now state. LoadedApply input inv now (Inr state) \<in> set h \<Longrightarrow>
      pas_PreviousLock state = Some (ecs_CapsuleLock created)"
  shows "(\<forall>out. r \<noteq> Inr out) \<and> (\<forall>op previous st at ans. CompletedApply op previous st at ans \<notin> set h)"
proof -
  have never: "\<not> completion_justified svc codec' input h previous st" for previous st
  proof
    assume "completion_justified svc codec' input h previous st"
    then obtain inv now state h' resolved
      where loaded: "LoadedApply input inv now (Inr state) \<in> set h"
        and code: "resolveCapsules codec' (asv_resolver svc h') (pas_OwnerUserID state) (pas_Version state)
          (previous_project state) (last_approved (pas_PreviousLock state)) = Inr resolved"
      unfolding completion_justified_def by (elim exE conjE) (rule that)
    from assms(4) [OF loaded] pinned_lock_project [OF assms(1)]
    have "previous_project state = Some emptyProjectDigest" by (simp add: previous_project_def)
    moreover have "resolveCapsules codec' (asv_resolver svc h') (pas_OwnerUserID state) (pas_Version state)
        (Some emptyProjectDigest) (last_approved (pas_PreviousLock state)) \<noteq> Inr resolved"
      by (rule placeholder_unresolved) (rule assms(2))
    ultimately show False using code by simp
  qed
  have ok: "apply_ok svc codec' input r h" using endsD [OF ProfileApply_Run_ok assms(3)] .
  have none: "CompletedApply op previous st at ans \<notin> set h" for op previous st at ans
    using never apply_ok_justified [OF ok] by (rule contrapos_nn)
  moreover have "r \<noteq> Inr out" for out
  proof
    assume "r = Inr out"
    with ok obtain previous st at
      where "h \<noteq> []" "last h = CompletedApply (rod_OperationID input) previous st at None"
      unfolding apply_ok_def by blast
    with none show False by (metis last_in_set)
  qed
  ultimately show ?thesis by blast
qed

section \<open>Examples\<close>

definition sample_exact :: capsule_ref where
  "sample_exact = \<lparr>cref_Ref = FormatOwnedCapsuleRef ''u'' sample_digest, cref_FreshnessPolicy = FreshnessPin,
     cref_Exclusions = []\<rparr>"

lemma concI: "u \<in> A \<Longrightarrow> v \<in> B \<Longrightarrow> u @ v \<in> conc A B"
  by (auto simp: conc_def)

lemma sample_exact_matches: "matches registryCapsuleRefPattern (FormatOwnedCapsuleRef ''u'' sample_digest)"
proof -
  have hex: "''@'' @ sample_digest \<in> lang (Seq (literal ''@sha256:'') (Between (Class (''abcdef'' @ digits)) 64 64))"
    unfolding lang.simps(4) lang_literal conc_singleton Bex_def lang_between_class sample_digest_def
    by (intro exI [of _ "replicate 64 (CHR ''a'')"]) (simp add: digits_def)
  have owner: "''owner'' \<in> lang registry_segment"
    unfolding matches_iff_lang [symmetric] registry_segment_def optional_def alnum_def upper_def lower_def digits_def
    by simp
  have path: "''/u/capsule'' \<in> lang (Star (Seq (literal ''/'') registry_segment))"
    unfolding matches_iff_lang [symmetric] registry_segment_def optional_def alnum_def upper_def lower_def digits_def
    by simp
  have port: "[] \<in> lang (optional (Seq (literal '':'') (Between (Class digits) 1 5)))"
    by (simp add: optional_def)
  have "FormatOwnedCapsuleRef ''u'' sample_digest = ''owner'' @ [] @ ''/u/capsule'' @ ''@'' @ sample_digest"
    by (simp add: FormatOwnedCapsuleRef_def)
  moreover have "''owner'' @ [] @ ''/u/capsule'' @ ''@'' @ sample_digest \<in> lang registryCapsuleRefPattern"
    unfolding registryCapsuleRefPattern_def lang.simps(4,5)
    by (intro concI UnI2 owner port path hex [unfolded lang.simps(4)]) 
  ultimately show ?thesis by (simp only: matches_iff_lang)
qed

definition sample_pin :: environment_create_pin where
  "sample_pin = \<lparr>ecp_EnvironmentID = ''env-1'', ecp_OwnerUserID = ''u'', ecp_PinnedProfileVersionID = ''pv-1''\<rparr>"

definition sample_exact_version :: profile_version_data where
  "sample_exact_version = \<lparr>pvd_ID = ''pv-1'', pvd_CapsuleRefs = [sample_exact]\<rparr>"

definition sample_exact_set :: resolved_capsule_set where
  "sample_exact_set = sample_set_resolved\<lparr>rset_LockedCapsules :=
     [\<lparr>lcap_Ref = FormatOwnedCapsuleRef ''u'' sample_digest, lcap_Digest = sample_digest\<rparr>]\<rparr>"

lemma sample_exact_contains: "contains ''@sha256:'' (FormatOwnedCapsuleRef ''u'' sample_digest)"
  by (simp add: FormatOwnedCapsuleRef_def sample_digest_def)

lemma sample_exact_resolves:
  "resolveCapsules sample_codec sample_resolver ''u'' sample_exact_version None Map.empty = Inr sample_exact_set"
  by (simp add: resolveCapsules_def sample_exact_version_def sample_exact_def resolve_ref_def
      validateOwnedCapsuleRef_def sample_resolver_def validateCapsuleResolution_def parse_formatted
      exact_digest_of_parsed [OF parse_formatted] review_diff_def project_wanted_def sample_exact_set_def
      sample_set_resolved_def sample_exact_contains
      ResolveCapsuleComposition_def all_sources_def contribute_def empty_state_def empty_result_def
      append_contribution_def composeContributions_def Let_def sample_skill_clone initial_component_def
      componentRequiresReview_def resolved_component_of_def sample_resolved_skill_def elems_def
      all_parts_def)

lemma sample_exact_ref: "exact_ref sample_exact"
  by (simp add: exact_ref_def sample_exact_def parse_formatted)

lemma sample_exact_trimmed:
  "\<not> blank (FormatOwnedCapsuleRef ''u'' sample_digest)" "\<not> untrimmed (FormatOwnedCapsuleRef ''u'' sample_digest)"
  by (simp_all add: FormatOwnedCapsuleRef_def sample_digest_def)

lemma sample_exact_lock:
  "\<exists>lock. create_lock ''lock-1'' ''env-1'' ''pv-1'' sample_exact_set \<lparr>wall = 5, loc = UTC\<rparr> = Inr lock"
proof -
  let ?candidate = "lock_candidate ''lock-1'' ''env-1'' ''pv-1'' sample_exact_set \<lparr>wall = 5, loc = UTC\<rparr>"
  have "check_lock ?candidate = None"
    by (simp add: check_lock_def lock_candidate_def sample_exact_set_def sample_set_resolved_def
        sample_resolved_skill_def check_component_def listed_digest_def sample_exact_matches sample_exact_trimmed
        go_time utc_def del: matches.simps)
  moreover have "lock_Digest ?candidate = []" by (simp add: lock_candidate_def)
  ultimately show ?thesis by (simp add: create_lock_def CreateCapsuleLock_def Let_def)
qed

lemma sample_pin_fields:
  "ecp_EnvironmentID sample_pin = ''env-1''" "ecp_OwnerUserID sample_pin = ''u''"
  "ecp_PinnedProfileVersionID sample_pin = ''pv-1''" "pvd_CapsuleRefs sample_exact_version = [sample_exact]"
  "\<not> moving_ref sample_exact"
  using exact_not_moving [OF sample_exact_ref] by (simp_all add: sample_pin_def sample_exact_version_def)

lemma sample_pinned:
  assumes "create_lock ''lock-1'' ''env-1'' ''pv-1'' sample_exact_set \<lparr>wall = 5, loc = UTC\<rparr> = Inr lock"
  shows "ResolvePinnedProfileVersion sample_codec True (\<lambda>operationID. Inr sample_pin)
      (\<lambda>environmentID versionID. Inr sample_exact_version) sample_resolver ''lock-1'' ''op-1''
      \<lparr>wall = 5, loc = UTC\<rparr> = Inr (lock_only lock)"
  using pinned_locks_agree [of "\<lambda>operationID. Inr sample_pin" "''op-1''" sample_pin
      "\<lambda>environmentID versionID. Inr sample_exact_version" sample_exact_version sample_codec sample_resolver Map.empty
      sample_exact_set "''lock-1''" "\<lparr>wall = 5, loc = UTC\<rparr>"] assms
  by (simp add: sample_pin_fields sample_exact_resolves)


text \<open>A store that holds only the sample Capsule, and an apply on the created Environment.\<close>

definition strict_resolver :: capsule_resolver where
  "strict_resolver index ownerID ref =
     (if cref_Ref ref = FormatOwnedCapsuleRef ownerID emptyProjectDigest then Inl ''not found''
      else sample_resolver index ownerID ref)"

definition blocked_services :: "capsule_lock_snapshot \<Rightarrow> apply_services" where
  "blocked_services lock = sample_apply_services\<lparr>asv_resolver := (\<lambda>h. strict_resolver),
     asv_load := (\<lambda>h. Inr (sample_apply_state\<lparr>pas_PreviousLock := Some lock\<rparr>))\<rparr>"

lemma blocked_loads:
  "ends (ProfileApply_Run (blocked_services lock) codec key invocationID input)
     (\<lambda>r h. \<forall>inv now state. LoadedApply input inv now (Inr state) \<in> set h \<longrightarrow> pas_PreviousLock state = Some lock) []"
  unfolding ProfileApply_Run_def apply_candidate_def failProfileApply_def Let_def
  by (intro durable_rules) (auto simp: blocked_services_def)

theorem created_lock_blocks_apply_witness:
  "\<exists>created r h. ResolvePinnedProfileVersion sample_codec True (\<lambda>operationID. Inr sample_pin)
         (\<lambda>environmentID versionID. Inr sample_exact_version) sample_resolver ''lock-1'' ''op-1''
         \<lparr>wall = 5, loc = UTC\<rparr> = Inr created
     \<and> ProfileApply_Run (blocked_services (ecs_CapsuleLock created)) sample_codec ''op-1'' ''inv-1''
         sample_apply_dispatch [] = (r, h)
     \<and> (\<forall>out. r \<noteq> Inr out)"
proof -
  from sample_exact_lock obtain lock
    where lock: "create_lock ''lock-1'' ''env-1'' ''pv-1'' sample_exact_set \<lparr>wall = 5, loc = UTC\<rparr> = Inr lock"
    by blast
  note created = sample_pinned [OF lock]
  obtain r h where run: "ProfileApply_Run (blocked_services (ecs_CapsuleLock (lock_only lock))) sample_codec
      ''op-1'' ''inv-1'' sample_apply_dispatch [] = (r, h)"
    by fastforce
  have "(\<forall>out. r \<noteq> Inr out) \<and> (\<forall>op previous st at ans. CompletedApply op previous st at ans \<notin> set h)"
  proof (rule created_lock_blocks_apply [OF created _ run])
    show "\<exists>err. asv_resolver (blocked_services (ecs_CapsuleLock (lock_only lock))) h' index ownerID
        \<lparr>cref_Ref = FormatOwnedCapsuleRef ownerID emptyProjectDigest, cref_FreshnessPolicy = FreshnessPin,
         cref_Exclusions = []\<rparr> = Inl err" for h' index ownerID
      by (simp add: blocked_services_def strict_resolver_def)
  qed (use endsD [OF blocked_loads run] in blast)
  with created run show ?thesis by blast
qed

end
