(* ===== verification/Uploads.thy ===== *)
theory Uploads
  imports Durable_Steps Encodings
begin

text \<open>
  Upload intents and Project Seeds: the records of \<open>src/libs/domain/upload.go\<close> and
  \<open>src/libs/domain/project_seed.go\<close>, and the services of \<open>src/libs/application/upload_intents.go\<close> and
  \<open>src/libs/application/project_seeds.go\<close> that sign, verify and finalize uploads and register a seed.  A
  service maps the calls made so far to its result and the calls it leaves; the repository, the signer,
  the object store and \<open>url.Parse\<close> are arguments.
\<close>

section \<open>Upload intents\<close>

text \<open>\<open>UploadKind\<close> is a string type with five named values.\<close>

type_synonym upload_kind = string

definition UploadProfileArtifact :: upload_kind where
  "UploadProfileArtifact = ''profile_artifact''"

definition UploadGitBundle :: upload_kind where
  "UploadGitBundle = ''git_bundle''"

definition UploadTrackedPatch :: upload_kind where
  "UploadTrackedPatch = ''tracked_patch''"

definition UploadUntrackedBundle :: upload_kind where
  "UploadUntrackedBundle = ''untracked_bundle''"

definition UploadSeedManifest :: upload_kind where
  "UploadSeedManifest = ''seed_manifest''"

lemmas upload_kinds = UploadProfileArtifact_def UploadGitBundle_def UploadTrackedPatch_def
  UploadUntrackedBundle_def UploadSeedManifest_def

definition upload_kind_valid :: "upload_kind \<Rightarrow> bool" where
  "upload_kind_valid kind \<longleftrightarrow>
     kind \<in> set [UploadProfileArtifact, UploadGitBundle, UploadTrackedPatch, UploadUntrackedBundle,
       UploadSeedManifest]"

record upload_intent_snapshot =
  ui_ID :: string
  ui_OwnerUserID :: string
  ui_Kind :: upload_kind
  ui_Digest :: string
  ui_SizeBytes :: int64
  ui_ObjectKey :: string
  ui_CreatedAt :: gotime
  ui_ExpiresAt :: gotime

type_synonym upload_intent = upload_intent_snapshot

datatype upload_intent_error =
    IntentFieldRequired string
  | IntentKindUnknown upload_kind
  | IntentDigestInvalid
  | IntentSizeNegative
  | IntentCreationRequired
  | IntentExpiryInvalid

definition ReserveUploadIntent :: "upload_intent_snapshot \<Rightarrow> upload_intent_error + upload_intent" where
  "ReserveUploadIntent snapshot =
     (case first_name blank
        [(''ID'', ui_ID snapshot), (''owner User ID'', ui_OwnerUserID snapshot),
         (''object key'', ui_ObjectKey snapshot)] of
        Some name \<Rightarrow> Inl (IntentFieldRequired name)
      | None \<Rightarrow>
          if \<not> upload_kind_valid (ui_Kind snapshot) then Inl (IntentKindUnknown (ui_Kind snapshot))
          else if \<not> contentDigestPattern (ui_Digest snapshot) then Inl IntentDigestInvalid
          else if sint (ui_SizeBytes snapshot) < 0 then Inl IntentSizeNegative
          else if is_zero (ui_CreatedAt snapshot) then Inl IntentCreationRequired
          else if is_zero (ui_ExpiresAt snapshot) \<or> \<not> after (ui_ExpiresAt snapshot) (ui_CreatedAt snapshot)
          then Inl IntentExpiryInvalid
          else Inr (snapshot\<lparr>ui_CreatedAt := utc (ui_CreatedAt snapshot),
                             ui_ExpiresAt := utc (ui_ExpiresAt snapshot)\<rparr>))"

section \<open>Project Seeds\<close>

record project_seed_snapshot =
  ps_ID :: string
  ps_OwnerUserID :: string
  ps_RepositoryURL :: string
  ps_BaseRevision :: string
  ps_Digest :: string
  ps_GitBundleDigest :: string
  ps_TrackedPatchDigest :: string
  ps_UntrackedBundleDigest :: string
  ps_ManifestDigest :: string
  ps_CreatedAt :: gotime

type_synonym project_seed = project_seed_snapshot

text \<open>The fields of a parsed URL the code looks at; the parser itself is an argument.\<close>

record parsed_url =
  url_Scheme :: string
  url_Host :: string
  url_User :: bool
  url_RawQuery :: string
  url_Fragment :: string
  url_String :: string

type_synonym url_parser = "string \<Rightarrow> parsed_url option"

datatype project_seed_error =
    SeedFieldsRequired
  | SeedRepositoryInvalid
  | SeedDigestInvalid string
  | SeedDigestsRequired
  | SeedCreationRequired

definition repository_url_ok :: "url_parser \<Rightarrow> string \<Rightarrow> bool" where
  "repository_url_ok parse url =
     (case parse url of
        None \<Rightarrow> False
      | Some u \<Rightarrow> (url_Scheme u = ''https'' \<or> url_Scheme u = ''ssh'') \<and> url_Host u \<noteq> []
                 \<and> \<not> url_User u \<and> url_RawQuery u = [] \<and> url_Fragment u = [])"

definition RegisterProjectSeed ::
  "url_parser \<Rightarrow> project_seed_snapshot \<Rightarrow> project_seed_error + project_seed" where
  "RegisterProjectSeed parse snapshot =
     (if blank (ps_ID snapshot) \<or> blank (ps_OwnerUserID snapshot) \<or> blank (ps_BaseRevision snapshot)
      then Inl SeedFieldsRequired
      else if \<not> repository_url_ok parse (ps_RepositoryURL snapshot) then Inl SeedRepositoryInvalid
      else case first_name (\<lambda>digest. digest \<noteq> [] \<and> \<not> contentDigestPattern digest)
             [(''Project Seed'', ps_Digest snapshot), (''manifest'', ps_ManifestDigest snapshot),
              (''Git bundle'', ps_GitBundleDigest snapshot),
              (''tracked patch'', ps_TrackedPatchDigest snapshot),
              (''untracked bundle'', ps_UntrackedBundleDigest snapshot)] of
        Some name \<Rightarrow> Inl (SeedDigestInvalid name)
      | None \<Rightarrow>
          if ps_Digest snapshot = [] \<or> ps_ManifestDigest snapshot = [] then Inl SeedDigestsRequired
          else if is_zero (ps_CreatedAt snapshot) then Inl SeedCreationRequired
          else Inr (snapshot\<lparr>ps_CreatedAt := utc (ps_CreatedAt snapshot)\<rparr>))"

section \<open>Object keys\<close>

definition FinalizedUploadObjectKey :: "string \<Rightarrow> upload_kind \<Rightarrow> string \<Rightarrow> string" where
  "FinalizedUploadObjectKey ownerID kind digest =
     ''objects/'' @ hex_bytes (Sum256 ownerID) @ ''/'' @ kind @ ''/''
       @ (case strip_prefix ''sha256:'' digest of None \<Rightarrow> digest | Some hex \<Rightarrow> hex)"

definition uploadObjectKey :: "string \<Rightarrow> string \<Rightarrow> upload_kind \<Rightarrow> string" where
  "uploadObjectKey ownerID uploadID kind =
     ''uploads/'' @ kind @ ''/'' @ hex_bytes (Sum256 (ownerID @ [CHR 0x00] @ uploadID))"

section \<open>Signed headers\<close>

text \<open>
  The loop ranges over runes; a byte above 127 belongs to a rune of at least 128 or to an invalid one,
  which reads as U+FFFD, so the test of bytes is the same.
\<close>

definition header_char_ok :: "char \<Rightarrow> bool" where
  "header_char_ok c \<longleftrightarrow>
     \<not> (of_char c \<le> (32 :: nat) \<or> of_char c \<ge> (127 :: nat)
       \<or> c \<in> set (''()<>@,;:'' @ [CHR 0x5C, CHR 0x22] @ ''/[]?={} ''))"

definition validSignedHeaderName :: "string \<Rightarrow> bool" where
  "validSignedHeaderName name \<longleftrightarrow> name \<noteq> [] \<and> list_all header_char_ok name"

fun safe_headers_from :: "nat \<Rightarrow> (string \<times> string) list \<Rightarrow> bool" where
  "safe_headers_from seen [] = True"
| "safe_headers_from seen ((name, val) # headers) =
     (let seen' = seen + length name + length val
      in if \<not> validSignedHeaderName name \<or> list_ex (\<lambda>c. c = CHR 0x0D \<or> c = CHR 0x0A) val \<or> seen' > 8192
         then False else safe_headers_from seen' headers)"

text \<open>The headers in the order the iteration over the map happens to take.\<close>

definition safeSignedHeaders :: "(string \<times> string) list \<Rightarrow> bool" where
  "safeSignedHeaders headers =
     (if headers = [] \<or> length headers > 16 then False else safe_headers_from 0 headers)"

section \<open>The services\<close>

record observed_upload =
  obs_ObjectKey :: string
  obs_Kind :: upload_kind
  obs_Digest :: string
  obs_SizeBytes :: int64
  obs_VersionID :: string

record signed_upload =
  su_URL :: string
  su_RequiredHeaders :: "(string \<times> string) list"

record create_upload_input =
  cup_OwnerUserID :: string
  cup_IdempotencyKey :: string
  cup_Kind :: upload_kind
  cup_Digest :: string
  cup_SizeBytes :: int64

record upload_intent_result =
  uir_Intent :: upload_intent
  uir_URL :: string
  uir_RequiredHeaders :: "(string \<times> string) list"

record verify_upload_input =
  vui_OwnerUserID :: string
  vui_Kind :: upload_kind
  vui_Digest :: string

record verified_upload =
  vu_Intent :: upload_intent
  vu_ObjectKey :: string

datatype upload_event =
    ReservedIntent upload_intent string "string + upload_intent"
  | SignedIntent upload_intent "string + signed_upload"
  | LoadedIntent string upload_kind string "string + upload_intent"
  | InspectedUpload string "string + observed_upload"
  | FinalizedUpload observed_upload string "string option"
  | RegisteredSeed project_seed string "string + project_seed"

type_synonym upload_trace = "upload_event list"

text \<open>Which dependencies are configured, the limits, and the answers of the stores after the calls so far.\<close>

record upload_services =
  us_create_configured :: bool
  us_verify_configured :: bool
  us_uploads_configured :: bool
  us_ttl :: int64
  us_limits :: "upload_kind \<rightharpoonup> int64"
  us_now :: "upload_trace \<Rightarrow> gotime"
  us_new_id :: "upload_trace \<Rightarrow> string"
  us_reserve :: "upload_trace \<Rightarrow> upload_intent \<Rightarrow> string \<Rightarrow> string + upload_intent"
  us_sign :: "upload_trace \<Rightarrow> upload_intent \<Rightarrow> string + signed_upload"
  us_load :: "upload_trace \<Rightarrow> string \<Rightarrow> upload_kind \<Rightarrow> string \<Rightarrow> string + upload_intent"
  us_inspect :: "upload_trace \<Rightarrow> string \<Rightarrow> string + observed_upload"
  us_finalize :: "upload_trace \<Rightarrow> observed_upload \<Rightarrow> string \<Rightarrow> string option"
  us_register :: "upload_trace \<Rightarrow> project_seed \<Rightarrow> string \<Rightarrow> string + project_seed"

datatype upload_error =
    ErrInvalidUploadIntent "upload_intent_error option"
  | ErrUnsafeUploadURL
  | ErrUnsafeUploadRequest
  | ErrUploadNotVerified
  | ErrUploadReservationMismatch
  | UploadReserveFailed string
  | UploadSignFailed string
  | UploadLoadFailed string
  | UploadInspectFailed string
  | UploadFinalizeFailed string
  | ErrInvalidProjectSeed "project_seed_error option"
  | SeedPartUnverified upload_kind upload_error
  | ErrProjectSeedTransportLimit
  | SeedPersistFailed string

text \<open>\<open>Truncate(time.Second)\<close> rounds down to a whole second since the zero time.\<close>

definition truncate_second :: "gotime \<Rightarrow> gotime" where
  "truncate_second t = t\<lparr>wall := wall t - wall t mod 1000000000\<rparr>"

definition upload_url_ok :: "url_parser \<Rightarrow> string \<Rightarrow> bool" where
  "upload_url_ok parse url =
     (case parse url of
        None \<Rightarrow> False
      | Some u \<Rightarrow> url_Scheme u = ''https'' \<and> url_Host u \<noteq> [] \<and> \<not> url_User u \<and> url_Fragment u = [])"

definition intent_candidate :: "upload_services \<Rightarrow> create_upload_input \<Rightarrow> upload_trace \<Rightarrow> upload_intent_snapshot" where
  "intent_candidate svc input h =
     (let createdAt = truncate_second (utc (us_now svc h)); newID = us_new_id svc h
      in \<lparr>ui_ID = newID, ui_OwnerUserID = cup_OwnerUserID input, ui_Kind = cup_Kind input,
          ui_Digest = cup_Digest input, ui_SizeBytes = cup_SizeBytes input,
          ui_ObjectKey = uploadObjectKey (cup_OwnerUserID input) newID (cup_Kind input),
          ui_CreatedAt = createdAt, ui_ExpiresAt = time_add createdAt (us_ttl svc)\<rparr>)"

definition reservation_matches :: "create_upload_input \<Rightarrow> upload_intent \<Rightarrow> bool" where
  "reservation_matches input reserved \<longleftrightarrow>
     ui_OwnerUserID reserved = cup_OwnerUserID input \<and> ui_Kind reserved = cup_Kind input
     \<and> ui_Digest reserved = cup_Digest input \<and> ui_SizeBytes reserved = cup_SizeBytes input
     \<and> ui_ObjectKey reserved = uploadObjectKey (ui_OwnerUserID reserved) (ui_ID reserved) (ui_Kind reserved)"

definition UploadIntentService_Create ::
  "upload_services \<Rightarrow> url_parser \<Rightarrow> create_upload_input
   \<Rightarrow> (upload_event, upload_error, upload_intent_result) durable" where
  "UploadIntentService_Create svc parse input =
     (if blank (cup_IdempotencyKey input) \<or> \<not> us_create_configured svc \<or> sint (us_ttl svc) \<le> 0
      then abandon (ErrInvalidUploadIntent None)
      else case us_limits svc (cup_Kind input) of
        None \<Rightarrow> abandon (ErrInvalidUploadIntent None)
      | Some limit \<Rightarrow>
          if sint limit < 0 \<or> sint (cup_SizeBytes input) > sint limit
          then abandon (ErrInvalidUploadIntent None)
          else read_from (\<lambda>h. ReserveUploadIntent (intent_candidate svc input h)) (\<lambda>reserved.
            case reserved of
              Inl err \<Rightarrow> abandon (ErrInvalidUploadIntent (Some err))
            | Inr candidate \<Rightarrow>
                run_step (\<lambda>h. us_reserve svc h candidate (cup_IdempotencyKey input))
                  (ReservedIntent candidate (cup_IdempotencyKey input))
                  (\<lambda>err. abandon (UploadReserveFailed err))
                  (\<lambda>intent.
                    if \<not> reservation_matches input intent then abandon ErrUploadReservationMismatch
                    else run_step (\<lambda>h. us_sign svc h intent) (SignedIntent intent)
                      (\<lambda>err. abandon (UploadSignFailed err))
                      (\<lambda>signed.
                        if \<not> upload_url_ok parse (su_URL signed) then abandon ErrUnsafeUploadURL
                        else if \<not> safeSignedHeaders (su_RequiredHeaders signed)
                        then abandon ErrUnsafeUploadRequest
                        else finish \<lparr>uir_Intent = intent,
                               uir_URL = (case parse (su_URL signed) of None \<Rightarrow> [] | Some u \<Rightarrow> url_String u),
                               uir_RequiredHeaders = su_RequiredHeaders signed\<rparr>))))"

text \<open>\<open>Verify\<close>, with what its caller does with the error or the verified upload.\<close>

definition verify_then ::
  "upload_services \<Rightarrow> verify_upload_input \<Rightarrow> (upload_error \<Rightarrow> (upload_event, 'e, 'a) durable)
   \<Rightarrow> (verified_upload \<Rightarrow> (upload_event, 'e, 'a) durable) \<Rightarrow> (upload_event, 'e, 'a) durable" where
  "verify_then svc input onError continue =
     (if \<not> us_verify_configured svc \<or> vui_OwnerUserID input = [] then onError ErrUploadNotVerified
      else run_step (\<lambda>h. us_load svc h (vui_OwnerUserID input) (vui_Kind input) (vui_Digest input))
        (LoadedIntent (vui_OwnerUserID input) (vui_Kind input) (vui_Digest input))
        (\<lambda>err. onError (UploadLoadFailed err))
        (\<lambda>snapshot.
          if ui_OwnerUserID snapshot \<noteq> vui_OwnerUserID input \<or> ui_Kind snapshot \<noteq> vui_Kind input
             \<or> ui_Digest snapshot \<noteq> vui_Digest input
          then onError ErrUploadNotVerified
          else run_step (\<lambda>h. us_inspect svc h (ui_ObjectKey snapshot)) (InspectedUpload (ui_ObjectKey snapshot))
            (\<lambda>err. onError (UploadInspectFailed err))
            (\<lambda>observed.
              if obs_ObjectKey observed \<noteq> ui_ObjectKey snapshot \<or> obs_Kind observed \<noteq> ui_Kind snapshot
                 \<or> obs_Digest observed \<noteq> ui_Digest snapshot \<or> obs_SizeBytes observed \<noteq> ui_SizeBytes snapshot
                 \<or> obs_VersionID observed = []
              then onError ErrUploadNotVerified
              else let finalKey = FinalizedUploadObjectKey (ui_OwnerUserID snapshot) (ui_Kind snapshot)
                                    (ui_Digest snapshot)
                in run_void (\<lambda>h. us_finalize svc h observed finalKey) (FinalizedUpload observed finalKey)
                  (\<lambda>err. onError (UploadFinalizeFailed err))
                  (continue \<lparr>vu_Intent = snapshot, vu_ObjectKey = finalKey\<rparr>))))"

definition UploadIntentService_Verify ::
  "upload_services \<Rightarrow> verify_upload_input \<Rightarrow> (upload_event, upload_error, verified_upload) durable" where
  "UploadIntentService_Verify svc input = verify_then svc input abandon finish"

section \<open>Registering a Project Seed\<close>

definition ProjectSeedTransportMaximumRequestBytes :: int64 where
  "ProjectSeedTransportMaximumRequestBytes = push_bit 30 1"

definition ProjectSeedTransportMaximumRawBytes :: int64 where
  "ProjectSeedTransportMaximumRawBytes = push_bit 20 700"

record register_seed_input =
  rsi_OwnerUserID :: string
  rsi_IdempotencyKey :: string
  rsi_RepositoryURL :: string
  rsi_BaseRevision :: string
  rsi_Digest :: string
  rsi_GitBundleDigest :: string
  rsi_TrackedPatchDigest :: string
  rsi_UntrackedBundleDigest :: string
  rsi_ManifestDigest :: string

definition seed_parts :: "register_seed_input \<Rightarrow> (upload_kind \<times> string) list" where
  "seed_parts input =
     [(UploadSeedManifest, rsi_ManifestDigest input), (UploadGitBundle, rsi_GitBundleDigest input),
      (UploadTrackedPatch, rsi_TrackedPatchDigest input),
      (UploadUntrackedBundle, rsi_UntrackedBundleDigest input)]"

fun verify_parts ::
  "upload_services \<Rightarrow> string \<Rightarrow> int64 \<Rightarrow> (upload_kind \<times> string) list
   \<Rightarrow> (upload_event, upload_error, 'a) durable \<Rightarrow> (upload_event, upload_error, 'a) durable" where
  "verify_parts svc ownerID aggregateSize [] continue = continue"
| "verify_parts svc ownerID aggregateSize ((kind, digest) # parts) continue =
     (if digest = [] then verify_parts svc ownerID aggregateSize parts continue
      else verify_then svc \<lparr>vui_OwnerUserID = ownerID, vui_Kind = kind, vui_Digest = digest\<rparr>
        (\<lambda>err. abandon (SeedPartUnverified kind err))
        (\<lambda>verified.
          let sizeBytes = ui_SizeBytes (vu_Intent verified)
          in if sint sizeBytes > sint (ProjectSeedTransportMaximumRawBytes - aggregateSize)
             then abandon ErrProjectSeedTransportLimit
             else verify_parts svc ownerID (aggregateSize + sizeBytes) parts continue))"

definition seed_candidate :: "upload_services \<Rightarrow> register_seed_input \<Rightarrow> upload_trace \<Rightarrow> project_seed_snapshot" where
  "seed_candidate svc input h =
     \<lparr>ps_ID = us_new_id svc h, ps_OwnerUserID = rsi_OwnerUserID input,
      ps_RepositoryURL = rsi_RepositoryURL input, ps_BaseRevision = rsi_BaseRevision input,
      ps_Digest = rsi_Digest input, ps_GitBundleDigest = rsi_GitBundleDigest input,
      ps_TrackedPatchDigest = rsi_TrackedPatchDigest input,
      ps_UntrackedBundleDigest = rsi_UntrackedBundleDigest input,
      ps_ManifestDigest = rsi_ManifestDigest input, ps_CreatedAt = us_now svc h\<rparr>"

definition RegisterProjectSeedService_RegisterProjectSeed ::
  "upload_services \<Rightarrow> url_parser \<Rightarrow> register_seed_input \<Rightarrow> (upload_event, upload_error, project_seed) durable" where
  "RegisterProjectSeedService_RegisterProjectSeed svc parse input =
     (if blank (rsi_IdempotencyKey input) then abandon (ErrInvalidProjectSeed None)
      else read_from (\<lambda>h. RegisterProjectSeed parse (seed_candidate svc input h)) (\<lambda>registered.
        case registered of
          Inl err \<Rightarrow> abandon (ErrInvalidProjectSeed (Some err))
        | Inr seed \<Rightarrow>
            if \<not> us_uploads_configured svc then abandon ErrUploadNotVerified
            else verify_parts svc (rsi_OwnerUserID input) 0 (seed_parts input)
              (run_step (\<lambda>h. us_register svc h seed (rsi_IdempotencyKey input))
                (RegisteredSeed seed (rsi_IdempotencyKey input))
                (\<lambda>err. abandon (SeedPersistFailed err)) finish)))"

section \<open>Well-formed intents\<close>

definition upload_intent_wf :: "upload_intent \<Rightarrow> bool" where
  "upload_intent_wf intent \<longleftrightarrow>
     \<not> blank (ui_ID intent) \<and> \<not> blank (ui_OwnerUserID intent) \<and> \<not> blank (ui_ObjectKey intent)
     \<and> upload_kind_valid (ui_Kind intent) \<and> contentDigestPattern (ui_Digest intent)
     \<and> 0 \<le> sint (ui_SizeBytes intent)
     \<and> \<not> is_zero (ui_CreatedAt intent) \<and> \<not> is_zero (ui_ExpiresAt intent)
     \<and> after (ui_ExpiresAt intent) (ui_CreatedAt intent)
     \<and> loc (ui_CreatedAt intent) = UTC \<and> loc (ui_ExpiresAt intent) = UTC"

lemma utc_fixed: "loc t = UTC \<Longrightarrow> utc t = t"
  by (cases t) (simp add: utc_def)

lemma loc_utc [simp]: "loc (utc t) = UTC"
  by (simp add: utc_def)

text \<open>
  The values of the type of upload intents are exactly the well-formed ones: reserving yields only
  intents with an owner, a key, a known kind, a SHA-256 content address, a size that is not negative and
  an expiry after the creation, both in UTC; and every such intent can be reserved.
\<close>

lemma upload_intent_type:
  "(\<exists>snapshot. ReserveUploadIntent snapshot = Inr intent) \<longleftrightarrow> upload_intent_wf intent"
proof
  assume "\<exists>snapshot. ReserveUploadIntent snapshot = Inr intent"
  then show "upload_intent_wf intent"
    by (auto simp: ReserveUploadIntent_def upload_intent_wf_def first_name_None_iff split: option.splits if_splits)
next
  assume "upload_intent_wf intent"
  then have "ReserveUploadIntent intent = Inr intent"
    by (simp add: ReserveUploadIntent_def upload_intent_wf_def utc_fixed)
  then show "\<exists>snapshot. ReserveUploadIntent snapshot = Inr intent" by blast
qed

section \<open>Verified uploads\<close>

text \<open>What the calls show of a verified upload.\<close>

definition verified_in ::
  "upload_services \<Rightarrow> verify_upload_input \<Rightarrow> verified_upload \<Rightarrow> upload_trace \<Rightarrow> bool" where
  "verified_in svc input v h \<longleftrightarrow>
     (\<exists>h0. us_load svc h0 (vui_OwnerUserID input) (vui_Kind input) (vui_Digest input) = Inr (vu_Intent v))
     \<and> ui_OwnerUserID (vu_Intent v) = vui_OwnerUserID input \<and> ui_Kind (vu_Intent v) = vui_Kind input
     \<and> ui_Digest (vu_Intent v) = vui_Digest input
     \<and> vu_ObjectKey v = FinalizedUploadObjectKey (vui_OwnerUserID input) (vui_Kind input) (vui_Digest input)
     \<and> (\<exists>observed. InspectedUpload (ui_ObjectKey (vu_Intent v)) (Inr observed) \<in> set h
          \<and> obs_ObjectKey observed = ui_ObjectKey (vu_Intent v) \<and> obs_Kind observed = vui_Kind input
          \<and> obs_Digest observed = vui_Digest input \<and> obs_SizeBytes observed = ui_SizeBytes (vu_Intent v)
          \<and> obs_VersionID observed \<noteq> []
          \<and> FinalizedUpload observed (vu_ObjectKey v) None \<in> set h)"

lemma verified_in_mono: "verified_in svc input v h \<Longrightarrow> set h \<subseteq> set h' \<Longrightarrow> verified_in svc input v h'"
  unfolding verified_in_def by blast

lemma verify_then_ends:
  assumes "\<And>err h'. set h \<subseteq> set h' \<Longrightarrow> ends (onError err) Q h'"
    and "\<And>v h'. set h \<subseteq> set h' \<Longrightarrow> verified_in svc input v h' \<Longrightarrow> ends (continue v) Q h'"
  shows "ends (verify_then svc input onError continue) Q h"
  unfolding verify_then_def Let_def
  by (intro durable_rules assms) (auto simp: verified_in_def)

text \<open>
  C10. A verified upload is the object the owner reserved: the stored intent has the requested owner, kind
  and digest; the object store showed, under the intent's key, an object of this kind, digest and size with
  a version; and exactly this observed version was finalized under the content-addressed key that is
  returned.
\<close>

theorem verified_upload_is_content:
  assumes "UploadIntentService_Verify svc input [] = (Inr v, h)"
  shows "verified_in svc input v h"
proof -
  have "ends (UploadIntentService_Verify svc input) (\<lambda>r h. \<forall>v. r = Inr v \<longrightarrow> verified_in svc input v h) []"
    unfolding UploadIntentService_Verify_def
    by (intro verify_then_ends durable_rules) auto
  from endsD [OF this assms] show ?thesis by simp
qed

section \<open>The transport limit of a seed\<close>

definition parts_verified ::
  "upload_services \<Rightarrow> string \<Rightarrow> (upload_kind \<times> string) list \<Rightarrow> verified_upload list \<Rightarrow> upload_trace \<Rightarrow> bool" where
  "parts_verified svc ownerID parts vs h \<longleftrightarrow>
     list_all2 (\<lambda>(kind, digest) v.
        verified_in svc \<lparr>vui_OwnerUserID = ownerID, vui_Kind = kind, vui_Digest = digest\<rparr> v h)
       (filter (\<lambda>(kind, digest). digest \<noteq> []) parts) vs"

lemma parts_verified_mono:
  "parts_verified svc ownerID parts vs h \<Longrightarrow> set h \<subseteq> set h' \<Longrightarrow> parts_verified svc ownerID parts vs h'"
  unfolding parts_verified_def by (erule list_all2_mono) (auto intro: verified_in_mono)

lemma parts_verified_snoc:
  "parts_verified svc ownerID parts vs h \<Longrightarrow> parts_verified svc ownerID parts vs (h @ [ev])"
  by (erule parts_verified_mono) auto

definition content_bytes :: "verified_upload list \<Rightarrow> int" where
  "content_bytes vs = (\<Sum>v \<leftarrow> vs. sint (ui_SizeBytes (vu_Intent v)))"

text \<open>The stores return reserved intents, whose sizes are not negative.\<close>

definition loads_intents :: "upload_services \<Rightarrow> bool" where
  "loads_intents svc \<longleftrightarrow>
     (\<forall>h owner kind digest intent. us_load svc h owner kind digest = Inr intent \<longrightarrow> upload_intent_wf intent)"

lemma raw_limit: "sint ProjectSeedTransportMaximumRawBytes = 734003200"
  by (simp add: ProjectSeedTransportMaximumRawBytes_def push_bit_eq_mult)

lemma request_limit: "sint ProjectSeedTransportMaximumRequestBytes = 1073741824"
  by (simp add: ProjectSeedTransportMaximumRequestBytes_def push_bit_eq_mult)

lemma remaining_exact64:
  assumes "0 \<le> sint (a :: int64)" "sint a \<le> 734003200"
  shows "sint (ProjectSeedTransportMaximumRawBytes - a) = 734003200 - sint a"
proof -
  have "sint (ProjectSeedTransportMaximumRawBytes - a)
      = signed_take_bit 63 (sint ProjectSeedTransportMaximumRawBytes - sint a)"
    by (simp add: sint_word_ariths)
  also have "\<dots> = 734003200 - sint a"
    unfolding raw_limit using assms by (intro signed_take_bit_int_eq_self) simp_all
  finally show ?thesis .
qed

lemma verify_parts_ends:
  assumes "loads_intents svc" and "\<And>err h'. Q (Inl err) h'"
    and "0 \<le> sint aggregate" "sint aggregate \<le> 734003200"
    and "\<And>vs h'. set h \<subseteq> set h' \<Longrightarrow> parts_verified svc ownerID parts vs h'
      \<Longrightarrow> sint aggregate + content_bytes vs \<le> 734003200 \<Longrightarrow> ends continue Q h'"
  shows "ends (verify_parts svc ownerID aggregate parts continue) Q h"
  using assms(3-5)
proof (induction parts arbitrary: aggregate h)
  case Nil
  show ?case using Nil.prems(3) [of h "[]"] Nil.prems(1,2) by (simp add: parts_verified_def content_bytes_def)
next
  case (Cons part parts)
  obtain kind digest where part: "part = (kind, digest)" by (cases part)
  show ?case
  proof (cases "digest = []")
    case True
    have "ends (verify_parts svc ownerID aggregate parts continue) Q h"
      by (rule Cons.IH [OF Cons.prems(1,2)]) (rule Cons.prems(3); simp add: parts_verified_def part True)
    then show ?thesis by (simp add: part True)
  next
    case False
    let ?input = "\<lparr>vui_OwnerUserID = ownerID, vui_Kind = kind, vui_Digest = digest\<rparr>"
    have step: "ends (verify_parts svc ownerID (aggregate + ui_SizeBytes (vu_Intent v)) parts continue) Q h'"
      if h': "set h \<subseteq> set h'" and v: "verified_in svc ?input v h'"
        and fits: "\<not> sint (ProjectSeedTransportMaximumRawBytes - aggregate) < sint (ui_SizeBytes (vu_Intent v))" for v h'
    proof -
      let ?size = "sint (ui_SizeBytes (vu_Intent v))"
      from v assms(1) have size: "0 \<le> ?size"
        by (auto simp: verified_in_def loads_intents_def upload_intent_wf_def)
      with fits Cons.prems(1,2) have sum: "sint (aggregate + ui_SizeBytes (vu_Intent v)) = sint aggregate + ?size"
        and le: "sint aggregate + ?size \<le> 734003200"
        by (simp_all add: remaining_exact64 sint_add_exact)
      show ?thesis
      proof (rule Cons.IH)
        fix vs h''
        assume later: "set h' \<subseteq> set h''" "parts_verified svc ownerID parts vs h''"
          and total: "sint (aggregate + ui_SizeBytes (vu_Intent v)) + content_bytes vs \<le> 734003200"
        have "parts_verified svc ownerID (part # parts) (v # vs) h''"
          using later verified_in_mono [OF v later(1)] False by (simp add: parts_verified_def part)
        moreover have "sint aggregate + content_bytes (v # vs) \<le> 734003200"
          using total by (simp add: sum content_bytes_def)
        ultimately show "ends continue Q h''"
          using Cons.prems(3) [of h'' "v # vs"] h' later(1) by blast
      qed (use sum le size Cons.prems(1) in simp_all)
    qed
    show ?thesis
      unfolding part verify_parts.simps Let_def if_not_P [OF False]
      by (intro verify_then_ends ends_if step ends_abandon assms(2)) auto
  qed
qed

text \<open>The length of the standard base64 encoding of \<open>n\<close> bytes, and of the contents, one by one.\<close>

definition base64_length :: "int \<Rightarrow> int" where
  "base64_length n = 4 * ((n + 2) div 3)"

definition encoded_bytes :: "verified_upload list \<Rightarrow> int" where
  "encoded_bytes vs = (\<Sum>v \<leftarrow> vs. base64_length (sint (ui_SizeBytes (vu_Intent v))))"

lemma encoded_bytes_le: "3 * encoded_bytes vs \<le> 4 * content_bytes vs + 8 * int (length vs)"
proof (induction vs)
  case Nil
  show ?case by (simp add: encoded_bytes_def content_bytes_def)
next
  case (Cons v vs)
  have "3 * base64_length (sint (ui_SizeBytes (vu_Intent v))) \<le> 4 * sint (ui_SizeBytes (vu_Intent v)) + 8"
    unfolding base64_length_def by linarith
  then show ?case using Cons.IH by (simp add: encoded_bytes_def content_bytes_def)
qed

lemma seed_parts_at_most_four:
  assumes "parts_verified svc ownerID (seed_parts input) vs h"
  shows "length vs \<le> 4"
proof -
  have "length vs = length (filter (\<lambda>(kind, digest). digest \<noteq> []) (seed_parts input))"
    using assms by (simp add: parts_verified_def list_all2_lengthD)
  also have "\<dots> \<le> length (seed_parts input)" by (rule length_filter_le)
  finally show ?thesis by (simp add: seed_parts_def)
qed

lemma encoded_fits:
  assumes "length vs \<le> 4" "content_bytes vs \<le> 734003200"
  shows "encoded_bytes vs + 94371840 < 1073741824"
  using encoded_bytes_le [of vs] assms by linarith

text \<open>
  C37. A registered Project Seed fits the guest transport: every part it names is a verified upload of its
  owner, their contents are together at most 700 MiB, without overflow of the running sum, and their base64
  encodings leave more than 90 MiB of the 1 GiB request for the rest of the message.
\<close>

theorem project_seed_within_transport:
  assumes "loads_intents svc"
    and "RegisterProjectSeedService_RegisterProjectSeed svc parse input [] = (Inr seed, h)"
  shows "\<exists>vs. parts_verified svc (rsi_OwnerUserID input) (seed_parts input) vs h
    \<and> content_bytes vs \<le> sint ProjectSeedTransportMaximumRawBytes
    \<and> encoded_bytes vs + 90 * 2 ^ 20 < sint ProjectSeedTransportMaximumRequestBytes"
proof -
  let ?fits = "\<lambda>vs h. parts_verified svc (rsi_OwnerUserID input) (seed_parts input) vs h
    \<and> content_bytes vs \<le> 734003200"
  have "ends (RegisterProjectSeedService_RegisterProjectSeed svc parse input)
      (\<lambda>r h. \<forall>seed. r = Inr seed \<longrightarrow> (\<exists>vs. ?fits vs h)) []"
    unfolding RegisterProjectSeedService_RegisterProjectSeed_def
    by (intro durable_rules verify_parts_ends [OF assms(1)]) (auto intro: parts_verified_snoc)
  from endsD [OF this assms(2)] obtain vs where "?fits vs h" by auto
  moreover from this have "encoded_bytes vs + 94371840 < 1073741824"
    by (intro encoded_fits) (auto dest: seed_parts_at_most_four)
  ultimately show ?thesis by (auto simp: raw_limit request_limit)
qed

section \<open>Concrete uploads\<close>

definition demo_upload_digest :: string where
  "demo_upload_digest = ''sha256:'' @ replicate 64 (CHR ''a'')"

definition demo_upload :: upload_intent where
  "demo_upload = \<lparr>ui_ID = ''upl'', ui_OwnerUserID = ''usr'', ui_Kind = UploadSeedManifest,
     ui_Digest = demo_upload_digest, ui_SizeBytes = 1024, ui_ObjectKey = ''uploads/seed_manifest/1'',
     ui_CreatedAt = \<lparr>wall = 1000000000, loc = UTC\<rparr>, ui_ExpiresAt = \<lparr>wall = 2000000000, loc = UTC\<rparr>\<rparr>"

definition demo_uploads :: upload_services where
  "demo_uploads = \<lparr>us_create_configured = True, us_verify_configured = True, us_uploads_configured = True,
     us_ttl = 1000000000, us_limits = (\<lambda>_. Some 4096), us_now = (\<lambda>_. \<lparr>wall = 1000000000, loc = UTC\<rparr>),
     us_new_id = (\<lambda>_. ''new''), us_reserve = (\<lambda>_ intent _. Inr intent),
     us_sign = (\<lambda>_ _. Inl ''no signer''),
     us_load = (\<lambda>_ _ _ _. Inr demo_upload),
     us_inspect = (\<lambda>_ key. Inr \<lparr>obs_ObjectKey = key, obs_Kind = UploadSeedManifest,
        obs_Digest = demo_upload_digest, obs_SizeBytes = 1024, obs_VersionID = ''v1''\<rparr>),
     us_finalize = (\<lambda>_ _ _. None), us_register = (\<lambda>_ seed _. Inr seed)\<rparr>"

definition demo_verify :: verify_upload_input where
  "demo_verify = \<lparr>vui_OwnerUserID = ''usr'', vui_Kind = UploadSeedManifest, vui_Digest = demo_upload_digest\<rparr>"

definition demo_seed_input :: register_seed_input where
  "demo_seed_input = \<lparr>rsi_OwnerUserID = ''usr'', rsi_IdempotencyKey = ''k'', rsi_RepositoryURL = ''r'',
     rsi_BaseRevision = ''main'', rsi_Digest = demo_upload_digest, rsi_GitBundleDigest = [],
     rsi_TrackedPatchDigest = [], rsi_UntrackedBundleDigest = [], rsi_ManifestDigest = demo_upload_digest\<rparr>"

definition demo_url :: url_parser where
  "demo_url url = Some \<lparr>url_Scheme = ''https'', url_Host = ''example.org'', url_User = False, url_RawQuery = [],
     url_Fragment = [], url_String = url\<rparr>"

lemmas demo_upload_simps = demo_uploads_def demo_upload_def demo_verify_def demo_seed_input_def demo_url_def

lemma demo_digest_ok: "contentDigestPattern demo_upload_digest" "demo_upload_digest \<noteq> []"
  by (simp_all add: demo_upload_digest_def contentDigestPattern_def list_all_iff is_lower_hex_def)

lemma demo_upload_wf: "loads_intents demo_uploads"
  using demo_digest_ok
  by (simp add: loads_intents_def upload_intent_wf_def demo_upload_simps upload_kind_valid_def upload_kinds
      go_time)

lemmas durable_eval = run_step_def run_void_def read_from_def finish_def abandon_def Let_def

theorem verified_upload_is_content_witness:
  "\<exists>v h. UploadIntentService_Verify demo_uploads demo_verify [] = (Inr v, h)
     \<and> verified_in demo_uploads demo_verify v h"
proof -
  have "\<exists>v h. UploadIntentService_Verify demo_uploads demo_verify [] = (Inr v, h)"
    by (simp add: UploadIntentService_Verify_def verify_then_def durable_eval demo_upload_simps)
  then show ?thesis using verified_upload_is_content by blast
qed

theorem project_seed_within_transport_witness:
  "\<exists>seed h vs. loads_intents demo_uploads
     \<and> RegisterProjectSeedService_RegisterProjectSeed demo_uploads demo_url demo_seed_input [] = (Inr seed, h)
     \<and> parts_verified demo_uploads ''usr'' (seed_parts demo_seed_input) vs h
     \<and> encoded_bytes vs + 90 * 2 ^ 20 < sint ProjectSeedTransportMaximumRequestBytes"
proof -
  have "\<exists>seed h. RegisterProjectSeedService_RegisterProjectSeed demo_uploads demo_url demo_seed_input []
      = (Inr seed, h)"
    using demo_digest_ok
    by (simp add: RegisterProjectSeedService_RegisterProjectSeed_def RegisterProjectSeed_def seed_candidate_def
        seed_parts_def repository_url_ok_def verify_then_def durable_eval demo_upload_simps go_time
        ProjectSeedTransportMaximumRawBytes_def push_bit_eq_mult)
  then obtain seed h where run:
    "RegisterProjectSeedService_RegisterProjectSeed demo_uploads demo_url demo_seed_input [] = (Inr seed, h)"
    by blast
  from project_seed_within_transport [OF demo_upload_wf run] run demo_upload_wf show ?thesis
    by (auto simp: demo_seed_input_def)
qed

end
