(* ===== verification/Drift_Adoption.thy ===== *)
theory Drift_Adoption
  imports Durable_Steps Capsule_Refs Materializations
begin

text \<open>
  Adopting drift: a user offers what they changed in a managed file back to the Capsule it came from.
  Proposals and their acceptance are in \<open>src/libs/profile/drift_adoption.go\<close>, the calls that hand them to
  the repository in \<open>src/apps/workflows/drift_adoption.go\<close>.
\<close>

section \<open>Data\<close>

record drift_adoption_proposal =
  dap_ComponentID :: string
  dap_OwningCapsuleRef :: string
  dap_ObservedDigest :: string
  dap_DiffSummary :: string
  dap_RequiresReview :: bool
  dap_ConsentRequired :: bool

record drift_adoption_consent =
  dac_Accepted :: bool
  dac_ExecutableReviewApproved :: bool

record accepted_drift_adoption =
  ada_Proposal :: drift_adoption_proposal
  ada_Accepted :: bool

datatype drift_error =
    DriftOwnerRequired
  | DriftNotManaged
  | DriftComponentRequired
  | DriftDigestInvalid
  | DriftNotObserved
  | DriftSummaryRequired
  | DriftComponentUnlocked string
  | DriftCapsuleDiffers
  | DriftCapsuleUnlisted string
  | DriftRefNotOwned capsule_ref_error
  | DriftRefForeign string
  | DriftProposalIncomplete
  | DriftConsentRequired
  | DriftRefDiffers
  | DriftReviewRequired
  | DriftActionsRequired
  | DriftNotSelfOwned
  | DriftStoreFailed string

section \<open>Proposing and accepting\<close>

text \<open>\<open>driftAdoptionDigestPattern\<close>: \<open>^sha256:[0-9a-f]{64}$\<close>, the class in another order.\<close>

definition driftAdoptionDigestPattern :: regexp where
  "driftAdoptionDigestPattern = Seq (literal ''sha256:'') (Between (Class (digits @ ''abcdef'')) 64 64)"

definition drift_validateOwnedCapsuleRef :: "string \<Rightarrow> string \<Rightarrow> drift_error option" where
  "drift_validateOwnedCapsuleRef ownerID ref =
     (case ParseOwnedCapsuleRef ref of
        Inl err \<Rightarrow> Some (DriftRefNotOwned err)
      | Inr parsed \<Rightarrow>
          if ocr_OwnerID parsed \<noteq> ownerID then Some (DriftRefForeign (ocr_OwnerID parsed)) else None)"

definition driftComponentRequiresReview :: "resolved_component \<Rightarrow> bool" where
  "driftComponentRequiresReview component \<longleftrightarrow>
     rc_TrustClass component = TrustExecutable \<or> rc_TrustClass component = TrustPermission
     \<or> rc_Type component = ComponentIntegration \<or> rc_Type component = ComponentPermissionPolicy
     \<or> rc_Type component = ComponentHook \<or> rc_Type component = ComponentExtension"

text \<open>The ref of the first locked Capsule with the digest, or the empty string.\<close>

fun owning_ref :: "string \<Rightarrow> locked_capsule list \<Rightarrow> string" where
  "owning_ref digest [] = []"
| "owning_ref digest (capsule # capsules) =
     (if lcap_Digest capsule = digest then lcap_Ref capsule else owning_ref digest capsules)"

definition ProposeDriftAdoption ::
  "capsule_lock_snapshot \<Rightarrow> string \<Rightarrow> installed_materialization \<Rightarrow> string \<Rightarrow> string
   \<Rightarrow> drift_error + drift_adoption_proposal" where
  "ProposeDriftAdoption lock ownerID installed observedDigest diffSummary =
     (if ownerID = [] then Inl DriftOwnerRequired
      else if im_Mode installed \<noteq> MaterializationManaged then Inl DriftNotManaged
      else if im_ComponentID installed = [] then Inl DriftComponentRequired
      else if \<not> matches driftAdoptionDigestPattern observedDigest then Inl DriftDigestInvalid
      else if im_LastAppliedDigest installed \<noteq> [] \<and> observedDigest = im_LastAppliedDigest installed
      then Inl DriftNotObserved
      else if diffSummary = [] then Inl DriftSummaryRequired
      else case map_of (lock_ResolvedComponents lock) (im_ComponentID installed) of
        None \<Rightarrow> Inl (DriftComponentUnlocked (im_ComponentID installed))
      | Some locked \<Rightarrow>
          if im_CapsuleDigest installed \<noteq> [] \<and> im_CapsuleDigest installed \<noteq> rc_CapsuleDigest locked
          then Inl DriftCapsuleDiffers
          else
            let owningRef = owning_ref (rc_CapsuleDigest locked) (lock_Capsules lock)
            in if owningRef = [] then Inl (DriftCapsuleUnlisted (rc_CapsuleDigest locked))
               else case drift_validateOwnedCapsuleRef ownerID owningRef of
                      Some err \<Rightarrow> Inl err
                    | None \<Rightarrow>
                        Inr \<lparr>dap_ComponentID = im_ComponentID installed, dap_OwningCapsuleRef = owningRef,
                             dap_ObservedDigest = observedDigest, dap_DiffSummary = diffSummary,
                             dap_RequiresReview = driftComponentRequiresReview locked,
                             dap_ConsentRequired = True\<rparr>)"

definition proposal_incomplete :: "drift_adoption_proposal \<Rightarrow> bool" where
  "proposal_incomplete proposal \<longleftrightarrow>
     dap_ComponentID proposal = [] \<or> dap_OwningCapsuleRef proposal = []
     \<or> dap_ObservedDigest proposal = [] \<or> dap_DiffSummary proposal = []"

definition AcceptDriftAdoption ::
  "capsule_lock_snapshot \<Rightarrow> string \<Rightarrow> drift_adoption_proposal \<Rightarrow> drift_adoption_consent
   \<Rightarrow> drift_error + accepted_drift_adoption" where
  "AcceptDriftAdoption lock ownerID proposal consent =
     (if ownerID = [] then Inl DriftOwnerRequired
      else if proposal_incomplete proposal then Inl DriftProposalIncomplete
      else if \<not> matches driftAdoptionDigestPattern (dap_ObservedDigest proposal) then Inl DriftDigestInvalid
      else if \<not> dac_Accepted consent then Inl DriftConsentRequired
      else case map_of (lock_ResolvedComponents lock) (dap_ComponentID proposal) of
        None \<Rightarrow> Inl (DriftComponentUnlocked (dap_ComponentID proposal))
      | Some locked \<Rightarrow>
          let owningRef = owning_ref (rc_CapsuleDigest locked) (lock_Capsules lock)
          in if owningRef = [] \<or> dap_OwningCapsuleRef proposal \<noteq> owningRef then Inl DriftRefDiffers
             else case drift_validateOwnedCapsuleRef ownerID (dap_OwningCapsuleRef proposal) of
                    Some err \<Rightarrow> Inl err
                  | None \<Rightarrow>
                      let requiresReview = driftComponentRequiresReview locked
                      in if requiresReview \<and> \<not> dac_ExecutableReviewApproved consent
                         then Inl DriftReviewRequired
                         else Inr \<lparr>ada_Proposal = proposal\<lparr>dap_RequiresReview := requiresReview,
                                                           dap_ConsentRequired := True\<rparr>,
                                   ada_Accepted = True\<rparr>)"

section \<open>Handing them to the repository\<close>

datatype drift_event =
    RecordedProposal drift_adoption_proposal "string option"
  | AcceptedAdoption accepted_drift_adoption "string option"

type_synonym drift_trace = "drift_event list"

record drift_actions =
  da_record :: "drift_trace \<Rightarrow> drift_adoption_proposal \<Rightarrow> string option"
  da_accept :: "drift_trace \<Rightarrow> accepted_drift_adoption \<Rightarrow> string option"

definition SubmitDriftAdoptionProposal ::
  "string \<Rightarrow> drift_adoption_proposal \<Rightarrow> drift_actions option \<Rightarrow> (drift_event, drift_error, unit) durable" where
  "SubmitDriftAdoptionProposal ownerID proposal actions =
     (case actions of
        None \<Rightarrow> abandon DriftActionsRequired
      | Some acts \<Rightarrow>
          if ownerID = [] then abandon DriftOwnerRequired
          else if proposal_incomplete proposal then abandon DriftProposalIncomplete
          else (case ParseOwnedCapsuleRef (dap_OwningCapsuleRef proposal) of
                  Inl err \<Rightarrow> abandon DriftNotSelfOwned
                | Inr parsed \<Rightarrow>
                    if ocr_OwnerID parsed \<noteq> ownerID then abandon DriftNotSelfOwned
                    else run_void (\<lambda>h. da_record acts h proposal) (RecordedProposal proposal)
                           (\<lambda>err. abandon (DriftStoreFailed err)) (finish ())))"

definition ConsumeDriftAdoption ::
  "string \<Rightarrow> capsule_lock_snapshot \<Rightarrow> drift_adoption_proposal \<Rightarrow> drift_adoption_consent \<Rightarrow> drift_actions option
   \<Rightarrow> (drift_event, drift_error, unit) durable" where
  "ConsumeDriftAdoption ownerID lock proposal consent actions =
     (case actions of
        None \<Rightarrow> abandon DriftActionsRequired
      | Some acts \<Rightarrow>
          (case AcceptDriftAdoption lock ownerID proposal consent of
             Inl err \<Rightarrow> abandon err
           | Inr accepted \<Rightarrow>
               run_void (\<lambda>h. da_accept acts h accepted) (AcceptedAdoption accepted)
                 (\<lambda>err. abandon (DriftStoreFailed err)) (finish ())))"

section \<open>Consent\<close>

lemma drift_digest_pattern: "matches driftAdoptionDigestPattern s \<longleftrightarrow> contentDigestPattern s"
proof -
  have "set (digits @ ''abcdef'') = set (''abcdef'' @ digits)" by auto
  then have "lang (Class (digits @ ''abcdef'')) = lang (Class (''abcdef'' @ digits))" by simp
  then have "lang driftAdoptionDigestPattern = lang owned_digest"
    unfolding driftAdoptionDigestPattern_def owned_digest_def by (simp del: lang.simps(3))
  then show ?thesis by (simp add: matches_iff_lang lang_owned_digest)
qed

definition self_owned :: "string \<Rightarrow> string \<Rightarrow> bool" where
  "self_owned ownerID ref \<longleftrightarrow> (\<exists>p. ParseOwnedCapsuleRef ref = Inr p \<and> ocr_OwnerID p = ownerID)"

lemma drift_owned_iff: "drift_validateOwnedCapsuleRef ownerID ref = None \<longleftrightarrow> self_owned ownerID ref"
  by (auto simp: drift_validateOwnedCapsuleRef_def self_owned_def split: sum.splits)

text \<open>What an accepted adoption rests on.\<close>

definition adoption_justified ::
  "string \<Rightarrow> capsule_lock_snapshot \<Rightarrow> drift_adoption_proposal \<Rightarrow> drift_adoption_consent
   \<Rightarrow> accepted_drift_adoption \<Rightarrow> bool" where
  "adoption_justified ownerID lock proposal consent accepted \<longleftrightarrow>
     dac_Accepted consent \<and> contentDigestPattern (dap_ObservedDigest proposal)
     \<and> self_owned ownerID (dap_OwningCapsuleRef proposal)
     \<and> (\<exists>locked. map_of (lock_ResolvedComponents lock) (dap_ComponentID proposal) = Some locked
          \<and> \<lparr>lcap_Ref = dap_OwningCapsuleRef proposal, lcap_Digest = rc_CapsuleDigest locked\<rparr> \<in> set (lock_Capsules lock)
          \<and> (driftComponentRequiresReview locked \<longrightarrow> dac_ExecutableReviewApproved consent)
          \<and> ada_Proposal accepted = proposal\<lparr>dap_RequiresReview := driftComponentRequiresReview locked,
                                             dap_ConsentRequired := True\<rparr>)
     \<and> ada_Accepted accepted"

lemma owning_ref_listed:
  "owning_ref digest capsules \<noteq> [] \<Longrightarrow>
     \<lparr>lcap_Ref = owning_ref digest capsules, lcap_Digest = digest\<rparr> \<in> set capsules"
  by (induction capsules) (auto split: if_splits)

lemma accepted_justified:
  assumes "AcceptDriftAdoption lock ownerID proposal consent = Inr accepted"
  shows "adoption_justified ownerID lock proposal consent accepted"
  using assms
  by (auto simp: AcceptDriftAdoption_def adoption_justified_def Let_def drift_digest_pattern drift_owned_iff
      owning_ref_listed split: if_splits option.splits)

text \<open>What a proposal the code made says of the lock.\<close>

lemma proposal_made:
  assumes "ProposeDriftAdoption lock ownerID installed observedDigest diffSummary = Inr proposal"
  obtains locked where "ownerID \<noteq> []" "\<not> proposal_incomplete proposal"
    "contentDigestPattern (dap_ObservedDigest proposal)"
    "map_of (lock_ResolvedComponents lock) (dap_ComponentID proposal) = Some locked"
    "owning_ref (rc_CapsuleDigest locked) (lock_Capsules lock) = dap_OwningCapsuleRef proposal"
    "dap_OwningCapsuleRef proposal \<noteq> []" "self_owned ownerID (dap_OwningCapsuleRef proposal)"
    "dap_RequiresReview proposal = driftComponentRequiresReview locked" "dap_ConsentRequired proposal"
proof -
  from assms obtain locked where
      locked: "map_of (lock_ResolvedComponents lock) (im_ComponentID installed) = Some locked"
    by (auto simp: ProposeDriftAdoption_def split: if_splits option.splits)
  let ?ref = "owning_ref (rc_CapsuleDigest locked) (lock_Capsules lock)"
  from assms locked have made: "ownerID \<noteq> []" "im_ComponentID installed \<noteq> []" "contentDigestPattern observedDigest"
      "diffSummary \<noteq> []" "?ref \<noteq> []" "self_owned ownerID ?ref"
      "proposal = \<lparr>dap_ComponentID = im_ComponentID installed, dap_OwningCapsuleRef = ?ref,
         dap_ObservedDigest = observedDigest, dap_DiffSummary = diffSummary,
         dap_RequiresReview = driftComponentRequiresReview locked, dap_ConsentRequired = True\<rparr>"
    by (auto simp: ProposeDriftAdoption_def Let_def drift_digest_pattern drift_owned_iff
        split: if_splits option.splits)
  show thesis
    by (rule that [of locked])
      (use made locked contentDigestPattern_nonempty [OF made(3)] in \<open>simp_all add: proposal_incomplete_def\<close>)
qed

lemma made_proposal_accepted:
  assumes "ProposeDriftAdoption lock ownerID installed observedDigest diffSummary = Inr proposal"
  shows "AcceptDriftAdoption lock ownerID proposal consent =
    (if \<not> dac_Accepted consent then Inl DriftConsentRequired
     else if dap_RequiresReview proposal \<and> \<not> dac_ExecutableReviewApproved consent then Inl DriftReviewRequired
     else Inr \<lparr>ada_Proposal = proposal, ada_Accepted = True\<rparr>)"
proof -
  from assms obtain locked where facts: "ownerID \<noteq> []" "\<not> proposal_incomplete proposal"
    "contentDigestPattern (dap_ObservedDigest proposal)"
    "map_of (lock_ResolvedComponents lock) (dap_ComponentID proposal) = Some locked"
    "owning_ref (rc_CapsuleDigest locked) (lock_Capsules lock) = dap_OwningCapsuleRef proposal"
    "dap_OwningCapsuleRef proposal \<noteq> []" "self_owned ownerID (dap_OwningCapsuleRef proposal)"
    "dap_RequiresReview proposal = driftComponentRequiresReview locked" "dap_ConsentRequired proposal"
    by (rule proposal_made)
  have "proposal\<lparr>dap_RequiresReview := driftComponentRequiresReview locked, dap_ConsentRequired := True\<rparr> = proposal"
    using facts(8,9) by (cases proposal) simp
  with facts show ?thesis
    by (simp add: AcceptDriftAdoption_def Let_def drift_digest_pattern drift_owned_iff [THEN iffD2])
qed

text \<open>
  C25. Drift is handed to the repository for adoption only with explicit consent: the Component is locked,
  the proposal names the locked Capsule it came from, that Capsule is the owner's own, the observed digest
  is well formed, and a Component that runs, permits or integrates was reviewed.  A proposal the code made
  itself from a drifted Component is accepted under exactly these two consents, unchanged.
\<close>

theorem drift_adoption_needs_consent:
  "(\<forall>r h accepted ans. ConsumeDriftAdoption ownerID lock proposal consent actions [] = (r, h) \<longrightarrow>
      AcceptedAdoption accepted ans \<in> set h \<longrightarrow> adoption_justified ownerID lock proposal consent accepted)
   \<and> (ProposeDriftAdoption lock ownerID installed observedDigest diffSummary = Inr proposal \<longrightarrow>
      (\<forall>accepted. AcceptDriftAdoption lock ownerID proposal consent = Inr accepted \<longleftrightarrow>
        dac_Accepted consent \<and> (dap_RequiresReview proposal \<longrightarrow> dac_ExecutableReviewApproved consent)
        \<and> accepted = \<lparr>ada_Proposal = proposal, ada_Accepted = True\<rparr>))"
proof (intro conjI allI impI)
  fix r h accepted ans
  assume run: "ConsumeDriftAdoption ownerID lock proposal consent actions [] = (r, h)"
    and event: "AcceptedAdoption accepted ans \<in> set h"
  have "ends (ConsumeDriftAdoption ownerID lock proposal consent actions)
      (\<lambda>r h. \<forall>accepted ans. AcceptedAdoption accepted ans \<in> set h
        \<longrightarrow> adoption_justified ownerID lock proposal consent accepted) []"
    unfolding ConsumeDriftAdoption_def by (intro durable_rules) (auto dest: accepted_justified)
  from endsD [OF this run] event show "adoption_justified ownerID lock proposal consent accepted" by blast
next
  fix accepted
  assume proposed: "ProposeDriftAdoption lock ownerID installed observedDigest diffSummary = Inr proposal"
  then show "AcceptDriftAdoption lock ownerID proposal consent = Inr accepted \<longleftrightarrow>
        dac_Accepted consent \<and> (dap_RequiresReview proposal \<longrightarrow> dac_ExecutableReviewApproved consent)
        \<and> accepted = \<lparr>ada_Proposal = proposal, ada_Accepted = True\<rparr>"
    by (auto simp: made_proposal_accepted)
qed

section \<open>Examples\<close>

definition drift_lock :: capsule_lock_snapshot where
  "drift_lock = (sample_lock_snapshot None)\<lparr>lock_Capsules :=
     [\<lparr>lcap_Ref = FormatOwnedCapsuleRef ''u'' sample_digest, lcap_Digest = sample_digest\<rparr>]\<rparr>"

definition drift_installed :: installed_materialization where
  "drift_installed = installed_from sample_result"

definition drift_proposal :: drift_adoption_proposal where
  "drift_proposal =
     \<lparr>dap_ComponentID = ''skill:a'', dap_OwningCapsuleRef = FormatOwnedCapsuleRef ''u'' sample_digest,
      dap_ObservedDigest = sample_digest, dap_DiffSummary = ''one line'', dap_RequiresReview = False,
      dap_ConsentRequired = True\<rparr>"

lemma drift_segments: "ref_segment ''u''"
  by (simp add: ref_segment_def segment_char_def alnum_def upper_def lower_def digits_def)

lemma drift_ref_owned: "self_owned ''u'' (FormatOwnedCapsuleRef ''u'' sample_digest)"
proof -
  have "ref_segment ''capsule''"
    by (simp add: ref_segment_def segment_char_def alnum_def upper_def lower_def digits_def)
  then have "ParseOwnedCapsuleRef (FormatOwnedCapsuleRef ''u'' sample_digest)
      = Inr \<lparr>ocr_OwnerID = ''u'', ocr_Name = ''capsule'', ocr_Digest = sample_digest, ocr_Tag = []\<rparr>"
    unfolding parse_owned_parts
    by (simp add: valid_owned_ref_def print_owned_ref_def FormatOwnedCapsuleRef_def drift_segments)
  then show ?thesis by (auto simp: self_owned_def)
qed

lemma drift_ref_nonempty: "FormatOwnedCapsuleRef owner digest \<noteq> []"
  by (simp add: FormatOwnedCapsuleRef_def)

lemma sample_digest_not_applied: "sample_digest \<noteq> ''d''"
  by (simp add: sample_digest_def)

lemma drift_proposed:
  "ProposeDriftAdoption drift_lock ''u'' drift_installed sample_digest ''one line'' = Inr drift_proposal"
  using drift_ref_owned drift_ref_nonempty sample_digest_pattern sample_digest_not_applied
  by (simp add: ProposeDriftAdoption_def drift_lock_def drift_installed_def sample_result_def sample_lock_snapshot_def
      sample_resolved_def installed_from_def drift_proposal_def drift_digest_pattern Let_def
      driftComponentRequiresReview_def flip: drift_owned_iff)

theorem drift_adoption_needs_consent_witness:
  "AcceptDriftAdoption drift_lock ''u'' drift_proposal \<lparr>dac_Accepted = True, dac_ExecutableReviewApproved = False\<rparr>
     = Inr \<lparr>ada_Proposal = drift_proposal, ada_Accepted = True\<rparr>"
proof -
  have "dap_RequiresReview drift_proposal = False" by (simp add: drift_proposal_def)
  with conjunct2 [OF drift_adoption_needs_consent, THEN mp, OF drift_proposed, THEN spec,
      of "\<lparr>dac_Accepted = True, dac_ExecutableReviewApproved = False\<rparr>" "\<lparr>ada_Proposal = drift_proposal, ada_Accepted = True\<rparr>"]
  show ?thesis by simp
qed

end
