(* ===== verification/Runtime_Commands.thy ===== *)
theory Runtime_Commands
  imports Durable_Steps Runtime_Operations Workflow_Engine
begin

text \<open>
  How a user's command becomes a dispatched Operation: the services of
  \<open>src/libs/application/runtime_commands.go\<close> (start, stop, replace, apply a Profile) and the dispatchers of
  \<open>src/libs/application/workflow_dispatcher.go\<close> they call.  A service maps the calls made so far to its
  result and the calls it leaves; the repository, the credit balance, the outbox and the sender are
  arguments.
\<close>

section \<open>Data\<close>

record runtime_command_input =
  rci_OwnerUserID :: string
  rci_EnvironmentID :: string
  rci_IdempotencyKey :: string

record profile_apply_command_input =
  pac_OwnerUserID :: string
  pac_EnvironmentID :: string
  pac_ProfileVersionID :: string
  pac_ApprovedReviewItems :: "string list"
  pac_IdempotencyKey :: string

type_synonym runtime_command = environment_runtime_operation

datatype command_event =
    ReplayedOperation operation "string + runtime_command option"
  | ReadCreditBalance string "string + string \<times> int64"
  | ReservedOperation operation "string + runtime_command"
  | ReadPending string "string + runtime_operation_dispatch option"
  | ReadPendingBatch int64 "string + runtime_operation_dispatch list"
  | SentOperation runtime_operation_dispatch "string option"
  | DeferredDispatch string gotime "string option"
  | ReadPendingCreate string "string + environment_create_dispatch option"
  | ReadPendingCreates int64 "string + environment_create_dispatch list"
  | SentCreate environment_create_dispatch "string option"

type_synonym command_trace = "command_event list"

record command_services =
  cs_configured :: bool
  cs_credits_configured :: bool
  cs_now :: "command_trace \<Rightarrow> gotime"
  cs_new_id :: "command_trace \<Rightarrow> string"
  cs_replay :: "command_trace \<Rightarrow> operation \<Rightarrow> string + runtime_command option"
  cs_balance :: "command_trace \<Rightarrow> string \<Rightarrow> string + string \<times> int64"
  cs_reserve :: "command_trace \<Rightarrow> operation \<Rightarrow> string + runtime_command"
  cs_pending :: "command_trace \<Rightarrow> string \<Rightarrow> string + runtime_operation_dispatch option"
  cs_pending_batch :: "command_trace \<Rightarrow> int64 \<Rightarrow> string + runtime_operation_dispatch list"
  cs_send :: "command_trace \<Rightarrow> runtime_operation_dispatch \<Rightarrow> string option"
  cs_defer :: "command_trace \<Rightarrow> string \<Rightarrow> gotime \<Rightarrow> string option"
  cs_pending_create :: "command_trace \<Rightarrow> string \<Rightarrow> string + environment_create_dispatch option"
  cs_pending_creates :: "command_trace \<Rightarrow> int64 \<Rightarrow> string + environment_create_dispatch list"
  cs_send_create :: "command_trace \<Rightarrow> environment_create_dispatch \<Rightarrow> string option"

text \<open>The failure of one dispatch: the sender's error, joined with the outbox's when deferring fails too.\<close>

datatype dispatch_failure = DispatchFailure string string "string option"

datatype command_error =
    ErrInvalidRuntimeCommand
  | ErrCreditsPolicyBlocked
  | CommandNotQueued operation_error
  | CommandMarshalFailed
  | CommandReplayFailed string
  | CommandBalanceFailed string
  | CommandBalanceForeign
  | CommandReserveFailed string
  | DispatchOutboxFailed string
  | DispatchFailed dispatch_failure
  | DispatchFailures "dispatch_failure list"
  | DispatchCreateFailed string string

section \<open>Dispatching\<close>

text \<open>\<open>deferRuntimeOperation\<close>, with what the caller does with the joined error.\<close>

definition deferRuntimeOperation ::
  "command_services \<Rightarrow> string \<Rightarrow> string \<Rightarrow> (dispatch_failure \<Rightarrow> (command_event, 'e, 'a) durable)
   \<Rightarrow> (command_event, 'e, 'a) durable" where
  "deferRuntimeOperation svc operationID failure continue =
     read_from (cs_now svc) (\<lambda>now.
       run_void (\<lambda>h. cs_defer svc h operationID (utc now)) (DeferredDispatch operationID (utc now))
         (\<lambda>err. continue (DispatchFailure operationID failure (Some err)))
         (continue (DispatchFailure operationID failure None)))"

definition dispatch_then ::
  "command_services \<Rightarrow> string \<Rightarrow> (command_error \<Rightarrow> (command_event, 'e, 'a) durable)
   \<Rightarrow> (command_event, 'e, 'a) durable \<Rightarrow> (command_event, 'e, 'a) durable" where
  "dispatch_then svc operationID onError continue =
     run_step (\<lambda>h. cs_pending svc h operationID) (ReadPending operationID)
       (\<lambda>err. onError (DispatchOutboxFailed err))
       (\<lambda>pending. case pending of
          None \<Rightarrow> continue
        | Some input \<Rightarrow>
            run_void (\<lambda>h. cs_send svc h input) (SentOperation input)
              (\<lambda>err. deferRuntimeOperation svc (rod_OperationID input) err (\<lambda>f. onError (DispatchFailed f)))
              continue)"

definition DispatchRuntimeOperation ::
  "command_services \<Rightarrow> string \<Rightarrow> (command_event, command_error, unit) durable" where
  "DispatchRuntimeOperation svc operationID = dispatch_then svc operationID abandon (finish ())"

fun dispatch_all ::
  "command_services \<Rightarrow> dispatch_failure list \<Rightarrow> runtime_operation_dispatch list
   \<Rightarrow> (command_event, command_error, unit) durable" where
  "dispatch_all svc failures [] = (if failures = [] then finish () else abandon (DispatchFailures failures))"
| "dispatch_all svc failures (input # inputs) =
     run_void (\<lambda>h. cs_send svc h input) (SentOperation input)
       (\<lambda>err. deferRuntimeOperation svc (rod_OperationID input) err
          (\<lambda>f. dispatch_all svc (failures @ [f]) inputs))
       (dispatch_all svc failures inputs)"

definition DispatchPendingRuntimeOperations ::
  "command_services \<Rightarrow> int64 \<Rightarrow> (command_event, command_error, unit) durable" where
  "DispatchPendingRuntimeOperations svc limit =
     run_step (\<lambda>h. cs_pending_batch svc h limit) (ReadPendingBatch limit)
       (\<lambda>err. abandon (DispatchOutboxFailed err)) (dispatch_all svc [])"

definition DispatchEnvironmentCreate ::
  "command_services \<Rightarrow> string \<Rightarrow> (command_event, command_error, unit) durable" where
  "DispatchEnvironmentCreate svc operationID =
     run_step (\<lambda>h. cs_pending_create svc h operationID) (ReadPendingCreate operationID)
       (\<lambda>err. abandon (DispatchOutboxFailed err))
       (\<lambda>pending. case pending of
          None \<Rightarrow> finish ()
        | Some input \<Rightarrow>
            run_void (\<lambda>h. cs_send_create svc h input) (SentCreate input)
              (\<lambda>err. abandon (DispatchCreateFailed (ecd_OperationID input) err)) (finish ()))"

fun dispatch_creates ::
  "command_services \<Rightarrow> environment_create_dispatch list \<Rightarrow> (command_event, command_error, unit) durable" where
  "dispatch_creates svc [] = finish ()"
| "dispatch_creates svc (input # inputs) =
     run_void (\<lambda>h. cs_send_create svc h input) (SentCreate input)
       (\<lambda>err. abandon (DispatchCreateFailed (ecd_OperationID input) err))
       (dispatch_creates svc inputs)"

definition DispatchPendingEnvironmentCreates ::
  "command_services \<Rightarrow> int64 \<Rightarrow> (command_event, command_error, unit) durable" where
  "DispatchPendingEnvironmentCreates svc limit =
     run_step (\<lambda>h. cs_pending_creates svc h limit) (ReadPendingCreates limit)
       (\<lambda>err. abandon (DispatchOutboxFailed err)) (dispatch_creates svc)"

section \<open>The recovery loop\<close>

text \<open>
  \<open>WorkflowRecovery.Run\<close>: one round, then the \<open>select\<close> between the end of the context and the next tick.
  The answers of the \<open>select\<close> are an argument, one for each round; the result is the trace after the loop
  returned, with the reported errors, or \<open>None\<close> when the answers end before the context does.
\<close>

datatype recovery_wait = ContextDone | Ticked

record workflow_recovery =
  wr_dispatchPending :: "(int64 \<Rightarrow> (command_event, command_error, unit) durable) option"
  wr_interval :: int64
  wr_batchSize :: int64
  wr_reports :: bool

fun recovery_loop ::
  "(command_event, command_error, unit) durable \<Rightarrow> bool \<Rightarrow> recovery_wait list \<Rightarrow> command_trace
   \<Rightarrow> command_error list \<Rightarrow> (command_trace \<times> command_error list) option" where
  "recovery_loop dispatch reporting [] h reported = None"
| "recovery_loop dispatch reporting (answer # answers) h reported =
     (let (r, h') = dispatch h;
          reported' = (case r of Inl err \<Rightarrow> if reporting then reported @ [err] else reported | Inr _ \<Rightarrow> reported)
      in case answer of
           ContextDone \<Rightarrow> Some (h', reported')
         | Ticked \<Rightarrow> recovery_loop dispatch reporting answers h' reported')"

definition WorkflowRecovery_Run ::
  "workflow_recovery \<Rightarrow> recovery_wait list \<Rightarrow> command_trace
   \<Rightarrow> (string + command_trace \<times> command_error list) option" where
  "WorkflowRecovery_Run recovery answers h =
     (case wr_dispatchPending recovery of
        None \<Rightarrow> Some (Inl ''run workflow recovery: interval and batch size must be positive'')
      | Some dispatch \<Rightarrow>
          if sint (wr_interval recovery) \<le> 0 \<or> sint (wr_batchSize recovery) < 1
          then Some (Inl ''run workflow recovery: interval and batch size must be positive'')
          else map_option Inr (recovery_loop (dispatch (wr_batchSize recovery)) (wr_reports recovery) answers h []))"

section \<open>Commands\<close>

definition canonicalIdentity :: "string \<Rightarrow> bool" where
  "canonicalIdentity val \<longleftrightarrow> val \<noteq> [] \<and> \<not> untrimmed val"

definition command_valid :: "command_services \<Rightarrow> runtime_command_input \<Rightarrow> bool" where
  "command_valid svc input \<longleftrightarrow>
     cs_configured svc \<and> canonicalIdentity (rci_OwnerUserID input)
     \<and> canonicalIdentity (rci_EnvironmentID input) \<and> canonicalIdentity (rci_IdempotencyKey input)"

definition prepareRuntimeOperation ::
  "command_services \<Rightarrow> runtime_command_input \<Rightarrow> operation_type \<Rightarrow> bytes \<Rightarrow> command_trace
   \<Rightarrow> operation_error + operation" where
  "prepareRuntimeOperation svc input operationType canonicalInput h =
     QueueOperation \<lparr>req_ID = cs_new_id svc h, req_EnvironmentID = rci_EnvironmentID input,
       req_Type = operationType, req_RequestedByUserID = rci_OwnerUserID input,
       req_IdempotencyKey = rci_IdempotencyKey input, req_Input = canonicalInput,
       req_CreatedAt = cs_now svc h\<rparr>"

definition dispatchRuntimeOperation ::
  "command_services \<Rightarrow> runtime_command \<Rightarrow> (command_event, command_error, runtime_command) durable" where
  "dispatchRuntimeOperation svc command =
     dispatch_then svc (op_ID (cmd_operation command)) abandon (finish command)"

definition reserveRuntimeOperation ::
  "command_services \<Rightarrow> operation \<Rightarrow> (command_event, command_error, runtime_command) durable" where
  "reserveRuntimeOperation svc operation =
     run_step (\<lambda>h. cs_reserve svc h operation) (ReservedOperation operation)
       (\<lambda>err. abandon (CommandReserveFailed err)) (dispatchRuntimeOperation svc)"

definition commandRuntime ::
  "command_services \<Rightarrow> runtime_command_input \<Rightarrow> operation_type \<Rightarrow> bytes
   \<Rightarrow> (command_event, command_error, runtime_command) durable" where
  "commandRuntime svc input operationType canonicalInput =
     (if \<not> command_valid svc input then abandon ErrInvalidRuntimeCommand
      else read_from (prepareRuntimeOperation svc input operationType canonicalInput) (\<lambda>prepared.
        case prepared of
          Inl err \<Rightarrow> abandon (CommandNotQueued err)
        | Inr operation \<Rightarrow> reserveRuntimeOperation svc operation))"

definition StartRuntime_command ::
  "command_services \<Rightarrow> runtime_command_input \<Rightarrow> (command_event, command_error, runtime_command) durable" where
  "StartRuntime_command svc input =
     (if \<not> command_valid svc input \<or> \<not> cs_credits_configured svc then abandon ErrInvalidRuntimeCommand
      else read_from (prepareRuntimeOperation svc input OperationRuntimeStart ''{}'') (\<lambda>prepared.
        case prepared of
          Inl err \<Rightarrow> abandon (CommandNotQueued err)
        | Inr operation \<Rightarrow>
            run_step (\<lambda>h. cs_replay svc h operation) (ReplayedOperation operation)
              (\<lambda>err. abandon (CommandReplayFailed err))
              (\<lambda>replayed. case replayed of
                 Some command \<Rightarrow> dispatchRuntimeOperation svc command
               | None \<Rightarrow>
                   run_step (\<lambda>h. cs_balance svc h (rci_OwnerUserID input))
                     (ReadCreditBalance (rci_OwnerUserID input))
                     (\<lambda>err. abandon (CommandBalanceFailed err))
                     (\<lambda>balance.
                       if fst balance \<noteq> rci_OwnerUserID input then abandon CommandBalanceForeign
                       else if sint (snd balance) \<le> 0 then abandon ErrCreditsPolicyBlocked
                       else reserveRuntimeOperation svc operation))))"

text \<open>
  The operation inputs as JSON.  The text of an audit evidence, with its times and counters, is the
  encoder's and an argument; \<open>None\<close> is an error of it.
\<close>

fun runtime_stop_reason_text :: "runtime_stop_reason \<Rightarrow> string" where
  "runtime_stop_reason_text RuntimeStopManual = ''manual''"
| "runtime_stop_reason_text RuntimeStopAutoStop = ''auto_stop''"
| "runtime_stop_reason_text RuntimeStopBilling = ''billing''"
| "runtime_stop_reason_text RuntimeStopRepair = ''repair''"
| "runtime_stop_reason_text RuntimeStopResize = ''resize''"
| "runtime_stop_reason_text (RuntimeStopOther s) = s"

definition stop_input_json ::
  "(runtime_stop_audit_evidence \<Rightarrow> bytes option) \<Rightarrow> runtime_stop_reason \<Rightarrow> runtime_stop_audit_evidence option
   \<Rightarrow> bytes option" where
  "stop_input_json encode reason audit =
     (case audit of
        None \<Rightarrow> Some (json_object [(''reason'', json_string (runtime_stop_reason_text reason))])
      | Some evidence \<Rightarrow>
          map_option (\<lambda>text. json_object [(''reason'', json_string (runtime_stop_reason_text reason)), (''audit'', text)])
            (encode evidence))"

definition StopRuntimeWithReason ::
  "command_services \<Rightarrow> (runtime_stop_audit_evidence \<Rightarrow> bytes option) \<Rightarrow> runtime_command_input
   \<Rightarrow> runtime_stop_reason \<Rightarrow> runtime_stop_audit_evidence option
   \<Rightarrow> (command_event, command_error, runtime_command) durable" where
  "StopRuntimeWithReason svc encode input reason audit =
     (if \<not> runtime_stop_reason_Valid reason \<or> reason = RuntimeStopAutoStop \<and> audit = None
         \<or> reason \<noteq> RuntimeStopAutoStop \<and> audit \<noteq> None
      then abandon ErrInvalidRuntimeCommand
      else case stop_input_json encode reason audit of
             None \<Rightarrow> abandon CommandMarshalFailed
           | Some canonicalInput \<Rightarrow> commandRuntime svc input OperationRuntimeStop canonicalInput)"

definition StopRuntime_command ::
  "command_services \<Rightarrow> (runtime_stop_audit_evidence \<Rightarrow> bytes option) \<Rightarrow> runtime_command_input
   \<Rightarrow> (command_event, command_error, runtime_command) durable" where
  "StopRuntime_command svc encode input = StopRuntimeWithReason svc encode input RuntimeStopManual None"

definition ReplaceRuntime_command ::
  "command_services \<Rightarrow> runtime_command_input \<Rightarrow> (command_event, command_error, runtime_command) durable" where
  "ReplaceRuntime_command svc input = commandRuntime svc input OperationRuntimeReplace ''{}''"

fun review_items_ok :: "string set \<Rightarrow> string list \<Rightarrow> bool" where
  "review_items_ok seen [] = True"
| "review_items_ok seen (item # items) =
     (if \<not> canonicalIdentity item then False
      else if item \<in> seen then False
      else review_items_ok (insert item seen) items)"

definition apply_input_json :: "profile_apply_command_input \<Rightarrow> bytes" where
  "apply_input_json input =
     json_object ((''profileVersionId'', json_string (pac_ProfileVersionID input))
       # (if pac_ApprovedReviewItems input = [] then []
          else [(''approvedReviewItems'', json_array (map json_string (pac_ApprovedReviewItems input)))]))"

definition ApplyProfile_command ::
  "command_services \<Rightarrow> profile_apply_command_input \<Rightarrow> (command_event, command_error, runtime_command) durable" where
  "ApplyProfile_command svc input =
     (if \<not> canonicalIdentity (pac_ProfileVersionID input) then abandon ErrInvalidRuntimeCommand
      else if \<not> review_items_ok {} (pac_ApprovedReviewItems input) then abandon ErrInvalidRuntimeCommand
      else commandRuntime svc
             \<lparr>rci_OwnerUserID = pac_OwnerUserID input, rci_EnvironmentID = pac_EnvironmentID input,
              rci_IdempotencyKey = pac_IdempotencyKey input\<rparr>
             OperationProfileApply (apply_input_json input))"

section \<open>Dispatch failures are deferred\<close>

fun dispatch_event :: "command_event \<Rightarrow> bool" where
  "dispatch_event (ReadPending operationID ans) = True"
| "dispatch_event (SentOperation input ans) = True"
| "dispatch_event (DeferredDispatch operationID at ans) = True"
| "dispatch_event _ = False"

lemma dispatch_then_ends:
  assumes "\<And>err t. list_all dispatch_event t \<Longrightarrow> ends (onError err) Q (h @ t)"
    and "\<And>t. list_all dispatch_event t \<Longrightarrow> ends continue Q (h @ t)"
  shows "ends (dispatch_then svc operationID onError continue) Q h"
  unfolding dispatch_then_def deferRuntimeOperation_def
  by (intro durable_rules) (use assms in \<open>simp_all\<close>)

text \<open>Every input was sent, and one whose sending failed was deferred.\<close>

definition attempted :: "runtime_operation_dispatch list \<Rightarrow> command_trace \<Rightarrow> bool" where
  "attempted inputs h \<longleftrightarrow>
     (\<forall>input \<in> set inputs. \<exists>ans. SentOperation input ans \<in> set h
        \<and> (ans \<noteq> None \<longrightarrow> (\<exists>at dans. DeferredDispatch (rod_OperationID input) at dans \<in> set h)))"

lemma dispatch_all_ends:
  "ends (dispatch_all svc failures inputs)
     (\<lambda>r h'. set h \<subseteq> set h' \<and> attempted inputs h'
        \<and> (r = Inr () \<longrightarrow> failures = [] \<and> (\<forall>input \<in> set inputs. SentOperation input None \<in> set h'))) h"
proof (induction inputs arbitrary: failures h)
  case Nil
  show ?case by (auto simp: attempted_def intro!: durable_rules)
next
  case (Cons input inputs)
  have sub: "ends (dispatch_all svc fs inputs)
      (\<lambda>r h'. set h \<subseteq> set h' \<and> attempted (input # inputs) h'
        \<and> (r = Inr () \<longrightarrow> failures = [] \<and> (\<forall>i \<in> set (input # inputs). SentOperation i None \<in> set h'))) (h @ t)"
    if sent: "SentOperation input ans \<in> set t"
      "ans \<noteq> None \<Longrightarrow> \<exists>at dans. DeferredDispatch (rod_OperationID input) at dans \<in> set t"
      and fs: "fs = [] \<Longrightarrow> failures = [] \<and> ans = None" for fs t ans
  proof -
    have "ends (dispatch_all svc fs inputs)
      (\<lambda>r h'. set (h @ t) \<subseteq> set h' \<and> attempted inputs h'
        \<and> (r = Inr () \<longrightarrow> fs = [] \<and> (\<forall>i \<in> set inputs. SentOperation i None \<in> set h'))) (h @ t)"
      by (rule Cons.IH)
    then show ?thesis
      unfolding ends_def attempted_def using sent fs by (auto split: prod.splits) blast+
  qed
  note sent = sub [where t = "[SentOperation input None]" and ans = None and fs = failures]
  note deferred = sub [where t = "[SentOperation input (Some err), DeferredDispatch (rod_OperationID input) at dans]"
      and ans = "Some err" and fs = "failures @ [f]" for err at dans f]
  show ?case
    unfolding dispatch_all.simps deferRuntimeOperation_def
    by (intro durable_rules) (use sent deferred in simp_all)
qed

text \<open>
  C36. A recovery round over the outbox loses nothing: every pending Runtime Operation of the batch is sent
  to the workflow engine, whatever happens to the others; one whose sending fails is deferred in the outbox
  before the round goes on; and the round reports success only when every sending succeeded.
\<close>

theorem pending_operations_attempted:
  assumes "cs_pending_batch svc [] limit = Inr inputs"
    and "DispatchPendingRuntimeOperations svc limit [] = (r, h)"
  shows "attempted inputs h \<and> (r = Inr () \<longrightarrow> (\<forall>input \<in> set inputs. SentOperation input None \<in> set h))"
proof -
  from assms have "dispatch_all svc [] inputs [ReadPendingBatch limit (Inr inputs)] = (r, h)"
    by (simp add: DispatchPendingRuntimeOperations_def run_step_def Let_def)
  from endsD [OF dispatch_all_ends this] show ?thesis by blast
qed

text \<open>
  The creations of Environments are dispatched differently: the round stops at the first sending that
  fails, so the creations after it wait for a later round.
\<close>

lemma creates_stop_at_failure:
  assumes "\<And>h. cs_send_create svc h input = Some (err h)"
    and "ends (dispatch_creates svc (input # inputs)) (\<lambda>r h'. r = q \<and> h' = h2) h"
  shows "h2 = h @ [SentCreate input (Some (err h))]
    \<and> q = Inl (DispatchCreateFailed (ecd_OperationID input) (err h))"
  using assms by (simp add: ends_def run_void_def abandon_def Let_def)

text \<open>The loop returns when the context ends, after one round for each tick and one before the first.\<close>

fun rounds :: "nat \<Rightarrow> (command_event, command_error, unit) durable \<Rightarrow> command_trace \<Rightarrow> command_trace" where
  "rounds 0 dispatch h = h"
| "rounds (Suc n) dispatch h = rounds n dispatch (snd (dispatch h))"

lemma recovery_loop_returns:
  "\<exists>reported'. recovery_loop dispatch reporting (replicate n Ticked @ [ContextDone]) h reported
     = Some (rounds (Suc n) dispatch h, reported')"
  by (induction n arbitrary: h reported) (simp_all add: case_prod_beta Let_def)

section \<open>Admission of a start\<close>

definition start_ok :: "runtime_command_input \<Rightarrow> command_trace \<Rightarrow> bool" where
  "start_ok input h \<longleftrightarrow>
     (\<forall>operation ans. ReservedOperation operation ans \<in> set h \<longrightarrow>
        ReplayedOperation operation (Inr None) \<in> set h
        \<and> (\<exists>credits. ReadCreditBalance (rci_OwnerUserID input) (Inr (rci_OwnerUserID input, credits)) \<in> set h
            \<and> 0 < sint credits)
        \<and> op_Type operation = OperationRuntimeStart \<and> op_RequestedByUserID operation = rci_OwnerUserID input
        \<and> op_EnvironmentID operation = rci_EnvironmentID input)
     \<and> (\<forall>dispatch ans. SentOperation dispatch ans \<in> set h \<longrightarrow>
          (\<exists>operation command. ReservedOperation operation (Inr command) \<in> set h
             \<or> ReplayedOperation operation (Inr (Some command)) \<in> set h))"

lemma start_ok_dispatch:
  assumes "start_ok input h" and "list_all dispatch_event t"
    and "ReservedOperation operation (Inr command) \<in> set h
      \<or> ReplayedOperation operation (Inr (Some command)) \<in> set h"
  shows "start_ok input (h @ t)"
proof -
  have "ReservedOperation operation ans \<notin> set t" for operation ans
    using assms(2) by (auto simp: list_all_iff)
  then show ?thesis
    using assms(1,3) unfolding start_ok_def by auto
qed

lemma dispatch_start_ok:
  assumes "start_ok input h"
    and "ReservedOperation operation (Inr command) \<in> set h
      \<or> ReplayedOperation operation (Inr (Some command)) \<in> set h"
  shows "ends (dispatchRuntimeOperation svc command') (\<lambda>r. start_ok input) h"
  unfolding dispatchRuntimeOperation_def
  by (intro dispatch_then_ends ends_finish ends_abandon start_ok_dispatch [OF assms(1) _ assms(2)])

lemma prepared_fields:
  "prepareRuntimeOperation svc input kind text h = Inr operation \<Longrightarrow>
   op_Type operation = kind \<and> op_RequestedByUserID operation = rci_OwnerUserID input
   \<and> op_EnvironmentID operation = rci_EnvironmentID input"
  by (auto simp: prepareRuntimeOperation_def QueueOperation_def split: option.splits if_splits)

lemma StartRuntime_command_ok: "ends (StartRuntime_command svc input) (\<lambda>r. start_ok input) []"
proof (cases "prepareRuntimeOperation svc input OperationRuntimeStart ''{}'' []")
  case (Inl err)
  then show ?thesis
    by (simp add: StartRuntime_command_def ends_def abandon_def read_from_def start_ok_def)
next
  case (Inr operation)
  note fields = prepared_fields [OF Inr]
  let ?replayed = "\<lambda>replayed. case replayed of
                 Some command \<Rightarrow> dispatchRuntimeOperation svc command
               | None \<Rightarrow>
                   run_step (\<lambda>h. cs_balance svc h (rci_OwnerUserID input))
                     (ReadCreditBalance (rci_OwnerUserID input))
                     (\<lambda>err. abandon (CommandBalanceFailed err))
                     (\<lambda>balance.
                       if fst balance \<noteq> rci_OwnerUserID input then abandon CommandBalanceForeign
                       else if sint (snd balance) \<le> 0 then abandon ErrCreditsPolicyBlocked
                       else reserveRuntimeOperation svc operation)"
  have "ends (run_step (\<lambda>h. cs_replay svc h operation) (ReplayedOperation operation)
      (\<lambda>err. abandon (CommandReplayFailed err)) ?replayed) (\<lambda>r. start_ok input) []"
    unfolding reserveRuntimeOperation_def
    by (intro durable_rules dispatch_start_ok) (use fields in \<open>auto simp: start_ok_def\<close>)
  then show ?thesis
    by (simp add: StartRuntime_command_def ends_def abandon_def read_from_def start_ok_def Inr)
qed

text \<open>
  C9. A start is admitted by credit: a start command reserves an Operation only after the repository found
  nothing to replay under its idempotency key and the balance read for the requesting user is that user's
  own and positive.  Nothing is sent to the workflow engine before the Operation was reserved, or replayed.
\<close>

theorem start_command_admission:
  assumes "StartRuntime_command svc input [] = (r, h)"
  shows "(\<forall>operation ans. ReservedOperation operation ans \<in> set h \<longrightarrow>
      ReplayedOperation operation (Inr None) \<in> set h
      \<and> (\<exists>credits. ReadCreditBalance (rci_OwnerUserID input) (Inr (rci_OwnerUserID input, credits)) \<in> set h
          \<and> 0 < sint credits)
      \<and> op_Type operation = OperationRuntimeStart \<and> op_RequestedByUserID operation = rci_OwnerUserID input
      \<and> op_EnvironmentID operation = rci_EnvironmentID input)
    \<and> (\<forall>dispatch ans. SentOperation dispatch ans \<in> set h \<longrightarrow>
        (\<exists>operation command. ReservedOperation operation (Inr command) \<in> set h
           \<or> ReplayedOperation operation (Inr (Some command)) \<in> set h))"
  using endsD [OF StartRuntime_command_ok assms] unfolding start_ok_def .

section \<open>Examples\<close>

definition demo_dispatch :: "string \<Rightarrow> runtime_operation_dispatch" where
  "demo_dispatch operationID =
     \<lparr>rod_OperationID = operationID, rod_OperationType = OperationRuntimeStart, rod_EnvironmentID = ''env'',
      rod_RuntimeID = ''rt'', rod_OwnerUserID = ''usr'', rod_StopReason = RuntimeStopManual, rod_StopAudit = None\<rparr>"

text \<open>Services whose sender refuses the Operation \<open>op-1\<close>, and a user with five credits.\<close>

definition demo_services :: command_services where
  "demo_services =
     \<lparr>cs_configured = True, cs_credits_configured = True, cs_now = (\<lambda>_. \<lparr>wall = 1, loc = UTC\<rparr>),
      cs_new_id = (\<lambda>_. ''op-2''), cs_replay = (\<lambda>_ _. Inr None), cs_balance = (\<lambda>_ user. Inr (user, 5)),
      cs_reserve = (\<lambda>_ operation. Inr \<lparr>cmd_environment = sample_environment, cmd_runtime = sample_runtime,
         cmd_operation = operation\<rparr>),
      cs_pending = (\<lambda>_ operationID. Inr (Some (demo_dispatch operationID))),
      cs_pending_batch = (\<lambda>_ _. Inr [demo_dispatch ''op-1'', demo_dispatch ''op-2'']),
      cs_send = (\<lambda>_ input. if rod_OperationID input = ''op-1'' then Some ''unreachable'' else None),
      cs_defer = (\<lambda>_ _ _. None), cs_pending_create = (\<lambda>_ _. Inr None), cs_pending_creates = (\<lambda>_ _. Inr []),
      cs_send_create = (\<lambda>_ _. None)\<rparr>"

definition demo_start :: runtime_command_input where
  "demo_start = \<lparr>rci_OwnerUserID = ''usr'', rci_EnvironmentID = ''env'', rci_IdempotencyKey = ''k''\<rparr>"

lemmas command_eval = run_step_def run_void_def read_from_def finish_def abandon_def Let_def
  deferRuntimeOperation_def dispatch_then_def demo_services_def demo_dispatch_def

theorem pending_operations_attempted_witness:
  "\<exists>r h. DispatchPendingRuntimeOperations demo_services 10 [] = (r, h) \<and> r \<noteq> Inr ()
     \<and> attempted [demo_dispatch ''op-1'', demo_dispatch ''op-2''] h"
proof -
  have pending: "cs_pending_batch demo_services [] 10 = Inr [demo_dispatch ''op-1'', demo_dispatch ''op-2'']"
    by (simp add: demo_services_def)
  have "\<exists>r h. DispatchPendingRuntimeOperations demo_services 10 [] = (r, h) \<and> r \<noteq> Inr ()"
    by (simp add: DispatchPendingRuntimeOperations_def command_eval)
  then show ?thesis using pending_operations_attempted [OF pending] by blast
qed

lemma demo_start_run:
  "\<exists>command h. StartRuntime_command demo_services demo_start [] = (Inr command, h)
     \<and> SentOperation (demo_dispatch ''op-2'') None \<in> set h"
  by (simp add: StartRuntime_command_def command_valid_def canonicalIdentity_def prepareRuntimeOperation_def
      QueueOperation_def queue_required_def reserveRuntimeOperation_def dispatchRuntimeOperation_def demo_start_def
      go_time command_eval)

theorem start_command_admission_witness:
  "\<exists>command h operation c. StartRuntime_command demo_services demo_start [] = (Inr command, h)
     \<and> (ReservedOperation operation (Inr c) \<in> set h \<or> ReplayedOperation operation (Inr (Some c)) \<in> set h)"
  using demo_start_run start_command_admission [of demo_services demo_start] by blast

end
