(* ===== verification/Capsule_Manifests.thy ===== *)
theory Capsule_Manifests
  imports Capsule_Locks
begin

text \<open>
  Capsules as they are packaged: the data of \<open>libs/capsule/model.go\<close> and the canonical encodings of
  \<open>libs/capsule/canonical.go\<close> that their digests are computed from.  The types, scopes and trust classes of
  that package are the strings of the domain package and use its datatypes here.
\<close>

section \<open>Data\<close>

record capsule_component =
  cc_ID :: string
  cc_Type :: component_type
  cc_Scope :: component_scope
  cc_TrustClass :: trust_class
  cc_MediaType :: string
  cc_Digest :: string
  cc_SizeBytes :: int64
  cc_Requirements :: component_requirements

record capsule_manifest =
  cm_SchemaVersion :: int64
  cm_Name :: string
  cm_Components :: "capsule_component list"
  cm_Requirements :: component_requirements

record file_index_entry =
  fie_Path :: string
  fie_Digest :: string
  fie_Mode :: "32 word"

record capsule_layer =
  cl_ComponentID :: string
  cl_MediaType :: string
  cl_Digest :: string
  cl_SizeBytes :: int64
  cl_Bytes :: bytes
  cl_Index :: "file_index_entry list"

record packaged_capsule =
  pc_Manifest :: capsule_manifest
  pc_Layers :: "capsule_layer list"
  pc_Digest :: string

definition IndexPath :: string where
  "IndexPath = ''index.json''"

definition LayerMediaType :: "component_type \<Rightarrow> string" where
  "LayerMediaType componentType =
     ''application/vnd.devm.capsule.'' @ component_type_string componentType @ ''.v1.tar+gzip''"

section \<open>Validation\<close>

datatype manifest_error =
    ManifestVersion
  | ManifestName
  | ManifestRequirement
  | ManifestComponent nat
  | ManifestDuplicate string
  | IndexPathRequired
  | IndexDigestInvalid string
  | IndexModeInvalid string
  | IndexDuplicate string

definition requirements_ok :: "component_requirements \<Rightarrow> bool" where
  "requirements_ok requirements \<longleftrightarrow>
     list_all (\<lambda>command. \<not> blank command) (elems (reqs_Commands requirements))
     \<and> list_all (\<lambda>secret. \<not> blank secret) (elems (reqs_Secrets requirements))"

definition capsule_component_ok :: "bool \<Rightarrow> capsule_component \<Rightarrow> bool" where
  "capsule_component_ok requireDigest component \<longleftrightarrow>
     \<not> blank (cc_ID component)
     \<and> component_type_Valid (cc_Type component)
     \<and> (case strip_prefix (component_type_string (cc_Type component) @ '':'') (cc_ID component) of
          None \<Rightarrow> False | Some name \<Rightarrow> name \<noteq> [])
     \<and> component_scope_Valid (cc_Scope component) \<and> trust_class_Valid (cc_TrustClass component)
     \<and> (case requiredTrustClass (cc_Type component) of
          None \<Rightarrow> True | Some required \<Rightarrow> cc_TrustClass component = required)
     \<and> (cc_MediaType component = [] \<or> cc_MediaType component = LayerMediaType (cc_Type component))
     \<and> (requireDigest \<longrightarrow> contentDigestPattern (cc_Digest component))
     \<and> (cc_Digest component = [] \<or> contentDigestPattern (cc_Digest component))
     \<and> 0 \<le> sint (cc_SizeBytes component) \<and> requirements_ok (cc_Requirements component)"

fun check_manifest_components :: "bool \<Rightarrow> nat \<Rightarrow> string list \<Rightarrow> capsule_component list \<Rightarrow> manifest_error option" where
  "check_manifest_components requireDigests index seen [] = None"
| "check_manifest_components requireDigests index seen (component # components) =
     (if \<not> capsule_component_ok requireDigests component then Some (ManifestComponent index)
      else if cc_ID component \<in> set seen then Some (ManifestDuplicate (cc_ID component))
      else check_manifest_components requireDigests (Suc index) (cc_ID component # seen) components)"

definition manifest_validate :: "bool \<Rightarrow> capsule_manifest \<Rightarrow> manifest_error option" where
  "manifest_validate requireDigests manifest =
     (if cm_SchemaVersion manifest \<noteq> 1 then Some ManifestVersion
      else if blank (cm_Name manifest) then Some ManifestName
      else if \<not> requirements_ok (cm_Requirements manifest) then Some ManifestRequirement
      else check_manifest_components requireDigests 0 [] (cm_Components manifest))"

section \<open>Canonical encodings\<close>

fun deduplicateSorted :: "string list \<Rightarrow> string list" where
  "deduplicateSorted (x # y # values) =
     (if x = y then deduplicateSorted (x # values) else x # deduplicateSorted (y # values))"
| "deduplicateSorted values = values"

definition canonical_requirements_json :: "component_requirements \<Rightarrow> bytes" where
  "canonical_requirements_json requirements = json_object
     [(''commands'', json_array (map json_string (deduplicateSorted (sort (elems (reqs_Commands requirements)))))),
      (''secrets'', json_array (map json_string (deduplicateSorted (sort (elems (reqs_Secrets requirements))))))]"

definition canonical_component_json :: "capsule_component \<Rightarrow> bytes" where
  "canonical_component_json component = json_object
     [(''id'', json_string (cc_ID component)),
      (''type'', json_string (component_type_string (cc_Type component))),
      (''scope'', json_string (component_scope_string (cc_Scope component))),
      (''trustClass'', json_string (trust_class_string (cc_TrustClass component))),
      (''mediaType'', json_string (cc_MediaType component)),
      (''digest'', json_string (cc_Digest component)),
      (''sizeBytes'', decimal_digits (unat (cc_SizeBytes component))),
      (''requirements'', canonical_requirements_json (cc_Requirements component))]"

text \<open>A valid manifest has version 1 and sizes that are not negative.\<close>

definition CanonicalJSON :: "capsule_manifest \<Rightarrow> manifest_error + bytes" where
  "CanonicalJSON manifest =
     (case manifest_validate True manifest of
        Some err \<Rightarrow> Inl err
      | None \<Rightarrow> Inr (json_object
          [(''schemaVersion'', decimal_digits (unat (cm_SchemaVersion manifest))),
           (''name'', json_string (cm_Name manifest)),
           (''components'', json_array (map canonical_component_json (cm_Components manifest))),
           (''requirements'', canonical_requirements_json (cm_Requirements manifest))]))"

definition ComputeCapsuleDigest :: "capsule_manifest \<Rightarrow> manifest_error + string" where
  "ComputeCapsuleDigest manifest = map_sum id sha256_digest (CanonicalJSON manifest)"

fun index_entries ::
  "(string \<times> file_index_entry) list \<Rightarrow> file_index_entry list \<Rightarrow> manifest_error + (string \<times> file_index_entry) list" where
  "index_entries index [] = Inr index"
| "index_entries index (entry # entries) =
     (if blank (fie_Path entry) then Inl IndexPathRequired
      else if \<not> contentDigestPattern (fie_Digest entry) then Inl (IndexDigestInvalid (fie_Path entry))
      else if fie_Mode entry \<noteq> 420 \<and> fie_Mode entry \<noteq> 493 then Inl (IndexModeInvalid (fie_Path entry))
      else if map_of index (fie_Path entry) \<noteq> None then Inl (IndexDuplicate (fie_Path entry))
      else index_entries ((fie_Path entry, entry) # index) entries)"

text \<open>\<open>encoding/json\<close> writes the entries of a map in the order of their keys.\<close>

definition CanonicalIndexJSON :: "capsule_layer \<Rightarrow> manifest_error + bytes" where
  "CanonicalIndexJSON layer =
     map_sum id (\<lambda>index. json_object (map (\<lambda>(path, entry). (path, json_object
         [(''digest'', json_string (fie_Digest entry)), (''mode'', decimal_digits (unat (fie_Mode entry)))]))
       (sort_key fst index))) (index_entries [] (cl_Index layer))"

section \<open>Requirements are sets\<close>

lemma deduplicateSorted_remdups_adj: "deduplicateSorted xs = remdups_adj xs"
  by (induction xs rule: deduplicateSorted.induct) auto

lemma distinct_remdups_adj_sorted: "sorted (xs :: 'a :: linorder list) \<Longrightarrow> distinct (remdups_adj xs)"
  by (induction xs rule: remdups_adj.induct) (auto simp: order.order_iff_strict)

lemma deduplicated_set: "deduplicateSorted (sort xs) = sorted_list_of_set (set xs)"
proof (rule sorted_distinct_set_unique)
  show "sorted (deduplicateSorted (sort xs))" "distinct (deduplicateSorted (sort xs))"
    by (simp_all add: deduplicateSorted_remdups_adj distinct_remdups_adj_sorted)
  show "set (deduplicateSorted (sort xs)) = set (sorted_list_of_set (set xs))"
    by (simp add: deduplicateSorted_remdups_adj)
qed simp_all

definition same_requirements :: "component_requirements \<Rightarrow> component_requirements \<Rightarrow> bool" where
  "same_requirements r s \<longleftrightarrow>
     set (elems (reqs_Commands r)) = set (elems (reqs_Commands s))
     \<and> set (elems (reqs_Secrets r)) = set (elems (reqs_Secrets s))"

definition same_component :: "capsule_component \<Rightarrow> capsule_component \<Rightarrow> bool" where
  "same_component c d \<longleftrightarrow>
     same_requirements (cc_Requirements c) (cc_Requirements d)
     \<and> d = c\<lparr>cc_Requirements := cc_Requirements d\<rparr>"

definition same_manifest :: "capsule_manifest \<Rightarrow> capsule_manifest \<Rightarrow> bool" where
  "same_manifest m n \<longleftrightarrow>
     cm_SchemaVersion m = cm_SchemaVersion n \<and> cm_Name m = cm_Name n
     \<and> same_requirements (cm_Requirements m) (cm_Requirements n)
     \<and> list_all2 same_component (cm_Components m) (cm_Components n)"

lemma same_requirements_ok: "same_requirements r s \<Longrightarrow> requirements_ok r = requirements_ok s"
  by (simp add: requirements_ok_def same_requirements_def list_all_iff)

lemma same_requirements_json:
  "same_requirements r s \<Longrightarrow> canonical_requirements_json r = canonical_requirements_json s"
  by (simp add: canonical_requirements_json_def same_requirements_def deduplicated_set)

lemma same_component_fields:
  assumes "same_component c d"
  shows "cc_ID d = cc_ID c" "capsule_component_ok b d = capsule_component_ok b c"
    "canonical_component_json d = canonical_component_json c"
proof -
  let ?d = "c\<lparr>cc_Requirements := cc_Requirements d\<rparr>"
  from assms have d: "d = ?d" and same: "same_requirements (cc_Requirements c) (cc_Requirements d)"
    by (simp_all add: same_component_def)
  show "cc_ID d = cc_ID c" by (subst d) simp
  show "capsule_component_ok b d = capsule_component_ok b c"
    by (subst d) (simp add: capsule_component_ok_def same_requirements_ok [OF same] split: option.split)
  show "canonical_component_json d = canonical_component_json c"
    by (subst d) (simp add: canonical_component_json_def same_requirements_json [OF same])
qed

lemma same_components_checked:
  "list_all2 same_component cs ds \<Longrightarrow> check_manifest_components b i seen ds = check_manifest_components b i seen cs"
  by (induction arbitrary: i seen rule: list_all2_induct) (simp_all add: same_component_fields)

text \<open>
  C35. A Capsule digest treats requirements as sets: manifests that differ only in the order and the
  repetition of the commands and secrets they require are valid together and have the same digest.
\<close>

theorem capsule_digest_requirement_sets:
  assumes "same_manifest m n"
  shows "ComputeCapsuleDigest m = ComputeCapsuleDigest n"
proof -
  from assms have fields: "cm_SchemaVersion m = cm_SchemaVersion n" "cm_Name m = cm_Name n"
    and reqs: "same_requirements (cm_Requirements m) (cm_Requirements n)"
    and comps: "list_all2 same_component (cm_Components m) (cm_Components n)"
    by (simp_all add: same_manifest_def)
  have "map canonical_component_json (cm_Components n) = map canonical_component_json (cm_Components m)"
    using comps by (induction rule: list_all2_induct) (simp_all add: same_component_fields(3))
  then show ?thesis
    by (simp add: ComputeCapsuleDigest_def CanonicalJSON_def manifest_validate_def fields
        same_requirements_ok [OF reqs] same_requirements_json [OF reqs] same_components_checked [OF comps]
        split: option.split)
qed

definition demo_manifest :: "string list \<Rightarrow> capsule_manifest" where
  "demo_manifest commands =
     \<lparr>cm_SchemaVersion = 1, cm_Name = ''m'', cm_Components = [],
      cm_Requirements = \<lparr>reqs_Commands = Some commands, reqs_Secrets = None\<rparr>\<rparr>"

theorem capsule_digest_requirement_sets_witness:
  "ComputeCapsuleDigest (demo_manifest [''git'', ''go'']) = ComputeCapsuleDigest (demo_manifest [''go'', ''git'', ''go''])"
  by (rule capsule_digest_requirement_sets)
    (auto simp: same_manifest_def same_requirements_def demo_manifest_def elems_def)

end
