(* ===== verification/Materialization_Plans.thy ===== *)
theory Materialization_Plans
  imports Creation_Data
begin

text \<open>
  The plan of one Component and the paths it names: \<open>libs/profile/plan.go\<close>, the selectors of
  \<open>libs/adapters/registry.go\<close>, and the path checks of \<open>apps/guest/profile_materialization.go\<close> over
  \<open>path.Clean\<close>.
\<close>

section \<open>Plans\<close>

type_synonym file_mode = "32 word"

definition Perm :: "file_mode \<Rightarrow> file_mode" where
  "Perm mode = mode AND 511"

record materialization_file =
  mf_Path :: string
  mf_Content :: bytes
  mf_Mode :: file_mode

record profile_materialization =
  pm_ID :: string
  pm_LockID :: string
  pm_LockDigest :: string
  pm_CapsuleDigest :: string
  pm_ComponentID :: string
  pm_ComponentDigest :: string
  pm_AdapterID :: string
  pm_AdapterVersion :: string
  pm_TargetAgentVersion :: string
  pm_Scope :: component_scope
  pm_NonSecretOverridesDigest :: string
  pm_SecretVersionIdentifiers :: slice
  pm_EffectiveCacheKey :: string
  pm_EffectiveCacheKeyChanged :: bool
  pm_Kind :: component_type
  pm_TrustClass :: trust_class
  pm_Requirements :: component_requirements
  pm_Mode :: materialization_mode
  pm_Root :: materialization_root
  pm_Target :: string
  pm_Selector :: string
  pm_Content :: bytes
  pm_ContentSize :: int64
  pm_ContentDigest :: string
  pm_FileMode :: file_mode
  pm_Files :: "materialization_file list"
  pm_Directory :: bool
  pm_FilePaths :: slice
  pm_LastAppliedDigest :: string
  pm_ObservedDigest :: string
  pm_RequirementState :: requirement_state
  pm_CredentialRequirementDigest :: string
  pm_ApprovalRequired :: bool
  pm_ApprovalReason :: string

section \<open>Digests\<close>

definition MaterializationContentDigest :: "bytes \<Rightarrow> string" where
  "MaterializationContentDigest content = sha256_digest content"

text \<open>The verb \<open>%o\<close>.\<close>

fun octal_digits :: "nat \<Rightarrow> string" where
  "octal_digits n = (if n < 8 then [''01234567'' ! n] else octal_digits (n div 8) @ [''01234567'' ! (n mod 8)])"

declare octal_digits.simps [simp del]

definition directory_entry :: "materialization_file \<Rightarrow> bytes" where
  "directory_entry f =
     mf_Path f @ [CHR 0x00] @ octal_digits (unat (Perm (mf_Mode f))) @ [CHR 0x00] @ mf_Content f @ [CHR 0x00]"

text \<open>Files of one plan have different paths, which \<open>sort.Slice\<close> puts in the one ascending order.\<close>

definition DirectoryMaterializationDigest :: "materialization_file list \<Rightarrow> string" where
  "DirectoryMaterializationDigest files =
     sha256_digest (concat (map directory_entry (sort_key mf_Path files)))"

record effective_cache_key_fields =
  eck_ComponentDigest :: string
  eck_AdapterID :: string
  eck_AdapterVersion :: string
  eck_TargetAgentVersion :: string
  eck_Scope :: component_scope
  eck_NonSecretOverridesDigest :: string
  eck_SecretVersionIdentifiers :: slice

text \<open>The copied and sorted slice is \<open>nil\<close>, and encoded as \<open>null\<close>, when there is no element.\<close>

definition sorted_names_json :: "slice \<Rightarrow> bytes" where
  "sorted_names_json names =
     (case clone_slice names of None \<Rightarrow> ''null'' | Some xs \<Rightarrow> json_array (map json_string (sort xs)))"

definition EffectiveCacheKeyFields_Digest :: "effective_cache_key_fields \<Rightarrow> string" where
  "EffectiveCacheKeyFields_Digest key = sha256_digest (json_object
     [(''componentDigest'', json_string (eck_ComponentDigest key)),
      (''adapterId'', json_string (eck_AdapterID key)),
      (''adapterVersion'', json_string (eck_AdapterVersion key)),
      (''targetAgentVersion'', json_string (eck_TargetAgentVersion key)),
      (''scope'', json_string (component_scope_string (eck_Scope key))),
      (''nonSecretOverridesDigest'', json_string (eck_NonSecretOverridesDigest key)),
      (''secretVersionIdentifiers'', sorted_names_json (eck_SecretVersionIdentifiers key))])"

definition MaterializationFilePaths :: "materialization_file list \<Rightarrow> string list" where
  "MaterializationFilePaths files = sort (map mf_Path files)"

section \<open>Paths\<close>

definition FilepathExt :: "string \<Rightarrow> string" where
  "FilepathExt name =
     (let extension = takeWhile (\<lambda>c. c \<noteq> CHR ''.'') (rev name)
      in if CHR ''.'' \<notin> set name \<or> CHR ''/'' \<in> set extension then [] else CHR ''.'' # rev extension)"

text \<open>
  \<open>path.Clean\<close>: the elements between slashes, without the empty ones and dots, and with every \<open>..\<close> taken
  together with the element before it; \<open>out\<close> holds the elements so far, the last one first.
\<close>

fun clean_elements :: "bool \<Rightarrow> bytes list \<Rightarrow> bytes list \<Rightarrow> bytes list" where
  "clean_elements rooted out [] = rev out"
| "clean_elements rooted out (e # es) =
     (if e = [] \<or> e = ''.'' then clean_elements rooted out es
      else if e = ''..'' then
        (case out of
           [] \<Rightarrow> clean_elements rooted (if rooted then [] else [e]) es
         | parent # rest \<Rightarrow> if parent = ''..'' then clean_elements rooted (e # out) es
                        else clean_elements rooted rest es)
      else clean_elements rooted (e # out) es)"

definition path_IsAbs :: "string \<Rightarrow> bool" where
  "path_IsAbs p \<longleftrightarrow> (case p of [] \<Rightarrow> False | c # _ \<Rightarrow> c = CHR ''/'')"

definition path_Clean :: "string \<Rightarrow> string" where
  "path_Clean p =
     (let elements = join_with (CHR ''/'') (clean_elements (path_IsAbs p) [] (split_on (CHR ''/'') p))
      in if path_IsAbs p then CHR ''/'' # elements else if elements = [] then ''.'' else elements)"

text \<open>\<open>path.Join\<close> of two elements, and \<open>path.Dir\<close>.\<close>

definition path_Join :: "string \<Rightarrow> string \<Rightarrow> string" where
  "path_Join a b =
     (if a = [] \<and> b = [] then [] else if a = [] then path_Clean b else if b = [] then path_Clean a
      else path_Clean (a @ CHR ''/'' # b))"

definition path_Dir :: "string \<Rightarrow> string" where
  "path_Dir p = path_Clean (rev (dropWhile (\<lambda>c. c \<noteq> CHR ''/'') (rev p)))"

text \<open>
  \<open>unicode.IsControl\<close> on the runes: the bytes below 32 and 127, and U+0080 to U+009F, whose encodings are
  the byte \<open>C2\<close> and one of \<open>80\<close> to \<open>9F\<close> (\<open>C2\<close> only ever starts a rune).
\<close>

fun has_control :: "bytes \<Rightarrow> bool" where
  "has_control [] = False"
| "has_control (c # s) =
     ((of_char c :: nat) < 32 \<or> of_char c = (127 :: nat)
      \<or> (of_char c = (194 :: nat) \<and> s \<noteq> [] \<and> (128 :: nat) \<le> of_char (hd s) \<and> of_char (hd s) \<le> (159 :: nat))
      \<or> has_control s)"

definition has_backslash :: "bytes \<Rightarrow> bool" where
  "has_backslash s \<longleftrightarrow> CHR 0x5C \<in> set s \<or> CHR 0x00 \<in> set s"

definition validateMaterializationTarget :: "string \<Rightarrow> bool" where
  "validateMaterializationTarget target \<longleftrightarrow>
     (let clean = path_Clean target
      in \<not> (target = [] \<or> target = ''.'' \<or> clean \<noteq> target \<or> path_IsAbs target \<or> clean = ''..''
            \<or> strip_prefix ''../'' clean \<noteq> None \<or> has_backslash target \<or> has_control target))"

definition validateMaterializationRelativePath :: "string \<Rightarrow> bool" where
  "validateMaterializationRelativePath name \<longleftrightarrow>
     (let clean = path_Clean name
      in \<not> (name = [] \<or> clean \<noteq> name \<or> path_IsAbs name \<or> clean = ''.'' \<or> clean = ''..''
            \<or> strip_prefix ''../'' clean \<noteq> None \<or> has_backslash name \<or> has_control name))"

lemma relative_path_is_target: "validateMaterializationRelativePath name = validateMaterializationTarget name"
  by (auto simp: validateMaterializationRelativePath_def validateMaterializationTarget_def Let_def)

section \<open>Selectors\<close>

definition MaterializationSelectorsOverlap :: "string \<Rightarrow> string \<Rightarrow> bool" where
  "MaterializationSelectorsOverlap left right \<longleftrightarrow>
     left = right \<or> left = ''$'' \<or> right = ''$''
     \<or> strip_prefix (right @ ''.'') left \<noteq> None \<or> strip_prefix (left @ ''.'') right \<noteq> None"

text \<open>The keys a selector names: \<open>strings.Split(strings.TrimPrefix(selector, "$."), ".")\<close>.\<close>

definition selector_fields :: "string \<Rightarrow> string list" where
  "selector_fields selector =
     split_on (CHR ''.'') (case strip_prefix ''$.'' selector of None \<Rightarrow> selector | Some s \<Rightarrow> s)"

definition validateMaterializationSelectorSyntax :: "string \<Rightarrow> string \<Rightarrow> bool" where
  "validateMaterializationSelectorSyntax target selector \<longleftrightarrow>
     (if selector = [] \<or> selector = ''$'' then True
      else if (FilepathExt target \<noteq> ''.json'' \<and> FilepathExt target \<noteq> ''.toml'') \<or> strip_prefix ''$.'' selector = None
      then False
      else [] \<notin> set (selector_fields selector))"

lemma selector_fields_nonempty [simp]: "selector_fields selector \<noteq> []"
  by (simp add: selector_fields_def)

lemma selector_fields_join:
  "strip_prefix ''$.'' s \<noteq> None \<Longrightarrow> s = ''$.'' @ join_with (CHR ''.'') (selector_fields s)"
  by (auto simp: selector_fields_def strip_prefix_Some_iff)

lemma join_with_append:
  "xs \<noteq> [] \<Longrightarrow> ys \<noteq> [] \<Longrightarrow> join_with c (xs @ ys) = join_with c xs @ c # join_with c ys"
proof (induction xs)
  case (Cons x xs)
  then show ?case by (cases xs) (simp_all add: join_with_Cons)
qed simp

text \<open>Selectors that do not overlap name paths of keys of which none leads to the other.\<close>

definition diverging :: "'a list \<Rightarrow> 'a list \<Rightarrow> bool" where
  "diverging xs ys \<longleftrightarrow> (\<forall>zs. ys \<noteq> xs @ zs) \<and> (\<forall>zs. xs \<noteq> ys @ zs)"

lemma fields_prefix_overlap:
  assumes "strip_prefix ''$.'' left \<noteq> None" "strip_prefix ''$.'' right \<noteq> None"
    and "selector_fields right = selector_fields left @ zs"
  shows "MaterializationSelectorsOverlap left right"
proof (cases "zs = []")
  case True
  then show ?thesis
    using selector_fields_join [OF assms(1)] selector_fields_join [OF assms(2)] assms(3)
    by (simp add: MaterializationSelectorsOverlap_def)
next
  case False
  then have "right = left @ ''.'' @ join_with (CHR ''.'') zs"
    using selector_fields_join [OF assms(1)] selector_fields_join [OF assms(2)] assms(3)
    by (simp add: join_with_append)
  then show ?thesis
    by (auto simp: MaterializationSelectorsOverlap_def strip_prefix_None_iff)
qed

lemma overlap_commute: "MaterializationSelectorsOverlap left right = MaterializationSelectorsOverlap right left"
  by (auto simp: MaterializationSelectorsOverlap_def)

lemma separate_selectors_diverge:
  assumes "strip_prefix ''$.'' left \<noteq> None" "strip_prefix ''$.'' right \<noteq> None"
    and "\<not> MaterializationSelectorsOverlap left right"
  shows "diverging (selector_fields left) (selector_fields right)"
  using fields_prefix_overlap assms overlap_commute unfolding diverging_def by metis

section \<open>Accepted paths stay inside their root\<close>

lemma clean_elements_subset: "set (clean_elements rooted out es) \<subseteq> set out \<union> set es - {[], ''.''} \<union> set out"
proof (induction rooted out es rule: clean_elements.induct)
  case (2 rooted out e es)
  then show ?case by (cases out) (auto split: if_splits)
qed simp

text \<open>In the cleaned path every \<open>..\<close> stands at the front.\<close>

lemma clean_elements_parents:
  assumes "out = xs @ replicate n ''..''" "''..'' \<notin> set xs"
  shows "\<exists>m ys. clean_elements rooted out es = replicate m ''..'' @ ys \<and> ''..'' \<notin> set ys"
  using assms
proof (induction es arbitrary: out xs n)
  case Nil
  then have "clean_elements rooted out [] = replicate n ''..'' @ rev xs" by simp
  with Nil show ?case by (metis set_rev)
next
  case (Cons e es)
  consider "e = [] \<or> e = ''.''" | "e = ''..''" "out = []" | "e = ''..''" "xs = []" "out \<noteq> []"
    | x ys where "e = ''..''" "xs = x # ys" | "e \<noteq> []" "e \<noteq> ''.''" "e \<noteq> ''..''"
    using Cons.prems(1) by (cases xs) auto
  then show ?case
  proof cases
    case 1
    then show ?thesis using Cons.IH [OF Cons.prems] by auto
  next
    case 2
    then show ?thesis using Cons.IH [of _ "[]" "if rooted then 0 else 1"] by (cases rooted) simp_all
  next
    case 3
    then obtain k where "out = ''..'' # replicate k ''..''" using Cons.prems by (cases n) auto
    then show ?thesis using 3 Cons.IH [of "e # out" "[]" "Suc (Suc k)"] by simp
  next
    case 4
    then show ?thesis using Cons.prems Cons.IH [of "ys @ replicate n ''..''" ys n] by auto
  next
    case 5
    then show ?thesis using Cons.prems Cons.IH [of "e # out" "e # xs" n] by simp
  qed
qed

definition inside_path :: "string \<Rightarrow> bool" where
  "inside_path p \<longleftrightarrow> (\<forall>e \<in> set (split_on (CHR ''/'') p). e \<noteq> [] \<and> e \<noteq> ''.'' \<and> e \<noteq> ''..'')"

lemma accepted_target_inside:
  assumes "validateMaterializationTarget target"
  shows "inside_path target"
proof -
  let ?es = "clean_elements False [] (split_on (CHR ''/'') target)"
  from assms have relative: "\<not> path_IsAbs target" and clean: "path_Clean target = target"
    and not_dot: "target \<noteq> ''.''" "target \<noteq> []" "target \<noteq> ''..''" "strip_prefix ''../'' target = None"
    by (auto simp: validateMaterializationTarget_def Let_def)
  from clean relative not_dot have target: "join_with (CHR ''/'') ?es = target"
    by (auto simp: path_Clean_def Let_def split: if_splits)
  obtain m ys where es: "?es = replicate m ''..'' @ ys" "''..'' \<notin> set ys"
    using clean_elements_parents [of "[]" "[]" 0 False "split_on (CHR ''/'') target"] by auto
  have "m = 0"
  proof (rule ccontr)
    assume "m \<noteq> 0"
    then obtain rest where "?es = ''..'' # rest" using es(1) by (cases m) auto
    with target have "target = ''..'' \<or> (\<exists>t. target = ''../'' @ t)" by (cases rest) auto
    with not_dot show False by (auto simp: strip_prefix_None_iff)
  qed
  with es have proper: "''..'' \<notin> set ?es" by simp
  have subset: "set ?es \<subseteq> set (split_on (CHR ''/'') target) - {[], ''.''}"
    using clean_elements_subset [of False "[]" "split_on (CHR ''/'') target"] by auto
  have "?es \<noteq> []" using target not_dot by auto
  then have "split_on (CHR ''/'') (join_with (CHR ''/'') ?es) = ?es"
    using subset split_on_separator_free by (intro split_join) blast+
  then have "split_on (CHR ''/'') target = ?es" by (simp add: target)
  with proper subset show ?thesis unfolding inside_path_def by auto
qed

section \<open>The digest of a directory\<close>

lemma octal_644: "octal_digits (unat (Perm 420)) = ''644''"
  by (simp add: Perm_def octal_digits.simps)

text \<open>
  The digest of a directory does not determine the directory: a file whose content spells out the entry
  of another file has the digest of the two files, for all paths, contents and the mode 0644.
\<close>

lemma directory_digest_ambiguous:
  assumes "a < b"
  shows "DirectoryMaterializationDigest
      [\<lparr>mf_Path = a, mf_Content = x @ [CHR 0x00] @ b @ [CHR 0x00] @ ''644'' @ [CHR 0x00] @ y, mf_Mode = 420\<rparr>]
    = DirectoryMaterializationDigest
      [\<lparr>mf_Path = a, mf_Content = x, mf_Mode = 420\<rparr>, \<lparr>mf_Path = b, mf_Content = y, mf_Mode = 420\<rparr>]"
  using less_imp_le [OF assms] by (simp add: DirectoryMaterializationDigest_def directory_entry_def octal_644)

end
