(* ===== verification/Config_Selection.thy ===== *)
theory Config_Selection
  imports Materialization_Plans Config_Merge Json_Text
begin

text \<open>
  Parts of configuration documents, selected by the keys on the way to them: the functions on JSON and TOML
  documents of \<open>apps/guest/profile_materialization.go\<close>.  A document is a \<open>config_value\<close> with numbers as
  they are written; encoding and decoding of the two formats is the argument \<open>selection_codec\<close>, whose
  decoders return \<open>None\<close> for an error and the TOML one \<open>Some None\<close> for a nil document.
\<close>

record selection_codec =
  sc_json_decode :: "bytes \<Rightarrow> config_value option"
  sc_json_encode :: "config_value \<Rightarrow> bytes option"
  sc_toml_decode :: "bytes \<Rightarrow> config_map option option"
  sc_toml_encode :: "config_map \<Rightarrow> bytes option"

datatype selection_error =
    SelectionDecode
  | SelectionNilDocument
  | SelectionDesired
  | SelectionCrosses string
  | SelectionEncode
  | SelectionPanic

section \<open>Values at a path\<close>

text \<open>The value at the path, \<open>None\<close> when a key is missing, an error when the path crosses another value.\<close>

fun lookup_fields :: "string \<Rightarrow> config_value \<Rightarrow> string list \<Rightarrow> selection_error + config_value option" where
  "lookup_fields selector val [] = Inr (Some val)"
| "lookup_fields selector (ConfigMap m) (key # keys) =
     (case map_of m key of None \<Rightarrow> Inr None | Some val \<Rightarrow> lookup_fields selector val keys)"
| "lookup_fields selector val (key # keys) = Inl (SelectionCrosses selector)"

text \<open>The assignment at the end of the path, with the maps on the way created when they are missing.\<close>

fun set_fields ::
  "string \<Rightarrow> config_map \<Rightarrow> string list \<Rightarrow> config_value \<Rightarrow> selection_error + config_map" where
  "set_fields selector m [] val = Inr m"
| "set_fields selector m [key] val = Inr (go_update key val m)"
| "set_fields selector m (key # f # keys) val =
     (case map_of m key of
        None \<Rightarrow> map_sum id (\<lambda>child. go_update key (ConfigMap child) m) (set_fields selector [] (f # keys) val)
      | Some (ConfigMap child) \<Rightarrow>
          map_sum id (\<lambda>child'. go_update key (ConfigMap child') m) (set_fields selector child (f # keys) val)
      | Some _ \<Rightarrow> Inl (SelectionCrosses selector))"

definition go_delete :: "string \<Rightarrow> 'v string_map \<Rightarrow> 'v string_map" where
  "go_delete key m = filter (\<lambda>(k, v). k \<noteq> key) m"

fun remove_fields :: "string \<Rightarrow> config_map \<Rightarrow> string list \<Rightarrow> selection_error + config_map" where
  "remove_fields selector m [] = Inr m"
| "remove_fields selector m [key] = Inr (go_delete key m)"
| "remove_fields selector m (key # f # keys) =
     (case map_of m key of
        Some (ConfigMap child) \<Rightarrow>
          map_sum id (\<lambda>child'. go_update key (ConfigMap child') m) (remove_fields selector child (f # keys))
      | _ \<Rightarrow> Inl (SelectionCrosses selector))"

section \<open>JSON documents\<close>

text \<open>Decoding into a map: \<open>null\<close> leaves it nil, another value that is not an object is an error.\<close>

definition json_decode_map :: "selection_codec \<Rightarrow> bytes \<Rightarrow> config_map option option" where
  "json_decode_map codec content =
     (case sc_json_decode codec content of
        Some (ConfigMap m) \<Rightarrow> Some (Some m)
      | Some ConfigNil \<Rightarrow> Some None
      | _ \<Rightarrow> None)"

definition selectJSON :: "selection_codec \<Rightarrow> bytes \<Rightarrow> string \<Rightarrow> selection_error + bytes option" where
  "selectJSON codec content selector =
     (case sc_json_decode codec content of
        None \<Rightarrow> Inl SelectionDecode
      | Some val \<Rightarrow>
          (case lookup_fields selector val (selector_fields selector) of
             Inl err \<Rightarrow> Inl err
           | Inr None \<Rightarrow> Inr None
           | Inr (Some selected) \<Rightarrow>
               (case sc_json_encode codec selected of
                  None \<Rightarrow> Inl SelectionEncode
                | Some text \<Rightarrow> Inr (Some text))))"

text \<open>
  \<open>mergeJSONSelection\<close> on the content that was read, \<open>None\<close> when there is no file.  The assignment to a nil
  map, which decoding \<open>null\<close> leaves, panics.
\<close>

definition mergeJSONSelection ::
  "selection_codec \<Rightarrow> bytes option \<Rightarrow> string \<Rightarrow> bytes \<Rightarrow> selection_error + bytes" where
  "mergeJSONSelection codec content selector desired =
     (case (case content of None \<Rightarrow> Some (Some []) | Some text \<Rightarrow> json_decode_map codec text) of
        None \<Rightarrow> Inl SelectionDecode
      | Some document \<Rightarrow>
          (case sc_json_decode codec desired of
             None \<Rightarrow> Inl SelectionDesired
           | Some val \<Rightarrow>
               (case document of
                  None \<Rightarrow> Inl SelectionPanic
                | Some m \<Rightarrow>
                    (case set_fields selector m (selector_fields selector) val of
                       Inl err \<Rightarrow> Inl err
                     | Inr merged \<Rightarrow>
                         (case sc_json_encode codec (ConfigMap merged) of
                            None \<Rightarrow> Inl SelectionEncode
                          | Some text \<Rightarrow> Inr text)))))"

text \<open>
  The new content \<open>removeJSONSelection\<close> writes.  In a nil document a longer path crosses a missing value and
  the deletion of a single key does nothing, so \<open>null\<close> is written back.
\<close>

definition removeJSONSelection :: "selection_codec \<Rightarrow> bytes \<Rightarrow> string \<Rightarrow> selection_error + bytes" where
  "removeJSONSelection codec content selector =
     (case json_decode_map codec content of
        None \<Rightarrow> Inl SelectionDecode
      | Some document \<Rightarrow>
          (case remove_fields selector (case document of None \<Rightarrow> [] | Some m \<Rightarrow> m) (selector_fields selector) of
             Inl err \<Rightarrow> Inl err
           | Inr updated \<Rightarrow>
               (case sc_json_encode codec (case document of None \<Rightarrow> ConfigNil | Some _ \<Rightarrow> ConfigMap updated) of
                  None \<Rightarrow> Inl SelectionEncode
                | Some text \<Rightarrow> Inr text)))"

section \<open>TOML documents\<close>

definition decodeMaterializationTOML :: "selection_codec \<Rightarrow> bytes \<Rightarrow> selection_error + config_map" where
  "decodeMaterializationTOML codec content =
     (case sc_toml_decode codec content of
        None \<Rightarrow> Inl SelectionDecode
      | Some None \<Rightarrow> Inl SelectionNilDocument
      | Some (Some m) \<Rightarrow> Inr m)"

definition lookupTOMLSelection :: "config_map \<Rightarrow> string \<Rightarrow> selection_error + config_value option" where
  "lookupTOMLSelection document selector =
     lookup_fields selector (ConfigMap document) (selector_fields selector)"

definition canonicalTOMLSelection :: "selection_codec \<Rightarrow> config_value \<Rightarrow> string \<Rightarrow> selection_error + bytes" where
  "canonicalTOMLSelection codec val selector =
     (case sc_toml_encode codec
        (case val of ConfigMap m \<Rightarrow> m | _ \<Rightarrow> [(last (selector_fields selector), val)]) of
        None \<Rightarrow> Inl SelectionEncode
      | Some text \<Rightarrow> Inr text)"

definition decodeTOMLSelection :: "selection_codec \<Rightarrow> bytes \<Rightarrow> string \<Rightarrow> selection_error + config_value" where
  "decodeTOMLSelection codec content selector =
     (case decodeMaterializationTOML codec content of
        Inl err \<Rightarrow> Inl err
      | Inr document \<Rightarrow>
          (case lookupTOMLSelection document selector of
             Inl err \<Rightarrow> Inl err
           | Inr (Some val) \<Rightarrow> Inr val
           | Inr None \<Rightarrow>
               Inr (case (if length document = 1 then map_of document ''value'' else None) of
                      Some val \<Rightarrow> val
                    | None \<Rightarrow>
                        (case map_of document (last (selector_fields selector)) of
                           Some val \<Rightarrow> val
                         | None \<Rightarrow> ConfigMap document))))"

definition canonicalTOMLDesiredSelection :: "selection_codec \<Rightarrow> bytes \<Rightarrow> string \<Rightarrow> selection_error + bytes" where
  "canonicalTOMLDesiredSelection codec content selector =
     (case decodeTOMLSelection codec content selector of
        Inl err \<Rightarrow> Inl err
      | Inr val \<Rightarrow> canonicalTOMLSelection codec val selector)"

definition selectTOML :: "selection_codec \<Rightarrow> bytes \<Rightarrow> string \<Rightarrow> selection_error + bytes option" where
  "selectTOML codec content selector =
     (case decodeMaterializationTOML codec content of
        Inl err \<Rightarrow> Inl err
      | Inr document \<Rightarrow>
          (case lookupTOMLSelection document selector of
             Inl err \<Rightarrow> Inl err
           | Inr None \<Rightarrow> Inr None
           | Inr (Some val) \<Rightarrow> map_sum id Some (canonicalTOMLSelection codec val selector)))"

text \<open>Whether the current value is there and equal to the desired one in canonical form.\<close>

definition toml_unchanged ::
  "selection_codec \<Rightarrow> config_map \<Rightarrow> string \<Rightarrow> config_value \<Rightarrow> selection_error + bool" where
  "toml_unchanged codec document selector val =
     (case lookupTOMLSelection document selector of
        Inl err \<Rightarrow> Inl err
      | Inr None \<Rightarrow> Inr False
      | Inr (Some current) \<Rightarrow>
          (case canonicalTOMLSelection codec current selector of
             Inl err \<Rightarrow> Inl err
           | Inr currentCanonical \<Rightarrow>
               (case canonicalTOMLSelection codec val selector of
                  Inl err \<Rightarrow> Inl err
                | Inr desiredCanonical \<Rightarrow> Inr (currentCanonical = desiredCanonical))))"

definition toml_assign ::
  "selection_codec \<Rightarrow> config_map \<Rightarrow> string \<Rightarrow> config_value \<Rightarrow> selection_error + bytes" where
  "toml_assign codec document selector val =
     (case set_fields selector document (selector_fields selector) val of
        Inl err \<Rightarrow> Inl err
      | Inr merged \<Rightarrow>
          (case sc_toml_encode codec merged of None \<Rightarrow> Inl SelectionEncode | Some text \<Rightarrow> Inr text))"

definition mergeTOMLSelection ::
  "selection_codec \<Rightarrow> bytes option \<Rightarrow> string \<Rightarrow> bytes \<Rightarrow> selection_error + bytes" where
  "mergeTOMLSelection codec content selector desired =
     (case (case content of None \<Rightarrow> Inr [] | Some text \<Rightarrow> decodeMaterializationTOML codec text) of
        Inl err \<Rightarrow> Inl err
      | Inr document \<Rightarrow>
          (case decodeTOMLSelection codec desired selector of
             Inl err \<Rightarrow> Inl SelectionDesired
           | Inr val \<Rightarrow>
               (case content of
                  None \<Rightarrow> toml_assign codec document selector val
                | Some text \<Rightarrow>
                    (case toml_unchanged codec document selector val of
                       Inl err \<Rightarrow> Inl err
                     | Inr True \<Rightarrow> Inr text
                     | Inr False \<Rightarrow> toml_assign codec document selector val))))"

definition removeTOMLSelection :: "selection_codec \<Rightarrow> bytes \<Rightarrow> string \<Rightarrow> selection_error + bytes" where
  "removeTOMLSelection codec content selector =
     (case decodeMaterializationTOML codec content of
        Inl err \<Rightarrow> Inl err
      | Inr document \<Rightarrow>
          (case remove_fields selector document (selector_fields selector) of
             Inl err \<Rightarrow> Inl err
           | Inr updated \<Rightarrow>
               (case sc_toml_encode codec updated of None \<Rightarrow> Inl SelectionEncode | Some text \<Rightarrow> Inr text)))"

definition validateMaterializationSelector ::
  "selection_codec \<Rightarrow> string \<Rightarrow> string \<Rightarrow> bytes \<Rightarrow> bool" where
  "validateMaterializationSelector codec target selector content \<longleftrightarrow>
     validateMaterializationSelectorSyntax target selector
     \<and> (if selector = ''$''
         then (if FilepathExt target = ''.json'' then json_Valid content
               else if FilepathExt target = ''.toml''
               then (case decodeMaterializationTOML codec content of Inl _ \<Rightarrow> False | Inr _ \<Rightarrow> True)
               else True)
         else if FilepathExt target = ''.json'' then json_Valid content
         else if FilepathExt target \<noteq> ''.toml'' then False
         else (case decodeTOMLSelection codec content selector of Inl _ \<Rightarrow> False | Inr _ \<Rightarrow> True))"

section \<open>What the assignment changes\<close>

lemma lookup_set_same:
  "keys \<noteq> [] \<Longrightarrow> set_fields selector m keys val = Inr m' \<Longrightarrow>
   lookup_fields s (ConfigMap m') keys = Inr (Some val)"
proof (induction selector m keys val arbitrary: m' rule: set_fields.induct)
  case (3 selector m key f keys val)
  show ?case
  proof (cases "map_of m key")
    case None
    with 3 show ?thesis by (auto simp: map_sum_def split: sum.splits)
  next
    case (Some old)
    with 3 show ?thesis by (cases old) (auto simp: map_sum_def split: sum.splits)
  qed
qed auto

text \<open>A path that does not lead to the assigned one, nor the assigned one to it, keeps its value.\<close>

lemma diverging_Cons: "diverging (x # xs) (y # ys) \<longleftrightarrow> x \<noteq> y \<or> diverging xs ys"
  by (auto simp: diverging_def)

lemma diverging_nonempty: "diverging xs ys \<Longrightarrow> xs \<noteq> [] \<and> ys \<noteq> []"
  by (auto simp: diverging_def)

lemma lookup_set_other:
  assumes "set_fields selector m keys val = Inr m'" and "diverging keys others"
  shows "lookup_fields s (ConfigMap m') others = lookup_fields s (ConfigMap m) others"
  using assms
proof (induction selector m keys val arbitrary: m' others rule: set_fields.induct)
  case (2 selector m key val)
  then obtain o1 os where "others = o1 # os" "o1 \<noteq> key"
    by (cases others) (auto simp: diverging_def)
  with 2 show ?case by auto
next
  case (3 selector m key f keys val)
  from 3(4) diverging_nonempty obtain o1 os where others: "others = o1 # os" by (cases others) auto
  show ?case
  proof (cases "o1 = key")
    case False
    with 3(3) others show ?thesis
      by (auto simp: map_sum_def split: option.splits config_value.splits sum.splits)
  next
    case True
    with 3(4) others have rest: "diverging (f # keys) os" by (simp add: diverging_Cons)
    from this diverging_nonempty obtain o2 os' where os: "os = o2 # os'" by (cases os) auto
    show ?thesis
    proof (cases "map_of m key")
      case None
      with 3(3) obtain child where "set_fields selector [] (f # keys) val = Inr child"
          "m' = go_update key (ConfigMap child) m"
        by (auto simp: map_sum_def split: sum.splits)
      with 3(1) [OF None _ rest] None True others os show ?thesis by simp
    next
      case (Some old)
      with 3(3) obtain child child' where old: "old = ConfigMap child"
          "set_fields selector child (f # keys) val = Inr child'" "m' = go_update key (ConfigMap child') m"
        by (cases old) (auto simp: map_sum_def split: sum.splits)
      with 3(2) [OF Some old(1) _ rest] Some True others show ?thesis by simp
    qed
  qed
qed (simp add: diverging_def)

lemma lookup_remove_same:
  "keys \<noteq> [] \<Longrightarrow> remove_fields selector m keys = Inr m' \<Longrightarrow>
   lookup_fields s (ConfigMap m') keys = Inr None"
proof (induction selector m keys arbitrary: m' rule: remove_fields.induct)
  case (2 selector m key)
  then show ?case by (auto simp: go_delete_def map_of_filter_key)
next
  case (3 selector m key f keys)
  then show ?case by (auto simp: map_sum_def split: option.splits config_value.splits sum.splits)
qed simp

lemma lookup_remove_other:
  assumes "remove_fields selector m keys = Inr m'" and "diverging keys others"
  shows "lookup_fields s (ConfigMap m') others = lookup_fields s (ConfigMap m) others"
  using assms
proof (induction selector m keys arbitrary: m' others rule: remove_fields.induct)
  case (2 selector m key)
  then obtain o1 os where "others = o1 # os" "o1 \<noteq> key"
    by (cases others) (auto simp: diverging_def)
  with 2 show ?case by (auto simp: go_delete_def map_of_filter_key)
next
  case (3 selector m key f keys)
  from 3(3) diverging_nonempty obtain o1 os where others: "others = o1 # os" by (cases others) auto
  from 3(2) obtain child child' where child: "map_of m key = Some (ConfigMap child)"
      "remove_fields selector child (f # keys) = Inr child'" "m' = go_update key (ConfigMap child') m"
    by (auto simp: map_sum_def split: option.splits config_value.splits sum.splits)
  show ?case
  proof (cases "o1 = key")
    case True
    with 3(3) others have "diverging (f # keys) os" by (simp add: diverging_Cons)
    with 3(1) [OF child(1) _ child(2)] True child others show ?thesis by simp
  qed (use child others in simp)
qed (simp add: diverging_def)

section \<open>Ownership of selections\<close>

text \<open>
  The change a Component may make to the document it shares: its own selection gets the new value (none when
  it is removed) and every selector that does not overlap finds what it found before.
\<close>

definition owned_change :: "string \<Rightarrow> config_value option \<Rightarrow> config_map \<Rightarrow> config_map \<Rightarrow> bool" where
  "owned_change selector val m m' \<longleftrightarrow>
     lookup_fields selector (ConfigMap m') (selector_fields selector) = Inr val
     \<and> (\<forall>other. strip_prefix ''$.'' other \<noteq> None \<and> \<not> MaterializationSelectorsOverlap selector other \<longrightarrow>
          lookup_fields other (ConfigMap m') (selector_fields other)
          = lookup_fields other (ConfigMap m) (selector_fields other))"

lemma set_fields_owned:
  assumes "strip_prefix ''$.'' selector \<noteq> None"
    and "set_fields selector m (selector_fields selector) val = Inr merged"
  shows "owned_change selector (Some val) m merged"
  unfolding owned_change_def
  using lookup_set_same [OF _ assms(2)] lookup_set_other [OF assms(2)] separate_selectors_diverge [OF assms(1)]
  by simp

lemma remove_fields_owned:
  assumes "strip_prefix ''$.'' selector \<noteq> None"
    and "remove_fields selector m (selector_fields selector) = Inr updated"
  shows "owned_change selector None m updated"
  unfolding owned_change_def
  using lookup_remove_same [OF _ assms(2)] lookup_remove_other [OF assms(2)] separate_selectors_diverge [OF assms(1)]
  by simp

text \<open>The document a merge starts from: the empty one when there is no file.\<close>

definition json_document :: "selection_codec \<Rightarrow> bytes option \<Rightarrow> config_map \<Rightarrow> bool" where
  "json_document codec content m \<longleftrightarrow>
     (case content of None \<Rightarrow> m = [] | Some text \<Rightarrow> sc_json_decode codec text = Some (ConfigMap m))"

definition toml_document :: "selection_codec \<Rightarrow> bytes option \<Rightarrow> config_map \<Rightarrow> bool" where
  "toml_document codec content m \<longleftrightarrow>
     (case content of None \<Rightarrow> m = [] | Some text \<Rightarrow> decodeMaterializationTOML codec text = Inr m)"

lemma mergeJSONSelection_cases:
  assumes "mergeJSONSelection codec content selector desired = Inr text"
  obtains m val merged where "json_document codec content m"
    "sc_json_decode codec desired = Some val" "set_fields selector m (selector_fields selector) val = Inr merged"
    "sc_json_encode codec (ConfigMap merged) = Some text"
  using assms
  by (auto simp: mergeJSONSelection_def json_decode_map_def json_document_def
      split: option.splits sum.splits config_value.splits)

lemma removeJSONSelection_cases:
  assumes "removeJSONSelection codec content selector = Inr text"
  obtains (Nil) "sc_json_decode codec content = Some ConfigNil" "sc_json_encode codec ConfigNil = Some text"
  | (Map) m updated where "sc_json_decode codec content = Some (ConfigMap m)"
    "remove_fields selector m (selector_fields selector) = Inr updated"
    "sc_json_encode codec (ConfigMap updated) = Some text"
  using assms
  by (auto simp: removeJSONSelection_def json_decode_map_def
      split: option.splits sum.splits config_value.splits)

lemma mergeTOMLSelection_cases:
  assumes "mergeTOMLSelection codec content selector desired = Inr text"
  obtains (Kept) m val where "toml_document codec content m" "decodeTOMLSelection codec desired selector = Inr val"
    "content = Some text" "toml_unchanged codec m selector val = Inr True"
  | (Written) m val merged where "toml_document codec content m"
    "decodeTOMLSelection codec desired selector = Inr val"
    "set_fields selector m (selector_fields selector) val = Inr merged" "sc_toml_encode codec merged = Some text"
  using assms
  by (auto simp: mergeTOMLSelection_def toml_document_def toml_assign_def
      split: option.splits sum.splits bool.splits)

lemma removeTOMLSelection_cases:
  assumes "removeTOMLSelection codec content selector = Inr text"
  obtains m updated where "decodeMaterializationTOML codec content = Inr m"
    "remove_fields selector m (selector_fields selector) = Inr updated" "sc_toml_encode codec updated = Some text"
  using assms by (auto simp: removeTOMLSelection_def split: option.splits sum.splits)


section \<open>A small codec\<close>

text \<open>Two documents with two texts each way, enough to run the functions above.\<close>

definition tiny_documents :: "(string \<times> config_value) list" where
  "tiny_documents =
     [(''{1}'', ConfigMap [(''a'', ConfigBool True), (''b'', ConfigBool True)]),
      (''{2}'', ConfigMap [(''a'', ConfigBool False), (''b'', ConfigBool True)]),
      (''false'', ConfigBool False), (''true'', ConfigBool True)]"

definition tiny_codec :: selection_codec where
  "tiny_codec =
     \<lparr>sc_json_decode = (\<lambda>text. if text = '' false'' then Some (ConfigBool False) else map_of tiny_documents text),
      sc_json_encode = map_of (map (\<lambda>(text, v). (v, text)) tiny_documents),
      sc_toml_decode = (\<lambda>_. None), sc_toml_encode = (\<lambda>_. None)\<rparr>"

lemma tiny_merge: "mergeJSONSelection tiny_codec (Some ''{1}'') ''$.a'' '' false'' = Inr ''{2}''"
  by (simp add: mergeJSONSelection_def json_decode_map_def tiny_codec_def tiny_documents_def selector_fields_def)


end
