(* ===== verification/Guest_Files.thy ===== *)
theory Guest_Files
  imports Durable_Steps Config_Selection
begin

text \<open>
  The files of a State Component root as the guest reads, writes, snapshots and restores them: the lower
  half of \<open>apps/guest/profile_materialization.go\<close>.  Every call of \<open>os.Root\<close> is an event with its answer; the
  file system is an argument that answers from the calls so far, so it may fail and change at any moment.
  Each function takes what its caller does with an error and with the result.  Closing a file that was only
  read, and the roots at the end, has no effect the code looks at and is left out.
\<close>

section \<open>Calls of the file system\<close>

datatype file_kind = RegularFile | DirectoryFile | SymbolicLink | OtherFile

text \<open>\<open>fi_ID\<close> is what \<open>os.SameFile\<close> compares.\<close>

record file_info =
  fi_ID :: nat
  fi_Kind :: file_kind
  fi_Perm :: file_mode

datatype lstat_error = NotExist | LstatFailed string

text \<open>One call of the function \<open>fs.WalkDir\<close> is given: the path, the error or the type of the entry.\<close>

record walk_visit =
  wv_Name :: string
  wv_Error :: "string option"
  wv_Kind :: file_kind

datatype fs_event =
    Lstat materialization_root string "lstat_error + file_info"
  | Opened materialization_root string "string + nat"
  | StatHandle nat "string + file_info"
  | ReadHandle nat "string + bytes"
  | Walked materialization_root string "walk_visit list"
  | ReadPath materialization_root string "string + bytes"
  | EntryInfo materialization_root string "string + file_info"
  | MadeAll materialization_root string file_mode "string option"
  | Made materialization_root string file_mode "string option"
  | RandomName "string + bytes"
  | CreatedFile materialization_root string file_mode "string + nat"
  | HandleChmod nat file_mode "string option"
  | HandleWrite nat bytes "string option"
  | HandleSync nat "string option"
  | HandleClose nat "string option"
  | Linked materialization_root string string "string option"
  | Renamed materialization_root string string "string option"
  | Removed materialization_root string "string option"
  | RemovedAll materialization_root string "string option"
  | Chmodded materialization_root string file_mode "string option"
  | HostLstat string "lstat_error + file_info"
  | OpenedRoot string "string option"
  | RootStat materialization_root "string + file_info"
  | Counted string

type_synonym fs_trace = "fs_event list"

record guest_fs =
  g_lstat :: "fs_trace \<Rightarrow> materialization_root \<Rightarrow> string \<Rightarrow> lstat_error + file_info"
  g_open :: "fs_trace \<Rightarrow> materialization_root \<Rightarrow> string \<Rightarrow> string + nat"
  g_stat :: "fs_trace \<Rightarrow> nat \<Rightarrow> string + file_info"
  g_read_handle :: "fs_trace \<Rightarrow> nat \<Rightarrow> string + bytes"
  g_walk :: "fs_trace \<Rightarrow> materialization_root \<Rightarrow> string \<Rightarrow> walk_visit list"
  g_read :: "fs_trace \<Rightarrow> materialization_root \<Rightarrow> string \<Rightarrow> string + bytes"
  g_info :: "fs_trace \<Rightarrow> materialization_root \<Rightarrow> string \<Rightarrow> string + file_info"
  g_mkdir_all :: "fs_trace \<Rightarrow> materialization_root \<Rightarrow> string \<Rightarrow> file_mode \<Rightarrow> string option"
  g_mkdir :: "fs_trace \<Rightarrow> materialization_root \<Rightarrow> string \<Rightarrow> file_mode \<Rightarrow> string option"
  g_random :: "fs_trace \<Rightarrow> string + bytes"
  g_create :: "fs_trace \<Rightarrow> materialization_root \<Rightarrow> string \<Rightarrow> file_mode \<Rightarrow> string + nat"
  g_handle_chmod :: "fs_trace \<Rightarrow> nat \<Rightarrow> file_mode \<Rightarrow> string option"
  g_write :: "fs_trace \<Rightarrow> nat \<Rightarrow> bytes \<Rightarrow> string option"
  g_sync :: "fs_trace \<Rightarrow> nat \<Rightarrow> string option"
  g_close :: "fs_trace \<Rightarrow> nat \<Rightarrow> string option"
  g_link :: "fs_trace \<Rightarrow> materialization_root \<Rightarrow> string \<Rightarrow> string \<Rightarrow> string option"
  g_rename :: "fs_trace \<Rightarrow> materialization_root \<Rightarrow> string \<Rightarrow> string \<Rightarrow> string option"
  g_remove :: "fs_trace \<Rightarrow> materialization_root \<Rightarrow> string \<Rightarrow> string option"
  g_remove_all :: "fs_trace \<Rightarrow> materialization_root \<Rightarrow> string \<Rightarrow> string option"
  g_chmod :: "fs_trace \<Rightarrow> materialization_root \<Rightarrow> string \<Rightarrow> file_mode \<Rightarrow> string option"
  g_host_lstat :: "fs_trace \<Rightarrow> string \<Rightarrow> lstat_error + file_info"
  g_open_root :: "fs_trace \<Rightarrow> string \<Rightarrow> string option"
  g_root_stat :: "fs_trace \<Rightarrow> materialization_root \<Rightarrow> string + file_info"

datatype file_error =
    FileSystem string
  | NotRegularFile
  | NotRealDirectory
  | UnsafeEntry
  | ChangedWhileOpening
  | ChangedWhileReading
  | NotSafeDirectory
  | SelectionFailed selection_error

text \<open>A call whose result is thrown away.\<close>

definition ignoring ::
  "(fs_trace \<Rightarrow> string option) \<Rightarrow> (string option \<Rightarrow> fs_event) \<Rightarrow> (fs_event, 'e, 'a) durable
   \<Rightarrow> (fs_event, 'e, 'a) durable" where
  "ignoring source event continue = run_void source event (\<lambda>_. continue) continue"

section \<open>Reading\<close>

definition readMaterializedFile ::
  "guest_fs \<Rightarrow> materialization_root \<Rightarrow> string \<Rightarrow> (file_error \<Rightarrow> (fs_event, 'e, 'a) durable)
   \<Rightarrow> (bytes option \<Rightarrow> (fs_event, 'e, 'a) durable) \<Rightarrow> (fs_event, 'e, 'a) durable" where
  "readMaterializedFile fs root target onError continue =
     run_step (\<lambda>h. g_lstat fs h root target) (Lstat root target)
       (\<lambda>err. case err of NotExist \<Rightarrow> continue None | LstatFailed e \<Rightarrow> onError (FileSystem e))
       (\<lambda>info.
         if fi_Kind info \<noteq> RegularFile then onError NotRegularFile
         else run_step (\<lambda>h. g_open fs h root target) (Opened root target) (\<lambda>e. onError (FileSystem e))
           (\<lambda>file. run_step (\<lambda>h. g_stat fs h file) (StatHandle file) (\<lambda>_. onError ChangedWhileOpening)
             (\<lambda>opened.
               if fi_ID info \<noteq> fi_ID opened then onError ChangedWhileOpening
               else run_step (\<lambda>h. g_read_handle fs h file) (ReadHandle file) (\<lambda>e. onError (FileSystem e))
                 (\<lambda>content. run_step (\<lambda>h. g_lstat fs h root target) (Lstat root target)
                   (\<lambda>_. onError ChangedWhileReading)
                   (\<lambda>current.
                     if fi_ID opened \<noteq> fi_ID current then onError ChangedWhileReading
                     else continue (Some content))))))"

definition materializedFileMode ::
  "guest_fs \<Rightarrow> materialization_root \<Rightarrow> string \<Rightarrow> (file_error \<Rightarrow> (fs_event, 'e, 'a) durable)
   \<Rightarrow> (file_mode \<Rightarrow> (fs_event, 'e, 'a) durable) \<Rightarrow> (fs_event, 'e, 'a) durable" where
  "materializedFileMode fs root target onError continue =
     run_step (\<lambda>h. g_lstat fs h root target) (Lstat root target)
       (\<lambda>err. onError (FileSystem (case err of NotExist \<Rightarrow> ''file does not exist'' | LstatFailed e \<Rightarrow> e)))
       (\<lambda>info. if fi_Kind info \<noteq> RegularFile then onError NotRegularFile else continue (Perm (fi_Perm info)))"

text \<open>The function both walks give to \<open>fs.WalkDir\<close>, over the visits it makes.\<close>

fun walk_files ::
  "guest_fs \<Rightarrow> materialization_root \<Rightarrow> string \<Rightarrow> materialization_file list \<Rightarrow> walk_visit list
   \<Rightarrow> (file_error \<Rightarrow> (fs_event, 'e, 'a) durable) \<Rightarrow> (materialization_file list \<Rightarrow> (fs_event, 'e, 'a) durable)
   \<Rightarrow> (fs_event, 'e, 'a) durable" where
  "walk_files fs root target files [] onError continue = continue files"
| "walk_files fs root target files (visit # visits) onError continue =
     (case wv_Error visit of
        Some e \<Rightarrow> onError (FileSystem e)
      | None \<Rightarrow>
          if wv_Name visit = target \<or> wv_Kind visit = DirectoryFile
          then walk_files fs root target files visits onError continue
          else if wv_Kind visit \<noteq> RegularFile then onError UnsafeEntry
          else run_step (\<lambda>h. g_read fs h root (wv_Name visit)) (ReadPath root (wv_Name visit))
            (\<lambda>e. onError (FileSystem e))
            (\<lambda>content. run_step (\<lambda>h. g_info fs h root (wv_Name visit)) (EntryInfo root (wv_Name visit))
              (\<lambda>e. onError (FileSystem e))
              (\<lambda>info. walk_files fs root target
                 (files @ [\<lparr>mf_Path = (case strip_prefix (target @ ''/'') (wv_Name visit) of
                                         None \<Rightarrow> wv_Name visit | Some relative \<Rightarrow> relative),
                           mf_Content = content, mf_Mode = Perm (fi_Perm info)\<rparr>])
                 visits onError continue)))"

definition observeMaterializedDirectory ::
  "guest_fs \<Rightarrow> materialization_root \<Rightarrow> string \<Rightarrow> (file_error \<Rightarrow> (fs_event, 'e, 'a) durable)
   \<Rightarrow> (string \<Rightarrow> (fs_event, 'e, 'a) durable) \<Rightarrow> (fs_event, 'e, 'a) durable" where
  "observeMaterializedDirectory fs root target onError continue =
     run_step (\<lambda>h. g_lstat fs h root target) (Lstat root target)
       (\<lambda>err. case err of NotExist \<Rightarrow> continue [] | LstatFailed e \<Rightarrow> onError (FileSystem e))
       (\<lambda>info.
         if fi_Kind info \<noteq> DirectoryFile then onError NotRealDirectory
         else read_from (\<lambda>h. g_walk fs h root target) (\<lambda>visits.
           emit True (Walked root target visits)
             (walk_files fs root target [] visits onError
               (\<lambda>files. continue (DirectoryMaterializationDigest files)))))"

definition select_part ::
  "selection_codec \<Rightarrow> string \<Rightarrow> bytes \<Rightarrow> string \<Rightarrow> selection_error + bytes option" where
  "select_part codec target content selector =
     (if FilepathExt target = ''.toml'' then selectTOML codec content selector
      else selectJSON codec content selector)"

definition observeMaterializedFile ::
  "guest_fs \<Rightarrow> selection_codec \<Rightarrow> materialization_root \<Rightarrow> string \<Rightarrow> string
   \<Rightarrow> (file_error \<Rightarrow> (fs_event, 'e, 'a) durable) \<Rightarrow> (string \<Rightarrow> (fs_event, 'e, 'a) durable)
   \<Rightarrow> (fs_event, 'e, 'a) durable" where
  "observeMaterializedFile fs codec root target selector onError continue =
     readMaterializedFile fs root target onError (\<lambda>found.
       case found of
         None \<Rightarrow> continue []
       | Some content \<Rightarrow>
           if selector \<noteq> [] \<and> selector \<noteq> ''$''
           then (case select_part codec target content selector of
                   Inl err \<Rightarrow> onError (SelectionFailed err)
                 | Inr None \<Rightarrow> continue []
                 | Inr (Some selected) \<Rightarrow> continue (MaterializationContentDigest selected))
           else continue (MaterializationContentDigest content))"

definition observeMaterialization ::
  "guest_fs \<Rightarrow> selection_codec \<Rightarrow> materialization_root \<Rightarrow> string \<Rightarrow> string \<Rightarrow> bool
   \<Rightarrow> (file_error \<Rightarrow> (fs_event, 'e, 'a) durable) \<Rightarrow> (string \<Rightarrow> (fs_event, 'e, 'a) durable)
   \<Rightarrow> (fs_event, 'e, 'a) durable" where
  "observeMaterialization fs codec root target selector directory onError continue =
     (if directory then observeMaterializedDirectory fs root target onError continue
      else observeMaterializedFile fs codec root target selector onError continue)"

section \<open>Writing\<close>

definition materialization_name :: "bytes \<Rightarrow> string" where
  "materialization_name val = ''.sshai-materialization-'' @ hex_bytes val"

definition writeMaterializedFile ::
  "guest_fs \<Rightarrow> materialization_root \<Rightarrow> string \<Rightarrow> bytes \<Rightarrow> file_mode \<Rightarrow> bool
   \<Rightarrow> (file_error \<Rightarrow> (fs_event, 'e, 'a) durable) \<Rightarrow> (fs_event, 'e, 'a) durable
   \<Rightarrow> (fs_event, 'e, 'a) durable" where
  "writeMaterializedFile fs root target content mode create onError continue =
     (let directory = path_Dir target;
          writing =
            run_step (g_random fs) RandomName (\<lambda>e. onError (FileSystem e)) (\<lambda>val.
              let temporary = path_Join directory (materialization_name val);
                  cleanup = ignoring (\<lambda>h. g_remove fs h root temporary) (Removed root temporary);
                  failed = (\<lambda>e. cleanup (onError (FileSystem e)))
              in run_step (\<lambda>h. g_create fs h root temporary mode) (CreatedFile root temporary mode)
                (\<lambda>e. onError (FileSystem e))
                (\<lambda>file.
                  let closing = (\<lambda>e. ignoring (\<lambda>h. g_close fs h file) (HandleClose file) (failed e))
                  in run_void (\<lambda>h. g_handle_chmod fs h file mode) (HandleChmod file mode) closing
                    (run_void (\<lambda>h. g_write fs h file content) (HandleWrite file content) closing
                      (run_void (\<lambda>h. g_sync fs h file) (HandleSync file) closing
                        (run_void (\<lambda>h. g_close fs h file) (HandleClose file) failed
                          (if create
                           then run_void (\<lambda>h. g_link fs h root temporary target) (Linked root temporary target)
                                  failed (cleanup continue)
                           else run_void (\<lambda>h. g_rename fs h root temporary target) (Renamed root temporary target)
                                  failed (cleanup continue)))))))
      in if directory \<noteq> ''.''
         then run_void (\<lambda>h. g_mkdir_all fs h root directory 448) (MadeAll root directory 448)
                (\<lambda>e. onError (FileSystem e)) writing
         else writing)"

fun write_files ::
  "guest_fs \<Rightarrow> materialization_root \<Rightarrow> string \<Rightarrow> materialization_file list
   \<Rightarrow> (file_error \<Rightarrow> (fs_event, 'e, 'a) durable) \<Rightarrow> (fs_event, 'e, 'a) durable
   \<Rightarrow> (fs_event, 'e, 'a) durable" where
  "write_files fs root temporary [] onError continue = continue"
| "write_files fs root temporary (file # files) onError continue =
     writeMaterializedFile fs root (path_Join temporary (mf_Path file)) (mf_Content file) (mf_Mode file) True
       onError (write_files fs root temporary files onError continue)"

text \<open>The exchange of the finished temporary directory with the target.\<close>

definition replace_directory ::
  "guest_fs \<Rightarrow> materialization_root \<Rightarrow> string \<Rightarrow> string \<Rightarrow> string
   \<Rightarrow> (file_error \<Rightarrow> (fs_event, 'e, 'a) durable) \<Rightarrow> (fs_event, 'e, 'a) durable
   \<Rightarrow> (fs_event, 'e, 'a) durable" where
  "replace_directory fs root parent temporary target onError continue =
     run_step (\<lambda>h. g_lstat fs h root target) (Lstat root target)
       (\<lambda>err. case err of
          NotExist \<Rightarrow> run_void (\<lambda>h. g_rename fs h root temporary target) (Renamed root temporary target)
            (\<lambda>e. onError (FileSystem e)) continue
        | LstatFailed e \<Rightarrow> onError NotSafeDirectory)
       (\<lambda>info.
         if fi_Kind info \<noteq> DirectoryFile then onError NotSafeDirectory
         else run_step (g_random fs) RandomName (\<lambda>e. onError (FileSystem e)) (\<lambda>val.
           let backup = path_Join parent (materialization_name val)
           in run_void (\<lambda>h. g_rename fs h root target backup) (Renamed root target backup)
             (\<lambda>e. onError (FileSystem e))
             (run_void (\<lambda>h. g_rename fs h root temporary target) (Renamed root temporary target)
               (\<lambda>e. ignoring (\<lambda>h. g_rename fs h root backup target) (Renamed root backup target)
                  (onError (FileSystem e)))
               (run_void (\<lambda>h. g_remove_all fs h root backup) (RemovedAll root backup)
                 (\<lambda>e. onError (FileSystem e)) continue))))"

definition writeMaterializedDirectory ::
  "guest_fs \<Rightarrow> materialization_root \<Rightarrow> string \<Rightarrow> materialization_file list
   \<Rightarrow> (file_error \<Rightarrow> (fs_event, 'e, 'a) durable) \<Rightarrow> (fs_event, 'e, 'a) durable
   \<Rightarrow> (fs_event, 'e, 'a) durable" where
  "writeMaterializedDirectory fs root target files onError continue =
     (let parent = path_Dir target;
          writing =
            run_step (g_random fs) RandomName (\<lambda>e. onError (FileSystem e)) (\<lambda>val.
              let temporary = path_Join parent (materialization_name val);
                  cleanup = ignoring (\<lambda>h. g_remove_all fs h root temporary) (RemovedAll root temporary);
                  failed = (\<lambda>e. cleanup (onError e))
              in run_void (\<lambda>h. g_mkdir fs h root temporary 448) (Made root temporary 448)
                (\<lambda>e. onError (FileSystem e))
                (write_files fs root temporary files failed
                  (replace_directory fs root parent temporary target failed (cleanup continue))))
      in if parent \<noteq> ''.''
         then run_void (\<lambda>h. g_mkdir_all fs h root parent 448) (MadeAll root parent 448)
                (\<lambda>e. onError (FileSystem e)) writing
         else writing)"

text \<open>\<open>removeJSONSelection\<close> and \<open>removeTOMLSelection\<close> on a file.\<close>

definition remove_selection ::
  "guest_fs \<Rightarrow> selection_codec \<Rightarrow> materialization_root \<Rightarrow> string \<Rightarrow> string
   \<Rightarrow> (file_error \<Rightarrow> (fs_event, 'e, 'a) durable) \<Rightarrow> (fs_event, 'e, 'a) durable
   \<Rightarrow> (fs_event, 'e, 'a) durable" where
  "remove_selection fs codec root target selector onError continue =
     materializedFileMode fs root target onError (\<lambda>mode.
       readMaterializedFile fs root target onError (\<lambda>found.
         case found of
           None \<Rightarrow> continue
         | Some content \<Rightarrow>
             (case (if FilepathExt target = ''.toml'' then removeTOMLSelection codec content selector
                    else removeJSONSelection codec content selector) of
                Inl err \<Rightarrow> onError (SelectionFailed err)
              | Inr updated \<Rightarrow> writeMaterializedFile fs root target updated mode False onError continue)))"

section \<open>Backups\<close>

record materialization_backup =
  bk_root :: materialization_root
  bk_target :: string
  bk_selector :: string
  bk_directory :: bool
  bk_existed :: bool
  bk_mode :: file_mode
  bk_content :: bytes
  bk_files :: "materialization_file list"

definition snapshotMaterialization ::
  "guest_fs \<Rightarrow> materialization_root \<Rightarrow> string \<Rightarrow> string \<Rightarrow> bool
   \<Rightarrow> (file_error \<Rightarrow> (fs_event, 'e, 'a) durable) \<Rightarrow> (materialization_backup \<Rightarrow> (fs_event, 'e, 'a) durable)
   \<Rightarrow> (fs_event, 'e, 'a) durable" where
  "snapshotMaterialization fs root target selector directory onError continue =
     (let backup = \<lparr>bk_root = root, bk_target = target, bk_selector = selector, bk_directory = directory,
                    bk_existed = False, bk_mode = 0, bk_content = [], bk_files = []\<rparr>
      in run_step (\<lambda>h. g_lstat fs h root target) (Lstat root target)
        (\<lambda>err. case err of NotExist \<Rightarrow> continue backup | LstatFailed e \<Rightarrow> onError (FileSystem e))
        (\<lambda>info.
          let found = backup\<lparr>bk_existed := True, bk_mode := Perm (fi_Perm info)\<rparr>
          in if directory
             then (if fi_Kind info \<noteq> DirectoryFile then onError NotRealDirectory
                   else read_from (\<lambda>h. g_walk fs h root target) (\<lambda>visits.
                     emit True (Walked root target visits)
                       (walk_files fs root target [] visits onError (\<lambda>files. continue (found\<lparr>bk_files := files\<rparr>)))))
             else if fi_Kind info \<noteq> RegularFile then onError NotRegularFile
             else run_step (\<lambda>h. g_read fs h root target) (ReadPath root target) (\<lambda>e. onError (FileSystem e))
                    (\<lambda>content. continue (found\<lparr>bk_content := content\<rparr>))))"

definition removeMaterializationTarget ::
  "guest_fs \<Rightarrow> materialization_root \<Rightarrow> string \<Rightarrow> (file_error \<Rightarrow> (fs_event, 'e, 'a) durable)
   \<Rightarrow> (fs_event, 'e, 'a) durable \<Rightarrow> (fs_event, 'e, 'a) durable" where
  "removeMaterializationTarget fs root target onError continue =
     run_step (\<lambda>h. g_lstat fs h root target) (Lstat root target)
       (\<lambda>err. case err of NotExist \<Rightarrow> continue | LstatFailed e \<Rightarrow> onError (FileSystem e))
       (\<lambda>info.
         if fi_Kind info = SymbolicLink \<or> fi_Kind info = DirectoryFile
         then run_void (\<lambda>h. g_remove_all fs h root target) (RemovedAll root target)
                (\<lambda>e. onError (FileSystem e)) continue
         else run_void (\<lambda>h. g_remove fs h root target) (Removed root target)
                (\<lambda>e. onError (FileSystem e)) continue)"

definition restore_backup ::
  "guest_fs \<Rightarrow> materialization_backup \<Rightarrow> (file_error \<Rightarrow> (fs_event, 'e, 'a) durable)
   \<Rightarrow> (fs_event, 'e, 'a) durable \<Rightarrow> (fs_event, 'e, 'a) durable" where
  "restore_backup fs backup onError continue =
     (let root = bk_root backup; target = bk_target backup; mode = bk_mode backup;
          chmod = run_void (\<lambda>h. g_chmod fs h root target mode) (Chmodded root target mode) (\<lambda>e. onError (FileSystem e))
      in removeMaterializationTarget fs root target onError
        (if \<not> bk_existed backup then continue
         else if bk_directory backup
         then run_void (\<lambda>h. g_mkdir_all fs h root target mode) (MadeAll root target mode)
                (\<lambda>e. onError (FileSystem e))
                (chmod (if bk_files backup = [] then continue
                        else writeMaterializedDirectory fs root target (bk_files backup) onError (chmod continue)))
         else writeMaterializedFile fs root target (bk_content backup) mode True onError continue))"

text \<open>\<open>rollbackMaterializations\<close>, from the last backup; every error is kept and the loop goes on.\<close>

fun restore_all ::
  "guest_fs \<Rightarrow> file_error list \<Rightarrow> materialization_backup list
   \<Rightarrow> (file_error list \<Rightarrow> (fs_event, 'e, 'a) durable) \<Rightarrow> (fs_event, 'e, 'a) durable" where
  "restore_all fs errs [] continue = continue errs"
| "restore_all fs errs (backup # backups) continue =
     restore_backup fs backup (\<lambda>err. restore_all fs (errs @ [err]) backups continue)
       (restore_all fs errs backups continue)"

definition rollbackMaterializations ::
  "guest_fs \<Rightarrow> materialization_backup list \<Rightarrow> (file_error list \<Rightarrow> (fs_event, 'e, 'a) durable)
   \<Rightarrow> (fs_event, 'e, 'a) durable" where
  "rollbackMaterializations fs backups continue = restore_all fs [] (rev backups) continue"

end
