(* ===== verification/Guest_Apply.thy ===== *)
theory Guest_Apply
  imports Guest_Files
begin

text \<open>
  The engine that applies a batch of Component plans to the files of a guest, the upper half of
  \<open>apps/guest/profile_materialization.go\<close>: every item is validated, observed and planned before anything is
  written; a batch with drift, a conflict or a missing consent is refused as a whole; and when a write
  fails the files are put back from snapshots.
\<close>

section \<open>Data\<close>

record materialization_batch =
  pb_HomeRoot :: string
  pb_WorkspaceRoot :: string
  pb_Intent :: plan_intent
  pb_Items :: "profile_materialization list"
  pb_Approvals :: "(string \<times> approval_marker) list"
  pb_Metrics :: bool

record planned_materialization =
  pl_result :: materialization_result
  pl_root :: materialization_root
  pl_content :: bytes
  pl_mode :: file_mode
  pl_files :: "materialization_file list"
  pl_directory :: bool

datatype item_error =
    ItemIdentityRequired
  | ItemKindInvalid component_type
  | ItemSizeInvalid
  | ItemModeInvalid
  | ItemSizeMismatch
  | ItemDigestMismatch
  | ItemNoFiles
  | ItemDirectorySelector
  | ItemPathEscapes string
  | ItemFileModeInvalid string
  | ItemTargetEscapes string
  | ItemSelectorUnsupported string
  | ItemDigestInvalid
  | ItemNotMetadataOnly
  | ItemModeUnsupported materialization_mode
  | ItemProjectNotSeeded
  | ItemRequirementInvalid
  | ItemPlanRefused plan_error
  | ItemRootUnsupported materialization_root
  | ItemRootNotClean
  | ItemRootUnsafe
  | ItemRootChanged
  | ItemFile file_error
  | ItemObservationChanged

datatype apply_error =
    ObservationChangedBeforeMutation string
  | MutationFailed string file_error

datatype guest_error =
    BatchIntentUnsupported plan_intent
  | BatchIdentityDiffers string string
  | BatchDuplicateIdentity string
  | BatchDuplicateComponent string
  | BatchSelectorsOverlap string string string
  | BatchPlanFailed string item_error
  | BatchBlocked string plan_operation
  | BatchSnapshotFailed string file_error
  | BatchApplyFailed apply_error
  | BatchRollbackFailed apply_error "file_error list"

definition materializationIsDirectory :: "profile_materialization \<Rightarrow> bool" where
  "materializationIsDirectory item \<longleftrightarrow> pm_Directory item \<or> pm_Files item \<noteq> []"

definition effective_selector :: "string \<Rightarrow> string" where
  "effective_selector selector = (if selector = [] then ''$'' else selector)"

definition materialization_result_of ::
  "profile_materialization \<Rightarrow> plan_operation \<Rightarrow> string \<Rightarrow> string \<Rightarrow> materialization_result" where
  "materialization_result_of item operation lastApplied observed =
     (let adapter = (if pm_Mode item = MaterializationReferenced then ''reference''
                     else if pm_AdapterID item = [] then ''file'' else pm_AdapterID item);
          adapterVersion = (if pm_AdapterVersion item = [] then ''v1'' else pm_AdapterVersion item)
      in \<lparr>mr_ID = pm_ID item, mr_LockID = pm_LockID item, mr_LockDigest = pm_LockDigest item,
          mr_CapsuleDigest = pm_CapsuleDigest item, mr_ComponentID = pm_ComponentID item,
          mr_ComponentDigest = pm_ComponentDigest item, mr_Adapter = adapter, mr_AdapterID = adapter,
          mr_AdapterVersion = adapterVersion, mr_TargetAgentVersion = pm_TargetAgentVersion item,
          mr_Scope = pm_Scope item, mr_NonSecretOverridesDigest = pm_NonSecretOverridesDigest item,
          mr_SecretVersionIdentifiers = clone_slice (pm_SecretVersionIdentifiers item),
          mr_EffectiveCacheKey = pm_EffectiveCacheKey item, mr_Mode = pm_Mode item, mr_Root = pm_Root item,
          mr_Target = pm_Target item, mr_Selector = effective_selector (pm_Selector item),
          mr_Directory = materializationIsDirectory item, mr_FilePaths = clone_slice (pm_FilePaths item),
          mr_DesiredDigest = pm_ContentDigest item, mr_LastAppliedDigest = lastApplied,
          mr_ObservedDigest = observed, mr_Operation = operation,
          mr_RequirementState = pm_RequirementState item, mr_ApprovalRequired = pm_ApprovalRequired item,
          mr_ApprovalReason = pm_ApprovalReason item,
          mr_CredentialRequirementDigest = pm_CredentialRequirementDigest item\<rparr>)"

definition materializationResults :: "planned_materialization list \<Rightarrow> materialization_result list" where
  "materializationResults plans = map pl_result plans"

section \<open>Consent\<close>

definition materializationApprovalPolicy :: "profile_materialization \<Rightarrow> string option" where
  "materializationApprovalPolicy item =
     (if pm_Kind item = ComponentHook \<or> pm_Kind item = ComponentExtension
      then Some ''hook and extension Components require explicit consent''
      else if pm_Kind item = ComponentPermissionPolicy
      then Some ''permission-policy Component requires explicit consent''
      else if pm_Kind item = ComponentIntegration then Some ''integration Component requires explicit consent''
      else if pm_TrustClass item = TrustPermission then Some ''permission Component requires explicit consent''
      else None)"

definition approvalGranted :: "(string \<times> approval_marker) list \<Rightarrow> profile_materialization \<Rightarrow> bool" where
  "approvalGranted markers item =
     (case map_of markers (pm_ComponentID item) of
        None \<Rightarrow> False
      | Some marker \<Rightarrow>
          if am_ComponentID marker \<noteq> pm_ComponentID item \<or> am_ComponentDigest marker \<noteq> pm_ComponentDigest item
          then False
          else if am_LockID marker \<noteq> [] \<and> am_LockID marker \<noteq> pm_LockID item then False
          else if am_LockDigest marker \<noteq> [] \<and> am_LockDigest marker \<noteq> pm_LockDigest item then False
          else am_LockID marker \<noteq> [] \<or> am_LockDigest marker \<noteq> [])"

section \<open>Validation\<close>

text \<open>\<open>profileSHA256\<close> is the pattern of a content address.\<close>

definition materializationDigestState :: "string \<Rightarrow> digest_state option" where
  "materializationDigestState val =
     (if val = [] then Some AbsentDigest
      else if \<not> contentDigestPattern val then None
      else PresentDigest val)"

fun check_files :: "materialization_file list \<Rightarrow> item_error option" where
  "check_files [] = None"
| "check_files (file # files) =
     (if \<not> validateMaterializationRelativePath (mf_Path file) then Some (ItemPathEscapes (mf_Path file))
      else if Perm (mf_Mode file) \<noteq> 420 \<and> Perm (mf_Mode file) \<noteq> 493 then Some (ItemFileModeInvalid (mf_Path file))
      else check_files files)"

definition check_content :: "profile_materialization \<Rightarrow> item_error option" where
  "check_content item =
     (if \<not> materializationIsDirectory item
      then if of_nat (length (pm_Content item)) \<noteq> pm_ContentSize item then Some ItemSizeMismatch
           else if \<not> contentDigestPattern (pm_ContentDigest item)
                   \<or> MaterializationContentDigest (pm_Content item) \<noteq> pm_ContentDigest item
           then Some ItemDigestMismatch else None
      else if pm_Files item = [] then Some ItemNoFiles
      else if pm_Selector item \<noteq> [] \<and> pm_Selector item \<noteq> ''$'' then Some ItemDirectorySelector
      else if \<not> contentDigestPattern (pm_ContentDigest item)
              \<or> DirectoryMaterializationDigest (pm_Files item) \<noteq> pm_ContentDigest item
      then Some ItemDigestMismatch
      else check_files (pm_Files item))"

definition validateDesiredMaterialization ::
  "selection_codec \<Rightarrow> profile_materialization \<Rightarrow> item_error option" where
  "validateDesiredMaterialization codec item =
     (if blank (pm_ID item) \<or> blank (pm_ComponentID item) then Some ItemIdentityRequired
      else if \<not> component_type_Valid (pm_Kind item) then Some (ItemKindInvalid (pm_Kind item))
      else if sint (pm_ContentSize item) < 0 then Some ItemSizeInvalid
      else if pm_FileMode item AND NOT 511 \<noteq> 0 then Some ItemModeInvalid
      else case check_content item of
        Some err \<Rightarrow> Some err
      | None \<Rightarrow>
          if \<not> validateMaterializationTarget (pm_Target item) then Some (ItemTargetEscapes (pm_Target item))
          else if \<not> validateMaterializationSelector codec (pm_Target item)
                      (effective_selector (pm_Selector item)) (pm_Content item)
                  \<and> \<not> materializationIsDirectory item
          then Some (ItemSelectorUnsupported (pm_Selector item)) else None)"

definition validateRecordedMaterialization :: "profile_materialization \<Rightarrow> item_error option" where
  "validateRecordedMaterialization item =
     (if blank (pm_ID item) then Some ItemIdentityRequired
      else if \<not> validateMaterializationTarget (pm_Target item) then Some (ItemTargetEscapes (pm_Target item))
      else if \<not> validateMaterializationSelectorSyntax (pm_Target item) (pm_Selector item)
      then Some (ItemSelectorUnsupported (pm_Selector item))
      else if materializationDigestState (pm_LastAppliedDigest item) = None
              \<or> materializationDigestState (pm_ObservedDigest item) = None
      then Some ItemDigestInvalid else None)"

definition validateReferencedMaterialization :: "profile_materialization \<Rightarrow> item_error option" where
  "validateReferencedMaterialization item =
     (if blank (pm_ID item) \<or> blank (pm_ComponentID item) then Some ItemIdentityRequired
      else if pm_Content item \<noteq> [] \<or> pm_Files item \<noteq> [] \<or> pm_ContentSize item \<noteq> 0 \<or> pm_LastAppliedDigest item \<noteq> []
      then Some ItemNotMetadataOnly
      else if \<not> contentDigestPattern (pm_ContentDigest item) then Some ItemDigestInvalid
      else if \<not> validateMaterializationTarget (pm_Target item) then Some (ItemTargetEscapes (pm_Target item))
      else None)"

section \<open>Planning an item\<close>

definition run_plan :: "materialization_snapshot \<Rightarrow> plan_intent \<Rightarrow> item_error + plan_operation" where
  "run_plan snapshot intent = map_sum ItemPlanRefused id (PlanMaterialization snapshot intent)"

definition planReferencedMaterialization ::
  "profile_materialization \<Rightarrow> plan_intent \<Rightarrow> item_error + plan_operation" where
  "planReferencedMaterialization item intent =
     (case validateReferencedMaterialization item of
        Some err \<Rightarrow> Inl err
      | None \<Rightarrow>
          (case materializationDigestState (pm_ContentDigest item) of
             None \<Rightarrow> Inl ItemDigestInvalid
           | Some desired \<Rightarrow>
               (case materializationDigestState (pm_ObservedDigest item) of
                  None \<Rightarrow> Inl ItemDigestInvalid
                | Some observed \<Rightarrow>
                    (case NewReferencedMaterialization desired observed (pm_RequirementState item) of
                       None \<Rightarrow> Inl ItemRequirementInvalid
                     | Some snapshot \<Rightarrow> run_plan snapshot intent))))"

definition planFileMaterialization ::
  "profile_materialization \<Rightarrow> string \<Rightarrow> plan_intent \<Rightarrow> item_error + plan_operation" where
  "planFileMaterialization item observed intent =
     (case (materializationDigestState (pm_ContentDigest item), materializationDigestState (pm_LastAppliedDigest item),
            materializationDigestState observed) of
        (Some desired, Some lastApplied, Some observedState) \<Rightarrow>
          (case pm_Mode item of
             MaterializationManaged \<Rightarrow> run_plan (NewManagedMaterialization desired lastApplied observedState) intent
           | MaterializationSeeded \<Rightarrow> run_plan (NewSeededMaterialization desired lastApplied observedState) intent
           | _ \<Rightarrow> Inl (ItemModeUnsupported (pm_Mode item)))
      | _ \<Rightarrow> Inl ItemDigestInvalid)"

text \<open>The end of \<open>planRemovedMaterialization\<close>, once the observation is known.\<close>

definition plan_removed ::
  "profile_materialization \<Rightarrow> digest_state \<Rightarrow> string \<Rightarrow> plan_intent \<Rightarrow> item_error + plan_operation" where
  "plan_removed item lastApplied observed intent =
     (case materializationDigestState observed of
        None \<Rightarrow> Inl ItemDigestInvalid
      | Some observedState \<Rightarrow>
          (case pm_Mode item of
             MaterializationManaged \<Rightarrow> run_plan (NewManagedMaterialization AbsentDigest lastApplied observedState) intent
           | MaterializationSeeded \<Rightarrow> run_plan (NewSeededMaterialization AbsentDigest lastApplied observedState) intent
           | MaterializationReferenced \<Rightarrow>
               (case NewReferencedMaterialization AbsentDigest observedState (pm_RequirementState item) of
                  None \<Rightarrow> Inl ItemRequirementInvalid
                | Some snapshot \<Rightarrow> run_plan snapshot intent)
           | MaterializationOtherMode mode \<Rightarrow> Inl (ItemModeUnsupported (MaterializationOtherMode mode))))"

section \<open>Roots\<close>

definition openMaterializationRoot ::
  "guest_fs \<Rightarrow> materialization_root \<Rightarrow> string \<Rightarrow> (item_error \<Rightarrow> (fs_event, 'e, 'a) durable)
   \<Rightarrow> (fs_event, 'e, 'a) durable \<Rightarrow> (fs_event, 'e, 'a) durable" where
  "openMaterializationRoot fs root rootPath onError continue =
     (if \<not> path_IsAbs rootPath \<or> path_Clean rootPath \<noteq> rootPath then onError ItemRootNotClean
      else run_step (\<lambda>h. g_host_lstat fs h rootPath) (HostLstat rootPath) (\<lambda>_. onError ItemRootUnsafe)
        (\<lambda>info.
          if fi_Kind info \<noteq> DirectoryFile then onError ItemRootUnsafe
          else run_void (\<lambda>h. g_open_root fs h rootPath) (OpenedRoot rootPath) (\<lambda>_. onError ItemRootUnsafe)
            (run_step (\<lambda>h. g_root_stat fs h root) (RootStat root) (\<lambda>_. onError ItemRootChanged)
              (\<lambda>opened. if fi_ID info \<noteq> fi_ID opened then onError ItemRootChanged else continue))))"

fun batch_root_path :: "materialization_batch \<Rightarrow> materialization_root \<Rightarrow> string option" where
  "batch_root_path batch MaterializationHome = Some (pb_HomeRoot batch)"
| "batch_root_path batch MaterializationWorkspace = Some (pb_WorkspaceRoot batch)"
| "batch_root_path batch (MaterializationOtherRoot s) = None"

definition batchMaterializationRoot ::
  "guest_fs \<Rightarrow> materialization_batch \<Rightarrow> materialization_root list \<Rightarrow> materialization_root
   \<Rightarrow> (item_error \<Rightarrow> (fs_event, 'e, 'a) durable) \<Rightarrow> (materialization_root list \<Rightarrow> (fs_event, 'e, 'a) durable)
   \<Rightarrow> (fs_event, 'e, 'a) durable" where
  "batchMaterializationRoot fs batch roots root onError continue =
     (if root \<in> set roots then continue roots
      else case batch_root_path batch root of
        None \<Rightarrow> onError (ItemRootUnsupported root)
      | Some rootPath \<Rightarrow> openMaterializationRoot fs root rootPath onError (continue (root # roots)))"

section \<open>Preparing an item\<close>

definition observed_again ::
  "guest_fs \<Rightarrow> selection_codec \<Rightarrow> materialization_batch \<Rightarrow> materialization_root list
   \<Rightarrow> profile_materialization \<Rightarrow> string \<Rightarrow> (item_error \<Rightarrow> (fs_event, 'e, 'a) durable)
   \<Rightarrow> (materialization_root list \<Rightarrow> (fs_event, 'e, 'a) durable) \<Rightarrow> (fs_event, 'e, 'a) durable" where
  "observed_again fs codec batch roots item selector onError continue =
     batchMaterializationRoot fs batch roots (pm_Root item) onError (\<lambda>roots'.
       observeMaterialization fs codec (pm_Root item) (pm_Target item) selector (materializationIsDirectory item)
         (\<lambda>err. onError (ItemFile err))
         (\<lambda>observed. if observed \<noteq> pm_ObservedDigest item then onError ItemObservationChanged
                     else continue roots'))"

definition planRemovedMaterialization ::
  "guest_fs \<Rightarrow> selection_codec \<Rightarrow> materialization_batch \<Rightarrow> materialization_root list
   \<Rightarrow> profile_materialization \<Rightarrow> (item_error \<Rightarrow> (fs_event, 'e, 'a) durable)
   \<Rightarrow> (materialization_root list \<Rightarrow> plan_operation \<Rightarrow> (fs_event, 'e, 'a) durable) \<Rightarrow> (fs_event, 'e, 'a) durable" where
  "planRemovedMaterialization fs codec batch roots item onError continue =
     (case validateRecordedMaterialization item of
        Some err \<Rightarrow> onError err
      | None \<Rightarrow>
          (case materializationDigestState (pm_LastAppliedDigest item) of
             None \<Rightarrow> onError ItemDigestInvalid
           | Some lastApplied \<Rightarrow>
               let decide = (\<lambda>roots'.
                     case plan_removed item lastApplied (pm_ObservedDigest item) (pb_Intent batch) of
                       Inl err \<Rightarrow> onError err
                     | Inr operation \<Rightarrow> continue roots' operation)
               in if pm_Mode item \<noteq> MaterializationReferenced
                  then observed_again fs codec batch roots item (pm_Selector item) onError decide
                  else decide roots))"

text \<open>The canonical digest a TOML selection is compared by.\<close>

definition canonical_item ::
  "selection_codec \<Rightarrow> profile_materialization \<Rightarrow> item_error + profile_materialization" where
  "canonical_item codec item =
     (if FilepathExt (pm_Target item) = ''.toml'' \<and> pm_Selector item \<noteq> [] \<and> pm_Selector item \<noteq> ''$''
      then (case canonicalTOMLDesiredSelection codec (pm_Content item) (pm_Selector item) of
              Inl err \<Rightarrow> Inl (ItemFile (SelectionFailed err))
            | Inr canonical \<Rightarrow> Inr (item\<lparr>pm_ContentDigest := MaterializationContentDigest canonical\<rparr>))
      else Inr item)"

definition materializationMode :: "profile_materialization \<Rightarrow> file_mode" where
  "materializationMode item =
     (if \<not> materializationIsDirectory item
      then if pm_FileMode item \<noteq> 0 then pm_FileMode item else 384
      else 448)"

definition prepareProfileMaterialization ::
  "guest_fs \<Rightarrow> selection_codec \<Rightarrow> materialization_batch \<Rightarrow> materialization_root list
   \<Rightarrow> profile_materialization \<Rightarrow> (item_error \<Rightarrow> (fs_event, 'e, 'a) durable)
   \<Rightarrow> (materialization_root list \<Rightarrow> planned_materialization \<Rightarrow> (fs_event, 'e, 'a) durable)
   \<Rightarrow> (fs_event, 'e, 'a) durable" where
  "prepareProfileMaterialization fs codec batch roots item onError continue =
     (let metadata = (\<lambda>directory operation.
            \<lparr>pl_result = materialization_result_of item operation (pm_LastAppliedDigest item) (pm_ObservedDigest item),
             pl_root = pm_Root item, pl_content = [], pl_mode = 0, pl_files = [], pl_directory = directory\<rparr>)
      in if pm_ContentDigest item = []
      then planRemovedMaterialization fs codec batch roots item onError
             (\<lambda>roots' operation. continue roots' (metadata (materializationIsDirectory item) operation))
      else if pm_Mode item = MaterializationReferenced
      then (case planReferencedMaterialization item (pb_Intent batch) of
              Inl err \<Rightarrow> onError err
            | Inr operation \<Rightarrow> continue roots (metadata False operation))
      else if pm_Mode item \<noteq> MaterializationManaged \<and> pm_Mode item \<noteq> MaterializationSeeded
      then onError (ItemModeUnsupported (pm_Mode item))
      else if pm_Scope item = ScopeProject \<and> pm_Mode item \<noteq> MaterializationSeeded then onError ItemProjectNotSeeded
      else case validateDesiredMaterialization codec item of
        Some err \<Rightarrow> onError err
      | None \<Rightarrow>
          (case canonical_item codec item of
             Inl err \<Rightarrow> onError err
           | Inr item' \<Rightarrow>
               observed_again fs codec batch roots item' (effective_selector (pm_Selector item')) onError
                 (\<lambda>roots'.
                   case planFileMaterialization item' (pm_ObservedDigest item') (pb_Intent batch) of
                     Inl err \<Rightarrow> onError err
                   | Inr planned \<Rightarrow>
                       let operation = (if planned = OperationSkip \<and> pm_EffectiveCacheKeyChanged item'
                                        then OperationUpdate else planned)
                       in continue roots'
                            \<lparr>pl_result = materialization_result_of item' operation (pm_LastAppliedDigest item')
                                          (pm_ObservedDigest item'),
                             pl_root = pm_Root item', pl_content = pm_Content item', pl_mode = materializationMode item',
                             pl_files = pm_Files item', pl_directory = materializationIsDirectory item'\<rparr>)))"

section \<open>Preparing a batch\<close>

fun materialization_root_string :: "materialization_root \<Rightarrow> string" where
  "materialization_root_string MaterializationHome = ''home''"
| "materialization_root_string MaterializationWorkspace = ''workspace''"
| "materialization_root_string (MaterializationOtherRoot s) = s"

text \<open>The owned targets: each key with the selectors recorded for it, in order.\<close>

definition recordMaterializationOwnership ::
  "(string \<times> string) list \<Rightarrow> profile_materialization \<Rightarrow> guest_error + (string \<times> string) list" where
  "recordMaterializationOwnership ownedTargets item =
     (let selector = (if pm_Selector item = [] \<or> materializationIsDirectory item then ''$'' else pm_Selector item);
          key = materialization_root_string (pm_Root item) @ [CHR 0x00] @ pm_Target item
      in case find (\<lambda>(k, existing). k = key \<and> MaterializationSelectorsOverlap selector existing) ownedTargets of
           Some (k, existing) \<Rightarrow> Inl (BatchSelectorsOverlap (pm_Target item) existing selector)
         | None \<Rightarrow> Inr (ownedTargets @ [(key, selector)]))"

text \<open>The identity and the consent an item needs, before it is planned.\<close>

definition normalize_item :: "profile_materialization \<Rightarrow> guest_error + profile_materialization" where
  "normalize_item item =
     (let componentID = (if pm_ComponentID item = [] then pm_ID item else pm_ComponentID item);
          itemID = (if pm_ID item = [] then componentID else pm_ID item);
          named = item\<lparr>pm_ComponentID := componentID, pm_ID := itemID\<rparr>
      in if itemID \<noteq> componentID then Inl (BatchIdentityDiffers itemID componentID)
         else Inr (case materializationApprovalPolicy named of
                     None \<Rightarrow> named
                   | Some reason \<Rightarrow> named\<lparr>pm_ApprovalRequired := True,
                       pm_ApprovalReason := (if pm_ApprovalReason named = [] then reason else pm_ApprovalReason named)\<rparr>))"

definition withhold_unapproved ::
  "(string \<times> approval_marker) list \<Rightarrow> profile_materialization \<Rightarrow> planned_materialization
   \<Rightarrow> planned_materialization" where
  "withhold_unapproved approvals item plan =
     (if pm_ApprovalRequired item \<and> \<not> approvalGranted approvals item
         \<and> mr_Operation (pl_result plan) \<noteq> OperationOrphan \<and> mr_Operation (pl_result plan) \<noteq> OperationSkip
      then plan\<lparr>pl_result := (pl_result plan)\<lparr>mr_Operation := OperationRequiresInput\<rparr>\<rparr>
      else plan)"

record prepare_state =
  prs_roots :: "materialization_root list"
  prs_seen :: "string list"
  prs_seenComponents :: "string list"
  prs_owned :: "(string \<times> string) list"
  prs_plans :: "planned_materialization list"

fun prepare_all ::
  "guest_fs \<Rightarrow> selection_codec \<Rightarrow> materialization_batch \<Rightarrow> prepare_state \<Rightarrow> profile_materialization list
   \<Rightarrow> (guest_error \<Rightarrow> (fs_event, 'e, 'a) durable)
   \<Rightarrow> (planned_materialization list \<Rightarrow> (fs_event, 'e, 'a) durable) \<Rightarrow> (fs_event, 'e, 'a) durable" where
  "prepare_all fs codec batch st [] onError continue = continue (prs_plans st)"
| "prepare_all fs codec batch st (original # items) onError continue =
     (case normalize_item original of
        Inl err \<Rightarrow> onError err
      | Inr item \<Rightarrow>
          if pm_ID item \<in> set (prs_seen st) then onError (BatchDuplicateIdentity (pm_ID item))
          else if pm_ComponentID item \<in> set (prs_seenComponents st)
          then onError (BatchDuplicateComponent (pm_ComponentID item))
          else (case recordMaterializationOwnership (prs_owned st) item of
            Inl err \<Rightarrow> onError err
          | Inr ownedTargets \<Rightarrow>
              prepareProfileMaterialization fs codec batch (prs_roots st) item
                (\<lambda>err. onError (BatchPlanFailed (pm_ID item) err))
                (\<lambda>roots plan.
                  prepare_all fs codec batch
                    \<lparr>prs_roots = roots, prs_seen = pm_ID item # prs_seen st,
                     prs_seenComponents = pm_ComponentID item # prs_seenComponents st, prs_owned = ownedTargets,
                     prs_plans = prs_plans st @ [withhold_unapproved (pb_Approvals batch) item plan]\<rparr>
                    items onError continue)))"

definition plan_blocked :: "planned_materialization \<Rightarrow> bool" where
  "plan_blocked plan \<longleftrightarrow>
     mr_Operation (pl_result plan) = OperationDrift \<or> mr_Operation (pl_result plan) = OperationConflict
     \<or> mr_Operation (pl_result plan) = OperationRequiresInput"

section \<open>Applying\<close>

fun snapshotMaterializationPlans ::
  "guest_fs \<Rightarrow> materialization_backup list \<Rightarrow> planned_materialization list
   \<Rightarrow> (guest_error \<Rightarrow> (fs_event, 'e, 'a) durable)
   \<Rightarrow> (materialization_backup list \<Rightarrow> (fs_event, 'e, 'a) durable) \<Rightarrow> (fs_event, 'e, 'a) durable" where
  "snapshotMaterializationPlans fs backups [] onError continue = continue backups"
| "snapshotMaterializationPlans fs backups (plan # plans) onError continue =
     (let result = pl_result plan
      in if mr_Operation result = OperationSkip \<or> mr_Operation result = OperationOrphan
            \<or> mr_Adapter result = ''reference''
         then snapshotMaterializationPlans fs backups plans onError continue
         else snapshotMaterialization fs (pl_root plan) (mr_Target result) (mr_Selector result) (pl_directory plan)
           (\<lambda>err. onError (BatchSnapshotFailed (mr_ID result) err))
           (\<lambda>backup. snapshotMaterializationPlans fs (backups @ [backup]) plans onError continue))"

text \<open>The removal and the write of \<open>apply\<close>, after the observation was found unchanged.\<close>

definition remove_plan ::
  "guest_fs \<Rightarrow> selection_codec \<Rightarrow> planned_materialization \<Rightarrow> (file_error \<Rightarrow> (fs_event, 'e, 'a) durable)
   \<Rightarrow> (fs_event, 'e, 'a) durable \<Rightarrow> (fs_event, 'e, 'a) durable" where
  "remove_plan fs codec plan onError continue =
     (let root = pl_root plan; target = mr_Target (pl_result plan); selector = mr_Selector (pl_result plan)
      in if pl_directory plan
         then run_void (\<lambda>h. g_remove_all fs h root target) (RemovedAll root target)
                (\<lambda>e. onError (FileSystem e)) continue
         else if selector = ''$''
         then run_void (\<lambda>h. g_remove fs h root target) (Removed root target) (\<lambda>e. onError (FileSystem e)) continue
         else remove_selection fs codec root target selector onError continue)"

definition write_content ::
  "guest_fs \<Rightarrow> planned_materialization \<Rightarrow> bytes \<Rightarrow> (file_error \<Rightarrow> (fs_event, 'e, 'a) durable)
   \<Rightarrow> (fs_event, 'e, 'a) durable \<Rightarrow> (fs_event, 'e, 'a) durable" where
  "write_content fs plan content onError continue =
     (let root = pl_root plan; target = mr_Target (pl_result plan); mode = pl_mode plan
      in readMaterializedFile fs root target onError (\<lambda>current.
        if current \<noteq> Some content
        then writeMaterializedFile fs root target content mode (current = None) onError continue
        else materializedFileMode fs root target onError (\<lambda>currentMode.
          if currentMode \<noteq> Perm mode
          then run_void (\<lambda>h. g_chmod fs h root target mode) (Chmodded root target mode)
                 (\<lambda>e. onError (FileSystem e)) continue
          else continue)))"

definition write_plan ::
  "guest_fs \<Rightarrow> selection_codec \<Rightarrow> planned_materialization \<Rightarrow> (file_error \<Rightarrow> (fs_event, 'e, 'a) durable)
   \<Rightarrow> (fs_event, 'e, 'a) durable \<Rightarrow> (fs_event, 'e, 'a) durable" where
  "write_plan fs codec plan onError continue =
     (let root = pl_root plan; target = mr_Target (pl_result plan); selector = mr_Selector (pl_result plan)
      in if pl_directory plan then writeMaterializedDirectory fs root target (pl_files plan) onError continue
         else if selector = ''$'' then write_content fs plan (pl_content plan) onError continue
         else readMaterializedFile fs root target onError (\<lambda>found.
           case (if FilepathExt target = ''.toml'' then mergeTOMLSelection codec found selector (pl_content plan)
                 else mergeJSONSelection codec found selector (pl_content plan)) of
             Inl err \<Rightarrow> onError (SelectionFailed err)
           | Inr merged \<Rightarrow> write_content fs plan merged onError continue))"

definition settled :: "string \<Rightarrow> planned_materialization \<Rightarrow> planned_materialization" where
  "settled digest plan =
     plan\<lparr>pl_result := (pl_result plan)\<lparr>mr_LastAppliedDigest := digest, mr_ObservedDigest := digest\<rparr>\<rparr>"

definition apply_plan ::
  "guest_fs \<Rightarrow> selection_codec \<Rightarrow> planned_materialization \<Rightarrow> (apply_error \<Rightarrow> (fs_event, 'e, 'a) durable)
   \<Rightarrow> (planned_materialization \<Rightarrow> (fs_event, 'e, 'a) durable) \<Rightarrow> (fs_event, 'e, 'a) durable" where
  "apply_plan fs codec plan onError continue =
     (let result = pl_result plan;
          changed = onError (ObservationChangedBeforeMutation (mr_ID result));
          failed = (\<lambda>err. onError (MutationFailed (mr_ID result) err))
      in if mr_Operation result = OperationSkip \<or> mr_Operation result = OperationOrphan then continue plan
         else if mr_Adapter result = ''reference'' then continue (settled [] plan)
         else observeMaterialization fs codec (pl_root plan) (mr_Target result) (mr_Selector result)
           (pl_directory plan) (\<lambda>_. changed)
           (\<lambda>observed.
             if observed \<noteq> mr_ObservedDigest result then changed
             else if mr_Operation result = OperationRemove
             then remove_plan fs codec plan failed (continue (settled [] plan))
             else write_plan fs codec plan failed (continue (settled (mr_DesiredDigest result) plan))))"

section \<open>The whole batch\<close>

fun count_times :: "string \<Rightarrow> nat \<Rightarrow> (fs_event, 'e, 'a) durable \<Rightarrow> (fs_event, 'e, 'a) durable" where
  "count_times name 0 continue = continue"
| "count_times name (Suc n) continue = emit True (Counted name) (count_times name n continue)"

definition count_results ::
  "bool \<Rightarrow> string \<Rightarrow> (materialization_result \<Rightarrow> bool) \<Rightarrow> materialization_result list
   \<Rightarrow> (fs_event, 'e, 'a) durable \<Rightarrow> (fs_event, 'e, 'a) durable" where
  "count_results metrics name counted results continue =
     count_times name (if metrics then length (filter counted results) else 0) continue"

type_synonym batch_outcome = "(fs_event, guest_error \<times> materialization_result list, materialization_result list) durable"

fun apply_all ::
  "guest_fs \<Rightarrow> selection_codec \<Rightarrow> bool \<Rightarrow> materialization_backup list \<Rightarrow> planned_materialization list
   \<Rightarrow> planned_materialization list \<Rightarrow> batch_outcome" where
  "apply_all fs codec metrics backups applied [] =
     (let results = materializationResults applied
      in count_results metrics ''component_materializations_total''
           (\<lambda>result. mr_Operation result \<noteq> OperationSkip) results (finish results))"
| "apply_all fs codec metrics backups applied (plan # plans) =
     apply_plan fs codec plan
       (\<lambda>err. rollbackMaterializations fs backups (\<lambda>errs.
          abandon (if errs = [] then BatchApplyFailed err else BatchRollbackFailed err errs,
            materializationResults (applied @ plan # plans))))
       (\<lambda>plan'. apply_all fs codec metrics backups (applied @ [plan']) plans)"

definition ApplyProfileMaterializations ::
  "guest_fs \<Rightarrow> selection_codec \<Rightarrow> materialization_batch \<Rightarrow> batch_outcome" where
  "ApplyProfileMaterializations fs codec batch =
     (if pb_Intent batch \<noteq> IntentReconcile \<and> pb_Intent batch \<noteq> IntentPrune
      then abandon (BatchIntentUnsupported (pb_Intent batch), [])
      else prepare_all fs codec batch
        \<lparr>prs_roots = [], prs_seen = [], prs_seenComponents = [], prs_owned = [], prs_plans = []\<rparr> (pb_Items batch)
        (\<lambda>err. abandon (err, []))
        (\<lambda>plans.
          let results = materializationResults plans
          in count_results (pb_Metrics batch) ''component_conflicts_total''
            (\<lambda>result. mr_Operation result = OperationConflict) results
            (case find plan_blocked plans of
               Some plan \<Rightarrow> abandon (BatchBlocked (mr_ID (pl_result plan)) (mr_Operation (pl_result plan)), results)
             | None \<Rightarrow>
                 snapshotMaterializationPlans fs [] plans (\<lambda>err. abandon (err, results))
                   (\<lambda>backups. apply_all fs codec (pb_Metrics batch) backups [] plans))))"

end
