(* ===== verification/Guest_Safety.thy ===== *)
theory Guest_Safety
  imports Guest_Apply
begin

text \<open>
  What the engine of \<open>Guest_Apply\<close> guarantees, whatever the file system answers: nothing is written before
  every item of the batch was planned and none is blocked, and the results say what was planned and what
  was applied.
\<close>

section \<open>Calls that change files\<close>

fun mutates :: "fs_event \<Rightarrow> bool" where
  "mutates (MadeAll root path mode ans) = True"
| "mutates (Made root path mode ans) = True"
| "mutates (CreatedFile root path mode ans) = True"
| "mutates (HandleChmod file mode ans) = True"
| "mutates (HandleWrite file content ans) = True"
| "mutates (Linked root old new ans) = True"
| "mutates (Renamed root old new ans) = True"
| "mutates (Removed root path ans) = True"
| "mutates (RemovedAll root path ans) = True"
| "mutates (Chmodded root path mode ans) = True"
| "mutates _ = False"

text \<open>The journal \<open>h'\<close> continues \<open>h\<close>, in the second case by reading only.\<close>

definition later :: "fs_trace \<Rightarrow> fs_trace \<Rightarrow> bool" where
  "later h h' \<longleftrightarrow> (\<exists>t. h' = h @ t)"

definition quietly :: "fs_trace \<Rightarrow> fs_trace \<Rightarrow> bool" where
  "quietly h h' \<longleftrightarrow> (\<exists>t. h' = h @ t \<and> list_all (\<lambda>e. \<not> mutates e) t)"

lemma later_refl [intro, simp]: "later h h"
  by (simp add: later_def)

lemma later_snoc [intro]: "later h h' \<Longrightarrow> later h (h' @ [e])"
  by (auto simp: later_def)

lemma later_trans [trans]: "later h h' \<Longrightarrow> later h' h'' \<Longrightarrow> later h h''"
  by (auto simp: later_def)

lemma quietly_refl [intro, simp]: "quietly h h"
  by (simp add: quietly_def)

lemma quietly_snoc [intro]: "quietly h h' \<Longrightarrow> \<not> mutates e \<Longrightarrow> quietly h (h' @ [e])"
  by (force simp: quietly_def)

lemma quietly_trans [trans]: "quietly h h' \<Longrightarrow> quietly h' h'' \<Longrightarrow> quietly h h''"
  by (force simp: quietly_def)

lemma quietly_append [simp]: "quietly h (h @ t) = list_all (\<lambda>e. \<not> mutates e) t"
  by (simp add: quietly_def)

lemma quietly_more [intro]: "quietly h h' \<Longrightarrow> list_all (\<lambda>e. \<not> mutates e) t \<Longrightarrow> quietly h (h' @ t)"
  by (auto simp: quietly_def)

lemma quietly_from [elim]: "quietly (h @ t) h' \<Longrightarrow> list_all (\<lambda>e. \<not> mutates e) t \<Longrightarrow> quietly h h'"
  by (auto simp: quietly_def)

lemma later_append [simp]: "later h (h @ t)"
  by (simp add: later_def)

lemma later_more [intro]: "later h h' \<Longrightarrow> later h (h' @ t)"
  by (auto simp: later_def)

lemma later_from [elim]: "later (h @ t) h' \<Longrightarrow> later h h'"
  by (auto simp: later_def)

lemma quietly_later: "quietly h h' \<Longrightarrow> later h h'"
  by (auto simp: quietly_def later_def)

lemma ends_case_lstat_error [durable_rules]:
  "(err = NotExist \<Longrightarrow> ends m Q h) \<Longrightarrow> (\<And>e. err = LstatFailed e \<Longrightarrow> ends (n e) Q h)
   \<Longrightarrow> ends (case err of NotExist \<Rightarrow> m | LstatFailed e \<Rightarrow> n e) Q h"
  by (simp split: lstat_error.split)

lemma ends_ignoring [durable_rules]:
  "(\<And>ans. ends continue Q (h @ [event ans])) \<Longrightarrow> ends (ignoring source event continue) Q h"
  unfolding ignoring_def by (intro durable_rules)

named_theorems reads

lemma readMaterializedFile_ends [reads]:
  assumes "\<And>err h'. quietly h h' \<Longrightarrow> ends (onError err) Q h'"
    and "\<And>found h'. quietly h h' \<Longrightarrow> ends (continue found) Q h'"
  shows "ends (readMaterializedFile fs root target onError continue) Q h"
  unfolding readMaterializedFile_def
  by (intro durable_rules assms) auto

lemma materializedFileMode_ends [reads]:
  assumes "\<And>err h'. quietly h h' \<Longrightarrow> ends (onError err) Q h'"
    and "\<And>mode h'. quietly h h' \<Longrightarrow> ends (continue mode) Q h'"
  shows "ends (materializedFileMode fs root target onError continue) Q h"
  unfolding materializedFileMode_def
  by (intro durable_rules assms) auto

lemma walk_files_ends [reads]:
  assumes "\<And>err h'. quietly h h' \<Longrightarrow> ends (onError err) Q h'"
    and "\<And>files h'. quietly h h' \<Longrightarrow> ends (continue files) Q h'"
  shows "ends (walk_files fs root target files visits onError continue) Q h"
  using assms
proof (induction visits arbitrary: files h)
  case (Cons visit visits)
  have step: "ends (walk_files fs root target files' visits onError continue) Q h'" if "quietly h h'" for files' h'
    by (rule Cons.IH) (use Cons.prems quietly_trans [OF that] in blast)+
  show ?case
    unfolding walk_files.simps
    by (intro durable_rules Cons.prems(1) step) auto
qed simp

lemma observeMaterializedDirectory_ends [reads]:
  assumes "\<And>err h'. quietly h h' \<Longrightarrow> ends (onError err) Q h'"
    and "\<And>digest h'. quietly h h' \<Longrightarrow> ends (continue digest) Q h'"
  shows "ends (observeMaterializedDirectory fs root target onError continue) Q h"
  unfolding observeMaterializedDirectory_def
  by (intro durable_rules walk_files_ends assms) (auto elim: quietly_from)

lemma observeMaterializedFile_ends [reads]:
  assumes "\<And>err h'. quietly h h' \<Longrightarrow> ends (onError err) Q h'"
    and "\<And>digest h'. quietly h h' \<Longrightarrow> ends (continue digest) Q h'"
  shows "ends (observeMaterializedFile fs codec root target selector onError continue) Q h"
  unfolding observeMaterializedFile_def
  by (intro durable_rules readMaterializedFile_ends assms) auto

lemma observeMaterialization_ends [reads]:
  assumes "\<And>err h'. quietly h h' \<Longrightarrow> ends (onError err) Q h'"
    and "\<And>digest h'. quietly h h' \<Longrightarrow> ends (continue digest) Q h'"
  shows "ends (observeMaterialization fs codec root target selector directory onError continue) Q h"
  unfolding observeMaterialization_def
  by (intro durable_rules observeMaterializedDirectory_ends observeMaterializedFile_ends assms) auto

lemma snapshotMaterialization_ends [reads]:
  assumes "\<And>err h'. quietly h h' \<Longrightarrow> ends (onError err) Q h'"
    and "\<And>backup h'. quietly h h' \<Longrightarrow> bk_root backup = root \<Longrightarrow> bk_target backup = target
      \<Longrightarrow> ends (continue backup) Q h'"
  shows "ends (snapshotMaterialization fs root target selector directory onError continue) Q h"
  unfolding snapshotMaterialization_def
  by (intro durable_rules walk_files_ends assms) (auto elim: quietly_from)

section \<open>Reads on their own\<close>

text \<open>A read on its own, and how the engine goes on from its answer.\<close>

definition resume ::
  "('x + 'b) \<times> fs_trace \<Rightarrow> ('x \<Rightarrow> (fs_event, 'e, 'a) durable) \<Rightarrow> ('b \<Rightarrow> (fs_event, 'e, 'a) durable)
   \<Rightarrow> ('e + 'a) \<times> fs_trace" where
  "resume outcome onError continue =
     (case outcome of (Inl err, h) \<Rightarrow> onError err h | (Inr x, h) \<Rightarrow> continue x h)"

lemmas resume_simps = resume_def run_step_def run_void_def read_from_def emit_def abandon_def finish_def Let_def

lemma readMaterializedFile_resume:
  "readMaterializedFile fs root target onError continue h
   = resume (readMaterializedFile fs root target abandon finish h) onError continue"
  by (auto simp: readMaterializedFile_def resume_simps split: sum.split lstat_error.split)

lemma walk_files_resume:
  "walk_files fs root target files visits onError continue h
   = resume (walk_files fs root target files visits abandon finish h) onError continue"
  by (induction visits arbitrary: files h) (auto simp: resume_simps split: sum.split option.split)

lemma observeMaterialization_resume:
  "observeMaterialization fs codec root target selector directory onError continue h
   = resume (observeMaterialization fs codec root target selector directory abandon finish h) onError continue"
proof (cases directory)
  case True
  define walked where "walked visits h = walk_files fs root target [] visits abandon finish h" for visits h
  have walk: "walk_files fs root target [] visits onError (\<lambda>files. continue (DirectoryMaterializationDigest files)) h
      = resume (walked visits h) onError (\<lambda>files. continue (DirectoryMaterializationDigest files))"
    "walk_files fs root target [] visits abandon (\<lambda>files. finish (DirectoryMaterializationDigest files)) h
      = resume (walked visits h) abandon (\<lambda>files. finish (DirectoryMaterializationDigest files))" for visits h
    unfolding walked_def by (rule walk_files_resume)+
  show ?thesis
    by (auto simp: True observeMaterialization_def observeMaterializedDirectory_def walk resume_simps
        split: sum.split lstat_error.split prod.split)
next
  case False
  define found where "found h = readMaterializedFile fs root target abandon finish h" for h
  have reading: "readMaterializedFile fs root target onError' continue' h = resume (found h) onError' continue'"
    for onError' :: "file_error \<Rightarrow> (fs_event, 'x, 'y) durable" and continue' h
    unfolding found_def by (rule readMaterializedFile_resume)
  show ?thesis
    by (auto simp: False observeMaterialization_def observeMaterializedFile_def reading resume_simps
        split: sum.split option.split prod.split)
qed

lemma snapshotMaterialization_resume:
  "snapshotMaterialization fs root target selector directory onError continue h
   = resume (snapshotMaterialization fs root target selector directory abandon finish h) onError continue"
proof -
  define walked where "walked visits h = walk_files fs root target [] visits abandon finish h" for visits h
  have walk: "walk_files fs root target [] visits onError' continue' h = resume (walked visits h) onError' continue'"
    for visits h and onError' :: "file_error \<Rightarrow> (fs_event, 'x, 'y) durable" and continue'
    unfolding walked_def by (rule walk_files_resume)
  show ?thesis
    by (auto simp: snapshotMaterialization_def walk resume_simps
        split: sum.split lstat_error.split prod.split)
qed

lemma resume_ends:
  assumes "\<And>err h'. m h = (Inl err, h') \<Longrightarrow> ends (onError err) Q h'"
    and "\<And>x h'. m h = (Inr x, h') \<Longrightarrow> ends (continue x) Q h'"
  shows "ends (\<lambda>h. resume (m h) onError continue) Q h"
  using assms by (auto simp: ends_def resume_def split: prod.split sum.split)

text \<open>A snapshot gives the engine what it gives on its own.\<close>

lemma snapshotMaterialization_taken:
  assumes "\<And>err h'. quietly h h' \<Longrightarrow> ends (onError err) Q h'"
    and "\<And>backup h'. quietly h h' \<Longrightarrow>
      snapshotMaterialization fs root target selector directory abandon finish h = (Inr backup, h')
      \<Longrightarrow> ends (continue backup) Q h'"
  shows "ends (snapshotMaterialization fs root target selector directory onError continue) Q h"
proof -
  let ?m = "snapshotMaterialization fs root target selector directory abandon finish"
  have quiet: "ends ?m (\<lambda>r. quietly h) h"
    by (intro snapshotMaterialization_ends ends_abandon ends_finish)
  have "ends (\<lambda>h. resume (?m h) onError continue) Q h"
    by (rule resume_ends) (use assms endsD [OF quiet] in blast)+
  then show ?thesis
    by (simp add: ends_def snapshotMaterialization_resume [where onError = onError])
qed

section \<open>Planning writes nothing\<close>

lemma list_all2_left: "list_all2 P xs ys \<Longrightarrow> x \<in> set xs \<Longrightarrow> \<exists>y \<in> set ys. P x y"
  by (induction rule: list_all2_induct) auto

lemma list_all2_right: "list_all2 P xs ys \<Longrightarrow> y \<in> set ys \<Longrightarrow> \<exists>x \<in> set xs. P x y"
  by (induction rule: list_all2_induct) auto

lemma openMaterializationRoot_ends [reads]:
  assumes "\<And>err h'. quietly h h' \<Longrightarrow> ends (onError err) Q h'"
    and "\<And>h'. quietly h h' \<Longrightarrow> ends continue Q h'"
  shows "ends (openMaterializationRoot fs root rootPath onError continue) Q h"
  unfolding openMaterializationRoot_def
  by (intro durable_rules assms) auto

lemma observed_again_ends [reads]:
  assumes "\<And>err h'. quietly h h' \<Longrightarrow> ends (onError err) Q h'"
    and "\<And>roots' h'. quietly h h' \<Longrightarrow> ends (continue roots') Q h'"
  shows "ends (observed_again fs codec batch roots item selector onError continue) Q h"
  unfolding observed_again_def batchMaterializationRoot_def
  by (intro durable_rules openMaterializationRoot_ends observeMaterialization_ends assms)
    (auto intro: quietly_trans)

text \<open>The operation an item is planned with, and the plan it gets.\<close>

definition item_operation ::
  "selection_codec \<Rightarrow> materialization_batch \<Rightarrow> profile_materialization \<Rightarrow> profile_materialization
   \<Rightarrow> plan_operation \<Rightarrow> bool" where
  "item_operation codec batch item item' operation \<longleftrightarrow>
     (if pm_ContentDigest item = []
      then item' = item \<and> (\<exists>lastApplied. plan_removed item lastApplied (pm_ObservedDigest item) (pb_Intent batch) = Inr operation)
      else if pm_Mode item = MaterializationReferenced
      then item' = item \<and> planReferencedMaterialization item (pb_Intent batch) = Inr operation
      else canonical_item codec item = Inr item'
        \<and> (\<exists>planned. planFileMaterialization item' (pm_ObservedDigest item') (pb_Intent batch) = Inr planned
            \<and> operation = (if planned = OperationSkip \<and> pm_EffectiveCacheKeyChanged item'
                           then OperationUpdate else planned)))"

definition prepared_item ::
  "selection_codec \<Rightarrow> materialization_batch \<Rightarrow> profile_materialization \<Rightarrow> planned_materialization \<Rightarrow> bool" where
  "prepared_item codec batch item plan \<longleftrightarrow>
     validateMaterializationTarget (pm_Target item) \<and> pl_root plan = mr_Root (pl_result plan)
     \<and> (mr_Adapter (pl_result plan) \<noteq> ''reference'' \<longrightarrow> pl_directory plan = mr_Directory (pl_result plan))
     \<and> (pm_ContentDigest item \<noteq> [] \<and> pm_Mode item \<noteq> MaterializationReferenced \<longrightarrow>
          pl_content plan = pm_Content item \<and> pl_files plan = pm_Files item)
     \<and> (\<exists>item' operation. item_operation codec batch item item' operation
          \<and> pl_result plan = materialization_result_of item' operation (pm_LastAppliedDigest item') (pm_ObservedDigest item'))"

lemma canonical_item_same:
  assumes "canonical_item codec item = Inr item'"
  obtains digest where "item' = item\<lparr>pm_ContentDigest := digest\<rparr>"
proof (cases "item' = item")
  case True
  then have "item' = item\<lparr>pm_ContentDigest := pm_ContentDigest item\<rparr>" by simp
  then show ?thesis by (rule that)
next
  case False
  with assms obtain canonical where "item' = item\<lparr>pm_ContentDigest := MaterializationContentDigest canonical\<rparr>"
    by (auto simp: canonical_item_def split: if_splits sum.splits)
  then show ?thesis by (rule that)
qed

lemma prepareProfileMaterialization_ends:
  assumes "\<And>err h'. quietly h h' \<Longrightarrow> ends (onError err) Q h'"
    and "\<And>roots' plan h'. quietly h h' \<Longrightarrow> prepared_item codec batch item plan \<Longrightarrow> ends (continue roots' plan) Q h'"
  shows "ends (prepareProfileMaterialization fs codec batch roots item onError continue) Q h"
proof -
  have target: "validateDesiredMaterialization codec item = None \<Longrightarrow> validateMaterializationTarget (pm_Target item)"
    "validateRecordedMaterialization item = None \<Longrightarrow> validateMaterializationTarget (pm_Target item)"
    "planReferencedMaterialization item intent = Inr operation \<Longrightarrow> validateMaterializationTarget (pm_Target item)"
    for intent operation
    by (auto simp: validateDesiredMaterialization_def validateRecordedMaterialization_def
        planReferencedMaterialization_def validateReferencedMaterialization_def split: option.splits if_splits)
  show ?thesis
    unfolding prepareProfileMaterialization_def planRemovedMaterialization_def Let_def
    by (intro durable_rules observed_again_ends assms)
      (auto simp: prepared_item_def item_operation_def materialization_result_of_def Let_def dest: target
        elim: canonical_item_same)
qed

text \<open>The plan of an item of the batch, with its identity completed and its consent decided.\<close>

definition prepared ::
  "selection_codec \<Rightarrow> materialization_batch \<Rightarrow> profile_materialization \<Rightarrow> planned_materialization \<Rightarrow> bool" where
  "prepared codec batch original plan \<longleftrightarrow>
     (\<exists>item plan'. normalize_item original = Inr item \<and> prepared_item codec batch item plan'
        \<and> plan = withhold_unapproved (pb_Approvals batch) item plan')"

text \<open>The errors before anything is applied.\<close>

fun planning_error :: "guest_error \<Rightarrow> bool" where
  "planning_error (BatchApplyFailed err) = False"
| "planning_error (BatchRollbackFailed err errs) = False"
| "planning_error _ = True"

lemma normalize_item_error: "normalize_item item = Inl err \<Longrightarrow> planning_error err"
  by (auto simp: normalize_item_def Let_def split: if_splits)

lemma ownership_error: "recordMaterializationOwnership ownedTargets item = Inl err \<Longrightarrow> planning_error err"
  by (auto simp: recordMaterializationOwnership_def Let_def split: option.splits)

lemma prepare_all_ends:
  assumes "\<And>err h'. quietly h h' \<Longrightarrow> planning_error err \<Longrightarrow> ends (onError err) Q h'"
    and "\<And>plans h'. quietly h h' \<Longrightarrow> list_all2 (prepared codec batch) items plans
      \<Longrightarrow> ends (continue (prs_plans st @ plans)) Q h'"
  shows "ends (prepare_all fs codec batch st items onError continue) Q h"
  using assms
proof (induction items arbitrary: st h)
  case Nil
  show ?case using Nil(2) [of h "[]"] by simp
next
  case (Cons original items)
  have step: "ends (prepare_all fs codec batch st' items onError continue) Q h'"
    if "quietly h h'" "prepared codec batch original plan" "prs_plans st' = prs_plans st @ [plan]" for st' h' plan
  proof (rule Cons.IH)
    show "ends (onError err) Q h''" if "quietly h' h''" "planning_error err" for err h''
      using Cons.prems(1) [OF quietly_trans [OF \<open>quietly h h'\<close> that(1)] that(2)] .
    show "ends (continue (prs_plans st' @ plans)) Q h''"
      if "quietly h' h''" "list_all2 (prepared codec batch) items plans" for plans h''
      using Cons.prems(2) [OF quietly_trans [OF \<open>quietly h h'\<close> that(1)], of "plan # plans"] that
        \<open>prepared codec batch original plan\<close> \<open>prs_plans st' = prs_plans st @ [plan]\<close> by simp
  qed
  show ?case
    unfolding prepare_all.simps
    by (intro durable_rules prepareProfileMaterialization_ends Cons.prems(1) step)
      (auto simp: prepared_def dest: normalize_item_error ownership_error)
qed

section \<open>Applying\<close>

text \<open>Whatever is written, the journal only grows.\<close>

lemma writeMaterializedFile_ends:
  assumes "\<And>err h'. later h h' \<Longrightarrow> ends (onError err) Q h'"
    and "\<And>h'. later h h' \<Longrightarrow> ends continue Q h'"
  shows "ends (writeMaterializedFile fs root target content mode create onError continue) Q h"
  unfolding writeMaterializedFile_def Let_def
  by (intro durable_rules assms) auto

lemma write_files_ends:
  assumes "\<And>err h'. later h h' \<Longrightarrow> ends (onError err) Q h'"
    and "\<And>h'. later h h' \<Longrightarrow> ends continue Q h'"
  shows "ends (write_files fs root temporary files onError continue) Q h"
  using assms
proof (induction files arbitrary: h)
  case (Cons f files)
  show ?case
    unfolding write_files.simps
    by (intro writeMaterializedFile_ends Cons.IH Cons.prems) (auto intro: later_trans)
qed simp

lemma writeMaterializedDirectory_ends:
  assumes "\<And>err h'. later h h' \<Longrightarrow> ends (onError err) Q h'"
    and "\<And>h'. later h h' \<Longrightarrow> ends continue Q h'"
  shows "ends (writeMaterializedDirectory fs root target files onError continue) Q h"
  unfolding writeMaterializedDirectory_def replace_directory_def Let_def
  by (intro durable_rules write_files_ends assms) (auto elim: later_from)

lemma remove_plan_ends:
  assumes "\<And>err h'. later h h' \<Longrightarrow> ends (onError err) Q h'"
    and "\<And>h'. later h h' \<Longrightarrow> ends continue Q h'"
  shows "ends (remove_plan fs codec plan onError continue) Q h"
  unfolding remove_plan_def remove_selection_def Let_def
  by (intro durable_rules materializedFileMode_ends readMaterializedFile_ends writeMaterializedFile_ends assms)
    (auto dest!: quietly_later intro: later_trans)

lemma write_plan_ends:
  assumes "\<And>err h'. later h h' \<Longrightarrow> ends (onError err) Q h'"
    and "\<And>h'. later h h' \<Longrightarrow> ends continue Q h'"
  shows "ends (write_plan fs codec plan onError continue) Q h"
  unfolding write_plan_def write_content_def Let_def
  by (intro durable_rules materializedFileMode_ends readMaterializedFile_ends writeMaterializedFile_ends
      writeMaterializedDirectory_ends assms)
    (auto dest!: quietly_later intro: later_trans)

text \<open>The plan as \<open>apply\<close> leaves it.\<close>

definition applied :: "planned_materialization \<Rightarrow> planned_materialization" where
  "applied plan =
     (let result = pl_result plan
      in if mr_Operation result = OperationSkip \<or> mr_Operation result = OperationOrphan then plan
         else if mr_Adapter result = ''reference'' \<or> mr_Operation result = OperationRemove then settled [] plan
         else settled (mr_DesiredDigest result) plan)"

lemma apply_plan_ends:
  assumes "\<And>err h'. later h h' \<Longrightarrow> ends (onError err) Q h'"
    and "\<And>h'. later h h' \<Longrightarrow> ends (continue (applied plan)) Q h'"
  shows "ends (apply_plan fs codec plan onError continue) Q h"
proof -
  have continued: "plan' = applied plan \<Longrightarrow> later h h' \<Longrightarrow> ends (continue plan') Q h'" for plan' h'
    using assms(2) by simp
  show ?thesis
    unfolding apply_plan_def Let_def
    by (intro durable_rules observeMaterialization_ends remove_plan_ends write_plan_ends assms(1) continued)
      (auto simp: applied_def Let_def dest!: quietly_later intro: later_trans)
qed

lemma restore_all_ends:
  assumes "\<And>errs' h'. later h h' \<Longrightarrow> ends (continue errs') Q h'"
  shows "ends (restore_all fs errs backups continue) Q h"
  using assms
proof (induction backups arbitrary: errs h)
  case (Cons backup backups)
  have step: "ends (restore_all fs errs' backups continue) Q h'" if "later h h'" for errs' h'
    by (rule Cons.IH) (use Cons.prems later_trans [OF that] in blast)
  show ?case
    unfolding restore_all.simps restore_backup_def removeMaterializationTarget_def Let_def
    by (intro durable_rules writeMaterializedFile_ends writeMaterializedDirectory_ends step)
      (auto elim: later_from)
qed simp

lemma count_times_ends:
  assumes "\<And>h'. quietly h h' \<Longrightarrow> ends continue Q h'"
  shows "ends (count_times name n continue) Q h"
  using assms
proof (induction n arbitrary: h)
  case (Suc n)
  show ?case
    unfolding count_times.simps
    by (intro durable_rules Suc.IH Suc.prems) (auto elim: quietly_from)
qed simp

text \<open>The results of an application, as far as it came.\<close>

lemma apply_all_ends:
  assumes "\<And>err h' k. later h h' \<Longrightarrow>
      Q (Inl (err, materializationResults (map applied (take k plans) @ drop k plans))) h'"
    and "\<And>h'. later h h' \<Longrightarrow> Q (Inr (materializationResults (map applied plans))) h'"
  shows "ends (apply_all fs codec metrics backups [] plans) Q h"
proof -
  have "ends (apply_all fs codec metrics backups (map applied (take k plans)) (drop k plans)) Q h'"
    if "later h h'" "k \<le> length plans" for k h'
    using that
  proof (induction "length plans - k" arbitrary: k h')
    case 0
    then have "drop k plans = []" "take k plans = plans" by auto
    then show ?case
      unfolding apply_all.simps count_results_def Let_def
      by (simp only: apply_all.simps count_results_def Let_def)
        (intro count_times_ends ends_finish assms(2) later_trans [OF \<open>later h h'\<close>] quietly_later)
  next
    case (Suc n)
    then have split: "drop k plans = plans ! k # drop (Suc k) plans" "k < length plans"
      by (auto simp: Cons_nth_drop_Suc)
    then have advance: "map applied (take k plans) @ [applied (plans ! k)] = map applied (take (Suc k) plans)"
      by (simp add: take_Suc_conv_app_nth)
    have failed: "Q (Inl (err, materializationResults (map applied (take k plans) @ plans ! k # drop (Suc k) plans))) h''"
      if "later h h''" for err h''
      using assms(1) [OF that, of err k] split by simp
    have advanced: "ends (apply_all fs codec metrics backups (map applied (take k plans) @ [applied (plans ! k)])
        (drop (Suc k) plans)) Q h''" if "later h' h''" for h''
      unfolding advance by (rule Suc(1)) (use Suc split that in \<open>auto intro: later_trans\<close>)
    show ?case
      unfolding split(1) apply_all.simps rollbackMaterializations_def
      by (intro apply_plan_ends restore_all_ends ends_abandon failed advanced)
        (use Suc.prems(1) in \<open>auto intro: later_trans\<close>)
  qed
  from this [of h 0] show ?thesis by simp
qed

text \<open>A plan that touches files has a backup of its target.\<close>

definition active :: "planned_materialization \<Rightarrow> bool" where
  "active plan \<longleftrightarrow> mr_Operation (pl_result plan) \<noteq> OperationSkip \<and> mr_Operation (pl_result plan) \<noteq> OperationOrphan
     \<and> mr_Adapter (pl_result plan) \<noteq> ''reference''"

text \<open>The backup of a plan is what the snapshot of its target returned, earlier in the journal.\<close>

definition backed_up :: "guest_fs \<Rightarrow> fs_trace \<Rightarrow> materialization_backup list \<Rightarrow> planned_materialization \<Rightarrow> bool" where
  "backed_up fs h backups plan \<longleftrightarrow>
     (\<exists>backup \<in> set backups. \<exists>h0 h1. snapshotMaterialization fs (pl_root plan) (mr_Target (pl_result plan))
          (mr_Selector (pl_result plan)) (pl_directory plan) abandon finish h0
        = (Inr backup :: file_error + materialization_backup, h1) \<and> later h1 h)"

lemma backed_up_mono:
  "backed_up fs h backups plan \<Longrightarrow> later h h' \<Longrightarrow> set backups \<subseteq> set backups' \<Longrightarrow> backed_up fs h' backups' plan"
  unfolding backed_up_def by (blast intro: later_trans)

lemma snapshotMaterializationPlans_ends:
  assumes "\<And>err h'. quietly h h' \<Longrightarrow> planning_error err \<Longrightarrow> ends (onError err) Q h'"
    and "\<And>backups' h'. quietly h h' \<Longrightarrow> set backups \<subseteq> set backups'
      \<Longrightarrow> (\<forall>plan \<in> set plans. active plan \<longrightarrow> backed_up fs h' backups' plan) \<Longrightarrow> ends (continue backups') Q h'"
  shows "ends (snapshotMaterializationPlans fs backups plans onError continue) Q h"
  using assms
proof (induction plans arbitrary: backups h)
  case (Cons plan plans)
  have step: "ends (snapshotMaterializationPlans fs backups' plans onError continue) Q h'"
    if "quietly h h'" "set backups \<subseteq> set backups'" "active plan \<longrightarrow> backed_up fs h' backups' plan" for backups' h'
  proof (rule Cons.IH)
    show "ends (onError err) Q h''" if "quietly h' h''" "planning_error err" for err h''
      using Cons.prems(1) [OF quietly_trans [OF \<open>quietly h h'\<close> that(1)] that(2)] .
    show "ends (continue backups'') Q h''"
      if "quietly h' h''" "set backups' \<subseteq> set backups''" "\<forall>p \<in> set plans. active p \<longrightarrow> backed_up fs h'' backups'' p"
      for backups'' h''
      by (rule Cons.prems(2) [OF quietly_trans [OF \<open>quietly h h'\<close> that(1)]])
        (use that \<open>set backups \<subseteq> set backups'\<close> \<open>active plan \<longrightarrow> backed_up fs h' backups' plan\<close>
          backed_up_mono quietly_later in \<open>auto\<close>)
  qed
  have taken: "backed_up fs h' (backups @ [backup]) plan"
    if "snapshotMaterialization fs (pl_root plan) (mr_Target (pl_result plan)) (mr_Selector (pl_result plan))
      (pl_directory plan) abandon finish h = (Inr backup, h')" for backup h'
    using that unfolding backed_up_def by (intro bexI [of _ backup]) auto
  show ?case
    unfolding snapshotMaterializationPlans.simps Let_def
    by (intro durable_rules snapshotMaterialization_taken Cons.prems(1) step) (auto simp: active_def taken)
qed simp

text \<open>How a batch ends: without a write, or with plans of which none is blocked.\<close>

definition carried_out ::
  "selection_codec \<Rightarrow> materialization_batch \<Rightarrow> planned_materialization list
   \<Rightarrow> (guest_error \<times> materialization_result list) + materialization_result list \<Rightarrow> bool" where
  "carried_out codec batch plans r \<longleftrightarrow>
     list_all2 (prepared codec batch) (pb_Items batch) plans \<and> list_all (\<lambda>plan. \<not> plan_blocked plan) plans
     \<and> (case r of
          Inr results \<Rightarrow> results = materializationResults (map applied plans)
        | Inl (err, results) \<Rightarrow> (\<exists>k. results = materializationResults (map applied (take k plans) @ drop k plans)))"

lemma ApplyProfileMaterializations_ends:
  "ends (ApplyProfileMaterializations fs codec batch)
     (\<lambda>r h. (\<exists>plans. carried_out codec batch plans r) \<or> (\<exists>failure. r = Inl failure) \<and> quietly [] h) []"
proof -
  have unblocked: "list_all (\<lambda>plan. \<not> plan_blocked plan) plans" if "find plan_blocked plans = None" for plans
    using that by (simp add: find_None_iff list_all_iff)
  show ?thesis
    unfolding ApplyProfileMaterializations_def count_results_def Let_def
    by (intro durable_rules prepare_all_ends count_times_ends snapshotMaterializationPlans_ends apply_all_ends)
      (auto simp: carried_out_def dest: unblocked intro: quietly_trans)
qed

section \<open>Only admitted batches are written\<close>

definition item_name :: "profile_materialization \<Rightarrow> string" where
  "item_name item = (if pm_ComponentID item = [] then pm_ID item else pm_ComponentID item)"

definition needs_consent :: "profile_materialization \<Rightarrow> bool" where
  "needs_consent item \<longleftrightarrow> pm_ApprovalRequired item \<or> materializationApprovalPolicy item \<noteq> None"

text \<open>A marker of the user for exactly this Component, digest and lock.\<close>

definition consented :: "materialization_batch \<Rightarrow> materialization_result \<Rightarrow> bool" where
  "consented batch result \<longleftrightarrow>
     (\<exists>marker. map_of (pb_Approvals batch) (mr_ComponentID result) = Some marker
        \<and> am_ComponentID marker = mr_ComponentID result \<and> am_ComponentDigest marker = mr_ComponentDigest result
        \<and> (am_LockID marker = [] \<or> am_LockID marker = mr_LockID result)
        \<and> (am_LockDigest marker = [] \<or> am_LockDigest marker = mr_LockDigest result)
        \<and> (am_LockID marker \<noteq> [] \<or> am_LockDigest marker \<noteq> []))"

definition item_admitted :: "materialization_batch \<Rightarrow> profile_materialization \<Rightarrow> materialization_result \<Rightarrow> bool" where
  "item_admitted batch item result \<longleftrightarrow>
     mr_ComponentID result = item_name item \<and> mr_Target result = pm_Target item \<and> inside_path (mr_Target result)
     \<and> mr_Operation result \<notin> {OperationDrift, OperationConflict, OperationRequiresInput}
     \<and> (needs_consent item \<and> mr_Operation result \<notin> {OperationSkip, OperationOrphan} \<longrightarrow> consented batch result)"

lemma approval_policy_named [simp]:
  "materializationApprovalPolicy (item\<lparr>pm_ComponentID := c, pm_ID := i\<rparr>) = materializationApprovalPolicy item"
  by (simp add: materializationApprovalPolicy_def)

lemma normalize_item_shape:
  assumes "normalize_item original = Inr item"
  obtains reason where
    "item = original\<lparr>pm_ComponentID := item_name original, pm_ID := item_name original,
                     pm_ApprovalRequired := needs_consent original, pm_ApprovalReason := reason\<rparr>"
proof (cases "materializationApprovalPolicy original")
  case None
  with assms have "item = original\<lparr>pm_ComponentID := item_name original, pm_ID := item_name original\<rparr>"
    by (auto simp: normalize_item_def Let_def item_name_def split: if_splits)
  then have "item = original\<lparr>pm_ComponentID := item_name original, pm_ID := item_name original,
      pm_ApprovalRequired := needs_consent original, pm_ApprovalReason := pm_ApprovalReason original\<rparr>"
    using None by (simp add: needs_consent_def)
  then show ?thesis by (rule that)
next
  case (Some reason)
  with assms have "item = original\<lparr>pm_ComponentID := item_name original, pm_ID := item_name original,
      pm_ApprovalRequired := needs_consent original,
      pm_ApprovalReason := (if pm_ApprovalReason original = [] then reason else pm_ApprovalReason original)\<rparr>"
    by (auto simp: normalize_item_def Let_def item_name_def needs_consent_def split: if_splits)
  then show ?thesis by (rule that)
qed

lemma normalize_item_fields:
  assumes "normalize_item original = Inr item"
  shows "pm_ComponentID item = item_name original" "pm_Target item = pm_Target original"
    "pm_ApprovalRequired item = needs_consent original" "pm_Mode item = pm_Mode original"
    "pm_ContentDigest item = pm_ContentDigest original" "pm_LastAppliedDigest item = pm_LastAppliedDigest original"
    "pm_EffectiveCacheKeyChanged item = pm_EffectiveCacheKeyChanged original"
    "pm_ObservedDigest item = pm_ObservedDigest original"
  using assms by (auto elim!: normalize_item_shape)

lemma granted_consented:
  "approvalGranted (pb_Approvals batch) item \<Longrightarrow>
   consented batch (materialization_result_of (item\<lparr>pm_ContentDigest := digest\<rparr>) operation lastApplied observed)"
  by (auto simp: approvalGranted_def consented_def materialization_result_of_def Let_def
      split: option.splits if_splits)

lemma item_operation_same:
  assumes "item_operation codec batch item item' operation"
  obtains digest where "item' = item\<lparr>pm_ContentDigest := digest\<rparr>"
proof -
  have same: "item = item\<lparr>pm_ContentDigest := pm_ContentDigest item\<rparr>" by simp
  from assms have "item' = item \<or> canonical_item codec item = Inr item'"
    by (simp add: item_operation_def split: if_splits)
  then show thesis
  proof
    assume "item' = item"
    with same have "item' = item\<lparr>pm_ContentDigest := pm_ContentDigest item\<rparr>" by simp
    then show thesis by (rule that)
  qed (auto elim: canonical_item_same intro: that)
qed

lemma prepared_admitted:
  assumes "prepared codec batch original plan" and "\<not> plan_blocked plan"
  shows "item_admitted batch original (pl_result plan)" "mr_ApprovalRequired (pl_result plan) = needs_consent original"
proof -
  from assms(1) obtain item plan' where item: "normalize_item original = Inr item"
      "prepared_item codec batch item plan'" "plan = withhold_unapproved (pb_Approvals batch) item plan'"
    by (auto simp: prepared_def)
  from item(2) obtain item' operation where operation: "item_operation codec batch item item' operation"
      "pl_result plan' = materialization_result_of item' operation (pm_LastAppliedDigest item') (pm_ObservedDigest item')"
      "validateMaterializationTarget (pm_Target item)"
    by (auto simp: prepared_item_def)
  from operation(1) obtain digest where item': "item' = item\<lparr>pm_ContentDigest := digest\<rparr>"
    by (rule item_operation_same)
  note fields = normalize_item_fields [OF item(1)] accepted_target_inside [OF operation(3)]
  have result: "mr_ComponentID (pl_result plan) = pm_ComponentID item" "mr_Target (pl_result plan) = pm_Target item"
      "mr_ApprovalRequired (pl_result plan) = pm_ApprovalRequired item"
    by (simp_all add: item(3) withhold_unapproved_def operation(2) item' materialization_result_of_def Let_def)
  have "consented batch (pl_result plan)"
    if "needs_consent original" "mr_Operation (pl_result plan) \<notin> {OperationSkip, OperationOrphan}"
  proof -
    have "approvalGranted (pb_Approvals batch) item"
      using that assms(2) fields(3) by (auto simp: item(3) withhold_unapproved_def plan_blocked_def split: if_splits)
    then show ?thesis
      using granted_consented by (simp add: item(3) withhold_unapproved_def operation(2) item')
  qed
  with fields result assms(2) show "item_admitted batch original (pl_result plan)"
    "mr_ApprovalRequired (pl_result plan) = needs_consent original"
    by (auto simp: item_admitted_def plan_blocked_def)
qed

lemma applied_admitted [simp]:
  "item_admitted batch item (pl_result (applied plan)) = item_admitted batch item (pl_result plan)"
  "mr_ApprovalRequired (pl_result (applied plan)) = mr_ApprovalRequired (pl_result plan)"
  "mr_Operation (pl_result (applied plan)) = mr_Operation (pl_result plan)"
  by (simp_all add: applied_def settled_def item_admitted_def consented_def Let_def)

definition batch_results ::
  "(guest_error \<times> materialization_result list) + materialization_result list \<Rightarrow> materialization_result list" where
  "batch_results r = (case r of Inl (err, results) \<Rightarrow> results | Inr results \<Rightarrow> results)"

lemma carried_out_admitted:
  assumes "carried_out codec batch plans r"
  shows "list_all2 (item_admitted batch) (pb_Items batch) (batch_results r)"
proof -
  have admitted: "list_all2 (\<lambda>item plan. item_admitted batch item (pl_result plan)) (pb_Items batch) plans"
    using assms prepared_admitted(1)
    by (auto simp: carried_out_def list_all2_conv_all_nth list_all_length)
  have "\<exists>qs. batch_results r = map pl_result qs \<and> length qs = length plans
      \<and> (\<forall>i < length plans. qs ! i = plans ! i \<or> qs ! i = applied (plans ! i))"
  proof (cases r)
    case (Inr results)
    then show ?thesis
      using assms by (intro exI [of _ "map applied plans"]) (auto simp: carried_out_def batch_results_def materializationResults_def)
  next
    case (Inl failure)
    then obtain err k where "r = Inl (err, materializationResults (map applied (take k plans) @ drop k plans))"
      using assms by (cases failure) (auto simp: carried_out_def)
    then show ?thesis
      by (intro exI [of _ "map applied (take k plans) @ drop k plans"])
        (auto simp: batch_results_def materializationResults_def nth_append)
  qed
  with admitted show ?thesis
    by (auto simp: list_all2_conv_all_nth)
qed

text \<open>
  C12. The guest writes only admitted batches: if any call changed a file, then every item of the batch was
  planned to a target inside its root, without drift, conflict or open question, and each item that needs
  consent is left alone or has a marker of the user for exactly its Component, digest and lock.  This holds for
  every behaviour of the file system, and for batches that fail and are rolled back.
\<close>

theorem guest_writes_admitted:
  assumes "ApplyProfileMaterializations fs codec batch [] = (r, h)"
  shows "list_ex mutates h \<longrightarrow> list_all2 (item_admitted batch) (pb_Items batch) (batch_results r)"
proof -
  from endsD [OF ApplyProfileMaterializations_ends assms]
  have "(\<exists>plans. carried_out codec batch plans r) \<or> quietly [] h" by blast
  then show ?thesis
    by (auto simp: quietly_def list_all_iff list_ex_iff intro: carried_out_admitted)
qed

section \<open>Consent is not accepted\<close>

lemma check_results_approval:
  assumes "result \<in> set results" and "mr_ApprovalRequired result"
  shows "check_results lock seen results \<noteq> None"
  using assms
proof (induction results arbitrary: seen)
  case (Cons first results)
  then show ?case
    by (auto simp: check_result_def Let_def split: option.splits if_splits)
qed simp

text \<open>
  C17. A Component that needs consent can never be installed: when the guest has applied a batch with such
  a Component, approved by the user or already in place, the workflow refuses the guest's results, whatever
  the Capsule Lock is.
\<close>

theorem approved_component_refused:
  assumes "ApplyProfileMaterializations fs codec batch [] = (Inr results, h)"
    and "item \<in> set (pb_Items batch)" and "needs_consent item"
  shows "validateEnvironmentMaterializationResults lock results \<noteq> None"
proof -
  from endsD [OF ApplyProfileMaterializations_ends assms(1)]
  obtain plans where plans: "list_all2 (prepared codec batch) (pb_Items batch) plans"
      "list_all (\<lambda>plan. \<not> plan_blocked plan) plans" "results = materializationResults (map applied plans)"
    by (auto simp: carried_out_def)
  from list_all2_left [OF plans(1) assms(2)] obtain plan where
    plan: "plan \<in> set plans" "prepared codec batch item plan" by blast
  from plan plans(2) have "mr_ApprovalRequired (pl_result (applied plan))"
    using prepared_admitted(2) [OF plan(2)] assms(3) by (simp add: list_all_iff)
  moreover have "pl_result (applied plan) \<in> set results"
    using plan(1) by (simp add: plans(3) materializationResults_def)
  ultimately show ?thesis
    using check_results_approval by (auto simp: validateEnvironmentMaterializationResults_def)
qed

section \<open>Concrete batches\<close>

lemma content_digest_nonempty [simp]: "MaterializationContentDigest content \<noteq> []"
  by (simp add: MaterializationContentDigest_def sha256_digest_def)

lemma content_digest_pattern [simp]: "contentDigestPattern (MaterializationContentDigest content)"
  by (simp add: MaterializationContentDigest_def sha256_digest_pattern)

text \<open>A file system without files, in which every write succeeds.\<close>

definition empty_fs :: guest_fs where
  "empty_fs =
     \<lparr>g_lstat = (\<lambda>_ _ _. Inl NotExist), g_open = (\<lambda>_ _ _. Inl ''closed''), g_stat = (\<lambda>_ _. Inl ''closed''),
      g_read_handle = (\<lambda>_ _. Inl ''closed''), g_walk = (\<lambda>_ _ _. []), g_read = (\<lambda>_ _ _. Inl ''closed''),
      g_info = (\<lambda>_ _ _. Inl ''closed''), g_mkdir_all = (\<lambda>_ _ _ _. None), g_mkdir = (\<lambda>_ _ _ _. None),
      g_random = (\<lambda>_. Inr ''r''), g_create = (\<lambda>_ _ _ _. Inr 7), g_handle_chmod = (\<lambda>_ _ _. None),
      g_write = (\<lambda>_ _ _. None), g_sync = (\<lambda>_ _. None), g_close = (\<lambda>_ _. None), g_link = (\<lambda>_ _ _ _. None),
      g_rename = (\<lambda>_ _ _ _. None), g_remove = (\<lambda>_ _ _. None), g_remove_all = (\<lambda>_ _ _. None),
      g_chmod = (\<lambda>_ _ _ _. None),
      g_host_lstat = (\<lambda>_ _. Inr \<lparr>fi_ID = 1, fi_Kind = DirectoryFile, fi_Perm = 448\<rparr>),
      g_open_root = (\<lambda>_ _. None), g_root_stat = (\<lambda>_ _. Inr \<lparr>fi_ID = 1, fi_Kind = DirectoryFile, fi_Perm = 448\<rparr>)\<rparr>"

text \<open>The same with one file, which a user replaces by a directory after \<open>n\<close> calls.\<close>

definition one_file_fs :: "nat \<Rightarrow> guest_fs" where
  "one_file_fs n = empty_fs\<lparr>
     g_lstat := (\<lambda>h _ _. Inr \<lparr>fi_ID = 5, fi_Kind = (if length h < n then RegularFile else DirectoryFile), fi_Perm = 384\<rparr>),
     g_open := (\<lambda>_ _ _. Inr 5), g_stat := (\<lambda>_ _. Inr \<lparr>fi_ID = 5, fi_Kind = RegularFile, fi_Perm = 384\<rparr>),
     g_read_handle := (\<lambda>_ _. Inr ''old''), g_read := (\<lambda>_ _ _. Inr ''old'')\<rparr>"

definition demo_item :: profile_materialization where
  "demo_item =
     \<lparr>pm_ID = ''c'', pm_LockID = ''l'', pm_LockDigest = ''ld'', pm_CapsuleDigest = ''cd'', pm_ComponentID = ''c'',
      pm_ComponentDigest = ''d'', pm_AdapterID = [], pm_AdapterVersion = [], pm_TargetAgentVersion = [],
      pm_Scope = ScopeUser, pm_NonSecretOverridesDigest = [], pm_SecretVersionIdentifiers = None,
      pm_EffectiveCacheKey = [], pm_EffectiveCacheKeyChanged = True, pm_Kind = ComponentHook,
      pm_TrustClass = TrustDeclarative, pm_Requirements = \<lparr>reqs_Commands = None, reqs_Secrets = None\<rparr>,
      pm_Mode = MaterializationManaged, pm_Root = MaterializationHome, pm_Target = ''x'', pm_Selector = [],
      pm_Content = ''hi'', pm_ContentSize = 2, pm_ContentDigest = MaterializationContentDigest ''hi'',
      pm_FileMode = 0, pm_Files = [], pm_Directory = False, pm_FilePaths = None, pm_LastAppliedDigest = [],
      pm_ObservedDigest = [], pm_RequirementState = RequirementOther [], pm_CredentialRequirementDigest = [],
      pm_ApprovalRequired = False, pm_ApprovalReason = []\<rparr>"

definition demo_batch :: "profile_materialization \<Rightarrow> materialization_batch" where
  "demo_batch item =
     \<lparr>pb_HomeRoot = ''/h'', pb_WorkspaceRoot = ''/w'', pb_Intent = IntentReconcile, pb_Items = [item],
      pb_Approvals = [(''c'', \<lparr>am_ComponentID = ''c'', am_ComponentDigest = ''d'', am_LockID = ''l'',
        am_LockDigest = ''ld''\<rparr>)], pb_Metrics = False\<rparr>"

definition demo_seeded :: profile_materialization where
  "demo_seeded = demo_item\<lparr>pm_Mode := MaterializationSeeded,
     pm_LastAppliedDigest := MaterializationContentDigest ''old'',
     pm_ObservedDigest := MaterializationContentDigest ''old''\<rparr>"

lemmas fs_eval = empty_fs_def run_step_def run_void_def read_from_def emit_def finish_def abandon_def ignoring_def Let_def
  readMaterializedFile_def observeMaterialization_def observeMaterializedFile_def writeMaterializedFile_def
  openMaterializationRoot_def batchMaterializationRoot_def observed_again_def snapshotMaterialization_def

lemmas engine_eval = ApplyProfileMaterializations_def count_results_def materializationResults_def
  normalize_item_def materializationApprovalPolicy_def recordMaterializationOwnership_def
  prepareProfileMaterialization_def validateDesiredMaterialization_def check_content_def
  validateMaterializationTarget_def validateMaterializationSelector_def validateMaterializationSelectorSyntax_def
  canonical_item_def planFileMaterialization_def run_plan_def PlanMaterialization_def
  NewManagedMaterialization_def NewSeededMaterialization_def materializationDigestState_def
  PresentDigest_def AbsentDigest_def withhold_unapproved_def approvalGranted_def plan_blocked_def
  materialization_result_of_def effective_selector_def materializationIsDirectory_def materializationMode_def
  apply_plan_def write_plan_def write_content_def settled_def

lemmas path_eval = path_Clean_def path_IsAbs_def path_Dir_def path_Join_def has_backslash_def FilepathExt_def
  materialization_name_def

lemma demo_hook_applied:
  "\<exists>results h. ApplyProfileMaterializations empty_fs tiny_codec (demo_batch demo_item) [] = (Inr results, h)
     \<and> list_ex mutates h"
  by (simp add: demo_batch_def demo_item_def engine_eval fs_eval path_eval)

theorem guest_writes_admitted_witness:
  "\<exists>r h. ApplyProfileMaterializations empty_fs tiny_codec (demo_batch demo_item) [] = (r, h) \<and> list_ex mutates h
     \<and> list_all2 (item_admitted (demo_batch demo_item)) [demo_item] (batch_results r)"
proof -
  obtain results h where run: "ApplyProfileMaterializations empty_fs tiny_codec (demo_batch demo_item) [] = (Inr results, h)"
      "list_ex mutates h"
    using demo_hook_applied by blast
  with guest_writes_admitted [OF run(1)] show ?thesis by (simp add: demo_batch_def)
qed

theorem approved_component_refused_witness:
  "\<exists>results h. ApplyProfileMaterializations empty_fs tiny_codec (demo_batch demo_item) [] = (Inr results, h)
     \<and> validateEnvironmentMaterializationResults (sample_lock_snapshot None) results \<noteq> None"
proof -
  obtain results h where run: "ApplyProfileMaterializations empty_fs tiny_codec (demo_batch demo_item) [] = (Inr results, h)"
    using demo_hook_applied by blast
  have "demo_item \<in> set (pb_Items (demo_batch demo_item))" "needs_consent demo_item"
    by (simp_all add: demo_batch_def needs_consent_def materializationApprovalPolicy_def demo_item_def)
  with approved_component_refused [OF run] run show ?thesis by blast
qed

end
