(* ===== verification/Guest_Effects.thy ===== *)
theory Guest_Effects
  imports Guest_Safety
begin

text \<open>
  What a batch of \<open>Guest_Apply\<close> has done to the files when it ends: a batch that succeeds has put the content
  of its items in place or removed their targets, and one that fails on a changed target has restored the
  snapshots it had taken.
\<close>

lemma canonical_item_digest:
  "canonical_item codec item = Inr item' \<Longrightarrow> pm_ContentDigest item \<noteq> [] \<Longrightarrow> pm_ContentDigest item' \<noteq> []"
  by (auto simp: canonical_item_def split: if_splits sum.splits)

section \<open>Content in place\<close>

text \<open>
  A content was put at a target: written to a new file that was then linked or renamed to the target.  A
  directory was put: its files were put into another directory that was then renamed to the target.
\<close>

definition file_put :: "fs_trace \<Rightarrow> materialization_root \<Rightarrow> string \<Rightarrow> bytes \<Rightarrow> bool" where
  "file_put h root target content \<longleftrightarrow>
     (\<exists>temporary fd mode h1 e h2. h = h1 @ e # h2
        \<and> e \<in> {Linked root temporary target None, Renamed root temporary target None}
        \<and> CreatedFile root temporary mode (Inr fd) \<in> set h1 \<and> HandleWrite fd content None \<in> set h1)"

definition directory_put :: "fs_trace \<Rightarrow> materialization_root \<Rightarrow> string \<Rightarrow> materialization_file list \<Rightarrow> bool" where
  "directory_put h root target files \<longleftrightarrow>
     (\<exists>temporary h1 h2. h = h1 @ Renamed root temporary target None # h2
        \<and> (\<forall>f \<in> set files. file_put h1 root (path_Join temporary (mf_Path f)) (mf_Content f)))"

text \<open>What a read of the target has found: no file, or this content through a handle on the target.\<close>

definition file_read :: "fs_trace \<Rightarrow> materialization_root \<Rightarrow> string \<Rightarrow> bytes option \<Rightarrow> bool" where
  "file_read h root target found \<longleftrightarrow>
     (case found of
        None \<Rightarrow> Lstat root target (Inl NotExist) \<in> set h
      | Some content \<Rightarrow> (\<exists>fd. Opened root target (Inr fd) \<in> set h \<and> ReadHandle fd (Inr content) \<in> set h))"

definition content_in_place :: "fs_trace \<Rightarrow> materialization_root \<Rightarrow> string \<Rightarrow> bytes \<Rightarrow> bool" where
  "content_in_place h root target content \<longleftrightarrow>
     file_put h root target content \<or> file_read h root target (Some content)"

lemma file_put_append: "file_put h root target content \<Longrightarrow> file_put (h @ t) root target content"
  "file_put t root target content \<Longrightarrow> file_put (h @ t) root target content"
proof -
  assume "file_put t root target content"
  then obtain temporary fd mode h1 e h2 where "t = h1 @ e # h2"
    "e \<in> {Linked root temporary target None, Renamed root temporary target None}"
    "CreatedFile root temporary mode (Inr fd) \<in> set h1" "HandleWrite fd content None \<in> set h1"
    unfolding file_put_def by blast
  then show "file_put (h @ t) root target content"
    unfolding file_put_def
    by (intro exI [of _ temporary] exI [of _ fd] exI [of _ mode] exI [of _ "h @ h1"] exI [of _ e] exI [of _ h2])
      auto
qed (force simp: file_put_def)

lemma directory_put_append: "directory_put h root target files \<Longrightarrow> directory_put (h @ t) root target files"
  "directory_put t root target files \<Longrightarrow> directory_put (h @ t) root target files"
proof -
  assume "directory_put t root target files"
  then obtain temporary h1 h2 where "t = h1 @ Renamed root temporary target None # h2"
    "\<forall>f \<in> set files. file_put h1 root (path_Join temporary (mf_Path f)) (mf_Content f)"
    unfolding directory_put_def by blast
  then show "directory_put (h @ t) root target files"
    unfolding directory_put_def
    by (intro exI [of _ temporary] exI [of _ "h @ h1"] exI [of _ h2]) (auto intro: file_put_append)
qed (force simp: directory_put_def)

lemma directory_put_Cons: "directory_put t root target files \<Longrightarrow> directory_put (e # t) root target files"
  using directory_put_append(2) [of t root target files "[e]"] by simp

lemma file_read_append: "file_read h root target found \<Longrightarrow> file_read (h @ t) root target found"
  "file_read t root target found \<Longrightarrow> file_read (h @ t) root target found"
  by (auto simp: file_read_def split: option.splits)

lemma content_in_place_append: "content_in_place h root target content \<Longrightarrow> content_in_place (h @ t) root target content"
  "content_in_place t root target content \<Longrightarrow> content_in_place (h @ t) root target content"
  by (auto simp: content_in_place_def file_put_append file_read_append)

lemma in_place_later:
  "later h h' \<Longrightarrow> file_put h root target content \<Longrightarrow> file_put h' root target content"
  "later h h' \<Longrightarrow> directory_put h root target files \<Longrightarrow> directory_put h' root target files"
  "later h h' \<Longrightarrow> file_read h root target found \<Longrightarrow> file_read h' root target found"
  "later h h' \<Longrightarrow> content_in_place h root target content \<Longrightarrow> content_in_place h' root target content"
  by (auto simp: later_def file_put_append directory_put_append file_read_append content_in_place_append)

section \<open>What the calls do\<close>

text \<open>The journal \<open>h'\<close> continues \<open>h\<close> with something that holds of the continuation alone.\<close>

definition since :: "fs_trace \<Rightarrow> fs_trace \<Rightarrow> (fs_trace \<Rightarrow> bool) \<Rightarrow> bool" where
  "since h h' P \<longleftrightarrow> (\<exists>t. h' = h @ t \<and> P t)"

lemma file_putI:
  "e \<in> {Linked root temporary target None, Renamed root temporary target None} \<Longrightarrow>
   CreatedFile root temporary mode (Inr fd) \<in> set h1 \<Longrightarrow> HandleWrite fd content None \<in> set h1 \<Longrightarrow>
   file_put (h1 @ e # h2) root target content"
  unfolding file_put_def by blast

lemma file_put_sequence:
  "file_put (a # CreatedFile root temporary mode (Inr fd) # b # HandleWrite fd content None # c # d
     # Linked root temporary target None # t) root target content"
  "file_put (a # CreatedFile root temporary mode (Inr fd) # b # HandleWrite fd content None # c # d
     # Renamed root temporary target None # t) root target content"
  using file_putI [of _ root temporary target mode fd
      "[a, CreatedFile root temporary mode (Inr fd), b, HandleWrite fd content None, c, d]" content t]
  by simp_all

lemma file_put_Cons: "file_put t root target content \<Longrightarrow> file_put (e # t) root target content"
  using file_put_append(2) [of t root target content "[e]"] by simp

lemma writeMaterializedFile_puts:
  assumes "\<And>err h'. later h h' \<Longrightarrow> ends (onError err) Q h'"
    and "\<And>h'. since h h' (\<lambda>t. file_put t root target content) \<Longrightarrow> ends continue Q h'"
  shows "ends (writeMaterializedFile fs root target content mode create onError continue) Q h"
  unfolding writeMaterializedFile_def Let_def
  by (intro durable_rules assms) (auto simp: since_def file_put_sequence intro: file_put_Cons)

lemma write_files_puts:
  assumes "\<And>err h'. later h h' \<Longrightarrow> ends (onError err) Q h'"
    and "\<And>h'. since h h' (\<lambda>t. \<forall>f \<in> set files. file_put t root (path_Join temporary (mf_Path f)) (mf_Content f))
      \<Longrightarrow> ends continue Q h'"
  shows "ends (write_files fs root temporary files onError continue) Q h"
  using assms
proof (induction files arbitrary: h)
  case (Cons f files)
  have step: "ends (write_files fs root temporary files onError continue) Q h'"
    if "since h h' (\<lambda>t. file_put t root (path_Join temporary (mf_Path f)) (mf_Content f))" for h'
  proof (rule Cons.IH)
    show "ends (onError err) Q h''" if "later h' h''" for err h''
      using that \<open>since h h' _\<close> by (intro Cons.prems(1)) (auto simp: since_def later_def)
    show "ends continue Q h''"
      if "since h' h'' (\<lambda>t. \<forall>f \<in> set files. file_put t root (path_Join temporary (mf_Path f)) (mf_Content f))" for h''
      using that \<open>since h h' _\<close> by (intro Cons.prems(2)) (auto simp: since_def file_put_append)
  qed
  show ?case
    unfolding write_files.simps
    by (intro writeMaterializedFile_puts step Cons.prems(1))
qed (simp add: since_def)

lemma replace_directory_puts:
  assumes "\<And>err h'. later h h' \<Longrightarrow> ends (onError err) Q h'"
    and "\<And>h'. since h h' (\<lambda>t. Renamed root temporary target None \<in> set t) \<Longrightarrow> ends continue Q h'"
  shows "ends (replace_directory fs root parent temporary target onError continue) Q h"
  unfolding replace_directory_def Let_def
  by (intro durable_rules assms) (auto simp: since_def)

lemma directory_putI:
  assumes "since h0 h1 (\<lambda>t. \<forall>f \<in> set files. file_put t root (path_Join temporary (mf_Path f)) (mf_Content f))"
    and "since h1 h2 (\<lambda>t. Renamed root temporary target None \<in> set t)" and "later h h0"
  shows "since h (h2 @ u) (\<lambda>t. directory_put t root target files)"
proof -
  from assms obtain a b c d where "h2 = h @ a @ b @ c @ Renamed root temporary target None # d"
    and files: "\<forall>f \<in> set files. file_put b root (path_Join temporary (mf_Path f)) (mf_Content f)"
    by (auto simp: since_def later_def in_set_conv_decomp)
  moreover have "directory_put ((a @ b @ c) @ Renamed root temporary target None # d @ u) root target files"
    unfolding directory_put_def using files
    by (intro exI [of _ temporary] exI [of _ "a @ b @ c"] exI [of _ "d @ u"] conjI refl) (auto simp: file_put_append)
  ultimately show ?thesis by (auto simp: since_def)
qed

lemma since_later: "since h h' P \<Longrightarrow> later h h'"
  by (auto simp: since_def later_def)

lemma writeMaterializedDirectory_puts:
  assumes "\<And>err h'. later h h' \<Longrightarrow> ends (onError err) Q h'"
    and "\<And>h'. since h h' (\<lambda>t. directory_put t root target files) \<Longrightarrow> ends continue Q h'"
  shows "ends (writeMaterializedDirectory fs root target files onError continue) Q h"
  unfolding writeMaterializedDirectory_def Let_def
  by (intro durable_rules write_files_puts replace_directory_puts assms(1) assms(2) directory_putI)
    (auto elim: later_from dest!: since_later intro: later_trans)

section \<open>What applying a plan does\<close>

lemma readMaterializedFile_reads:
  assumes "\<And>err h'. quietly h h' \<Longrightarrow> ends (onError err) Q h'"
    and "\<And>found h'. quietly h h' \<Longrightarrow> since h h' (\<lambda>t. file_read t root target found) \<Longrightarrow> ends (continue found) Q h'"
  shows "ends (readMaterializedFile fs root target onError continue) Q h"
  unfolding readMaterializedFile_def
  by (intro durable_rules assms) (auto simp: since_def file_read_def)

text \<open>The plan was carried out: a removal removed the target or its selection, anything else is in place.\<close>

definition merged_selection ::
  "selection_codec \<Rightarrow> string \<Rightarrow> string \<Rightarrow> bytes option \<Rightarrow> bytes \<Rightarrow> selection_error + bytes" where
  "merged_selection codec target selector found content =
     (if FilepathExt target = ''.toml'' then mergeTOMLSelection codec found selector content
      else mergeJSONSelection codec found selector content)"

definition removed_selection :: "selection_codec \<Rightarrow> string \<Rightarrow> string \<Rightarrow> bytes \<Rightarrow> selection_error + bytes" where
  "removed_selection codec target selector content =
     (if FilepathExt target = ''.toml'' then removeTOMLSelection codec content selector
      else removeJSONSelection codec content selector)"

definition target_written ::
  "selection_codec \<Rightarrow> fs_trace \<Rightarrow> materialization_root \<Rightarrow> string \<Rightarrow> string \<Rightarrow> bool \<Rightarrow> bytes
   \<Rightarrow> materialization_file list \<Rightarrow> bool" where
  "target_written codec h root target selector directory content files \<longleftrightarrow>
     (if directory then directory_put h root target files
      else if selector = ''$'' then content_in_place h root target content
      else (\<exists>found merged. file_read h root target found
              \<and> merged_selection codec target selector found content = Inr merged
              \<and> content_in_place h root target merged))"

definition target_removed ::
  "selection_codec \<Rightarrow> fs_trace \<Rightarrow> materialization_root \<Rightarrow> string \<Rightarrow> string \<Rightarrow> bool \<Rightarrow> bool" where
  "target_removed codec h root target selector directory \<longleftrightarrow>
     (if directory then RemovedAll root target None \<in> set h
      else if selector = ''$'' then Removed root target None \<in> set h
      else file_read h root target None
        \<or> (\<exists>content updated. file_read h root target (Some content)
             \<and> removed_selection codec target selector content = Inr updated \<and> file_put h root target updated))"

lemma write_content_puts:
  assumes "\<And>err h'. later h h' \<Longrightarrow> ends (onError err) Q h'"
    and "\<And>h'. since h h' (\<lambda>t. content_in_place t (pl_root plan) (mr_Target (pl_result plan)) content)
      \<Longrightarrow> ends continue Q h'"
  shows "ends (write_content fs plan content onError continue) Q h"
  unfolding write_content_def Let_def
  by (intro durable_rules readMaterializedFile_reads writeMaterializedFile_puts materializedFileMode_ends assms)
    (auto simp: since_def content_in_place_def later_def quietly_def file_put_append file_read_append)

lemma target_writtenI:
  "directory \<Longrightarrow> since h h' (\<lambda>t. directory_put t root target files)
   \<Longrightarrow> since h h' (\<lambda>t. target_written codec t root target selector directory content files)"
  "\<not> directory \<Longrightarrow> selector = ''$'' \<Longrightarrow> since h h' (\<lambda>t. content_in_place t root target content)
   \<Longrightarrow> since h h' (\<lambda>t. target_written codec t root target selector directory content files)"
  by (auto simp: since_def target_written_def)

lemma target_written_mergedI:
  assumes "\<not> directory" "selector \<noteq> ''$''" "since h h1 (\<lambda>t. file_read t root target found)"
    and "merged_selection codec target selector found content = Inr merged"
    and "since h1 h' (\<lambda>t. content_in_place t root target merged)"
  shows "since h h' (\<lambda>t. target_written codec t root target selector directory content files)"
proof -
  from assms(3,5) obtain a b where "h' = h @ a @ b" and "file_read a root target found"
    "content_in_place b root target merged" by (auto simp: since_def)
  then have "file_read (a @ b) root target found" "content_in_place (a @ b) root target merged" "h' = h @ (a @ b)"
    by (simp_all add: file_read_append content_in_place_append)
  with assms(1,2,4) show ?thesis unfolding since_def target_written_def by auto
qed

lemma write_plan_puts:
  assumes "\<And>err h'. later h h' \<Longrightarrow> ends (onError err) Q h'"
    and "\<And>h'. since h h' (\<lambda>t. target_written codec t (pl_root plan) (mr_Target (pl_result plan))
        (mr_Selector (pl_result plan)) (pl_directory plan) (pl_content plan) (pl_files plan)) \<Longrightarrow> ends continue Q h'"
  shows "ends (write_plan fs codec plan onError continue) Q h"
proof -
  have merged: "ends (write_content fs plan merged onError continue) Q h1"
    if "\<not> pl_directory plan" "mr_Selector (pl_result plan) \<noteq> ''$''"
      "since h h1 (\<lambda>t. file_read t (pl_root plan) (mr_Target (pl_result plan)) found)"
      "merged_selection codec (mr_Target (pl_result plan)) (mr_Selector (pl_result plan)) found (pl_content plan)
        = Inr merged" for found merged h1
  proof (rule write_content_puts)
    show "ends (onError err) Q h'" if "later h1 h'" for err h'
      using assms(1) later_trans [OF since_later [OF \<open>since h h1 _\<close>] that] .
  qed (rule assms(2), rule target_written_mergedI [OF that])
  show ?thesis
    unfolding write_plan_def Let_def merged_selection_def [symmetric]
    by (intro durable_rules readMaterializedFile_reads write_content_puts writeMaterializedDirectory_puts merged
        assms target_writtenI)
      (auto dest: quietly_later)
qed

lemma target_removedI:
  "directory \<Longrightarrow> since h (h @ [RemovedAll root target None]) (\<lambda>t. target_removed codec t root target selector directory)"
  "\<not> directory \<Longrightarrow> selector = ''$'' \<Longrightarrow>
   since h (h @ [Removed root target None]) (\<lambda>t. target_removed codec t root target selector directory)"
  "\<not> directory \<Longrightarrow> selector \<noteq> ''$'' \<Longrightarrow> later h h0 \<Longrightarrow> since h0 h' (\<lambda>t. file_read t root target None)
   \<Longrightarrow> since h h' (\<lambda>t. target_removed codec t root target selector directory)"
  by (auto simp: since_def later_def target_removed_def file_read_append)

lemma target_removed_updatedI:
  assumes "\<not> directory" "selector \<noteq> ''$''" "later h h0" "since h0 h1 (\<lambda>t. file_read t root target (Some content))"
    and "removed_selection codec target selector content = Inr updated"
    and "since h1 h' (\<lambda>t. file_put t root target updated)"
  shows "since h h' (\<lambda>t. target_removed codec t root target selector directory)"
proof -
  from assms(3,4,6) obtain a b c where "h' = h @ a @ b @ c" and "file_read b root target (Some content)"
    "file_put c root target updated" by (auto simp: since_def later_def)
  then have "file_read (a @ b @ c) root target (Some content)" "file_put (a @ b @ c) root target updated"
    "h' = h @ (a @ b @ c)"
    by (simp_all add: file_read_append file_put_append)
  with assms(1,2,5) show ?thesis unfolding since_def target_removed_def by auto
qed

lemma remove_plan_removes:
  assumes "\<And>err h'. later h h' \<Longrightarrow> ends (onError err) Q h'"
    and "\<And>h'. since h h' (\<lambda>t. target_removed codec t (pl_root plan) (mr_Target (pl_result plan))
        (mr_Selector (pl_result plan)) (pl_directory plan)) \<Longrightarrow> ends continue Q h'"
  shows "ends (remove_plan fs codec plan onError continue) Q h"
proof -
  let ?root = "pl_root plan" and ?target = "mr_Target (pl_result plan)" and ?selector = "mr_Selector (pl_result plan)"
  have updated: "ends (writeMaterializedFile fs ?root ?target updated mode False onError continue) Q h1"
    if "\<not> pl_directory plan" "?selector \<noteq> ''$''" "later h h0"
      "since h0 h1 (\<lambda>t. file_read t ?root ?target (Some content))"
      "removed_selection codec ?target ?selector content = Inr updated" for content updated mode h0 h1
  proof (rule writeMaterializedFile_puts)
    show "ends (onError err) Q h'" if "later h1 h'" for err h'
      using assms(1) later_trans [OF later_trans [OF \<open>later h h0\<close> since_later [OF \<open>since h0 h1 _\<close>]] that] .
  qed (rule assms(2), rule target_removed_updatedI [OF that])
  show ?thesis
    unfolding remove_plan_def remove_selection_def Let_def removed_selection_def [symmetric]
    by (intro durable_rules readMaterializedFile_reads materializedFileMode_ends updated assms)
      (auto dest!: quietly_later intro: target_removedI later_trans)
qed

text \<open>What a plan asks for was done.\<close>

definition plan_done :: "selection_codec \<Rightarrow> fs_trace \<Rightarrow> planned_materialization \<Rightarrow> bool" where
  "plan_done codec h plan \<longleftrightarrow>
     (active plan \<longrightarrow>
       (if mr_Operation (pl_result plan) = OperationRemove
        then target_removed codec h (pl_root plan) (mr_Target (pl_result plan)) (mr_Selector (pl_result plan))
               (pl_directory plan)
        else target_written codec h (pl_root plan) (mr_Target (pl_result plan)) (mr_Selector (pl_result plan))
               (pl_directory plan) (pl_content plan) (pl_files plan)))"

lemma target_done_mono:
  assumes "\<And>content. file_put h root target content \<Longrightarrow> file_put h' root target content"
    and "\<And>found. file_read h root target found \<Longrightarrow> file_read h' root target found"
    and "\<And>files. directory_put h root target files \<Longrightarrow> directory_put h' root target files"
    and "set h \<subseteq> set h'"
  shows "target_removed codec h root target selector directory \<Longrightarrow> target_removed codec h' root target selector directory"
    and "target_written codec h root target selector directory content files
      \<Longrightarrow> target_written codec h' root target selector directory content files"
  unfolding target_removed_def target_written_def content_in_place_def using assms
  by (simp_all split: if_splits) blast+

lemma target_done_later:
  assumes "later h h'"
  shows "target_removed codec h root target selector directory \<Longrightarrow> target_removed codec h' root target selector directory"
    and "target_written codec h root target selector directory content files
      \<Longrightarrow> target_written codec h' root target selector directory content files"
  by (rule target_done_mono [where h = h]; (assumption | erule in_place_later [OF assms]
      | use assms in \<open>auto simp: later_def\<close>))+

lemma target_done_prepend:
  "target_removed codec t root target selector directory \<Longrightarrow> target_removed codec (h @ t) root target selector directory"
  "target_written codec t root target selector directory content files
   \<Longrightarrow> target_written codec (h @ t) root target selector directory content files"
  by (rule target_done_mono [where h = t];
      simp add: file_put_append file_read_append directory_put_append)+

lemma since_done: "since h h' P \<Longrightarrow> (\<And>t u. P t \<Longrightarrow> P (u @ t)) \<Longrightarrow> P h'"
  by (auto simp: since_def)

lemma plan_done_later: "later h h' \<Longrightarrow> plan_done codec h plan \<Longrightarrow> plan_done codec h' plan"
  by (auto simp: plan_done_def intro: target_done_later split: if_splits)

lemma apply_plan_does:
  assumes "\<And>err h'. later h h' \<Longrightarrow> ends (onError err) Q h'"
    and "\<And>plan' h'. later h h' \<Longrightarrow> plan_done codec h' plan \<Longrightarrow> ends (continue plan') Q h'"
  shows "ends (apply_plan fs codec plan onError continue) Q h"
proof -
  have removed: "ends (continue plan') Q h'"
    if "later h h1" "mr_Operation (pl_result plan) = OperationRemove"
      "since h1 h' (\<lambda>t. target_removed codec t (pl_root plan) (mr_Target (pl_result plan))
        (mr_Selector (pl_result plan)) (pl_directory plan))" for plan' h1 h'
    by (rule assms(2) [OF later_trans [OF that(1) since_later [OF that(3)]]])
      (use that(2) since_done [OF that(3)] target_done_prepend in \<open>simp add: plan_done_def\<close>)
  have written: "ends (continue plan') Q h'"
    if "later h h1" "mr_Operation (pl_result plan) \<noteq> OperationRemove"
      "since h1 h' (\<lambda>t. target_written codec t (pl_root plan) (mr_Target (pl_result plan))
        (mr_Selector (pl_result plan)) (pl_directory plan) (pl_content plan) (pl_files plan))" for plan' h1 h'
    by (rule assms(2) [OF later_trans [OF that(1) since_later [OF that(3)]]])
      (use that(2) since_done [OF that(3)] target_done_prepend in \<open>simp add: plan_done_def\<close>)
  show ?thesis
    unfolding apply_plan_def Let_def
    by (intro durable_rules observeMaterialization_ends remove_plan_removes write_plan_puts assms(1))
      (auto simp: plan_done_def active_def intro: assms(2) removed written quietly_later later_trans [OF quietly_later])
qed

lemma ends_mono: "ends m P h \<Longrightarrow> (\<And>r h'. P r h' \<Longrightarrow> Q r h') \<Longrightarrow> ends m Q h"
  by (auto simp: ends_def split: prod.splits)

lemma ends_conj: "ends m P h \<Longrightarrow> ends m Q h \<Longrightarrow> ends m (\<lambda>r h'. P r h' \<and> Q r h') h"
  by (auto simp: ends_def split: prod.splits)

lemma apply_all_does:
  "ends (apply_all fs codec metrics backups applied_plans plans)
     (\<lambda>r h'. \<forall>results. r = Inr results \<longrightarrow> later h h' \<and> (\<forall>plan \<in> set plans. plan_done codec h' plan)) h"
proof (induction plans arbitrary: applied_plans h)
  case Nil
  show ?case
    unfolding apply_all.simps count_results_def Let_def
    by (intro count_times_ends ends_finish) (auto dest: quietly_later)
next
  case (Cons plan plans)
  have "ends (apply_all fs codec metrics backups applied' plans)
      (\<lambda>r h'. \<forall>results. r = Inr results \<longrightarrow> later h h' \<and> (\<forall>plan \<in> set (plan # plans). plan_done codec h' plan)) h1"
    if "later h h1" "plan_done codec h1 plan" for applied' h1
    using Cons.IH by (rule ends_mono) (use that in \<open>auto intro: later_trans plan_done_later\<close>)
  then show ?case
    unfolding apply_all.simps rollbackMaterializations_def
    by (intro apply_plan_does restore_all_ends ends_abandon) auto
qed

section \<open>Batches that succeed\<close>

lemma run_plan_kind:
  assumes "run_plan snapshot intent = Inr operation"
  shows "\<not> ds_present (ms_desired snapshot) \<Longrightarrow> operation \<in> {OperationRemove, OperationSkip, OperationOrphan}"
    and "ds_present (ms_desired snapshot) \<Longrightarrow> operation \<in> {OperationCreate, OperationUpdate, OperationSkip,
      OperationDrift, OperationConflict, OperationRequiresInput}"
  using assms by (auto simp: run_plan_def PlanMaterialization_def map_sum_def
      split: sum.splits if_splits materialization_kind.splits)

lemma plan_removed_kind:
  assumes "plan_removed item lastApplied observed intent = Inr operation"
  shows "operation \<in> {OperationRemove, OperationSkip, OperationOrphan}"
proof -
  from assms obtain snapshot where "run_plan snapshot intent = Inr operation" "ms_desired snapshot = AbsentDigest"
    by (auto simp: plan_removed_def NewManagedMaterialization_def NewSeededMaterialization_def
        NewReferencedMaterialization_def split: option.splits if_splits materialization_mode.splits)
  then show ?thesis using run_plan_kind(1) by (simp add: AbsentDigest_def)
qed

lemma planned_kind:
  assumes "planReferencedMaterialization item intent = Inr operation \<or> planFileMaterialization item observed intent = Inr operation"
    and "pm_ContentDigest item \<noteq> []"
  shows "operation \<in> {OperationCreate, OperationUpdate, OperationSkip, OperationDrift, OperationConflict,
    OperationRequiresInput}"
proof -
  have present: "materializationDigestState (pm_ContentDigest item) = Some desired \<Longrightarrow> ds_present desired" for desired
    using assms(2) by (auto simp: materializationDigestState_def PresentDigest_def split: if_splits)
  from assms(1) obtain snapshot desired where "run_plan snapshot intent = Inr operation" "ms_desired snapshot = desired"
      "materializationDigestState (pm_ContentDigest item) = Some desired"
    by (auto simp: planReferencedMaterialization_def planFileMaterialization_def NewManagedMaterialization_def
        NewSeededMaterialization_def NewReferencedMaterialization_def
        split: option.splits if_splits materialization_mode.splits)
  then show ?thesis using run_plan_kind(2) present by blast
qed

lemma item_operation_kind:
  assumes "item_operation codec batch item item' operation"
  shows "if pm_ContentDigest item = [] then operation \<in> {OperationRemove, OperationSkip, OperationOrphan}
    else operation \<in> {OperationCreate, OperationUpdate, OperationSkip, OperationDrift, OperationConflict, OperationRequiresInput}"
proof (cases "pm_ContentDigest item = []")
  case True
  then show ?thesis using assms plan_removed_kind by (fastforce simp: item_operation_def)
next
  case False
  from False assms canonical_item_digest [of codec item item'] obtain planned
    where "planReferencedMaterialization item' (pb_Intent batch) = Inr planned
        \<or> planFileMaterialization item' (pm_ObservedDigest item') (pb_Intent batch) = Inr planned"
      "pm_ContentDigest item' \<noteq> []" "operation = planned \<or> operation = OperationUpdate"
    by (auto simp: item_operation_def split: if_splits)
  with planned_kind [of item' "pb_Intent batch" planned "pm_ObservedDigest item'"] False show ?thesis by auto
qed

text \<open>
  An item of a batch that succeeded was done: its target is unchanged, or removed, or holds its files, its
  content, or the selection its content gives in what was read.
\<close>

definition item_done :: "selection_codec \<Rightarrow> fs_trace \<Rightarrow> profile_materialization \<Rightarrow> materialization_result \<Rightarrow> bool" where
  "item_done codec h item result \<longleftrightarrow>
     mr_Target result = pm_Target item
     \<and> mr_Operation result \<in> {OperationCreate, OperationUpdate, OperationSkip, OperationOrphan, OperationRemove}
     \<and> (mr_Operation result = OperationRemove \<and> mr_Adapter result \<noteq> ''reference'' \<longrightarrow>
          target_removed codec h (pm_Root item) (pm_Target item) (effective_selector (pm_Selector item))
            (materializationIsDirectory item))
     \<and> (mr_Operation result \<in> {OperationCreate, OperationUpdate} \<and> mr_Adapter result \<noteq> ''reference'' \<longrightarrow>
          target_written codec h (pm_Root item) (pm_Target item) (effective_selector (pm_Selector item))
            (materializationIsDirectory item) (pm_Content item) (pm_Files item))"

lemma normalize_item_content:
  assumes "normalize_item original = Inr item"
  shows "pm_Root item = pm_Root original" "pm_Selector item = pm_Selector original"
    "materializationIsDirectory item = materializationIsDirectory original" "pm_Content item = pm_Content original"
    "pm_Files item = pm_Files original" "pm_AdapterID item = pm_AdapterID original"
  using assms by (auto elim!: normalize_item_shape simp: materializationIsDirectory_def)

lemma not_withheld:
  assumes "\<not> plan_blocked (withhold_unapproved approvals item plan)"
  shows "withhold_unapproved approvals item plan = plan"
proof (cases "pm_ApprovalRequired item \<and> \<not> approvalGranted approvals item
    \<and> mr_Operation (pl_result plan) \<noteq> OperationOrphan \<and> mr_Operation (pl_result plan) \<noteq> OperationSkip")
  case True
  then have "plan_blocked (withhold_unapproved approvals item plan)"
    unfolding withhold_unapproved_def if_P [OF True] by (simp add: plan_blocked_def)
  with assms show ?thesis by blast
next
  case False
  then show ?thesis unfolding withhold_unapproved_def by (rule if_not_P)
qed

lemma prepared_shape:
  assumes "prepared_item codec batch item plan"
  obtains item' operation digest where "item_operation codec batch item item' operation"
    "item' = item\<lparr>pm_ContentDigest := digest\<rparr>"
    "pl_result plan = materialization_result_of item' operation (pm_LastAppliedDigest item') (pm_ObservedDigest item')"
proof -
  from assms obtain item' operation where shape: "item_operation codec batch item item' operation"
    "pl_result plan = materialization_result_of item' operation (pm_LastAppliedDigest item') (pm_ObservedDigest item')"
    unfolding prepared_item_def by (elim conjE exE)
  from shape(1) obtain digest where "item' = item\<lparr>pm_ContentDigest := digest\<rparr>" by (rule item_operation_same)
  then show thesis by (rule that [OF shape(1) _ shape(2)])
qed

lemma prepared_done:
  assumes "prepared codec batch original plan" and "\<not> plan_blocked plan" and "plan_done codec h plan"
  shows "item_done codec h original (pl_result plan)"
proof -
  from assms(1) obtain item plan' where item: "normalize_item original = Inr item"
      "prepared_item codec batch item plan'" "plan = withhold_unapproved (pb_Approvals batch) item plan'"
    by (auto simp: prepared_def)
  have plan: "plan = plan'"
    using assms(2) not_withheld unfolding item(3) by simp
  obtain item' operation digest where operation: "item_operation codec batch item item' operation"
      "pl_result plan' = materialization_result_of item' operation (pm_LastAppliedDigest item') (pm_ObservedDigest item')"
    and item': "item' = item\<lparr>pm_ContentDigest := digest\<rparr>"
    by (rule prepared_shape [OF item(2)])
  have kind: "mr_Operation (pl_result plan) = operation"
    using plan operation(2) by (simp add: materialization_result_of_def Let_def)
  have shape: "pl_root plan = pm_Root item" "mr_Target (pl_result plan) = pm_Target item"
    "mr_Selector (pl_result plan) = effective_selector (pm_Selector item)"
    using item(2) plan operation(2) item'
    by (simp_all add: prepared_item_def materialization_result_of_def Let_def)
  have contents: "pl_directory plan = materializationIsDirectory item"
    "pm_ContentDigest item \<noteq> [] \<Longrightarrow> pl_content plan = pm_Content item \<and> pl_files plan = pm_Files item"
    if "mr_Adapter (pl_result plan) \<noteq> ''reference''"
  proof -
    have "pm_Mode item \<noteq> MaterializationReferenced"
      using that plan operation(2) item' by (auto simp: materialization_result_of_def Let_def)
    with item(2) plan show "pm_ContentDigest item \<noteq> [] \<Longrightarrow> pl_content plan = pm_Content item \<and> pl_files plan = pm_Files item"
      by (simp add: prepared_item_def)
    from that item(2) plan have "pl_directory plan = mr_Directory (pl_result plan)"
      by (simp add: prepared_item_def)
    then show "pl_directory plan = materializationIsDirectory item"
      using plan operation(2) item' by (simp add: materialization_result_of_def materializationIsDirectory_def Let_def)
  qed
  note fields = normalize_item_fields(2) [OF item(1)] normalize_item_content [OF item(1)]
  have kinds: "operation \<in> {OperationCreate, OperationUpdate, OperationSkip, OperationOrphan, OperationRemove}"
    "operation \<in> {OperationCreate, OperationUpdate} \<Longrightarrow> pm_ContentDigest item \<noteq> []"
    using item_operation_kind [OF operation(1)] assms(2) kind by (auto simp: plan_blocked_def split: if_splits)
  have active: "active plan" if "operation \<in> {OperationCreate, OperationUpdate, OperationRemove}"
    "mr_Adapter (pl_result plan) \<noteq> ''reference''"
    using that kind by (auto simp: active_def)
  have "target_removed codec h (pm_Root original) (pm_Target original) (effective_selector (pm_Selector original))
      (materializationIsDirectory original)"
    if "operation = OperationRemove" "mr_Adapter (pl_result plan) \<noteq> ''reference''"
    using assms(3) active that kind shape contents(1) [OF that(2)] fields by (simp add: plan_done_def)
  moreover have "target_written codec h (pm_Root original) (pm_Target original) (effective_selector (pm_Selector original))
      (materializationIsDirectory original) (pm_Content original) (pm_Files original)"
    if "operation \<in> {OperationCreate, OperationUpdate}" "mr_Adapter (pl_result plan) \<noteq> ''reference''"
    using assms(3) active that kind shape contents [OF that(2)] kinds(2) [OF that(1)] fields
    by (auto simp: plan_done_def)
  ultimately show ?thesis
    using kinds(1) shape(2) fields(1) unfolding item_done_def kind by simp
qed

lemma applied_done: "item_done codec h item (pl_result (applied plan)) = item_done codec h item (pl_result plan)"
  by (simp add: applied_def settled_def item_done_def Let_def)

text \<open>What a batch that succeeds has planned and done.\<close>

definition batch_done ::
  "selection_codec \<Rightarrow> materialization_batch \<Rightarrow> planned_materialization list \<Rightarrow> materialization_result list
   \<Rightarrow> fs_trace \<Rightarrow> bool" where
  "batch_done codec batch plans results h \<longleftrightarrow>
     list_all2 (prepared codec batch) (pb_Items batch) plans \<and> list_all (\<lambda>plan. \<not> plan_blocked plan) plans
     \<and> results = materializationResults (map applied plans) \<and> (\<forall>plan \<in> set plans. plan_done codec h plan)"

lemma ApplyProfileMaterializations_does:
  "ends (ApplyProfileMaterializations fs codec batch)
     (\<lambda>r h. \<forall>results. r = Inr results \<longrightarrow> (\<exists>plans. batch_done codec batch plans results h)) []"
proof -
  have "ends (apply_all fs codec metrics backups [] plans)
      (\<lambda>r h. \<forall>results. r = Inr results \<longrightarrow> (\<exists>plans. batch_done codec batch plans results h)) h"
    if "list_all2 (prepared codec batch) (pb_Items batch) plans" "find plan_blocked plans = None"
    for metrics backups plans h
  proof -
    have "ends (apply_all fs codec metrics backups [] plans)
        (\<lambda>r h. \<forall>results. r = Inr results \<longrightarrow> results = materializationResults (map applied plans)) h"
      by (rule apply_all_ends) auto
    from ends_conj [OF this apply_all_does] show ?thesis
      by (rule ends_mono) (use that in \<open>auto simp: batch_done_def find_None_iff list_all_iff\<close>)
  qed
  then show ?thesis
    unfolding ApplyProfileMaterializations_def count_results_def Let_def
    by (intro durable_rules prepare_all_ends count_times_ends snapshotMaterializationPlans_ends) auto
qed

text \<open>
  C13. A batch that succeeds has done what its results say, item by item and for every behaviour of the file
  system.  No item is left with drift, a conflict or an open question.  For a creation or an update by an
  adapter that writes, a directory was assembled with exactly the content of each file and renamed to the
  target; a whole file was written under another name and linked or renamed to the target, or was read with
  exactly this content; and for a selection the same holds of the document that merging the content into what
  was read gives.  For a removal the target was removed, or the selection was taken out of what was read.
\<close>

theorem guest_batch_done:
  assumes "ApplyProfileMaterializations fs codec batch [] = (Inr results, h)"
  shows "list_all2 (item_done codec h) (pb_Items batch) results"
proof -
  from endsD [OF ApplyProfileMaterializations_does assms] obtain plans
    where "batch_done codec batch plans results h" by blast
  then show ?thesis
    by (auto simp: batch_done_def materializationResults_def list_all2_conv_all_nth list_all_length applied_done
        intro!: prepared_done)
qed

text \<open>The operation of an item of such a batch, and that it was done.\<close>

lemma batch_item_done:
  assumes "ApplyProfileMaterializations fs codec batch [] = (Inr results, h)"
    and "i < length (pb_Items batch)" "item = pb_Items batch ! i"
  obtains norm item' where "normalize_item item = Inr norm"
    "item_operation codec batch norm item' (mr_Operation (results ! i))" "i < length results"
    "pm_Mode item \<noteq> MaterializationReferenced \<and> pm_AdapterID item \<noteq> ''reference'' \<longrightarrow> mr_Adapter (results ! i) \<noteq> ''reference''"
    "item_done codec h item (results ! i)"
proof -
  from endsD [OF ApplyProfileMaterializations_does assms(1)] obtain plans where plans:
    "list_all2 (prepared codec batch) (pb_Items batch) plans" "list_all (\<lambda>plan. \<not> plan_blocked plan) plans"
    "results = materializationResults (map applied plans)" "\<forall>plan \<in> set plans. plan_done codec h plan"
    unfolding batch_done_def by blast
  with assms(2,3) have i: "i < length plans" "prepared codec batch item (plans ! i)" "\<not> plan_blocked (plans ! i)"
      "plan_done codec h (plans ! i)"
    by (auto simp: list_all2_conv_all_nth list_all_length)
  from i(2) obtain norm plan' where norm: "normalize_item item = Inr norm" "prepared_item codec batch norm plan'"
      "plans ! i = withhold_unapproved (pb_Approvals batch) norm plan'"
    by (auto simp: prepared_def)
  with i(3) not_withheld have plan: "plans ! i = plan'" by simp
  obtain item' operation digest where shape: "item_operation codec batch norm item' operation"
      "item' = norm\<lparr>pm_ContentDigest := digest\<rparr>"
      "pl_result plan' = materialization_result_of item' operation (pm_LastAppliedDigest item') (pm_ObservedDigest item')"
    by (rule prepared_shape [OF norm(2)])
  note fields = normalize_item_fields(4) [OF norm(1)] normalize_item_content(6) [OF norm(1)]
  have result: "results ! i = pl_result (applied (plans ! i))" "i < length results"
    using i(1) by (simp_all add: plans(3) materializationResults_def)
  then have "mr_Operation (results ! i) = operation" "mr_Adapter (results ! i) = mr_Adapter (pl_result plan')"
    using plan shape(3) by (simp_all add: applied_def settled_def materialization_result_of_def Let_def)
  moreover have "pm_Mode item \<noteq> MaterializationReferenced \<and> pm_AdapterID item \<noteq> ''reference'' \<longrightarrow>
      mr_Adapter (pl_result plan') \<noteq> ''reference''"
    using shape(2,3) fields by (auto simp: materialization_result_of_def Let_def)
  moreover have "item_done codec h item (results ! i)"
    using prepared_done [OF i(2,3,4)] result(1) applied_done by simp
  ultimately show thesis
    using that [OF norm(1)] shape(1) result(2) by simp
qed

text \<open>An item that was never applied and found nothing at its target is created.\<close>

lemma new_item_created:
  assumes "ApplyProfileMaterializations fs codec batch [] = (Inr results, h)"
    and "i < length (pb_Items batch)" "item = pb_Items batch ! i"
    and "pm_Mode item = MaterializationManaged" "pm_ContentDigest item \<noteq> []" "pm_LastAppliedDigest item = []"
    and "pm_ObservedDigest item = []" "\<not> pm_EffectiveCacheKeyChanged item" "pm_AdapterID item \<noteq> ''reference''"
  shows "mr_Operation (results ! i) = OperationCreate
    \<and> target_written codec h (pm_Root item) (pm_Target item) (effective_selector (pm_Selector item))
        (materializationIsDirectory item) (pm_Content item) (pm_Files item)"
proof -
  obtain norm item' where norm: "normalize_item item = Inr norm"
      "item_operation codec batch norm item' (mr_Operation (results ! i))" "i < length results"
      "pm_Mode item \<noteq> MaterializationReferenced \<and> pm_AdapterID item \<noteq> ''reference'' \<longrightarrow> mr_Adapter (results ! i) \<noteq> ''reference''"
      "item_done codec h item (results ! i)"
    by (rule batch_item_done [OF assms(1-3)])
  note fields = normalize_item_fields [OF norm(1)]
  from norm(2) assms(4,5) fields obtain planned where canonical: "canonical_item codec norm = Inr item'"
      and planned: "planFileMaterialization item' (pm_ObservedDigest item') (pb_Intent batch) = Inr planned"
      "mr_Operation (results ! i) = (if planned = OperationSkip \<and> pm_EffectiveCacheKeyChanged item' then OperationUpdate else planned)"
    by (auto simp: item_operation_def)
  from canonical obtain digest where "item' = norm\<lparr>pm_ContentDigest := digest\<rparr>"
    by (rule canonical_item_same)
  with canonical_item_digest [OF canonical] planned assms(4-8) fields
  have "mr_Operation (results ! i) = OperationCreate"
    by (auto simp: planFileMaterialization_def run_plan_def PlanMaterialization_def NewManagedMaterialization_def
        materializationDigestState_def PresentDigest_def AbsentDigest_def map_sum_def
        split: option.splits if_splits sum.splits)
  then show ?thesis
    using norm(4,5) assms(4,9) by (simp add: item_done_def)
qed

section \<open>Seeded files are rewritten\<close>

lemma seeded_operation:
  assumes "item_operation codec batch item item' operation" and "pb_Intent batch = IntentReconcile"
    and "pm_Mode item = MaterializationSeeded" "pm_ContentDigest item \<noteq> []" "pm_LastAppliedDigest item \<noteq> []"
    and "pm_EffectiveCacheKeyChanged item"
  shows "operation = OperationUpdate"
proof -
  from assms(1,3,4) obtain planned where canonical: "canonical_item codec item = Inr item'"
      and planned: "planFileMaterialization item' (pm_ObservedDigest item') (pb_Intent batch) = Inr planned"
      "operation = (if planned = OperationSkip \<and> pm_EffectiveCacheKeyChanged item' then OperationUpdate else planned)"
    by (auto simp: item_operation_def)
  from canonical obtain digest where "item' = item\<lparr>pm_ContentDigest := digest\<rparr>"
    by (rule canonical_item_same)
  moreover from this canonical_item_digest [OF canonical assms(4)] planned(1) assms(2,3,5)
  have "planned = OperationSkip"
    by (auto simp: planFileMaterialization_def run_plan_def PlanMaterialization_def NewSeededMaterialization_def
        materializationDigestState_def PresentDigest_def AbsentDigest_def map_sum_def
        split: option.splits if_splits sum.splits)
  ultimately show ?thesis using planned(2) assms(6) by simp
qed

text \<open>
  C30. A seeded file does not stay the Environment's own.  When a batch that reconciles succeeds, every seeded
  item that was applied before and whose cache key changed is planned as an update, whatever was observed at
  its target, and its content is in place afterwards: a directory was put anew; a whole file was put, unless it
  was read with exactly this content; and so was the document a selection is merged into.
\<close>

theorem seeded_file_updated_again:
  assumes "ApplyProfileMaterializations fs codec batch [] = (Inr results, h)"
    and "pb_Intent batch = IntentReconcile" and "i < length (pb_Items batch)" "item = pb_Items batch ! i"
    and "pm_Mode item = MaterializationSeeded" "pm_ContentDigest item \<noteq> []" "pm_LastAppliedDigest item \<noteq> []"
    and "pm_EffectiveCacheKeyChanged item" "pm_AdapterID item \<noteq> ''reference''"
  shows "i < length results \<and> mr_Operation (results ! i) = OperationUpdate
    \<and> target_written codec h (pm_Root item) (pm_Target item) (effective_selector (pm_Selector item))
        (materializationIsDirectory item) (pm_Content item) (pm_Files item)"
proof -
  obtain norm item' where norm: "normalize_item item = Inr norm"
      "item_operation codec batch norm item' (mr_Operation (results ! i))" "i < length results"
      "pm_Mode item \<noteq> MaterializationReferenced \<and> pm_AdapterID item \<noteq> ''reference'' \<longrightarrow> mr_Adapter (results ! i) \<noteq> ''reference''"
      "item_done codec h item (results ! i)"
    by (rule batch_item_done [OF assms(1,3,4)])
  have "mr_Operation (results ! i) = OperationUpdate"
    by (rule seeded_operation [OF norm(2) assms(2)]) (use assms normalize_item_fields [OF norm(1)] in simp_all)
  with norm assms(5,9) show ?thesis by (simp add: item_done_def)
qed

section \<open>Rolling back\<close>

text \<open>The target was looked at and, when it was there, removed.\<close>

definition removed_in :: "fs_trace \<Rightarrow> materialization_root \<Rightarrow> string \<Rightarrow> bool" where
  "removed_in t root target \<longleftrightarrow>
     (\<exists>ans. Lstat root target ans \<in> set t
        \<and> (\<forall>info. ans = Inr info \<longrightarrow> Removed root target None \<in> set t \<or> RemovedAll root target None \<in> set t))"

text \<open>A backup was restored: its target was removed and then, if it existed in the snapshot, put back.\<close>

definition restored_in :: "materialization_backup \<Rightarrow> fs_trace \<Rightarrow> bool" where
  "restored_in backup t \<longleftrightarrow>
     (\<exists>t1 t2. t = t1 @ t2 \<and> removed_in t1 (bk_root backup) (bk_target backup)
        \<and> (bk_existed backup \<longrightarrow>
             (if bk_directory backup
              then MadeAll (bk_root backup) (bk_target backup) (bk_mode backup) None \<in> set t2
                \<and> (bk_files backup = [] \<or> directory_put t2 (bk_root backup) (bk_target backup) (bk_files backup))
              else file_put t2 (bk_root backup) (bk_target backup) (bk_content backup))))"

lemma removed_in_prepend: "removed_in t root target \<Longrightarrow> removed_in (u @ t) root target"
  by (auto simp: removed_in_def)

lemma restored_in_append: "restored_in backup t \<Longrightarrow> restored_in backup (t @ u)" "restored_in backup t \<Longrightarrow> restored_in backup (u @ t)"
proof -
  assume "restored_in backup t"
  then obtain t1 t2 where t: "t = t1 @ t2" "removed_in t1 (bk_root backup) (bk_target backup)"
    and put: "bk_existed backup \<longrightarrow> (if bk_directory backup
      then MadeAll (bk_root backup) (bk_target backup) (bk_mode backup) None \<in> set t2
        \<and> (bk_files backup = [] \<or> directory_put t2 (bk_root backup) (bk_target backup) (bk_files backup))
      else file_put t2 (bk_root backup) (bk_target backup) (bk_content backup))"
    unfolding restored_in_def by blast
  show "restored_in backup (t @ u)"
    unfolding restored_in_def using t put
    by (intro exI [of _ t1] exI [of _ "t2 @ u"]) (auto simp: file_put_append directory_put_append split: if_splits)
  show "restored_in backup (u @ t)"
    unfolding restored_in_def using t put
    by (intro exI [of _ "u @ t1"] exI [of _ t2]) (auto intro: removed_in_prepend)
qed

lemma restored_inI:
  assumes "since h h1 (\<lambda>t. removed_in t (bk_root backup) (bk_target backup))"
    and "since h1 h' (\<lambda>t. bk_existed backup \<longrightarrow>
      (if bk_directory backup
       then MadeAll (bk_root backup) (bk_target backup) (bk_mode backup) None \<in> set t
         \<and> (bk_files backup = [] \<or> directory_put t (bk_root backup) (bk_target backup) (bk_files backup))
       else file_put t (bk_root backup) (bk_target backup) (bk_content backup)))"
  shows "since h h' (restored_in backup)"
  using assms unfolding since_def restored_in_def by (metis append.assoc)

lemma since_refl: "P [] \<Longrightarrow> since h h P"
  by (simp add: since_def)

lemma removeMaterializationTarget_removes:
  assumes "\<And>err h'. later h h' \<Longrightarrow> ends (onError err) Q h'"
    and "\<And>h'. since h h' (\<lambda>t. removed_in t root target) \<Longrightarrow> ends continue Q h'"
  shows "ends (removeMaterializationTarget fs root target onError continue) Q h"
  unfolding removeMaterializationTarget_def
  by (intro durable_rules assms) (auto simp: since_def removed_in_def)

lemma restore_backup_ends:
  assumes "\<And>err h'. later h h' \<Longrightarrow> ends (onError err) Q h'"
    and "\<And>h'. since h h' (restored_in backup) \<Longrightarrow> ends continue Q h'"
  shows "ends (restore_backup fs backup onError continue) Q h"
proof -
  have step: "ends (if \<not> bk_existed backup then continue
      else if bk_directory backup
      then run_void (\<lambda>h. g_mkdir_all fs h (bk_root backup) (bk_target backup) (bk_mode backup))
        (MadeAll (bk_root backup) (bk_target backup) (bk_mode backup)) (\<lambda>e. onError (FileSystem e))
        (run_void (\<lambda>h. g_chmod fs h (bk_root backup) (bk_target backup) (bk_mode backup))
          (Chmodded (bk_root backup) (bk_target backup) (bk_mode backup)) (\<lambda>e. onError (FileSystem e))
          (if bk_files backup = [] then continue
           else writeMaterializedDirectory fs (bk_root backup) (bk_target backup) (bk_files backup) onError
             (run_void (\<lambda>h. g_chmod fs h (bk_root backup) (bk_target backup) (bk_mode backup))
               (Chmodded (bk_root backup) (bk_target backup) (bk_mode backup)) (\<lambda>e. onError (FileSystem e)) continue)))
      else writeMaterializedFile fs (bk_root backup) (bk_target backup) (bk_content backup) (bk_mode backup) True
        onError continue) Q h1"
    if removed: "since h h1 (\<lambda>t. removed_in t (bk_root backup) (bk_target backup))" for h1
  proof -
    have errors: "ends (onError err) Q h'" if "later h1 h'" for err h'
      using assms(1) later_trans [OF since_later [OF removed] that] .
    note restored = assms(2) [OF restored_inI [OF removed]]
    show ?thesis
      by (intro durable_rules writeMaterializedFile_puts writeMaterializedDirectory_puts errors restored)
        (auto simp: since_def later_def directory_put_append directory_put_Cons)
  qed
  show ?thesis
    unfolding restore_backup_def Let_def
    by (intro removeMaterializationTarget_removes assms(1) step)
qed

lemma restored_since_later:
  "since h h' (restored_in backup) \<Longrightarrow> later h' h'' \<Longrightarrow> since h h'' (restored_in backup)"
  "later h h' \<Longrightarrow> since h' h'' (restored_in backup) \<Longrightarrow> since h h'' (restored_in backup)"
  by (auto simp: since_def later_def restored_in_append)

lemma restore_all_restores:
  assumes "\<And>errs' h'. later h h' \<Longrightarrow> errs' = [] \<longrightarrow> errs = [] \<and> (\<forall>backup \<in> set backups.
      since h h' (restored_in backup)) \<Longrightarrow> ends (continue errs') Q h'"
  shows "ends (restore_all fs errs backups continue) Q h"
  using assms
proof (induction backups arbitrary: errs h)
  case (Cons backup backups)
  have failed: "ends (restore_all fs (errs @ [err]) backups continue) Q h'" if "later h h'" for err h'
    by (rule Cons.IH, rule Cons.prems) (use later_trans [OF that] in auto)
  have restored: "ends (restore_all fs errs backups continue) Q h'" if "since h h' (restored_in backup)" for h'
  proof (rule Cons.IH, rule Cons.prems)
    note h' = since_later [OF that]
    show "later h h''" if "later h' h''" for h'' using h' that by (rule later_trans)
    show "errs' = [] \<longrightarrow> errs = [] \<and> (\<forall>b \<in> set (backup # backups). since h h'' (restored_in b))"
      if "later h' h''" "errs' = [] \<longrightarrow> errs = [] \<and> (\<forall>b \<in> set backups. since h' h'' (restored_in b))"
      for errs' h''
      using that \<open>since h h' (restored_in backup)\<close> h' by (auto intro: restored_since_later)
  qed
  show ?case
    unfolding restore_all.simps by (intro restore_backup_ends failed restored)
qed simp

text \<open>
  At the end of the journal the engine finds the target of the plan not as it was observed, or cannot observe it.
\<close>

definition detects_change :: "guest_fs \<Rightarrow> selection_codec \<Rightarrow> materialization_result \<Rightarrow> fs_trace \<Rightarrow> bool" where
  "detects_change fs codec result h \<longleftrightarrow>
     (\<exists>h0 answer. observeMaterialization fs codec (mr_Root result) (mr_Target result) (mr_Selector result)
         (mr_Directory result) abandon finish h0 = (answer, h) \<and> answer \<noteq> Inr (mr_ObservedDigest result))"

lemma apply_plan_detects:
  assumes "active plan \<longrightarrow> pl_root plan = mr_Root (pl_result plan) \<and> pl_directory plan = mr_Directory (pl_result plan)"
    and "\<And>h'. later h h' \<Longrightarrow> active plan \<Longrightarrow> detects_change fs codec (pl_result plan) h'
      \<Longrightarrow> ends (onError (ObservationChangedBeforeMutation (mr_ID (pl_result plan)))) Q h'"
    and "\<And>name err h'. ends (onError (MutationFailed name err)) Q h'"
    and "\<And>plan' h'. later h h' \<Longrightarrow> ends (continue plan') Q h'"
  shows "ends (apply_plan fs codec plan onError continue) Q h"
proof (cases "active plan")
  case False
  then show ?thesis
    by (auto simp: apply_plan_def active_def Let_def intro: assms(4))
next
  case True
  let ?result = "pl_result plan"
  let ?changed = "onError (ObservationChangedBeforeMutation (mr_ID ?result))"
  let ?observed = "observeMaterialization fs codec (mr_Root ?result) (mr_Target ?result) (mr_Selector ?result)
      (mr_Directory ?result) abandon finish h"
  let ?go = "\<lambda>observed. if observed \<noteq> mr_ObservedDigest ?result then ?changed
      else if mr_Operation ?result = OperationRemove
      then remove_plan fs codec plan (\<lambda>err. onError (MutationFailed (mr_ID ?result) err)) (continue (settled [] plan))
      else write_plan fs codec plan (\<lambda>err. onError (MutationFailed (mr_ID ?result) err))
        (continue (settled (mr_DesiredDigest ?result) plan))"
  obtain answer h1 where answer: "?observed = (answer, h1)" by (cases ?observed)
  have run: "apply_plan fs codec plan onError continue h = resume ?observed (\<lambda>_. ?changed) ?go"
    using True assms(1)
    by (simp add: apply_plan_def active_def Let_def observeMaterialization_resume [where onError = "\<lambda>_. ?changed"])
  have "ends (observeMaterialization fs codec (mr_Root ?result) (mr_Target ?result) (mr_Selector ?result)
      (mr_Directory ?result) abandon finish) (\<lambda>r. quietly h) h"
    by (intro observeMaterialization_ends ends_abandon ends_finish)
  then have h1: "later h h1" using answer quietly_later by (simp add: ends_def)
  then have "ends ?changed Q h1" if "answer \<noteq> Inr (mr_ObservedDigest ?result)"
    using assms(2) [OF _ True] that answer by (auto simp: detects_change_def)
  moreover have "ends (?go observed) Q h1" if "observed = mr_ObservedDigest ?result" for observed
    using that assms(3) by (auto intro!: remove_plan_ends write_plan_ends assms(4) intro: later_trans [OF h1])
  ultimately show ?thesis
    using run by (cases answer) (auto simp: ends_def resume_def answer)
qed

text \<open>
  The change was found at \<open>h1\<close>, after the snapshot of the target had given the backup, and afterwards the
  backup was restored.
\<close>

definition rolled_back_change ::
  "guest_fs \<Rightarrow> selection_codec \<Rightarrow> string \<Rightarrow> materialization_result list \<Rightarrow> fs_trace \<Rightarrow> bool" where
  "rolled_back_change fs codec name results h \<longleftrightarrow>
     (\<exists>result \<in> set results. \<exists>h0 h0' h1 backup. mr_ID result = name
        \<and> snapshotMaterialization fs (mr_Root result) (mr_Target result) (mr_Selector result) (mr_Directory result)
            abandon finish h0 = (Inr backup :: file_error + materialization_backup, h0')
        \<and> later h0' h1 \<and> detects_change fs codec result h1 \<and> since h1 h (restored_in backup))"

lemma apply_all_rolls_back:
  assumes "\<forall>plan \<in> set plans. active plan \<longrightarrow> backed_up fs h backups plan \<and> pl_root plan = mr_Root (pl_result plan)
      \<and> pl_directory plan = mr_Directory (pl_result plan)"
  shows "ends (apply_all fs codec metrics backups applied_plans plans)
    (\<lambda>r h. \<forall>name results. r = Inl (BatchApplyFailed (ObservationChangedBeforeMutation name), results)
       \<longrightarrow> rolled_back_change fs codec name results h) h"
  using assms
proof (induction plans arbitrary: applied_plans h)
  case Nil
  show ?case
    unfolding apply_all.simps count_results_def Let_def by (intro count_times_ends ends_finish) simp
next
  case (Cons plan plans)
  have restored: "rolled_back_change fs codec (mr_ID (pl_result plan))
      (materializationResults (applied_plans @ plan # plans)) h'"
    if "later h h1" "active plan" "detects_change fs codec (pl_result plan) h1"
      "\<forall>b \<in> set (rev backups). since h1 h' (restored_in b)" for h1 h'
  proof -
    from that(2) Cons.prems obtain backup h0 h0' where backup: "backup \<in> set backups" "later h0' h"
        "snapshotMaterialization fs (mr_Root (pl_result plan)) (mr_Target (pl_result plan)) (mr_Selector (pl_result plan))
          (mr_Directory (pl_result plan)) abandon finish h0 = (Inr backup :: file_error + materialization_backup, h0')"
      by (auto simp: backed_up_def)
    moreover have "pl_result plan \<in> set (materializationResults (applied_plans @ plan # plans))"
      by (simp add: materializationResults_def)
    ultimately show ?thesis
      unfolding rolled_back_change_def using that later_trans [OF backup(2) that(1)]
      by (intro bexI [of _ "pl_result plan"] exI [of _ h0] exI [of _ h0'] exI [of _ h1] exI [of _ backup]) auto
  qed
  have later_backed: "\<forall>p \<in> set plans. active p \<longrightarrow> backed_up fs h' backups p \<and> pl_root p = mr_Root (pl_result p)
      \<and> pl_directory p = mr_Directory (pl_result p)" if "later h h'" for h'
    using Cons.prems backed_up_mono [OF _ that] by auto
  show ?case
    unfolding apply_all.simps rollbackMaterializations_def
  proof (rule apply_plan_detects)
    show "ends (restore_all fs [] (rev backups) (\<lambda>errs. abandon (if errs = [] then BatchApplyFailed
          (ObservationChangedBeforeMutation (mr_ID (pl_result plan)))
          else BatchRollbackFailed (ObservationChangedBeforeMutation (mr_ID (pl_result plan))) errs,
          materializationResults (applied_plans @ plan # plans))))
        (\<lambda>r h. \<forall>name results. r = Inl (BatchApplyFailed (ObservationChangedBeforeMutation name), results)
          \<longrightarrow> rolled_back_change fs codec name results h) h1"
      if "later h h1" "active plan" "detects_change fs codec (pl_result plan) h1" for h1
      by (intro restore_all_restores ends_abandon) (use restored [OF that] in auto)
  qed (use Cons.prems in \<open>auto intro!: restore_all_ends ends_abandon Cons.IH later_backed split: if_splits\<close>)
qed

text \<open>
  C21. A batch that fails because a target is not as it was observed, or could not be observed again, before it
  is written, and whose rollback succeeds, restores that target from its snapshot although it has not written
  it: a snapshot was taken earlier, the change was found after it, and then the target as it was found was
  removed (where it was still there) and what the snapshot holds, if there was anything, was put back.  A
  change made between the snapshot and the second observation is lost that way.
\<close>

theorem rollback_discards_noticed_change:
  assumes "ApplyProfileMaterializations fs codec batch []
    = (Inl (BatchApplyFailed (ObservationChangedBeforeMutation name), results), h)"
  shows "rolled_back_change fs codec name results h"
proof -
  have shape: "pl_root plan = mr_Root (pl_result plan) \<and> pl_directory plan = mr_Directory (pl_result plan)"
    if "prepared codec batch item plan" "active plan" for item plan
    using that by (auto simp: prepared_def prepared_item_def withhold_unapproved_def active_def split: if_splits)
  have shapes: "\<forall>plan \<in> set plans. active plan \<longrightarrow> pl_root plan = mr_Root (pl_result plan)
      \<and> pl_directory plan = mr_Directory (pl_result plan)"
    if "list_all2 (prepared codec batch) (pb_Items batch) plans" for plans
    using list_all2_right [OF that] shape by blast
  have "ends (ApplyProfileMaterializations fs codec batch)
    (\<lambda>r h. \<forall>name results. r = Inl (BatchApplyFailed (ObservationChangedBeforeMutation name), results)
       \<longrightarrow> rolled_back_change fs codec name results h) []"
    unfolding ApplyProfileMaterializations_def count_results_def Let_def
    by (intro durable_rules prepare_all_ends count_times_ends snapshotMaterializationPlans_ends apply_all_rolls_back)
      (auto dest!: shapes)
  from endsD [OF this assms] show ?thesis by simp
qed

section \<open>Concrete batches\<close>

theorem guest_batch_done_witness:
  "\<exists>results h. ApplyProfileMaterializations empty_fs tiny_codec (demo_batch demo_item) [] = (Inr results, h)
     \<and> list_all2 (item_done tiny_codec h) [demo_item] results"
proof -
  obtain results h where run: "ApplyProfileMaterializations empty_fs tiny_codec (demo_batch demo_item) [] = (Inr results, h)"
    using demo_hook_applied by blast
  with guest_batch_done [OF run] show ?thesis by (simp add: demo_batch_def)
qed

lemma demo_seeded_applied:
  "\<exists>results h. ApplyProfileMaterializations (one_file_fs 100) tiny_codec (demo_batch demo_seeded) [] = (Inr results, h)"
  by (simp add: one_file_fs_def demo_batch_def demo_seeded_def demo_item_def materializedFileMode_def engine_eval fs_eval path_eval)

theorem seeded_file_updated_again_witness:
  "\<exists>results h. ApplyProfileMaterializations (one_file_fs 100) tiny_codec (demo_batch demo_seeded) [] = (Inr results, h)
     \<and> mr_Operation (results ! 0) = OperationUpdate
     \<and> target_written tiny_codec h MaterializationHome ''x'' ''$'' False ''hi'' []"
proof -
  obtain results h where
    run: "ApplyProfileMaterializations (one_file_fs 100) tiny_codec (demo_batch demo_seeded) [] = (Inr results, h)"
    using demo_seeded_applied by blast
  have "0 < length (pb_Items (demo_batch demo_seeded))" "demo_seeded = pb_Items (demo_batch demo_seeded) ! 0"
      "pb_Intent (demo_batch demo_seeded) = IntentReconcile"
    by (simp_all add: demo_batch_def)
  with seeded_file_updated_again [OF run, of 0 demo_seeded] run show ?thesis
    by (auto simp: demo_seeded_def demo_item_def materializationIsDirectory_def effective_selector_def)
qed

lemma demo_changed:
  "\<exists>results h. ApplyProfileMaterializations (one_file_fs 10) tiny_codec (demo_batch demo_seeded) []
     = (Inl (BatchApplyFailed (ObservationChangedBeforeMutation ''c''), results), h)"
  by (simp add: one_file_fs_def demo_batch_def demo_seeded_def demo_item_def rollbackMaterializations_def
      restore_backup_def removeMaterializationTarget_def engine_eval fs_eval path_eval)

theorem rollback_discards_noticed_change_witness:
  "\<exists>results h. ApplyProfileMaterializations (one_file_fs 10) tiny_codec (demo_batch demo_seeded) []
     = (Inl (BatchApplyFailed (ObservationChangedBeforeMutation ''c''), results), h)
     \<and> rolled_back_change (one_file_fs 10) tiny_codec ''c'' results h"
  using demo_changed rollback_discards_noticed_change by blast

end
