(* ===== verification/Harness_Adapters.thy ===== *)
theory Harness_Adapters
  imports Capsule_Manifests Guest_Effects
begin

text \<open>
  The adapters that place a Component in the files of a coding harness: \<open>libs/adapters\<close>, with the data of
  \<open>libs/profile/plan.go\<close> they take.  An adapter chooses the target, the selector and the files of a plan and
  decides whether the user has to consent; the three of them share everything but the placement.
\<close>

section \<open>Data\<close>

record capsule_file =
  cf_Path :: string
  cf_Content :: bytes
  cf_Mode :: file_mode

text \<open>\<open>lmb_Grants\<close> and \<open>lmb_Metrics\<close> say whether the interface value is there.\<close>

record lock_materialization_batch =
  lmb_Lock :: capsule_lock
  lmb_OwnerID :: string
  lmb_Grants :: bool
  lmb_CacheRoot :: string
  lmb_HomeRoot :: string
  lmb_WorkspaceRoot :: string
  lmb_Intent :: plan_intent
  lmb_Installed :: "installed_materialization list"
  lmb_Approvals :: "(string \<times> approval_marker) list"
  lmb_AdapterID :: string
  lmb_TargetAgentVersion :: string
  lmb_NonSecretOverridesDigest :: string
  lmb_SecretVersionIdentifiers :: slice
  lmb_Metrics :: bool

definition ToMaterializationFiles :: "capsule_file list \<Rightarrow> materialization_file list" where
  "ToMaterializationFiles files =
     map (\<lambda>f. \<lparr>mf_Path = cf_Path f, mf_Content = cf_Content f, mf_Mode = cf_Mode f\<rparr>) files"

definition ComponentRequirementDigest :: "capsule_component \<Rightarrow> string" where
  "ComponentRequirementDigest component =
     MaterializationContentDigest (sorted_names_json (reqs_Secrets (cc_Requirements component)))"

section \<open>Text\<close>

text \<open>\<open>strings.Cut\<close> at a byte: what is before it and, when it occurs, what is after it.\<close>

definition cut_before :: "char \<Rightarrow> bytes \<Rightarrow> bytes" where
  "cut_before c s = takeWhile (\<lambda>x. x \<noteq> c) s"

definition cut_after :: "char \<Rightarrow> bytes \<Rightarrow> bytes" where
  "cut_after c s = drop (Suc (length (cut_before c s))) s"

definition trim_prefix :: "bytes \<Rightarrow> bytes \<Rightarrow> bytes" where
  "trim_prefix p s = (case strip_prefix p s of None \<Rightarrow> s | Some rest \<Rightarrow> rest)"

definition trim_suffix :: "bytes \<Rightarrow> bytes \<Rightarrow> bytes" where
  "trim_suffix p s = rev (trim_prefix (rev p) (rev s))"

text \<open>What follows the first occurrence of a text, as \<open>strings.Index\<close> finds it.\<close>

fun after_first :: "bytes \<Rightarrow> bytes \<Rightarrow> bytes option" where
  "after_first p [] = strip_prefix p []"
| "after_first p (c # s) =
     (case strip_prefix p (c # s) of Some rest \<Rightarrow> Some rest | None \<Rightarrow> after_first p s)"

definition after_last :: "char \<Rightarrow> bytes \<Rightarrow> bytes" where
  "after_last c s = rev (takeWhile (\<lambda>x. x \<noteq> c) (rev s))"

fun join_text :: "bytes \<Rightarrow> bytes list \<Rightarrow> bytes" where
  "join_text separator [] = []"
| "join_text separator [x] = x"
| "join_text separator (x # y # xs) = x @ separator @ join_text separator (y # xs)"

definition path_join_all :: "string list \<Rightarrow> string" where
  "path_join_all elements =
     (let parts = filter (\<lambda>e. e \<noteq> []) elements
      in if parts = [] then [] else path_Clean (join_with (CHR ''/'') parts))"

section \<open>Sensitive surfaces\<close>

record sensitive_surface =
  ss_Target :: string
  ss_Selector :: string
  ss_Reason :: string

definition surface_overlaps :: "string \<Rightarrow> string \<Rightarrow> sensitive_surface \<Rightarrow> bool" where
  "surface_overlaps target selector surface \<longleftrightarrow>
     target = ss_Target surface
     \<and> MaterializationSelectorsOverlap (effective_selector selector) (effective_selector (ss_Selector surface))"

fun surface_reasons :: "string \<Rightarrow> string \<Rightarrow> string list \<Rightarrow> sensitive_surface list \<Rightarrow> string list" where
  "surface_reasons target selector reasons [] = reasons"
| "surface_reasons target selector reasons (surface # surfaces) =
     surface_reasons target selector
       (if \<not> surface_overlaps target selector surface \<or> ss_Reason surface \<in> set reasons \<or> ss_Reason surface = []
        then reasons else reasons @ [ss_Reason surface])
       surfaces"

definition sensitiveMaterializationApproval :: "string \<Rightarrow> string \<Rightarrow> sensitive_surface list \<Rightarrow> string option" where
  "sensitiveMaterializationApproval target selector surfaces =
     (let reasons = surface_reasons target selector [] surfaces
      in if reasons = [] then None else Some (join_text ''; '' reasons))"

section \<open>The plan of a placed Component\<close>

text \<open>Where an adapter puts a Component; the content and mode of a single file are those of the first file.\<close>

record placement =
  pc_target :: string
  pc_selector :: string
  pc_directory :: bool
  pc_files :: "capsule_file list"
  pc_paths :: slice

definition effective_cache_key ::
  "string \<Rightarrow> string \<Rightarrow> capsule_component \<Rightarrow> lock_materialization_batch \<Rightarrow> string" where
  "effective_cache_key adapterID adapterVersion component batch = EffectiveCacheKeyFields_Digest
     \<lparr>eck_ComponentDigest = cc_Digest component, eck_AdapterID = adapterID, eck_AdapterVersion = adapterVersion,
      eck_TargetAgentVersion = lmb_TargetAgentVersion batch, eck_Scope = cc_Scope component,
      eck_NonSecretOverridesDigest = lmb_NonSecretOverridesDigest batch,
      eck_SecretVersionIdentifiers = clone_slice (lmb_SecretVersionIdentifiers batch)\<rparr>"

text \<open>Each condition of the source replaces the reason found before it.\<close>

definition adapter_approval ::
  "capsule_component \<Rightarrow> installed_materialization \<Rightarrow> bool \<Rightarrow> string \<Rightarrow> string \<Rightarrow> string
   \<Rightarrow> sensitive_surface list \<Rightarrow> string option" where
  "adapter_approval component installed hasInstalled contentDigest target selector surfaces =
     (let requirementDigest = ComponentRequirementDigest component;
          transition = (\<not> hasInstalled \<or> im_LastAppliedDigest installed \<noteq> contentDigest
                        \<or> im_ComponentDigest installed \<noteq> cc_Digest component);
          reason = (if cc_TrustClass component = TrustPermission \<or> cc_Type component = ComponentHook
                       \<or> cc_Type component = ComponentExtension \<or> cc_Type component = ComponentPermissionPolicy
                    then Some ''permission component requires explicit consent'' else None);
          reason = (if cc_Type component = ComponentIntegration
                    then Some ''integration component is never auto-applied'' else reason);
          reason = (if transition \<and> cc_TrustClass component = TrustExecutable
                    then Some ''executable Component transition requires renewed review'' else reason);
          reason = (if \<not> hasInstalled \<and> elems (reqs_Secrets (cc_Requirements component)) \<noteq> []
                    then Some ''Credential Requirement requires explicit consent'' else reason);
          reason = (if hasInstalled \<and> im_CredentialRequirementDigest installed \<noteq> requirementDigest
                    then Some ''Credential Requirement changed and requires explicit consent'' else reason)
      in case reason of
           Some r \<Rightarrow> Some r
         | None \<Rightarrow> sensitiveMaterializationApproval target selector surfaces)"

definition adapter_item ::
  "string \<Rightarrow> string \<Rightarrow> sensitive_surface list \<Rightarrow> placement \<Rightarrow> capsule_file \<Rightarrow> capsule_lock_snapshot \<Rightarrow> string
   \<Rightarrow> capsule_component \<Rightarrow> installed_materialization \<Rightarrow> bool \<Rightarrow> lock_materialization_batch
   \<Rightarrow> profile_materialization" where
  "adapter_item adapterID adapterVersion surfaces place first snapshot capsuleDigest component installed
     hasInstalled batch =
     (let directory = pc_directory place;
          files = ToMaterializationFiles (pc_files place);
          contentDigest = (if directory then DirectoryMaterializationDigest files
                           else MaterializationContentDigest (cf_Content first));
          key = effective_cache_key adapterID adapterVersion component batch;
          approval = adapter_approval component installed hasInstalled contentDigest (pc_target place)
                       (pc_selector place) surfaces
      in \<lparr>pm_ID = cc_ID component, pm_LockID = lock_ID snapshot, pm_LockDigest = lock_Digest snapshot,
          pm_CapsuleDigest = capsuleDigest, pm_ComponentID = cc_ID component,
          pm_ComponentDigest = cc_Digest component, pm_AdapterID = adapterID, pm_AdapterVersion = adapterVersion,
          pm_TargetAgentVersion = lmb_TargetAgentVersion batch, pm_Scope = cc_Scope component,
          pm_NonSecretOverridesDigest = lmb_NonSecretOverridesDigest batch,
          pm_SecretVersionIdentifiers = clone_slice (lmb_SecretVersionIdentifiers batch),
          pm_EffectiveCacheKey = key,
          pm_EffectiveCacheKeyChanged = (hasInstalled \<and> im_EffectiveCacheKey installed \<noteq> key),
          pm_Kind = cc_Type component, pm_TrustClass = cc_TrustClass component,
          pm_Requirements = \<lparr>reqs_Commands = clone_slice (reqs_Commands (cc_Requirements component)),
                             reqs_Secrets = clone_slice (reqs_Secrets (cc_Requirements component))\<rparr>,
          pm_Mode = (if cc_Scope component = ScopeProject then MaterializationSeeded else MaterializationManaged),
          pm_Root = (if cc_Scope component = ScopeProject then MaterializationWorkspace else MaterializationHome),
          pm_Target = pc_target place, pm_Selector = pc_selector place,
          pm_Content = (if directory then [] else cf_Content first),
          pm_ContentSize = (if directory then 0 else of_nat (length (cf_Content first))),
          pm_ContentDigest = contentDigest, pm_FileMode = cf_Mode first,
          pm_Files = (if directory then files else []), pm_Directory = directory, pm_FilePaths = pc_paths place,
          pm_LastAppliedDigest = im_LastAppliedDigest installed, pm_ObservedDigest = im_ObservedDigest installed,
          pm_RequirementState = RequirementOther [],
          pm_CredentialRequirementDigest = ComponentRequirementDigest component,
          pm_ApprovalRequired = (approval \<noteq> None),
          pm_ApprovalReason = (case approval of None \<Rightarrow> [] | Some reason \<Rightarrow> reason)\<rparr>)"

datatype adapter_error = AdapterNoFiles | AdapterUnsupportedType component_type | AdapterEmptyTarget

text \<open>The frame of the three \<open>translate\<close> functions around the placement.\<close>

definition translate_with ::
  "string \<Rightarrow> string \<Rightarrow> sensitive_surface list \<Rightarrow> (capsule_component \<Rightarrow> capsule_file list \<Rightarrow> placement option)
   \<Rightarrow> capsule_lock_snapshot \<Rightarrow> string \<Rightarrow> capsule_component \<Rightarrow> capsule_file list \<Rightarrow> installed_materialization
   \<Rightarrow> bool \<Rightarrow> lock_materialization_batch \<Rightarrow> adapter_error + profile_materialization" where
  "translate_with adapterID adapterVersion surfaces place snapshot capsuleDigest component files installed
     hasInstalled batch =
     (case files of
        [] \<Rightarrow> Inl AdapterNoFiles
      | first # _ \<Rightarrow>
          (case place component files of
             None \<Rightarrow> Inl (AdapterUnsupportedType (cc_Type component))
           | Some p \<Rightarrow>
               if pc_target p = [] then Inl AdapterEmptyTarget
               else Inr (adapter_item adapterID adapterVersion surfaces p first snapshot capsuleDigest component
                           installed hasInstalled batch)))"

section \<open>Claude\<close>

definition claudeSensitiveSurfaces :: "sensitive_surface list" where
  "claudeSensitiveSurfaces =
     [\<lparr>ss_Target = ''.mcp.json'', ss_Selector = ''$'', ss_Reason =
        ''resolved destination overlaps Claude integration surface and requires explicit consent''\<rparr>,
      \<lparr>ss_Target = ''.claude/settings.json'', ss_Selector = ''$'', ss_Reason =
        ''resolved destination overlaps Claude permission surface and requires explicit consent''\<rparr>]"

definition claudeSelector :: "string \<Rightarrow> string" where
  "claudeSelector cid = (let suffix = cut_after (CHR ''#'') cid in if suffix = [] then ''$'' else suffix)"

text \<open>The part of a Component ID after its type and before its selector.\<close>

definition component_suffix :: "string \<Rightarrow> string" where
  "component_suffix cid = cut_before (CHR ''#'') (cut_after (CHR '':'') cid)"

definition claudeComponentName :: "string \<Rightarrow> string \<Rightarrow> string" where
  "claudeComponentName cid kind =
     (let suffix = component_suffix cid;
          suffix = (case after_first ''/skills/'' suffix of None \<Rightarrow> suffix | Some rest \<Rightarrow> rest);
          suffix = trim_prefix ''.claude/skills/'' suffix;
          suffix = trim_prefix ''skills/'' suffix;
          suffix = trim_suffix ''/SKILL.md'' suffix;
          suffix = trim_suffix ''.md'' suffix;
          suffix = after_last (CHR ''/'') suffix
      in if suffix = [] then kind else suffix)"

definition has_suffix :: "bytes \<Rightarrow> bytes \<Rightarrow> bool" where
  "has_suffix p s \<longleftrightarrow> strip_prefix (rev p) (rev s) \<noteq> None"

definition claudeComponentPath :: "string \<Rightarrow> string \<Rightarrow> string" where
  "claudeComponentPath cid fallback =
     (let suffix = component_suffix cid
      in if suffix = [] \<or> CHR ''/'' \<notin> set suffix \<and> \<not> has_suffix ''.md'' suffix
         then if FilepathExt fallback \<noteq> [] then fallback else suffix
         else suffix)"

fun trim_first_prefix :: "bytes list \<Rightarrow> bytes \<Rightarrow> bytes" where
  "trim_first_prefix [] s = s"
| "trim_first_prefix (p # ps) s = (case strip_prefix p s of Some rest \<Rightarrow> rest | None \<Rightarrow> trim_first_prefix ps s)"

definition claudeSkillFiles :: "string \<Rightarrow> capsule_file list \<Rightarrow> capsule_file list" where
  "claudeSkillFiles name files =
     (let prefixes = [path_join_all [''.claude'', ''skills'', name] @ ''/'', path_join_all [''skills'', name] @ ''/'',
                      name @ ''/'']
      in map (\<lambda>f. f\<lparr>cf_Path := trim_first_prefix prefixes (cf_Path f)\<rparr>) files)"

text \<open>A placement in a single file.\<close>

definition in_file :: "string \<Rightarrow> string \<Rightarrow> capsule_file list \<Rightarrow> slice \<Rightarrow> placement option" where
  "in_file target selector files paths =
     Some \<lparr>pc_target = target, pc_selector = selector, pc_directory = False, pc_files = files, pc_paths = paths\<rparr>"

definition file_paths :: "capsule_file list \<Rightarrow> slice" where
  "file_paths files = Some (MaterializationFilePaths (ToMaterializationFiles files))"

definition place_claude :: "capsule_component \<Rightarrow> capsule_file list \<Rightarrow> placement option" where
  "place_claude component files =
     (let cid = cc_ID component; paths = file_paths files; selector = claudeSelector cid
      in case cc_Type component of
           ComponentSkill \<Rightarrow>
             (let name = claudeComponentName cid ''skill''; skill = claudeSkillFiles name files
              in Some \<lparr>pc_target = path_join_all [''.claude'', ''skills'', name], pc_selector = ''$'',
                       pc_directory = True, pc_files = skill, pc_paths = file_paths skill\<rparr>)
         | ComponentSubagent \<Rightarrow>
             in_file (path_join_all [''.claude'', ''agents'', claudeComponentName cid ''subagent'' @ ''.md'']) ''$''
               files paths
         | ComponentIntegration \<Rightarrow> in_file ''.mcp.json'' ''$'' files paths
         | ComponentPermissionPolicy \<Rightarrow>
             in_file ''.claude/settings.json'' (if selector = ''$'' then ''$.permissions'' else selector) files paths
         | ComponentHook \<Rightarrow>
             in_file ''.claude/settings.json'' (if selector = ''$'' then ''$.hooks'' else selector) files paths
         | ComponentConfig \<Rightarrow> in_file (claudeComponentPath cid (cf_Path (hd files))) selector files paths
         | ComponentCommand \<Rightarrow> in_file (claudeComponentPath cid (cf_Path (hd files))) selector files paths
         | _ \<Rightarrow> None)"

definition translateClaudeComponent ::
  "capsule_lock_snapshot \<Rightarrow> string \<Rightarrow> capsule_component \<Rightarrow> capsule_file list \<Rightarrow> installed_materialization
   \<Rightarrow> bool \<Rightarrow> lock_materialization_batch \<Rightarrow> adapter_error + profile_materialization" where
  "translateClaudeComponent = translate_with ''claude'' ''v1'' claudeSensitiveSurfaces place_claude"

section \<open>Codex\<close>

definition codexSensitiveSurfaces :: "sensitive_surface list" where
  "codexSensitiveSurfaces =
     [\<lparr>ss_Target = ''.codex/config.toml'', ss_Selector = ''$.mcp_servers'', ss_Reason =
        ''resolved destination overlaps Codex integration surface and requires explicit consent''\<rparr>,
      \<lparr>ss_Target = ''.codex/config.toml'', ss_Selector = ''$.approval_policy'', ss_Reason =
        ''resolved destination overlaps Codex permission surface and requires explicit consent''\<rparr>,
      \<lparr>ss_Target = ''.codex/config.toml'', ss_Selector = ''$.sandbox_mode'', ss_Reason =
        ''resolved destination overlaps Codex permission surface and requires explicit consent''\<rparr>]"

definition codexIntegrationSelector :: "string \<Rightarrow> string" where
  "codexIntegrationSelector cid =
     (let declared = claudeSelector cid; byName = ''$.mcp_servers.'' @ claudeComponentName cid ''integration''
      in case strip_prefix ''$.mcp_servers.'' declared of
           None \<Rightarrow> byName
         | Some name \<Rightarrow> if name \<noteq> [] \<and> CHR ''.'' \<notin> set name then declared else byName)"

definition place_codex :: "capsule_component \<Rightarrow> capsule_file list \<Rightarrow> placement option" where
  "place_codex component files =
     (let cid = cc_ID component
      in case cc_Type component of
           ComponentConfig \<Rightarrow> in_file ''.codex/config.toml'' (claudeSelector cid) files None
         | ComponentCommand \<Rightarrow>
             in_file (path_join_all [''.codex'', ''prompts'', claudeComponentName cid ''command'' @ ''.md'']) ''$'' files None
         | ComponentIntegration \<Rightarrow> in_file ''.codex/config.toml'' (codexIntegrationSelector cid) files None
         | _ \<Rightarrow> None)"

definition translateCodexComponent ::
  "capsule_lock_snapshot \<Rightarrow> string \<Rightarrow> capsule_component \<Rightarrow> capsule_file list \<Rightarrow> installed_materialization
   \<Rightarrow> bool \<Rightarrow> lock_materialization_batch \<Rightarrow> adapter_error + profile_materialization" where
  "translateCodexComponent = translate_with ''codex'' ''v1'' codexSensitiveSurfaces place_codex"

section \<open>OpenCode\<close>

definition openCodeConfigPath :: "component_scope \<Rightarrow> string" where
  "openCodeConfigPath scope =
     (if scope = ScopeProject then ''opencode.json'' else path_join_all [''.config'', ''opencode'', ''opencode.json''])"

definition openCodeAgentDirectory :: "component_scope \<Rightarrow> string" where
  "openCodeAgentDirectory scope =
     (if scope = ScopeProject then path_join_all [''.opencode'', ''agent'']
      else path_join_all [''.config'', ''opencode'', ''agent''])"

definition openCodeCommandDirectory :: "component_scope \<Rightarrow> string" where
  "openCodeCommandDirectory scope =
     (if scope = ScopeProject then path_join_all [''.opencode'', ''command'']
      else path_join_all [''.config'', ''opencode'', ''command''])"

definition opencodeSensitiveSurfaces :: "sensitive_surface list" where
  "opencodeSensitiveSurfaces =
     (let userConfig = path_join_all [''.config'', ''opencode'', ''opencode.json''];
          integration = ''resolved destination overlaps OpenCode integration surface and requires explicit consent'';
          permission = ''resolved destination overlaps OpenCode permission surface and requires explicit consent''
      in [\<lparr>ss_Target = ''opencode.json'', ss_Selector = ''$.mcp'', ss_Reason = integration\<rparr>,
          \<lparr>ss_Target = userConfig, ss_Selector = ''$.mcp'', ss_Reason = integration\<rparr>,
          \<lparr>ss_Target = ''opencode.json'', ss_Selector = ''$.permission'', ss_Reason = permission\<rparr>,
          \<lparr>ss_Target = userConfig, ss_Selector = ''$.permission'', ss_Reason = permission\<rparr>])"

text \<open>A missing \<open>#\<close> leaves the declared selector empty, which has no prefix to trim.\<close>

definition openCodeIntegrationName :: "string \<Rightarrow> string" where
  "openCodeIntegrationName cid =
     (case strip_prefix ''$.mcp.'' (cut_after (CHR ''#'') (cut_after (CHR '':'') cid)) of
        Some name \<Rightarrow> if name \<noteq> [] then name else claudeComponentName cid ''integration''
      | None \<Rightarrow> claudeComponentName cid ''integration'')"

definition place_opencode :: "capsule_component \<Rightarrow> capsule_file list \<Rightarrow> placement option" where
  "place_opencode component files =
     (let cid = cc_ID component; scope = cc_Scope component; paths = file_paths files
      in case cc_Type component of
           ComponentConfig \<Rightarrow> in_file (openCodeConfigPath scope) (claudeSelector cid) files paths
         | ComponentSubagent \<Rightarrow>
             in_file (path_join_all [openCodeAgentDirectory scope, claudeComponentName cid ''subagent'' @ ''.md''])
               ''$'' files paths
         | ComponentCommand \<Rightarrow>
             in_file (path_join_all [openCodeCommandDirectory scope, claudeComponentName cid ''command'' @ ''.md''])
               ''$'' files paths
         | ComponentIntegration \<Rightarrow>
             in_file (openCodeConfigPath scope) (''$.mcp.'' @ openCodeIntegrationName cid) files paths
         | ComponentPermissionPolicy \<Rightarrow> in_file (openCodeConfigPath scope) ''$.permission'' files paths
         | _ \<Rightarrow> None)"

definition translateOpenCodeComponent ::
  "capsule_lock_snapshot \<Rightarrow> string \<Rightarrow> capsule_component \<Rightarrow> capsule_file list \<Rightarrow> installed_materialization
   \<Rightarrow> bool \<Rightarrow> lock_materialization_batch \<Rightarrow> adapter_error + profile_materialization" where
  "translateOpenCodeComponent = translate_with ''opencode'' ''v1'' opencodeSensitiveSurfaces place_opencode"

section \<open>The registry\<close>

type_synonym adapter =
  "capsule_lock_snapshot \<Rightarrow> string \<Rightarrow> capsule_component \<Rightarrow> capsule_file list \<Rightarrow> installed_materialization
   \<Rightarrow> bool \<Rightarrow> lock_materialization_batch \<Rightarrow> adapter_error + profile_materialization"

text \<open>The adapters the three \<open>init\<close> functions register; \<open>For\<close> looks one up.\<close>

definition capsuleComponentAdapters :: "(string \<times> adapter) list" where
  "capsuleComponentAdapters =
     [(''claude'', translateClaudeComponent), (''codex'', translateCodexComponent),
      (''opencode'', translateOpenCodeComponent)]"

definition adapter_For :: "string \<Rightarrow> adapter option" where
  "adapter_For adapterID = map_of capsuleComponentAdapters adapterID"

definition adapter_surfaces :: "string \<Rightarrow> sensitive_surface list" where
  "adapter_surfaces adapterID =
     (if adapterID = ''claude'' then claudeSensitiveSurfaces
      else if adapterID = ''codex'' then codexSensitiveSurfaces else opencodeSensitiveSurfaces)"

section \<open>What needs no consent\<close>

lemma surface_reasons_keeps: "set reasons \<subseteq> set (surface_reasons target selector reasons surfaces)"
  by (induction surfaces arbitrary: reasons) fastforce+

lemma surface_reasons_empty:
  assumes "surface_reasons target selector reasons surfaces = []" "surface \<in> set surfaces" "ss_Reason surface \<noteq> []"
  shows "\<not> surface_overlaps target selector surface"
  using assms
proof (induction surfaces arbitrary: reasons)
  case (Cons s surfaces)
  show ?case
  proof (cases "surface = s")
    case True
    then show ?thesis
      using Cons.prems surface_reasons_keeps [of "reasons @ [ss_Reason s]" target selector surfaces]
        surface_reasons_keeps [of reasons target selector surfaces]
      by (auto split: if_splits)
  qed (use Cons in auto)
qed simp

lemma no_sensitive_surface:
  assumes "sensitiveMaterializationApproval target selector surfaces = None" "surface \<in> set surfaces"
    "ss_Reason surface \<noteq> []"
  shows "\<not> surface_overlaps target selector surface"
  using surface_reasons_empty [of target selector "[]"] assms
  by (auto simp: sensitiveMaterializationApproval_def Let_def split: if_splits)

definition unattended ::
  "capsule_component \<Rightarrow> installed_materialization \<Rightarrow> bool \<Rightarrow> profile_materialization \<Rightarrow> bool" where
  "unattended component installed hasInstalled item \<longleftrightarrow>
     cc_TrustClass component \<noteq> TrustPermission
     \<and> cc_Type component \<notin> {ComponentHook, ComponentExtension, ComponentPermissionPolicy, ComponentIntegration}
     \<and> (cc_TrustClass component = TrustExecutable \<longrightarrow>
          hasInstalled \<and> im_LastAppliedDigest installed = pm_ContentDigest item
          \<and> im_ComponentDigest installed = cc_Digest component)
     \<and> (elems (reqs_Secrets (cc_Requirements component)) \<noteq> [] \<longrightarrow>
          hasInstalled \<and> im_CredentialRequirementDigest installed = ComponentRequirementDigest component)"

lemma adapter_approval_None:
  assumes "adapter_approval component installed hasInstalled contentDigest target selector surfaces = None"
  shows "cc_TrustClass component \<noteq> TrustPermission"
    "cc_Type component \<notin> {ComponentHook, ComponentExtension, ComponentPermissionPolicy, ComponentIntegration}"
    "cc_TrustClass component = TrustExecutable \<Longrightarrow> hasInstalled \<and> im_LastAppliedDigest installed = contentDigest
       \<and> im_ComponentDigest installed = cc_Digest component"
    "elems (reqs_Secrets (cc_Requirements component)) \<noteq> [] \<Longrightarrow>
       hasInstalled \<and> im_CredentialRequirementDigest installed = ComponentRequirementDigest component"
    "sensitiveMaterializationApproval target selector surfaces = None"
  using assms by (auto simp: adapter_approval_def Let_def split: if_splits)

text \<open>
  The interface \<open>Adapter\<close> as the guest relies on it: a translation returns the plan of some placement, with
  the consent decided over the surfaces of the adapter, each of which has a reason.
\<close>

locale harness_adapter =
  fixes adapterID :: string
    and surfaces :: "sensitive_surface list"
    and translate :: adapter
  assumes translated: "translate snapshot capsuleDigest component files installed hasInstalled batch = Inr item
      \<Longrightarrow> \<exists>p first. item = adapter_item adapterID ''v1'' surfaces p first snapshot capsuleDigest component
            installed hasInstalled batch"
    and reasons: "surface \<in> set surfaces \<Longrightarrow> ss_Reason surface \<noteq> []"
begin

lemma unattended_item:
  assumes "translate snapshot capsuleDigest component files installed hasInstalled batch = Inr item"
    and "\<not> pm_ApprovalRequired item"
  shows "unattended component installed hasInstalled item
    \<and> list_all (\<lambda>surface. \<not> surface_overlaps (pm_Target item) (pm_Selector item) surface) surfaces"
proof -
  from translated [OF assms(1)] obtain p first where "item = adapter_item adapterID ''v1'' surfaces p first
      snapshot capsuleDigest component installed hasInstalled batch" by blast
  then have "adapter_approval component installed hasInstalled (pm_ContentDigest item) (pm_Target item)
      (pm_Selector item) surfaces = None"
    using assms(2) by (simp add: adapter_item_def Let_def)
  note none = adapter_approval_None [OF this]
  show ?thesis
    using none(1-4) no_sensitive_surface [OF none(5) _ reasons]
    by (auto simp: unattended_def list_all_iff)
qed

end

lemma translate_with_item:
  "translate_with adapterID version surfaces place snapshot capsuleDigest component files installed hasInstalled batch
     = Inr item
   \<Longrightarrow> \<exists>p first. item = adapter_item adapterID version surfaces p first snapshot capsuleDigest component installed
         hasInstalled batch"
  by (auto simp: translate_with_def split: list.splits option.splits if_splits)

interpretation claude: harness_adapter "''claude''" claudeSensitiveSurfaces translateClaudeComponent
  by unfold_locales
    (auto simp: translateClaudeComponent_def claudeSensitiveSurfaces_def dest: translate_with_item)

interpretation codex: harness_adapter "''codex''" codexSensitiveSurfaces translateCodexComponent
  by unfold_locales
    (auto simp: translateCodexComponent_def codexSensitiveSurfaces_def dest: translate_with_item)

interpretation opencode: harness_adapter "''opencode''" opencodeSensitiveSurfaces translateOpenCodeComponent
  by unfold_locales
    (auto simp: translateOpenCodeComponent_def opencodeSensitiveSurfaces_def Let_def dest: translate_with_item)

text \<open>
  What an adapter lets through without consent is harmless by its own account: a plan no consent is
  asked for is of a Component that grants nothing, is executable only if exactly this content was applied
  before, requires no secret the user has not accepted before, and does not touch a sensitive part of the
  harness's configuration.
\<close>

lemma unattended_plan_harmless:
  assumes "adapter_For adapterID = Some translate"
    and "translate snapshot capsuleDigest component files installed hasInstalled batch = Inr item"
    and "\<not> pm_ApprovalRequired item"
  shows "unattended component installed hasInstalled item
    \<and> list_all (\<lambda>surface. \<not> surface_overlaps (pm_Target item) (pm_Selector item) surface) (adapter_surfaces adapterID)"
  using assms claude.unattended_item codex.unattended_item opencode.unattended_item
  by (auto simp: adapter_For_def capsuleComponentAdapters_def adapter_surfaces_def split: if_splits)

section \<open>Concrete plans\<close>

text \<open>The zero value a Component without a record is translated with.\<close>

definition no_installation :: installed_materialization where
  "no_installation =
     \<lparr>im_ID = [], im_LockID = [], im_LockDigest = [], im_CapsuleDigest = [], im_ComponentID = [],
      im_ComponentDigest = [], im_AdapterID = [], im_AdapterVersion = [], im_TargetAgentVersion = [],
      im_Scope = ScopeOther [], im_NonSecretOverridesDigest = [], im_SecretVersionIdentifiers = None,
      im_EffectiveCacheKey = [], im_Mode = MaterializationOtherMode [], im_Root = MaterializationOtherRoot [],
      im_Target = [], im_Selector = [], im_Directory = False, im_FilePaths = None, im_LastAppliedDigest = [],
      im_ObservedDigest = [], im_CredentialRequirementDigest = []\<rparr>"

text \<open>A declarative skill of the given name, without requirements.\<close>

definition demo_skill :: "string \<Rightarrow> string \<Rightarrow> capsule_component" where
  "demo_skill name digest =
     \<lparr>cc_ID = ''skill:'' @ name, cc_Type = ComponentSkill, cc_Scope = ScopeUser, cc_TrustClass = TrustDeclarative,
      cc_MediaType = LayerMediaType ComponentSkill, cc_Digest = digest, cc_SizeBytes = 1,
      cc_Requirements = \<lparr>reqs_Commands = None, reqs_Secrets = None\<rparr>\<rparr>"

definition settings_file :: "bytes \<Rightarrow> capsule_file" where
  "settings_file content = \<lparr>cf_Path = ''settings.json'', cf_Content = content, cf_Mode = 420\<rparr>"

definition demo_lock_batch :: lock_materialization_batch where
  "demo_lock_batch =
     \<lparr>lmb_Lock = sample_lock_snapshot None, lmb_OwnerID = ''u'', lmb_Grants = False, lmb_CacheRoot = ''/c'',
      lmb_HomeRoot = ''/h'', lmb_WorkspaceRoot = ''/w'', lmb_Intent = IntentReconcile, lmb_Installed = [],
      lmb_Approvals = [], lmb_AdapterID = [], lmb_TargetAgentVersion = [], lmb_NonSecretOverridesDigest = [],
      lmb_SecretVersionIdentifiers = None, lmb_Metrics = False\<rparr>"

text \<open>A batch of one item without any consent, on the empty file system.\<close>

definition unapproved_batch :: "profile_materialization \<Rightarrow> materialization_batch" where
  "unapproved_batch item = (demo_batch item)\<lparr>pb_Approvals := []\<rparr>"

lemmas adapter_eval = translateClaudeComponent_def translate_with_def place_claude_def adapter_item_def
  adapter_approval_def claudeComponentName_def component_suffix_def claudeSkillFiles_def file_paths_def
  cut_before_def cut_after_def trim_prefix_def trim_suffix_def after_last_def path_join_all_def
  ToMaterializationFiles_def sensitiveMaterializationApproval_def surface_overlaps_def claudeSensitiveSurfaces_def
  path_Clean_def path_IsAbs_def Let_def

lemma directory_digest_pattern [simp]: "contentDigestPattern (DirectoryMaterializationDigest files)"
  by (simp add: DirectoryMaterializationDigest_def sha256_digest_pattern)

lemma directory_digest_nonempty [simp]: "DirectoryMaterializationDigest files \<noteq> []"
  by (simp add: DirectoryMaterializationDigest_def sha256_digest_def)

definition settings_item :: "bytes \<Rightarrow> profile_materialization \<Rightarrow> bool" where
  "settings_item content item \<longleftrightarrow>
     pm_ID item = ''skill:..'' \<and> pm_ComponentID item = ''skill:..'' \<and> pm_AdapterID item = ''claude''
     \<and> pm_Kind item = ComponentSkill \<and> pm_TrustClass item = TrustDeclarative \<and> pm_Scope item = ScopeUser
     \<and> pm_Mode item = MaterializationManaged \<and> pm_Root item = MaterializationHome
     \<and> pm_Target item = ''.claude'' \<and> pm_Selector item = ''$'' \<and> pm_Directory item
     \<and> pm_Files item = [\<lparr>mf_Path = ''settings.json'', mf_Content = content, mf_Mode = 420\<rparr>]
     \<and> pm_ContentDigest item = DirectoryMaterializationDigest (pm_Files item)
     \<and> pm_Content item = [] \<and> pm_ContentSize item = 0 \<and> pm_FileMode item = 420
     \<and> pm_LastAppliedDigest item = [] \<and> pm_ObservedDigest item = []
     \<and> \<not> pm_EffectiveCacheKeyChanged item \<and> \<not> pm_ApprovalRequired item"

lemma parent_skill_plan:
  "\<exists>item. translateClaudeComponent snapshot capsuleDigest (demo_skill ''..'' digest) [settings_file content]
     no_installation False batch = Inr item \<and> settings_item content item"
  by (simp add: demo_skill_def settings_file_def settings_item_def no_installation_def elems_def adapter_eval)

text \<open>The paths on the way: the directory is assembled beside its target, under the name drawn for it.\<close>

lemma settings_paths:
  "materialization_name ''r'' = ''.sshai-materialization-72''"
  "path_Dir ''.claude'' = ''.''" "path_Join ''.'' ''.sshai-materialization-72'' = ''.sshai-materialization-72''"
  "path_Join ''.sshai-materialization-72'' ''settings.json'' = ''.sshai-materialization-72/settings.json''"
  "path_Dir ''.sshai-materialization-72/settings.json'' = ''.sshai-materialization-72''"
  "path_Join ''.sshai-materialization-72'' ''.sshai-materialization-72''
     = ''.sshai-materialization-72/.sshai-materialization-72''"
  "path_Clean ''/h'' = ''/h''" "path_IsAbs ''/h''"
  "validateMaterializationTarget ''.claude''" "validateMaterializationRelativePath ''settings.json''"
  "FilepathExt ''.claude'' = ''.claude''"
  by (simp_all add: hex_bytes_def hex_digit_def path_eval validateMaterializationTarget_def validateMaterializationRelativePath_def Let_def)

lemmas directory_eval = ApplyProfileMaterializations_def count_results_def materializationResults_def
  normalize_item_def materializationApprovalPolicy_def recordMaterializationOwnership_def
  prepareProfileMaterialization_def validateDesiredMaterialization_def check_content_def
  canonical_item_def planFileMaterialization_def run_plan_def PlanMaterialization_def
  NewManagedMaterialization_def materializationDigestState_def PresentDigest_def AbsentDigest_def
  withhold_unapproved_def plan_blocked_def materialization_result_of_def effective_selector_def
  materializationIsDirectory_def materializationMode_def apply_plan_def write_plan_def settled_def
  observeMaterializedDirectory_def writeMaterializedDirectory_def replace_directory_def

lemma settings_item_applied:
  "settings_item content item \<Longrightarrow>
   \<exists>results h. ApplyProfileMaterializations empty_fs codec (unapproved_batch item) [] = (Inr results, h)"
  by (simp add: settings_item_def unapproved_batch_def demo_batch_def Perm_def directory_eval fs_eval settings_paths)

text \<open>Whatever the file system does, a batch with this item that succeeds has put its directory at \<open>.claude\<close>.\<close>

lemma settings_item_written:
  assumes "settings_item content item" and "pb_Items guest = [item]"
    and "ApplyProfileMaterializations fs codec guest [] = (Inr results, h)"
  shows "directory_put h MaterializationHome ''.claude'' [\<lparr>mf_Path = ''settings.json'', mf_Content = content, mf_Mode = 420\<rparr>]"
proof -
  have "target_written codec h (pm_Root item) (pm_Target item) (effective_selector (pm_Selector item))
      (materializationIsDirectory item) (pm_Content item) (pm_Files item)"
    by (rule conjunct2 [OF new_item_created [OF assms(3), of 0]])
      (use assms(1,2) in \<open>simp_all add: settings_item_def del: list.inject\<close>)
  with assms(1) show ?thesis
    by (simp add: settings_item_def target_written_def materializationIsDirectory_def)
qed

text \<open>
  C15. A skill can write the harness's permission settings without consent.  A declarative skill named \<open>..\<close> is
  accepted in a Capsule, and for a home that has no \<open>.claude\<close> yet the adapter plans it, without asking for
  consent, as the directory \<open>.claude\<close> itself.  Every batch with this one item that succeeds, whatever approvals it
  carries and whatever the file system answers, has renamed a directory to \<open>.claude\<close> in which the skill's file
  with any content was put as \<open>settings.json\<close>, which makes it the target \<open>.claude/settings.json\<close> that the adapter
  lists as a sensitive surface; and on a file system without files a batch without approvals succeeds.
\<close>

theorem parent_skill_writes_settings:
  assumes "contentDigestPattern digest"
  shows "capsule_component_ok True (demo_skill ''..'' digest)
    \<and> ''.claude/settings.json'' \<in> ss_Target ` set claudeSensitiveSurfaces
    \<and> (\<exists>item. translateClaudeComponent snapshot capsuleDigest (demo_skill ''..'' digest) [settings_file content]
          no_installation False batch = Inr item
        \<and> (\<forall>fs codec guest results h. pb_Items guest = [item]
             \<and> ApplyProfileMaterializations fs codec guest [] = (Inr results, h) \<longrightarrow>
             directory_put h MaterializationHome ''.claude''
               [\<lparr>mf_Path = ''settings.json'', mf_Content = content, mf_Mode = 420\<rparr>])
        \<and> (\<forall>codec. \<exists>results h.
             ApplyProfileMaterializations empty_fs codec (unapproved_batch item) [] = (Inr results, h)))"
proof -
  obtain item where item: "translateClaudeComponent snapshot capsuleDigest (demo_skill ''..'' digest) [settings_file content]
      no_installation False batch = Inr item" "settings_item content item"
    using parent_skill_plan by blast
  moreover have "capsule_component_ok True (demo_skill ''..'' digest)"
    using assms by (simp add: capsule_component_ok_def demo_skill_def requirements_ok_def elems_def blank_def)
  moreover have "''.claude/settings.json'' \<in> ss_Target ` set claudeSensitiveSurfaces"
    by (simp add: claudeSensitiveSurfaces_def)
  ultimately show ?thesis
    using settings_item_applied settings_item_written by blast
qed

theorem parent_skill_writes_settings_witness:
  "\<exists>item results h.
     translateClaudeComponent (sample_lock_snapshot None) [] (demo_skill ''..'' (sha256_digest [])) [settings_file ''{}'']
       no_installation False demo_lock_batch = Inr item
     \<and> ApplyProfileMaterializations empty_fs tiny_codec (unapproved_batch item) [] = (Inr results, h)
     \<and> directory_put h MaterializationHome ''.claude''
         [\<lparr>mf_Path = ''settings.json'', mf_Content = ''{}'', mf_Mode = 420\<rparr>]"
proof -
  have items: "pb_Items (unapproved_batch item) = [item]" for item
    by (simp add: unapproved_batch_def demo_batch_def)
  obtain item where item: "translateClaudeComponent (sample_lock_snapshot None) [] (demo_skill ''..'' (sha256_digest []))
        [settings_file ''{}''] no_installation False demo_lock_batch = Inr item"
      "\<forall>fs codec guest results h. pb_Items guest = [item]
         \<and> ApplyProfileMaterializations fs codec guest [] = (Inr results, h) \<longrightarrow>
         directory_put h MaterializationHome ''.claude''
           [\<lparr>mf_Path = ''settings.json'', mf_Content = ''{}'', mf_Mode = 420\<rparr>]"
      "\<forall>codec. \<exists>results h.
         ApplyProfileMaterializations empty_fs codec (unapproved_batch item) [] = (Inr results, h)"
    using parent_skill_writes_settings [OF sha256_digest_pattern [of "[]"], where snapshot = "sample_lock_snapshot None"
        and capsuleDigest = "[]" and content = "''{}''" and batch = demo_lock_batch] by blast
  obtain results h where "ApplyProfileMaterializations empty_fs tiny_codec (unapproved_batch item) [] = (Inr results, h)"
    using item(3) by blast
  with item(1,2) items show ?thesis by blast
qed

end
