(* ===== verification/Guest_Capsules.thy ===== *)
theory Guest_Capsules
  imports Harness_Adapters Composition
begin

text \<open>
  The materialization of a Capsule Lock inside the guest: \<open>apps/guest/capsule_materialization.go\<close>.  Every
  Capsule of the lock is loaded from the cache or pulled, each resolved Component is verified against the lock
  and its layer against its index, the adapter plans it, the Components that are no longer wanted are planned
  for removal, and the engine of \<open>Guest_Apply\<close> applies the batch.  The calls of the cache and of the registry
  are events of \<open>Durable_Steps\<close>; reading a gzip-compressed tar stream is an argument.
\<close>

section \<open>Layers\<close>

datatype tar_type = TarRegular | TarDirectory | TarOther

text \<open>\<open>th_Content\<close> is what reading the entry to its end gives.\<close>

record tar_header =
  th_Name :: string
  th_Type :: tar_type
  th_Mode :: int64
  th_Content :: "string + bytes"

text \<open>What the reader yields in turn: entries, and possibly an error in the place of one.\<close>

datatype tar_step = TarEntry tar_header | TarFailed string

type_synonym layer_reader = "bytes \<Rightarrow> string + tar_step list"

datatype layer_error =
    LayerUnreadable string
  | LayerIndexReserved
  | LayerIndexDuplicate string
  | LayerReadFailed string
  | LayerDuplicatePath string
  | LayerIndexNotRegular
  | LayerIndexNotCanonical
  | LayerPathEscapes string
  | LayerEntryNotRegular string
  | LayerFileNotIndexed string
  | LayerDigestMismatch string
  | LayerUnsafeMode string
  | LayerModeMismatch string
  | LayerFileMissing

fun index_layer ::
  "(string \<times> file_index_entry) list \<Rightarrow> file_index_entry list \<Rightarrow> layer_error + (string \<times> file_index_entry) list" where
  "index_layer indexed [] = Inr indexed"
| "index_layer indexed (entry # entries) =
     (if fie_Path entry = IndexPath then Inl LayerIndexReserved
      else if map_of indexed (fie_Path entry) \<noteq> None then Inl (LayerIndexDuplicate (fie_Path entry))
      else index_layer ((fie_Path entry, entry) # indexed) entries)"

definition layer_path_escapes :: "string \<Rightarrow> bool" where
  "layer_path_escapes name \<longleftrightarrow>
     (let clean = path_Clean name
      in clean \<noteq> name \<or> path_IsAbs name \<or> clean = ''..'' \<or> strip_prefix ''../'' clean \<noteq> None)"

text \<open>The entry of the index itself.\<close>

definition check_index_entry :: "file_index_entry list \<Rightarrow> tar_header \<Rightarrow> layer_error option" where
  "check_index_entry index header =
     (if th_Type header \<noteq> TarRegular then Some LayerIndexNotRegular
      else case th_Content header of
        Inl e \<Rightarrow> Some (LayerReadFailed e)
      | Inr content \<Rightarrow>
          if CanonicalIndexJSON \<lparr>cl_ComponentID = [], cl_MediaType = [], cl_Digest = [], cl_SizeBytes = 0,
               cl_Bytes = [], cl_Index = index\<rparr> \<noteq> Inr content
          then Some LayerIndexNotCanonical else None)"

definition extract_file :: "file_index_entry \<Rightarrow> tar_header \<Rightarrow> layer_error + capsule_file" where
  "extract_file entry header =
     (case th_Content header of
        Inl e \<Rightarrow> Inl (LayerReadFailed e)
      | Inr content \<Rightarrow>
          (let name = th_Name header; mode = Perm (ucast (th_Mode header))
           in if MaterializationContentDigest content \<noteq> fie_Digest entry then Inl (LayerDigestMismatch name)
              else if mode \<noteq> 420 \<and> mode \<noteq> 493 then Inl (LayerUnsafeMode name)
              else if mode \<noteq> fie_Mode entry then Inl (LayerModeMismatch name)
              else Inr \<lparr>cf_Path = name, cf_Content = content, cf_Mode = mode\<rparr>))"

text \<open>One entry: \<open>None\<close> for the index itself and for a directory.\<close>

definition extract_entry ::
  "file_index_entry list \<Rightarrow> (string \<times> file_index_entry) list \<Rightarrow> tar_header \<Rightarrow> layer_error + capsule_file option" where
  "extract_entry index indexed header =
     (let name = th_Name header
      in if name = IndexPath
         then (case check_index_entry index header of Some err \<Rightarrow> Inl err | None \<Rightarrow> Inr None)
         else if layer_path_escapes name then Inl (LayerPathEscapes name)
         else if th_Type header = TarDirectory then Inr None
         else if th_Type header \<noteq> TarRegular then Inl (LayerEntryNotRegular name)
         else case map_of indexed name of
           None \<Rightarrow> Inl (LayerFileNotIndexed name)
         | Some entry \<Rightarrow> map_sum id Some (extract_file entry header))"

text \<open>The loop over the stream; the files so far are also the set \<open>seen\<close> of the code.\<close>

fun extract_entries ::
  "file_index_entry list \<Rightarrow> (string \<times> file_index_entry) list \<Rightarrow> string list \<Rightarrow> capsule_file list \<Rightarrow> tar_step list
   \<Rightarrow> layer_error + capsule_file list" where
  "extract_entries index indexed seen files [] = Inr files"
| "extract_entries index indexed seen files (TarFailed e # steps) = Inl (LayerReadFailed e)"
| "extract_entries index indexed seen files (TarEntry header # steps) =
     (if th_Name header \<in> set seen then Inl (LayerDuplicatePath (th_Name header))
      else case extract_entry index indexed header of
        Inl err \<Rightarrow> Inl err
      | Inr None \<Rightarrow> extract_entries index indexed (th_Name header # seen) files steps
      | Inr (Some f) \<Rightarrow> extract_entries index indexed (th_Name header # seen) (files @ [f]) steps)"

definition extractCapsuleLayer :: "layer_reader \<Rightarrow> capsule_layer \<Rightarrow> layer_error + capsule_file list" where
  "extractCapsuleLayer reader layer =
     (case reader (cl_Bytes layer) of
        Inl e \<Rightarrow> Inl (LayerUnreadable e)
      | Inr steps \<Rightarrow>
          (case index_layer [] (cl_Index layer) of
             Inl err \<Rightarrow> Inl err
           | Inr indexed \<Rightarrow>
               (case extract_entries (cl_Index layer) indexed [] [] steps of
                  Inl err \<Rightarrow> Inl err
                | Inr files \<Rightarrow>
                    if length files \<noteq> length indexed then Inl LayerFileMissing
                    else Inr (sort_key cf_Path files))))"

section \<open>The content of a resolved Component\<close>

datatype content_error =
    SourceCapsuleAbsent string
  | SourceCapsuleDigest
  | ComponentAbsent
  | ComponentMetadata
  | ComponentLayerDigest
  | ComponentLayer layer_error
  | SourceFailed nat content_error
  | MergedShapes
  | MergedPaths
  | MergedNotConfig
  | MergeFailed config_error
  | MergedDigest
  | ContentDigestDiffers
  | EffectiveScopeDiffers

fun find_index :: "('a \<Rightarrow> bool) \<Rightarrow> 'a list \<Rightarrow> nat option" where
  "find_index P [] = None"
| "find_index P (x # xs) = (if P x then Some 0 else map_option Suc (find_index P xs))"

definition resolvedSourceComponentContent ::
  "layer_reader \<Rightarrow> packaged_capsule \<Rightarrow> resolved_component \<Rightarrow> content_error + capsule_component \<times> capsule_file list" where
  "resolvedSourceComponentContent reader val locked =
     (if pc_Digest val \<noteq> rc_CapsuleDigest locked then Inl SourceCapsuleDigest
      else case find_index (\<lambda>component. cc_ID component = rc_ID locked) (cm_Components (pc_Manifest val)) of
        None \<Rightarrow> Inl ComponentAbsent
      | Some index \<Rightarrow>
          if length (pc_Layers val) \<le> index then Inl ComponentAbsent
          else
            (let component = cm_Components (pc_Manifest val) ! index; layer = pc_Layers val ! index
             in if cc_Digest component \<noteq> rc_ComponentDigest locked
                   \<or> component_type_string (rc_Type locked) \<noteq> [] \<and> cc_Type component \<noteq> rc_Type locked
                   \<or> cc_TrustClass component \<noteq> rc_TrustClass locked
                then Inl ComponentMetadata
                else if cl_ComponentID layer \<noteq> cc_ID component \<or> cl_Digest layer \<noteq> cc_Digest component
                        \<or> MaterializationContentDigest (cl_Bytes layer) \<noteq> cl_Digest layer
                then Inl ComponentLayerDigest
                else case extractCapsuleLayer reader layer of
                  Inl err \<Rightarrow> Inl (ComponentLayer err)
                | Inr files \<Rightarrow> Inr (component, files)))"

text \<open>The loop over the sources; the contents are collected only when there are several.\<close>

fun source_contents ::
  "layer_reader \<Rightarrow> (string \<times> packaged_capsule) list \<Rightarrow> resolved_component \<Rightarrow> bool \<Rightarrow> nat
   \<Rightarrow> (capsule_component \<times> capsule_file list) list \<Rightarrow> resolved_component_source list
   \<Rightarrow> content_error + (capsule_component \<times> capsule_file list) list" where
  "source_contents reader capsules locked several index found [] = Inr found"
| "source_contents reader capsules locked several index found (source # sources) =
     (case map_of capsules (rcs_CapsuleDigest source) of
        None \<Rightarrow> Inl (SourceCapsuleAbsent (rcs_CapsuleDigest source))
      | Some val \<Rightarrow>
          (case resolvedSourceComponentContent reader val
             (locked\<lparr>rc_CapsuleDigest := rcs_CapsuleDigest source, rc_ComponentDigest := rcs_ComponentDigest source\<rparr>) of
             Inl err \<Rightarrow> Inl (SourceFailed index err)
           | Inr (component, files) \<Rightarrow>
               (let firstFiles = (case found of [] \<Rightarrow> files | (_, fs) # _ \<Rightarrow> fs)
                in if length files \<noteq> length firstFiles then Inl MergedShapes
                   else if map cf_Path files \<noteq> map cf_Path firstFiles then Inl MergedPaths
                   else if several \<and> (cc_Type component \<noteq> ComponentConfig \<or> length files \<noteq> 1) then Inl MergedNotConfig
                   else source_contents reader capsules locked several (Suc index) (found @ [(component, files)])
                          sources)))"

definition component_sources :: "resolved_component \<Rightarrow> resolved_component_source list" where
  "component_sources locked =
     (if rc_Sources locked = []
      then [\<lparr>rcs_CapsuleDigest = rc_CapsuleDigest locked, rcs_ComponentDigest = rc_ComponentDigest locked\<rparr>]
      else rc_Sources locked)"

definition resolvedComponentContent ::
  "layer_reader \<Rightarrow> config_codec \<Rightarrow> (string \<times> packaged_capsule) list \<Rightarrow> resolved_component
   \<Rightarrow> content_error + capsule_component \<times> capsule_file list" where
  "resolvedComponentContent reader codec capsules locked =
     (let sources = component_sources locked
      in case source_contents reader capsules locked (1 < length sources) 0 [] sources of
           Inl err \<Rightarrow> Inl err
         | Inr found \<Rightarrow>
             (let component = fst (hd found); firstFiles = snd (hd found);
                  effectiveScope = (if list_ex (\<lambda>(c, _). cc_Scope c = ScopeProject) found then ScopeProject else ScopeUser);
                  settle = (\<lambda>component files.
                    if effectiveScope \<noteq> rc_Scope locked then Inl EffectiveScopeDiffers
                    else Inr (component\<lparr>cc_Scope := effectiveScope, cc_TrustClass := rc_TrustClass locked\<rparr>, files))
              in if 1 < length found
                 then (case MergeConfigContents codec (cc_MediaType component)
                              (map (\<lambda>(_, files). cf_Content (hd files)) found) of
                         Inl err \<Rightarrow> Inl (MergeFailed err)
                       | Inr merged \<Rightarrow>
                           if sha256_digest merged \<noteq> rc_ComponentDigest locked then Inl MergedDigest
                           else settle
                             (component\<lparr>cc_Digest := rc_ComponentDigest locked, cc_SizeBytes := of_nat (length merged)\<rparr>)
                             ((hd firstFiles)\<lparr>cf_Content := merged, cf_Mode := 420\<rparr> # tl firstFiles))
                 else if cc_Digest component \<noteq> rc_ComponentDigest locked then Inl ContentDigestDiffers
                 else settle component firstFiles))"

section \<open>Loading Capsules\<close>

datatype pull_error = PullContentInvalid string | PullFailed string

datatype cache_event =
    CacheLstat string "lstat_error + file_info"
  | CacheMade string "string option"
  | CacheOpened string "string option"
  | CacheResolved string "string option"
  | CacheParsed string "string + packaged_capsule"
  | ClientCreated string "string option"
  | CapsulePulled string "pull_error + packaged_capsule"
  | PullCounted

type_synonym cache_trace = "cache_event list"

text \<open>The cache directory, the OCI store in it and the registry client of \<open>libs/capsule/oci\<close>.\<close>

record capsule_services =
  c_lstat :: "cache_trace \<Rightarrow> string \<Rightarrow> lstat_error + file_info"
  c_mkdir_all :: "cache_trace \<Rightarrow> string \<Rightarrow> string option"
  c_open :: "cache_trace \<Rightarrow> string \<Rightarrow> string option"
  c_resolve :: "cache_trace \<Rightarrow> string \<Rightarrow> string option"
  c_parse :: "cache_trace \<Rightarrow> string \<Rightarrow> string + packaged_capsule"
  c_client :: "cache_trace \<Rightarrow> string \<Rightarrow> string option"
  c_pull :: "cache_trace \<Rightarrow> string \<Rightarrow> pull_error + packaged_capsule"

datatype lock_error =
    LockRequired
  | LockIntentUnsupported plan_intent
  | LockCacheRootInvalid
  | LockRootsRequired
  | LockInstalledIDRequired
  | LockInstalledDuplicate string
  | LockCache string
  | LockCacheUnsafe
  | LockCachedInvalid string
  | LockGrantsRequired string
  | LockClient string
  | LockPullFailed string
  | LockPulledInvalid string
  | LockAdapterUnknown string
  | LockComponentContent string content_error
  | LockTranslation string adapter_error
  | LockRemovedTarget string
  | LockApply guest_error

definition validateCapsuleLockMaterializationBatch :: "lock_materialization_batch \<Rightarrow> lock_error option" where
  "validateCapsuleLockMaterializationBatch batch =
     (let snapshot = capsule_lock_Snapshot (lmb_Lock batch)
      in if lock_ID snapshot = [] \<or> lock_Digest snapshot = [] then Some LockRequired
         else if lmb_Intent batch \<noteq> IntentReconcile \<and> lmb_Intent batch \<noteq> IntentPrune
         then Some (LockIntentUnsupported (lmb_Intent batch))
         else if lmb_CacheRoot batch = [] \<or> \<not> path_IsAbs (lmb_CacheRoot batch)
                 \<or> path_Clean (lmb_CacheRoot batch) \<noteq> lmb_CacheRoot batch
         then Some LockCacheRootInvalid
         else if lmb_Intent batch = IntentReconcile \<and> (lmb_HomeRoot batch = [] \<or> lmb_WorkspaceRoot batch = [])
         then Some LockRootsRequired else None)"

text \<open>Go ranges over the map in any order; the digests are sorted afterwards.\<close>

definition lockCapsuleDigests :: "capsule_lock_snapshot \<Rightarrow> string list" where
  "lockCapsuleDigests snapshot =
     (let seen = remdups (concat (map (\<lambda>(_, component). rc_CapsuleDigest component
                   # map rcs_CapsuleDigest (rc_Sources component)) (lock_ResolvedComponents snapshot)));
          seen = (if seen = [] \<and> lock_ProjectCapsuleDigest snapshot \<noteq> [] then [lock_ProjectCapsuleDigest snapshot]
                  else seen)
      in sort seen)"

definition lstat_text :: "lstat_error \<Rightarrow> string" where
  "lstat_text err = (case err of NotExist \<Rightarrow> ''file does not exist'' | LstatFailed e \<Rightarrow> e)"

definition openCapsuleCache ::
  "capsule_services \<Rightarrow> string \<Rightarrow> (lock_error \<Rightarrow> (cache_event, 'e, 'a) durable) \<Rightarrow> (cache_event, 'e, 'a) durable
   \<Rightarrow> (cache_event, 'e, 'a) durable" where
  "openCapsuleCache svc cacheRoot onError continue =
     (let layoutRoot = path_Join cacheRoot ''capsule-oci'';
          layout =
            run_void (\<lambda>h. c_mkdir_all svc h layoutRoot) (CacheMade layoutRoot) (\<lambda>e. onError (LockCache e))
              (run_step (\<lambda>h. c_lstat svc h layoutRoot) (CacheLstat layoutRoot) (\<lambda>e. onError (LockCache (lstat_text e)))
                (\<lambda>info. if fi_Kind info \<noteq> DirectoryFile then onError LockCacheUnsafe
                        else run_void (\<lambda>h. c_open svc h layoutRoot) (CacheOpened layoutRoot)
                               (\<lambda>e. onError (LockCache e)) continue));
          inspect = (\<lambda>info. if fi_Kind info \<noteq> DirectoryFile then onError LockCacheUnsafe else layout)
      in run_step (\<lambda>h. c_lstat svc h cacheRoot) (CacheLstat cacheRoot)
        (\<lambda>err. case err of
           LstatFailed e \<Rightarrow> onError (LockCache e)
         | NotExist \<Rightarrow>
             run_void (\<lambda>h. c_mkdir_all svc h cacheRoot) (CacheMade cacheRoot) (\<lambda>e. onError (LockCache e))
               (run_step (\<lambda>h. c_lstat svc h cacheRoot) (CacheLstat cacheRoot)
                 (\<lambda>e. onError (LockCache (lstat_text e))) inspect))
        inspect)"

definition loadOrPullCapsule ::
  "capsule_services \<Rightarrow> lock_materialization_batch \<Rightarrow> string \<Rightarrow> (lock_error \<Rightarrow> (cache_event, 'e, 'a) durable)
   \<Rightarrow> (packaged_capsule \<Rightarrow> (cache_event, 'e, 'a) durable) \<Rightarrow> (cache_event, 'e, 'a) durable" where
  "loadOrPullCapsule svc batch capsuleDigest onError continue =
     run_void (\<lambda>h. c_resolve svc h capsuleDigest) (CacheResolved capsuleDigest)
       (\<lambda>_. if \<not> lmb_Grants batch then onError (LockGrantsRequired capsuleDigest)
            else run_void (\<lambda>h. c_client svc h (lmb_OwnerID batch)) (ClientCreated (lmb_OwnerID batch))
              (\<lambda>e. onError (LockClient e))
              (run_step (\<lambda>h. c_pull svc h capsuleDigest) (CapsulePulled capsuleDigest)
                (\<lambda>err. case err of PullContentInvalid e \<Rightarrow> onError (LockPulledInvalid capsuleDigest)
                                | PullFailed e \<Rightarrow> onError (LockPullFailed e))
                (\<lambda>val. if pc_Digest val \<noteq> capsuleDigest then onError (LockPulledInvalid capsuleDigest)
                       else emit (lmb_Metrics batch) PullCounted (continue val))))
       (run_step (\<lambda>h. c_parse svc h capsuleDigest) (CacheParsed capsuleDigest)
         (\<lambda>_. onError (LockCachedInvalid capsuleDigest))
         (\<lambda>val. if pc_Digest val \<noteq> capsuleDigest then onError (LockCachedInvalid capsuleDigest) else continue val))"

fun load_capsules ::
  "capsule_services \<Rightarrow> lock_materialization_batch \<Rightarrow> (string \<times> packaged_capsule) list \<Rightarrow> string list
   \<Rightarrow> (lock_error \<Rightarrow> (cache_event, 'e, 'a) durable)
   \<Rightarrow> ((string \<times> packaged_capsule) list \<Rightarrow> (cache_event, 'e, 'a) durable) \<Rightarrow> (cache_event, 'e, 'a) durable" where
  "load_capsules svc batch capsules [] onError continue = continue capsules"
| "load_capsules svc batch capsules (digest # digests) onError continue =
     loadOrPullCapsule svc batch digest onError
       (\<lambda>val. load_capsules svc batch ((digest, val) # capsules) digests onError continue)"

section \<open>The batch\<close>

fun index_installed ::
  "(string \<times> installed_materialization) list \<Rightarrow> installed_materialization list
   \<Rightarrow> lock_error + (string \<times> installed_materialization) list" where
  "index_installed installed [] = Inr installed"
| "index_installed installed (record # records) =
     (if im_ComponentID record = [] then Inl LockInstalledIDRequired
      else if map_of installed (im_ComponentID record) \<noteq> None then Inl (LockInstalledDuplicate (im_ComponentID record))
      else index_installed ((im_ComponentID record, record) # installed) records)"

definition installed_or_zero ::
  "(string \<times> installed_materialization) list \<Rightarrow> string \<Rightarrow> installed_materialization" where
  "installed_or_zero installed cid = (case map_of installed cid of None \<Rightarrow> no_installation | Some record \<Rightarrow> record)"

text \<open>The plans of the resolved Components, in the order of their IDs.\<close>

fun translate_components ::
  "layer_reader \<Rightarrow> config_codec \<Rightarrow> adapter \<Rightarrow> (string \<times> packaged_capsule) list
   \<Rightarrow> (string \<times> installed_materialization) list \<Rightarrow> lock_materialization_batch \<Rightarrow> capsule_lock_snapshot
   \<Rightarrow> (string \<times> resolved_component) list \<Rightarrow> lock_error + profile_materialization list" where
  "translate_components reader codec translate capsules installed batch snapshot [] = Inr []"
| "translate_components reader codec translate capsules installed batch snapshot ((cid, locked) # components) =
     (case resolvedComponentContent reader codec capsules locked of
        Inl err \<Rightarrow> Inl (LockComponentContent cid err)
      | Inr (component, files) \<Rightarrow>
          (case translate snapshot (rc_CapsuleDigest locked) component files (installed_or_zero installed cid)
                  (im_ComponentID (installed_or_zero installed cid) \<noteq> []) batch of
             Inl err \<Rightarrow> Inl (LockTranslation cid err)
           | Inr item \<Rightarrow>
               map_sum id (\<lambda>items. item # items)
                 (translate_components reader codec translate capsules installed batch snapshot components)))"

definition removed_item :: "capsule_lock_snapshot \<Rightarrow> installed_materialization \<Rightarrow> profile_materialization" where
  "removed_item snapshot record =
     \<lparr>pm_ID = im_ComponentID record, pm_LockID = lock_ID snapshot, pm_LockDigest = lock_Digest snapshot,
      pm_CapsuleDigest = im_CapsuleDigest record, pm_ComponentID = im_ComponentID record,
      pm_ComponentDigest = im_ComponentDigest record, pm_AdapterID = im_AdapterID record,
      pm_AdapterVersion = im_AdapterVersion record, pm_TargetAgentVersion = im_TargetAgentVersion record,
      pm_Scope = im_Scope record, pm_NonSecretOverridesDigest = im_NonSecretOverridesDigest record,
      pm_SecretVersionIdentifiers = clone_slice (im_SecretVersionIdentifiers record),
      pm_EffectiveCacheKey = im_EffectiveCacheKey record, pm_EffectiveCacheKeyChanged = False,
      pm_Kind = ComponentOtherType [], pm_TrustClass = TrustOther [],
      pm_Requirements = \<lparr>reqs_Commands = None, reqs_Secrets = None\<rparr>,
      pm_Mode = (if im_Mode record = MaterializationOtherMode [] then MaterializationManaged else im_Mode record),
      pm_Root = im_Root record, pm_Target = im_Target record,
      pm_Selector = effective_selector (im_Selector record), pm_Content = [], pm_ContentSize = 0,
      pm_ContentDigest = [], pm_FileMode = 0, pm_Files = [], pm_Directory = im_Directory record,
      pm_FilePaths = clone_slice (im_FilePaths record), pm_LastAppliedDigest = im_LastAppliedDigest record,
      pm_ObservedDigest = im_ObservedDigest record, pm_RequirementState = RequirementOther [],
      pm_CredentialRequirementDigest = [], pm_ApprovalRequired = False, pm_ApprovalReason = []\<rparr>"

fun removed_items ::
  "capsule_lock_snapshot \<Rightarrow> (string \<times> installed_materialization) list \<Rightarrow> lock_error + profile_materialization list" where
  "removed_items snapshot [] = Inr []"
| "removed_items snapshot ((cid, record) # records) =
     (if im_Target record = [] then Inl (LockRemovedTarget cid)
      else map_sum id (\<lambda>items. removed_item snapshot record # items) (removed_items snapshot records))"

definition lock_items ::
  "capsule_services \<Rightarrow> layer_reader \<Rightarrow> config_codec \<Rightarrow> lock_materialization_batch
   \<Rightarrow> (cache_event, lock_error, profile_materialization list) durable" where
  "lock_items svc reader codec batch =
     (case validateCapsuleLockMaterializationBatch batch of
        Some err \<Rightarrow> abandon err
      | None \<Rightarrow>
          (case index_installed [] (lmb_Installed batch) of
             Inl err \<Rightarrow> abandon err
           | Inr installed \<Rightarrow>
               openCapsuleCache svc (lmb_CacheRoot batch) abandon
                 (let snapshot = capsule_lock_Snapshot (lmb_Lock batch)
                  in load_capsules svc batch [] (lockCapsuleDigests snapshot) abandon (\<lambda>capsules.
                    let adapterID = (if lmb_AdapterID batch = [] then ''claude'' else lmb_AdapterID batch)
                    in case adapter_For adapterID of
                      None \<Rightarrow> abandon (LockAdapterUnknown adapterID)
                    | Some translate \<Rightarrow>
                        (case translate_components reader codec translate capsules installed batch snapshot
                                (sort_key fst (lock_ResolvedComponents snapshot)) of
                           Inl err \<Rightarrow> abandon err
                         | Inr items \<Rightarrow>
                             (case removed_items snapshot (sort_key fst (filter (\<lambda>(cid, _).
                                      map_of (lock_ResolvedComponents snapshot) cid = None) installed)) of
                                Inl err \<Rightarrow> abandon err
                              | Inr removed \<Rightarrow> finish (items @ removed)))))))"

text \<open>The outcome, the calls of the cache and the registry, and the calls of the file system.\<close>

definition MaterializeCapsuleLock ::
  "capsule_services \<Rightarrow> layer_reader \<Rightarrow> config_codec \<Rightarrow> guest_fs \<Rightarrow> selection_codec \<Rightarrow> lock_materialization_batch
   \<Rightarrow> (lock_error \<times> materialization_result list + materialization_result list) \<times> cache_trace \<times> fs_trace" where
  "MaterializeCapsuleLock svc reader codec fs selections batch =
     (case lock_items svc reader codec batch [] of
        (Inl err, h) \<Rightarrow> (Inl (err, []), h, [])
      | (Inr items, h) \<Rightarrow>
          (case ApplyProfileMaterializations fs selections
                  \<lparr>pb_HomeRoot = lmb_HomeRoot batch, pb_WorkspaceRoot = lmb_WorkspaceRoot batch,
                   pb_Intent = lmb_Intent batch, pb_Items = items, pb_Approvals = lmb_Approvals batch,
                   pb_Metrics = lmb_Metrics batch\<rparr> [] of
             (Inl (err, results), fh) \<Rightarrow> (Inl (LockApply err, results), h, fh)
           | (Inr results, fh) \<Rightarrow> (Inr results, h, fh)))"

section \<open>Extracted files are the indexed ones\<close>

lemma index_layer_entries:
  assumes "index_layer indexed entries = Inr out" "distinct (map fst indexed)"
  shows "out = rev (map (\<lambda>e. (fie_Path e, e)) entries) @ indexed" "distinct (map fst out)"
  using assms by (induction entries arbitrary: indexed) (auto split: if_splits simp: map_of_eq_None_iff)

definition indexed_file :: "(string \<times> file_index_entry) list \<Rightarrow> capsule_file \<Rightarrow> bool" where
  "indexed_file indexed f \<longleftrightarrow>
     \<not> layer_path_escapes (cf_Path f) \<and> (cf_Mode f = 420 \<or> cf_Mode f = 493)
     \<and> map_of indexed (cf_Path f) = Some \<lparr>fie_Path = fie_Path (the (map_of indexed (cf_Path f))),
         fie_Digest = MaterializationContentDigest (cf_Content f), fie_Mode = cf_Mode f\<rparr>"

lemma extract_file_checked:
  assumes "extract_file entry header = Inr f"
  shows "cf_Path f = th_Name header" "fie_Digest entry = MaterializationContentDigest (cf_Content f)"
    "fie_Mode entry = cf_Mode f" "cf_Mode f = 420 \<or> cf_Mode f = 493"
  using assms by (auto simp: extract_file_def Let_def split: sum.splits if_splits)

lemma extract_entry_file:
  assumes "extract_entry index indexed header = Inr (Some f)"
  shows "cf_Path f = th_Name header" "indexed_file indexed f"
proof -
  from assms have safe: "\<not> layer_path_escapes (th_Name header)"
    by (simp add: extract_entry_def Let_def split: if_splits option.splits)
  from assms obtain entry where entry: "map_of indexed (th_Name header) = Some entry"
      and extracted: "map_sum id Some (extract_file entry header) = Inr (Some f)"
    by (simp add: extract_entry_def Let_def split: if_splits option.splits)
  from extracted have "extract_file entry header = Inr f"
    by (cases "extract_file entry header") simp_all
  note checked = extract_file_checked [OF this]
  show "cf_Path f = th_Name header" by (rule checked(1))
  show "indexed_file indexed f"
    using checked entry safe by (cases entry) (simp add: indexed_file_def)
qed

lemma extract_entries_files:
  assumes "extract_entries index indexed seen files steps = Inr out"
  shows "\<exists>new. out = files @ new \<and> distinct (map cf_Path new)
    \<and> (\<forall>f \<in> set new. cf_Path f \<notin> set seen \<and> indexed_file indexed f)"
  using assms
proof (induction index indexed seen files steps rule: extract_entries.induct)
  case (3 index indexed seen files header steps)
  show ?case
  proof (cases "extract_entry index indexed header")
    case (Inr found)
    with 3 show ?thesis
    proof (cases found)
      case (Some f)
      with 3 Inr obtain new where "out = (files @ [f]) @ new" "distinct (map cf_Path new)"
          "\<forall>f' \<in> set new. cf_Path f' \<notin> set (th_Name header # seen) \<and> indexed_file indexed f'"
        by (fastforce split: if_splits)
      moreover have "th_Name header \<notin> set seen" using 3(3) by (auto split: if_splits)
      ultimately show ?thesis
        using extract_entry_file [of index indexed header f] Inr Some by (intro exI [of _ "f # new"]) auto
    qed (fastforce split: if_splits)
  qed (use 3 in \<open>auto split: if_splits\<close>)
qed auto

text \<open>
  C14. Nothing but the indexed files leaves a layer: the extracted files are exactly the paths of the layer's
  index, each once and in order, with the content, by its digest, and the mode the index gives, and none of
  them leads out of the Component.
\<close>

theorem extracted_files_indexed:
  assumes "extractCapsuleLayer reader layer = Inr files"
  shows "map cf_Path files = sorted_list_of_set (fie_Path ` set (cl_Index layer))
    \<and> list_all (\<lambda>f. \<not> layer_path_escapes (cf_Path f) \<and> (cf_Mode f = 420 \<or> cf_Mode f = 493)
        \<and> \<lparr>fie_Path = cf_Path f, fie_Digest = MaterializationContentDigest (cf_Content f), fie_Mode = cf_Mode f\<rparr>
            \<in> set (cl_Index layer)) files"
proof -
  from assms obtain steps indexed found where run: "index_layer [] (cl_Index layer) = Inr indexed"
    "extract_entries (cl_Index layer) indexed [] [] steps = Inr found" "length found = length indexed"
    "files = sort_key cf_Path found"
    by (auto simp: extractCapsuleLayer_def split: sum.splits if_splits)
  from index_layer_entries [OF run(1)]
  have indexed: "indexed = rev (map (\<lambda>e. (fie_Path e, e)) (cl_Index layer))" "distinct (map fst indexed)" by auto
  from extract_entries_files [OF run(2)]
  have found: "distinct (map cf_Path found)" "\<forall>f \<in> set found. indexed_file indexed f" by auto
  have subset: "set (map cf_Path found) \<subseteq> fst ` set indexed"
    using found(2) by (force simp: indexed_file_def dest: map_of_SomeD)
  have "card (set (map cf_Path found)) = card (fst ` set indexed)"
    using found(1) indexed(2) run(3) by (metis distinct_card length_map set_map)
  with subset have "set (map cf_Path found) = fst ` set indexed"
    by (simp add: card_subset_eq)
  then have paths: "set (map cf_Path files) = fie_Path ` set (cl_Index layer)"
    by (auto simp: run(4) indexed(1) image_image)
  have "map cf_Path files = sorted_list_of_set (fie_Path ` set (cl_Index layer))"
  proof (rule sorted_distinct_set_unique)
    show "sorted (map cf_Path files)" by (simp add: run(4))
    show "distinct (map cf_Path files)" using found(1) by (simp add: run(4) distinct_map)
  qed (use paths in simp_all)
  moreover have "\<lparr>fie_Path = cf_Path f, fie_Digest = MaterializationContentDigest (cf_Content f), fie_Mode = cf_Mode f\<rparr>
      \<in> set (cl_Index layer)" if "f \<in> set files" for f
  proof -
    from that found(2) obtain entry where "map_of indexed (cf_Path f) = Some entry"
        "fie_Digest entry = MaterializationContentDigest (cf_Content f)" "fie_Mode entry = cf_Mode f"
      by (force simp: run(4) indexed_file_def)
    moreover from this(1) have "entry \<in> set (cl_Index layer)" "fie_Path entry = cf_Path f"
      by (auto simp: indexed(1) dest!: map_of_SomeD)
    ultimately show ?thesis by (cases entry) simp
  qed
  ultimately show ?thesis
    using found(2) by (simp add: list_all_iff run(4) indexed_file_def)
qed

section \<open>Removed Components\<close>

lemma translate_components_length:
  "translate_components reader codec translate capsules installed batch snapshot components = Inr items
   \<Longrightarrow> length items = length components"
  by (induction components arbitrary: items) (auto simp: map_sum_def split: sum.splits)

lemma removed_items_length: "removed_items snapshot records = Inr items \<Longrightarrow> length items = length records"
  by (induction records arbitrary: items) (auto simp: map_sum_def split: sum.splits if_splits)

lemma index_installed_keys:
  "index_installed installed records = Inr out
   \<Longrightarrow> fst ` set out = fst ` set installed \<union> im_ComponentID ` set records"
  by (induction records arbitrary: installed) (auto split: if_splits)

lemma openCapsuleCache_ends [durable_rules]:
  assumes "\<And>err h'. ends (onError err) Q h'" "\<And>h'. ends continue Q h'"
  shows "ends (openCapsuleCache svc cacheRoot onError continue) Q h"
  unfolding openCapsuleCache_def Let_def by (intro durable_rules assms)

lemma loadOrPullCapsule_ends [durable_rules]:
  assumes "\<And>err h'. ends (onError err) Q h'" "\<And>val h'. ends (continue val) Q h'"
  shows "ends (loadOrPullCapsule svc batch digest onError continue) Q h"
proof -
  have "ends (case err of PullContentInvalid e \<Rightarrow> onError (LockPulledInvalid digest) | PullFailed e \<Rightarrow> onError (LockPullFailed e))
      Q h'" for err h'
    by (simp add: assms split: pull_error.split)
  then show ?thesis
    unfolding loadOrPullCapsule_def by (intro durable_rules assms)
qed

lemma load_capsules_ends [durable_rules]:
  assumes "\<And>err h'. ends (onError err) Q h'" "\<And>capsules h'. ends (continue capsules) Q h'"
  shows "ends (load_capsules svc batch capsules digests onError continue) Q h"
  using assms(2)
proof (induction digests arbitrary: capsules h)
  case (Cons digest digests)
  show ?case unfolding load_capsules.simps by (intro durable_rules assms(1) Cons)
qed simp

lemma lock_items_length:
  assumes "lock_items svc reader codec batch [] = (Inr items, h)" "record \<in> set (lmb_Installed batch)"
    and "im_ComponentID record \<notin> fst ` set (lock_ResolvedComponents (lmb_Lock batch))"
  shows "length (lock_ResolvedComponents (lmb_Lock batch)) < length items"
proof -
  let ?snapshot = "capsule_lock_Snapshot (lmb_Lock batch)"
  have components: "length (lock_ResolvedComponents ?snapshot) = length (lock_ResolvedComponents (lmb_Lock batch))"
      "fst ` set (lock_ResolvedComponents ?snapshot) = fst ` set (lock_ResolvedComponents (lmb_Lock batch))"
    by (auto simp: capsule_lock_Snapshot_def cloneResolvedComponents_def image_image case_prod_beta)
  have longer: "\<forall>out. (Inr (items @ removed) :: lock_error + _) = Inr out
      \<longrightarrow> length (lock_ResolvedComponents (lmb_Lock batch)) < length out"
    if "index_installed [] (lmb_Installed batch) = Inr installed"
      and "translate_components reader codec translate capsules installed batch ?snapshot
        (sort_key fst (lock_ResolvedComponents ?snapshot)) = Inr items"
      and "removed_items ?snapshot (sort_key fst (filter (\<lambda>(cid, _).
        map_of (lock_ResolvedComponents ?snapshot) cid = None) installed)) = Inr removed"
    for installed translate capsules items removed
  proof -
    from index_installed_keys [OF that(1)] assms(2) have "im_ComponentID record \<in> fst ` set installed" by simp
    then obtain r where "(im_ComponentID record, r) \<in> set installed" by auto
    then have "(im_ComponentID record, r)
        \<in> set (filter (\<lambda>(cid, _). map_of (lock_ResolvedComponents ?snapshot) cid = None) installed)"
      using assms(3) components(2) by (simp add: map_of_eq_None_iff)
    then have "0 < length removed"
      unfolding removed_items_length [OF that(3)] length_sort by (rule length_pos_if_in_set)
    with translate_components_length [OF that(2)] components(1) show ?thesis by simp
  qed
  have "ends (lock_items svc reader codec batch)
      (\<lambda>r h. \<forall>items. r = Inr items \<longrightarrow> length (lock_ResolvedComponents (lmb_Lock batch)) < length items) []"
    unfolding lock_items_def Let_def
    by (intro durable_rules; (rule longer, assumption, assumption, assumption | simp))
  from endsD [OF this assms(1)] show ?thesis by simp
qed

text \<open>
  C16. A Component can never leave an Environment: when an installed Component is not in the new Capsule
  Lock, the guest plans its removal as one more item, and the workflow, which expects one result for each
  Component of the lock, refuses every successful outcome of the guest.
\<close>

theorem removed_component_refused:
  assumes "MaterializeCapsuleLock svc reader codec fs selections batch = (Inr results, h, fh)"
    and "record \<in> set (lmb_Installed batch)"
    and "im_ComponentID record \<notin> fst ` set (lock_ResolvedComponents (lmb_Lock batch))"
  shows "validateEnvironmentMaterializationResults (lmb_Lock batch) results
    = Some (ResultCountDiffers (length results) (length (lock_ResolvedComponents (lmb_Lock batch))))
    \<and> length (lock_ResolvedComponents (lmb_Lock batch)) < length results"
proof -
  from assms(1) obtain items where items: "lock_items svc reader codec batch [] = (Inr items, h)"
    and run: "ApplyProfileMaterializations fs selections
      \<lparr>pb_HomeRoot = lmb_HomeRoot batch, pb_WorkspaceRoot = lmb_WorkspaceRoot batch, pb_Intent = lmb_Intent batch,
       pb_Items = items, pb_Approvals = lmb_Approvals batch, pb_Metrics = lmb_Metrics batch\<rparr> [] = (Inr results, fh)"
    by (auto simp: MaterializeCapsuleLock_def split: prod.splits sum.splits)
  from endsD [OF ApplyProfileMaterializations_ends run] have "length results = length items"
    by (auto simp: carried_out_def materializationResults_def dest: list_all2_lengthD)
  with lock_items_length [OF items assms(2,3)] show ?thesis
    by (simp add: validateEnvironmentMaterializationResults_def)
qed

section \<open>Concrete runs\<close>

definition demo_layer :: capsule_layer where
  "demo_layer =
     \<lparr>cl_ComponentID = ''skill:a'', cl_MediaType = [], cl_Digest = [], cl_SizeBytes = 0, cl_Bytes = ''gz'',
      cl_Index = [\<lparr>fie_Path = ''a'', fie_Digest = MaterializationContentDigest ''x'', fie_Mode = 420\<rparr>]\<rparr>"

definition demo_reader :: layer_reader where
  "demo_reader _ =
     Inr [TarEntry \<lparr>th_Name = ''d'', th_Type = TarDirectory, th_Mode = 493, th_Content = Inr []\<rparr>,
          TarEntry \<lparr>th_Name = ''a'', th_Type = TarRegular, th_Mode = 420, th_Content = Inr ''x''\<rparr>]"

lemma demo_layer_extracted:
  "extractCapsuleLayer demo_reader demo_layer = Inr [\<lparr>cf_Path = ''a'', cf_Content = ''x'', cf_Mode = 420\<rparr>]"
  by (simp add: extractCapsuleLayer_def demo_reader_def demo_layer_def extract_entry_def extract_file_def IndexPath_def
      layer_path_escapes_def Perm_def path_eval Let_def)

theorem extracted_files_indexed_witness:
  "extractCapsuleLayer demo_reader demo_layer = Inr [\<lparr>cf_Path = ''a'', cf_Content = ''x'', cf_Mode = 420\<rparr>]
   \<and> [''a''] = sorted_list_of_set (fie_Path ` set (cl_Index demo_layer))"
  using demo_layer_extracted extracted_files_indexed [OF demo_layer_extracted] by simp

text \<open>A cache that is there, and no Capsule to load: the lock is empty and one Component is still installed.\<close>

definition demo_cache :: capsule_services where
  "demo_cache =
     \<lparr>c_lstat = (\<lambda>_ _. Inr \<lparr>fi_ID = 1, fi_Kind = DirectoryFile, fi_Perm = 448\<rparr>), c_mkdir_all = (\<lambda>_ _. None),
      c_open = (\<lambda>_ _. None), c_resolve = (\<lambda>_ _. None), c_parse = (\<lambda>_ _. Inl ''none''), c_client = (\<lambda>_ _. None),
      c_pull = (\<lambda>_ _. Inl (PullFailed ''none''))\<rparr>"

definition demo_removal :: lock_materialization_batch where
  "demo_removal = demo_lock_batch
     \<lparr>lmb_Lock := (sample_lock_snapshot None)
        \<lparr>lock_Digest := ''d'', lock_ProjectCapsuleDigest := [], lock_ResolvedComponents := []\<rparr>,
      lmb_Installed := [no_installation
        \<lparr>im_ComponentID := ''c'', im_Root := MaterializationHome, im_Target := ''x''\<rparr>]\<rparr>"

lemma demo_removal_items:
  "\<exists>items h. lock_items demo_cache demo_reader sample_codec demo_removal [] = (Inr items, h)
     \<and> items = [removed_item (lmb_Lock demo_removal) (hd (lmb_Installed demo_removal))]"
  by (simp add: lock_items_def demo_removal_def demo_lock_batch_def demo_cache_def no_installation_def
      validateCapsuleLockMaterializationBatch_def capsule_lock_Snapshot_def cloneResolvedComponents_def
      sample_lock_snapshot_def openCapsuleCache_def lockCapsuleDigests_def adapter_For_def capsuleComponentAdapters_def
      run_step_def run_void_def finish_def path_eval Let_def)

lemma demo_removal_applied:
  "\<exists>results h fh. MaterializeCapsuleLock demo_cache demo_reader sample_codec empty_fs tiny_codec demo_removal
     = (Inr results, h, fh)"
proof -
  obtain h where "lock_items demo_cache demo_reader sample_codec demo_removal []
      = (Inr [removed_item (lmb_Lock demo_removal) (hd (lmb_Installed demo_removal))], h)"
    using demo_removal_items by blast
  then show ?thesis
    by (simp add: MaterializeCapsuleLock_def removed_item_def demo_removal_def demo_lock_batch_def no_installation_def
        planRemovedMaterialization_def validateRecordedMaterialization_def plan_removed_def blank_def
        engine_eval fs_eval path_eval)
qed

theorem removed_component_refused_witness:
  "\<exists>results h fh. MaterializeCapsuleLock demo_cache demo_reader sample_codec empty_fs tiny_codec demo_removal
      = (Inr results, h, fh)
     \<and> validateEnvironmentMaterializationResults (lmb_Lock demo_removal) results
       = Some (ResultCountDiffers (length results) (length (lock_ResolvedComponents (lmb_Lock demo_removal))))"
proof -
  obtain results h fh where run: "MaterializeCapsuleLock demo_cache demo_reader sample_codec empty_fs tiny_codec
      demo_removal = (Inr results, h, fh)"
    using demo_removal_applied by blast
  have "hd (lmb_Installed demo_removal) \<in> set (lmb_Installed demo_removal)"
      "im_ComponentID (hd (lmb_Installed demo_removal)) \<notin> fst ` set (lock_ResolvedComponents (lmb_Lock demo_removal))"
    by (simp_all add: demo_removal_def)
  from removed_component_refused [OF run this] run show ?thesis by blast
qed

end
