(* ===== verification/Spec2Isabelle.thy ===== *)
theory Spec2Isabelle
  imports Operations Runtimes Environments Reconciliation Autostop_Coordinator Billing
    Environment_States Runtime_Operations Profiles SSH_Keys Composition Runtime_Stop
    Start_Safety Creation_Safety Creation_Actions Pinned_Versions
    Uploads Drift_Adoption Runtime_Commands Guest_Capsules
begin

text \<open>
  \<^bold>\<open>The program.\<close>  devm creates remote development Environments, connects to them over SSH and stops
  their compute when nobody uses it.  An Environment owns a durable data volume and at most one current
  Runtime, the virtual machine that mounts it.  The control plane keeps aggregates (\<open>libs/domain\<close>) in a
  database; a request of a user is recorded as an Operation and dispatched to a durable workflow
  (\<open>apps/workflows\<close>), which drives the provider, the guest and the stores step by step and persists every
  transition of the aggregates.  Profiles select Capsules of configuration Components; a resolution
  composes them into a Capsule Lock that the guest materializes.  Compute is billed in credits
  (\<open>libs/billing\<close>).

  \<^bold>\<open>The theories and the code they model\<close> (paths under \<open>src/\<close>).

  \<^item> \<open>Prelude\<close>: Go's \<open>int64\<close> as 64-bit words, strings as byte lists with \<open>strings.TrimSpace\<close>, times as an
    instant with a location, private IPv4 addresses.  \<open>Aggregate\<close>: the contract of a versioned aggregate,
    a locale the Runtime and the Environment interpret.  \<open>Go_Maps\<close>, \<open>Regexps\<close>, \<open>Encodings\<close>, \<open>Base64\<close>,
    \<open>Json_Text\<close>: what the code uses of Go's standard library (sorted map iteration, regular expressions
    by derivatives, SHA-256 and hexadecimal text, base64, the JSON syntax check).
  \<^item> \<open>Operations\<close>, \<open>Runtimes\<close>, \<open>Environments\<close>, \<open>Environment_States\<close>, \<open>Runtime_Operations\<close>: the files
    \<open>operation.go\<close>, \<open>runtime.go\<close>, \<open>environment.go\<close>, \<open>environment_state.go\<close> and
    \<open>environment_runtime_operation.go\<close> of \<open>libs/domain\<close>.  An aggregate's private snapshot is its record;
    each method is one definition that returns an error or the next aggregate.
  \<^item> \<open>Profiles\<close>, \<open>SSH_Keys\<close>, \<open>Components\<close>, \<open>Capsule_Locks\<close>, \<open>Config_Merge\<close>, \<open>Composition\<close>,
    \<open>Reconciliation\<close>: the remaining files of \<open>libs/domain\<close> about configuration and keys.
  \<^item> \<open>Autostop_Policy\<close> and \<open>Autostop_Coordinator\<close>: \<open>autostop.go\<close>, and the virtual object of
    \<open>apps/workflows/auto_stop.go\<close> with its coordinator.  \<open>Durable_Poll\<close>: the polling loop the workflows
    share.
  \<^item> \<open>Billing\<close>: \<open>rate.go\<close>, \<open>ledger.go\<close> and \<open>polar_event.go\<close> of \<open>libs/billing\<close>.
  \<^item> \<open>Workflow_Engine\<close>, \<open>Runtime_Lifecycle\<close>, \<open>Runtime_Stop\<close>, \<open>Runtime_Replace\<close>, \<open>Runtime_Start\<close>: the
    workflows \<open>runtime_stop.go\<close>, \<open>runtime_replace.go\<close>, \<open>runtime_start.go\<close> of \<open>apps/workflows\<close> and the
    steps of \<open>runtime_lifecycle.go\<close> they share.  \<open>Replacement_Safety\<close> and \<open>Start_Safety\<close> prove what the
    last two guarantee.
  \<^item> \<open>Materializations\<close>: \<open>materialization.go\<close> and \<open>materialization_state.go\<close> of \<open>libs/profile\<close>, the
    acceptance of the results of the guest and the records persisted from them.
  \<^item> \<open>Creation_Data\<close>, \<open>Environment_Create\<close>, \<open>Creation_Actions\<close>: \<open>environment_create.go\<close> and
    \<open>environment_capsule_state.go\<close> of \<open>apps/workflows\<close>.  \<open>Creation_Safety\<close> proves what a creation
    guarantees.
  \<^item> \<open>Capsule_Refs\<close>: \<open>libs/contracts/capsule_ref.go\<close>.  \<open>Durable_Steps\<close>, \<open>Profile_Resolve\<close>,
    \<open>Profile_Apply\<close>: the workflows \<open>profile_resolve.go\<close> and \<open>profile_apply.go\<close> of \<open>apps/workflows\<close>, over a
    journal of their own.  \<open>Pinned_Versions\<close>: the resolver of pinned Profile Versions of
    \<open>apps/workflows/cmd/workflows/deps.go\<close>.
  \<^item> \<open>Uploads\<close>: \<open>upload.go\<close> and \<open>project_seed.go\<close> of \<open>libs/domain\<close> with the services of \<open>upload_intents.go\<close>
    and \<open>project_seeds.go\<close> of \<open>libs/application\<close>.  \<open>Runtime_Commands\<close>: \<open>runtime_commands.go\<close> and
    \<open>workflow_dispatcher.go\<close> there.  \<open>Drift_Adoption\<close>: \<open>libs/profile/drift_adoption.go\<close> and
    \<open>apps/workflows/drift_adoption.go\<close>.  All three use \<open>Durable_Steps\<close> for the calls a service makes.
  \<^item> \<open>Materialization_Plans\<close>, \<open>Config_Selection\<close>, \<open>Guest_Files\<close>, \<open>Guest_Apply\<close>: the engine inside the guest
    that writes Components to files, \<open>apps/guest/profile_materialization.go\<close>, with the plans of
    \<open>libs/profile/plan.go\<close> and the overlap of selectors of \<open>libs/adapters/registry.go\<close>: the paths and
    selectors of one item, the parts of JSON and TOML documents, reading, writing and restoring files, and
    the batch as a whole.  \<open>Guest_Safety\<close> proves what may be written, \<open>Guest_Effects\<close> what a batch has done
    to the files when it ends.  Every call of the file system is an
    event of \<open>Durable_Steps\<close>.
  \<^item> \<open>Capsule_Manifests\<close>: \<open>model.go\<close> and \<open>canonical.go\<close> of \<open>libs/capsule\<close>.  \<open>Harness_Adapters\<close>: the adapters
    of \<open>libs/adapters\<close>, which place Components in the files of the coding harnesses.  \<open>Guest_Capsules\<close>:
    \<open>apps/guest/capsule_materialization.go\<close>, from a Capsule Lock to the batch the engine applies.

  \<^bold>\<open>How the code is modelled.\<close>  Enumerations are datatypes with the constructors of the source and one for
  every other string.  Errors are values of a datatype per component; a result is a sum, a validation an
  option.  Pointers are options and a nil dereference is \<open>None\<close> or \<open>Panicked\<close>.  A workflow maps the journal
  of durable steps so far to its outcome and the journal it leaves, in the order in which the code runs the
  steps; every call of a service appends one event with its answer.  The services (provider, guest, stores,
  clock, identities) are one argument, a record of functions of the journal, so the theorems hold for every
  behaviour of the services, of the engine that retries them, and of other actors between two steps.  The
  codecs for JSON and TOML documents are an argument of \<open>Composition\<close> and \<open>Config_Selection\<close>, the Capsule
  store one of \<open>Profile_Resolve\<close>, the file system one of \<open>Guest_Files\<close>, the OCI store, the registry client
  and the archive reader arguments of \<open>Guest_Capsules\<close>.

  \<^bold>\<open>What the lemmas show.\<close>

  \<^item> Aggregates: every command keeps a valid aggregate valid, moves along the edges of its status machine,
    never changes its identity and never lowers its version or update time; stale observations change
    nothing; snapshots are restored unchanged; a stopped Runtime can be started again and a valid creation
    completed.
  \<^item> Auto-stop: in every state the handlers can reach a stop needs the pending timer and two qualifying
    snapshots; accepted stops have distinct keys; a watched Runtime that is suppressed is not stopped before
    it is resumed.  A suppression that precedes the first observation is lost.
  \<^item> Workflows: the journal satisfies a guard before every step, proved phase by phase with a weakest
    precondition calculus (\<open>wp\<close>, \<open>safe\<close>).  The locale \<open>workflow_guard\<close> holds the contract of the failing
    ends all workflows share, \<open>replacement_guard\<close> extends it with the steps of a replacement; the stop, the
    replacement and the start interpret them, the start once more for the replacement it runs.  A data
    volume never has two writers, compute starts only when it is admitted and paid for, usage is closed at
    the time the provider showed the Runtime gone, a failing stop resumes auto-stop, every persisted
    Runtime is one domain command away from the stored one, and a returned workflow has completed its
    Operation last.  A creation completes only after volume, guest, Capsule Lock, credentials and toolchain
    are in place and its Runtime is stored as ready; one that fails its Operation has recorded that last and
    left the stored Runtime marked as failed, unless credentials are asked for.  A creation whose failure
    handling itself fails need not have marked it.
  \<^item> Materialization: a plan never changes content a user wrote, and results that are accepted cover the
    Components of the lock once each and are persisted completely.
  \<^item> Guest: nothing is written before every item of a batch was planned inside its root and consented to;
    a batch that succeeds has put every created or updated item in place and removed every removed one;
    Components own parts of one JSON or TOML document without touching each other's; a Capsule digest treats
    requirements as sets; exactly the indexed files of a layer are extracted; what needs no consent is
    harmless by the adapter's account.  Yet a skill named \<open>..\<close> brings the harness's settings into a home that
    has none without consent, the results of approved and of removed Components are refused by the workflow,
    a rollback restores the earlier snapshot over a change it noticed, seeded files are updated again, and
    directory digests are ambiguous.
  \<^item> Configuration: composition keeps every contribution and never overrides one silently; the merge of
    documents refines the overlay of their settings (at a path the later document decides, what it sets;
    elsewhere, what the earlier one sets) and its provenance names the last writer; locks restore from their
    snapshots, except those with empty requirement lists.
  \<^item> Profile resolution: parsing an owner-scoped Capsule ref inverts a specification printer of both forms (the
    code formats digest refs only under the name \<open>capsule\<close>); a resolution locks only
    content of the owner and pins exact refs; an upgrade counts as applyable only when policy, targets,
    Components and approvals leave nothing to a user; the created lock is one that is restored unchanged.
    An apply replaces the lock only after approvals and accepted results.  Where the workflow's resolution
    succeeds and every ref embeds a digest, the pinned resolver of Environment creation gives the same lock;
    it refuses moving tags and, unlike the workflow, does not check the owner of a ref itself.  The
    placeholder project digest of its locks blocks a later apply.
  \<^item> Services: upload intents are exactly the well-formed ones, a verified upload is the content its owner
    reserved, and a registered Project Seed fits the guest's request; a start command needs a positive
    balance, and the recovery of the outbox sends every pending Operation; drift is adopted only with
    consent and, where it can execute or grant, review.
  \<^item> Keys, profiles, billing: the accepted public keys are the canonical texts of 32-byte keys; published
    versions form one numbered chain; a debit charges exactly the rate times the quantity and the ledger is
    the sum of its distinct transactions.

  \<^bold>\<open>Bounds and fuel.\<close>  Integers keep their width and their wrap-around.  The polling loop takes fuel; with one
  round for every nanosecond to the deadline and two more it ends, for a configured and for a journaled start,
  when sleeps last as long as asked and the configured delays are below half the range of a duration
  (\<open>poll_terminates\<close>).  A wait of a workflow that runs out of fuel is the outcome \<open>OutOfFuel\<close>, which no
  theorem counts as a success.  \<open>strings.TrimSpace\<close> takes the length of its text as fuel.

  \<^bold>\<open>Not modelled.\<close>  The registration of handlers with the workflow engine; the database, HTTP, OAuth, cloud and
  object-storage clients and the generated code, which are calls of third-party packages; the SSH proxy,
  the rest of the guest agent, the command line and the file-system scanners, which are I/O; the texts of formatted
  error messages beyond their parameters.
\<close>

end
